(* ===== verification/Prelude.thy ===== *)
theory Prelude
  imports Main "HOL-Library.AList" "HOL-Library.List_Lexorder" "HOL-Library.Char_ord"
begin

text \<open>
  Shared vocabulary of the development: Python's exceptions as values of a sum type, the part
  of Python's \<^verbatim>\<open>str\<close> that the execution kernel uses, ordered dictionaries, string
  enumerations and keyed tuples.

  A Python \<^verbatim>\<open>str\<close> is a list of characters, one per code point; the model covers the
  code points below 256 (Latin-1), and the character classes below (\<open>py_isspace\<close>, the
  escapes of \<open>py_repr\<close>) are those of Python on that range.
  A Python \<^verbatim>\<open>dict\<close> is an association list in insertion order, updated in place
  (\<open>AList.update\<close>) and with \<open>AList.delete\<close> for \<^verbatim>\<open>del\<close>.
\<close>

named_theorems py_defs \<open>definitions of the Python layer, for unfolding in evaluations\<close>
named_theorems enum_defs \<open>member and value tables of the string enumerations\<close>

section \<open>Exceptions and results\<close>

text \<open>
  \<open>MalformedDocument\<close> stands for whichever exception a reader raises on a stored document that
  its own writer never produces; its class is not tracked.
\<close>

datatype exc =
    ValueError string
  | KeyError string
  | TypeError string
  | AttributeError string
  | IndexError string
  | MalformedDocument
  | FileNotFoundError string
  | OSError string
  | CalledProcessError string
  | PowdrrExecutionError (error_code: string) (error_message: string)
  | ExecutionStateConflict (conflict_id: string) (conflict_expected: int) (conflict_actual: int)

type_synonym 'a result = "exc + 'a"

definition bind_r :: "'e + 'a \<Rightarrow> ('a \<Rightarrow> 'e + 'b) \<Rightarrow> 'e + 'b" where
  "bind_r m f = (case m of Inl e \<Rightarrow> Inl e | Inr x \<Rightarrow> f x)"

definition guard_r :: "bool \<Rightarrow> 'e \<Rightarrow> 'e + unit" where
  "guard_r b e = (if b then Inr () else Inl e)"

primrec mapM_r :: "('a \<Rightarrow> 'e + 'b) \<Rightarrow> 'a list \<Rightarrow> 'e + 'b list" where
  "mapM_r f [] = Inr []"
| "mapM_r f (x # xs) = bind_r (f x) (\<lambda>y. bind_r (mapM_r f xs) (\<lambda>ys. Inr (y # ys)))"

primrec foldM_r :: "('s \<Rightarrow> 'a \<Rightarrow> 'e + 's) \<Rightarrow> 's \<Rightarrow> 'a list \<Rightarrow> 'e + 's" where
  "foldM_r f s [] = Inr s"
| "foldM_r f s (x # xs) = bind_r (f s x) (\<lambda>t. foldM_r f t xs)"

definition is_ok :: "'e + 'a \<Rightarrow> bool" where
  "is_ok m = (case m of Inl _ \<Rightarrow> False | Inr _ \<Rightarrow> True)"

lemma bind_r_simps [simp]:
  "bind_r (Inr x) f = f x"
  "bind_r (Inl e) f = Inl e"
  by (simp_all add: bind_r_def)

lemma bind_r_cong [fundef_cong]:
  "m = m' \<Longrightarrow> (\<And>x. m' = Inr x \<Longrightarrow> f x = g x) \<Longrightarrow> bind_r m f = bind_r m' g"
  by (cases m') auto

lemma bind_r_assoc: "bind_r (bind_r m f) g = bind_r m (\<lambda>x. bind_r (f x) g)"
  by (cases m) simp_all

lemma bind_r_eq_Inr [simp]: "bind_r m f = Inr y \<longleftrightarrow> (\<exists>x. m = Inr x \<and> f x = Inr y)"
  by (cases m) auto

lemma bind_r_eq_Inl: "bind_r m f = Inl e \<longleftrightarrow> m = Inl e \<or> (\<exists>x. m = Inr x \<and> f x = Inl e)"
  by (cases m) auto

lemma bind_if: "bind_r (if b then x else y) f = (if b then bind_r x f else bind_r y f)"
  by simp

lemma guard_r_Inr [simp]: "guard_r b e = Inr u \<longleftrightarrow> b"
  by (simp add: guard_r_def)

lemma guard_r_simps [simp]: "guard_r True e = Inr ()" "guard_r False e = Inl e"
  by (simp_all add: guard_r_def)

lemma is_ok_simps [simp]: "is_ok (Inr x)" "\<not> is_ok (Inl e)"
  by (simp_all add: is_ok_def)

lemma is_ok_iff: "is_ok m \<longleftrightarrow> (\<exists>x. m = Inr x)"
  by (cases m) simp_all

lemma mapM_r_Inr_iff: "mapM_r f xs = Inr ys \<longleftrightarrow> list_all2 (\<lambda>x y. f x = Inr y) xs ys"
  by (induction xs arbitrary: ys) (auto simp: list_all2_Cons1)

lemma mapM_r_length: "mapM_r f xs = Inr ys \<Longrightarrow> length ys = length xs"
  by (auto simp: mapM_r_Inr_iff dest: list_all2_lengthD)

lemma mapM_r_map: "mapM_r f (map g xs) = mapM_r (f \<circ> g) xs"
  by (induction xs) simp_all

lemma mapM_r_id: "(\<And>x. x \<in> set xs \<Longrightarrow> f x = Inr x) \<Longrightarrow> mapM_r f xs = Inr xs"
  by (induction xs) simp_all

lemma mapM_r_all: "mapM_r f xs = Inr ys \<Longrightarrow> y \<in> set ys \<Longrightarrow> \<exists>x \<in> set xs. f x = Inr y"
  by (induction xs arbitrary: ys) auto

lemma foldM_r_append: "foldM_r f s (xs @ ys) = bind_r (foldM_r f s xs) (\<lambda>t. foldM_r f t ys)"
  by (induction xs arbitrary: s) (auto simp: bind_r_assoc)

lemma foldM_r_invariant:
  assumes "foldM_r f s xs = Inr t" and "I s"
    and "\<And>u x v. x \<in> set xs \<Longrightarrow> I u \<Longrightarrow> f u x = Inr v \<Longrightarrow> I v"
  shows "I t"
  using assms
proof (induction xs arbitrary: s)
  case (Cons x xs)
  from Cons.prems(1) obtain u where u: "f s x = Inr u" "foldM_r f u xs = Inr t"
    by auto
  have "I u"
    using Cons.prems(2,3) u(1) by (meson list.set_intros(1))
  then show ?case
    using Cons.IH [OF u(2)] Cons.prems(3) by (meson list.set_intros(2))
qed simp

section \<open>Python strings\<close>

definition py_isspace :: "char \<Rightarrow> bool" where
  "py_isspace c = (let n = of_char c :: nat in
     (9 \<le> n \<and> n \<le> 13) \<or> (28 \<le> n \<and> n \<le> 32) \<or> n = 133 \<or> n = 160)"

definition lstrip :: "string \<Rightarrow> string" where
  "lstrip s = dropWhile py_isspace s"

definition rstrip :: "string \<Rightarrow> string" where
  "rstrip s = rev (dropWhile py_isspace (rev s))"

definition strip :: "string \<Rightarrow> string" where
  "strip s = rstrip (lstrip s)"

text \<open>\<^verbatim>\<open>s.rstrip("/")\<close> and \<^verbatim>\<open>s.startswith(p)\<close>.\<close>

definition rstrip_char :: "char \<Rightarrow> string \<Rightarrow> string" where
  "rstrip_char c s = rev (dropWhile ((=) c) (rev s))"

fun startswith :: "string \<Rightarrow> string \<Rightarrow> bool" where
  "startswith s [] = True"
| "startswith [] (p # ps) = False"
| "startswith (c # s) (p # ps) = (c = p \<and> startswith s ps)"

fun py_join :: "string \<Rightarrow> string list \<Rightarrow> string" where
  "py_join sep [] = []"
| "py_join sep [x] = x"
| "py_join sep (x # y # xs) = x @ sep @ py_join sep (y # xs)"

text \<open>\<^verbatim>\<open>s.split(c)\<close> for a one-character separator.\<close>

fun split_on :: "char \<Rightarrow> string \<Rightarrow> string list" where
  "split_on c [] = [[]]"
| "split_on c (x # xs) =
     (if x = c then [] # split_on c xs
      else (case split_on c xs of [] \<Rightarrow> [[x]] | p # ps \<Rightarrow> (x # p) # ps))"

fun digit_char :: "nat \<Rightarrow> char" where
  "digit_char n = char_of (48 + n)"

fun show_nat :: "nat \<Rightarrow> string" where
  "show_nat n = (if n < 10 then [digit_char n] else show_nat (n div 10) @ [digit_char (n mod 10)])"

declare show_nat.simps [simp del]

definition show_int :: "int \<Rightarrow> string" where
  "show_int i = (if i < 0 then CHR ''-'' # show_nat (nat (- i)) else show_nat (nat i))"

text \<open>\<^verbatim>\<open>repr(s)\<close>: single quotes unless the text holds one and no double quote.\<close>

definition hex_digit :: "nat \<Rightarrow> char" where
  "hex_digit n = (if n < 10 then char_of (48 + n) else char_of (87 + n))"

definition repr_char :: "char \<Rightarrow> char \<Rightarrow> string" where
  "repr_char q c = (let n = of_char c :: nat in
     if c = CHR 0x5C then [CHR 0x5C, CHR 0x5C]
     else if c = q then [CHR 0x5C, q]
     else if n = 9 then [CHR 0x5C, CHR ''t'']
     else if n = 10 then [CHR 0x5C, CHR ''n'']
     else if n = 13 then [CHR 0x5C, CHR ''r'']
     else if n < 32 \<or> (127 \<le> n \<and> n < 161) \<or> n = 173
       then [CHR 0x5C, CHR ''x'', hex_digit (n div 16), hex_digit (n mod 16)]
     else [c])"

definition py_repr :: "string \<Rightarrow> string" where
  "py_repr s =
     (let q = (if CHR 0x27 \<in> set s \<and> CHR 0x22 \<notin> set s then CHR 0x22 else CHR 0x27)
      in [q] @ concat (map (repr_char q) s) @ [q])"

text \<open>First occurrences in order: \<^verbatim>\<open>tuple(dict.fromkeys(xs))\<close>.\<close>

definition py_dedup :: "'a list \<Rightarrow> 'a list" where
  "py_dedup xs = rev (remdups (rev xs))"

text \<open>\<^verbatim>\<open>sorted(set(xs))\<close> on a linear order (code-point order on strings).\<close>

definition sorted_set :: "'a::linorder list \<Rightarrow> 'a list" where
  "sorted_set xs = sort (remdups xs)"

text \<open>A text the readers leave unchanged: non-empty and without outer white space.\<close>

definition canonical :: "string \<Rightarrow> bool" where
  "canonical s \<longleftrightarrow> s \<noteq> [] \<and> strip s = s"

lemma dropWhile_idem: "dropWhile P (dropWhile P xs) = dropWhile P xs"
  by (induction xs) simp_all

lemma lstrip_rstrip_fix:
  assumes "lstrip s = s"
  shows "lstrip (rstrip s) = rstrip s"
proof (cases "rstrip s")
  case Nil
  then show ?thesis by (simp add: lstrip_def)
next
  case (Cons c t)
  have "s = rstrip s @ rev (takeWhile py_isspace (rev s))"
    by (metis rstrip_def rev_append rev_rev_ident takeWhile_dropWhile_id)
  with Cons obtain u where "s = c # u" by fastforce
  with assms have "\<not> py_isspace c"
    by (metis lstrip_def dropWhile_eq_Cons_conv list.inject)
  with Cons show ?thesis by (simp add: lstrip_def)
qed

lemma strip_idem [simp]: "strip (strip s) = strip s"
proof -
  have "lstrip (rstrip (lstrip s)) = rstrip (lstrip s)"
    by (rule lstrip_rstrip_fix) (simp add: lstrip_def dropWhile_idem)
  then show ?thesis
    by (simp add: strip_def) (simp add: rstrip_def dropWhile_idem)
qed

lemma canonical_strip [simp]: "canonical (strip s) \<longleftrightarrow> strip s \<noteq> []"
  by (simp add: canonical_def)

lemma canonicalD [simp]: "canonical s \<Longrightarrow> strip s = s" "canonical s \<Longrightarrow> s \<noteq> []"
  by (simp_all add: canonical_def)

lemma startswith_iff: "startswith s p \<longleftrightarrow> (\<exists>t. s = p @ t)"
  by (induction s p rule: startswith.induct) auto

lemma set_py_dedup [simp]: "set (py_dedup xs) = set xs"
  by (simp add: py_dedup_def)

lemma distinct_py_dedup [simp]: "distinct (py_dedup xs)"
  by (simp add: py_dedup_def)

lemma py_dedup_distinct [simp]: "distinct xs \<Longrightarrow> py_dedup xs = xs"
  by (simp add: py_dedup_def distinct_remdups_id)

lemma py_dedup_snoc: "py_dedup (xs @ [x]) = (if x \<in> set xs then py_dedup xs else py_dedup xs @ [x])"
  by (simp add: py_dedup_def)

lemma set_sorted_set [simp]: "set (sorted_set xs) = set xs"
  by (simp add: sorted_set_def)

lemma sorted_set_sorted [simp]: "sorted (sorted_set xs)" "distinct (sorted_set xs)"
  by (simp_all add: sorted_set_def)

lemma sorted_set_eq_Nil [simp]: "sorted_set xs = [] \<longleftrightarrow> xs = []"
  by (metis set_sorted_set set_empty)

subsection \<open>Decimal numerals are unambiguous\<close>

fun read_nat :: "string \<Rightarrow> nat" where
  "read_nat s = foldl (\<lambda>n c. 10 * n + (of_char c - 48)) 0 s"

lemma read_show_nat: "read_nat (show_nat n) = n"
proof (induction n rule: show_nat.induct)
  case (1 n)
  show ?case
  proof (cases "n < 10")
    case True
    then show ?thesis by (subst show_nat.simps) simp
  next
    case False
    with 1 have "read_nat (show_nat (n div 10)) = n div 10" by simp
    with False show ?thesis by (subst show_nat.simps) simp
  qed
qed

lemma show_nat_inject [simp]: "show_nat m = show_nat n \<longleftrightarrow> m = n"
  by (metis read_show_nat)

lemma show_nat_digits: "c \<in> set (show_nat n) \<Longrightarrow> 48 \<le> (of_char c :: nat) \<and> (of_char c :: nat) \<le> 57"
proof (induction n rule: show_nat.induct)
  case (1 n)
  show ?case
  proof (cases "n < 10")
    case True
    with "1.prems" show ?thesis by (subst (asm) show_nat.simps) auto
  next
    case False
    with "1.prems" have "c \<in> set (show_nat (n div 10)) \<or> c = digit_char (n mod 10)"
      by (subst (asm) show_nat.simps) auto
    moreover have "48 \<le> (of_char (digit_char (n mod 10)) :: nat)
        \<and> (of_char (digit_char (n mod 10)) :: nat) \<le> 57"
      by simp
    ultimately show ?thesis using False "1.IH" by blast
  qed
qed

lemma show_nat_no_sep: "CHR '':'' \<notin> set (show_nat n)"
  using show_nat_digits [of "CHR '':''" n] by auto

lemma show_int_nonneg: "0 \<le> i \<Longrightarrow> show_int i = show_nat (nat i)"
  by (simp add: show_int_def)

section \<open>String enumerations\<close>

text \<open>
  Python's \<^verbatim>\<open>StrEnum\<close>: a class with a list of members, each with a text value;
  \<^verbatim>\<open>E(value)\<close> finds the member and raises ValueError for an unknown value.
\<close>

definition enum_find :: "('e \<Rightarrow> string) \<Rightarrow> 'e list \<Rightarrow> string \<Rightarrow> 'e option" where
  "enum_find val members s = List.find (\<lambda>e. val e = s) members"

locale str_enum =
  fixes members :: "'e list" and val :: "'e \<Rightarrow> string"
  assumes members_complete: "e \<in> set members"
    and values_distinct: "distinct (map val members)"
begin

lemma val_inj: "val a = val b \<longleftrightarrow> a = b"
  using members_complete values_distinct by (metis distinct_map inj_onD)

lemma find_val: "enum_find val members (val e) = Some e"
proof -
  have "List.find (\<lambda>x. val x = val e) members \<noteq> None"
    using members_complete by (auto simp: find_None_iff)
  then show ?thesis
    by (auto simp: enum_find_def find_Some_iff val_inj)
qed

lemma find_SomeD: "enum_find val members s = Some e \<Longrightarrow> val e = s"
  by (auto simp: enum_find_def find_Some_iff)

lemma find_iff: "enum_find val members s = Some e \<longleftrightarrow> s = val e"
  using find_val find_SomeD by metis

lemma members_UNIV: "set members = UNIV"
  using members_complete by auto

lemma val_canonical: "list_all (\<lambda>e. canonical (val e)) members \<Longrightarrow> canonical (val e)"
  using members_complete by (auto simp: list_all_iff)

end

section \<open>Tuples of records with an identifying field\<close>

text \<open>
  The loop of \<^verbatim>\<open>_upsert\<close>: every item with the new value's key is replaced by the
  value, which is appended when no item had the key.
\<close>

definition upsert_by :: "('a \<Rightarrow> 'k) \<Rightarrow> 'a list \<Rightarrow> 'a \<Rightarrow> 'a list" where
  "upsert_by key items value =
     (let result = map (\<lambda>item. if key item = key value then value else item) items;
          replaced = (\<exists>item \<in> set items. key item = key value)
      in if replaced then result else result @ [value])"

locale keyed =
  fixes key :: "'a \<Rightarrow> 'k"
begin

lemma upsert_keys:
  "map key (upsert_by key xs v) = (if key v \<in> key ` set xs then map key xs else map key xs @ [key v])"
proof -
  have "(\<exists>i \<in> set xs. key i = key v) \<longleftrightarrow> key v \<in> key ` set xs"
    by (metis imageE imageI)
  then show ?thesis by (simp add: upsert_by_def Let_def)
qed

lemma upsert_distinct: "distinct (map key xs) \<Longrightarrow> distinct (map key (upsert_by key xs v))"
  by (simp add: upsert_keys)

lemma upsert_mem: "x \<in> set (upsert_by key xs v) \<longleftrightarrow> x = v \<or> (x \<in> set xs \<and> key x \<noteq> key v)"
  by (auto simp: upsert_by_def Let_def)

lemma find_replace: "List.find (\<lambda>x. key x = k) (map (\<lambda>i. if key i = key v then v else i) xs) =
    (if key v = k \<and> (\<exists>i \<in> set xs. key i = k) then Some v else List.find (\<lambda>x. key x = k) xs)"
  by (induction xs) auto

lemma find_snoc: "List.find P (xs @ [z]) =
    (case List.find P xs of None \<Rightarrow> if P z then Some z else None | Some y \<Rightarrow> Some y)"
  for P :: "'a \<Rightarrow> bool"
  by (induction xs) auto

lemma upsert_find: "List.find (\<lambda>x. key x = k) (upsert_by key xs v) =
    (if key v = k then Some v else List.find (\<lambda>x. key x = k) xs)"
proof (cases "\<exists>i \<in> set xs. key i = key v")
  case True
  then show ?thesis by (auto simp: upsert_by_def Let_def find_replace)
next
  case False
  then have fresh: "key v = k \<Longrightarrow> List.find (\<lambda>x. key x = k) xs = None"
    by (auto simp: find_None_iff)
  from False have "upsert_by key xs v = xs @ [v]"
    by (auto simp: upsert_by_def Let_def intro!: map_idI)
  then show ?thesis
    using fresh by (cases "List.find (\<lambda>x. key x = k) xs") (auto simp: find_snoc)
qed

lemma map_keys: "(\<And>x. key (f x) = key x) \<Longrightarrow> map key (map f xs) = map key xs"
  by simp

end

lemma list_all_upsert [intro]: "list_all P xs \<Longrightarrow> P v \<Longrightarrow> list_all P (upsert_by key xs v)"
  by (auto simp: upsert_by_def Let_def list_all_iff)

lemma list_all_map_update: "list_all P xs \<Longrightarrow> (\<And>x. P x \<Longrightarrow> P (f x)) \<Longrightarrow> list_all P (map f xs)"
  by (simp add: list_all_iff)

lemma find_Some_mem: "List.find P xs = Some x \<Longrightarrow> x \<in> set xs \<and> P x"
  by (auto simp: find_Some_iff)

lemma distinct_map_update:
  "(\<And>x. key (f x) = key x) \<Longrightarrow> distinct (map key xs) \<Longrightarrow> distinct (map key (map f xs))"
  by (simp add: comp_def)

section \<open>Ordered dictionaries\<close>

lemma foldl_invariant:
  "I s \<Longrightarrow> (\<And>u x. x \<in> set xs \<Longrightarrow> I u \<Longrightarrow> I (f u x)) \<Longrightarrow> I (foldl f s xs)"
  by (induction xs arbitrary: s) simp_all

lemma set_update_subset: "set (AList.update k v d) \<subseteq> insert (k, v) (set d)"
  by (induction d) auto

lemma fst_set_update [simp]: "fst ` set (AList.update k v d) = insert k (fst ` set d)"
  by (induction d) auto

lemma distinct_keys_update: "distinct (map fst d) \<Longrightarrow> distinct (map fst (AList.update k v d))"
  by (rule distinct_update)

lemma distinct_keys_delete: "distinct (map fst d) \<Longrightarrow> distinct (map fst (AList.delete k d))"
  by (rule distinct_delete)

lemma values_update_subset: "snd ` set (AList.update k v d) \<subseteq> insert v (snd ` set d)"
  by (induction d) auto

lemma values_update_all:
  "\<forall>w \<in> snd ` set d. P w \<Longrightarrow> P v \<Longrightarrow> \<forall>w \<in> snd ` set (AList.update k v d). P w"
  using values_update_subset [of k v d] by blast

lemma set_delete: "set (AList.delete k d) = {(k', v) \<in> set d. k' \<noteq> k}"
  by (induction d) auto

text \<open>Dictionaries whose entries are stored under a field of the value.\<close>

definition keyed_dict :: "('v \<Rightarrow> 'k) \<Rightarrow> ('k \<times> 'v) list \<Rightarrow> bool" where
  "keyed_dict key d \<longleftrightarrow> distinct (map fst d) \<and> (\<forall>(k, v) \<in> set d. k = key v)"

lemma keyed_dict_Nil [simp]: "keyed_dict key []"
  by (simp add: keyed_dict_def)

lemma keyed_dict_update: "keyed_dict key d \<Longrightarrow> keyed_dict key (AList.update (key v) v d)"
  using set_update_subset [of "key v" v d] by (auto simp: keyed_dict_def distinct_update)

lemma keyed_dict_delete: "keyed_dict key d \<Longrightarrow> keyed_dict key (AList.delete k d)"
  by (auto simp: keyed_dict_def distinct_delete set_delete)

lemma keyed_dict_values_distinct: "keyed_dict key d \<Longrightarrow> distinct (map key (map snd d))"
proof -
  assume d: "keyed_dict key d"
  then have "map key (map snd d) = map fst d"
    by (auto simp: keyed_dict_def)
  with d show ?thesis by (simp only: keyed_dict_def)
qed

lemma keyed_dict_map_of: "keyed_dict key d \<Longrightarrow> map_of d k = Some v \<longleftrightarrow> v \<in> snd ` set d \<and> key v = k"
  by (force simp: keyed_dict_def dest: map_of_SomeD)

lemma canonical_iff: "canonical s \<longleftrightarrow> s \<noteq> [] \<and> \<not> py_isspace (hd s) \<and> \<not> py_isspace (last s)"
proof
  assume c: "canonical s"
  then have s: "s \<noteq> []" "rstrip (lstrip s) = s" by (auto simp: canonical_def strip_def)
  have "length (rstrip (lstrip s)) \<le> length (lstrip s)" "length (lstrip s) \<le> length s"
    unfolding rstrip_def lstrip_def by (metis length_dropWhile_le length_rev)+
  with s(2) have "length (dropWhile py_isspace s) = length s"
    by (simp add: lstrip_def)
  then have "takeWhile py_isspace s = []"
    by (metis add_cancel_left_left length_0_conv length_append takeWhile_dropWhile_id)
  then have "lstrip s = s"
    unfolding lstrip_def by (metis append_Nil takeWhile_dropWhile_id)
  moreover from this s(2) have "rstrip s = s" by simp
  ultimately show "s \<noteq> [] \<and> \<not> py_isspace (hd s) \<and> \<not> py_isspace (last s)"
    using s(1) hd_dropWhile [of py_isspace s] hd_dropWhile [of py_isspace "rev s"]
    by (metis lstrip_def rstrip_def dropWhile_eq_Nil_conv hd_rev hd_dropWhile rev_is_Nil_conv rev_rev_ident)
next
  assume a: "s \<noteq> [] \<and> \<not> py_isspace (hd s) \<and> \<not> py_isspace (last s)"
  then have "lstrip s = s" by (cases s) (auto simp: lstrip_def)
  moreover from a have "rstrip s = s"
    by (cases s rule: rev_cases) (auto simp: rstrip_def)
  ultimately show "canonical s" using a by (simp add: canonical_def strip_def)
qed

lemma canonical_Cons_append: "canonical s \<Longrightarrow> \<not> py_isspace c \<Longrightarrow> canonical (c # p @ s)"
  by (auto simp: canonical_iff)

lemma filter_keys_notin:
  assumes "distinct (map fst d)" "set m \<subseteq> set d"
  shows "filter (\<lambda>(k, v). k \<notin> fst ` set m) d = filter (\<lambda>x. x \<notin> set m) d"
proof (rule filter_cong [OF refl])
  fix x assume "x \<in> set d"
  with assms show "(case x of (k, v) \<Rightarrow> k \<notin> fst ` set m) \<longleftrightarrow> x \<notin> set m"
    by (cases x) (force dest: eq_key_imp_eq_value)
qed

end
