(* ===== verification/Py_Value.thy ===== *)
theory Py_Value
  imports Prelude
begin

text \<open>
  JSON documents as Python sees them after \<^verbatim>\<open>json.loads\<close>: the payloads of execution
  events, persisted states and delivery profiles. An object is an ordered dictionary with text
  keys. Floating-point numbers are left out: no field of the modelled schemas is one.
  The theory has \<^verbatim>\<open>dict.get\<close>, truth values (\<^verbatim>\<open>bool(x)\<close>), \<^verbatim>\<open>str(x)\<close>,
  \<^verbatim>\<open>repr(x)\<close>, equality (\<^verbatim>\<open>==\<close>, which ignores the order of keys and
  identifies \<^verbatim>\<open>True\<close> with \<^verbatim>\<open>1\<close>), and decoding of string enumerations.
\<close>

datatype pyval =
    PNone
  | PBool bool
  | PInt int
  | PStr string
  | PList "pyval list"
  | PDict "(string \<times> pyval) list"

type_synonym pydict = "(string \<times> pyval) list"

definition get_item :: "pydict \<Rightarrow> string \<Rightarrow> pyval" where
  "get_item d k = (case map_of d k of None \<Rightarrow> PNone | Some v \<Rightarrow> v)"

definition get_default :: "pydict \<Rightarrow> string \<Rightarrow> pyval \<Rightarrow> pyval" where
  "get_default d k v = (case map_of d k of None \<Rightarrow> v | Some w \<Rightarrow> w)"

text \<open>\<^verbatim>\<open>data[key]\<close> raises KeyError for a missing key.\<close>

definition get_required :: "pydict \<Rightarrow> string \<Rightarrow> pyval result" where
  "get_required d k = (case map_of d k of None \<Rightarrow> Inl (KeyError k) | Some v \<Rightarrow> Inr v)"

fun truthy :: "pyval \<Rightarrow> bool" where
  "truthy PNone = False"
| "truthy (PBool b) = b"
| "truthy (PInt i) = (i \<noteq> 0)"
| "truthy (PStr s) = (s \<noteq> [])"
| "truthy (PList xs) = (xs \<noteq> [])"
| "truthy (PDict d) = (d \<noteq> [])"

text \<open>\<^verbatim>\<open>a or b\<close>.\<close>

definition py_or :: "pyval \<Rightarrow> pyval \<Rightarrow> pyval" where
  "py_or a b = (if truthy a then a else b)"

fun repr_val :: "pyval \<Rightarrow> string" where
  "repr_val PNone = ''None''"
| "repr_val (PBool b) = (if b then ''True'' else ''False'')"
| "repr_val (PInt i) = show_int i"
| "repr_val (PStr s) = py_repr s"
| "repr_val (PList xs) = ''['' @ py_join '', '' (map repr_val xs) @ '']''"
| "repr_val (PDict d) =
     ''{'' @ py_join '', '' (map (\<lambda>(k, v). py_repr k @ '': '' @ repr_val v) d) @ ''}''"

fun str_val :: "pyval \<Rightarrow> string" where
  "str_val (PStr s) = s"
| "str_val v = repr_val v"

text \<open>
  \<^verbatim>\<open>a == b\<close>. Booleans are integers to Python; lists compare element by element and
  dictionaries by their sets of items.
\<close>

fun py_eq :: "pyval \<Rightarrow> pyval \<Rightarrow> bool" where
  "py_eq PNone PNone = True"
| "py_eq (PBool a) (PBool b) = (a = b)"
| "py_eq (PBool a) (PInt j) = ((if a then 1 else 0) = j)"
| "py_eq (PInt i) (PBool b) = (i = (if b then 1 else 0))"
| "py_eq (PInt i) (PInt j) = (i = j)"
| "py_eq (PStr s) (PStr t) = (s = t)"
| "py_eq (PList xs) (PList ys) = list_all2 py_eq xs ys"
| "py_eq (PDict d) (PDict e) =
     (length d = length e \<and>
      list_all (\<lambda>(k, v). case map_of e k of None \<Rightarrow> False | Some w \<Rightarrow> py_eq v w) d)"
| "py_eq _ _ = False"

text \<open>\<^verbatim>\<open>type(x).__name__\<close>, for the messages of TypeError and AttributeError.\<close>

fun type_name :: "pyval \<Rightarrow> string" where
  "type_name PNone = ''NoneType''"
| "type_name (PBool _) = ''bool''"
| "type_name (PInt _) = ''int''"
| "type_name (PStr _) = ''str''"
| "type_name (PList _) = ''list''"
| "type_name (PDict _) = ''dict''"

definition not_iterable :: "pyval \<Rightarrow> exc" where
  "not_iterable v = TypeError (py_repr (type_name v) @ '' object is not iterable'')"

definition no_attribute :: "pyval \<Rightarrow> string \<Rightarrow> exc" where
  "no_attribute v attr =
     AttributeError (py_repr (type_name v) @ '' object has no attribute '' @ py_repr attr)"

fun is_str :: "pyval \<Rightarrow> bool" where
  "is_str (PStr _) = True"
| "is_str _ = False"

fun is_mapping :: "pyval \<Rightarrow> bool" where
  "is_mapping (PDict _) = True"
| "is_mapping _ = False"

text \<open>\<^verbatim>\<open>isinstance(x, Sequence)\<close> and not text: a JSON array.\<close>

fun is_array :: "pyval \<Rightarrow> bool" where
  "is_array (PList _) = True"
| "is_array _ = False"

fun the_str :: "pyval \<Rightarrow> string" where
  "the_str (PStr s) = s"
| "the_str _ = []"

fun the_dict :: "pyval \<Rightarrow> pydict" where
  "the_dict (PDict d) = d"
| "the_dict _ = []"

text \<open>An optional text stored in a document: \<^verbatim>\<open>None\<close> or the text.\<close>

definition opt_str :: "string option \<Rightarrow> pyval" where
  "opt_str x = (case x of None \<Rightarrow> PNone | Some s \<Rightarrow> PStr s)"

text \<open>Entries a serializer adds only when the field is present.\<close>

definition entry_if :: "string \<Rightarrow> string option \<Rightarrow> pydict" where
  "entry_if k x = (case x of None \<Rightarrow> [] | Some s \<Rightarrow> [(k, PStr s)])"

text \<open>
  \<^verbatim>\<open>E(value)\<close> for a \<^verbatim>\<open>StrEnum\<close> class \<^verbatim>\<open>E\<close>: the member with that value,
  or ValueError with Python's message.
\<close>

definition enum_of :: "string \<Rightarrow> ('e \<Rightarrow> string) \<Rightarrow> 'e list \<Rightarrow> pyval \<Rightarrow> 'e result" where
  "enum_of cls val members v =
     (case (case v of PStr s \<Rightarrow> enum_find val members s | _ \<Rightarrow> None) of
        Some e \<Rightarrow> Inr e
      | None \<Rightarrow> Inl (ValueError (repr_val v @ '' is not a valid '' @ cls)))"

section \<open>Texts, numerals and sets\<close>

text \<open>\<^verbatim>\<open>s.replace(old, new)\<close> for a non-empty \<open>old\<close>; the number counts the characters of a match still to skip.\<close>

fun replace_from :: "string \<Rightarrow> string \<Rightarrow> nat \<Rightarrow> string \<Rightarrow> string" where
  "replace_from old new n [] = []"
| "replace_from old new (Suc n) (c # s) = replace_from old new n s"
| "replace_from old new 0 (c # s) =
     (if startswith (c # s) old then new @ replace_from old new (length old - 1) s else c # replace_from old new 0 s)"

text \<open>
  \<^verbatim>\<open>int(value)\<close>: numbers and booleans, and texts that are a decimal numeral, with optional
  sign, outer white space and single underscores between digits.
\<close>

definition is_digit :: "char \<Rightarrow> bool" where
  "is_digit c = (let n = of_char c :: nat in 48 \<le> n \<and> n \<le> 57)"

definition parse_int :: "string \<Rightarrow> int option" where
  "parse_int s =
     (let t = strip s;
          (sgn, body) = (case t of
             c # cs \<Rightarrow> if c = CHR ''-'' then (- 1, cs) else if c = CHR ''+'' then (1, cs) else (1, t)
           | [] \<Rightarrow> (1, []));
          groups = split_on (CHR ''_'') body
      in if list_all (\<lambda>g. g \<noteq> [] \<and> list_all is_digit g) groups
         then Some (sgn * int (read_nat (concat groups))) else None)"

definition py_int :: "pyval \<Rightarrow> int result" where
  "py_int v =
     (case v of
        PInt i \<Rightarrow> Inr i
      | PBool b \<Rightarrow> Inr (if b then 1 else 0)
      | PStr s \<Rightarrow> (case parse_int s of
          Some i \<Rightarrow> Inr i
        | None \<Rightarrow> Inl (ValueError (''invalid literal for int() with base 10: '' @ py_repr s)))
      | _ \<Rightarrow> Inl (TypeError (''int() argument must be a string, a bytes-like object or a real number, not ''
            @ py_repr (type_name v))))"

text \<open>\<^verbatim>\<open>value in {...}\<close> for a set of texts: lists and dictionaries are not hashable.\<close>

definition set_member :: "pyval \<Rightarrow> string list \<Rightarrow> bool result" where
  "set_member v names =
     (if is_array v \<or> is_mapping v then Inl (TypeError (''unhashable type: '' @ py_repr (type_name v)))
      else Inr (case v of PStr s \<Rightarrow> s \<in> set names | _ \<Rightarrow> False))"

section \<open>Lookup laws\<close>

lemma get_item_simps [simp]:
  "get_item [] k = PNone"
  "get_item ((k', v) # d) k = (if k' = k then v else get_item d k)"
  by (simp_all add: get_item_def)

lemma get_default_simps [simp]:
  "get_default [] k w = w"
  "get_default ((k', v) # d) k w = (if k' = k then v else get_default d k w)"
  by (simp_all add: get_default_def)

lemma get_item_append: "get_item (d @ e) k = (if k \<in> fst ` set d then get_item d k else get_item e k)"
  by (induction d) (auto simp: rev_image_eqI)

lemma get_default_append:
  "get_default (d @ e) k w = (if k \<in> fst ` set d then get_default d k w else get_default e k w)"
  by (induction d) (auto simp: rev_image_eqI)

lemma get_required_simps [simp]:
  "get_required [] k = Inl (KeyError k)"
  "get_required ((k', v) # d) k = (if k' = k then Inr v else get_required d k)"
  by (simp_all add: get_required_def)

lemma entry_if_simps [simp]:
  "entry_if k None = []"
  "entry_if k (Some s) = [(k, PStr s)]"
  by (simp_all add: entry_if_def)

lemma opt_str_simps [simp]: "opt_str None = PNone" "opt_str (Some s) = PStr s"
  by (simp_all add: opt_str_def)

lemma get_item_entry_if:
  "get_item (entry_if k' x @ e) k = (if k' = k \<and> x \<noteq> None then opt_str x else get_item e k)"
  "get_item (entry_if k' x) k = (if k' = k then opt_str x else PNone)"
  by (cases x; auto)+

lemma get_default_entry_if:
  "get_default (entry_if k' x @ e) k w = (if k' = k \<and> x \<noteq> None then opt_str x else get_default e k w)"
  by (cases x) auto

lemma enum_of_Inr:
  assumes "str_enum members val"
  shows "enum_of cls val members v = Inr e \<longleftrightarrow> v = PStr (val e)"
proof (cases v)
  case (PStr s)
  then show ?thesis
    by (cases "enum_find val members s")
      (auto simp: enum_of_def str_enum.find_iff [OF assms] str_enum.find_val [OF assms]
        str_enum.val_inj [OF assms])
qed (auto simp: enum_of_def)

section \<open>JSON text\<close>

text \<open>
  \<^verbatim>\<open>json.dumps(value, sort_keys=True, separators=(item_sep, key_sep))\<close> with the default
  \<^verbatim>\<open>ensure_ascii\<close>: the text the fingerprints of the repository hash.
\<close>

definition json_char :: "char \<Rightarrow> string" where
  "json_char c = (let n = of_char c :: nat in
     if n = 34 \<or> n = 92 then [CHR 0x5C, c]
     else if n = 8 then [CHR 0x5C, CHR ''b'']
     else if n = 9 then [CHR 0x5C, CHR ''t'']
     else if n = 10 then [CHR 0x5C, CHR ''n'']
     else if n = 12 then [CHR 0x5C, CHR ''f'']
     else if n = 13 then [CHR 0x5C, CHR ''r'']
     else if n < 32 \<or> 128 \<le> n
       then [CHR 0x5C, CHR ''u'', CHR ''0'', CHR ''0'', hex_digit (n div 16), hex_digit (n mod 16)]
     else [c])"

definition json_string :: "string \<Rightarrow> string" where
  "json_string s = [CHR 0x22] @ concat (map json_char s) @ [CHR 0x22]"

fun json_dumps :: "string \<Rightarrow> string \<Rightarrow> pyval \<Rightarrow> string" where
  "json_dumps isep ksep PNone = ''null''"
| "json_dumps isep ksep (PBool b) = (if b then ''true'' else ''false'')"
| "json_dumps isep ksep (PInt i) = show_int i"
| "json_dumps isep ksep (PStr s) = json_string s"
| "json_dumps isep ksep (PList xs) = ''['' @ py_join isep (map (json_dumps isep ksep) xs) @ '']''"
| "json_dumps isep ksep (PDict d) =
     ''{'' @ py_join isep (map (\<lambda>(k, t). json_string k @ ksep @ t)
       (sort_key fst (map (\<lambda>(k, v). (k, json_dumps isep ksep v)) d))) @ ''}''"

definition json_compact :: "pyval \<Rightarrow> string" where
  "json_compact v = json_dumps '','' '':'' v"

definition json_sorted :: "pyval \<Rightarrow> string" where
  "json_sorted v = json_dumps '', '' '': '' v"

end
