(* ===== verification/Procedrr_Model.thy ===== *)
theory Procedrr_Model
  imports Py_Value
begin

text \<open>
  \<^verbatim>\<open>packages/service/.../procedrr/model.py\<close>: the source contracts of procedrr workflows. A value object is a
  record and its \<^verbatim>\<open>__post_init__\<close> a check on the given field values; the classes of control nodes are the
  constructors of a datatype, with the checks of their constructors in \<open>node_check\<close>. Schemas, case values and
  arguments are arbitrary JSON values. The theory ends with the fact that the fingerprinted document determines the
  workflow.
\<close>

section \<open>Enumerations\<close>

datatype proof_status = PROVEN | UNKNOWN | DISPROVEN

fun proof_status_value :: "proof_status \<Rightarrow> string" where
  "proof_status_value PROVEN = ''proven''"
| "proof_status_value UNKNOWN = ''unknown''"
| "proof_status_value DISPROVEN = ''disproven''"

datatype guarantee =
    DECISION_SAFE
  | CONTROL_TERMINATION_SAFE
  | OPERATION_TERMINATION_SAFE
  | TERMINATION_SAFE
  | RESOURCE_SAFE

fun guarantee_value :: "guarantee \<Rightarrow> string" where
  "guarantee_value DECISION_SAFE = ''decision_safe''"
| "guarantee_value CONTROL_TERMINATION_SAFE = ''control_termination_safe''"
| "guarantee_value OPERATION_TERMINATION_SAFE = ''operation_termination_safe''"
| "guarantee_value TERMINATION_SAFE = ''termination_safe''"
| "guarantee_value RESOURCE_SAFE = ''resource_safe''"

datatype decision_kind = CLASSIFY_ONE | CONSTRUCT_ONE | EXTRACT_BOUNDED_SET

fun decision_kind_value :: "decision_kind \<Rightarrow> string" where
  "decision_kind_value CLASSIFY_ONE = ''classify_one''"
| "decision_kind_value CONSTRUCT_ONE = ''construct_one''"
| "decision_kind_value EXTRACT_BOUNDED_SET = ''extract_bounded_set''"

datatype terminal_status = T_SUCCEEDED | T_FAILED | T_BLOCKED | T_CANCELLED | T_SUSPENDED

fun terminal_status_value :: "terminal_status \<Rightarrow> string" where
  "terminal_status_value T_SUCCEEDED = ''succeeded''"
| "terminal_status_value T_FAILED = ''failed''"
| "terminal_status_value T_BLOCKED = ''blocked''"
| "terminal_status_value T_CANCELLED = ''cancelled''"
| "terminal_status_value T_SUSPENDED = ''suspended''"

section \<open>Limits, rules and contracts\<close>

definition require_positive :: "string \<Rightarrow> int \<Rightarrow> unit result" where
  "require_positive name value = guard_r (\<not> value \<le> 0) (ValueError (name @ '' must be positive''))"

text \<open>A sequence of checks: the first that raises.\<close>

primrec all_checks :: "unit result list \<Rightarrow> unit result" where
  "all_checks [] = Inr ()"
| "all_checks (c # cs) = bind_r c (\<lambda>_. all_checks cs)"

definition blank :: "string \<Rightarrow> bool" where
  "blank s = (strip s = [])"

record activation_limits =
  al_wall_time_seconds :: int
  al_input_tokens :: int
  al_output_tokens :: int
  al_tool_calls :: int
  al_output_bytes :: int
  al_external_cost_microunits :: int
  al_response_repairs :: int

definition default_activation_limits :: activation_limits where
  "default_activation_limits =
     \<lparr>al_wall_time_seconds = 60, al_input_tokens = 8000, al_output_tokens = 4000, al_tool_calls = 1,
      al_output_bytes = 1000000, al_external_cost_microunits = 0, al_response_repairs = 0\<rparr>"

definition activation_limits_check :: "activation_limits \<Rightarrow> unit result" where
  "activation_limits_check l = all_checks
     [require_positive ''wall_time_seconds'' (al_wall_time_seconds l),
      require_positive ''input_tokens'' (al_input_tokens l),
      require_positive ''output_tokens'' (al_output_tokens l),
      require_positive ''tool_calls'' (al_tool_calls l),
      require_positive ''output_bytes'' (al_output_bytes l),
      guard_r (\<not> (al_external_cost_microunits l < 0 \<or> al_response_repairs l < 0))
        (ValueError ''cost and response repairs cannot be negative'')]"

definition activation_limits_to_data :: "activation_limits \<Rightarrow> pydict" where
  "activation_limits_to_data l =
     [(''wall_time_seconds'', PInt (al_wall_time_seconds l)), (''input_tokens'', PInt (al_input_tokens l)),
      (''output_tokens'', PInt (al_output_tokens l)), (''tool_calls'', PInt (al_tool_calls l)),
      (''output_bytes'', PInt (al_output_bytes l)),
      (''external_cost_microunits'', PInt (al_external_cost_microunits l)),
      (''response_repairs'', PInt (al_response_repairs l))]"

record resource_limits =
  rl_llm_activations :: int
  rl_tool_calls :: int
  rl_llm_tokens :: int
  rl_external_cost_microunits :: int
  rl_max_epochs :: int

definition default_resource_limits :: resource_limits where
  "default_resource_limits =
     \<lparr>rl_llm_activations = 1024, rl_tool_calls = 10000, rl_llm_tokens = 8000000,
      rl_external_cost_microunits = 200000000, rl_max_epochs = 3\<rparr>"

definition resource_limits_check :: "resource_limits \<Rightarrow> unit result" where
  "resource_limits_check l = all_checks
     [require_positive ''llm_activations'' (rl_llm_activations l),
      require_positive ''tool_calls'' (rl_tool_calls l),
      require_positive ''llm_tokens'' (rl_llm_tokens l),
      require_positive ''max_epochs'' (rl_max_epochs l),
      guard_r (\<not> rl_external_cost_microunits l < 0) (ValueError ''external cost cannot be negative'')]"

definition resource_limits_to_data :: "resource_limits \<Rightarrow> pydict" where
  "resource_limits_to_data l =
     [(''llm_activations'', PInt (rl_llm_activations l)), (''tool_calls'', PInt (rl_tool_calls l)),
      (''llm_tokens'', PInt (rl_llm_tokens l)),
      (''external_cost_microunits'', PInt (rl_external_cost_microunits l)),
      (''max_epochs'', PInt (rl_max_epochs l))]"

record prompt_rule =
  rule_binding :: string
  rule_operator :: string
  rule_value :: pyval
  rule_instructions :: "string list"
  rule_mode :: string

definition prompt_rule_check :: "prompt_rule \<Rightarrow> unit result" where
  "prompt_rule_check r = all_checks
     [guard_r (\<not> blank (rule_binding r)) (ValueError ''prompt rule binding cannot be empty''),
      guard_r (rule_operator r \<in> set [''equals'', ''not_equals'', ''in'', ''contains''])
        (ValueError ''prompt rule operator is unsupported''),
      guard_r (\<not> (rule_instructions r = [] \<or> list_ex blank (rule_instructions r)))
        (ValueError ''prompt rule instructions must be non-empty''),
      guard_r (rule_mode r \<in> set [''append'', ''replace''])
        (ValueError ''prompt rule mode must be append or replace'')]"

text \<open>The \<^verbatim>\<open>when\<close> entry is a dictionary display, so an operator named like the first key would replace it.\<close>

definition prompt_rule_to_data :: "prompt_rule \<Rightarrow> pydict" where
  "prompt_rule_to_data r =
     [(''when'', PDict (AList.update (rule_operator r) (rule_value r) [(''binding'', PStr (rule_binding r))])),
      (''mode'', PStr (rule_mode r)), (''instructions'', PList (map PStr (rule_instructions r)))]"

record decision_contract =
  dec_kind :: decision_kind
  dec_question :: string
  dec_subject :: string
  dec_output_name :: string
  dec_output_schema :: pydict
  dec_validator :: string
  dec_transport_action_const :: string
  dec_limits :: activation_limits
  dec_prompt_system :: string
  dec_instructions :: "string list"
  dec_context_bindings :: "string list"
  dec_prompt_rules :: "prompt_rule list"

definition not_blank :: "string \<Rightarrow> string \<Rightarrow> unit result" where
  "not_blank name value = guard_r (\<not> blank value) (ValueError (name @ '' cannot be empty''))"

definition decision_contract_check :: "decision_contract \<Rightarrow> unit result" where
  "decision_contract_check d = all_checks
     [not_blank ''question'' (dec_question d),
      not_blank ''subject'' (dec_subject d),
      not_blank ''output_name'' (dec_output_name d),
      not_blank ''validator'' (dec_validator d),
      not_blank ''transport_action_const'' (dec_transport_action_const d),
      guard_r (dec_output_schema d \<noteq> []) (ValueError ''output_schema must be a non-empty mapping''),
      guard_r (dec_transport_action_const d \<notin> set [[], ''next_step'', ''complete'', ''retry''])
        (ValueError ''transport action must be a dedicated constant''),
      guard_r (\<not> blank (dec_prompt_system d)) (ValueError ''prompt_system cannot be empty''),
      guard_r (\<not> (dec_instructions d = [] \<or> list_ex blank (dec_instructions d)))
        (ValueError ''instructions must contain non-empty rules''),
      guard_r (\<not> (dec_context_bindings d = [] \<or> list_ex blank (dec_context_bindings d)))
        (ValueError ''context_bindings must contain at least one binding'')]"

definition decision_contract_to_data :: "decision_contract \<Rightarrow> pydict" where
  "decision_contract_to_data d =
     [(''kind'', PStr (decision_kind_value (dec_kind d))), (''question'', PStr (dec_question d)),
      (''subject'', PStr (dec_subject d)), (''output_name'', PStr (dec_output_name d)),
      (''output_schema'', PDict (dec_output_schema d)), (''validator'', PStr (dec_validator d)),
      (''transport_action_const'', PStr (dec_transport_action_const d)),
      (''limits'', PDict (activation_limits_to_data (dec_limits d))),
      (''prompt_system'', PStr (dec_prompt_system d)),
      (''instructions'', PList (map PStr (dec_instructions d))),
      (''context_bindings'', PList (map PStr (dec_context_bindings d))),
      (''prompt_rules'', PList (map (PDict \<circ> prompt_rule_to_data) (dec_prompt_rules d)))]"

record snapshot_spec =
  sn_name :: string
  sn_item_schema :: pydict
  sn_key_path :: string
  sn_max_items :: int

definition snapshot_spec_check :: "snapshot_spec \<Rightarrow> unit result" where
  "snapshot_spec_check s = all_checks
     [guard_r (\<not> (blank (sn_name s) \<or> blank (sn_key_path s)))
        (ValueError ''snapshot name and key_path cannot be empty''),
      guard_r (sn_item_schema s \<noteq> []) (ValueError ''snapshot item_schema cannot be empty''),
      require_positive ''max_items'' (sn_max_items s)]"

definition snapshot_spec_to_data :: "snapshot_spec \<Rightarrow> pydict" where
  "snapshot_spec_to_data s =
     [(''name'', PStr (sn_name s)), (''item_schema'', PDict (sn_item_schema s)),
      (''key_path'', PStr (sn_key_path s)), (''max_items'', PInt (sn_max_items s))]"

section \<open>Control nodes\<close>

datatype control_node =
    SequenceNode "control_node list"
  | JudgeNode decision_contract
  | OperationNode string pydict "string option" activation_limits
  | MatchNode string "match_case list" "control_node option"
  | ForEachNode snapshot_spec string control_node int int
  | WorklistNode snapshot_spec string control_node int int
  | RepeatNode control_node int
  | RetryNode control_node int "string list"
  | ParallelNode "control_node list" int
  | CallNode string control_node
  | SuspendNode string string
  | TerminalNode terminal_status
and match_case = MatchCase pyval control_node string

text \<open>The checks of the constructors of the node itself; its parts have been constructed before.\<close>

fun node_check :: "control_node \<Rightarrow> unit result" where
  "node_check (OperationNode name arguments output_name limits) =
     guard_r (\<not> blank name) (ValueError ''operation name cannot be empty'')"
| "node_check (ForEachNode snapshot item_binding body max_parallel item_retry_budget) = all_checks
     [guard_r (\<not> blank item_binding) (ValueError ''item_binding cannot be empty''),
      require_positive ''max_parallel'' max_parallel,
      guard_r (\<not> item_retry_budget < 0) (ValueError ''item_retry_budget cannot be negative'')]"
| "node_check (WorklistNode snapshot item_binding body max_admissions max_epochs) = all_checks
     [guard_r (\<not> blank item_binding) (ValueError ''item_binding cannot be empty''),
      require_positive ''max_admissions'' max_admissions,
      require_positive ''max_epochs'' max_epochs]"
| "node_check (RepeatNode body budget) = require_positive ''budget'' budget"
| "node_check (RetryNode body budget retry_on) = require_positive ''budget'' budget"
| "node_check (ParallelNode branches max_parallel) = require_positive ''max_parallel'' max_parallel"
| "node_check (CallNode name body) = guard_r (\<not> blank name) (ValueError ''call name cannot be empty'')"
| "node_check (SuspendNode reason resume_on) =
     guard_r (\<not> (blank reason \<or> blank resume_on)) (ValueError ''suspension reason and resume event are required'')"
| "node_check _ = Inr ()"

text \<open>
  A node that Python code can hold: every object in it passed its constructor.
\<close>

definition decision_built :: "decision_contract \<Rightarrow> bool" where
  "decision_built d \<longleftrightarrow> is_ok (decision_contract_check d) \<and> is_ok (activation_limits_check (dec_limits d))
     \<and> list_all (is_ok \<circ> prompt_rule_check) (dec_prompt_rules d)"

fun node_built :: "control_node \<Rightarrow> bool"
and case_built :: "match_case \<Rightarrow> bool" where
  "node_built (SequenceNode ns) = (\<forall>n \<in> set ns. node_built n)"
| "node_built (JudgeNode d) = decision_built d"
| "node_built (OperationNode name arguments output_name limits) =
     (is_ok (node_check (OperationNode name arguments output_name limits)) \<and> is_ok (activation_limits_check limits))"
| "node_built (MatchNode b cs ow) = ((\<forall>c \<in> set cs. case_built c) \<and> (\<forall>n \<in> set_option ow. node_built n))"
| "node_built (ForEachNode s b n p r) =
     (is_ok (node_check (ForEachNode s b n p r)) \<and> is_ok (snapshot_spec_check s) \<and> node_built n)"
| "node_built (WorklistNode s b n a e) =
     (is_ok (node_check (WorklistNode s b n a e)) \<and> is_ok (snapshot_spec_check s) \<and> node_built n)"
| "node_built (RepeatNode n k) = (is_ok (node_check (RepeatNode n k)) \<and> node_built n)"
| "node_built (RetryNode n k r) = (is_ok (node_check (RetryNode n k r)) \<and> node_built n)"
| "node_built (ParallelNode ns p) = (is_ok (node_check (ParallelNode ns p)) \<and> (\<forall>n \<in> set ns. node_built n))"
| "node_built (CallNode name n) = (is_ok (node_check (CallNode name n)) \<and> node_built n)"
| "node_built (SuspendNode r e) = is_ok (node_check (SuspendNode r e))"
| "node_built (TerminalNode s) = True"
| "case_built (MatchCase v n l) = node_built n"

fun node_to_data :: "control_node \<Rightarrow> pyval"
and match_case_to_data :: "match_case \<Rightarrow> pyval" where
  "node_to_data (SequenceNode nodes) =
     PDict [(''kind'', PStr ''sequence''), (''nodes'', PList (map node_to_data nodes))]"
| "node_to_data (JudgeNode decision) =
     PDict [(''kind'', PStr ''judge''), (''decision'', PDict (decision_contract_to_data decision))]"
| "node_to_data (OperationNode name arguments output_name limits) =
     PDict [(''kind'', PStr ''operation''), (''name'', PStr name), (''arguments'', PDict arguments),
       (''output_name'', opt_str output_name), (''activation_limits'', PDict (activation_limits_to_data limits))]"
| "node_to_data (MatchNode value_binding cases otherwise) =
     PDict [(''kind'', PStr ''match''), (''value_binding'', PStr value_binding),
       (''cases'', PList (map match_case_to_data cases)),
       (''otherwise'', (case otherwise of None \<Rightarrow> PNone | Some n \<Rightarrow> node_to_data n))]"
| "node_to_data (ForEachNode snapshot item_binding body max_parallel item_retry_budget) =
     PDict [(''kind'', PStr ''for_each''), (''snapshot'', PDict (snapshot_spec_to_data snapshot)),
       (''item_binding'', PStr item_binding), (''body'', node_to_data body),
       (''max_parallel'', PInt max_parallel), (''item_retry_budget'', PInt item_retry_budget)]"
| "node_to_data (WorklistNode snapshot item_binding body max_admissions max_epochs) =
     PDict [(''kind'', PStr ''worklist''), (''snapshot'', PDict (snapshot_spec_to_data snapshot)),
       (''item_binding'', PStr item_binding), (''body'', node_to_data body),
       (''max_admissions'', PInt max_admissions), (''max_epochs'', PInt max_epochs)]"
| "node_to_data (RepeatNode body budget) =
     PDict [(''kind'', PStr ''repeat''), (''body'', node_to_data body), (''budget'', PInt budget)]"
| "node_to_data (RetryNode body budget retry_on) =
     PDict [(''kind'', PStr ''retry''), (''body'', node_to_data body), (''budget'', PInt budget),
       (''retry_on'', PList (map PStr retry_on))]"
| "node_to_data (ParallelNode branches max_parallel) =
     PDict [(''kind'', PStr ''parallel''), (''branches'', PList (map node_to_data branches)),
       (''max_parallel'', PInt max_parallel)]"
| "node_to_data (CallNode name body) =
     PDict [(''kind'', PStr ''call''), (''name'', PStr name), (''body'', node_to_data body)]"
| "node_to_data (SuspendNode reason resume_on) =
     PDict [(''kind'', PStr ''suspend''), (''reason'', PStr reason), (''resume_on'', PStr resume_on)]"
| "node_to_data (TerminalNode status) =
     PDict [(''kind'', PStr ''terminal''), (''status'', PStr (terminal_status_value status))]"
| "match_case_to_data (MatchCase v body label) =
     PDict [(''value'', v), (''body'', node_to_data body), (''label'', PStr label)]"

record workflow_definition =
  wd_name :: string
  wd_body :: control_node
  wd_limits :: resource_limits

definition workflow_definition_check :: "workflow_definition \<Rightarrow> unit result" where
  "workflow_definition_check w = guard_r (\<not> blank (wd_name w)) (ValueError ''workflow name cannot be empty'')"

definition workflow_built :: "workflow_definition \<Rightarrow> bool" where
  "workflow_built w \<longleftrightarrow>
     is_ok (workflow_definition_check w) \<and> node_built (wd_body w) \<and> is_ok (resource_limits_check (wd_limits w))"

definition workflow_definition_to_data :: "workflow_definition \<Rightarrow> pydict" where
  "workflow_definition_to_data w =
     [(''name'', PStr (wd_name w)), (''body'', node_to_data (wd_body w)),
      (''limits'', PDict (resource_limits_to_data (wd_limits w)))]"

text \<open>The digest of the compact JSON text with sorted keys; SHA-256 is a parameter.\<close>

definition workflow_fingerprint :: "(string \<Rightarrow> string) \<Rightarrow> workflow_definition \<Rightarrow> string" where
  "workflow_fingerprint sha256 w = ''sha256:'' @ sha256 (json_compact (PDict (workflow_definition_to_data w)))"

section \<open>The document determines the workflow\<close>

lemma all_checks_ok [simp]: "is_ok (all_checks cs) \<longleftrightarrow> (\<forall>c \<in> set cs. is_ok c)"
  by (induction cs) (auto simp: is_ok_iff)

declare all_checks.simps [simp del]

lemma guard_r_ok [simp]: "is_ok (guard_r b e) \<longleftrightarrow> b"
  by (simp add: guard_r_def)

lemma require_positive_ok [simp]: "is_ok (require_positive n v) \<longleftrightarrow> 0 < v"
  by (auto simp: require_positive_def)

lemma enum_values_inject [simp]:
  "decision_kind_value a = decision_kind_value b \<longleftrightarrow> a = b"
  "terminal_status_value s = terminal_status_value t \<longleftrightarrow> s = t"
  by (cases a; cases b; simp) (cases s; cases t; simp)

lemma limits_to_data_inject [simp]:
  "activation_limits_to_data a = activation_limits_to_data b \<longleftrightarrow> a = b"
  "resource_limits_to_data l = resource_limits_to_data m \<longleftrightarrow> l = m"
  by (auto simp: activation_limits_to_data_def resource_limits_to_data_def)

lemma map_PStr_inject [simp]: "map PStr xs = map PStr ys \<longleftrightarrow> xs = ys"
  by (simp add: inj_map_eq_map inj_def)

lemma snapshot_spec_to_data_inject [simp]: "snapshot_spec_to_data s = snapshot_spec_to_data t \<longleftrightarrow> s = t"
  by (auto simp: snapshot_spec_to_data_def)

lemma prompt_rule_to_data_inject:
  assumes "is_ok (prompt_rule_check r)" and "is_ok (prompt_rule_check q)"
  shows "prompt_rule_to_data r = prompt_rule_to_data q \<longleftrightarrow> r = q"
proof -
  have "rule_operator r \<noteq> ''binding''" "rule_operator q \<noteq> ''binding''"
    using assms by (auto simp: prompt_rule_check_def)
  then show ?thesis by (auto simp: prompt_rule_to_data_def)
qed

lemma map_inject_on:
  assumes "\<And>x y. x \<in> set xs \<Longrightarrow> y \<in> set ys \<Longrightarrow> f x = f y \<Longrightarrow> x = y" and "map f xs = map f ys"
  shows "xs = ys"
  using assms
proof (induction xs arbitrary: ys)
  case (Cons x xs)
  then show ?case by (cases ys) auto
qed simp

lemma decision_contract_to_data_inject:
  assumes "decision_built d" and "decision_built e" and eq: "decision_contract_to_data d = decision_contract_to_data e"
  shows "d = e"
proof -
  have "map (PDict \<circ> prompt_rule_to_data) (dec_prompt_rules d) = map (PDict \<circ> prompt_rule_to_data) (dec_prompt_rules e)"
    using eq by (simp add: decision_contract_to_data_def)
  then have "dec_prompt_rules d = dec_prompt_rules e"
    using assms(1,2)
    by (intro map_inject_on [of _ _ "PDict \<circ> prompt_rule_to_data"])
      (auto simp: decision_built_def list_all_iff prompt_rule_to_data_inject)
  then show ?thesis
    using eq by (simp add: decision_contract_to_data_def)
qed

lemma opt_str_inject [simp]: "opt_str a = opt_str b \<longleftrightarrow> a = b"
  by (cases a; cases b) auto

lemma node_to_data_not_None [simp]: "node_to_data n \<noteq> PNone" "PNone \<noteq> node_to_data n"
  by (cases n; simp)+

lemma node_to_data_inject:
  shows "node_built n \<Longrightarrow> node_built m \<Longrightarrow> node_to_data n = node_to_data m \<Longrightarrow> n = m"
    and "case_built c \<Longrightarrow> case_built c' \<Longrightarrow> match_case_to_data c = match_case_to_data c' \<Longrightarrow> c = c'"
proof (induction n and c arbitrary: m and c' rule: control_node.induct match_case.induct)
  case (SequenceNode ns)
  from SequenceNode.prems(3) obtain ms where m: "m = SequenceNode ms" by (cases m) simp_all
  have "ns = ms"
    using SequenceNode m by (intro map_inject_on [of ns ms node_to_data]) simp_all
  with m show ?case by simp
next
  case (ParallelNode ns p)
  from ParallelNode.prems(3) obtain ms q where m: "m = ParallelNode ms q" by (cases m) simp_all
  have "ns = ms"
    using ParallelNode m by (intro map_inject_on [of ns ms node_to_data]) simp_all
  with m ParallelNode.prems(3) show ?case by simp
next
  case (MatchNode b cs ow)
  from MatchNode.prems(3) obtain b' cs' ow' where m: "m = MatchNode b' cs' ow'" by (cases m) simp_all
  have "cs = cs'"
    using MatchNode m by (intro map_inject_on [of cs cs' match_case_to_data]) simp_all
  moreover have "ow = ow'"
    using MatchNode m by (cases ow; cases ow') simp_all
  ultimately show ?case using m MatchNode.prems(3) by simp
next
  case (JudgeNode d)
  from JudgeNode.prems(3) obtain e where "m = JudgeNode e" by (cases m) simp_all
  with JudgeNode.prems decision_contract_to_data_inject [of d e] show ?case by simp
next
  case (ForEachNode s b n p r)
  from ForEachNode.prems(3) obtain n' where "m = ForEachNode s b n' p r" by (cases m) simp_all
  with ForEachNode.IH [of n'] ForEachNode.prems show ?case by simp
next
  case (WorklistNode s b n a e)
  from WorklistNode.prems(3) obtain n' where "m = WorklistNode s b n' a e" by (cases m) simp_all
  with WorklistNode.IH [of n'] WorklistNode.prems show ?case by simp
next
  case (RepeatNode n k)
  from RepeatNode.prems(3) obtain n' where "m = RepeatNode n' k" by (cases m) simp_all
  with RepeatNode.IH [of n'] RepeatNode.prems show ?case by simp
next
  case (RetryNode n k r)
  from RetryNode.prems(3) obtain n' where "m = RetryNode n' k r" by (cases m) simp_all
  with RetryNode.IH [of n'] RetryNode.prems show ?case by simp
next
  case (CallNode name n)
  from CallNode.prems(3) obtain n' where "m = CallNode name n'" by (cases m) simp_all
  with CallNode.IH [of n'] CallNode.prems show ?case by simp
next
  case (MatchCase v n l)
  from MatchCase.prems(3) obtain n' where "c' = MatchCase v n' l" by (cases c') simp_all
  with MatchCase.IH [of n'] MatchCase.prems show ?case by simp
next
  case (OperationNode name arguments output_name limits)
  from OperationNode.prems(3) show ?case by (cases m) simp_all
next
  case (SuspendNode r e)
  from SuspendNode.prems(3) show ?case by (cases m) simp_all
next
  case (TerminalNode s)
  from TerminalNode.prems(3) show ?case by (cases m) simp_all
qed

text \<open>The document that is hashed determines the workflow.\<close>

theorem workflow_document_injective:
  assumes "workflow_built v" and "workflow_built w"
    and "workflow_definition_to_data v = workflow_definition_to_data w"
  shows "v = w"
  using assms node_to_data_inject(1) [of "wd_body v" "wd_body w"]
  by (auto simp: workflow_definition_to_data_def workflow_built_def)

end
