(* ===== verification/Procedrr_Compile.thy ===== *)
theory Procedrr_Compile
  imports Procedrr_Model "HOL-Library.Multiset"
begin

text \<open>
  \<^verbatim>\<open>packages/service/.../procedrr/compiler.py\<close>: the static analysis of procedrr workflows, which reports
  structural defects and bounds the numbers of model activations and tool calls. The list of diagnostics the
  source appends to is the first component of a result. \<open>runs\<close> is the specification: the activations that the
  structured control of a node permits. The analysis accepts a workflow exactly if it is well structured and all
  its runs stay within the limits, and its bounds are attained. The budget of epochs is not checked.
\<close>

section \<open>Diagnostics, certificates and costs\<close>

datatype diagnostic = Diagnostic (diag_code: string) (diag_path: string) (diag_message: string)

type_synonym certificate = "(guarantee \<times> proof_status) list"

definition certificate_status :: "certificate \<Rightarrow> guarantee \<Rightarrow> proof_status" where
  "certificate_status c g = (case map_of c g of None \<Rightarrow> UNKNOWN | Some s \<Rightarrow> s)"

definition certificate_to_data :: "certificate \<Rightarrow> pydict" where
  "certificate_to_data c = map (\<lambda>(g, s). (guarantee_value g, PStr (proof_status_value s))) c"

record compiled_workflow =
  cw_definition :: workflow_definition
  cw_certificate :: certificate
  cw_max_llm_activations :: int
  cw_max_tool_calls :: int
  cw_max_epochs :: int

definition compiled_fingerprint :: "(string \<Rightarrow> string) \<Rightarrow> compiled_workflow \<Rightarrow> string" where
  "compiled_fingerprint sha256 w = workflow_fingerprint sha256 (cw_definition w)"

record compilation_report =
  cr_workflow :: "compiled_workflow option"
  cr_diagnostics :: "diagnostic list"

definition report_successful :: "compilation_report \<Rightarrow> bool" where
  "report_successful r \<longleftrightarrow> cr_diagnostics r = [] \<and> cr_workflow r \<noteq> None"

text \<open>The message of a CompilationError with these diagnostics.\<close>

definition compilation_error_detail :: "diagnostic list \<Rightarrow> string" where
  "compilation_error_detail ds =
     py_join ''; '' (map (\<lambda>d. diag_path d @ '': '' @ diag_code d @ '': '' @ diag_message d) ds)"

record cost =
  c_llm :: int
  c_tools :: int
  c_epochs :: int

definition no_cost :: cost where
  "no_cost = \<lparr>c_llm = 0, c_tools = 0, c_epochs = 0\<rparr>"

definition cost_plus :: "cost \<Rightarrow> cost \<Rightarrow> cost" where
  "cost_plus a b =
     \<lparr>c_llm = c_llm a + c_llm b, c_tools = c_tools a + c_tools b, c_epochs = c_epochs a + c_epochs b\<rparr>"

definition cost_multiply :: "cost \<Rightarrow> int \<Rightarrow> cost" where
  "cost_multiply a k = \<lparr>c_llm = c_llm a * k, c_tools = c_tools a * k, c_epochs = c_epochs a * k\<rparr>"

definition sum_costs :: "cost list \<Rightarrow> cost" where
  "sum_costs cs = foldl cost_plus no_cost cs"

definition max_costs :: "cost list \<Rightarrow> cost" where
  "max_costs cs =
     (if cs = [] then no_cost
      else \<lparr>c_llm = Max (set (map c_llm cs)), c_tools = Max (set (map c_tools cs)),
            c_epochs = Max (set (map c_epochs cs))\<rparr>)"

section \<open>The analysis\<close>

definition judge_diagnostics :: "decision_contract \<Rightarrow> string \<Rightarrow> diagnostic list" where
  "judge_diagnostics d path =
     (if blank (dec_subject d) then [Diagnostic ''missing_decision_subject'' path ''a subject is required''] else [])
     @ (if dec_transport_action_const d \<in> set [''next_step'', ''complete'', ''retry'']
        then [Diagnostic ''model_owned_transition'' path ''the transport action must be a dedicated constant'']
        else [])"

definition indexed :: "string \<Rightarrow> nat \<Rightarrow> string" where
  "indexed path i = path @ ''['' @ show_nat i @ '']''"

text \<open>
  \<^verbatim>\<open>case.value in values\<close> compares by equality, so the handler of TypeError is not reached for JSON values. The
  nodes are those of the twelve classes of the model, so neither is the last branch, for other classes.
\<close>

fun analyze_node :: "control_node \<Rightarrow> string \<Rightarrow> diagnostic list \<times> cost"
and analyze_nodes :: "control_node list \<Rightarrow> string \<Rightarrow> nat \<Rightarrow> diagnostic list \<times> cost list"
and analyze_cases :: "match_case list \<Rightarrow> string \<Rightarrow> nat \<Rightarrow> pyval list \<Rightarrow> diagnostic list \<times> cost list"
and analyze_otherwise :: "control_node option \<Rightarrow> string \<Rightarrow> diagnostic list \<times> cost list" where
  "analyze_node (JudgeNode d) path = (judge_diagnostics d path, no_cost\<lparr>c_llm := 1\<rparr>)"
| "analyze_node (OperationNode name arguments output_name limits) path = ([], no_cost\<lparr>c_tools := 1\<rparr>)"
| "analyze_node (SequenceNode nodes) path =
     (let (ds, costs) = analyze_nodes nodes (path @ ''.nodes'') 0
      in ((if nodes = [] then [Diagnostic ''empty_sequence'' path ''a sequence needs a node''] else []) @ ds,
          sum_costs costs))"
| "analyze_node (MatchNode value_binding cases otherwise) path =
     (let (ds, costs) = analyze_cases cases path 0 [];
          (es, rest) = analyze_otherwise otherwise path
      in ((if Option.is_none otherwise
           then [Diagnostic ''non_exhaustive_match'' path ''a match needs cases or otherwise''] else []) @ ds @ es,
          max_costs (costs @ rest)))"
| "analyze_node (ForEachNode snapshot item_binding body max_parallel item_retry_budget) path =
     (let (ds, c) = analyze_node body (path @ ''.body'')
      in (ds, cost_multiply c (sn_max_items snapshot * (item_retry_budget + 1))))"
| "analyze_node (WorklistNode snapshot item_binding body max_admissions max_epochs) path =
     (let (ds, c) = analyze_node body (path @ ''.body'') in (ds, cost_multiply c (max_admissions * max_epochs)))"
| "analyze_node (RepeatNode body budget) path =
     (let (ds, c) = analyze_node body (path @ ''.body'') in (ds, cost_multiply c budget))"
| "analyze_node (RetryNode body budget retry_on) path =
     (let (ds, c) = analyze_node body (path @ ''.body'') in (ds, cost_multiply c (budget + 1)))"
| "analyze_node (ParallelNode branches max_parallel) path =
     (let (ds, costs) = analyze_nodes branches (path @ ''.branches'') 0
      in ((if branches = [] then [Diagnostic ''empty_parallel'' path ''parallel needs a branch''] else []) @ ds,
          sum_costs costs))"
| "analyze_node (CallNode name body) path = analyze_node body (path @ ''.body'')"
| "analyze_node (SuspendNode reason resume_on) path = ([], no_cost)"
| "analyze_node (TerminalNode status) path = ([], no_cost)"
| "analyze_nodes [] path i = ([], [])"
| "analyze_nodes (n # ns) path i =
     (let (ds, c) = analyze_node n (indexed path i);
          (es, cs) = analyze_nodes ns path (Suc i)
      in (ds @ es, c # cs))"
| "analyze_cases [] path i values = ([], [])"
| "analyze_cases (MatchCase v body label # cases) path i values =
     (let at = indexed (path @ ''.cases'') i;
          (ds, c) = analyze_node body (at @ ''.body'');
          (es, cs) = analyze_cases cases path (Suc i) (values @ [v])
      in ((if list_ex (\<lambda>u. py_eq u v) values
           then [Diagnostic ''overlapping_match_case'' at ''case values overlap''] else []) @ ds @ es,
          c # cs))"
| "analyze_otherwise None path = ([], [])"
| "analyze_otherwise (Some n) path = (let (ds, c) = analyze_node n (path @ ''.otherwise'') in (ds, [c]))"

definition budget_diagnostic :: "int \<Rightarrow> int \<Rightarrow> string \<Rightarrow> string \<Rightarrow> diagnostic list" where
  "budget_diagnostic used limit code unit_name =
     (if used > limit
      then [Diagnostic code ''body'' (''worst-case '' @ show_int used @ '' '' @ unit_name @ '' exceed the limit of '' @ show_int limit)]
      else [])"

definition analyze_workflow :: "workflow_definition \<Rightarrow> compilation_report" where
  "analyze_workflow d =
     (let (found, c) = analyze_node (wd_body d) ''body'';
          limits = wd_limits d;
          ds = found
            @ budget_diagnostic (c_llm c) (rl_llm_activations limits) ''llm_activation_budget_exceeded'' ''activations''
            @ budget_diagnostic (c_tools c) (rl_tool_calls limits) ''tool_call_budget_exceeded'' ''calls''
            @ budget_diagnostic (c_epochs c) (rl_max_epochs limits) ''epoch_budget_exceeded'' ''epochs'';
          status = (if ds = [] then PROVEN else DISPROVEN)
      in \<lparr>cr_workflow = Some
            \<lparr>cw_definition = d,
             cw_certificate = [(DECISION_SAFE, status), (CONTROL_TERMINATION_SAFE, status),
               (OPERATION_TERMINATION_SAFE, status), (RESOURCE_SAFE, status), (TERMINATION_SAFE, status)],
             cw_max_llm_activations = c_llm c, cw_max_tool_calls = c_tools c, cw_max_epochs = c_epochs c\<rparr>,
          cr_diagnostics = ds\<rparr>)"

text \<open>\<open>Inl ds\<close> is a CompilationError with the diagnostics \<open>ds\<close>.\<close>

definition compile_workflow :: "workflow_definition \<Rightarrow> diagnostic list + compiled_workflow" where
  "compile_workflow d =
     (let report = analyze_workflow d
      in if \<not> report_successful report then Inl (cr_diagnostics report)
         else (case cr_workflow report of Some w \<Rightarrow> Inr w | None \<Rightarrow> Inl []))"

section \<open>Specification: the runs of a node\<close>

text \<open>
  A run asks the model and calls tools. \<open>runs n A\<close>: the control of \<open>n\<close> permits a run with the activations \<open>A\<close>,
  counted with repetitions and in no particular order, so that parallel branches need no interleaving; a run may
  stop at any point. Iterations are bounded by the numbers in the node.
\<close>

datatype activation = Asked string | Called string

fun is_asked :: "activation \<Rightarrow> bool" where
  "is_asked (Asked q) = True"
| "is_asked (Called t) = False"

inductive runs :: "control_node \<Rightarrow> activation multiset \<Rightarrow> bool" where
  stopped: "runs n A \<Longrightarrow> B \<subseteq># A \<Longrightarrow> runs n B"
| judge: "runs (JudgeNode d) {#Asked (dec_question d)#}"
| operation: "runs (OperationNode name arguments output_name limits) {#Called name#}"
| sequence: "list_all2 runs ns As \<Longrightarrow> runs (SequenceNode ns) (sum_list As)"
| parallel: "list_all2 runs ns As \<Longrightarrow> runs (ParallelNode ns p) (sum_list As)"
| match_case: "MatchCase v n l \<in> set cs \<Longrightarrow> runs n A \<Longrightarrow> runs (MatchNode b cs ow) A"
| match_otherwise: "runs n A \<Longrightarrow> runs (MatchNode b cs (Some n)) A"
| match_nothing: "runs (MatchNode b cs None) {#}"
| for_each: "(\<forall>A \<in> set As. runs n A) \<Longrightarrow> int (length As) \<le> sn_max_items s * (r + 1) \<Longrightarrow>
    runs (ForEachNode s b n p r) (sum_list As)"
| worklist: "(\<forall>A \<in> set As. runs n A) \<Longrightarrow> int (length As) \<le> a * e \<Longrightarrow> runs (WorklistNode s b n a e) (sum_list As)"
| repeat: "(\<forall>A \<in> set As. runs n A) \<Longrightarrow> int (length As) \<le> k \<Longrightarrow> runs (RepeatNode n k) (sum_list As)"
| retry: "(\<forall>A \<in> set As. runs n A) \<Longrightarrow> int (length As) \<le> k + 1 \<Longrightarrow> runs (RetryNode n k on) (sum_list As)"
| call: "runs n A \<Longrightarrow> runs (CallNode name n) A"
| suspend: "runs (SuspendNode r e) {#}"
| terminal: "runs (TerminalNode s) {#}"

definition asked :: "activation multiset \<Rightarrow> int" where
  "asked A = int (size (filter_mset is_asked A))"

definition called :: "activation multiset \<Rightarrow> int" where
  "called A = int (size (filter_mset (\<lambda>a. \<not> is_asked a) A))"

text \<open>The structural conditions the analysis enforces.\<close>

fun well_structured :: "control_node \<Rightarrow> bool"
and case_structured :: "match_case \<Rightarrow> bool" where
  "well_structured (JudgeNode d) \<longleftrightarrow>
     \<not> blank (dec_subject d) \<and> dec_transport_action_const d \<notin> set [''next_step'', ''complete'', ''retry'']"
| "well_structured (OperationNode name arguments output_name limits) \<longleftrightarrow> True"
| "well_structured (SequenceNode ns) \<longleftrightarrow> ns \<noteq> [] \<and> (\<forall>n \<in> set ns. well_structured n)"
| "well_structured (MatchNode b cs ow) \<longleftrightarrow> ow \<noteq> None \<and> (\<forall>n \<in> set_option ow. well_structured n)
     \<and> sorted_wrt (\<lambda>u v. \<not> py_eq u v) (map (\<lambda>c. case c of MatchCase v n l \<Rightarrow> v) cs)
     \<and> (\<forall>c \<in> set cs. case_structured c)"
| "well_structured (ForEachNode s b n p r) \<longleftrightarrow> well_structured n"
| "well_structured (WorklistNode s b n a e) \<longleftrightarrow> well_structured n"
| "well_structured (RepeatNode n k) \<longleftrightarrow> well_structured n"
| "well_structured (RetryNode n k on) \<longleftrightarrow> well_structured n"
| "well_structured (ParallelNode ns p) \<longleftrightarrow> ns \<noteq> [] \<and> (\<forall>n \<in> set ns. well_structured n)"
| "well_structured (CallNode name n) \<longleftrightarrow> well_structured n"
| "well_structured (SuspendNode r e) \<longleftrightarrow> True"
| "well_structured (TerminalNode s) \<longleftrightarrow> True"
| "case_structured (MatchCase v n l) \<longleftrightarrow> well_structured n"

section \<open>Structure\<close>

lemma judge_diagnostics_Nil: "judge_diagnostics d p = [] \<longleftrightarrow> well_structured (JudgeNode d)"
  by (auto simp: judge_diagnostics_def)

lemma analysis_diagnostics:
  shows "fst (analyze_node n p) = [] \<longleftrightarrow> well_structured n"
    and "fst (analyze_nodes ns p i) = [] \<longleftrightarrow> (\<forall>n \<in> set ns. well_structured n)"
    and "fst (analyze_cases cs p i us) = [] \<longleftrightarrow> (\<forall>c \<in> set cs. case_structured c)
      \<and> (\<forall>u \<in> set us. \<forall>v \<in> set (map (\<lambda>c. case c of MatchCase v n l \<Rightarrow> v) cs). \<not> py_eq u v)
      \<and> sorted_wrt (\<lambda>u v. \<not> py_eq u v) (map (\<lambda>c. case c of MatchCase v n l \<Rightarrow> v) cs)"
    and "fst (analyze_otherwise ow p) = [] \<longleftrightarrow> (\<forall>n \<in> set_option ow. well_structured n)"
proof (induction n p and ns p i and cs p i us and ow p
    rule: analyze_node_analyze_nodes_analyze_cases_analyze_otherwise.induct)
  case (1 d path)
  then show ?case by (simp add: judge_diagnostics_Nil)
next
  case (4 b cases ow path)
  from 4(1) 4(2) [OF refl prod.collapse] show ?case
    by (auto simp: split_beta Let_def Option.is_none_def)
next
  case (14 n ns path i)
  from 14(1) 14(2) [OF refl prod.collapse] show ?case
    by (simp add: split_beta Let_def)
next
  case (16 v body label cases path i vs)
  from 16(1) [OF refl] 16(2) [OF refl refl prod.collapse] show ?case
    by (simp add: split_beta Let_def list_ex_iff) blast
qed (auto simp: split_beta Let_def)

text \<open>The costs do not depend on the path.\<close>

fun node_cost :: "control_node \<Rightarrow> cost"
and case_cost :: "match_case \<Rightarrow> cost" where
  "node_cost (JudgeNode d) = no_cost\<lparr>c_llm := 1\<rparr>"
| "node_cost (OperationNode name arguments output_name limits) = no_cost\<lparr>c_tools := 1\<rparr>"
| "node_cost (SequenceNode ns) = sum_costs (map node_cost ns)"
| "node_cost (MatchNode b cs ow) = max_costs (map case_cost cs @ (case ow of None \<Rightarrow> [] | Some n \<Rightarrow> [node_cost n]))"
| "node_cost (ForEachNode s b n p r) = cost_multiply (node_cost n) (sn_max_items s * (r + 1))"
| "node_cost (WorklistNode s b n a e) = cost_multiply (node_cost n) (a * e)"
| "node_cost (RepeatNode n k) = cost_multiply (node_cost n) k"
| "node_cost (RetryNode n k on) = cost_multiply (node_cost n) (k + 1)"
| "node_cost (ParallelNode ns p) = sum_costs (map node_cost ns)"
| "node_cost (CallNode name n) = node_cost n"
| "node_cost (SuspendNode r e) = no_cost"
| "node_cost (TerminalNode s) = no_cost"
| "case_cost (MatchCase v n l) = node_cost n"

lemma analysis_costs:
  shows "snd (analyze_node n p) = node_cost n"
    and "snd (analyze_nodes ns p i) = map node_cost ns"
    and "snd (analyze_cases cs p i us) = map case_cost cs"
    and "snd (analyze_otherwise ow p) = (case ow of None \<Rightarrow> [] | Some n \<Rightarrow> [node_cost n])"
proof (induction n p and ns p i and cs p i us and ow p
    rule: analyze_node_analyze_nodes_analyze_cases_analyze_otherwise.induct)
  case (4 b cases ow path)
  from 4(1) 4(2) [OF refl prod.collapse] show ?case by (simp add: split_beta Let_def)
next
  case (14 n ns path i)
  from 14(1) 14(2) [OF refl prod.collapse] show ?case by (simp add: split_beta Let_def)
next
  case (16 v body label cases path i vs)
  from 16(1) [OF refl] 16(2) [OF refl refl prod.collapse] show ?case by (simp add: split_beta Let_def)
qed (simp_all add: split_beta Let_def)

section \<open>The costs bound the runs\<close>

text \<open>
  Model activations and tool calls are counted in the same way: a component of the cost with the activations it
  counts. The laws are those the analysis uses; the lemmas hold for both components.
\<close>

locale activation_measure =
  fixes component :: "cost \<Rightarrow> int" and counted :: "activation \<Rightarrow> bool"
  assumes none: "component no_cost = 0"
    and plus: "component (cost_plus a b) = component a + component b"
    and multiply: "component (cost_multiply a k) = component a * k"
    and maximum: "cs \<noteq> [] \<Longrightarrow> component (max_costs cs) = Max (component ` set cs)"
    and judge_cost: "component (no_cost\<lparr>c_llm := 1\<rparr>) = (if counted (Asked q) then 1 else 0)"
    and operation_cost: "component (no_cost\<lparr>c_tools := 1\<rparr>) = (if counted (Called t) then 1 else 0)"
begin

definition number :: "activation multiset \<Rightarrow> int" where
  "number A = int (size (filter_mset counted A))"

lemma number_simps [simp]:
  "number {#} = 0"
  "number (A + B) = number A + number B"
  "0 \<le> number A"
  by (simp_all add: number_def)

lemma number_mono: "B \<subseteq># A \<Longrightarrow> number B \<le> number A"
  by (simp add: number_def size_mset_mono multiset_filter_mono)

lemma component_sum: "component (sum_costs cs) = sum_list (map component cs)"
proof -
  have "component (foldl cost_plus c cs) = component c + sum_list (map component cs)" for c
    by (induction cs arbitrary: c) (simp_all add: plus)
  then show ?thesis by (simp add: sum_costs_def none)
qed

lemma component_max_ge: "c \<in> set cs \<Longrightarrow> component c \<le> component (max_costs cs)"
  by (subst maximum) auto

lemma component_max_attained:
  assumes "cs \<noteq> []"
  obtains c where "c \<in> set cs" and "component (max_costs cs) = component c"
proof -
  have "Max (component ` set cs) \<in> component ` set cs"
    using assms by (intro Max_in) simp_all
  then show ?thesis using that maximum [OF assms] by auto
qed

lemma sum_list_bound: "(\<And>A. A \<in> set As \<Longrightarrow> number A \<le> c) \<Longrightarrow> number (sum_list As) \<le> int (length As) * c"
proof (induction As)
  case (Cons A As)
  then have "number A \<le> c" "number (sum_list As) \<le> int (length As) * c" by simp_all
  then show ?case by (simp add: algebra_simps)
qed simp

lemma iterated_bound:
  assumes "\<And>A. A \<in> set As \<Longrightarrow> number A \<le> component c" and "int (length As) \<le> k" and "0 \<le> component c"
  shows "number (sum_list As) \<le> component (cost_multiply c k)"
proof -
  have "number (sum_list As) \<le> int (length As) * component c"
    using assms(1) by (rule sum_list_bound)
  also have "\<dots> \<le> k * component c"
    using assms(2,3) by (rule mult_right_mono)
  finally show ?thesis by (simp add: multiply mult.commute)
qed

lemma listed_bound:
  "list_all2 (\<lambda>n A. number A \<le> component (node_cost n)) ns As \<Longrightarrow>
     number (sum_list As) \<le> component (sum_costs (map node_cost ns))"
  by (induction rule: list_all2_induct) (simp_all add: component_sum)

lemma number_replicate: "number (sum_list (replicate k A)) = int k * number A"
  by (induction k) (simp_all add: algebra_simps)

lemma iterated_attained:
  assumes "\<exists>A. runs n A \<and> number A = component (node_cost n)" and "0 \<le> k"
    and "\<And>As. \<forall>B \<in> set As. runs n B \<Longrightarrow> int (length As) \<le> k \<Longrightarrow> runs m (sum_list As)"
  shows "\<exists>A. runs m A \<and> number A = component (cost_multiply (node_cost n) k)"
proof -
  from assms(1) obtain A where "runs n A" and "number A = component (node_cost n)" by blast
  then have "number (sum_list (replicate (nat k) A)) = component (cost_multiply (node_cost n) k)"
    using assms(2) by (simp add: number_replicate multiply mult.commute)
  moreover have "runs m (sum_list (replicate (nat k) A))"
    using assms(2) \<open>runs n A\<close> by (intro assms(3)) simp_all
  ultimately show ?thesis by blast
qed

lemma listed_attained:
  "(\<And>n. n \<in> set ns \<Longrightarrow> \<exists>A. runs n A \<and> number A = component (node_cost n)) \<Longrightarrow>
     \<exists>As. list_all2 runs ns As \<and> number (sum_list As) = component (sum_costs (map node_cost ns))"
proof (induction ns)
  case (Cons n ns)
  from Cons.prems obtain A where A: "runs n A" "number A = component (node_cost n)" by force
  from Cons.IH Cons.prems obtain As
    where As: "list_all2 runs ns As" "number (sum_list As) = component (sum_costs (map node_cost ns))" by force
  have "list_all2 runs (n # ns) (A # As)" "number (sum_list (A # As)) = component (sum_costs (map node_cost (n # ns)))"
    using A As by (simp_all add: component_sum)
  then show ?case by blast
qed (simp add: component_sum)

text \<open>The worst case is attained by some run.\<close>

lemma attained:
  shows "node_built n \<Longrightarrow> \<exists>A. runs n A \<and> number A = component (node_cost n)"
    and "case_built c \<Longrightarrow> \<forall>v m l. c = MatchCase v m l \<longrightarrow> (\<exists>A. runs m A \<and> number A = component (node_cost m))"
proof (induction n and c rule: control_node.induct match_case.induct)
  case (SequenceNode ns)
  then show ?case using listed_attained [of ns] runs.sequence by fastforce
next
  case (ParallelNode ns p)
  then show ?case using listed_attained [of ns] runs.parallel by fastforce
next
  case (JudgeNode d)
  have "number {#Asked (dec_question d)#} = component (node_cost (JudgeNode d))"
    using judge_cost [of "dec_question d"] by (simp add: number_def)
  then show ?case using runs.judge by blast
next
  case (OperationNode name arguments output_name limits)
  have "number {#Called name#} = component (node_cost (OperationNode name arguments output_name limits))"
    using operation_cost [of name] by (simp add: number_def)
  then show ?case using runs.operation by blast
next
  case (MatchNode b cs ow)
  let ?costs = "map case_cost cs @ (case ow of None \<Rightarrow> [] | Some n \<Rightarrow> [node_cost n])"
  show ?case
  proof (cases "?costs = []")
    case True
    then have "cs = []" "ow = None" by (auto split: option.splits)
    then show ?thesis using runs.match_nothing [of b cs] by (auto simp: max_costs_def none)
  next
    case False
    then obtain c where c: "c \<in> set ?costs" "component (max_costs ?costs) = component c"
      by (rule component_max_attained)
    then consider v m l where "MatchCase v m l \<in> set cs" "c = node_cost m" | m where "ow = Some m" "c = node_cost m"
      by (auto split: option.splits) (metis case_cost.simps match_case.exhaust)+
    then show ?thesis
    proof cases
      case 1
      with MatchNode show ?thesis using c(2) runs.match_case [OF 1(1)] by fastforce
    next
      case 2
      with MatchNode show ?thesis using c(2) runs.match_otherwise by fastforce
    qed
  qed
next
  case (ForEachNode s b n p r)
  then have "0 \<le> sn_max_items s * (r + 1)" by (simp add: snapshot_spec_check_def)
  with ForEachNode show ?case by (auto intro: iterated_attained runs.for_each)
next
  case (WorklistNode s b n a e)
  then have "0 \<le> a * e" by simp
  with WorklistNode show ?case by (auto intro: iterated_attained runs.worklist)
next
  case (RepeatNode n k)
  then show ?case by (auto intro: iterated_attained runs.repeat)
next
  case (RetryNode n k on)
  then show ?case by (auto intro: iterated_attained runs.retry)
next
  case (CallNode name n)
  then show ?case using runs.call by fastforce
next
  case (SuspendNode r e)
  then show ?case using runs.suspend by (fastforce simp: none)
next
  case (TerminalNode s)
  then show ?case using runs.terminal by (fastforce simp: none)
next
  case (MatchCase v n l)
  then show ?case by simp
qed

lemma component_nonneg: "node_built n \<Longrightarrow> 0 \<le> component (node_cost n)"
  using attained(1) [of n] number_simps(3) by metis

text \<open>No run exceeds the worst case.\<close>

lemma bounded: "runs n A \<Longrightarrow> node_built n \<Longrightarrow> number A \<le> component (node_cost n)"
proof (induction rule: runs.induct)
  case (stopped n A B)
  then show ?case using number_mono by fastforce
next
  case (judge d)
  then show ?case using judge_cost [of "dec_question d"] by (simp add: number_def)
next
  case (operation name arguments output_name limits)
  then show ?case using operation_cost [of name] by (simp add: number_def)
next
  case (sequence ns As)
  then show ?case by (auto intro!: listed_bound simp: list_all2_conv_all_nth)
next
  case (parallel ns As p)
  then show ?case by (auto intro!: listed_bound simp: list_all2_conv_all_nth)
next
  case (match_case v n l cs A b ow)
  have "component (node_cost n) \<le> component (node_cost (MatchNode b cs ow))"
    using match_case.hyps(1) by (auto intro!: component_max_ge simp: image_iff intro!: bexI [of _ "MatchCase v n l"])
  with match_case show ?case by fastforce
next
  case (match_otherwise n A b cs)
  have "component (node_cost n) \<le> component (node_cost (MatchNode b cs (Some n)))"
    by (auto intro: component_max_ge)
  with match_otherwise show ?case by fastforce
next
  case (match_nothing b cs)
  then show ?case using component_nonneg [of "MatchNode b cs None"] by simp
next
  case (call n A name)
  then show ?case by simp
qed (auto intro!: iterated_bound component_nonneg simp: none)

end

interpretation llm: activation_measure c_llm is_asked
  by unfold_locales (simp_all add: no_cost_def cost_plus_def cost_multiply_def max_costs_def)

interpretation tools: activation_measure c_tools "\<lambda>a. \<not> is_asked a"
  by unfold_locales (simp_all add: no_cost_def cost_plus_def cost_multiply_def max_costs_def)

lemma number_asked [simp]: "llm.number = asked"
  by (simp add: llm.number_def asked_def fun_eq_iff)

lemma number_called [simp]: "tools.number = called"
  by (simp add: tools.number_def called_def fun_eq_iff)

lemmas cost_bounds = llm.bounded tools.bounded
lemmas cost_attained = llm.attained(1) tools.attained(1)

section \<open>What a compiled workflow guarantees\<close>

lemma budget_diagnostic_Nil [simp]: "budget_diagnostic u l c n = [] \<longleftrightarrow> u \<le> l"
  by (simp add: budget_diagnostic_def)

text \<open>No node contributes to the number of epochs.\<close>

lemma sum_epochs:
  assumes "\<forall>c \<in> set cs. c_epochs c = 0"
  shows "c_epochs (sum_costs cs) = 0"
proof -
  have "c_epochs (foldl cost_plus c cs) = c_epochs c" for c
    using assms by (induction cs arbitrary: c) (simp_all add: cost_plus_def)
  then show ?thesis by (simp add: sum_costs_def no_cost_def)
qed

lemma max_epochs:
  assumes "\<forall>c \<in> set cs. c_epochs c = 0"
  shows "c_epochs (max_costs cs) = 0"
proof (cases "cs = []")
  case False
  with assms have "c_epochs ` set cs = {0}" by (cases cs) auto
  with False show ?thesis by (simp add: max_costs_def)
qed (simp add: max_costs_def no_cost_def)

lemma node_epochs:
  shows "c_epochs (node_cost n) = 0" and "c_epochs (case_cost c) = 0"
proof (induction n and c rule: control_node.induct match_case.induct)
  case (MatchNode b cs ow)
  then show ?case by (auto intro!: max_epochs split: option.splits)
qed (auto simp: no_cost_def cost_multiply_def intro!: sum_epochs)

lemma analyze_workflow_diagnostics:
  "cr_diagnostics (analyze_workflow d) = [] \<longleftrightarrow> well_structured (wd_body d)
     \<and> c_llm (node_cost (wd_body d)) \<le> rl_llm_activations (wd_limits d)
     \<and> c_tools (node_cost (wd_body d)) \<le> rl_tool_calls (wd_limits d)
     \<and> c_epochs (node_cost (wd_body d)) \<le> rl_max_epochs (wd_limits d)"
  by (simp add: analyze_workflow_def Let_def split_beta analysis_diagnostics analysis_costs)

lemma compile_workflow_cases:
  "compile_workflow d =
     (if cr_diagnostics (analyze_workflow d) = [] then Inr (the (cr_workflow (analyze_workflow d)))
      else Inl (cr_diagnostics (analyze_workflow d)))"
  by (simp add: compile_workflow_def report_successful_def Let_def analyze_workflow_def split_beta)

lemma compiled_fields:
  assumes "compile_workflow d = Inr w"
  shows "cr_diagnostics (analyze_workflow d) = []" and "cw_definition w = d"
    and "cw_max_llm_activations w = c_llm (node_cost (wd_body d))"
    and "cw_max_tool_calls w = c_tools (node_cost (wd_body d))"
    and "cw_max_epochs w = c_epochs (node_cost (wd_body d))"
    and "\<forall>g. certificate_status (cw_certificate w) g = PROVEN"
proof -
  have clean: "cr_diagnostics (analyze_workflow d) = []"
    and w: "w = the (cr_workflow (analyze_workflow d))"
    using assms by (auto simp: compile_workflow_cases split: if_splits)
  show "cr_diagnostics (analyze_workflow d) = []" by (fact clean)
  show "cw_definition w = d" "cw_max_llm_activations w = c_llm (node_cost (wd_body d))"
    "cw_max_tool_calls w = c_tools (node_cost (wd_body d))"
    "cw_max_epochs w = c_epochs (node_cost (wd_body d))"
    unfolding w by (simp_all add: analyze_workflow_def Let_def split_beta analysis_costs)
  show "\<forall>g. certificate_status (cw_certificate w) g = PROVEN"
  proof
    fix g
    show "certificate_status (cw_certificate w) g = PROVEN"
      using clean unfolding w
      by (cases g) (simp_all add: analyze_workflow_def Let_def split_beta certificate_status_def)
  qed
qed

lemma limit_of_all_runs:
  assumes "node_built n"
  shows "c_llm (node_cost n) \<le> l \<longleftrightarrow> (\<forall>A. runs n A \<longrightarrow> asked A \<le> l)"
    and "c_tools (node_cost n) \<le> l \<longleftrightarrow> (\<forall>A. runs n A \<longrightarrow> called A \<le> l)"
  using assms cost_bounds [of n] cost_attained [of n] by fastforce+

section \<open>An example\<close>

text \<open>A workflow that asks which files to change, edits each of at most three with one retry, and stops.\<close>

definition sample_decision :: decision_contract where
  "sample_decision =
     \<lparr>dec_kind = EXTRACT_BOUNDED_SET, dec_question = ''Which files change?'', dec_subject = ''change'',
      dec_output_name = ''files'', dec_output_schema = [(''type'', PStr ''array'')], dec_validator = ''json_schema'',
      dec_transport_action_const = ''select_files'', dec_limits = default_activation_limits,
      dec_prompt_system = ''You select files.'', dec_instructions = [''Select files.''],
      dec_context_bindings = [''change''], dec_prompt_rules = []\<rparr>"

definition sample_snapshot :: snapshot_spec where
  "sample_snapshot =
     \<lparr>sn_name = ''files'', sn_item_schema = [(''type'', PStr ''string'')], sn_key_path = ''path'', sn_max_items = 3\<rparr>"

definition sample_workflow :: workflow_definition where
  "sample_workflow =
     \<lparr>wd_name = ''edit-files'',
      wd_body = SequenceNode
        [JudgeNode sample_decision,
         ForEachNode sample_snapshot ''file'' (OperationNode ''edit'' [] None default_activation_limits) 1 1,
         MatchNode ''outcome'' [MatchCase (PStr ''ok'') (TerminalNode T_SUCCEEDED) []] (Some (TerminalNode T_FAILED))],
      wd_limits = default_resource_limits\<rparr>"

text \<open>A worklist of up to a hundred epochs, under a limit of three, with a judge over the limit of tokens.\<close>

definition epoch_workflow :: workflow_definition where
  "epoch_workflow =
     \<lparr>wd_name = ''epochs'', wd_body = WorklistNode sample_snapshot ''file'' (JudgeNode sample_decision) 1 100,
      wd_limits = default_resource_limits\<lparr>rl_llm_tokens := 1\<rparr>\<rparr>"

lemmas sample_defs = sample_workflow_def epoch_workflow_def sample_decision_def sample_snapshot_def
  default_activation_limits_def default_resource_limits_def

lemma samples_built: "workflow_built sample_workflow" "workflow_built epoch_workflow"
  by code_simp+

lemma sample_compiled:
  "case compile_workflow sample_workflow of Inl ds \<Rightarrow> False
   | Inr w \<Rightarrow> cw_max_llm_activations w = 1 \<and> cw_max_tool_calls w = 6"
  by code_simp

lemma epoch_compiled:
  "case compile_workflow epoch_workflow of Inl ds \<Rightarrow> False | Inr w \<Rightarrow> cw_max_llm_activations w = 100"
  by code_simp

section \<open>Soundness and completeness\<close>

text \<open>C24: For a constructed workflow, compilation succeeds exactly if the body is well structured and no run of it
  exceeds the limits on model activations and tool calls; otherwise it reports at least one diagnostic.\<close>

theorem workflow_compiles_iff:
  assumes "workflow_built d"
  shows "((\<exists>w. compile_workflow d = Inr w) \<longleftrightarrow> well_structured (wd_body d)
      \<and> (\<forall>A. runs (wd_body d) A \<longrightarrow> asked A \<le> rl_llm_activations (wd_limits d) \<and> called A \<le> rl_tool_calls (wd_limits d)))
    \<and> compile_workflow d \<noteq> Inl []"
proof -
  have "node_built (wd_body d)" "0 < rl_max_epochs (wd_limits d)"
    using assms by (auto simp: workflow_built_def resource_limits_check_def)
  then show ?thesis
    using limit_of_all_runs [of "wd_body d"]
    by (auto simp: compile_workflow_cases analyze_workflow_diagnostics node_epochs)
qed

theorem workflow_compiles_iff_witness:
  "workflow_built sample_workflow \<and> well_structured (wd_body sample_workflow)
   \<and> \<not> (\<exists>A. runs (wd_body sample_workflow) A \<and> 1024 < asked A)"
proof -
  have "\<exists>w. compile_workflow sample_workflow = Inr w"
    using sample_compiled by (auto split: sum.splits)
  moreover have "rl_llm_activations (wd_limits sample_workflow) = 1024"
    by (simp add: sample_workflow_def default_resource_limits_def)
  ultimately show ?thesis
    using samples_built(1) workflow_compiles_iff [of sample_workflow] by fastforce
qed



section \<open>What the certificate leaves out\<close>

text \<open>
  The analysis counts no epochs, so the limit on them is never exceeded: a worklist of a hundred epochs compiles
  under a limit of three, and the certificate says that resources are safe.
\<close>

theorem epoch_limit_never_checked:
  assumes "compile_workflow d = Inr w"
  shows "cw_max_epochs w = 0"
  using compiled_fields(5) [OF assms] by (simp add: node_epochs)

theorem epochs_over_limit_compile:
  "\<exists>w. compile_workflow epoch_workflow = Inr w \<and> certificate_status (cw_certificate w) RESOURCE_SAFE = PROVEN
     \<and> rl_max_epochs (wd_limits epoch_workflow) = 3"
proof -
  obtain w where w: "compile_workflow epoch_workflow = Inr w"
    using epoch_compiled by (auto split: sum.splits)
  then show ?thesis
    using compiled_fields(6) by (auto simp: epoch_workflow_def default_resource_limits_def)
qed

text \<open>
  Neither the limit on tokens nor the limit on external cost is looked at: a hundred activations of up to eight
  thousand input tokens each compile under a limit of one token.
\<close>

theorem token_limit_unchecked:
  "\<exists>w. compile_workflow epoch_workflow = Inr w \<and> cw_max_llm_activations w = 100
     \<and> rl_llm_tokens (wd_limits epoch_workflow) = 1 \<and> al_input_tokens (dec_limits sample_decision) = 8000"
  using epoch_compiled by (auto simp: sample_defs split: sum.splits)

end
