(* ===== verification/Document_Editor.thy ===== *)
theory Document_Editor
  imports Py_Value
begin

text \<open>
  \<^verbatim>\<open>packages/service/.../procedrr/editor.py\<close>: edits of procedrr documents addressed by JSON pointers, and appending
  a step. The source copies the document and mutates the copy through references to its parts; the model rebuilds
  the changed containers, which is the same on documents without shared parts, as JSON documents are. Shown: an edit
  changes what its pointer names and nothing else, and removing an added part restores the document.
\<close>

section \<open>Pointers\<close>

definition decode_pointer_segment :: "string \<Rightarrow> string" where
  "decode_pointer_segment segment = replace_from ''~0'' ''~'' 0 (replace_from ''~1'' ''/'' 0 segment)"

definition pointer_segments :: "string \<Rightarrow> string list" where
  "pointer_segments pointer = map decode_pointer_segment (split_on (CHR ''/'') (drop 1 pointer))"

definition list_index :: "string \<Rightarrow> string \<Rightarrow> nat \<Rightarrow> bool \<Rightarrow> nat result" where
  "list_index segment pointer len allow_end =
     (let invalid = Inl (ValueError (''JSON Pointer '' @ py_repr pointer @ '' has an invalid list index''))
      in case parse_int segment of
           None \<Rightarrow> invalid
         | Some i \<Rightarrow>
             (let maximum = (if allow_end then int len else int len - 1)
              in if i < 0 \<or> i > maximum then invalid else Inr (nat i)))"

definition pointer_missing :: "string \<Rightarrow> exc" where
  "pointer_missing pointer = ValueError (''JSON Pointer '' @ py_repr pointer @ '' does not exist'')"

definition pointer_child :: "pyval \<Rightarrow> string \<Rightarrow> string \<Rightarrow> pyval result" where
  "pointer_child parent segment pointer =
     (case parent of
        PList xs \<Rightarrow> bind_r (list_index segment pointer (length xs) False) (\<lambda>i. Inr (xs ! i))
      | PDict d \<Rightarrow> (case map_of d segment of Some v \<Rightarrow> Inr v | None \<Rightarrow> Inl (pointer_missing pointer))
      | _ \<Rightarrow> Inl (pointer_missing pointer))"

section \<open>Edits\<close>

text \<open>The container with one of its parts changed in place.\<close>

definition put_child :: "pyval \<Rightarrow> string \<Rightarrow> string \<Rightarrow> pyval \<Rightarrow> pyval" where
  "put_child parent segment pointer v =
     (case parent of
        PList xs \<Rightarrow> (case list_index segment pointer (length xs) False of Inr i \<Rightarrow> PList (xs[i := v]) | Inl e \<Rightarrow> parent)
      | PDict d \<Rightarrow> PDict (AList.update segment v d)
      | _ \<Rightarrow> parent)"

text \<open>The change of the parent of the addressed part.\<close>

definition edit_parent :: "string \<Rightarrow> string \<Rightarrow> string \<Rightarrow> pyval \<Rightarrow> pyval \<Rightarrow> pyval result" where
  "edit_parent operation final pointer v parent =
     (case parent of
        PList xs \<Rightarrow>
          if operation = ''add'' \<and> final = ''-'' then Inr (PList (xs @ [v]))
          else bind_r (list_index final pointer (length xs) (operation = ''add'')) (\<lambda>position.
            Inr (PList
              (if operation = ''add'' then take position xs @ [v] @ drop position xs
               else if operation = ''replace'' then xs[position := v]
               else take position xs @ drop (Suc position) xs)))
      | PDict d \<Rightarrow>
          if operation \<in> set [''replace'', ''remove''] \<and> map_of d final = None then Inl (pointer_missing pointer)
          else Inr (PDict (if operation = ''remove'' then AList.delete final d else AList.update final v d))
      | _ \<Rightarrow> Inl (ValueError (''JSON Pointer '' @ py_repr pointer @ '' has a non-container parent'')))"

fun edit_at :: "(pyval \<Rightarrow> pyval result) \<Rightarrow> string \<Rightarrow> pyval \<Rightarrow> string list \<Rightarrow> pyval result" where
  "edit_at change pointer parent [] = change parent"
| "edit_at change pointer parent (segment # segments) =
     bind_r (pointer_child parent segment pointer) (\<lambda>child.
     bind_r (edit_at change pointer child segments) (\<lambda>changed.
     Inr (put_child parent segment pointer changed)))"

definition edit_field :: "nat \<Rightarrow> string \<Rightarrow> string" where
  "edit_field index message = ''edits['' @ show_nat index @ ''].'' @ message"

definition apply_json_edit :: "nat \<Rightarrow> pyval \<Rightarrow> pydict \<Rightarrow> pyval result" where
  "apply_json_edit index result edit =
     (let op_value = get_item edit ''op''; operation = the_str op_value; pointer_value = get_item edit ''path'';
          pointer = the_str pointer_value; segments = pointer_segments pointer;
          has_value = (map_of edit ''value'' \<noteq> None)
      in bind_r (set_member op_value [''add'', ''replace'', ''remove'']) (\<lambda>known.
         bind_r (guard_r known (ValueError (edit_field index ''op must be add, replace, or remove''))) (\<lambda>_.
         bind_r (guard_r (\<not> (operation \<in> set [''add'', ''replace''] \<and> \<not> has_value))
           (ValueError (edit_field index (''value is required for '' @ operation)))) (\<lambda>_.
         bind_r (guard_r (\<not> (operation = ''remove'' \<and> has_value))
           (ValueError (edit_field index ''value is not allowed for remove''))) (\<lambda>_.
         bind_r (guard_r (is_str pointer_value \<and> startswith pointer ''/'')
           (ValueError (edit_field index ''path must be a JSON Pointer''))) (\<lambda>_.
         bind_r (guard_r (segments \<noteq> [] \<and> segments \<noteq> [[]])
           (ValueError (edit_field index ''path cannot target the document root''))) (\<lambda>_.
         edit_at (edit_parent operation (last segments) pointer (get_item edit ''value'')) pointer result
           (butlast segments))))))))"

definition apply_json_edits :: "pydict \<Rightarrow> pydict list \<Rightarrow> pyval result" where
  "apply_json_edits document edits =
     foldM_r (\<lambda>result (index, edit). apply_json_edit index result edit) (PDict document) (enumerate 0 edits)"

section \<open>Appending a step\<close>

text \<open>A path of the second kind: keys and positions, where Python counts negative positions from the end.\<close>

datatype path_segment = Key string | Position int

definition list_position :: "nat \<Rightarrow> int \<Rightarrow> nat option" where
  "list_position len i =
     (let j = (if i < 0 then i + int len else i) in if 0 \<le> j \<and> j < int len then Some (nat j) else None)"

definition repr_segment :: "path_segment \<Rightarrow> string" where
  "repr_segment s = (case s of Key k \<Rightarrow> py_repr k | Position i \<Rightarrow> show_int i)"

definition subscript :: "pyval \<Rightarrow> path_segment \<Rightarrow> pyval result" where
  "subscript v s =
     (case v of
        PDict d \<Rightarrow>
          (case s of
             Key k \<Rightarrow> (case map_of d k of Some c \<Rightarrow> Inr c | None \<Rightarrow> Inl (KeyError k))
           | Position i \<Rightarrow> Inl (KeyError (repr_segment s)))
      | PList xs \<Rightarrow>
          (case s of
             Key k \<Rightarrow> Inl (TypeError ''list indices must be integers or slices, not str'')
           | Position i \<Rightarrow> (case list_position (length xs) i of
               Some j \<Rightarrow> Inr (xs ! j) | None \<Rightarrow> Inl (IndexError ''list index out of range'')))
      | PStr t \<Rightarrow>
          (case s of
             Key k \<Rightarrow> Inl (TypeError (''string indices must be integers, not '' @ py_repr ''str''))
           | Position i \<Rightarrow> (case list_position (length t) i of
               Some j \<Rightarrow> Inr (PStr [t ! j]) | None \<Rightarrow> Inl (IndexError ''string index out of range'')))
      | _ \<Rightarrow> Inl (TypeError (py_repr (type_name v) @ '' object is not subscriptable'')))"

definition put_part :: "pyval \<Rightarrow> path_segment \<Rightarrow> pyval \<Rightarrow> pyval" where
  "put_part v s c =
     (case (v, s) of
        (PDict d, Key k) \<Rightarrow> PDict (AList.update k c d)
      | (PList xs, Position i) \<Rightarrow> (case list_position (length xs) i of Some j \<Rightarrow> PList (xs[j := c]) | None \<Rightarrow> v)
      | _ \<Rightarrow> v)"

fun append_at :: "pyval \<Rightarrow> path_segment list \<Rightarrow> pydict \<Rightarrow> pyval result" where
  "append_at target [] step =
     (case target of
        PList xs \<Rightarrow> Inr (PList (xs @ [PDict step]))
      | _ \<Rightarrow> Inl (ValueError ''path must identify a steps list''))"
| "append_at target (s # path) step =
     bind_r (subscript target s) (\<lambda>c.
     bind_r (append_at c path step) (\<lambda>c'.
     Inr (put_part target s c')))"

definition append_step :: "pydict \<Rightarrow> path_segment list \<Rightarrow> pydict \<Rightarrow> pyval result" where
  "append_step document path step = append_at (PDict document) path step"

section \<open>Parts of a document\<close>

text \<open>The part a pointer names, where the text of the pointer matters for error messages only.\<close>

fun pointer_value :: "pyval \<Rightarrow> string list \<Rightarrow> pyval option" where
  "pointer_value v [] = Some v"
| "pointer_value v (s # ss) = (case pointer_child v s [] of Inr c \<Rightarrow> pointer_value c ss | Inl _ \<Rightarrow> None)"

lemma list_index_Inr: "list_index s p len e = Inr i \<longleftrightarrow>
    parse_int s = Some (int i) \<and> (if e then i \<le> len else i < len)"
  by (auto simp: list_index_def Let_def split: option.splits)

lemma list_index_bound: "list_index s p len False = Inr i \<Longrightarrow> i < len"
  by (simp add: list_index_Inr)

lemma child_cases [consumes 1, case_names list dict]:
  assumes "pointer_child v s p = Inr c"
  obtains xs i where "v = PList xs" "i < length xs" "c = xs ! i" "\<And>q. list_index s q (length xs) False = Inr i"
  | d where "v = PDict d" "map_of d s = Some c"
  using assms by (cases v) (auto simp: pointer_child_def list_index_Inr split: option.splits)

lemma pointer_child_pointer: "pointer_child v s p = Inr c \<Longrightarrow> pointer_child v s q = Inr c"
  by (erule child_cases) (simp_all add: pointer_child_def)

lemma pointer_value_append:
  "pointer_value v (ss @ ts) = (case pointer_value v ss of None \<Rightarrow> None | Some w \<Rightarrow> pointer_value w ts)"
  by (induction ss arbitrary: v) (simp_all split: sum.splits)

lemma update_same: "map_of d k = Some v \<Longrightarrow> AList.update k v d = d"
  by (induction d) (auto split: if_splits)

lemma update_twice: "AList.update k w (AList.update k v d) = AList.update k w d"
  by (induction d) auto

text \<open>The laws of a part of a container and its replacement.\<close>

lemma child_put: "pointer_child v s p = Inr c \<Longrightarrow> pointer_child (put_child v s p c') s q = Inr c'"
  by (erule child_cases) (simp_all add: pointer_child_def put_child_def update_conv)

lemma put_put: "pointer_child v s p = Inr c \<Longrightarrow> put_child (put_child v s p c') s q c'' = put_child v s q c''"
  by (erule child_cases) (simp_all add: put_child_def update_twice)

lemma put_same: "pointer_child v s p = Inr c \<Longrightarrow> put_child v s q c = v"
  by (erule child_cases) (simp_all add: put_child_def update_same)

lemma edit_at_parent:
  assumes "edit_at f p v ss = Inr v'"
  obtains w w' where "pointer_value v ss = Some w" "f w = Inr w'" "pointer_value v' ss = Some w'"
  using assms
proof (induction ss arbitrary: v v' thesis)
  case (Cons s ss)
  from Cons.prems(2) obtain c c' where c: "pointer_child v s p = Inr c" "edit_at f p c ss = Inr c'"
    "v' = put_child v s p c'"
    by auto
  obtain w w' where "pointer_value c ss = Some w" "f w = Inr w'" "pointer_value c' ss = Some w'"
    using c(2) by (rule Cons.IH [rotated])
  moreover have "pointer_child v s [] = Inr c" "pointer_child v' s [] = Inr c'"
    using c pointer_child_pointer child_put by blast+
  ultimately show ?case using Cons.prems(1) [of w w'] by simp
qed simp

lemma edit_at_undo:
  assumes "edit_at f p v ss = Inr v'"
    and "\<And>w w'. pointer_value v ss = Some w \<Longrightarrow> f w = Inr w' \<Longrightarrow> g w' = Inr w"
  shows "edit_at g q v' ss = Inr v"
  using assms
proof (induction ss arbitrary: v v')
  case (Cons s ss)
  from Cons.prems(1) obtain c c' where c: "pointer_child v s p = Inr c" "edit_at f p c ss = Inr c'"
    "v' = put_child v s p c'"
    by auto
  have "pointer_child v s [] = Inr c"
    using c(1) by (rule pointer_child_pointer)
  then have "edit_at g q c' ss = Inr c"
    using Cons.prems(2) by (intro Cons.IH [OF c(2)]) simp_all
  then show ?case
    using c by (simp add: child_put put_put put_same)
qed simp

section \<open>Edits change what they name\<close>

text \<open>
  Two pointers name separate parts: they part at different keys of a mapping, or at different positions of a list,
  of which the last one counts only if the edit keeps positions.
\<close>

fun apart :: "bool \<Rightarrow> pyval \<Rightarrow> string list \<Rightarrow> string list \<Rightarrow> bool" where
  "apart keeps v (s # ss) (t # ts) =
     (case v of
        PDict d \<Rightarrow> if s \<noteq> t then True else (case map_of d s of Some c \<Rightarrow> apart keeps c ss ts | None \<Rightarrow> False)
      | PList xs \<Rightarrow>
          (case (list_index s [] (length xs) False, list_index t [] (length xs) False) of
             (Inr i, Inr j) \<Rightarrow> if i \<noteq> j then ss \<noteq> [] \<or> keeps else apart keeps (xs ! i) ss ts
           | _ \<Rightarrow> False)
      | _ \<Rightarrow> False)"
| "apart keeps v _ _ = False"

lemma edit_parent_frame:
  assumes "edit_parent op s p v w = Inr w'" and "apart (op = ''replace'') w [s] (t # ts)"
  shows "pointer_child w' t [] = pointer_child w t []"
proof (cases w)
  case (PList xs)
  with assms(2) obtain i j where ij: "list_index s [] (length xs) False = Inr i"
    "list_index t [] (length xs) False = Inr j" "i \<noteq> j" "op = ''replace''"
    by (auto split: sum.splits if_splits)
  then have "w' = PList (xs[i := v])"
    using assms(1) PList by (auto simp: edit_parent_def list_index_Inr)
  then show ?thesis using ij PList by (simp add: pointer_child_def)
qed (use assms in \<open>auto simp: edit_parent_def pointer_child_def update_conv delete_conv split: if_splits option.splits\<close>)

lemma edit_at_frame:
  assumes "edit_at (edit_parent op final p v) p w ss = Inr w'" and "apart (op = ''replace'') w (ss @ [final]) ts"
  shows "pointer_value w' ts = pointer_value w ts"
  using assms
proof (induction ss arbitrary: w w' ts)
  case Nil
  then obtain t ts' where "ts = t # ts'" by (cases ts) simp_all
  with Nil edit_parent_frame [of op final p v w w' t ts'] show ?case by simp
next
  case (Cons s ss)
  then obtain t ts' where ts: "ts = t # ts'" by (cases ts) simp_all
  from Cons.prems(1) obtain c c' where c: "pointer_child w s p = Inr c"
    "edit_at (edit_parent op final p v) p c ss = Inr c'" "w' = put_child w s p c'"
    by auto
  have child: "pointer_child w s [] = Inr c" "pointer_child w' s [] = Inr c'"
    using c pointer_child_pointer child_put by blast+
  show ?case
  proof (cases "pointer_child w t [] = pointer_child w' t []")
    case True
    then show ?thesis by (simp add: ts)
  next
    case False
    then have same: "pointer_child w t [] = Inr c" "pointer_child w' t [] = Inr c'"
      and "apart (op = ''replace'') c (ss @ [final]) ts'"
      using Cons.prems(2) c child unfolding ts
      by (cases w; auto simp: pointer_child_def put_child_def list_index_Inr update_conv split: option.splits sum.splits if_splits)+
    then show ?thesis using Cons.IH [OF c(2)] by (simp add: ts)
  qed
qed

lemma set_member_True: "set_member v names = Inr True \<longleftrightarrow> (\<exists>s. v = PStr s \<and> s \<in> set names)"
  by (cases v) (auto simp: set_member_def)

lemma apply_json_edit_Inr:
  assumes "apply_json_edit i v e = Inr v'"
  shows "edit_at (edit_parent (the_str (get_item e ''op'')) (last (pointer_segments (the_str (get_item e ''path''))))
      (the_str (get_item e ''path'')) (get_item e ''value'')) (the_str (get_item e ''path'')) v
      (butlast (pointer_segments (the_str (get_item e ''path'')))) = Inr v'"
    and "pointer_segments (the_str (get_item e ''path'')) \<noteq> []"
    and "the_str (get_item e ''op'') \<in> {''add'', ''replace'', ''remove''}"
proof -
  have "set_member (get_item e ''op'') [''add'', ''replace'', ''remove''] = Inr True"
    using assms unfolding apply_json_edit_def Let_def bind_r_eq_Inr guard_r_Inr by (elim exE conjE) simp
  then show "the_str (get_item e ''op'') \<in> {''add'', ''replace'', ''remove''}"
    by (auto simp: set_member_True)
qed (use assms in \<open>auto simp only: apply_json_edit_def Let_def bind_r_eq_Inr guard_r_Inr\<close>)

lemma edit_parent_value:
  assumes "edit_parent op s p v w = Inr w'" and "op \<in> {''add'', ''replace''}" and "s \<noteq> ''-''"
  shows "pointer_child w' s [] = Inr v"
proof (cases w)
  case (PList xs)
  with assms obtain i where i: "list_index s p (length xs) (op = ''add'') = Inr i"
    and w': "w' = PList (if op = ''add'' then take i xs @ [v] @ drop i xs else xs[i := v])"
    by (auto simp: edit_parent_def split: if_splits)
  then have inside: "i \<le> length xs" "op \<noteq> ''add'' \<Longrightarrow> i < length xs" "parse_int s = Some (int i)"
    by (auto simp: list_index_Inr split: if_splits)
  show ?thesis
  proof (cases "op = ''add''")
    case True
    then have "list_index s [] (Suc (length xs)) False = Inr i"
      using inside by (simp add: list_index_Inr)
    then show ?thesis using True inside(1) w' by (simp add: pointer_child_def nth_append)
  next
    case False
    then have "list_index s [] (length xs) False = Inr i"
      using inside by (simp add: list_index_Inr)
    then show ?thesis using False inside(2) w' by (simp add: pointer_child_def)
  qed
qed (use assms in \<open>auto simp: edit_parent_def pointer_child_def update_conv split: if_splits\<close>)

lemma edit_parent_removed:
  "edit_parent ''remove'' s p v (PDict d) = Inr w' \<Longrightarrow> pointer_child w' s [] = Inl (pointer_missing [])"
  by (auto simp: edit_parent_def pointer_child_def delete_conv split: if_splits)

text \<open>Where an addition creates a new part: a position of a list, or a key the mapping does not have.\<close>

definition insertable :: "pyval \<Rightarrow> string \<Rightarrow> bool" where
  "insertable parent final =
     (case parent of PList xs \<Rightarrow> final \<noteq> ''-'' | PDict d \<Rightarrow> map_of d final = None | _ \<Rightarrow> False)"

lemma edit_parent_undo:
  assumes "edit_parent ''add'' s p v w = Inr w'" and "insertable w s"
  shows "edit_parent ''remove'' s q u w' = Inr w"
proof (cases w)
  case (PList xs)
  with assms obtain i where i: "list_index s p (length xs) True = Inr i" "w' = PList (take i xs @ [v] @ drop i xs)"
    by (auto simp: edit_parent_def insertable_def)
  then have "list_index s q (Suc (length xs)) False = Inr i" "i \<le> length xs"
    by (simp_all add: list_index_Inr)
  with i PList show ?thesis by (simp add: edit_parent_def)
next
  case (PDict d)
  with assms have "w' = PDict (AList.update s v d)" "s \<notin> fst ` set d"
    by (auto simp: edit_parent_def insertable_def map_of_eq_None_iff)
  with PDict show ?thesis by (simp add: edit_parent_def update_conv delete_update_same delete_id)
qed (use assms in \<open>simp_all add: insertable_def\<close>)

lemma edit_keeps_mapping: "apply_json_edit i v e = Inr v' \<Longrightarrow> is_mapping v \<Longrightarrow> is_mapping v'"
proof (drule apply_json_edit_Inr(1), cases v)
  fix d
  let ?p = "the_str (get_item e ''path'')"
  assume "edit_at (edit_parent (the_str (get_item e ''op'')) (last (pointer_segments ?p)) ?p (get_item e ''value'')) ?p v
    (butlast (pointer_segments ?p)) = Inr v'" and "v = PDict d"
  then show "is_mapping v'"
    by (cases "butlast (pointer_segments ?p)") (auto simp: edit_parent_def put_child_def split: if_splits)
qed simp_all

text \<open>The edited document is again a mapping.\<close>

theorem edited_document_is_mapping:
  assumes "apply_json_edits document edits = Inr w"
  shows "is_mapping w"
  using assms unfolding apply_json_edits_def
  by (rule foldM_r_invariant) (auto intro: edit_keeps_mapping)

text \<open>A document and an edit of one of its limits.\<close>

definition sample_document :: pydict where
  "sample_document =
     [(''name'', PStr ''p''), (''limits'', PDict [(''tool_calls'', PInt 3)]),
      (''steps'', PList [PDict [(''terminal'', PStr ''succeeded'')]])]"

definition sample_edit :: pydict where
  "sample_edit = [(''op'', PStr ''replace''), (''path'', PStr ''/limits/tool_calls''), (''value'', PInt 5)]"

lemma sample_pointer:
  "the_str (get_item sample_edit ''op'') = ''replace''" "get_item sample_edit ''value'' = PInt 5"
  "pointer_segments (the_str (get_item sample_edit ''path'')) = [''limits'', ''tool_calls'']"
  by code_simp+

lemma sample_edit_applies: "is_ok (apply_json_edit 0 (PDict sample_document) sample_edit)"
  by code_simp

lemma sample_addition_applies:
  "is_ok (apply_json_edits sample_document
     [[(''op'', PStr ''add''), (''path'', PStr ''/steps/0''), (''value'', PDict [(''gate'', PStr ''x'')])]])"
  by code_simp



text \<open>Adding a new part at a pointer and removing it there gives the document back, in the same order of keys.\<close>

theorem add_then_remove:
  assumes "apply_json_edits document [[(''op'', PStr ''add''), (''path'', PStr p), (''value'', v)]] = Inr w"
    and "\<exists>parent. pointer_value (PDict document) (butlast (pointer_segments p)) = Some parent
      \<and> insertable parent (last (pointer_segments p))"
  shows "apply_json_edits document
    [[(''op'', PStr ''add''), (''path'', PStr p), (''value'', v)], [(''op'', PStr ''remove''), (''path'', PStr p)]]
    = Inr (PDict document)"
proof -
  have guards: "startswith p ''/''" "pointer_segments p \<noteq> []" "pointer_segments p \<noteq> [[]]"
    and edited: "edit_at (edit_parent ''add'' (last (pointer_segments p)) p v) p (PDict document) (butlast (pointer_segments p)) = Inr w"
    using assms(1) by (auto simp: apply_json_edits_def apply_json_edit_def set_member_def Let_def)
  have "edit_at (edit_parent ''remove'' (last (pointer_segments p)) p PNone) p w (butlast (pointer_segments p))
      = Inr (PDict document)"
    using edited by (rule edit_at_undo) (use assms(2) edit_parent_undo in force)
  with guards edited show ?thesis
    by (simp add: apply_json_edits_def apply_json_edit_def set_member_def Let_def)
qed

theorem add_then_remove_witness:
  "is_ok (apply_json_edits sample_document
     [[(''op'', PStr ''add''), (''path'', PStr ''/steps/0''), (''value'', PDict [(''gate'', PStr ''x'')])]])
   \<and> apply_json_edits sample_document
     [[(''op'', PStr ''add''), (''path'', PStr ''/steps/0''), (''value'', PDict [(''gate'', PStr ''x'')])],
      [(''op'', PStr ''remove''), (''path'', PStr ''/steps/0'')]]
     = Inr (PDict sample_document)"
proof -
  obtain w where w: "apply_json_edits sample_document
     [[(''op'', PStr ''add''), (''path'', PStr ''/steps/0''), (''value'', PDict [(''gate'', PStr ''x'')])]] = Inr w"
    using sample_addition_applies by (auto simp: is_ok_iff)
  have segments: "pointer_segments ''/steps/0'' = [''steps'', ''0'']" by code_simp
  have "\<exists>parent. pointer_value (PDict sample_document) (butlast (pointer_segments ''/steps/0'')) = Some parent
      \<and> insertable parent (last (pointer_segments ''/steps/0''))"
    by (simp add: segments sample_document_def pointer_child_def insertable_def)
  with add_then_remove [OF w] sample_addition_applies show ?thesis by blast
qed

section \<open>Pointers that differ from the standard\<close>

text \<open>
  A position may be written with a sign, with leading zeros and with underscores, which RFC 6901 does not allow.
\<close>

theorem list_index_lenient: "list_index ''+0_1'' pointer 2 False = Inr 1"
proof -
  have "parse_int ''+0_1'' = Some 1" by code_simp
  then show ?thesis by (simp add: list_index_Inr)
qed

text \<open>The pointer \<^verbatim>\<open>/\<close>, which names the empty key, is refused as the document root.\<close>

theorem empty_key_refused:
  "apply_json_edits [([], PInt 1)] [[(''op'', PStr ''replace''), (''path'', PStr ''/''), (''value'', PInt 2)]]
     = Inl (ValueError ''edits[0].path cannot target the document root'')"
  by code_simp

end
