(* ===== verification/Delivery_Types.thy ===== *)
theory Delivery_Types
  imports Py_Value
begin

text \<open>
  The typed delivery profile of \<^verbatim>\<open>core/delivery_profile.py\<close>: the closed set of delivery
  phases and persona types, the profile's data classes and their serializers.
  Validation and parsing are in \<open>Delivery_Profile\<close>.
\<close>

section \<open>Phases and personas\<close>

datatype phase_type =
    INTAKE | SPECIFY | REVIEW_SPECIFICATIONS | DECOMPOSE | REVIEW_PROPOSED_PRS | PLAN_PR
  | AWAIT_PLAN_DECISION | BUILD | VALIDATE | REVIEW_PR | RESOLVE_FINDINGS | CONFIRM_READINESS
  | PUBLISH_PR | COMPLETE_FEATURE

definition phase_members :: "phase_type list" where
  "phase_members =
     [INTAKE, SPECIFY, REVIEW_SPECIFICATIONS, DECOMPOSE, REVIEW_PROPOSED_PRS, PLAN_PR,
      AWAIT_PLAN_DECISION, BUILD, VALIDATE, REVIEW_PR, RESOLVE_FINDINGS, CONFIRM_READINESS,
      PUBLISH_PR, COMPLETE_FEATURE]"

fun phase_value :: "phase_type \<Rightarrow> string" where
  "phase_value INTAKE = ''intake''"
| "phase_value SPECIFY = ''specify''"
| "phase_value REVIEW_SPECIFICATIONS = ''review_specifications''"
| "phase_value DECOMPOSE = ''decompose''"
| "phase_value REVIEW_PROPOSED_PRS = ''review_proposed_prs''"
| "phase_value PLAN_PR = ''plan_pr''"
| "phase_value AWAIT_PLAN_DECISION = ''await_plan_decision''"
| "phase_value BUILD = ''build''"
| "phase_value VALIDATE = ''validate''"
| "phase_value REVIEW_PR = ''review_pr''"
| "phase_value RESOLVE_FINDINGS = ''resolve_findings''"
| "phase_value CONFIRM_READINESS = ''confirm_readiness''"
| "phase_value PUBLISH_PR = ''publish_pr''"
| "phase_value COMPLETE_FEATURE = ''complete_feature''"

datatype persona_type =
    ARCHITECT | ENGINEERING_MANAGER | ENGINEER | SPECIFICATION_REVIEWER | CODE_REVIEWER

definition persona_members :: "persona_type list" where
  "persona_members =
     [ARCHITECT, ENGINEERING_MANAGER, ENGINEER, SPECIFICATION_REVIEWER, CODE_REVIEWER]"

fun persona_value :: "persona_type \<Rightarrow> string" where
  "persona_value ARCHITECT = ''architect''"
| "persona_value ENGINEERING_MANAGER = ''engineering_manager''"
| "persona_value ENGINEER = ''engineer''"
| "persona_value SPECIFICATION_REVIEWER = ''specification_reviewer''"
| "persona_value CODE_REVIEWER = ''code_reviewer''"

declare phase_members_def [enum_defs] persona_members_def [enum_defs]

lemma phase_cases_complete: "e \<in> set phase_members"
  by (cases e) (simp_all add: phase_members_def)

lemma persona_cases_complete: "e \<in> set persona_members"
  by (cases e) (simp_all add: persona_members_def)

interpretation phase_enum: str_enum phase_members phase_value
  by unfold_locales (rule phase_cases_complete, simp add: phase_members_def)

interpretation persona_enum: str_enum persona_members persona_value
  by unfold_locales (rule persona_cases_complete, simp add: persona_members_def)

lemma phase_value_canonical [simp]: "canonical (phase_value p)"
  by (rule phase_enum.val_canonical) code_simp

definition PhaseType :: "pyval \<Rightarrow> phase_type result" where
  "PhaseType v = enum_of ''PhaseType'' phase_value phase_members v"

definition PersonaType :: "pyval \<Rightarrow> persona_type result" where
  "PersonaType v = enum_of ''PersonaType'' persona_value persona_members v"

lemma PhaseType_Inr [simp]: "PhaseType v = Inr p \<longleftrightarrow> v = PStr (phase_value p)"
  by (simp add: PhaseType_def enum_of_Inr phase_enum.str_enum_axioms)

lemma PersonaType_Inr [simp]: "PersonaType v = Inr p \<longleftrightarrow> v = PStr (persona_value p)"
  by (simp add: PersonaType_def enum_of_Inr persona_enum.str_enum_axioms)

lemma PhaseType_value [simp]: "PhaseType (PStr (phase_value p)) = Inr p"
  by simp

definition SUPPORTED_ARTIFACT_TYPES :: "string list" where
  "SUPPORTED_ARTIFACT_TYPES =
     [''request'', ''specification'', ''specification_review'', ''proposed_pr'',
      ''proposed_pr_review'', ''execution_plan'', ''implementation'', ''validation_evidence'',
      ''specification_findings'', ''code_findings'', ''readiness_report'', ''published_pr'']"

fun expected_phase_persona_types :: "phase_type \<Rightarrow> persona_type list" where
  "expected_phase_persona_types INTAKE = [ARCHITECT]"
| "expected_phase_persona_types SPECIFY = [ARCHITECT]"
| "expected_phase_persona_types REVIEW_SPECIFICATIONS = [SPECIFICATION_REVIEWER]"
| "expected_phase_persona_types DECOMPOSE = [ENGINEERING_MANAGER]"
| "expected_phase_persona_types REVIEW_PROPOSED_PRS = [SPECIFICATION_REVIEWER]"
| "expected_phase_persona_types PLAN_PR = [ENGINEER]"
| "expected_phase_persona_types AWAIT_PLAN_DECISION = [ENGINEERING_MANAGER]"
| "expected_phase_persona_types BUILD = [ENGINEER]"
| "expected_phase_persona_types VALIDATE = [ENGINEER]"
| "expected_phase_persona_types REVIEW_PR = [CODE_REVIEWER]"
| "expected_phase_persona_types RESOLVE_FINDINGS = [ENGINEER]"
| "expected_phase_persona_types CONFIRM_READINESS = [CODE_REVIEWER]"
| "expected_phase_persona_types PUBLISH_PR = [ENGINEERING_MANAGER]"
| "expected_phase_persona_types COMPLETE_FEATURE = [ENGINEERING_MANAGER]"

section \<open>Data classes\<close>

record persona_definition =
  pd_persona_id :: string
  pd_persona_type :: persona_type
  pd_model_profile :: string
  pd_prompt_catalogs :: "string list"
  pd_process_references :: "string list"
  pd_step_budget :: "int option"

record phase_assignment =
  pa_phase_type :: phase_type
  pa_persona_id :: string
  pa_input_artifacts :: "string list"
  pa_output_artifacts :: "string list"
  pa_validation_profiles :: "string list"
  pa_auto_approve_low_risk_plan :: bool

record artifact_handoff =
  ah_source_phase :: phase_type
  ah_destination_phase :: phase_type
  ah_artifact_type :: string
  ah_owner_persona_id :: string
  ah_required :: bool

record review_assignment =
  ra_reviewer_persona_id :: string
  ra_artifact_types :: "string list"
  ra_independent :: bool
  ra_blocking_severities :: "string list"

record delivery_profile =
  dp_schema_version :: string
  dp_profile_id :: string
  dp_personas :: "persona_definition list"
  dp_phases :: "phase_assignment list"
  dp_artifact_handoffs :: "artifact_handoff list"
  dp_reviews :: "review_assignment list"

section \<open>Serializers\<close>

definition str_list :: "string list \<Rightarrow> pyval" where
  "str_list xs = PList (map PStr xs)"

definition list_entry :: "string \<Rightarrow> string list \<Rightarrow> pydict" where
  "list_entry k xs = (if xs = [] then [] else [(k, str_list xs)])"

definition persona_to_data :: "persona_definition \<Rightarrow> pydict" where
  "persona_to_data p =
     [(''persona_id'', PStr (pd_persona_id p)),
      (''persona_type'', PStr (persona_value (pd_persona_type p))),
      (''model_profile'', PStr (pd_model_profile p))]
     @ list_entry ''prompt_catalogs'' (pd_prompt_catalogs p)
     @ list_entry ''process_references'' (pd_process_references p)
     @ (case pd_step_budget p of None \<Rightarrow> [] | Some n \<Rightarrow> [(''step_budget'', PInt n)])"

definition phase_to_data :: "phase_assignment \<Rightarrow> pydict" where
  "phase_to_data p =
     [(''phase_type'', PStr (phase_value (pa_phase_type p))),
      (''persona_id'', PStr (pa_persona_id p))]
     @ list_entry ''input_artifacts'' (pa_input_artifacts p)
     @ list_entry ''output_artifacts'' (pa_output_artifacts p)
     @ list_entry ''validation_profiles'' (pa_validation_profiles p)
     @ (if pa_auto_approve_low_risk_plan p then []
        else [(''auto_approve_low_risk_plan'', PBool False)])"

definition handoff_to_data :: "artifact_handoff \<Rightarrow> pydict" where
  "handoff_to_data h =
     [(''source_phase'', PStr (phase_value (ah_source_phase h))),
      (''destination_phase'', PStr (phase_value (ah_destination_phase h))),
      (''artifact_type'', PStr (ah_artifact_type h)),
      (''owner_persona_id'', PStr (ah_owner_persona_id h))]
     @ (if ah_required h then [] else [(''required'', PBool False)])"

definition review_to_data :: "review_assignment \<Rightarrow> pydict" where
  "review_to_data r =
     [(''reviewer_persona_id'', PStr (ra_reviewer_persona_id r)),
      (''artifact_types'', str_list (ra_artifact_types r))]
     @ (if ra_independent r then [] else [(''independent'', PBool False)])
     @ (if ra_blocking_severities r = [''blocking''] then []
        else [(''blocking_severities'', str_list (ra_blocking_severities r))])"

definition profile_to_data :: "delivery_profile \<Rightarrow> pydict" where
  "profile_to_data p =
     [(''schema_version'', PStr (dp_schema_version p)),
      (''profile_id'', PStr (dp_profile_id p)),
      (''personas'', PList (map (PDict \<circ> persona_to_data) (dp_personas p))),
      (''phases'', PList (map (PDict \<circ> phase_to_data) (dp_phases p)))]
     @ (if dp_artifact_handoffs p = [] then []
        else [(''artifact_handoffs'', PList (map (PDict \<circ> handoff_to_data) (dp_artifact_handoffs p)))])
     @ (if dp_reviews p = [] then []
        else [(''reviews'', PList (map (PDict \<circ> review_to_data) (dp_reviews p)))])"

end
