(* ===== verification/Task_Step.thy ===== *)
theory Task_Step
  imports Py_Value
begin

text \<open>
  \<^verbatim>\<open>process/task_step.py\<close>: the execution settings of a workflow task, their documents and the strict
  parser. Every check of the parser is a branch, in the order of the source. An environment is the
  sorted list of its entries; \<^verbatim>\<open>dict.fromkeys\<close> over invocations is \<open>py_dedup\<close>.
\<close>

section \<open>Constants\<close>

definition SUPPORTED_TASK_STEP_TYPES :: "string list" where
  "SUPPORTED_TASK_STEP_TYPES = [''governed'', ''invoke_tool'', ''gate'', ''coding_loop'']"

definition SUPPORTED_TASK_INTERACTION_STYLES :: "string list" where
  "SUPPORTED_TASK_INTERACTION_STYLES = [''engineering'', ''observational_review'', ''devils_advocate'']"

definition SUPPORTED_TASK_ACTIONS :: "string list" where
  "SUPPORTED_TASK_ACTIONS =
     [''gather_context'', ''prompt_user'', ''edit'', ''yaml_edit'', ''file_management'', ''delete_file'',
      ''task_run_process'', ''task_complete'', ''task_handoff'', ''invoke_tool'', ''read_document'',
      ''list_files'', ''respond'']"

definition BASEDPYRIGHT_TOOLS :: "string list" where
  "BASEDPYRIGHT_TOOLS = [''basedpyright-symbol'', ''basedpyright-structure'']"

definition SUPPORTED_TOOLS :: "string list" where
  "SUPPORTED_TOOLS =
     [''shell'', ''internal'', ''git'', ''gh'', ''fuzzy-match'', ''enrich'', ''validate_edit'',
      ''apply_edit'', ''ref''] @ BASEDPYRIGHT_TOOLS"

definition package_entry :: "string \<Rightarrow> string \<Rightarrow> pydict" where
  "package_entry tool operation = [(''tool'', PStr tool), (''operation'', PStr operation)]"

definition GIT_READONLY :: "pydict list" where
  "GIT_READONLY = map (package_entry ''git'')
     [''status'', ''remote'', ''branch_current'', ''head'', ''default_branch'', ''show_ref'', ''verify_pr_scope'']"

definition GIT_ADDITIVE :: "pydict list" where
  "GIT_ADDITIVE = map (package_entry ''git'')
     [''add'', ''commit'', ''push'', ''switch'', ''switch_create'', ''move'', ''rename'']"

definition GH_READONLY :: "pydict list" where
  "GH_READONLY = map (package_entry ''gh'')
     [''pr_view'', ''pr_diff'', ''pr_checks'', ''pr_comments'', ''pr_review_threads'']"

definition GH_WRITE :: "pydict list" where
  "GH_WRITE = map (package_entry ''gh'')
     [''pr_create'', ''pr_publish_clean'', ''pr_edit'', ''pr_review_comment'', ''pr_review_reply'',
      ''pr_review_resolve'']"

definition TOOL_PACKAGES :: "(string \<times> pydict list) list" where
  "TOOL_PACKAGES =
     [(''git_readonly'', GIT_READONLY), (''git_additive'', GIT_ADDITIVE),
      (''gh_readonly'', GH_READONLY), (''gh_write'', GH_WRITE),
      (''git_readonly_and_additive'', GIT_READONLY @ GIT_ADDITIVE),
      (''gh_readonly_and_write'', GH_READONLY @ GH_WRITE)]"

section \<open>Data classes\<close>

record tool_invocation =
  ti_tool :: string
  ti_command :: "string list"
  ti_operation :: "string option"
  ti_label :: "string option"
  ti_cwd :: "string option"
  ti_env :: "(string \<times> string) list"

definition env_entry :: "(string \<times> string) list \<Rightarrow> pydict" where
  "env_entry env = (if env = [] then [] else [(''env'', PDict (map (\<lambda>(k, v). (k, PStr v)) env))])"

definition invocation_to_data :: "tool_invocation \<Rightarrow> pydict" where
  "invocation_to_data i =
     [(''tool'', PStr (ti_tool i))]
     @ (if ti_command i = [] then [] else [(''command'', PList (map PStr (ti_command i)))])
     @ entry_if ''operation'' (ti_operation i)
     @ entry_if ''label'' (ti_label i)
     @ entry_if ''cwd'' (ti_cwd i)
     @ env_entry (ti_env i)"

record task_pre_step =
  ps_action :: string
  ps_template :: pydict

definition pre_step_to_data :: "task_pre_step \<Rightarrow> pydict" where
  "pre_step_to_data p = [(''action'', PStr (ps_action p)), (''template'', PDict (ps_template p))]"

record task_gate =
  tg_outcome :: pydict
  tg_goto_step :: string
  tg_retry_context :: string
  tg_success_goto_step :: "string option"

definition gate_to_data :: "task_gate \<Rightarrow> pydict" where
  "gate_to_data g =
     [(''outcome'', PDict (tg_outcome g)), (''goto_step'', PStr (tg_goto_step g)),
      (''retry_context'', PStr (tg_retry_context g))]
     @ entry_if ''success_goto_step'' (tg_success_goto_step g)"

datatype verification_command = ShellText string | Argv "string list"

record coding_loop_verification =
  clv_id :: string
  clv_command :: verification_command
  clv_cwd :: "string option"
  clv_env :: "(string \<times> string) list"

definition verification_to_data :: "coding_loop_verification \<Rightarrow> pydict" where
  "verification_to_data v =
     [(''id'', PStr (clv_id v)),
      (''command'', case clv_command v of ShellText s \<Rightarrow> PStr s | Argv xs \<Rightarrow> PList (map PStr xs))]
     @ entry_if ''cwd'' (clv_cwd v)
     @ env_entry (clv_env v)"

record coding_loop_spec =
  cl_goal :: string
  cl_verification :: "coding_loop_verification list"
  cl_stopping_conditions :: "string list"
  cl_max_iterations :: int

definition coding_loop_to_data :: "coding_loop_spec \<Rightarrow> pydict" where
  "coding_loop_to_data c =
     [(''goal'', PStr (cl_goal c)),
      (''verification'', PList (map (PDict \<circ> verification_to_data) (cl_verification c))),
      (''stopping_conditions'', PList (map PStr (cl_stopping_conditions c))),
      (''max_iterations'', PInt (cl_max_iterations c))]"

record task_execution_settings =
  se_details :: "string option"
  se_llm_type :: "string option"
  se_interaction_style :: "string option"
  se_tool_invocations :: "tool_invocation list"
  se_prompt_catalogs :: "string list"
  se_actions :: "string list"
  se_actions_declared :: bool
  se_step_type :: string
  se_pre_step :: "task_pre_step option"
  se_gate :: "task_gate option"
  se_coding_loop :: "coding_loop_spec option"

section \<open>Parsers\<close>

fun step_optional_string :: "pyval \<Rightarrow> string option" where
  "step_optional_string (PStr s) = (if strip s = [] then None else Some (strip s))"
| "step_optional_string _ = None"

definition step_required_string :: "pyval \<Rightarrow> string \<Rightarrow> string result" where
  "step_required_string v key =
     (case step_optional_string v of
        None \<Rightarrow> Inl (ValueError (''Workflow task '' @ key @ '' must be a non-empty string.''))
      | Some s \<Rightarrow> Inr s)"

definition parse_string_sequence :: "pyval \<Rightarrow> string \<Rightarrow> string list result" where
  "parse_string_sequence v name =
     (case v of
        PNone \<Rightarrow> Inr []
      | PList items \<Rightarrow> mapM_r (\<lambda>item. step_required_string item name) items
      | _ \<Rightarrow> Inl (ValueError (''Workflow task '' @ name @ '' must be an array.'')))"

definition string_mapping :: "pyval \<Rightarrow> string \<Rightarrow> (string \<times> string) list result" where
  "string_mapping v name =
     (case v of
        PNone \<Rightarrow> Inr []
      | PDict d \<Rightarrow>
          foldM_r (\<lambda>acc (k, item).
            bind_r (step_required_string (PStr k) ''key'') (\<lambda>key.
            bind_r (step_required_string item ''value'') (\<lambda>val. Inr (AList.update key val acc)))) [] d
      | _ \<Rightarrow> Inl (ValueError (''Workflow task '' @ name @ '' must be an object.'')))"

definition parse_env :: "pydict \<Rightarrow> (string \<times> string) list result" where
  "parse_env d = bind_r (string_mapping (get_item d ''env'') ''env'') (\<lambda>env. Inr (sort_key fst env))"

definition parse_command :: "pyval list \<Rightarrow> string list result" where
  "parse_command parts = mapM_r (\<lambda>part. step_required_string part ''command'') parts"

definition parse_tool_invocation :: "pyval \<Rightarrow> tool_invocation result" where
  "parse_tool_invocation v =
     (case v of
        PDict d \<Rightarrow>
          bind_r (step_required_string (get_item d ''tool'') ''tool'') (\<lambda>tool.
          bind_r (guard_r (tool \<in> set SUPPORTED_TOOLS)
            (ValueError (''Unsupported workflow task tool '' @ py_repr tool @ ''.''))) (\<lambda>_.
          let operation = step_optional_string (get_item d ''operation'');
              command_value = get_item d ''command'' in
          bind_r
            (if operation \<noteq> None then
               (if command_value \<noteq> PNone
                then Inl (ValueError ''Structured task tool invocations must not include command.'')
                else Inr [])
             else (case command_value of
                 PNone \<Rightarrow> Inr []
               | PList parts \<Rightarrow> parse_command parts
               | _ \<Rightarrow> Inl (ValueError ''Workflow task tool invocation command must be an array.''))) (\<lambda>command.
          bind_r (parse_env d) (\<lambda>env.
          Inr \<lparr>ti_tool = tool, ti_command = command, ti_operation = operation,
               ti_label = step_optional_string (get_item d ''label''),
               ti_cwd = step_optional_string (get_item d ''cwd''), ti_env = env\<rparr>))))
      | _ \<Rightarrow> Inl (ValueError ''Workflow task tool_invocations entries must be objects.''))"

definition parse_tool_invocations :: "pyval \<Rightarrow> tool_invocation list result" where
  "parse_tool_invocations v =
     (case v of
        PNone \<Rightarrow> Inr []
      | PList items \<Rightarrow> mapM_r parse_tool_invocation items
      | _ \<Rightarrow> Inl (ValueError ''Workflow task tool_invocations must be an array.''))"

definition parse_pre_step :: "pyval \<Rightarrow> task_pre_step option result" where
  "parse_pre_step v =
     (case v of
        PNone \<Rightarrow> Inr None
      | PDict d \<Rightarrow>
          bind_r (step_required_string (get_item d ''action'') ''action'') (\<lambda>action.
          case get_item d ''template'' of
            PDict template \<Rightarrow>
              if action \<in> {''gather_context'', ''invoke_tool''}
              then Inr (Some \<lparr>ps_action = action, ps_template = template\<rparr>)
              else Inl (ValueError ''Workflow task pre_step must declare a supported action and template.'')
          | _ \<Rightarrow> Inl (ValueError ''Workflow task pre_step must declare a supported action and template.''))
      | _ \<Rightarrow> Inl (ValueError ''Workflow task pre_step must be an object.''))"

definition parse_gate :: "pyval \<Rightarrow> task_gate option result" where
  "parse_gate v =
     (case v of
        PNone \<Rightarrow> Inr None
      | PDict d \<Rightarrow>
          (case get_item d ''outcome'' of
             PDict outcome \<Rightarrow>
               if step_optional_string (get_item outcome ''path'') = None \<or> map_of outcome ''equals'' = None
               then Inl (ValueError ''Workflow task gate outcome must declare path and equals.'')
               else
                 bind_r (step_required_string (get_item d ''goto_step'') ''goto_step'') (\<lambda>goto.
                 bind_r (step_required_string (get_item d ''retry_context'') ''retry_context'') (\<lambda>retry.
                 Inr (Some \<lparr>tg_outcome = outcome, tg_goto_step = goto, tg_retry_context = retry,
                   tg_success_goto_step = step_optional_string (get_item d ''success_goto_step'')\<rparr>)))
           | _ \<Rightarrow> Inl (ValueError ''Workflow task gate must declare an outcome object.''))
      | _ \<Rightarrow> Inl (ValueError ''Workflow task gate must declare an outcome object.''))"

definition parse_verification :: "pyval \<Rightarrow> coding_loop_verification result" where
  "parse_verification item =
     (case item of
        PDict d \<Rightarrow>
          bind_r (case get_item d ''command'' of
              PStr s \<Rightarrow> if strip s \<noteq> [] then Inr (ShellText s)
                else Inl (ValueError ''Workflow task verification command is required.'')
            | PList parts \<Rightarrow> bind_r (parse_command parts) (\<lambda>c. Inr (Argv c))
            | _ \<Rightarrow> Inl (ValueError ''Workflow task verification command is required.'')) (\<lambda>command.
          bind_r (step_required_string (get_item d ''id'') ''id'') (\<lambda>vid.
          bind_r (parse_env d) (\<lambda>env.
          Inr \<lparr>clv_id = vid, clv_command = command,
               clv_cwd = step_optional_string (get_item d ''cwd''), clv_env = env\<rparr>)))
      | _ \<Rightarrow> Inl (ValueError ''Workflow task coding_loop verification entries must be objects.''))"

definition parse_coding_loop :: "pyval \<Rightarrow> coding_loop_spec result" where
  "parse_coding_loop v =
     (case v of
        PDict d \<Rightarrow>
          (case get_default d ''verification'' (PList []) of
             PList items \<Rightarrow>
               bind_r (mapM_r parse_verification items) (\<lambda>verification.
               bind_r (guard_r (verification \<noteq> [])
                 (ValueError ''Workflow task coding_loop requires verification commands.'')) (\<lambda>_.
               case get_default d ''max_iterations'' (PInt 12) of
                 PInt n \<Rightarrow>
                   if 1 \<le> n \<and> n \<le> 100 then
                     bind_r (step_required_string (get_item d ''goal'') ''goal'') (\<lambda>goal.
                     bind_r (parse_string_sequence (get_item d ''stopping_conditions'') ''stopping_conditions'') (\<lambda>stops.
                     Inr \<lparr>cl_goal = goal, cl_verification = verification, cl_stopping_conditions = stops,
                          cl_max_iterations = n\<rparr>))
                   else Inl (ValueError ''Workflow task coding_loop max_iterations must be from 1 to 100.'')
               | _ \<Rightarrow> Inl (ValueError ''Workflow task coding_loop max_iterations must be from 1 to 100.'')))
           | _ \<Rightarrow> Inl (ValueError ''Workflow task coding_loop verification must be an array.''))
      | _ \<Rightarrow> Inl (ValueError ''Workflow task coding_loop must be an object.''))"

definition expand_package :: "tool_invocation list \<Rightarrow> string \<Rightarrow> tool_invocation list result" where
  "expand_package invocations package =
     (case map_of TOOL_PACKAGES package of
        None \<Rightarrow> Inl (ValueError (''Unsupported tool invocation package '' @ py_repr package @ ''.''))
      | Some entries \<Rightarrow> bind_r (mapM_r (parse_tool_invocation \<circ> PDict) entries) (\<lambda>more. Inr (invocations @ more)))"

definition parse_step_type :: "pyval \<Rightarrow> string" where
  "parse_step_type v =
     (case step_optional_string v of
        None \<Rightarrow> ''governed''
      | Some s \<Rightarrow> if s = ''freeform'' then ''governed'' else s)"

definition task_execution_settings_from_data :: "pydict \<Rightarrow> task_execution_settings result" where
  "task_execution_settings_from_data data =
     (let step_type = parse_step_type (get_item data ''step_type'');
          style = step_optional_string (get_item data ''interaction_style'') in
      bind_r (guard_r (step_type \<in> set SUPPORTED_TASK_STEP_TYPES)
        (ValueError ''Workflow task step_type is unsupported.'')) (\<lambda>_.
      bind_r (guard_r (case style of None \<Rightarrow> True | Some s \<Rightarrow> s \<in> set SUPPORTED_TASK_INTERACTION_STYLES)
        (ValueError ''Workflow task interaction_style is unsupported.'')) (\<lambda>_.
      bind_r (parse_tool_invocations (get_item data ''tool_invocations'')) (\<lambda>invocations.
      bind_r (parse_string_sequence (get_item data ''tool_invocation_packages'') ''tool_invocation_packages'') (\<lambda>packages.
      bind_r (foldM_r expand_package invocations packages) (\<lambda>expanded.
      bind_r (parse_string_sequence (get_item data ''prompt_catalogs'') ''prompt_catalogs'') (\<lambda>catalogs.
      bind_r (parse_string_sequence (get_item data ''actions'') ''actions'') (\<lambda>actions.
      bind_r (guard_r (set actions \<subseteq> set SUPPORTED_TASK_ACTIONS)
        (ValueError (''Workflow task actions are unsupported: '' @
          py_join '', '' (sorted_set (filter (\<lambda>a. a \<notin> set SUPPORTED_TASK_ACTIONS) actions))))) (\<lambda>_.
      bind_r (parse_pre_step (get_item data ''pre_step'')) (\<lambda>pre_step.
      bind_r (parse_gate (get_item data ''gate'')) (\<lambda>gate.
      bind_r (if get_item data ''coding_loop'' = PNone then Inr None
        else bind_r (parse_coding_loop (get_item data ''coding_loop'')) (\<lambda>c. Inr (Some c))) (\<lambda>coding_loop.
      bind_r (guard_r (\<not> (step_type \<in> {''invoke_tool'', ''gate''} \<and> pre_step = None))
        (ValueError ''invoke_tool and gate task steps must declare pre_step.'')) (\<lambda>_.
      bind_r (guard_r (\<not> (step_type = ''gate'' \<and> gate = None))
        (ValueError ''gate task steps must declare gate.'')) (\<lambda>_.
      bind_r (guard_r (\<not> (step_type \<noteq> ''gate'' \<and> gate \<noteq> None))
        (ValueError ''Only gate task steps may declare gate.'')) (\<lambda>_.
      bind_r (guard_r (\<not> (step_type = ''coding_loop'' \<and> coding_loop = None))
        (ValueError ''coding_loop task steps must declare coding_loop.'')) (\<lambda>_.
      bind_r (guard_r (\<not> (step_type \<noteq> ''coding_loop'' \<and> coding_loop \<noteq> None))
        (ValueError ''Only coding_loop task steps may declare coding_loop.'')) (\<lambda>_.
      Inr \<lparr>se_details = step_optional_string (get_item data ''details''),
           se_llm_type = step_optional_string (get_item data ''llm_type''),
           se_interaction_style = style, se_tool_invocations = py_dedup expanded,
           se_prompt_catalogs = catalogs, se_actions = actions,
           se_actions_declared = (map_of data ''actions'' \<noteq> None), se_step_type = step_type,
           se_pre_step = pre_step, se_gate = gate, se_coding_loop = coding_loop\<rparr>)))))))))))))))))"

section \<open>Documents the parser accepts and reproduces\<close>

definition opt_canonical :: "string option \<Rightarrow> bool" where
  "opt_canonical x = (case x of None \<Rightarrow> True | Some s \<Rightarrow> canonical s)"

definition env_ok :: "(string \<times> string) list \<Rightarrow> bool" where
  "env_ok env \<longleftrightarrow> sorted (map fst env) \<and> distinct (map fst env) \<and>
     list_all (\<lambda>(k, v). canonical k \<and> canonical v) env"

definition invocation_ok :: "tool_invocation \<Rightarrow> bool" where
  "invocation_ok i \<longleftrightarrow> canonical (ti_tool i) \<and> ti_tool i \<in> set SUPPORTED_TOOLS \<and>
     list_all canonical (ti_command i) \<and> (ti_operation i = None \<or> ti_command i = []) \<and>
     opt_canonical (ti_operation i) \<and> opt_canonical (ti_label i) \<and> opt_canonical (ti_cwd i) \<and> env_ok (ti_env i)"

definition pre_step_ok :: "task_pre_step \<Rightarrow> bool" where
  "pre_step_ok p \<longleftrightarrow> ps_action p \<in> {''gather_context'', ''invoke_tool''}"

definition gate_ok :: "task_gate \<Rightarrow> bool" where
  "gate_ok g \<longleftrightarrow> step_optional_string (get_item (tg_outcome g) ''path'') \<noteq> None \<and>
     map_of (tg_outcome g) ''equals'' \<noteq> None \<and> canonical (tg_goto_step g) \<and>
     canonical (tg_retry_context g) \<and> opt_canonical (tg_success_goto_step g)"

definition verification_ok :: "coding_loop_verification \<Rightarrow> bool" where
  "verification_ok v \<longleftrightarrow> canonical (clv_id v) \<and>
     (case clv_command v of ShellText s \<Rightarrow> strip s \<noteq> [] | Argv xs \<Rightarrow> list_all canonical xs) \<and>
     opt_canonical (clv_cwd v) \<and> env_ok (clv_env v)"

definition coding_loop_ok :: "coding_loop_spec \<Rightarrow> bool" where
  "coding_loop_ok c \<longleftrightarrow> canonical (cl_goal c) \<and> cl_verification c \<noteq> [] \<and>
     list_all verification_ok (cl_verification c) \<and> list_all canonical (cl_stopping_conditions c) \<and>
     1 \<le> cl_max_iterations c \<and> cl_max_iterations c \<le> 100"

definition settings_ok :: "task_execution_settings \<Rightarrow> bool" where
  "settings_ok s \<longleftrightarrow>
     opt_canonical (se_details s) \<and> opt_canonical (se_llm_type s) \<and>
     (case se_interaction_style s of None \<Rightarrow> True | Some x \<Rightarrow> canonical x \<and> x \<in> set SUPPORTED_TASK_INTERACTION_STYLES) \<and>
     list_all invocation_ok (se_tool_invocations s) \<and> distinct (se_tool_invocations s) \<and>
     list_all canonical (se_prompt_catalogs s) \<and>
     list_all canonical (se_actions s) \<and> set (se_actions s) \<subseteq> set SUPPORTED_TASK_ACTIONS \<and>
     se_step_type s \<in> set SUPPORTED_TASK_STEP_TYPES \<and>
     (case se_pre_step s of None \<Rightarrow> True | Some p \<Rightarrow> pre_step_ok p) \<and>
     (case se_gate s of None \<Rightarrow> True | Some g \<Rightarrow> gate_ok g) \<and>
     (case se_coding_loop s of None \<Rightarrow> True | Some c \<Rightarrow> coding_loop_ok c) \<and>
     (se_step_type s \<in> {''invoke_tool'', ''gate''} \<longrightarrow> se_pre_step s \<noteq> None) \<and>
     (se_step_type s = ''gate'' \<longleftrightarrow> se_gate s \<noteq> None) \<and>
     (se_step_type s = ''coding_loop'' \<longleftrightarrow> se_coding_loop s \<noteq> None)"

lemma opt_canonical_simps [simp]: "opt_canonical None" "opt_canonical (Some s) \<longleftrightarrow> canonical s"
  by (simp_all add: opt_canonical_def)

lemma step_optional_canonical [simp]: "canonical s \<Longrightarrow> step_optional_string (PStr s) = Some s"
  by auto

lemma step_optional_opt_str [simp]: "opt_canonical x \<Longrightarrow> step_optional_string (opt_str x) = x"
  by (auto simp: opt_canonical_def split: option.splits)

lemma step_required_canonical [simp]: "canonical s \<Longrightarrow> step_required_string (PStr s) key = Inr s"
  by (simp add: step_required_string_def)

lemma step_required_Inr: "step_required_string v key = Inr s \<Longrightarrow> canonical s"
  by (cases v) (auto simp: step_required_string_def canonical_strip split: if_splits option.splits)

lemma step_optional_Some: "step_optional_string v = Some s \<Longrightarrow> canonical s"
  by (cases v) (auto simp: canonical_strip split: if_splits)

lemma mapM_required [simp]:
  "list_all canonical xs \<Longrightarrow> mapM_r (\<lambda>item. step_required_string item key) (map PStr xs) = Inr xs"
  by (induction xs) auto

lemma parse_string_sequence_list [simp]:
  "list_all canonical xs \<Longrightarrow> parse_string_sequence (PList (map PStr xs)) key = Inr xs"
  by (simp add: parse_string_sequence_def)

lemma string_mapping_fold:
  assumes "list_all (\<lambda>(k, v). canonical k \<and> canonical v) env" "distinct (map fst (acc @ env))"
  shows "foldM_r (\<lambda>acc (k, item).
      bind_r (step_required_string (PStr k) ''key'') (\<lambda>key.
      bind_r (step_required_string item ''value'') (\<lambda>val. Inr (AList.update key val acc))))
    acc (map (\<lambda>(k, v). (k, PStr v)) env) = Inr (acc @ env)"
  using assms
proof (induction env arbitrary: acc)
  case (Cons e env)
  obtain k v where e: "e = (k, v)" by force
  from Cons.prems have "k \<notin> fst ` set acc" by (auto simp: e)
  then have "AList.update k v acc = acc @ [(k, v)]" by (induction acc) auto
  with Cons.IH [of "acc @ [(k, v)]"] Cons.prems show ?case by (simp add: e)
qed simp

lemma parse_env_ok:
  assumes "env_ok env" "get_item d ''env'' = get_item (env_entry env) ''env''"
  shows "parse_env d = Inr env"
proof (cases "env = []")
  case False
  with assms show ?thesis
    using string_mapping_fold [of env "[]"]
    by (simp add: parse_env_def env_entry_def env_ok_def string_mapping_def sort_key_id_if_sorted)
qed (use assms in \<open>simp add: parse_env_def env_entry_def string_mapping_def\<close>)

lemma get_item_cond: "get_item ((if b then [] else [(k', v)]) @ d) k = (if \<not> b \<and> k' = k then v else get_item d k)"
  by simp

lemma get_item_env_entry: "k \<noteq> ''env'' \<Longrightarrow> get_item (env_entry env) k = PNone"
  by (simp add: env_entry_def)

lemmas step_lookups = get_item_cond get_item_entry_if get_item_env_entry

lemma parse_invocation_roundtrip:
  assumes "invocation_ok i"
  shows "parse_tool_invocation (PDict (invocation_to_data i)) = Inr i"
proof -
  let ?d = "invocation_to_data i"
  have l: "get_item ?d ''tool'' = PStr (ti_tool i)"
      "get_item ?d ''command'' = (if ti_command i = [] then PNone else PList (map PStr (ti_command i)))"
      "get_item ?d ''operation'' = opt_str (ti_operation i)"
      "get_item ?d ''label'' = opt_str (ti_label i)" "get_item ?d ''cwd'' = opt_str (ti_cwd i)"
      "get_item ?d ''env'' = get_item (env_entry (ti_env i)) ''env''"
    by (cases "ti_operation i"; cases "ti_label i"; cases "ti_cwd i";
        simp add: invocation_to_data_def step_lookups)+
  have "parse_env ?d = Inr (ti_env i)"
    using assms l(6) parse_env_ok by (simp add: invocation_ok_def)
  with assms l show ?thesis
    by (cases "ti_operation i"; cases "ti_command i = []")
      (auto simp: parse_tool_invocation_def invocation_ok_def Let_def parse_command_def guard_r_def)
qed

lemma parse_pre_step_roundtrip: "pre_step_ok p \<Longrightarrow> parse_pre_step (PDict (pre_step_to_data p)) = Inr (Some p)"
proof -
  assume ok: "pre_step_ok p"
  then have "canonical (ps_action p)"
    by (auto simp: pre_step_ok_def canonical_iff py_isspace_def)
  with ok show ?thesis
    by (auto simp: parse_pre_step_def pre_step_to_data_def pre_step_ok_def)
qed

lemma parse_gate_roundtrip:
  assumes "gate_ok g"
  shows "parse_gate (PDict (gate_to_data g)) = Inr (Some g)"
  using assms by (cases "tg_success_goto_step g") (auto simp: parse_gate_def gate_to_data_def gate_ok_def opt_canonical_def)

lemma parse_verification_roundtrip:
  assumes "verification_ok v"
  shows "parse_verification (PDict (verification_to_data v)) = Inr v"
proof -
  let ?d = "verification_to_data v"
  have l: "get_item ?d ''id'' = PStr (clv_id v)"
      "get_item ?d ''command'' = (case clv_command v of ShellText s \<Rightarrow> PStr s | Argv xs \<Rightarrow> PList (map PStr xs))"
      "get_item ?d ''cwd'' = opt_str (clv_cwd v)"
      "get_item ?d ''env'' = get_item (env_entry (clv_env v)) ''env''"
    by (cases "clv_cwd v"; simp add: verification_to_data_def step_lookups)+
  have "parse_env ?d = Inr (clv_env v)"
    using assms l(4) parse_env_ok by (simp add: verification_ok_def)
  with assms l show ?thesis
    by (cases "clv_command v") (auto simp: parse_verification_def verification_ok_def parse_command_def)
qed

lemma parse_coding_loop_roundtrip:
  assumes "coding_loop_ok c"
  shows "parse_coding_loop (PDict (coding_loop_to_data c)) = Inr c"
proof -
  have "mapM_r parse_verification (map (PDict \<circ> verification_to_data) (cl_verification c)) = Inr (cl_verification c)"
    unfolding mapM_r_map using assms parse_verification_roundtrip
    by (intro mapM_r_id) (auto simp: coding_loop_ok_def list_all_iff)
  with assms show ?thesis
    by (auto simp: parse_coding_loop_def coding_loop_to_data_def coding_loop_ok_def)
qed

lemma step_types_canonical: "s \<in> set SUPPORTED_TASK_STEP_TYPES \<Longrightarrow> parse_step_type (PStr s) = s"
proof -
  have "list_all (\<lambda>s. parse_step_type (PStr s) = s) SUPPORTED_TASK_STEP_TYPES" by code_simp
  then show "s \<in> set SUPPORTED_TASK_STEP_TYPES \<Longrightarrow> parse_step_type (PStr s) = s"
    by (auto simp: list_all_iff)
qed

text \<open>The fields a task document keeps of its settings; absent ones are \<^verbatim>\<open>None\<close> to the parser.\<close>

definition list_or_none :: "('a \<Rightarrow> pyval) \<Rightarrow> 'a list \<Rightarrow> pyval" where
  "list_or_none f xs = (if xs = [] then PNone else PList (map f xs))"

definition settings_fields :: "pydict \<Rightarrow> task_execution_settings \<Rightarrow> bool" where
  "settings_fields data s \<longleftrightarrow>
     get_item data ''step_type'' = PStr (se_step_type s) \<and>
     get_item data ''details'' = opt_str (se_details s) \<and>
     get_item data ''llm_type'' = opt_str (se_llm_type s) \<and>
     get_item data ''interaction_style'' = opt_str (se_interaction_style s) \<and>
     get_item data ''tool_invocations'' = list_or_none (PDict \<circ> invocation_to_data) (se_tool_invocations s) \<and>
     get_item data ''tool_invocation_packages'' = PNone \<and>
     get_item data ''prompt_catalogs'' = list_or_none PStr (se_prompt_catalogs s) \<and>
     map_of data ''actions'' = (if se_actions_declared s then Some (PList (map PStr (se_actions s))) else None) \<and>
     (se_actions_declared s \<or> se_actions s = []) \<and>
     get_item data ''pre_step'' = (case se_pre_step s of None \<Rightarrow> PNone | Some p \<Rightarrow> PDict (pre_step_to_data p)) \<and>
     get_item data ''gate'' = (case se_gate s of None \<Rightarrow> PNone | Some g \<Rightarrow> PDict (gate_to_data g)) \<and>
     get_item data ''coding_loop'' = (case se_coding_loop s of None \<Rightarrow> PNone | Some c \<Rightarrow> PDict (coding_loop_to_data c))"

lemma parse_none [simp]: "parse_pre_step PNone = Inr None" "parse_gate PNone = Inr None"
  "parse_string_sequence PNone key = Inr []" "parse_tool_invocations PNone = Inr []"
  by (simp_all add: parse_pre_step_def parse_gate_def parse_string_sequence_def parse_tool_invocations_def)

lemma parse_sequence_or_none: "list_all canonical xs \<Longrightarrow> parse_string_sequence (list_or_none PStr xs) key = Inr xs"
  by (simp add: list_or_none_def parse_string_sequence_def)

lemma parse_invocations_or_none:
  "list_all invocation_ok xs \<Longrightarrow> parse_tool_invocations (list_or_none (PDict \<circ> invocation_to_data) xs) = Inr xs"
  by (simp add: list_or_none_def parse_tool_invocations_def mapM_r_map mapM_r_id list_all_iff
      parse_invocation_roundtrip)

lemma settings_roundtrip:
  assumes ok: "settings_ok s" and f: "settings_fields data s"
  shows "task_execution_settings_from_data data = Inr s"
proof -
  have actions: "parse_string_sequence (get_item data ''actions'') ''actions'' = Inr (se_actions s)"
    "(\<exists>y. map_of data ''actions'' = Some y) \<longleftrightarrow> se_actions_declared s"
    using ok f by (auto simp: get_item_def settings_fields_def settings_ok_def parse_string_sequence_def)
  have pre: "parse_pre_step (get_item data ''pre_step'') = Inr (se_pre_step s)"
    using ok f by (cases "se_pre_step s")
      (simp_all add: settings_fields_def settings_ok_def parse_pre_step_roundtrip)
  have gate: "parse_gate (get_item data ''gate'') = Inr (se_gate s)"
    using ok f by (cases "se_gate s")
      (simp_all add: settings_fields_def settings_ok_def parse_gate_roundtrip)
  have loop: "(if get_item data ''coding_loop'' = PNone then Inr None
      else bind_r (parse_coding_loop (get_item data ''coding_loop'')) (\<lambda>c. Inr (Some c))) = Inr (se_coding_loop s)"
    using ok f by (cases "se_coding_loop s")
      (auto simp: settings_fields_def settings_ok_def parse_coding_loop_roundtrip)
  have style: "step_optional_string (get_item data ''interaction_style'') = se_interaction_style s"
    "case se_interaction_style s of None \<Rightarrow> True | Some x \<Rightarrow> x \<in> set SUPPORTED_TASK_INTERACTION_STYLES"
    using ok f by (auto simp: settings_fields_def settings_ok_def split: option.splits)
  have others: "parse_step_type (get_item data ''step_type'') = se_step_type s"
      "step_optional_string (get_item data ''details'') = se_details s"
      "step_optional_string (get_item data ''llm_type'') = se_llm_type s"
      "parse_tool_invocations (get_item data ''tool_invocations'') = Inr (se_tool_invocations s)"
      "get_item data ''tool_invocation_packages'' = PNone"
      "parse_string_sequence (get_item data ''prompt_catalogs'') ''prompt_catalogs'' = Inr (se_prompt_catalogs s)"
    using ok f by (simp_all add: settings_fields_def settings_ok_def step_types_canonical
        parse_sequence_or_none parse_invocations_or_none)
  from ok show ?thesis
    unfolding task_execution_settings_from_data_def Let_def loop
    by (cases "se_gate s"; cases "se_coding_loop s"; cases "se_pre_step s")
      (simp_all add: settings_ok_def actions pre gate style others)
qed

section \<open>What the parser produces\<close>

lemma step_optional_canonical_out [simp]: "opt_canonical (step_optional_string v)"
  using step_optional_Some by (cases "step_optional_string v") auto

lemma mapM_required_out: "mapM_r (\<lambda>item. step_required_string item key) xs = Inr ys \<Longrightarrow> list_all canonical ys"
  using step_required_Inr by (fastforce simp: list_all_iff dest: mapM_r_all)

lemma parse_string_sequence_out: "parse_string_sequence v key = Inr xs \<Longrightarrow> list_all canonical xs"
  by (auto simp: parse_string_sequence_def mapM_required_out split: pyval.splits)

lemma string_mapping_out:
  assumes "string_mapping v key = Inr env"
  shows "distinct (map fst env) \<and> list_all (\<lambda>(k, v). canonical k \<and> canonical v) env"
proof (cases v)
  case (PDict d)
  let ?P = "\<lambda>env. distinct (map fst env) \<and> list_all (\<lambda>(k, v). canonical k \<and> canonical v) env"
  have "?P (AList.update k x acc)" if "?P acc" "canonical k" "canonical x" for k x acc
    using that set_update_subset [of k x acc] by (auto simp: distinct_keys_update list_all_iff)
  with assms PDict show ?thesis
    by (auto simp: string_mapping_def elim!: foldM_r_invariant [where I = ?P] dest!: step_required_Inr)
qed (use assms in \<open>auto simp: string_mapping_def\<close>)

lemma parse_env_out: "parse_env d = Inr env \<Longrightarrow> env_ok env"
  using string_mapping_out by (fastforce simp: parse_env_def env_ok_def list_all_iff distinct_map)

lemma parse_invocation_out: "parse_tool_invocation v = Inr i \<Longrightarrow> invocation_ok i"
  by (auto simp: parse_tool_invocation_def invocation_ok_def Let_def parse_command_def
      dest: parse_env_out step_required_Inr step_optional_Some mapM_required_out split: pyval.splits if_splits)

lemma parse_invocations_out: "parse_tool_invocations v = Inr xs \<Longrightarrow> list_all invocation_ok xs"
  using parse_invocation_out by (fastforce simp: parse_tool_invocations_def list_all_iff dest: mapM_r_all split: pyval.splits)

lemma expand_package_out: "expand_package xs pk = Inr ys \<Longrightarrow> list_all invocation_ok xs \<Longrightarrow> list_all invocation_ok ys"
  using parse_invocation_out by (fastforce simp: expand_package_def list_all_iff dest: mapM_r_all split: option.splits)

lemma parse_pre_step_out:
  assumes "parse_pre_step v = Inr (Some p)"
  shows "pre_step_ok p"
proof (cases v)
  case (PDict d)
  with assms show ?thesis
    by (cases "get_item d ''template''") (auto simp: parse_pre_step_def pre_step_ok_def split: if_splits)
qed (use assms in \<open>auto simp: parse_pre_step_def\<close>)

lemma parse_gate_out: "parse_gate v = Inr (Some g) \<Longrightarrow> gate_ok g"
  by (auto simp: parse_gate_def gate_ok_def dest: step_required_Inr split: pyval.splits if_splits)

lemma parse_verification_out: "parse_verification v = Inr x \<Longrightarrow> verification_ok x"
  by (auto simp: parse_verification_def verification_ok_def parse_command_def
      dest: parse_env_out step_required_Inr mapM_required_out split: pyval.splits if_splits)

lemma parse_coding_loop_out:
  assumes "parse_coding_loop v = Inr c"
  shows "coding_loop_ok c"
proof (cases v)
  case (PDict d)
  with assms obtain items where items: "get_default d ''verification'' (PList []) = PList items"
    by (cases "get_default d ''verification'' (PList [])") (auto simp: parse_coding_loop_def)
  with assms PDict obtain n where n: "get_default d ''max_iterations'' (PInt 12) = PInt n"
    by (cases "get_default d ''max_iterations'' (PInt 12)") (auto simp: parse_coding_loop_def)
  have "list_all verification_ok xs" if "mapM_r parse_verification items = Inr xs" for xs
    using that parse_verification_out by (fastforce simp: list_all_iff dest: mapM_r_all)
  with assms PDict items n show ?thesis
    by (auto simp: parse_coding_loop_def coding_loop_ok_def split: if_splits
        dest: parse_string_sequence_out step_required_Inr)
qed (use assms in \<open>auto simp: parse_coding_loop_def\<close>)

lemma settings_parsed_ok:
  assumes "task_execution_settings_from_data data = Inr s"
  shows "settings_ok s"
proof -
  have pk: "list_all invocation_ok ys" if "foldM_r expand_package xs pks = Inr ys" "list_all invocation_ok xs" for xs ys pks
    using that by (auto elim!: foldM_r_invariant [where I = "list_all invocation_ok"] dest: expand_package_out)
  let ?style = "step_optional_string (get_item data ''interaction_style'')"
  from assms obtain inv pks more cats acts pre gt loop where p:
      "parse_step_type (get_item data ''step_type'') \<in> set SUPPORTED_TASK_STEP_TYPES"
      "case ?style of None \<Rightarrow> True | Some x \<Rightarrow> x \<in> set SUPPORTED_TASK_INTERACTION_STYLES"
      "parse_tool_invocations (get_item data ''tool_invocations'') = Inr inv"
      "foldM_r expand_package inv pks = Inr more"
      "parse_string_sequence (get_item data ''prompt_catalogs'') ''prompt_catalogs'' = Inr cats"
      "parse_string_sequence (get_item data ''actions'') ''actions'' = Inr acts"
      "set acts \<subseteq> set SUPPORTED_TASK_ACTIONS"
      "parse_pre_step (get_item data ''pre_step'') = Inr pre" "parse_gate (get_item data ''gate'') = Inr gt"
      "(if get_item data ''coding_loop'' = PNone then Inr None
        else bind_r (parse_coding_loop (get_item data ''coding_loop'')) (\<lambda>c. Inr (Some c))) = Inr loop"
    and shape: "\<not> (se_step_type s \<in> {''invoke_tool'', ''gate''} \<and> pre = None)" "\<not> (se_step_type s = ''gate'' \<and> gt = None)"
      "\<not> (se_step_type s \<noteq> ''gate'' \<and> gt \<noteq> None)" "\<not> (se_step_type s = ''coding_loop'' \<and> loop = None)"
      "\<not> (se_step_type s \<noteq> ''coding_loop'' \<and> loop \<noteq> None)"
    and s: "s = \<lparr>se_details = step_optional_string (get_item data ''details''),
           se_llm_type = step_optional_string (get_item data ''llm_type''),
           se_interaction_style = ?style, se_tool_invocations = py_dedup more,
           se_prompt_catalogs = cats, se_actions = acts,
           se_actions_declared = (map_of data ''actions'' \<noteq> None),
           se_step_type = parse_step_type (get_item data ''step_type''),
           se_pre_step = pre, se_gate = gt, se_coding_loop = loop\<rparr>"
    unfolding task_execution_settings_from_data_def Let_def bind_r_eq_Inr guard_r_Inr
    by (elim exE conjE) (simp only: sum.inject, force)
  have "list_all invocation_ok (py_dedup more)"
    using pk [OF p(4)] parse_invocations_out [OF p(3)] by (simp add: list_all_iff)
  moreover have "case pre of None \<Rightarrow> True | Some x \<Rightarrow> pre_step_ok x" "case gt of None \<Rightarrow> True | Some x \<Rightarrow> gate_ok x"
    "case loop of None \<Rightarrow> True | Some x \<Rightarrow> coding_loop_ok x"
    using p(8,9,10) by (auto dest: parse_pre_step_out parse_gate_out parse_coding_loop_out split: option.splits if_splits)
  moreover have "case ?style of None \<Rightarrow> True | Some x \<Rightarrow> canonical x \<and> x \<in> set SUPPORTED_TASK_INTERACTION_STYLES"
    using p(2) step_optional_Some by (auto split: option.splits)
  ultimately show ?thesis
    using p(1,7) shape parse_string_sequence_out [OF p(5)] parse_string_sequence_out [OF p(6)]
    unfolding settings_ok_def s by (cases pre; cases gt; cases loop) simp_all
qed

end
