(* ===== verification/Workflow_Task.thy ===== *)
theory Workflow_Task
  imports Delivery_Types Task_Step
begin

text \<open>
  \<^verbatim>\<open>process/tasks.py\<close>, the task documents: enumerations, the data class with its post-initialisation,
  the serializer, the strict parser and the assignee rules. The states a task carries are arbitrary
  JSON values.
\<close>

section \<open>Enumerations\<close>

datatype task_complexity = TC_LOW | TC_MEDIUM | TC_HIGH

definition complexity_members :: "task_complexity list" where
  "complexity_members = [TC_LOW, TC_MEDIUM, TC_HIGH]"

fun complexity_value :: "task_complexity \<Rightarrow> string" where
  "complexity_value TC_LOW = ''low''"
| "complexity_value TC_MEDIUM = ''medium''"
| "complexity_value TC_HIGH = ''high''"

datatype task_status = TS_OPEN | TS_COMPLETED | TS_CLOSED | TS_SUPERCEDED | TS_ABANDONED | TS_LOCKED

definition status_members :: "task_status list" where
  "status_members = [TS_OPEN, TS_COMPLETED, TS_CLOSED, TS_SUPERCEDED, TS_ABANDONED, TS_LOCKED]"

fun status_value :: "task_status \<Rightarrow> string" where
  "status_value TS_OPEN = ''open''"
| "status_value TS_COMPLETED = ''completed''"
| "status_value TS_CLOSED = ''closed''"
| "status_value TS_SUPERCEDED = ''superceded''"
| "status_value TS_ABANDONED = ''abandoned''"
| "status_value TS_LOCKED = ''locked''"

datatype assignee_type = AT_AGENT | AT_HUMAN

definition assignee_members :: "assignee_type list" where
  "assignee_members = [AT_AGENT, AT_HUMAN]"

fun assignee_value :: "assignee_type \<Rightarrow> string" where
  "assignee_value AT_AGENT = ''agent''"
| "assignee_value AT_HUMAN = ''human''"

datatype agent_role = AR_ARCHITECT | AR_CODER | AR_REVIEWER

definition agent_role_members :: "agent_role list" where
  "agent_role_members = [AR_ARCHITECT, AR_CODER, AR_REVIEWER]"

fun agent_role_value :: "agent_role \<Rightarrow> string" where
  "agent_role_value AR_ARCHITECT = ''architect''"
| "agent_role_value AR_CODER = ''coder''"
| "agent_role_value AR_REVIEWER = ''reviewer''"

datatype human_role = HR_DECIDER | HR_REVIEWER

definition human_role_members :: "human_role list" where
  "human_role_members = [HR_DECIDER, HR_REVIEWER]"

fun human_role_value :: "human_role \<Rightarrow> string" where
  "human_role_value HR_DECIDER = ''decider''"
| "human_role_value HR_REVIEWER = ''reviewer''"

datatype assignee_role = AgentRole agent_role | HumanRole human_role

fun role_value :: "assignee_role \<Rightarrow> string" where
  "role_value (AgentRole r) = agent_role_value r"
| "role_value (HumanRole r) = human_role_value r"

declare complexity_members_def [enum_defs] status_members_def [enum_defs] assignee_members_def [enum_defs]
  agent_role_members_def [enum_defs] human_role_members_def [enum_defs]

lemma complexity_complete: "e \<in> set complexity_members"
  by (cases e) (simp_all add: complexity_members_def)

lemma status_complete: "e \<in> set status_members"
  by (cases e) (simp_all add: status_members_def)

lemma assignee_complete: "e \<in> set assignee_members"
  by (cases e) (simp_all add: assignee_members_def)

lemma agent_role_complete: "e \<in> set agent_role_members"
  by (cases e) (simp_all add: agent_role_members_def)

lemma human_role_complete: "e \<in> set human_role_members"
  by (cases e) (simp_all add: human_role_members_def)

interpretation complexity_enum: str_enum complexity_members complexity_value
  by unfold_locales (rule complexity_complete, simp add: complexity_members_def)

interpretation status_enum: str_enum status_members status_value
  by unfold_locales (rule status_complete, simp add: status_members_def)

interpretation assignee_enum: str_enum assignee_members assignee_value
  by unfold_locales (rule assignee_complete, simp add: assignee_members_def)

interpretation agent_role_enum: str_enum agent_role_members agent_role_value
  by unfold_locales (rule agent_role_complete, simp add: agent_role_members_def)

interpretation human_role_enum: str_enum human_role_members human_role_value
  by unfold_locales (rule human_role_complete, simp add: human_role_members_def)

section \<open>Tasks\<close>

record workflow_task =
  task_id :: string
  task_status :: task_status
  task_description :: string
  task_complexity :: task_complexity
  input_state :: pyval
  output_state :: pyval
  assignee_type :: assignee_type
  assignee_role :: assignee_role
  task_details :: "string option"
  llm_type :: "string option"
  interaction_style :: "string option"
  uses_processes :: "string list"
  tool_invocations :: "tool_invocation list"
  prompt_catalogs :: "string list"
  task_actions :: "string list"
  actions_declared :: bool
  output_state_type :: string
  upstream_task_ids :: "string list"
  dependent_state :: "string list"
  step_type :: string
  pre_step :: "task_pre_step option"
  task_gate :: "task_gate option"
  coding_loop :: "coding_loop_spec option"
  workflow_template :: pyval
  phase_type :: "phase_type option"
  task_persona_id :: "string option"
  process_id :: "string option"
  process_checkpoint :: "pydict option"

text \<open>
  \<^verbatim>\<open>validate_assignee\<close>: the role, named by its value, belongs to the enumeration of the assignee type.
\<close>

definition validate_assignee :: "string \<Rightarrow> string \<Rightarrow> (assignee_type \<times> assignee_role) result" where
  "validate_assignee ty role =
     (case enum_find assignee_value assignee_members ty of
        None \<Rightarrow> Inl (ValueError ''Workflow task assignee_type must be agent or human.'')
      | Some AT_AGENT \<Rightarrow>
          (case enum_find agent_role_value agent_role_members role of
             Some r \<Rightarrow> Inr (AT_AGENT, AgentRole r)
           | None \<Rightarrow> Inl (ValueError (''Workflow task assignee_role for agent must be one of '' @
               py_join '', '' (map agent_role_value agent_role_members) @ ''.'')))
      | Some AT_HUMAN \<Rightarrow>
          (case enum_find human_role_value human_role_members role of
             Some r \<Rightarrow> Inr (AT_HUMAN, HumanRole r)
           | None \<Rightarrow> Inl (ValueError (''Workflow task assignee_role for human must be one of '' @
               py_join '', '' (map human_role_value human_role_members) @ ''.''))))"

text \<open>\<^verbatim>\<open>WorkflowTask(...)\<close> with its \<^verbatim>\<open>__post_init__\<close>, from the given field values.\<close>

definition make_task :: "workflow_task \<Rightarrow> workflow_task result" where
  "make_task t =
     bind_r (validate_assignee (assignee_value (assignee_type t)) (role_value (assignee_role t))) (\<lambda>(ty, role).
     Inr (t\<lparr>actions_declared := (task_actions t \<noteq> [] \<or> actions_declared t),
            assignee_type := ty, assignee_role := role\<rparr>))"

definition dict_entry :: "string \<Rightarrow> ('a \<Rightarrow> pydict) \<Rightarrow> 'a option \<Rightarrow> pydict" where
  "dict_entry key f x = (case x of None \<Rightarrow> [] | Some v \<Rightarrow> [(key, PDict (f v))])"

definition items_entry :: "string \<Rightarrow> ('a \<Rightarrow> pyval) \<Rightarrow> 'a list \<Rightarrow> pydict" where
  "items_entry key f xs = (if xs = [] then [] else [(key, PList (map f xs))])"

text \<open>
  \<^verbatim>\<open>WorkflowTask.to_data\<close>. The step entries are merged when truthy; the description is already
  there. An empty text is not truthy: \<open>text_entry\<close> drops it.
\<close>

definition text_entry :: "string \<Rightarrow> string option \<Rightarrow> pydict" where
  "text_entry key x = (case x of None \<Rightarrow> [] | Some s \<Rightarrow> if s = [] then [] else [(key, PStr s)])"

definition task_to_data :: "workflow_task \<Rightarrow> pydict" where
  "task_to_data t =
     [(''task_id'', PStr (task_id t)),
      (''status'', PStr (status_value (task_status t))),
      (''upstream_task_ids'', PList (map PStr (upstream_task_ids t))),
      (''dependent_state'', PList (map PStr (dependent_state t))),
      (''complexity'', PStr (complexity_value (task_complexity t))),
      (''input_state'', input_state t),
      (''assignee_type'', PStr (assignee_value (assignee_type t))),
      (''assignee_role'', PStr (role_value (assignee_role t))),
      (''output_state_type'', PStr (output_state_type t)),
      (''description'', PStr (task_description t))]
     @ (if output_state t = PNone then [] else [(''output_state'', output_state t)])
     @ (if workflow_template t = PNone then [] else [(''workflow_template'', workflow_template t)])
     @ entry_if ''phase_type'' (map_option phase_value (phase_type t))
     @ entry_if ''persona_id'' (task_persona_id t)
     @ entry_if ''process_id'' (process_id t)
     @ dict_entry ''process_checkpoint'' id (process_checkpoint t)
     @ text_entry ''step_type'' (Some (step_type t))
     @ text_entry ''details'' (task_details t)
     @ text_entry ''llm_type'' (llm_type t)
     @ text_entry ''interaction_style'' (interaction_style t)
     @ items_entry ''uses_processes'' PStr (uses_processes t)
     @ items_entry ''tool_invocations'' (PDict \<circ> invocation_to_data) (tool_invocations t)
     @ items_entry ''prompt_catalogs'' PStr (prompt_catalogs t)
     @ items_entry ''actions'' PStr (task_actions t)
     @ dict_entry ''pre_step'' pre_step_to_data (pre_step t)
     @ dict_entry ''gate'' gate_to_data (task_gate t)
     @ dict_entry ''coding_loop'' coding_loop_to_data (coding_loop t)
     @ (if actions_declared t \<and> task_actions t = [] then [(''actions'', PList [])] else [])"

section \<open>The parser\<close>

fun task_optional_string :: "pyval \<Rightarrow> string option" where
  "task_optional_string (PStr s) = (if strip s = [] then None else Some (strip s))"
| "task_optional_string _ = None"

definition task_required_string :: "pydict \<Rightarrow> string \<Rightarrow> string result" where
  "task_required_string data key =
     (case task_optional_string (get_item data key) of
        None \<Rightarrow> Inl (ValueError (''Workflow task entries must include a non-empty '' @ key @ ''.''))
      | Some s \<Rightarrow> Inr s)"

definition required_complexity :: "pydict \<Rightarrow> string \<Rightarrow> task_complexity result" where
  "required_complexity data key =
     bind_r (task_required_string data key) (\<lambda>raw.
     case enum_find complexity_value complexity_members raw of
       Some c \<Rightarrow> Inr c
     | None \<Rightarrow> Inl (ValueError ''Workflow task complexity must be one of low, medium, or high.''))"

definition required_status :: "pydict \<Rightarrow> string \<Rightarrow> task_status result" where
  "required_status data key =
     bind_r (task_required_string data key) (\<lambda>raw.
     case enum_find status_value status_members raw of
       Some c \<Rightarrow> Inr c
     | None \<Rightarrow> Inl (ValueError (''Workflow task status must be one of open, completed, superceded, '' @
         ''abandoned, or locked.'')))"

definition optional_phase_type :: "pyval \<Rightarrow> phase_type option result" where
  "optional_phase_type v =
     (case v of
        PNone \<Rightarrow> Inr None
      | PStr s \<Rightarrow>
          (case enum_find phase_value phase_members s of
             Some p \<Rightarrow> Inr (Some p)
           | None \<Rightarrow> Inl (ValueError (''Workflow task phase_type must be one of '' @
               py_join '', '' (map phase_value phase_members) @ ''.'')))
      | _ \<Rightarrow> Inl (ValueError ''Workflow task phase_type must be a string.''))"

definition required_assignee :: "pydict \<Rightarrow> (assignee_type \<times> assignee_role) result" where
  "required_assignee data =
     bind_r (task_required_string data ''assignee_type'') (\<lambda>ty.
     bind_r (task_required_string data ''assignee_role'') (\<lambda>role. validate_assignee ty role))"

definition sequence_item :: "string \<Rightarrow> pyval \<Rightarrow> string result" where
  "sequence_item key item =
     (case task_optional_string item of
        None \<Rightarrow> Inl (ValueError (''Workflow task '' @ key @ '' entries must contain non-empty strings.''))
      | Some s \<Rightarrow> Inr s)"

definition required_string_sequence :: "pydict \<Rightarrow> string \<Rightarrow> string list result" where
  "required_string_sequence data key =
     (case get_item data key of
        PList items \<Rightarrow> mapM_r (sequence_item key) items
      | _ \<Rightarrow> Inl (ValueError (''Workflow task entries must include an array for '' @ key @ ''.'')))"

definition workflow_task_from_data :: "pydict \<Rightarrow> workflow_task result" where
  "workflow_task_from_data data =
     bind_r (task_required_string data ''task_id'') (\<lambda>tid.
     bind_r (required_status data ''status'') (\<lambda>status.
     bind_r (task_required_string data ''description'') (\<lambda>desc.
     bind_r (required_complexity data ''complexity'') (\<lambda>complexity.
     bind_r (required_string_sequence data ''upstream_task_ids'') (\<lambda>upstream.
     bind_r (required_string_sequence data ''dependent_state'') (\<lambda>dependent.
     bind_r (guard_r (map_of data ''input_state'' \<noteq> None)
       (ValueError ''Workflow task entries must include input_state.'')) (\<lambda>_.
     bind_r (required_assignee data) (\<lambda>(ty, role).
     bind_r (task_execution_settings_from_data data) (\<lambda>se.
     bind_r (if map_of data ''uses_processes'' \<noteq> None
       then required_string_sequence data ''uses_processes'' else Inr []) (\<lambda>processes.
     bind_r (task_required_string data ''output_state_type'') (\<lambda>output_type.
     bind_r (optional_phase_type (get_item data ''phase_type'')) (\<lambda>phase.
     bind_r (guard_r (get_item data ''process_checkpoint'' = PNone \<or> is_mapping (get_item data ''process_checkpoint''))
       (ValueError ''Workflow task process_checkpoint must be a mapping.'')) (\<lambda>_.
     make_task \<lparr>task_id = tid, task_status = status, task_description = desc, task_complexity = complexity,
       input_state = get_item data ''input_state'', output_state = get_item data ''output_state'',
       assignee_type = ty, assignee_role = role, task_details = se_details se, llm_type = se_llm_type se,
       interaction_style = se_interaction_style se, uses_processes = processes,
       tool_invocations = se_tool_invocations se, prompt_catalogs = se_prompt_catalogs se,
       task_actions = se_actions se, actions_declared = se_actions_declared se,
       output_state_type = output_type, upstream_task_ids = upstream, dependent_state = dependent,
       step_type = se_step_type se, pre_step = se_pre_step se, task_gate = se_gate se,
       coding_loop = se_coding_loop se, workflow_template = get_item data ''workflow_template'',
       phase_type = phase, task_persona_id = task_optional_string (get_item data ''persona_id''),
       process_id = task_optional_string (get_item data ''process_id''),
       process_checkpoint = (case get_item data ''process_checkpoint'' of PDict d \<Rightarrow> Some d | _ \<Rightarrow> None)\<rparr>)))))))))))))"

section \<open>Round trip\<close>

definition role_fits :: "assignee_type \<Rightarrow> assignee_role \<Rightarrow> bool" where
  "role_fits ty role = (case role of AgentRole _ \<Rightarrow> ty = AT_AGENT | HumanRole _ \<Rightarrow> ty = AT_HUMAN)"

definition task_settings :: "workflow_task \<Rightarrow> task_execution_settings" where
  "task_settings t =
     \<lparr>se_details = task_details t, se_llm_type = llm_type t, se_interaction_style = interaction_style t,
      se_tool_invocations = tool_invocations t, se_prompt_catalogs = prompt_catalogs t,
      se_actions = task_actions t, se_actions_declared = actions_declared t, se_step_type = step_type t,
      se_pre_step = pre_step t, se_gate = task_gate t, se_coding_loop = coding_loop t\<rparr>"

definition task_ok :: "workflow_task \<Rightarrow> bool" where
  "task_ok t \<longleftrightarrow>
     canonical (task_id t) \<and> canonical (task_description t) \<and> canonical (output_state_type t) \<and>
     list_all canonical (upstream_task_ids t) \<and> list_all canonical (dependent_state t) \<and>
     list_all canonical (uses_processes t) \<and>
     opt_canonical (task_persona_id t) \<and> opt_canonical (process_id t) \<and>
     role_fits (assignee_type t) (assignee_role t) \<and>
     (task_actions t = [] \<or> actions_declared t) \<and> settings_ok (task_settings t)"

lemma validate_assignee_Inr:
  "validate_assignee ty role = Inr (t, r) \<longleftrightarrow> ty = assignee_value t \<and> role = role_value r \<and> role_fits t r"
proof
  assume "validate_assignee ty role = Inr (t, r)"
  then show "ty = assignee_value t \<and> role = role_value r \<and> role_fits t r"
    by (auto simp: validate_assignee_def role_fits_def split: option.splits assignee_type.splits
        dest!: assignee_enum.find_SomeD agent_role_enum.find_SomeD human_role_enum.find_SomeD)
next
  assume "ty = assignee_value t \<and> role = role_value r \<and> role_fits t r"
  then show "validate_assignee ty role = Inr (t, r)"
    using assignee_enum.find_val [of AT_AGENT] assignee_enum.find_val [of AT_HUMAN]
    by (cases r) (auto simp: validate_assignee_def role_fits_def agent_role_enum.find_val human_role_enum.find_val)
qed

lemma make_task_Inr:
  "make_task t = Inr u \<longleftrightarrow> (\<exists>ty role. role_fits ty role \<and> assignee_value (assignee_type t) = assignee_value ty \<and>
     role_value (assignee_role t) = role_value role \<and>
     u = t\<lparr>actions_declared := (task_actions t \<noteq> [] \<or> actions_declared t), assignee_type := ty, assignee_role := role\<rparr>)"
  by (auto simp: make_task_def validate_assignee_Inr)

lemma make_task_id: "role_fits (assignee_type t) (assignee_role t) \<Longrightarrow> (task_actions t = [] \<or> actions_declared t) \<Longrightarrow>
    make_task t = Inr t"
  by (auto simp: make_task_Inr intro!: exI [of _ "assignee_type t"] exI [of _ "assignee_role t"])

lemma map_of_entries:
  "map_of (entry_if k' x @ e) k = (if k' = k \<and> x \<noteq> None then Some (opt_str x) else map_of e k)"
  "map_of (text_entry k' x @ e) k = (if k' = k \<and> x \<noteq> None \<and> x \<noteq> Some [] then Some (opt_str x) else map_of e k)"
  "map_of (dict_entry k' f y @ e) k = (if k' = k \<and> y \<noteq> None then map_option (\<lambda>v. PDict (f v)) y else map_of e k)"
  "map_of (items_entry k' g zs @ e) k = (if k' = k \<and> zs \<noteq> [] then Some (PList (map g zs)) else map_of e k)"
  "map_of ((if b then [] else [(k', v)]) @ e) k = (if k' = k \<and> \<not> b then Some v else map_of e k)"
  by (auto simp: entry_if_def text_entry_def dict_entry_def items_entry_def map_add_def split: option.splits)

lemma task_lookups:
  "map_of (task_to_data t) ''task_id'' = Some (PStr (task_id t))"
  "map_of (task_to_data t) ''status'' = Some (PStr (status_value (task_status t)))"
  "map_of (task_to_data t) ''upstream_task_ids'' = Some (PList (map PStr (upstream_task_ids t)))"
  "map_of (task_to_data t) ''dependent_state'' = Some (PList (map PStr (dependent_state t)))"
  "map_of (task_to_data t) ''complexity'' = Some (PStr (complexity_value (task_complexity t)))"
  "map_of (task_to_data t) ''input_state'' = Some (input_state t)"
  "map_of (task_to_data t) ''assignee_type'' = Some (PStr (assignee_value (assignee_type t)))"
  "map_of (task_to_data t) ''assignee_role'' = Some (PStr (role_value (assignee_role t)))"
  "map_of (task_to_data t) ''output_state_type'' = Some (PStr (output_state_type t))"
  "map_of (task_to_data t) ''description'' = Some (PStr (task_description t))"
  "map_of (task_to_data t) ''output_state'' = (if output_state t = PNone then None else Some (output_state t))"
  "map_of (task_to_data t) ''workflow_template'' = (if workflow_template t = PNone then None else Some (workflow_template t))"
  "map_of (task_to_data t) ''phase_type'' = map_option (PStr \<circ> phase_value) (phase_type t)"
  "map_of (task_to_data t) ''persona_id'' = map_option PStr (task_persona_id t)"
  "map_of (task_to_data t) ''process_id'' = map_option PStr (process_id t)"
  "map_of (task_to_data t) ''process_checkpoint'' = map_option PDict (process_checkpoint t)"
  "map_of (task_to_data t) ''uses_processes'' = (if uses_processes t = [] then None else Some (PList (map PStr (uses_processes t))))"
  unfolding task_to_data_def
  by (simp_all add: map_of_entries opt_str_def del: map_of_append split: option.splits)

lemma step_type_not_empty: "s \<in> set SUPPORTED_TASK_STEP_TYPES \<Longrightarrow> s \<noteq> []"
  by (auto simp: SUPPORTED_TASK_STEP_TYPES_def)

lemma opt_canonical_ne: "opt_canonical x \<Longrightarrow> x \<noteq> Some []"
  by (cases x) (auto dest: canonicalD)

lemma not_canonical_Nil: "\<not> canonical []"
  by (auto dest: canonicalD)

lemma task_settings_fields:
  assumes "task_ok t"
  shows "settings_fields (task_to_data t) (task_settings t)"
proof -
  have ne: "step_type t \<noteq> []" "task_details t \<noteq> Some []" "llm_type t \<noteq> Some []" "interaction_style t \<noteq> Some []"
    using assms step_type_not_empty [of "step_type t"] opt_canonical_ne [of "task_details t"]
      opt_canonical_ne [of "llm_type t"] not_canonical_Nil
    by (simp_all add: task_ok_def settings_ok_def task_settings_def) (auto split: option.splits)
  have "map_of (task_to_data t) ''step_type'' = Some (PStr (step_type t))"
    "map_of (task_to_data t) ''details'' = map_option PStr (task_details t)"
    "map_of (task_to_data t) ''llm_type'' = map_option PStr (llm_type t)"
    "map_of (task_to_data t) ''interaction_style'' = map_option PStr (interaction_style t)"
    "map_of (task_to_data t) ''tool_invocations'' =
       (if tool_invocations t = [] then None else Some (PList (map (PDict \<circ> invocation_to_data) (tool_invocations t))))"
    "map_of (task_to_data t) ''tool_invocation_packages'' = None"
    "map_of (task_to_data t) ''prompt_catalogs'' = (if prompt_catalogs t = [] then None else Some (PList (map PStr (prompt_catalogs t))))"
    "map_of (task_to_data t) ''pre_step'' = map_option (\<lambda>v. PDict (pre_step_to_data v)) (pre_step t)"
    "map_of (task_to_data t) ''gate'' = map_option (\<lambda>v. PDict (gate_to_data v)) (task_gate t)"
    "map_of (task_to_data t) ''coding_loop'' = map_option (\<lambda>v. PDict (coding_loop_to_data v)) (coding_loop t)"
    unfolding task_to_data_def using ne
    by (simp_all add: map_of_entries opt_str_def del: map_of_append split: option.splits)
  moreover have "map_of (task_to_data t) ''actions'' =
      (if actions_declared t then Some (PList (map PStr (task_actions t))) else None)"
    using assms unfolding task_to_data_def
    by (auto simp: map_of_entries task_ok_def dict_entry_def [of "''coding_loop''"] simp del: map_of_append split: option.splits)
  ultimately show ?thesis
    using assms by (auto simp: settings_fields_def task_settings_def get_item_def list_or_none_def opt_str_def task_ok_def
        split: option.splits)
qed

lemma task_optional_canonical [simp]: "canonical s \<Longrightarrow> task_optional_string (PStr s) = Some s"
  by simp

lemma task_enum_values_canonical [simp]:
  "canonical (status_value st)" "canonical (complexity_value c)" "canonical (assignee_value ty)" "canonical (role_value r)"
proof -
  show "canonical (status_value st)" by (rule status_enum.val_canonical) code_simp
  show "canonical (complexity_value c)" by (rule complexity_enum.val_canonical) code_simp
  show "canonical (assignee_value ty)" by (rule assignee_enum.val_canonical) code_simp
  have "canonical (agent_role_value a)" for a by (rule agent_role_enum.val_canonical) code_simp
  moreover have "canonical (human_role_value h)" for h by (rule human_role_enum.val_canonical) code_simp
  ultimately show "canonical (role_value r)" by (cases r) auto
qed

lemma mapM_sequence_item: "list_all canonical xs \<Longrightarrow> mapM_r (sequence_item key) (map PStr xs) = Inr xs"
  by (induction xs) (auto simp: sequence_item_def)

lemma task_document_roundtrip:
  assumes "task_ok t"
  shows "workflow_task_from_data (task_to_data t) = Inr t"
proof -
  note l = task_lookups [of t]
  have strings: "task_required_string (task_to_data t) ''task_id'' = Inr (task_id t)"
      "task_required_string (task_to_data t) ''description'' = Inr (task_description t)"
      "task_required_string (task_to_data t) ''output_state_type'' = Inr (output_state_type t)"
      "task_required_string (task_to_data t) ''status'' = Inr (status_value (task_status t))"
      "task_required_string (task_to_data t) ''complexity'' = Inr (complexity_value (task_complexity t))"
      "task_required_string (task_to_data t) ''assignee_type'' = Inr (assignee_value (assignee_type t))"
      "task_required_string (task_to_data t) ''assignee_role'' = Inr (role_value (assignee_role t))"
    using assms by (simp_all add: task_required_string_def get_item_def l task_ok_def del: task_optional_string.simps)
  have lists: "required_string_sequence (task_to_data t) ''upstream_task_ids'' = Inr (upstream_task_ids t)"
      "required_string_sequence (task_to_data t) ''dependent_state'' = Inr (dependent_state t)"
      "(if map_of (task_to_data t) ''uses_processes'' \<noteq> None
       then required_string_sequence (task_to_data t) ''uses_processes'' else Inr []) = Inr (uses_processes t)"
    using assms by (simp_all add: required_string_sequence_def get_item_def l task_ok_def mapM_sequence_item)
  have enums: "required_status (task_to_data t) ''status'' = Inr (task_status t)"
      "required_complexity (task_to_data t) ''complexity'' = Inr (task_complexity t)"
      "required_assignee (task_to_data t) = Inr (assignee_type t, assignee_role t)"
      "optional_phase_type (get_item (task_to_data t) ''phase_type'') = Inr (phase_type t)"
    using assms
    by (auto simp: required_status_def required_complexity_def required_assignee_def strings status_enum.find_val
        complexity_enum.find_val validate_assignee_Inr task_ok_def optional_phase_type_def get_item_def l
        phase_enum.find_val split: option.splits)
  have rest: "get_item (task_to_data t) ''input_state'' = input_state t"
      "get_item (task_to_data t) ''output_state'' = output_state t"
      "get_item (task_to_data t) ''workflow_template'' = workflow_template t"
      "task_optional_string (get_item (task_to_data t) ''persona_id'') = task_persona_id t"
      "task_optional_string (get_item (task_to_data t) ''process_id'') = process_id t"
    using assms by (auto simp: get_item_def l task_ok_def split: option.splits)
  have checkpoint: "(case get_item (task_to_data t) ''process_checkpoint'' of PDict d \<Rightarrow> Some d | _ \<Rightarrow> None) = process_checkpoint t"
      "get_item (task_to_data t) ''process_checkpoint'' = PNone \<or> is_mapping (get_item (task_to_data t) ''process_checkpoint'')"
    by (auto simp: get_item_def l split: option.splits)
  have se: "task_execution_settings_from_data (task_to_data t) = Inr (task_settings t)"
    using assms settings_roundtrip task_settings_fields by (auto simp: task_ok_def)
  have "role_fits (assignee_type t) (assignee_role t)" "task_actions t = [] \<or> actions_declared t"
    using assms by (auto simp: task_ok_def)
  then show ?thesis
    unfolding workflow_task_from_data_def lists(3)
    by (simp add: strings lists enums rest se task_settings_def l checkpoint make_task_id)
qed

lemma task_required_canonical: "task_required_string data key = Inr s \<Longrightarrow> canonical s"
  by (cases "get_item data key") (auto simp: task_required_string_def split: if_splits)

lemma task_optional_out: "opt_canonical (task_optional_string v)"
  by (cases v) (auto simp: opt_canonical_def)

lemma required_sequence_canonical: "required_string_sequence data key = Inr xs \<Longrightarrow> list_all canonical xs"
proof -
  have "canonical s" if "sequence_item key v = Inr s" for v s
    using that by (cases v) (auto simp: sequence_item_def split: if_splits)
  then show "required_string_sequence data key = Inr xs \<Longrightarrow> list_all canonical xs"
    by (fastforce simp: required_string_sequence_def list_all_iff dest: mapM_r_all split: pyval.splits)
qed

lemma parsed_task_ok:
  assumes "workflow_task_from_data data = Inr t"
  shows "task_ok t"
proof -
  have proc: "list_all canonical xs" if "(if map_of data ''uses_processes'' \<noteq> None
       then required_string_sequence data ''uses_processes'' else Inr []) = Inr xs" for xs
    using that required_sequence_canonical by (auto split: if_splits)
  from assms obtain tid desc oty ups deps procs se where p:
      "task_required_string data ''task_id'' = Inr tid" "task_required_string data ''description'' = Inr desc"
      "task_required_string data ''output_state_type'' = Inr oty"
      "required_string_sequence data ''upstream_task_ids'' = Inr ups"
      "required_string_sequence data ''dependent_state'' = Inr deps"
      "(if map_of data ''uses_processes'' \<noteq> None
       then required_string_sequence data ''uses_processes'' else Inr []) = Inr procs"
      "task_execution_settings_from_data data = Inr se"
    and t: "task_id t = tid" "task_description t = desc" "output_state_type t = oty" "upstream_task_ids t = ups"
      "dependent_state t = deps" "uses_processes t = procs" "task_actions t = se_actions se"
      "task_persona_id t = task_optional_string (get_item data ''persona_id'')"
      "process_id t = task_optional_string (get_item data ''process_id'')"
      "role_fits (assignee_type t) (assignee_role t)" "task_actions t = [] \<or> actions_declared t"
      "task_settings t = se\<lparr>se_actions_declared := actions_declared t\<rparr>"
    unfolding workflow_task_from_data_def bind_r_eq_Inr guard_r_Inr
    by (elim exE conjE) (simp add: make_task_Inr task_settings_def split: prod.splits, elim exE conjE, simp)
  have "settings_ok (task_settings t)"
    using settings_parsed_ok [OF p(7)] by (simp add: t(12) settings_ok_def)
  then show ?thesis
    using p t task_required_canonical required_sequence_canonical proc task_optional_out by (auto simp: task_ok_def)
qed

text \<open>
  C36: A task document the parser accepts yields a well-formed task: canonical texts, supported step
  type, actions, tools and interaction style, an assignee role of the assignee's type, a gate exactly
  on gate steps, and a coding loop, with 1 to 100 iterations, exactly on coding-loop steps. Writing
  such a task and reading it again returns it.
\<close>

theorem workflow_task_roundtrip:
  assumes "workflow_task_from_data data = Inr t"
  shows "task_ok t \<and> workflow_task_from_data (task_to_data t) = Inr t"
  using parsed_task_ok [OF assms] task_document_roundtrip by blast

definition sample_task_document :: pydict where
  "sample_task_document =
     [(''task_id'', PStr '' build ''), (''status'', PStr ''open''), (''upstream_task_ids'', PList [PStr ''plan'']),
      (''dependent_state'', PList []), (''complexity'', PStr ''medium''), (''input_state'', PStr ''plan.state''),
      (''assignee_type'', PStr ''agent''), (''assignee_role'', PStr ''coder''), (''output_state_type'', PStr ''state''),
      (''description'', PStr ''build it''), (''step_type'', PStr ''coding_loop''), (''actions'', PList [PStr ''edit'']),
      (''coding_loop'', PDict [(''goal'', PStr ''green tests''),
        (''verification'', PList [PDict [(''id'', PStr ''unit''), (''command'', PStr ''pytest''),
           (''env'', PDict [(''CI'', PStr ''1'')])]]),
        (''max_iterations'', PInt 5)])]"

theorem workflow_task_roundtrip_witness:
  "\<exists>t. workflow_task_from_data sample_task_document = Inr t \<and> task_id t = ''build'' \<and>
     task_ok t \<and> workflow_task_from_data (task_to_data t) = Inr t"
proof -
  have "(case workflow_task_from_data sample_task_document of Inr t \<Rightarrow> task_id t = ''build'' | Inl e \<Rightarrow> False)"
    by code_simp
  then obtain t where "workflow_task_from_data sample_task_document = Inr t" "task_id t = ''build''"
    by (auto split: sum.splits)
  with workflow_task_roundtrip show ?thesis by blast
qed

end
