(* ===== verification/Workflow_Instance.thy ===== *)
theory Workflow_Instance
  imports Workflow_Task
begin

text \<open>
  \<^verbatim>\<open>process/tasks.py\<close>, the running workflow: \<^verbatim>\<open>WorkflowInstance\<close> with its task dictionary and
  its directory of task documents, the selection of ready tasks and the resolution of references to
  task outputs in an input state.

  The directory maps a task identifier to the document in its file \<^verbatim>\<open><task_id>.yaml\<close>, as decoded
  by the YAML library (which reads back the plain values it wrote). A task identifier is taken to be
  a file name. An operation that raises leaves the instance as it was.
\<close>

record workflow_instance =
  wf_files :: "string \<Rightarrow> pydict option"
  wf_tasks :: "(string \<times> workflow_task) list"

definition tasks_of :: "workflow_instance \<Rightarrow> workflow_task list" where
  "tasks_of w = map snd (wf_tasks w)"

text \<open>\<^verbatim>\<open>save_workflow_task\<close> followed by the update of the dictionary.\<close>

definition put_task :: "workflow_instance \<Rightarrow> workflow_task \<Rightarrow> workflow_instance" where
  "put_task w t = \<lparr>wf_files = (wf_files w)(task_id t \<mapsto> task_to_data t), wf_tasks = AList.update (task_id t) t (wf_tasks w)\<rparr>"

definition add_task :: "workflow_instance \<Rightarrow> workflow_task \<Rightarrow> workflow_instance result" where
  "add_task w t =
     (let missing = filter (\<lambda>u. map_of (wf_tasks w) u = None) (upstream_task_ids t) in
      bind_r (guard_r (map_of (wf_tasks w) (task_id t) = None)
        (ValueError (''Workflow already contains task: '' @ task_id t))) (\<lambda>_.
      bind_r (guard_r (missing = [])
        (ValueError (''Workflow task '' @ task_id t @ '' references missing upstream tasks: '' @
          py_join '', '' missing))) (\<lambda>_.
      Inr (put_task w t))))"

definition create_workflow :: "(string \<Rightarrow> pydict option) \<Rightarrow> workflow_task list \<Rightarrow> workflow_instance result" where
  "create_workflow files ts = foldM_r add_task \<lparr>wf_files = files, wf_tasks = []\<rparr> ts"

definition find_task :: "workflow_instance \<Rightarrow> string \<Rightarrow> workflow_task result" where
  "find_task w tid =
     (case map_of (wf_tasks w) tid of
        None \<Rightarrow> Inl (KeyError (''Unknown workflow task: '' @ tid))
      | Some t \<Rightarrow> Inr t)"

definition active :: "workflow_task \<Rightarrow> bool" where
  "active t \<longleftrightarrow> task_status t \<in> {TS_OPEN, TS_LOCKED}"

definition finish_task :: "workflow_task \<Rightarrow> pyval \<Rightarrow> workflow_task" where
  "finish_task t out = t\<lparr>task_status := TS_COMPLETED, output_state := out, process_checkpoint := None\<rparr>"

definition complete_task :: "workflow_instance \<Rightarrow> string \<Rightarrow> pyval \<Rightarrow> (workflow_task \<times> workflow_instance) result" where
  "complete_task w tid out =
     bind_r (find_task w tid) (\<lambda>t.
     bind_r (guard_r (active t) (ValueError (''Workflow task is not available to complete: '' @ tid))) (\<lambda>_.
     bind_r (guard_r (out \<noteq> PNone)
       (ValueError (''Workflow task '' @ tid @ '' must provide a non-null output_state '' @
         ''for declared output_state_type '' @ py_repr (output_state_type t) @ ''.''))) (\<lambda>_.
     Inr (finish_task t out, put_task w (finish_task t out)))))"

definition update_task :: "workflow_instance \<Rightarrow> workflow_task \<Rightarrow> workflow_instance result" where
  "update_task w t = bind_r (find_task w (task_id t)) (\<lambda>_. Inr (put_task w t))"

definition close_other :: "string \<Rightarrow> workflow_instance \<Rightarrow> workflow_task \<Rightarrow> workflow_instance" where
  "close_other tid w candidate =
     (if task_id candidate = tid \<or> \<not> active candidate then w
      else put_task w (candidate\<lparr>task_status := TS_CLOSED, process_checkpoint := None\<rparr>))"

definition terminate_workflow :: "workflow_instance \<Rightarrow> string \<Rightarrow> pyval \<Rightarrow> (workflow_task \<times> workflow_instance) result" where
  "terminate_workflow w tid out =
     bind_r (find_task w tid) (\<lambda>t.
     bind_r (guard_r (active t) (ValueError (''Workflow task is not available to terminate: '' @ tid))) (\<lambda>_.
     bind_r (guard_r (out \<noteq> PNone)
       (ValueError (''Workflow task '' @ tid @ '' must provide a non-null output_state '' @
         ''when terminating the workflow.''))) (\<lambda>_.
     let w1 = put_task w (finish_task t out) in
     Inr (finish_task t out, foldl (close_other tid) w1 (tasks_of w1)))))"

definition is_finished :: "workflow_instance \<Rightarrow> bool" where
  "is_finished w \<longleftrightarrow> wf_tasks w \<noteq> [] \<and>
     list_all (\<lambda>t. task_status t \<in> {TS_COMPLETED, TS_CLOSED, TS_SUPERCEDED, TS_ABANDONED}) (tasks_of w)"

section \<open>Ready tasks\<close>

text \<open>
  \<^verbatim>\<open>_normalize_assignee_filters\<close>; a filter is the text of the wanted type or role.
\<close>

definition normalize_assignee_filters ::
    "string option \<Rightarrow> string option \<Rightarrow> (assignee_type option \<times> string option) result" where
  "normalize_assignee_filters ty role =
     (case ty of
        Some s \<Rightarrow>
          (case enum_find assignee_value assignee_members s of
             None \<Rightarrow> Inl (ValueError (py_repr s @ '' is not a valid AssigneeType''))
           | Some t \<Rightarrow>
               (case role of
                  None \<Rightarrow> Inr (Some t, None)
                | Some r \<Rightarrow> bind_r (validate_assignee (assignee_value t) r) (\<lambda>(_, n). Inr (Some t, Some (role_value n)))))
      | None \<Rightarrow>
          (case role of
             None \<Rightarrow> Inr (None, None)
           | Some r \<Rightarrow>
               if r \<in> set (map agent_role_value agent_role_members @ map human_role_value human_role_members)
               then Inr (None, Some r)
               else Inl (ValueError (''Unknown workflow task assignee_role: '' @ r))))"

definition upstream_completed :: "(string \<times> workflow_task) list \<Rightarrow> string \<Rightarrow> bool" where
  "upstream_completed by_id u =
     (case map_of by_id u of None \<Rightarrow> False | Some t \<Rightarrow> task_status t = TS_COMPLETED)"

text \<open>A dictionary comprehension keeps the last task of an identifier.\<close>

definition tasks_by_id :: "workflow_task list \<Rightarrow> (string \<times> workflow_task) list" where
  "tasks_by_id ts = foldl (\<lambda>d t. AList.update (task_id t) t d) [] ts"

definition select_ready_workflow_tasks ::
    "workflow_task list \<Rightarrow> string option \<Rightarrow> string option \<Rightarrow> workflow_task list result" where
  "select_ready_workflow_tasks ts ty role =
     bind_r (normalize_assignee_filters ty role) (\<lambda>(nt, nr).
     let by_id = tasks_by_id ts in
     Inr (filter (\<lambda>t. task_status t = TS_OPEN \<and>
        (nt = None \<or> nt = Some (assignee_type t)) \<and>
        (nr = None \<or> nr = Some (role_value (assignee_role t))) \<and>
        list_all (upstream_completed by_id) (upstream_task_ids t)) ts))"

definition ready_tasks :: "workflow_instance \<Rightarrow> string option \<Rightarrow> string option \<Rightarrow> workflow_task list result" where
  "ready_tasks w ty role = select_ready_workflow_tasks (tasks_of w) ty role"

text \<open>
  \<^verbatim>\<open>_resolve_upstream_input_references\<close>. JSON values have arrays for both Python lists and tuples.
  \<open>partition\<close> is \<^verbatim>\<open>value.partition(".")\<close>: the text before the first separator and after it.
\<close>

fun partition_dot :: "string \<Rightarrow> (string \<times> string) option" where
  "partition_dot [] = None"
| "partition_dot (c # cs) =
     (if c = CHR ''.'' then Some ([], cs)
      else (case partition_dot cs of None \<Rightarrow> None | Some (a, b) \<Rightarrow> Some (c # a, b)))"

definition resolve_text :: "(string \<times> workflow_task) list \<Rightarrow> string \<Rightarrow> pyval" where
  "resolve_text ts s =
     (case partition_dot s of
        None \<Rightarrow> PStr s
      | Some (tid, out) \<Rightarrow>
          (case map_of ts tid of
             Some t \<Rightarrow> if out = output_state_type t then output_state t else PStr s
           | None \<Rightarrow> PStr s))"

fun resolve_references :: "(string \<times> workflow_task) list \<Rightarrow> pyval \<Rightarrow> pyval" where
  "resolve_references ts (PStr s) = resolve_text ts s"
| "resolve_references ts (PDict d) = PDict (map (\<lambda>(k, v). (k, resolve_references ts v)) d)"
| "resolve_references ts (PList xs) = PList (map (resolve_references ts) xs)"
| "resolve_references ts v = v"

definition claim_task :: "workflow_instance \<Rightarrow> string \<Rightarrow> (workflow_task \<times> workflow_instance) result" where
  "claim_task w tid =
     bind_r (find_task w tid) (\<lambda>t.
     bind_r (ready_tasks w None None) (\<lambda>ready.
     bind_r (guard_r (t \<in> set ready) (ValueError (''Workflow task is not ready to claim: '' @ tid))) (\<lambda>_.
     let claimed = t\<lparr>task_status := TS_LOCKED, input_state := resolve_references (wf_tasks w) (input_state t)\<rparr> in
     Inr (claimed, put_task w claimed))))"

definition task_context :: "workflow_instance \<Rightarrow> string \<Rightarrow> pydict result" where
  "task_context w tid =
     bind_r (find_task w tid) (\<lambda>t.
     bind_r (mapM_r (\<lambda>u. case map_of (wf_tasks w) u of
         None \<Rightarrow> Inl (KeyError u) | Some x \<Rightarrow> Inr (u, output_state x)) (upstream_task_ids t)) (\<lambda>outs.
     Inr [(''input_state'', input_state t),
          (''upstream_outputs'', PDict (foldl (\<lambda>d (u, v). AList.update u v d) [] outs))]))"

section \<open>Loading\<close>

text \<open>
  \<^verbatim>\<open>from_directory\<close>: the directory as the list of its task files, by stem, in the order of their paths.
\<close>

definition from_directory :: "(string \<times> pydict) list \<Rightarrow> workflow_instance result" where
  "from_directory dir =
     bind_r (mapM_r (workflow_task_from_data \<circ> snd) dir) (\<lambda>ts.
     Inr \<lparr>wf_files = map_of dir, wf_tasks = tasks_by_id ts\<rparr>)"

section \<open>One step on the task dictionary\<close>

text \<open>What a step does to one task: nothing, or a change of status that never reopens it.\<close>

definition progress :: "workflow_task \<Rightarrow> workflow_task \<Rightarrow> bool" where
  "progress t t' \<longleftrightarrow> t' = t \<or>
     (task_id t' = task_id t \<and> upstream_task_ids t' = upstream_task_ids t \<and>
      (task_status t = TS_OPEN \<and> task_status t' = TS_LOCKED \<or>
       active t \<and> task_status t' \<in> {TS_COMPLETED, TS_CLOSED}))"

definition update_all :: "(string \<Rightarrow> workflow_task \<Rightarrow> workflow_task) \<Rightarrow> (string \<times> workflow_task) list \<Rightarrow> (string \<times> workflow_task) list" where
  "update_all g d = map (\<lambda>(k, t). (k, g k t)) d"

lemma update_all_keys [simp]: "map fst (update_all g d) = map fst d"
  by (induction d) (auto simp: update_all_def)

lemma map_of_update_all: "map_of (update_all g d) k = map_option (g k) (map_of d k)"
  by (induction d) (auto simp: update_all_def)

lemma update_existing:
  assumes "distinct (map fst d)" "map_of d k = Some x"
  shows "AList.update k v d = update_all (\<lambda>k' t. if k' = k then v else t) d"
proof -
  have miss: "update_all (\<lambda>k' t. if k' = k then v else t) d = d" if "k \<notin> fst ` set d" for d :: "(string \<times> workflow_task) list"
    using that by (induction d) (auto simp: update_all_def)
  show ?thesis
    using assms
  proof (induction d)
    case (Cons a d)
    show ?case
    proof (cases "fst a = k")
      case True
      with Cons.prems have "k \<notin> fst ` set d" by auto
      then show ?thesis using True miss [of d] by (cases a) (simp add: update_all_def)
    next
      case False
      with Cons show ?thesis by (cases a) (auto simp: update_all_def)
    qed
  qed simp
qed

lemma put_existing:
  assumes "distinct (map fst (wf_tasks w))" "map_of (wf_tasks w) (task_id t) = Some x"
  shows "wf_tasks (put_task w t) = update_all (\<lambda>k u. if k = task_id t then t else u) (wf_tasks w)"
  using assms by (simp add: put_task_def update_existing)

lemma keyed_by_id: "keyed_dict task_id d \<Longrightarrow> tasks_by_id (map snd d) = d"
proof -
  assume "keyed_dict task_id d"
  then have "foldl (\<lambda>d t. AList.update (task_id t) t d) e (map snd d) = e @ d" if "distinct (map fst (e @ d))" for e
    using that
  proof (induction d arbitrary: e)
    case (Cons a d)
    obtain t where a: "a = (task_id t, t)" using Cons.prems(1) by (cases a) (auto simp: keyed_dict_def)
    have "AList.update (task_id t) t e = e @ [a]"
      using Cons.prems(2) unfolding a by (induction e) auto
    with Cons.IH [of "e @ [a]"] Cons.prems show ?case by (auto simp: a keyed_dict_def)
  qed simp
  with \<open>keyed_dict task_id d\<close> show ?thesis by (simp add: tasks_by_id_def keyed_dict_def)
qed

definition ready_now :: "workflow_instance \<Rightarrow> workflow_task \<Rightarrow> bool" where
  "ready_now w t \<longleftrightarrow> task_status t = TS_OPEN \<and> list_all (upstream_completed (wf_tasks w)) (upstream_task_ids t)"

lemma ready_tasks_all:
  "keyed_dict task_id (wf_tasks w) \<Longrightarrow> ready_tasks w None None = Inr (filter (ready_now w) (tasks_of w))"
  by (simp add: ready_tasks_def select_ready_workflow_tasks_def normalize_assignee_filters_def tasks_of_def
      keyed_by_id ready_now_def [abs_def])

text \<open>The effect of each operation on the dictionary of a workflow whose tasks are stored under their identifiers.\<close>

lemma find_task_Inr [simp]: "find_task w tid = Inr t \<longleftrightarrow> map_of (wf_tasks w) tid = Some t"
  by (auto simp: find_task_def split: option.splits)

lemma keyed_lookup: "keyed_dict task_id d \<Longrightarrow> map_of d k = Some t \<Longrightarrow> task_id t = k"
  by (auto simp: keyed_dict_def dest: map_of_SomeD)

lemma complete_effect:
  assumes "keyed_dict task_id (wf_tasks w)" "complete_task w tid out = Inr (t, w')"
  shows "\<exists>u. map_of (wf_tasks w) tid = Some u \<and> active u \<and> t = finish_task u out \<and>
    wf_tasks w' = update_all (\<lambda>k x. if k = tid then t else x) (wf_tasks w)"
proof -
  from assms(2) obtain u where u: "map_of (wf_tasks w) tid = Some u" "active u" "t = finish_task u out" "w' = put_task w t"
    by (auto simp: complete_task_def)
  moreover have "task_id t = tid" using u keyed_lookup [OF assms(1)] by (simp add: finish_task_def)
  ultimately show ?thesis using assms(1) put_existing [of w t] by (auto simp: keyed_dict_def)
qed

lemma claim_effect:
  assumes "keyed_dict task_id (wf_tasks w)" "claim_task w tid = Inr (t, w')"
  shows "\<exists>u. map_of (wf_tasks w) tid = Some u \<and> ready_now w u \<and>
    t = u\<lparr>task_status := TS_LOCKED, input_state := resolve_references (wf_tasks w) (input_state u)\<rparr> \<and>
    wf_tasks w' = update_all (\<lambda>k x. if k = tid then t else x) (wf_tasks w)"
proof -
  from assms obtain u where u: "map_of (wf_tasks w) tid = Some u" "ready_now w u"
    "t = u\<lparr>task_status := TS_LOCKED, input_state := resolve_references (wf_tasks w) (input_state u)\<rparr>" "w' = put_task w t"
    by (auto simp: claim_task_def ready_tasks_all Let_def)
  moreover have "task_id t = tid" using u keyed_lookup [OF assms(1)] by simp
  ultimately show ?thesis using assms(1) put_existing [of w t] by (auto simp: keyed_dict_def)
qed

abbreviation closed_task :: "workflow_task \<Rightarrow> workflow_task" where
  "closed_task t \<equiv> t\<lparr>task_status := TS_CLOSED, process_checkpoint := None\<rparr>"

lemma update_all_compose: "update_all f (update_all g d) = update_all (\<lambda>k x. f k (g k x)) d"
  by (simp add: update_all_def comp_def case_prod_unfold)

lemma update_all_cong: "(\<And>k x. (k, x) \<in> set d \<Longrightarrow> f k x = g k x) \<Longrightarrow> update_all f d = update_all g d"
  by (auto simp: update_all_def)

lemma update_all_id: "update_all (\<lambda>k x. x) d = d"
  by (simp add: update_all_def)

lemma update_all_keyed:
  "keyed_dict task_id d \<Longrightarrow> (\<And>k x. (k, x) \<in> set d \<Longrightarrow> task_id (g k x) = task_id x) \<Longrightarrow> keyed_dict task_id (update_all g d)"
  unfolding keyed_dict_def update_all_keys by (auto simp: update_all_def)

lemma close_others:
  assumes "keyed_dict task_id (wf_tasks w)" "distinct (map task_id cs)"
    and "\<And>c. c \<in> set cs \<Longrightarrow> map_of (wf_tasks w) (task_id c) = Some c"
  shows "wf_tasks (foldl (close_other tid) w cs) =
    update_all (\<lambda>k x. if k \<in> task_id ` set cs \<and> k \<noteq> tid \<and> active x then closed_task x else x) (wf_tasks w)"
  using assms
proof (induction cs arbitrary: w)
  case (Cons c cs)
  let ?g = "\<lambda>k x. if k = task_id c \<and> k \<noteq> tid \<and> active x then closed_task x else x"
  let ?w = "close_other tid w c"
  have d: "distinct (map fst (wf_tasks w))" using Cons.prems(1) by (simp add: keyed_dict_def)
  have c: "map_of (wf_tasks w) (task_id c) = Some c" using Cons.prems(3) by simp
  have same: "x = c" if "(task_id c, x) \<in> set (wf_tasks w)" for x
    using that c d by (metis map_of_is_SomeI option.inject)
  have w: "wf_tasks ?w = update_all ?g (wf_tasks w)"
  proof (cases "task_id c = tid \<or> \<not> active c")
    case True
    then have "update_all ?g (wf_tasks w) = update_all (\<lambda>k x. x) (wf_tasks w)"
      using same by (intro update_all_cong) auto
    with True show ?thesis by (auto simp: close_other_def update_all_id)
  next
    case False
    then show ?thesis
      using put_existing [of w "closed_task c" c] d c
      by (auto simp: close_other_def intro!: update_all_cong dest!: same)
  qed
  have "keyed_dict task_id (wf_tasks ?w)" unfolding w using Cons.prems(1) by (rule update_all_keyed) simp
  moreover have "map_of (wf_tasks ?w) (task_id e) = Some e" if "e \<in> set cs" for e
  proof -
    have "task_id c \<notin> task_id ` set cs" using Cons.prems(2) by simp
    then have "task_id e \<noteq> task_id c" using that by (metis imageI)
    with Cons.prems(3) [of e] that show ?thesis by (simp add: w map_of_update_all)
  qed
  ultimately have "wf_tasks (foldl (close_other tid) ?w cs) =
      update_all (\<lambda>k x. if k \<in> task_id ` set cs \<and> k \<noteq> tid \<and> active x then closed_task x else x) (wf_tasks ?w)"
    using Cons.IH Cons.prems(2) by simp
  also have "\<dots> = update_all (\<lambda>k x. if k \<in> task_id ` set (c # cs) \<and> k \<noteq> tid \<and> active x then closed_task x else x) (wf_tasks w)"
    unfolding w update_all_compose using Cons.prems(2) by (intro update_all_cong) (auto simp: active_def)
  finally show ?case by simp
qed (simp add: update_all_id)

lemma terminate_effect:
  assumes "keyed_dict task_id (wf_tasks w)" "terminate_workflow w tid out = Inr (t, w')"
  shows "\<exists>u. map_of (wf_tasks w) tid = Some u \<and> active u \<and> t = finish_task u out \<and>
    wf_tasks w' = update_all (\<lambda>k x. if k = tid then t else if active x then closed_task x else x) (wf_tasks w)"
proof -
  from assms(2) obtain u where u: "map_of (wf_tasks w) tid = Some u" "active u" "t = finish_task u out"
    and w': "w' = foldl (close_other tid) (put_task w t) (tasks_of (put_task w t))"
    by (auto simp: terminate_workflow_def Let_def)
  let ?w = "put_task w t"
  have tid: "task_id t = tid" using u keyed_lookup [OF assms(1)] by (simp add: finish_task_def)
  have w: "wf_tasks ?w = update_all (\<lambda>k x. if k = tid then t else x) (wf_tasks w)"
    using put_existing [of w t] assms(1) u(1) by (simp add: tid keyed_dict_def)
  have k: "keyed_dict task_id (wf_tasks ?w)"
    using keyed_dict_update [OF assms(1), of t] by (simp add: put_task_def)
  have "wf_tasks w' = update_all (\<lambda>k x. if k \<in> task_id ` set (tasks_of ?w) \<and> k \<noteq> tid \<and> active x then closed_task x else x) (wf_tasks ?w)"
    unfolding w' using k keyed_dict_values_distinct [OF k] keyed_dict_map_of [OF k]
    by (intro close_others) (auto simp: tasks_of_def)
  also have "\<dots> = update_all (\<lambda>k x. if k \<noteq> tid \<and> active x then closed_task x else x) (wf_tasks ?w)"
    using k by (intro update_all_cong) (force simp: tasks_of_def keyed_dict_def)
  also have "\<dots> = update_all (\<lambda>k x. if k = tid then t else if active x then closed_task x else x) (wf_tasks w)"
    unfolding w update_all_compose by (intro update_all_cong) auto
  finally show ?thesis using u by blast
qed

section \<open>Runs of a workflow\<close>

text \<open>
  New tasks arrive open; agents claim ready tasks, complete tasks or end the workflow. The label says
  whether the step adds a task.
\<close>

inductive workflow_step :: "bool \<Rightarrow> workflow_instance \<Rightarrow> workflow_instance \<Rightarrow> bool" where
  add: "task_status t = TS_OPEN \<Longrightarrow> add_task w t = Inr w' \<Longrightarrow> workflow_step True w w'"
| claim: "claim_task w tid = Inr (t, w') \<Longrightarrow> workflow_step False w w'"
| complete: "complete_task w tid out = Inr (t, w') \<Longrightarrow> workflow_step False w w'"
| terminate: "terminate_workflow w tid out = Inr (t, w') \<Longrightarrow> workflow_step False w w'"

inductive workflow_reachable :: "workflow_instance \<Rightarrow> bool" where
  start: "workflow_reachable \<lparr>wf_files = files, wf_tasks = []\<rparr>"
| step: "workflow_reachable w \<Longrightarrow> workflow_step b w w' \<Longrightarrow> workflow_reachable w'"



lemma work_step_effect:
  assumes "workflow_step False w w'" and k: "keyed_dict task_id (wf_tasks w)"
  shows "\<exists>g tid u. wf_tasks w' = update_all g (wf_tasks w) \<and> map_of (wf_tasks w) tid = Some u \<and> g tid u \<noteq> u \<and>
    (\<forall>k x. map_of (wf_tasks w) k = Some x \<longrightarrow> progress x (g k x) \<and>
      (task_status (g k x) = TS_LOCKED \<longrightarrow> g k x = x \<or> ready_now w x))"
  using assms(1)
proof cases
  case (claim tid t)
  from claim_effect [OF k claim] obtain u where u: "map_of (wf_tasks w) tid = Some u" "ready_now w u"
    "t = u\<lparr>task_status := TS_LOCKED, input_state := resolve_references (wf_tasks w) (input_state u)\<rparr>"
    and w': "wf_tasks w' = update_all (\<lambda>k x. if k = tid then t else x) (wf_tasks w)" by blast
  have "t \<noteq> u" using u by (auto simp: ready_now_def dest: arg_cong [where f = task_status])
  moreover have "progress u t" using u by (auto simp: progress_def ready_now_def)
  ultimately show ?thesis
    using w' u by (intro exI [of _ "\<lambda>k x. if k = tid then t else x"] exI [of _ tid] exI [of _ u]) (auto simp: progress_def)
next
  case (complete tid out t)
  from complete_effect [OF k complete] obtain u where u: "map_of (wf_tasks w) tid = Some u" "active u" "t = finish_task u out"
    and w': "wf_tasks w' = update_all (\<lambda>k x. if k = tid then t else x) (wf_tasks w)" by blast
  have "task_status t = TS_COMPLETED" "task_status u \<noteq> TS_COMPLETED" "progress u t"
    using u by (auto simp: finish_task_def active_def progress_def)
  then show ?thesis
    using w' u(1) by (intro exI [of _ "\<lambda>k x. if k = tid then t else x"] exI [of _ tid] exI [of _ u]) (auto simp: progress_def)
next
  case (terminate tid out t)
  from terminate_effect [OF k terminate] obtain u where u: "map_of (wf_tasks w) tid = Some u" "active u" "t = finish_task u out"
    and w': "wf_tasks w' = update_all (\<lambda>k x. if k = tid then t else if active x then closed_task x else x) (wf_tasks w)" by blast
  have "task_status t = TS_COMPLETED" "task_status u \<noteq> TS_COMPLETED" "progress u t"
    using u by (auto simp: finish_task_def active_def progress_def)
  then show ?thesis
    using w' u(1) by (intro exI [of _ "\<lambda>k x. if k = tid then t else if active x then closed_task x else x"]
        exI [of _ tid] exI [of _ u]) (auto simp: progress_def)
qed simp

lemma add_effect:
  "add_task w t = Inr w' \<longleftrightarrow> map_of (wf_tasks w) (task_id t) = None \<and>
    (\<forall>u \<in> set (upstream_task_ids t). map_of (wf_tasks w) u \<noteq> None) \<and> w' = put_task w t"
  by (auto simp: add_task_def Let_def filter_empty_conv)

lemma add_tasks: "map_of (wf_tasks w) (task_id t) = None \<Longrightarrow> wf_tasks (put_task w t) = wf_tasks w @ [(task_id t, t)]"
proof -
  have "map_of d k = None \<Longrightarrow> AList.update k v d = d @ [(k, v)]" for d :: "(string \<times> workflow_task) list" and k v
    by (induction d) auto
  then show "map_of (wf_tasks w) (task_id t) = None \<Longrightarrow> ?thesis" by (simp add: put_task_def)
qed

lemma progress_id: "progress x y \<Longrightarrow> task_id y = task_id x \<and> upstream_task_ids y = upstream_task_ids x"
  by (auto simp: progress_def)

lemma progress_completed: "progress x y \<Longrightarrow> task_status x = TS_COMPLETED \<Longrightarrow> y = x"
  by (auto simp: progress_def active_def)

lemma reachable_keyed: "workflow_reachable w \<Longrightarrow> keyed_dict task_id (wf_tasks w)"
proof (induction rule: workflow_reachable.induct)
  case (step w b w')
  show ?case
  proof (cases b)
    case True
    with step show ?thesis
      by (auto elim!: workflow_step.cases simp: add_effect put_task_def keyed_dict_update)
  next
    case False
    with step obtain g where "wf_tasks w' = update_all g (wf_tasks w)"
      "\<And>k x. map_of (wf_tasks w) k = Some x \<Longrightarrow> progress x (g k x)"
      using work_step_effect by metis
    moreover have "map_of (wf_tasks w) k = Some x" if "(k, x) \<in> set (wf_tasks w)" for k x
      using that step.IH by (simp add: keyed_dict_def)
    ultimately show ?thesis
      using step.IH progress_id by (auto intro!: update_all_keyed)
  qed
qed simp

fun upstream_ordered :: "string set \<Rightarrow> (string \<times> workflow_task) list \<Rightarrow> bool" where
  "upstream_ordered seen [] = True"
| "upstream_ordered seen ((k, t) # d) = (set (upstream_task_ids t) \<subseteq> seen \<and> upstream_ordered (insert k seen) d)"

lemma upstream_ordered_append:
  "upstream_ordered seen (d @ e) \<longleftrightarrow> upstream_ordered seen d \<and> upstream_ordered (seen \<union> fst ` set d) e"
  by (induction seen d rule: upstream_ordered.induct) auto

lemma upstream_ordered_update:
  "(\<And>k x. (k, x) \<in> set d \<Longrightarrow> upstream_task_ids (g k x) = upstream_task_ids x) \<Longrightarrow>
    upstream_ordered seen (update_all g d) = upstream_ordered seen d"
  by (induction seen d rule: upstream_ordered.induct) (auto simp: update_all_def)

definition locked_ok :: "workflow_instance \<Rightarrow> bool" where
  "locked_ok w \<longleftrightarrow> list_all (\<lambda>t. task_status t = TS_LOCKED \<longrightarrow>
     list_all (upstream_completed (wf_tasks w)) (upstream_task_ids t)) (tasks_of w)"

definition on_disk :: "workflow_instance \<Rightarrow> bool" where
  "on_disk w \<longleftrightarrow> list_all (\<lambda>(k, t). wf_files w k = Some (task_to_data t)) (wf_tasks w)"

lemma keyed_put: "keyed_dict task_id (wf_tasks w) \<Longrightarrow> keyed_dict task_id (wf_tasks (put_task w t))"
  by (simp add: put_task_def keyed_dict_update)

lemma on_disk_put:
  assumes "on_disk w" "keyed_dict task_id (wf_tasks w)"
  shows "on_disk (put_task w t)"
proof -
  let ?d = "AList.update (task_id t) t (wf_tasks w)"
  have "x = t" if "(task_id t, x) \<in> set ?d" for x
    using that keyed_dict_update [OF assms(2), of t] map_of_is_SomeI [of ?d "task_id t" x]
    by (auto simp: keyed_dict_def update_conv')
  moreover have "set ?d \<subseteq> insert (task_id t, t) (set (wf_tasks w))" by (rule set_update_subset)
  ultimately show ?thesis
    using assms(1) by (fastforce simp: on_disk_def put_task_def list_all_iff)
qed

lemma on_disk_close:
  assumes "on_disk w \<and> keyed_dict task_id (wf_tasks w)"
  shows "on_disk (close_other tid w c) \<and> keyed_dict task_id (wf_tasks (close_other tid w c))"
  using assms by (simp add: close_other_def on_disk_put keyed_put)

lemma on_disk_step:
  assumes "workflow_step b w w'" "on_disk w" "keyed_dict task_id (wf_tasks w)"
  shows "on_disk w'"
  using assms(1)
proof cases
  case (terminate tid out t)
  then obtain u where w': "w' = foldl (close_other tid) (put_task w u) (tasks_of (put_task w u))"
    by (auto simp: terminate_workflow_def Let_def)
  have "on_disk (put_task w u) \<and> keyed_dict task_id (wf_tasks (put_task w u))"
    using assms(2,3) by (simp add: on_disk_put keyed_put)
  then have "on_disk (foldl (close_other tid) (put_task w u) cs) \<and>
      keyed_dict task_id (wf_tasks (foldl (close_other tid) (put_task w u) cs))" for cs
    by (rule foldl_invariant) (rule on_disk_close)
  then show ?thesis by (simp add: w')
qed (use assms(2,3) in \<open>auto simp: add_effect claim_task_def complete_task_def Let_def on_disk_put\<close>)

lemma upstream_completed_mono:
  assumes "upstream_completed d u" "\<And>k x. map_of d k = Some x \<Longrightarrow> progress x (g k x)"
  shows "upstream_completed (update_all g d) u"
  using assms progress_completed by (fastforce simp: upstream_completed_def map_of_update_all split: option.splits)

lemma locked_step:
  assumes "workflow_step False w w'" "locked_ok w" and k: "keyed_dict task_id (wf_tasks w)"
  shows "locked_ok w'"
proof -
  obtain g where w': "wf_tasks w' = update_all g (wf_tasks w)"
    and g: "\<And>k x. map_of (wf_tasks w) k = Some x \<Longrightarrow> progress x (g k x) \<and>
      (task_status (g k x) = TS_LOCKED \<longrightarrow> g k x = x \<or> ready_now w x)"
    using work_step_effect [OF assms(1) k] by blast
  have "list_all (upstream_completed (wf_tasks w')) (upstream_task_ids (g k x))"
    if "(k, x) \<in> set (wf_tasks w)" "task_status (g k x) = TS_LOCKED" for k x
  proof -
    have m: "map_of (wf_tasks w) k = Some x" using that(1) k by (simp add: keyed_dict_def)
    have "list_all (upstream_completed (wf_tasks w)) (upstream_task_ids x)"
      using g [OF m] that assms(2) by (force simp: locked_ok_def tasks_of_def ready_now_def list_all_iff)
    then show ?thesis
      using upstream_completed_mono [of "wf_tasks w" _ g] g progress_id [of x "g k x"] m
      by (auto simp: w' list_all_iff)
  qed
  then show ?thesis by (auto simp: locked_ok_def tasks_of_def w' update_all_def list_all_iff)
qed

lemma reachable_invariant:
  "workflow_reachable w \<Longrightarrow> upstream_ordered {} (wf_tasks w) \<and> locked_ok w \<and> on_disk w"
proof (induction rule: workflow_reachable.induct)
  case (step w b w')
  note k = reachable_keyed [OF step.hyps(1)]
  have disk: "on_disk w'" using on_disk_step step k by blast
  show ?case
  proof (cases b)
    case True
    with step.hyps(2) obtain t where t: "task_status t = TS_OPEN" "map_of (wf_tasks w) (task_id t) = None"
      "\<forall>u \<in> set (upstream_task_ids t). map_of (wf_tasks w) u \<noteq> None" "wf_tasks w' = wf_tasks w @ [(task_id t, t)]"
      by (auto elim!: workflow_step.cases simp: add_effect add_tasks)
    have "upstream_completed (wf_tasks w) u \<Longrightarrow> upstream_completed (wf_tasks w') u" for u
      by (auto simp: upstream_completed_def t(4) map_add_def split: option.splits)
    with step.IH t have "locked_ok w'"
      by (auto simp: locked_ok_def tasks_of_def list_all_iff)
    moreover have "upstream_ordered {} (wf_tasks w')"
      using step.IH t(3) by (fastforce simp: t(4) upstream_ordered_append map_of_eq_None_iff)
    ultimately show ?thesis using disk by simp
  next
    case False
    then have s: "workflow_step False w w'" using step.hyps(2) by simp
    then obtain g where w': "wf_tasks w' = update_all g (wf_tasks w)"
      and g: "\<And>k x. map_of (wf_tasks w) k = Some x \<Longrightarrow> progress x (g k x)"
      using work_step_effect [OF s k] by blast
    have "upstream_task_ids (g i x) = upstream_task_ids x" if "(i, x) \<in> set (wf_tasks w)" for i x
      using g [of i x] k that progress_id [of x "g i x"] by (simp add: keyed_dict_def)
    then have "upstream_ordered {} (wf_tasks w')" using step.IH by (simp add: w' upstream_ordered_update)
    with locked_step [OF s _ k] step.IH disk show ?thesis by simp
  qed
qed (simp_all add: locked_ok_def on_disk_def tasks_of_def)

section \<open>Progress\<close>

fun work_left :: "workflow_task \<Rightarrow> nat" where
  "work_left t = (case task_status t of TS_OPEN \<Rightarrow> 2 | TS_LOCKED \<Rightarrow> 1 | _ \<Rightarrow> 0)"

definition total_work :: "workflow_instance \<Rightarrow> nat" where
  "total_work w = sum_list (map (work_left \<circ> snd) (wf_tasks w))"

lemma progress_work: "progress x y \<Longrightarrow> y \<noteq> x \<Longrightarrow> work_left y < work_left x"
  by (auto simp: progress_def active_def)

lemma total_work_bound: "total_work w \<le> 2 * length (wf_tasks w)"
proof -
  have "sum_list (map (work_left \<circ> snd) d) \<le> 2 * length d" for d :: "(string \<times> workflow_task) list"
    by (induction d) (auto split: task_status.splits)
  then show ?thesis by (simp add: total_work_def)
qed

lemma sum_list_less:
  fixes f g :: "'a \<Rightarrow> nat"
  assumes "\<And>x. x \<in> set xs \<Longrightarrow> f x \<le> g x" "y \<in> set xs" "f y < g y"
  shows "sum_list (map f xs) < sum_list (map g xs)"
  using assms
proof (induction xs)
  case (Cons x xs)
  then have "sum_list (map f xs) \<le> sum_list (map g xs)" by (intro sum_list_mono) auto
  with Cons show ?case by (cases "y \<in> set xs") (auto intro: add_le_less_mono add_less_le_mono)
qed simp

lemma work_step_decreases:
  assumes "workflow_step False w w'" and k: "keyed_dict task_id (wf_tasks w)"
  shows "total_work w' < total_work w"
proof -
  obtain g tid u where w': "wf_tasks w' = update_all g (wf_tasks w)" and u: "map_of (wf_tasks w) tid = Some u" "g tid u \<noteq> u"
    and g: "\<And>k x. map_of (wf_tasks w) k = Some x \<Longrightarrow> progress x (g k x)"
    using work_step_effect [OF assms(1) k] by blast
  have "work_left (g i x) \<le> work_left x" if "(i, x) \<in> set (wf_tasks w)" for i x
    using g [of i x] that k progress_work [of x "g i x"] by (cases "g i x = x") (auto simp: keyed_dict_def)
  moreover have "(tid, u) \<in> set (wf_tasks w)" using u(1) by (rule map_of_SomeD)
  moreover have "work_left (g tid u) < work_left u" using progress_work g u by blast
  ultimately have "sum_list (map (\<lambda>(i, x). work_left (g i x)) (wf_tasks w)) < sum_list (map (\<lambda>(i, x). work_left x) (wf_tasks w))"
    by (intro sum_list_less [of _ _ _ "(tid, u)"]) (auto simp del: work_left.simps)
  then show ?thesis by (simp add: total_work_def w' update_all_def comp_def case_prod_unfold)
qed

lemma first_incomplete:
  assumes "upstream_ordered seen d" "distinct (map fst d)" "\<exists>(k, t) \<in> set d. task_status t \<noteq> TS_COMPLETED"
  shows "\<exists>a k t b. d = a @ (k, t) # b \<and> task_status t \<noteq> TS_COMPLETED \<and>
    (\<forall>(i, x) \<in> set a. task_status x = TS_COMPLETED) \<and> set (upstream_task_ids t) \<subseteq> seen \<union> fst ` set a"
proof -
  obtain a kt b where d: "d = a @ kt # b" "task_status (snd kt) \<noteq> TS_COMPLETED"
    "\<forall>x \<in> set a. task_status (snd x) = TS_COMPLETED"
    using assms(3) split_list_first_prop [of d "\<lambda>x. task_status (snd x) \<noteq> TS_COMPLETED"] by fastforce
  then show ?thesis
    using assms(1) by (cases kt) (force simp: upstream_ordered_append)
qed

lemma ready_exists:
  assumes "workflow_reachable w" "list_all (\<lambda>t. task_status t \<in> {TS_OPEN, TS_COMPLETED}) (tasks_of w)"
    and "\<exists>t \<in> set (tasks_of w). task_status t \<noteq> TS_COMPLETED"
  shows "\<exists>t. t \<in> set (tasks_of w) \<and> ready_now w t"
proof -
  have k: "distinct (map fst (wf_tasks w))" using reachable_keyed [OF assms(1)] by (simp add: keyed_dict_def)
  have "\<exists>(k, t) \<in> set (wf_tasks w). task_status t \<noteq> TS_COMPLETED" using assms(3) by (auto simp: tasks_of_def)
  from first_incomplete [OF _ k this] reachable_invariant [OF assms(1)] obtain a i t b where
    d: "wf_tasks w = a @ (i, t) # b" "task_status t \<noteq> TS_COMPLETED" "\<forall>(i, x) \<in> set a. task_status x = TS_COMPLETED"
      "set (upstream_task_ids t) \<subseteq> fst ` set a"
    by (metis Un_empty_left)
  have "upstream_completed (wf_tasks w) u" if "u \<in> set (upstream_task_ids t)" for u
  proof -
    from that d(4) obtain x where x: "(u, x) \<in> set a" by force
    then have "map_of (wf_tasks w) u = Some x" using k d(1) by (intro map_of_is_SomeI) auto
    with d(3) x show ?thesis by (auto simp: upstream_completed_def)
  qed
  moreover have "t \<in> set (tasks_of w)" by (simp add: tasks_of_def d(1))
  moreover have "task_status t = TS_OPEN" using d(2) assms(2) calculation(2) by (auto simp: list_all_iff)
  ultimately show ?thesis by (auto simp: ready_now_def list_all_iff)
qed

lemma claim_ready:
  assumes k: "keyed_dict task_id (wf_tasks w)" and t: "t \<in> set (tasks_of w)" "ready_now w t"
  shows "\<exists>c w'. claim_task w (task_id t) = Inr (c, w')"
proof -
  have "map_of (wf_tasks w) (task_id t) = Some t" using keyed_dict_map_of [OF k] t(1) by (auto simp: tasks_of_def)
  with t show ?thesis by (simp add: claim_task_def find_task_def ready_tasks_all [OF k] Let_def)
qed

lemma work_one_task:
  assumes "workflow_reachable w" "list_all (\<lambda>t. task_status t \<in> {TS_OPEN, TS_COMPLETED}) (tasks_of w)"
    and "\<exists>t \<in> set (tasks_of w). task_status t \<noteq> TS_COMPLETED"
  shows "\<exists>w1 w2. workflow_step False w w1 \<and> workflow_step False w1 w2 \<and> map fst (wf_tasks w2) = map fst (wf_tasks w) \<and>
    list_all (\<lambda>t. task_status t \<in> {TS_OPEN, TS_COMPLETED}) (tasks_of w2)"
proof -
  note k = reachable_keyed [OF assms(1)]
  obtain t where t: "t \<in> set (tasks_of w)" "ready_now w t" using ready_exists [OF assms] by blast
  then obtain c w1 where c: "claim_task w (task_id t) = Inr (c, w1)" using claim_ready [OF k] by blast
  from claim_effect [OF k c] obtain u where u: "task_status c = TS_LOCKED" "map_of (wf_tasks w) (task_id t) = Some u"
    and w1: "wf_tasks w1 = update_all (\<lambda>i x. if i = task_id t then c else x) (wf_tasks w)" by auto
  have k1: "keyed_dict task_id (wf_tasks w1)"
    using assms(1) c reachable_keyed workflow_reachable.step workflow_step.claim by blast
  have l: "map_of (wf_tasks w1) (task_id t) = Some c" using u by (simp add: w1 map_of_update_all)
  let ?c = "finish_task c (PBool True)"
  have finished: "task_status ?c = TS_COMPLETED" by (simp add: finish_task_def)
  have f: "complete_task w1 (task_id t) (PBool True) = Inr (?c, put_task w1 ?c)"
    using l u(1) by (simp add: complete_task_def find_task_def active_def)
  from complete_effect [OF k1 f] have w2: "wf_tasks (put_task w1 ?c) = update_all (\<lambda>i x. if i = task_id t then ?c else x) (wf_tasks w)"
    by (auto simp: w1 update_all_compose intro!: update_all_cong)
  have "list_all (\<lambda>t. task_status t \<in> {TS_OPEN, TS_COMPLETED}) (tasks_of (put_task w1 ?c))"
    using assms(2) finished by (fastforce simp: tasks_of_def w2 update_all_def list_all_iff)
  moreover have "map fst (wf_tasks (put_task w1 ?c)) = map fst (wf_tasks w)" by (simp add: w2)
  ultimately show ?thesis using workflow_step.claim [OF c] workflow_step.complete [OF f] by blast
qed

lemma workflow_completes:
  assumes "workflow_reachable w" "list_all (\<lambda>t. task_status t \<in> {TS_OPEN, TS_COMPLETED}) (tasks_of w)"
  shows "\<exists>w'. (workflow_step False)\<^sup>*\<^sup>* w w' \<and> map fst (wf_tasks w') = map fst (wf_tasks w) \<and>
    list_all (\<lambda>t. task_status t = TS_COMPLETED) (tasks_of w')"
  using assms
proof (induction "total_work w" arbitrary: w rule: less_induct)
  case less
  show ?case
  proof (cases "\<exists>t \<in> set (tasks_of w). task_status t \<noteq> TS_COMPLETED")
    case True
    from work_one_task [OF less.prems True] obtain w1 w2 where s: "workflow_step False w w1" "workflow_step False w1 w2"
      "map fst (wf_tasks w2) = map fst (wf_tasks w)" "list_all (\<lambda>t. task_status t \<in> {TS_OPEN, TS_COMPLETED}) (tasks_of w2)" by blast
    have r: "workflow_reachable w1" "workflow_reachable w2"
      using s less.prems(1) workflow_reachable.step by blast+
    have "total_work w2 < total_work w"
      using work_step_decreases s(1,2) reachable_keyed less.prems(1) r(1) by (meson less_trans)
    from less.hyps [OF this r(2) s(4)] s show ?thesis
      by (metis converse_rtranclp_into_rtranclp)
  qed (auto simp: list_all_iff)
qed

lemma create_reachable:
  "create_workflow files ts = Inr w \<Longrightarrow> list_all (\<lambda>t. task_status t = TS_OPEN) ts \<Longrightarrow> workflow_reachable w"
  by (auto simp: create_workflow_def list_all_iff elim!: foldM_r_invariant
      intro: workflow_reachable.start workflow_reachable.step workflow_step.add)

section \<open>Properties of workflow runs\<close>

text \<open>
  C22: In every workflow reached by adding open tasks, claiming, completing and terminating, every task
  is stored once under its identifier, the upstream tasks of a task exist and were added before it (so
  the dependencies have no cycle), a claimed task has only completed upstream tasks, and the document
  on disk of every task is the one of its current state.
\<close>

theorem workflow_run_invariant:
  assumes "workflow_reachable w"
  shows "keyed_dict task_id (wf_tasks w) \<and> upstream_ordered {} (wf_tasks w) \<and> locked_ok w \<and> on_disk w"
  using reachable_keyed [OF assms] reachable_invariant [OF assms] by blast

text \<open>
  C37: Work ends: from a reachable workflow at most two steps per task (a claim and a completion, or a
  termination) are possible without adding tasks.
\<close>

theorem work_steps_bounded:
  assumes "workflow_reachable w" and "(workflow_step False ^^ n) w w'"
  shows "n \<le> 2 * length (wf_tasks w)"
proof -
  have "n \<le> total_work w" if "workflow_reachable w" "(workflow_step False ^^ n) w w'" for n w
    using that
  proof (induction n arbitrary: w)
    case (Suc n)
    then obtain w1 where s: "workflow_step False w w1" "(workflow_step False ^^ n) w1 w'"
      by (metis relpowp_Suc_E2)
    with Suc have "n \<le> total_work w1" using workflow_reachable.step by blast
    with work_step_decreases [OF s(1) reachable_keyed [OF Suc.prems(1)]] show ?case by simp
  qed simp
  with assms total_work_bound [of w] show ?thesis by (meson le_trans)
qed


definition plain_task :: "string \<Rightarrow> string list \<Rightarrow> pyval \<Rightarrow> workflow_task" where
  "plain_task tid ups inp =
     \<lparr>task_id = tid, task_status = TS_OPEN, task_description = ''work'', task_complexity = TC_LOW,
      input_state = inp, output_state = PNone, assignee_type = AT_AGENT, assignee_role = AgentRole AR_CODER,
      task_details = None, llm_type = None, interaction_style = None, uses_processes = [], tool_invocations = [],
      prompt_catalogs = [], task_actions = [], actions_declared = False, output_state_type = ''state'',
      upstream_task_ids = ups, dependent_state = [], step_type = ''governed'', pre_step = None, task_gate = None,
      coding_loop = None, workflow_template = PNone, phase_type = None, task_persona_id = None, process_id = None,
      process_checkpoint = None\<rparr>"

definition sample_tasks :: "workflow_task list" where
  "sample_tasks = [plain_task ''plan'' [] (PStr ''go''), plain_task ''build'' [''plan''] (PStr ''plan.state'')]"

definition sample_workflow :: workflow_instance where
  "sample_workflow = foldl put_task \<lparr>wf_files = Map.empty, wf_tasks = []\<rparr> sample_tasks"

lemma sample_created: "create_workflow Map.empty sample_tasks = Inr sample_workflow"
  by (simp add: create_workflow_def sample_tasks_def sample_workflow_def add_task_def put_task_def plain_task_def)

lemma sample_reachable: "workflow_reachable sample_workflow"
  using create_reachable [OF sample_created] by (simp add: sample_tasks_def plain_task_def)

lemma sample_open: "wf_tasks sample_workflow = [(''plan'', plain_task ''plan'' [] (PStr ''go'')),
    (''build'', plain_task ''build'' [''plan''] (PStr ''plan.state''))]"
  by (simp add: sample_workflow_def sample_tasks_def put_task_def plain_task_def)

theorem workflow_run_invariant_witness:
  "workflow_reachable sample_workflow \<and> length (wf_tasks sample_workflow) = 2 \<and>
   upstream_ordered {} (wf_tasks sample_workflow) \<and> on_disk sample_workflow"
  using workflow_run_invariant [OF sample_reachable] sample_reachable by (simp add: sample_open)


theorem work_steps_bounded_witness:
  "\<exists>w'. (workflow_step False ^^ 1) sample_workflow w' \<and> (1::nat) \<le> 2 * length (wf_tasks sample_workflow)"
proof -
  have "\<exists>c w'. claim_task sample_workflow ''plan'' = Inr (c, w')"
    using claim_ready [OF reachable_keyed [OF sample_reachable], of "plain_task ''plan'' [] (PStr ''go'')"]
    by (simp add: tasks_of_def sample_open ready_now_def plain_task_def)
  then obtain w' where "(workflow_step False ^^ 1) sample_workflow w'"
    by (auto intro: workflow_step.claim)
  with work_steps_bounded [OF sample_reachable this] show ?thesis by blast
qed

end
