(* ===== verification/Task_Validation.thy ===== *)
theory Task_Validation
  imports Workflow_Instance
begin

text \<open>
  \<^verbatim>\<open>process/tasks.py\<close>, the validation reports of a task document and of a directory of task documents.

  A report is computed from the outcome of the JSON or YAML library on the file, an error text or the
  decoded value. Reports are results: the code tests \<^verbatim>\<open>step_type\<close> for membership in a set, which raises
  TypeError for an array or an object, and the directory report loads every document that validated,
  which may raise. A directory lists its task files in the order of their paths.
\<close>

record task_issue =
  ti_code :: string
  ti_message :: string
  ti_path :: "string option"

record task_report =
  tr_validation_successful :: bool
  tr_task_ids :: "string list"
  tr_task_paths :: "string list"
  tr_issues :: "task_issue list"

definition child_path :: "string option \<Rightarrow> string \<Rightarrow> string option" where
  "child_path src key = Some (case src of None \<Rightarrow> key | Some p \<Rightarrow> p @ ''.'' @ key)"

definition sequence_path :: "string option \<Rightarrow> string \<Rightarrow> nat \<Rightarrow> string option" where
  "sequence_path src key i = child_path src (key @ ''['' @ show_nat i @ '']'')"

definition task_issue_at :: "string option \<Rightarrow> string \<Rightarrow> string \<Rightarrow> string \<Rightarrow> task_issue" where
  "task_issue_at src code msg key = \<lparr>ti_code = code, ti_message = msg, ti_path = child_path src key\<rparr>"

definition unless_issue :: "bool \<Rightarrow> task_issue \<Rightarrow> task_issue list" where
  "unless_issue ok i = (if ok then [] else [i])"

definition TASK_KEYS :: "string list" where
  "TASK_KEYS =
     [''task_id'', ''status'', ''upstream_task_ids'', ''dependent_state'', ''complexity'', ''input_state'',
      ''output_state'', ''output_state_type'', ''description'', ''step_type'', ''assignee_type'',
      ''assignee_role'', ''details'', ''llm_type'', ''interaction_style'', ''uses_processes'',
      ''tool_invocations'', ''prompt_catalogs'', ''actions'', ''pre_step'', ''gate'', ''coding_loop'',
      ''workflow_template'', ''phase_type'', ''persona_id'', ''process_id'', ''process_checkpoint'']"

definition unknown_key_issues :: "string option \<Rightarrow> pydict \<Rightarrow> task_issue list" where
  "unknown_key_issues src raw =
     map (\<lambda>key. \<lparr>ti_code = ''unknown_key'',
        ti_message = ''Workflow Task contains unknown field '' @ py_repr key @ ''.'',
        ti_path = Some (case src of Some (c # cs) \<Rightarrow> (c # cs) @ ''.'' @ key | _ \<Rightarrow> key)\<rparr>)
       (filter (\<lambda>key. key \<notin> set TASK_KEYS) (map fst raw))"

definition identity_issues :: "string option \<Rightarrow> pydict \<Rightarrow> task_issue list" where
  "identity_issues src raw =
     (case optional_phase_type (get_item raw ''phase_type'') of
        Inl (ValueError m) \<Rightarrow> [task_issue_at src ''invalid_phase_type'' m ''phase_type'']
      | _ \<Rightarrow> [])
     @ unless_issue (get_item raw ''persona_id'' = PNone \<or> task_optional_string (get_item raw ''persona_id'') \<noteq> None)
         (task_issue_at src ''invalid_persona_id'' ''Workflow task persona_id must be a non-empty string.'' ''persona_id'')
     @ unless_issue (get_item raw ''process_id'' = PNone \<or> task_optional_string (get_item raw ''process_id'') \<noteq> None)
         (task_issue_at src ''invalid_process_id'' ''process_id must be a non-empty string when provided.'' ''process_id'')
     @ unless_issue (get_item raw ''process_checkpoint'' = PNone \<or> is_mapping (get_item raw ''process_checkpoint''))
         (task_issue_at src ''invalid_process_checkpoint'' ''process_checkpoint must be a mapping when provided.''
           ''process_checkpoint'')"

definition style_ok :: "pyval \<Rightarrow> bool" where
  "style_ok v = (case v of PNone \<Rightarrow> True | PStr s \<Rightarrow> strip s \<in> set SUPPORTED_TASK_INTERACTION_STYLES | _ \<Rightarrow> False)"

definition step_issues :: "string option \<Rightarrow> pydict \<Rightarrow> task_issue list result" where
  "step_issues src raw =
     (let st = get_default raw ''step_type'' (PStr ''governed'');
          pre = get_item raw ''pre_step'';
          i1 = unless_issue (case st of PStr s \<Rightarrow> s \<in> set SUPPORTED_TASK_STEP_TYPES | _ \<Rightarrow> False)
            (task_issue_at src ''invalid_step_type_value''
              (''Workflow task step_type must be governed, invoke_tool, gate, '' @ ''or coding_loop.'') ''step_type'');
          i2 = unless_issue (style_ok (get_item raw ''interaction_style''))
            (task_issue_at src ''invalid_interaction_style''
              (''Workflow task interaction_style must be one of: '' @
               py_join '', '' (sort SUPPORTED_TASK_INTERACTION_STYLES) @ ''.'') ''interaction_style'') in
      bind_r (set_member st [''invoke_tool'', ''gate'']) (\<lambda>tool_step.
      if tool_step \<and> \<not> is_mapping pre then
        Inr (i1 @ i2 @ [task_issue_at src ''missing_pre_step''
          ''invoke_tool and gate workflow tasks must declare a pre_step.'' ''pre_step''])
      else if st = PStr ''invoke_tool'' \<and> truthy (get_item raw ''tool_invocations'') then
        Inr (i1 @ i2 @ [task_issue_at src ''unexpected_tool_invocations''
          (''invoke_tool workflow tasks must use pre_step instead of '' @ ''tool_invocations.'') ''tool_invocations''])
      else bind_r (set_member st [''governed'', ''coding_loop'']) (\<lambda>plain_step.
        Inr (i1 @ i2 @ unless_issue (\<not> (plain_step \<and> pre \<noteq> PNone))
          (task_issue_at src ''unexpected_pre_step''
            ''Only invoke_tool and gate workflow tasks may declare pre_step.'' ''pre_step'')))))"

definition required_field_issues :: "string option \<Rightarrow> pydict \<Rightarrow> task_issue list" where
  "required_field_issues src raw =
     (let tid = task_optional_string (get_item raw ''task_id'');
          status = task_optional_string (get_item raw ''status'');
          complexity = task_optional_string (get_item raw ''complexity'');
          ty = task_optional_string (get_item raw ''assignee_type'');
          role = task_optional_string (get_item raw ''assignee_role'') in
      unless_issue (get_item raw ''prompt_catalogs'' \<noteq> PList [])
        (task_issue_at src ''empty_prompt_catalogs''
          (''Workflow task prompt_catalogs must omit the field when no '' @ ''prompt catalog is needed.'') ''prompt_catalogs'')
      @ unless_issue (tid \<noteq> None)
          (task_issue_at src ''missing_task_id'' ''Workflow task entries must include a non-empty task_id.'' ''task_id'')
      @ unless_issue (task_optional_string (get_item raw ''description'') \<noteq> None)
          (task_issue_at src ''missing_description'' ''Workflow task entries must include a non-empty description.''
            ''description'')
      @ (case status of
           None \<Rightarrow> [task_issue_at src ''missing_status'' ''Workflow task entries must include a non-empty status.'' ''status'']
         | Some s \<Rightarrow> unless_issue (s \<in> set (map status_value status_members))
             (task_issue_at src ''invalid_status''
               (''Workflow task status must be one of open, completed, closed, '' @ ''superceded, abandoned, or locked.'')
               ''status''))
      @ (case complexity of
           None \<Rightarrow> [task_issue_at src ''missing_complexity'' ''Workflow task entries must include a non-empty complexity.''
                     ''complexity'']
         | Some s \<Rightarrow> unless_issue (s \<in> set (map complexity_value complexity_members))
             (task_issue_at src ''invalid_complexity'' ''Workflow task complexity must be one of low, medium, or high.''
               ''complexity''))
      @ (case ty of
           None \<Rightarrow> [task_issue_at src ''missing_assignee_type''
                     ''Workflow task entries must include a non-empty assignee_type.'' ''assignee_type'']
         | Some s \<Rightarrow> unless_issue (s \<in> set (map assignee_value assignee_members))
             (task_issue_at src ''invalid_assignee_type'' ''Workflow task assignee_type must be agent or human.''
               ''assignee_type''))
      @ (case role of
           None \<Rightarrow> [task_issue_at src ''missing_assignee_role''
                     ''Workflow task entries must include a non-empty assignee_role.'' ''assignee_role'']
         | Some r \<Rightarrow>
             (case ty of
                Some s \<Rightarrow>
                  if s \<in> set (map assignee_value assignee_members)
                  then (case validate_assignee s r of
                      Inl (ValueError m) \<Rightarrow> [task_issue_at src ''invalid_assignee_role'' m ''assignee_role'']
                    | _ \<Rightarrow> [])
                  else []
              | None \<Rightarrow> []))
      @ (case map_of raw ''input_state'' of
           None \<Rightarrow> [task_issue_at src ''missing_input_state'' ''Workflow task entries must include input_state.''
                     ''input_state'']
         | Some v \<Rightarrow> unless_issue (v \<noteq> PNone)
             (task_issue_at src ''null_input_state'' ''Workflow task input_state must not be null.'' ''input_state''))
      @ unless_issue (task_optional_string (get_item raw ''output_state_type'') \<noteq> None)
          (task_issue_at src ''missing_output_state_type''
            ''Workflow task entries must include a non-empty output_state_type.'' ''output_state_type''))"

text \<open>The loop over \<^verbatim>\<open>upstream_task_ids\<close>, with the identifiers seen so far.\<close>

fun upstream_issues :: "string option \<Rightarrow> string option \<Rightarrow> nat \<Rightarrow> string list \<Rightarrow> pyval list \<Rightarrow> task_issue list" where
  "upstream_issues src tid i seen [] = []"
| "upstream_issues src tid i seen (v # vs) =
     (let at = sequence_path src ''upstream_task_ids'' i in
      case task_optional_string v of
        None \<Rightarrow> \<lparr>ti_code = ''invalid_upstream_task_id'',
          ti_message = ''Workflow task upstream_task_ids must contain '' @ ''non-empty strings.'', ti_path = at\<rparr>
          # upstream_issues src tid (i + 1) seen vs
      | Some u \<Rightarrow>
          unless_issue (tid \<noteq> Some u) \<lparr>ti_code = ''self_dependency'',
            ti_message = ''A workflow task cannot list itself as an upstream task.'', ti_path = at\<rparr>
          @ (if u \<in> set seen
             then \<lparr>ti_code = ''duplicate_upstream_task_id'',
               ti_message = ''Workflow task upstream_task_ids must not contain '' @ ''duplicates.'', ti_path = at\<rparr>
               # upstream_issues src tid (i + 1) seen vs
             else upstream_issues src tid (i + 1) (u # seen) vs))"

fun dependent_issues :: "string option \<Rightarrow> nat \<Rightarrow> string list \<Rightarrow> pyval list \<Rightarrow> task_issue list" where
  "dependent_issues src i seen [] = []"
| "dependent_issues src i seen (v # vs) =
     (let at = sequence_path src ''dependent_state'' i in
      case task_optional_string v of
        None \<Rightarrow> \<lparr>ti_code = ''invalid_dependent_state_item'',
          ti_message = ''Workflow task dependent_state must contain '' @ ''non-empty strings.'', ti_path = at\<rparr>
          # dependent_issues src (i + 1) seen vs
      | Some s \<Rightarrow>
          (if s \<in> set seen
           then \<lparr>ti_code = ''duplicate_dependent_state'',
             ti_message = ''Workflow task dependent_state must not contain duplicates.'', ti_path = at\<rparr>
             # dependent_issues src (i + 1) seen vs
           else dependent_issues src (i + 1) (s # seen) vs))"

definition sequence_issues :: "string option \<Rightarrow> pydict \<Rightarrow> task_issue list" where
  "sequence_issues src raw =
     (case get_item raw ''upstream_task_ids'' of
        PList vs \<Rightarrow> upstream_issues src (task_optional_string (get_item raw ''task_id'')) 0 [] vs
      | _ \<Rightarrow> [task_issue_at src ''invalid_upstream_task_ids_type'' ''Workflow task upstream_task_ids must be an array.''
                ''upstream_task_ids''])
     @ (case get_item raw ''dependent_state'' of
        PList vs \<Rightarrow> dependent_issues src 0 [] vs
      | _ \<Rightarrow> [task_issue_at src ''invalid_dependent_state_type'' ''Workflow task dependent_state must be an array.''
                ''dependent_state''])"

definition opt_list :: "string option \<Rightarrow> string list" where
  "opt_list x = (case x of None \<Rightarrow> [] | Some s \<Rightarrow> [s])"

definition failed_report :: "string option \<Rightarrow> string \<Rightarrow> string \<Rightarrow> task_report" where
  "failed_report src code msg =
     \<lparr>tr_validation_successful = False, tr_task_ids = [], tr_task_paths = opt_list src,
      tr_issues = [\<lparr>ti_code = code, ti_message = msg, ti_path = src\<rparr>]\<rparr>"

text \<open>
  \<^verbatim>\<open>build_workflow_task_validation_report\<close>: \<open>fmt\<close> is YAML or JSON, by the suffix of the path, and
  \<open>parsed\<close> the outcome of that library on the content.
\<close>

definition build_workflow_task_validation_report ::
    "string \<Rightarrow> string option \<Rightarrow> string + pyval \<Rightarrow> task_report result" where
  "build_workflow_task_validation_report fmt src parsed =
     (case parsed of
        Inl err \<Rightarrow> Inr (failed_report src (if fmt = ''YAML'' then ''invalid_yaml'' else ''invalid_json'')
          (''Could not parse workflow task '' @ fmt @ '': '' @ err))
      | Inr (PDict raw) \<Rightarrow>
          bind_r (step_issues src raw) (\<lambda>steps.
          let issues = unknown_key_issues src raw @ identity_issues src raw @ steps @ required_field_issues src raw
                @ sequence_issues src raw;
              tid = task_optional_string (get_item raw ''task_id'') in
          Inr \<lparr>tr_validation_successful = (issues = []), tr_task_ids = opt_list tid, tr_task_paths = opt_list src,
               tr_issues = issues\<rparr>)
      | Inr _ \<Rightarrow> Inr (failed_report src ''invalid_root_type'' (''Workflow task '' @ fmt @ '' must decode to an object.'')))"

section \<open>Directories\<close>

datatype task_directory =
    MissingDirectory
  | NotADirectory
  | TaskFiles "(string \<times> string \<times> (string + pyval)) list"

record directory_scan =
  ds_issues :: "task_issue list"
  ds_ids :: "(string \<times> string \<times> workflow_task) list"
  ds_references :: "(string \<times> workflow_task) list"

definition scan_file :: "directory_scan \<Rightarrow> string \<times> string \<times> (string + pyval) \<Rightarrow> directory_scan result" where
  "scan_file scan f =
     (case f of (path, fmt, parsed) \<Rightarrow>
        bind_r (build_workflow_task_validation_report fmt (Some path) parsed) (\<lambda>r.
        if \<not> tr_validation_successful r \<or> tr_task_ids r = []
        then Inr (scan\<lparr>ds_issues := ds_issues scan @ tr_issues r\<rparr>)
        else
          bind_r (case parsed of Inr (PDict raw) \<Rightarrow> workflow_task_from_data raw
            | _ \<Rightarrow> Inl (ValueError (''Workflow task '' @ fmt @ '' must decode to an object.''))) (\<lambda>t.
          let scan1 = scan\<lparr>ds_issues := ds_issues scan @ tr_issues r, ds_references := ds_references scan @ [(path, t)]\<rparr> in
          case map_of (ds_ids scan) (task_id t) of
            Some (first_path, _) \<Rightarrow> Inr (scan1\<lparr>ds_issues := ds_issues scan1 @
              [\<lparr>ti_code = ''duplicate_task_id'',
                ti_message = ''Workflow task id '' @ py_repr (task_id t) @ '' appears in both '' @ first_path @
                  '' and '' @ path @ ''.'', ti_path = Some path\<rparr>]\<rparr>)
          | None \<Rightarrow> Inr (scan1\<lparr>ds_ids := ds_ids scan @ [(task_id t, path, t)]\<rparr>))))"

definition reference_issues :: "directory_scan \<Rightarrow> task_issue list" where
  "reference_issues scan =
     concat (map (\<lambda>(path, t). concat (map (\<lambda>(i, u).
       unless_issue (map_of (ds_ids scan) u \<noteq> None)
         \<lparr>ti_code = ''missing_upstream_task'',
          ti_message = ''Workflow task '' @ py_repr (task_id t) @ '' references unknown '' @ ''upstream task '' @ py_repr u @ ''.'',
          ti_path = sequence_path (Some path) ''upstream_task_ids'' i\<rparr>) (List.enumerate 0 (upstream_task_ids t))))
       (ds_references scan))"

text \<open>\<^verbatim>\<open>downstream_task_ids[task_id]\<close>: the tasks that name it upstream, in the order of the files.\<close>

definition downstream_ids :: "directory_scan \<Rightarrow> string \<Rightarrow> string list" where
  "downstream_ids scan tid =
     (if map_of (ds_ids scan) tid = None then []
      else concat (map (\<lambda>(path, t). map (\<lambda>u. task_id t) (filter (\<lambda>u. u = tid) (upstream_task_ids t))) (ds_references scan)))"

definition closed_downstream_issues :: "directory_scan \<Rightarrow> task_issue list" where
  "closed_downstream_issues scan =
     concat (map (\<lambda>(path, t).
       if task_status t \<noteq> TS_OPEN then []
       else concat (map (\<lambda>d. case map_of (ds_ids scan) d of
           None \<Rightarrow> []
         | Some (_, x) \<Rightarrow> unless_issue (task_status x \<noteq> TS_CLOSED)
             \<lparr>ti_code = ''open_task_has_closed_downstream_task'',
              ti_message = ''Workflow task '' @ py_repr (task_id t) @ '' is open while downstream '' @ ''task '' @
                py_repr (task_id x) @ '' is closed.'', ti_path = Some path\<rparr>) (downstream_ids scan (task_id t))))
       (ds_references scan))"

definition build_workflow_task_directory_validation_report :: "string \<Rightarrow> task_directory \<Rightarrow> task_report result" where
  "build_workflow_task_directory_validation_report directory d =
     (case d of
        MissingDirectory \<Rightarrow> Inr \<lparr>tr_validation_successful = False, tr_task_ids = [], tr_task_paths = [], tr_issues =
          [\<lparr>ti_code = ''missing_directory'', ti_message = ''Workflow task directory does not exist: '' @ directory,
            ti_path = Some directory\<rparr>]\<rparr>
      | NotADirectory \<Rightarrow> Inr \<lparr>tr_validation_successful = False, tr_task_ids = [], tr_task_paths = [], tr_issues =
          [\<lparr>ti_code = ''not_a_directory'', ti_message = ''Workflow task path is not a directory: '' @ directory,
            ti_path = Some directory\<rparr>]\<rparr>
      | TaskFiles files \<Rightarrow>
          bind_r (foldM_r scan_file \<lparr>ds_issues = [], ds_ids = [], ds_references = []\<rparr> files) (\<lambda>scan.
          let issues = ds_issues scan @ reference_issues scan @ closed_downstream_issues scan in
          Inr \<lparr>tr_validation_successful = (issues = []), tr_task_ids = map fst (ds_ids scan),
               tr_task_paths = map fst files, tr_issues = issues\<rparr>))"

section \<open>What a successful directory report guarantees\<close>

lemma unless_issue_Nil [simp]: "unless_issue b i = [] \<longleftrightarrow> b"
  by (simp add: unless_issue_def)

definition file_holds :: "string \<times> string \<times> (string + pyval) \<Rightarrow> workflow_task \<Rightarrow> bool" where
  "file_holds f t \<longleftrightarrow> (\<exists>raw. snd (snd f) = Inr (PDict raw) \<and> workflow_task_from_data raw = Inr t)"

lemma required_task_id: "required_field_issues src raw = [] \<Longrightarrow> task_optional_string (get_item raw ''task_id'') \<noteq> None"
  by (simp add: required_field_issues_def Let_def)

lemma scan_file_clean:
  assumes "scan_file scan f = Inr scan'" "ds_issues scan' = []"
  shows "ds_issues scan = [] \<and> (\<exists>t. file_holds f t \<and> map_of (ds_ids scan) (task_id t) = None \<and>
    ds_references scan' = ds_references scan @ [(fst f, t)] \<and> ds_ids scan' = ds_ids scan @ [(task_id t, fst f, t)])"
proof -
  obtain path fmt parsed where f: "f = (path, fmt, parsed)" by (cases f) auto
  from assms(1) obtain r where r: "build_workflow_task_validation_report fmt (Some path) parsed = Inr r"
    by (auto simp: scan_file_def f)
  have unsuccessful: "tr_issues r \<noteq> []" if "\<not> tr_validation_successful r"
    using that r by (auto simp: build_workflow_task_validation_report_def failed_report_def Let_def
        split: sum.splits pyval.splits)
  have ids: "tr_task_ids r \<noteq> []" if "tr_validation_successful r"
    using that r by (auto simp: build_workflow_task_validation_report_def failed_report_def Let_def opt_list_def
        split: sum.splits pyval.splits option.splits dest: required_task_id)
  show ?thesis
  proof (cases "tr_validation_successful r")
    case False
    with assms r unsuccessful show ?thesis by (auto simp: scan_file_def f)
  next
    case True
    with assms(1) r ids obtain raw t where t: "parsed = Inr (PDict raw)" "workflow_task_from_data raw = Inr t"
      by (auto simp: scan_file_def f split: sum.splits pyval.splits)
    with True assms r ids show ?thesis
      by (auto simp: scan_file_def f file_holds_def Let_def split: option.splits)
  qed
qed

lemma scan_files_clean:
  assumes "foldM_r scan_file scan files = Inr scan'" "ds_issues scan' = []"
  shows "ds_issues scan = [] \<and> (\<exists>ts. list_all2 file_holds files ts \<and>
    ds_references scan' = ds_references scan @ zip (map fst files) ts \<and>
    ds_ids scan' = ds_ids scan @ map (\<lambda>(p, t). (task_id t, p, t)) (zip (map fst files) ts) \<and>
    (distinct (map fst (ds_ids scan)) \<longrightarrow> distinct (map fst (ds_ids scan'))))"
  using assms
proof (induction files arbitrary: scan)
  case (Cons f files)
  from Cons.prems(1) obtain mid where step: "scan_file scan f = Inr mid" "foldM_r scan_file mid files = Inr scan'" by auto
  from Cons.IH [OF step(2) Cons.prems(2)] obtain ts where ts: "ds_issues mid = []" "list_all2 file_holds files ts"
    "ds_references scan' = ds_references mid @ zip (map fst files) ts"
    "ds_ids scan' = ds_ids mid @ map (\<lambda>(p, t). (task_id t, p, t)) (zip (map fst files) ts)"
    "distinct (map fst (ds_ids mid)) \<longrightarrow> distinct (map fst (ds_ids scan'))" by blast
  from scan_file_clean [OF step(1) ts(1)] obtain t where t: "ds_issues scan = []" "file_holds f t"
    "map_of (ds_ids scan) (task_id t) = None" "ds_references mid = ds_references scan @ [(fst f, t)]"
    "ds_ids mid = ds_ids scan @ [(task_id t, fst f, t)]" by blast
  have "distinct (map fst (ds_ids scan)) \<longrightarrow> distinct (map fst (ds_ids mid))"
    using t(3) by (auto simp: t(5) map_of_eq_None_iff)
  with t ts show ?case by (intro conjI exI [of _ "t # ts"]) auto
qed simp

text \<open>
  If the directory report is successful, every file holds a task document that loads, task
  identifiers are distinct and reported in the order of the files, every upstream identifier is a task
  of the directory, and no task that waits for an open task is closed.
\<close>

theorem directory_report_sound:
  assumes "build_workflow_task_directory_validation_report dir (TaskFiles files) = Inr r" "tr_validation_successful r"
  shows "\<exists>ts. list_all2 file_holds files ts \<and> distinct (map task_id ts) \<and> tr_task_ids r = map task_id ts \<and>
    list_all (\<lambda>t. set (upstream_task_ids t) \<subseteq> task_id ` set ts) ts \<and>
    list_all (\<lambda>t. list_all (\<lambda>x. task_status t = TS_OPEN \<and> task_id t \<in> set (upstream_task_ids x) \<longrightarrow>
      task_status x \<noteq> TS_CLOSED) ts) ts"
proof -
  from assms obtain scan where scan: "foldM_r scan_file \<lparr>ds_issues = [], ds_ids = [], ds_references = []\<rparr> files = Inr scan"
    "ds_issues scan = []" "reference_issues scan = []" "closed_downstream_issues scan = []" "tr_task_ids r = map fst (ds_ids scan)"
    by (auto simp: build_workflow_task_directory_validation_report_def Let_def)
  from scan_files_clean [OF scan(1,2)] obtain ts where ts: "list_all2 file_holds files ts"
    "ds_references scan = zip (map fst files) ts"
    "ds_ids scan = map (\<lambda>(p, t). (task_id t, p, t)) (zip (map fst files) ts)" "distinct (map fst (ds_ids scan))" by auto
  have len: "length files = length ts" using ts(1) by (rule list_all2_lengthD)
  have refs: "snd ` set (ds_references scan) = set ts" "map snd (ds_references scan) = ts"
    using len by (auto simp: ts(2) simp flip: set_map)
  have ids: "map fst (ds_ids scan) = map task_id ts"
    using len by (simp add: ts(3) comp_def case_prod_unfold flip: map_map [of task_id snd, unfolded comp_def])
  have lookup: "map_of (ds_ids scan) (task_id t) = Some (p, t)" if "(p, t) \<in> set (ds_references scan)" for p t
  proof -
    have "(task_id t, p, t) \<in> set (ds_ids scan)" using that by (force simp: ts(2,3))
    with ts(4) show ?thesis by (rule map_of_is_SomeI)
  qed
  have known: "u \<in> task_id ` set ts" if "t \<in> set ts" "u \<in> set (upstream_task_ids t)" for t u
  proof -
    from that(1) obtain p where pt: "(p, t) \<in> set (ds_references scan)" using refs(1) by force
    from that(2) obtain i where "i < length (upstream_task_ids t)" "upstream_task_ids t ! i = u"
      unfolding in_set_conv_nth by blast
    then have "(i, u) \<in> set (List.enumerate 0 (upstream_task_ids t))" by (simp add: in_set_enumerate_eq)
    with pt scan(3) have "map_of (ds_ids scan) u \<noteq> None"
      by (fastforce simp: reference_issues_def)
    then have "u \<in> set (map fst (ds_ids scan))" unfolding map_of_eq_None_iff by simp
    then show ?thesis by (simp add: ids)
  qed
  have closed: "task_status x \<noteq> TS_CLOSED"
    if t: "t \<in> set ts" "task_status t = TS_OPEN" and x: "x \<in> set ts" "task_id t \<in> set (upstream_task_ids x)" for t x
  proof -
    from t x obtain p q where pt: "(p, t) \<in> set (ds_references scan)" "(q, x) \<in> set (ds_references scan)"
      using refs(1) by force
    have "task_id x \<in> set (downstream_ids scan (task_id t))"
      using pt x(2) lookup [OF pt(1)] by (force simp: downstream_ids_def)
    with scan(4) pt(1) t(2) lookup [OF pt(2)] show ?thesis
      by (fastforce simp: closed_downstream_issues_def)
  qed
  show ?thesis
    using ts(1,4) scan(5) known closed by (intro exI [of _ ts]) (auto simp: ids list_all_iff)
qed

definition task_document :: "string \<Rightarrow> string list \<Rightarrow> pydict \<Rightarrow> pydict" where
  "task_document tid ups extra =
     [(''task_id'', PStr tid), (''status'', PStr ''open''), (''upstream_task_ids'', PList (map PStr ups)),
      (''dependent_state'', PList []), (''complexity'', PStr ''low''), (''input_state'', PStr ''go''),
      (''assignee_type'', PStr ''agent''), (''assignee_role'', PStr ''coder''), (''output_state_type'', PStr ''state''),
      (''description'', PStr ''work'')] @ extra"

definition task_file :: "string \<Rightarrow> pydict \<Rightarrow> string \<times> string \<times> (string + pyval)" where
  "task_file tid doc = (tid @ ''.yaml'', ''YAML'', Inr (PDict doc))"

definition sample_directory :: task_directory where
  "sample_directory = TaskFiles [task_file ''a'' (task_document ''a'' [] []), task_file ''b'' (task_document ''b'' [''a''] [])]"

theorem directory_report_sound_witness:
  "\<exists>r (ts :: workflow_task list).
     build_workflow_task_directory_validation_report ''w'' sample_directory = Inr r \<and> tr_validation_successful r \<and>
     tr_task_ids r = map task_id ts \<and> length ts = 2"
proof -
  have "(case build_workflow_task_directory_validation_report ''w'' sample_directory of
      Inr r \<Rightarrow> tr_validation_successful r | Inl e \<Rightarrow> False)"
    by code_simp
  then obtain r where r: "build_workflow_task_directory_validation_report ''w'' sample_directory = Inr r" "tr_validation_successful r"
    by (auto split: sum.splits)
  from directory_report_sound [OF r(1) [unfolded sample_directory_def] r(2)] obtain ts where
    "list_all2 file_holds [task_file ''a'' (task_document ''a'' [] []), task_file ''b'' (task_document ''b'' [''a''] [])] ts"
    "tr_task_ids r = map task_id ts" by blast
  moreover from this(1) have "length ts = 2" by (auto dest: list_all2_lengthD)
  ultimately show ?thesis using r by blast
qed

text \<open>
  The directory report does not look for dependency cycles: two open tasks that wait for each other
  validate, and the workflow loaded from them has no ready task.
\<close>

theorem validated_directory_can_deadlock:
  "(case build_workflow_task_directory_validation_report ''w''
      (TaskFiles [task_file ''a'' (task_document ''a'' [''b''] []), task_file ''b'' (task_document ''b'' [''a''] [])]) of
      Inr r \<Rightarrow> tr_validation_successful r | Inl e \<Rightarrow> False) \<and>
   (case from_directory [(''a'', task_document ''a'' [''b''] []), (''b'', task_document ''b'' [''a''] [])] of
      Inr w \<Rightarrow> map task_status (tasks_of w) = [TS_OPEN, TS_OPEN] \<and> ready_tasks w None None = Inr []
    | Inl e \<Rightarrow> False)"
  by (rule conjI; code_simp)

text \<open>
  A document can validate and still not load: a gate step with a pre-step object but no gate. The
  directory report then raises instead of reporting.
\<close>

theorem validated_document_may_not_load:
  "(case build_workflow_task_validation_report ''YAML'' (Some ''g.yaml'')
      (Inr (PDict (task_document ''g'' [] [(''step_type'', PStr ''gate''), (''pre_step'', PDict [])]))) of
      Inr r \<Rightarrow> tr_validation_successful r | Inl e \<Rightarrow> False) \<and>
   \<not> is_ok (build_workflow_task_directory_validation_report ''w''
      (TaskFiles [task_file ''g'' (task_document ''g'' [] [(''step_type'', PStr ''gate''), (''pre_step'', PDict [])])]))"
  by (rule conjI; code_simp)

end
