(* ===== verification/Process_Template.thy ===== *)
theory Process_Template
  imports Task_Validation
begin

text \<open>
  \<^verbatim>\<open>process/templates.py\<close>, the documents: task templates with their post-initialisation, workflow templates, the
  serializers and the strict parser, whose checks are branches in the order of the source. The JSON or YAML text of a
  template is its decoded value; states and invariants are arbitrary JSON values.
\<close>

section \<open>Templates\<close>

record template_generation =
  gen_for_each :: string
  gen_downstream :: "int list"

definition generation_to_data :: "template_generation \<Rightarrow> pydict" where
  "generation_to_data g =
     [(''for_each'', PStr (gen_for_each g)), (''downstream_task_template_indexes'', PList (map PInt (gen_downstream g)))]"

record task_template =
  tt_description :: string
  tt_complexity :: task_complexity
  tt_input_state :: pyval
  tt_assignee_type :: assignee_type
  tt_assignee_role :: assignee_role
  tt_details :: "string option"
  tt_llm_type :: "string option"
  tt_interaction_style :: "string option"
  tt_uses_processes :: "string list"
  tt_tool_invocations :: "tool_invocation list"
  tt_prompt_catalogs :: "string list"
  tt_actions :: "string list"
  tt_actions_declared :: bool
  tt_output_state_type :: string
  tt_dependent_state :: "string list"
  tt_generation :: "template_generation option"
  tt_step_type :: string
  tt_pre_step :: "task_pre_step option"
  tt_gate :: "task_gate option"
  tt_coding_loop :: "coding_loop_spec option"
  tt_phase_type :: "phase_type option"
  tt_persona_id :: "string option"

text \<open>\<^verbatim>\<open>WorkflowTaskTemplate(...)\<close> with its \<^verbatim>\<open>__post_init__\<close>, from the given field values.\<close>

definition make_task_template :: "task_template \<Rightarrow> task_template result" where
  "make_task_template t =
     bind_r (validate_assignee (assignee_value (tt_assignee_type t)) (role_value (tt_assignee_role t))) (\<lambda>(ty, role).
     Inr (t\<lparr>tt_actions_declared := (tt_actions t \<noteq> [] \<or> tt_actions_declared t),
            tt_assignee_type := ty, tt_assignee_role := role\<rparr>))"

definition task_template_to_data :: "task_template \<Rightarrow> pydict" where
  "task_template_to_data t =
     [(''description'', PStr (tt_description t)),
      (''complexity'', PStr (complexity_value (tt_complexity t))),
      (''input_state'', tt_input_state t),
      (''assignee_type'', PStr (assignee_value (tt_assignee_type t))),
      (''assignee_role'', PStr (role_value (tt_assignee_role t))),
      (''output_state_type'', PStr (tt_output_state_type t)),
      (''dependent_state'', PList (map PStr (tt_dependent_state t)))]
     @ entry_if ''phase_type'' (map_option phase_value (tt_phase_type t))
     @ entry_if ''persona_id'' (tt_persona_id t)
     @ text_entry ''step_type'' (Some (tt_step_type t))
     @ text_entry ''details'' (tt_details t)
     @ text_entry ''llm_type'' (tt_llm_type t)
     @ text_entry ''interaction_style'' (tt_interaction_style t)
     @ items_entry ''uses_processes'' PStr (tt_uses_processes t)
     @ items_entry ''tool_invocations'' (PDict \<circ> invocation_to_data) (tt_tool_invocations t)
     @ items_entry ''prompt_catalogs'' PStr (tt_prompt_catalogs t)
     @ items_entry ''actions'' PStr (tt_actions t)
     @ dict_entry ''pre_step'' pre_step_to_data (tt_pre_step t)
     @ dict_entry ''gate'' gate_to_data (tt_gate t)
     @ dict_entry ''coding_loop'' coding_loop_to_data (tt_coding_loop t)
     @ (if tt_actions_declared t \<and> tt_actions t = [] then [(''actions'', PList [])] else [])
     @ dict_entry ''generation'' generation_to_data (tt_generation t)"

record process_template =
  wt_when_to_use :: "string list"
  wt_how_to_fill_this_out :: "string list"
  wt_task_templates :: "task_template list"
  wt_invariants :: "pydict list"
  wt_id :: "string option"

definition template_to_data :: "process_template \<Rightarrow> pydict" where
  "template_to_data t =
     [(''when_to_use'', PList (map PStr (wt_when_to_use t))),
      (''how_to_fill_this_out'', PList (map PStr (wt_how_to_fill_this_out t))),
      (''task_templates'', PList (map (PDict \<circ> task_template_to_data) (wt_task_templates t)))]
     @ entry_if ''id'' (wt_id t)
     @ items_entry ''invariants'' PDict (wt_invariants t)"

section \<open>The parser\<close>

definition template_required_string :: "pydict \<Rightarrow> string \<Rightarrow> string result" where
  "template_required_string data key =
     (case task_optional_string (get_item data key) of
        None \<Rightarrow> Inl (ValueError (''Workflow template entries must include a non-empty '' @ key @ ''.''))
      | Some s \<Rightarrow> Inr s)"

definition template_complexity :: "pydict \<Rightarrow> string \<Rightarrow> task_complexity result" where
  "template_complexity data key =
     bind_r (template_required_string data key) (\<lambda>raw.
     case enum_find complexity_value complexity_members raw of
       Some c \<Rightarrow> Inr c
     | None \<Rightarrow> Inl (ValueError ''Workflow task template complexity must be one of low, medium, or high.''))"

definition template_item :: "string \<Rightarrow> pyval \<Rightarrow> string result" where
  "template_item key item =
     (case task_optional_string item of
        None \<Rightarrow> Inl (ValueError (''Workflow template '' @ key @ '' entries must contain non-empty strings.''))
      | Some s \<Rightarrow> Inr s)"

definition template_strings :: "pydict \<Rightarrow> string \<Rightarrow> string list result" where
  "template_strings data key =
     (case get_item data key of
        PList items \<Rightarrow> mapM_r (template_item key) items
      | _ \<Rightarrow> Inl (ValueError (''Workflow template entries must include an array for '' @ key @ ''.'')))"

fun index_item :: "pyval \<Rightarrow> int option" where
  "index_item (PInt i) = (if i < 0 then None else Some i)"
| "index_item _ = None"

definition template_indexes :: "pydict \<Rightarrow> string \<Rightarrow> int list result" where
  "template_indexes data key =
     (case get_item data key of
        PList items \<Rightarrow> mapM_r (\<lambda>item. case index_item item of
            Some i \<Rightarrow> Inr i
          | None \<Rightarrow> Inl (ValueError (''Workflow template '' @ key @ '' entries must contain non-negative integers.''))) items
      | _ \<Rightarrow> Inl (ValueError (''Workflow template entries must include an array for '' @ key @ ''.'')))"

definition template_phase_type :: "pyval \<Rightarrow> phase_type option result" where
  "template_phase_type v =
     (case v of
        PNone \<Rightarrow> Inr None
      | PStr s \<Rightarrow>
          (case enum_find phase_value phase_members s of
             Some p \<Rightarrow> Inr (Some p)
           | None \<Rightarrow> Inl (ValueError (''Workflow task template phase_type must be one of '' @
               py_join '', '' (map phase_value phase_members) @ ''.'')))
      | _ \<Rightarrow> Inl (ValueError ''Workflow task template phase_type must be a string.''))"

definition parse_generation :: "pyval \<Rightarrow> template_generation result" where
  "parse_generation v =
     (case v of
        PDict d \<Rightarrow>
          bind_r (template_required_string d ''for_each'') (\<lambda>for_each.
          bind_r (template_indexes d ''downstream_task_template_indexes'') (\<lambda>downstream.
          Inr \<lparr>gen_for_each = for_each, gen_downstream = downstream\<rparr>))
      | _ \<Rightarrow> Inl (ValueError ''Workflow task template generation must be an object.''))"

definition parse_task_template :: "pyval \<Rightarrow> task_template result" where
  "parse_task_template raw =
     (case raw of
        PDict data \<Rightarrow>
          bind_r (template_required_string data ''description'') (\<lambda>desc.
          bind_r (template_complexity data ''complexity'') (\<lambda>complexity.
          bind_r (guard_r (map_of data ''input_state'' \<noteq> None)
            (ValueError ''Workflow task templates must include input_state.'')) (\<lambda>_.
          bind_r (template_required_string data ''assignee_type'') (\<lambda>aty.
          bind_r (template_required_string data ''assignee_role'') (\<lambda>arole.
          bind_r (validate_assignee aty arole) (\<lambda>(ty, role).
          bind_r (task_execution_settings_from_data data) (\<lambda>se.
          bind_r (if map_of data ''uses_processes'' \<noteq> None then template_strings data ''uses_processes'' else Inr []) (\<lambda>processes.
          bind_r (template_required_string data ''output_state_type'') (\<lambda>output_type.
          bind_r (template_strings data ''dependent_state'') (\<lambda>dependent.
          bind_r (template_phase_type (get_item data ''phase_type'')) (\<lambda>phase.
          bind_r (if get_item data ''generation'' = PNone then Inr None
            else bind_r (parse_generation (get_item data ''generation'')) (\<lambda>g. Inr (Some g))) (\<lambda>gen.
          make_task_template
            \<lparr>tt_description = desc, tt_complexity = complexity, tt_input_state = get_item data ''input_state'',
             tt_assignee_type = ty, tt_assignee_role = role, tt_details = se_details se, tt_llm_type = se_llm_type se,
             tt_interaction_style = se_interaction_style se, tt_uses_processes = processes,
             tt_tool_invocations = se_tool_invocations se, tt_prompt_catalogs = se_prompt_catalogs se,
             tt_actions = se_actions se, tt_actions_declared = se_actions_declared se,
             tt_output_state_type = output_type, tt_dependent_state = dependent, tt_generation = gen,
             tt_step_type = se_step_type se, tt_pre_step = se_pre_step se, tt_gate = se_gate se,
             tt_coding_loop = se_coding_loop se, tt_phase_type = phase,
             tt_persona_id = task_optional_string (get_item data ''persona_id'')\<rparr>))))))))))))
      | _ \<Rightarrow> Inl (ValueError ''Workflow template task templates must be objects.''))"

definition parse_task_templates :: "pyval \<Rightarrow> task_template list result" where
  "parse_task_templates raw =
     (case raw of
        PList items \<Rightarrow> mapM_r parse_task_template items
      | _ \<Rightarrow> Inl (ValueError ''Workflow template must include a task_templates array.''))"

definition template_from_data :: "pydict \<Rightarrow> process_template result" where
  "template_from_data data =
     bind_r (template_strings data ''when_to_use'') (\<lambda>when_to_use.
     bind_r (template_strings data ''how_to_fill_this_out'') (\<lambda>how.
     bind_r (parse_task_templates (get_item data ''task_templates'')) (\<lambda>templates.
     let raw = get_default data ''invariants'' (PList []) in
     bind_r (case raw of
         PList items \<Rightarrow> if list_all is_mapping items then Inr (map the_dict items)
           else Inl (ValueError ''invariants must be an array of objects.'')
       | _ \<Rightarrow> Inl (ValueError ''invariants must be an array of objects.'')) (\<lambda>invariants.
     Inr \<lparr>wt_when_to_use = when_to_use, wt_how_to_fill_this_out = how, wt_task_templates = templates,
          wt_invariants = invariants,
          wt_id = (case get_item data ''id'' of PStr s \<Rightarrow> Some s | _ \<Rightarrow> None)\<rparr>))))"

text \<open>
  \<^verbatim>\<open>load_workflow_template\<close>: \<open>fmt\<close> is YAML or JSON, by the suffix of the path, and \<open>parsed\<close> what reading the file with that
  library gives, its exception or the decoded value.
\<close>

definition load_workflow_template :: "string \<Rightarrow> pyval result \<Rightarrow> process_template result" where
  "load_workflow_template fmt parsed =
     bind_r parsed (\<lambda>v. case v of
       PDict d \<Rightarrow> template_from_data d
     | _ \<Rightarrow> Inl (ValueError (''Workflow template '' @ fmt @ '' must decode to an object.'')))"

section \<open>Round trip\<close>

definition template_settings :: "task_template \<Rightarrow> task_execution_settings" where
  "template_settings t =
     \<lparr>se_details = tt_details t, se_llm_type = tt_llm_type t, se_interaction_style = tt_interaction_style t,
      se_tool_invocations = tt_tool_invocations t, se_prompt_catalogs = tt_prompt_catalogs t,
      se_actions = tt_actions t, se_actions_declared = tt_actions_declared t, se_step_type = tt_step_type t,
      se_pre_step = tt_pre_step t, se_gate = tt_gate t, se_coding_loop = tt_coding_loop t\<rparr>"

definition task_template_ok :: "task_template \<Rightarrow> bool" where
  "task_template_ok t \<longleftrightarrow>
     canonical (tt_description t) \<and> canonical (tt_output_state_type t) \<and>
     list_all canonical (tt_dependent_state t) \<and> list_all canonical (tt_uses_processes t) \<and>
     opt_canonical (tt_persona_id t) \<and> role_fits (tt_assignee_type t) (tt_assignee_role t) \<and>
     (case tt_generation t of None \<Rightarrow> True | Some g \<Rightarrow> canonical (gen_for_each g) \<and> list_all (\<lambda>i. 0 \<le> i) (gen_downstream g)) \<and>
     (tt_actions t = [] \<or> tt_actions_declared t) \<and> settings_ok (template_settings t)"

definition template_ok :: "process_template \<Rightarrow> bool" where
  "template_ok t \<longleftrightarrow> list_all canonical (wt_when_to_use t) \<and> list_all canonical (wt_how_to_fill_this_out t) \<and>
     list_all task_template_ok (wt_task_templates t)"

lemma make_task_template_Inr:
  "make_task_template t = Inr u \<longleftrightarrow> (\<exists>ty role. role_fits ty role \<and> assignee_value (tt_assignee_type t) = assignee_value ty \<and>
     role_value (tt_assignee_role t) = role_value role \<and>
     u = t\<lparr>tt_actions_declared := (tt_actions t \<noteq> [] \<or> tt_actions_declared t), tt_assignee_type := ty, tt_assignee_role := role\<rparr>)"
  by (auto simp: make_task_template_def validate_assignee_Inr)

lemma make_task_template_id: "role_fits (tt_assignee_type t) (tt_assignee_role t) \<Longrightarrow> (tt_actions t = [] \<or> tt_actions_declared t) \<Longrightarrow>
    make_task_template t = Inr t"
  by (auto simp: make_task_template_Inr intro!: exI [of _ "tt_assignee_type t"] exI [of _ "tt_assignee_role t"])

lemma template_tail_lookup:
  "map_of ((if b then [(k', v)] else []) @ e) k = (if k' = k \<and> b then Some v else map_of e k)"
  "map_of (dict_entry k' f y) k = (if k' = k then map_option (\<lambda>v. PDict (f v)) y else None)"
  by (auto simp: dict_entry_def split: option.splits)

lemma template_lookups:
  "map_of (task_template_to_data t) ''description'' = Some (PStr (tt_description t))"
  "map_of (task_template_to_data t) ''complexity'' = Some (PStr (complexity_value (tt_complexity t)))"
  "map_of (task_template_to_data t) ''input_state'' = Some (tt_input_state t)"
  "map_of (task_template_to_data t) ''assignee_type'' = Some (PStr (assignee_value (tt_assignee_type t)))"
  "map_of (task_template_to_data t) ''assignee_role'' = Some (PStr (role_value (tt_assignee_role t)))"
  "map_of (task_template_to_data t) ''output_state_type'' = Some (PStr (tt_output_state_type t))"
  "map_of (task_template_to_data t) ''dependent_state'' = Some (PList (map PStr (tt_dependent_state t)))"
  "map_of (task_template_to_data t) ''phase_type'' = map_option (PStr \<circ> phase_value) (tt_phase_type t)"
  "map_of (task_template_to_data t) ''persona_id'' = map_option PStr (tt_persona_id t)"
  "map_of (task_template_to_data t) ''uses_processes'' = (if tt_uses_processes t = [] then None else Some (PList (map PStr (tt_uses_processes t))))"
  unfolding task_template_to_data_def
  by (simp_all add: map_of_entries template_tail_lookup opt_str_def del: map_of_append split: option.splits)

lemma generation_lookup:
  "map_of (task_template_to_data t) ''generation'' = map_option (\<lambda>g. PDict (generation_to_data g)) (tt_generation t)"
  unfolding task_template_to_data_def
  by (simp add: map_of_entries template_tail_lookup del: map_of_append split: option.splits)

lemma template_settings_fields:
  assumes "task_template_ok t"
  shows "settings_fields (task_template_to_data t) (template_settings t)"
proof -
  have ne: "tt_step_type t \<noteq> []" "tt_details t \<noteq> Some []" "tt_llm_type t \<noteq> Some []" "tt_interaction_style t \<noteq> Some []"
    using assms step_type_not_empty [of "tt_step_type t"] opt_canonical_ne [of "tt_details t"]
      opt_canonical_ne [of "tt_llm_type t"] not_canonical_Nil
    by (simp_all add: task_template_ok_def settings_ok_def template_settings_def) (auto split: option.splits)
  have "map_of (task_template_to_data t) ''step_type'' = Some (PStr (tt_step_type t))"
    "map_of (task_template_to_data t) ''details'' = map_option PStr (tt_details t)"
    "map_of (task_template_to_data t) ''llm_type'' = map_option PStr (tt_llm_type t)"
    "map_of (task_template_to_data t) ''interaction_style'' = map_option PStr (tt_interaction_style t)"
    "map_of (task_template_to_data t) ''tool_invocations'' =
       (if tt_tool_invocations t = [] then None else Some (PList (map (PDict \<circ> invocation_to_data) (tt_tool_invocations t))))"
    "map_of (task_template_to_data t) ''prompt_catalogs'' =
       (if tt_prompt_catalogs t = [] then None else Some (PList (map PStr (tt_prompt_catalogs t))))"
    "map_of (task_template_to_data t) ''pre_step'' = map_option (\<lambda>v. PDict (pre_step_to_data v)) (tt_pre_step t)"
    "map_of (task_template_to_data t) ''gate'' = map_option (\<lambda>v. PDict (gate_to_data v)) (tt_gate t)"
    "map_of (task_template_to_data t) ''coding_loop'' = map_option (\<lambda>v. PDict (coding_loop_to_data v)) (tt_coding_loop t)"
    unfolding task_template_to_data_def using ne
    by (simp_all add: map_of_entries template_tail_lookup opt_str_def del: map_of_append split: option.splits)
  moreover have "map_of (task_template_to_data t) ''tool_invocation_packages'' = None"
    unfolding task_template_to_data_def
    by (simp add: map_of_entries template_tail_lookup del: map_of_append split: option.splits)
  moreover have "map_of (task_template_to_data t) ''actions'' =
      (if tt_actions_declared t then Some (PList (map PStr (tt_actions t))) else None)"
    using assms unfolding task_template_to_data_def
    by (auto simp: map_of_entries template_tail_lookup task_template_ok_def simp del: map_of_append split: option.splits)
  ultimately show ?thesis
    using assms by (auto simp: settings_fields_def template_settings_def get_item_def list_or_none_def opt_str_def task_template_ok_def
        split: option.splits)
qed

lemma template_required_canonical: "template_required_string data key = Inr s \<Longrightarrow> canonical s"
  by (cases "get_item data key") (auto simp: template_required_string_def split: if_splits)

lemma template_strings_canonical: "template_strings data key = Inr xs \<Longrightarrow> list_all canonical xs"
proof -
  have "canonical s" if "template_item key v = Inr s" for v s
    using that by (cases v) (auto simp: template_item_def split: if_splits)
  then show "template_strings data key = Inr xs \<Longrightarrow> list_all canonical xs"
    by (fastforce simp: template_strings_def list_all_iff dest: mapM_r_all split: pyval.splits)
qed

lemma template_strings_id:
  assumes "get_item data key = PList (map PStr xs)" "list_all canonical xs"
  shows "template_strings data key = Inr xs"
proof -
  have "mapM_r (template_item key) (map PStr xs) = Inr xs"
    using assms(2) by (induction xs) (auto simp: template_item_def)
  with assms(1) show ?thesis by (simp add: template_strings_def)
qed

lemma template_indexes_id:
  assumes "list_all (\<lambda>i. 0 \<le> i) is"
  shows "template_indexes [(''for_each'', v), (''downstream_task_template_indexes'', PList (map PInt is))] ''downstream_task_template_indexes'' = Inr is"
  using assms by (simp add: template_indexes_def) (induction "is", auto)

lemma template_indexes_nonneg: "template_indexes data key = Inr is \<Longrightarrow> list_all (\<lambda>i. 0 \<le> i) is"
proof -
  have "0 \<le> i" if "index_item v = Some i" for v i
    using that by (cases v) (auto split: if_splits)
  then show "template_indexes data key = Inr is \<Longrightarrow> list_all (\<lambda>i. 0 \<le> i) is"
    by (fastforce simp: template_indexes_def list_all_iff dest: mapM_r_all split: pyval.splits option.splits)
qed

lemma generation_roundtrip:
  assumes "canonical (gen_for_each g)" "list_all (\<lambda>i. 0 \<le> i) (gen_downstream g)"
  shows "parse_generation (PDict (generation_to_data g)) = Inr g"
  using assms by (simp add: parse_generation_def generation_to_data_def template_required_string_def template_indexes_id del: task_optional_string.simps)

lemma generation_parsed: "parse_generation v = Inr g \<Longrightarrow> canonical (gen_for_each g) \<and> list_all (\<lambda>i. 0 \<le> i) (gen_downstream g)"
  by (cases v) (auto simp: parse_generation_def dest: template_required_canonical template_indexes_nonneg)

lemma task_template_roundtrip:
  assumes "task_template_ok t"
  shows "parse_task_template (PDict (task_template_to_data t)) = Inr t"
proof -
  note l = template_lookups [of t]
  let ?d = "task_template_to_data t"
  have strings: "template_required_string ?d ''description'' = Inr (tt_description t)"
      "template_required_string ?d ''output_state_type'' = Inr (tt_output_state_type t)"
      "template_required_string ?d ''complexity'' = Inr (complexity_value (tt_complexity t))"
      "template_required_string ?d ''assignee_type'' = Inr (assignee_value (tt_assignee_type t))"
      "template_required_string ?d ''assignee_role'' = Inr (role_value (tt_assignee_role t))"
    using assms by (simp_all add: template_required_string_def get_item_def l task_template_ok_def del: task_optional_string.simps)
  have lists: "template_strings ?d ''dependent_state'' = Inr (tt_dependent_state t)"
      "(if map_of ?d ''uses_processes'' \<noteq> None then template_strings ?d ''uses_processes'' else Inr []) = Inr (tt_uses_processes t)"
    using assms by (auto simp: get_item_def l task_template_ok_def intro!: template_strings_id)
  have enums: "template_complexity ?d ''complexity'' = Inr (tt_complexity t)"
      "validate_assignee (assignee_value (tt_assignee_type t)) (role_value (tt_assignee_role t)) = Inr (tt_assignee_type t, tt_assignee_role t)"
      "template_phase_type (get_item ?d ''phase_type'') = Inr (tt_phase_type t)"
    using assms by (auto simp: template_complexity_def strings complexity_enum.find_val validate_assignee_Inr
        task_template_ok_def template_phase_type_def get_item_def l phase_enum.find_val split: option.splits)
  have persona: "task_optional_string (get_item ?d ''persona_id'') = tt_persona_id t"
    using assms by (auto simp: get_item_def l task_template_ok_def split: option.splits)
  have gen: "(if get_item ?d ''generation'' = PNone then Inr None
      else bind_r (parse_generation (get_item ?d ''generation'')) (\<lambda>g. Inr (Some g))) = Inr (tt_generation t)"
    using assms generation_roundtrip by (auto simp: get_item_def generation_lookup task_template_ok_def split: option.splits)
  have se: "task_execution_settings_from_data ?d = Inr (template_settings t)"
    using assms settings_roundtrip template_settings_fields by (auto simp: task_template_ok_def)
  have "role_fits (tt_assignee_type t) (tt_assignee_role t)" "tt_actions t = [] \<or> tt_actions_declared t"
    using assms by (auto simp: task_template_ok_def)
  moreover have "get_item ?d ''input_state'' = tt_input_state t" by (simp add: get_item_def l)
  ultimately show ?thesis
    unfolding parse_task_template_def pyval.case lists(2) gen
    by (simp add: strings lists enums persona se template_settings_def l make_task_template_id)
qed

lemma parsed_task_template_ok:
  assumes "parse_task_template v = Inr t"
  shows "task_template_ok t"
proof -
  obtain data where v: "v = PDict data" using assms by (cases v) (auto simp: parse_task_template_def)
  have proc: "list_all canonical xs" if "(if map_of data ''uses_processes'' \<noteq> None
       then template_strings data ''uses_processes'' else Inr []) = Inr xs" for xs
    using that template_strings_canonical by (auto split: if_splits)
  from assms [unfolded v parse_task_template_def pyval.case] obtain desc oty deps procs se gen where p:
      "template_required_string data ''description'' = Inr desc" "template_required_string data ''output_state_type'' = Inr oty"
      "template_strings data ''dependent_state'' = Inr deps"
      "(if map_of data ''uses_processes'' \<noteq> None then template_strings data ''uses_processes'' else Inr []) = Inr procs"
      "task_execution_settings_from_data data = Inr se"
      "(if get_item data ''generation'' = PNone then Inr None
        else bind_r (parse_generation (get_item data ''generation'')) (\<lambda>g. Inr (Some g))) = Inr gen"
    and t: "tt_description t = desc" "tt_output_state_type t = oty" "tt_dependent_state t = deps" "tt_uses_processes t = procs"
      "tt_generation t = gen" "tt_persona_id t = task_optional_string (get_item data ''persona_id'')"
      "role_fits (tt_assignee_type t) (tt_assignee_role t)" "tt_actions t = [] \<or> tt_actions_declared t"
      "template_settings t = se\<lparr>se_actions_declared := tt_actions_declared t\<rparr>"
    unfolding bind_r_eq_Inr guard_r_Inr
    by (elim exE conjE) (simp add: make_task_template_Inr template_settings_def split: prod.splits, elim exE conjE, simp)
  have "settings_ok (template_settings t)"
    using settings_parsed_ok [OF p(5)] by (simp add: t(9) settings_ok_def)
  moreover have "case gen of None \<Rightarrow> True | Some g \<Rightarrow> canonical (gen_for_each g) \<and> list_all (\<lambda>i. 0 \<le> i) (gen_downstream g)"
    using p(6) by (auto split: if_splits dest: generation_parsed)
  ultimately show ?thesis
    using p t template_required_canonical template_strings_canonical proc task_optional_out by (auto simp: task_template_ok_def)
qed

lemma template_document_roundtrip:
  assumes "template_ok t"
  shows "template_from_data (template_to_data t) = Inr t"
proof -
  let ?d = "template_to_data t"
  have l: "get_item ?d ''when_to_use'' = PList (map PStr (wt_when_to_use t))"
      "get_item ?d ''how_to_fill_this_out'' = PList (map PStr (wt_how_to_fill_this_out t))"
      "get_item ?d ''task_templates'' = PList (map (PDict \<circ> task_template_to_data) (wt_task_templates t))"
      "get_item ?d ''id'' = opt_str (wt_id t)"
      "get_default ?d ''invariants'' (PList []) = PList (map PDict (wt_invariants t))"
    unfolding template_to_data_def get_item_def get_default_def
    by (simp_all add: map_of_entries items_entry_def opt_str_def del: map_of_append split: option.splits)
  have "parse_task_templates (get_item ?d ''task_templates'') = Inr (wt_task_templates t)"
    unfolding l parse_task_templates_def pyval.case mapM_r_map
    using assms task_template_roundtrip by (intro mapM_r_id) (auto simp: template_ok_def list_all_iff)
  moreover have "template_strings ?d ''when_to_use'' = Inr (wt_when_to_use t)"
      "template_strings ?d ''how_to_fill_this_out'' = Inr (wt_how_to_fill_this_out t)"
    using assms by (auto simp: template_ok_def l intro!: template_strings_id)
  moreover have "list_all is_mapping (map PDict ds)" "map the_dict (map PDict ds) = ds" for ds
    by (induction ds) auto
  ultimately show ?thesis
    by (simp add: template_from_data_def l opt_str_def split: option.splits)
qed

lemma parsed_template_ok:
  assumes "template_from_data data = Inr t"
  shows "template_ok t"
proof -
  from assms obtain items where "template_strings data ''when_to_use'' = Inr (wt_when_to_use t)"
    "template_strings data ''how_to_fill_this_out'' = Inr (wt_how_to_fill_this_out t)"
    "mapM_r parse_task_template items = Inr (wt_task_templates t)"
    by (auto simp: template_from_data_def parse_task_templates_def Let_def split: pyval.splits)
  then show ?thesis
    using template_strings_canonical parsed_task_template_ok by (fastforce simp: template_ok_def list_all_iff dest: mapM_r_all)
qed

text \<open>
  A template document the parser accepts yields a well-formed template: canonical texts, supported settings of every
  task template, an assignee role of the assignee's type, and non-negative downstream indexes. Writing that template and
  reading it again returns it.
\<close>

theorem template_roundtrip:
  assumes "template_from_data data = Inr t"
  shows "template_ok t \<and> template_from_data (template_to_data t) = Inr t"
  using parsed_template_ok [OF assms] template_document_roundtrip by blast

definition template_step :: "pyval \<Rightarrow> pydict \<Rightarrow> pyval" where
  "template_step state extra =
     PDict ([(''description'', PStr '' work ''), (''complexity'', PStr ''low''), (''input_state'', state), (''assignee_type'', PStr ''agent''),
       (''assignee_role'', PStr ''coder''), (''output_state_type'', PStr ''state''), (''dependent_state'', PList [])] @ extra)"

definition template_document :: "pyval list \<Rightarrow> pydict" where
  "template_document steps =
     [(''id'', PStr ''demo''), (''when_to_use'', PList [PStr ''always'']), (''how_to_fill_this_out'', PList [PStr ''as is'']),
      (''task_templates'', PList steps)]"

definition sample_template_document :: pydict where
  "sample_template_document = template_document
     [template_step (PDict [(''name'', PStr ''<work-item-name>'')]) [],
      template_step (PDict [(''plan'', PStr ''<upstream-task-0>.state'')]) [(''generation'', PDict [(''for_each'', PStr ''unit''),
        (''downstream_task_template_indexes'', PList [PInt 0])])]]"

theorem template_roundtrip_witness:
  "\<exists>t. template_from_data sample_template_document = Inr t \<and> length (wt_task_templates t) = 2 \<and> template_ok t \<and>
     template_from_data (template_to_data t) = Inr t"
proof -
  have "(case template_from_data sample_template_document of Inr t \<Rightarrow> length (wt_task_templates t) = 2 | Inl e \<Rightarrow> False)"
    by code_simp
  then obtain t where "template_from_data sample_template_document = Inr t" "length (wt_task_templates t) = 2"
    by (auto split: sum.splits)
  with template_roundtrip show ?thesis by blast
qed

end
