(* ===== verification/Template_Instantiation.thy ===== *)
theory Template_Instantiation
  imports Process_Template "HOL-Library.Sublist"
begin

text \<open>
  \<^verbatim>\<open>process/templates.py\<close>, the instantiation: placeholders, references to upstream task templates, the relationships of an
  instance, and the operations that write a workflow's task documents. A workflow directory is missing, or the list of
  its files with the outcome of the JSON or YAML library on each, an error text or the decoded value; a saved task is
  read back as the value that was dumped. \<^verbatim>\<open>FileExistsError\<close> is an \<^verbatim>\<open>OSError\<close>.
\<close>

section \<open>Placeholders\<close>

type_synonym substitutions = "(string \<times> string) list"

definition substitute_text :: "substitutions \<Rightarrow> string \<Rightarrow> string" where
  "substitute_text subs s = foldl (\<lambda>r (k, v). replace_from (''<'' @ k @ ''>'') v 0 r) s subs"

fun substitute_placeholders :: "substitutions \<Rightarrow> pyval \<Rightarrow> pyval" where
  "substitute_placeholders subs (PStr s) = PStr (substitute_text subs s)"
| "substitute_placeholders subs (PDict d) = PDict (map (\<lambda>(k, v). (k, substitute_placeholders subs v)) d)"
| "substitute_placeholders subs (PList xs) = PList (map (substitute_placeholders subs) xs)"
| "substitute_placeholders subs v = v"

definition substitute_env :: "substitutions \<Rightarrow> (string \<times> string) list \<Rightarrow> (string \<times> string) list" where
  "substitute_env subs env = map (\<lambda>(k, v). (k, substitute_text subs v)) env"

definition contains_text :: "string \<Rightarrow> string \<Rightarrow> bool" where
  "contains_text part s \<longleftrightarrow> list_ex (prefix part) (suffixes s)"

definition substitute_verification :: "substitutions \<Rightarrow> coding_loop_verification \<Rightarrow> coding_loop_verification result" where
  "substitute_verification subs v =
     (let command = (case clv_command v of
          ShellText s \<Rightarrow> ShellText (substitute_text subs s)
        | Argv xs \<Rightarrow> Argv (map (substitute_text subs) xs)) in
      bind_r (guard_r (case command of ShellText s \<Rightarrow> \<not> contains_text ''<verification-command>'' s | Argv _ \<Rightarrow> True)
        (ValueError (''Missing required template value '' @ py_repr ''verification-command'' @
          ''; discover the repository test command via gather_context tools and pass it when instantiating the template.''))) (\<lambda>_.
      Inr (v\<lparr>clv_command := command, clv_cwd := map_option (substitute_text subs) (clv_cwd v),
             clv_env := substitute_env subs (clv_env v)\<rparr>)))"

definition substitute_coding_loop :: "substitutions \<Rightarrow> coding_loop_spec option \<Rightarrow> coding_loop_spec option result" where
  "substitute_coding_loop subs loop =
     (case loop of
        None \<Rightarrow> Inr None
      | Some c \<Rightarrow> bind_r (mapM_r (substitute_verification subs) (cl_verification c)) (\<lambda>vs. Inr (Some (c\<lparr>cl_verification := vs\<rparr>))))"

text \<open>The new invocation is built without the label.\<close>

definition substitute_tool_invocation :: "substitutions \<Rightarrow> tool_invocation \<Rightarrow> tool_invocation" where
  "substitute_tool_invocation subs i =
     \<lparr>ti_tool = ti_tool i, ti_command = map (substitute_text subs) (ti_command i), ti_operation = ti_operation i, ti_label = None,
      ti_cwd = map_option (substitute_text subs) (ti_cwd i), ti_env = substitute_env subs (ti_env i)\<rparr>"

text \<open>\<^verbatim>\<open>workflow_instance_name or work_item_name\<close>\<close>

definition instance_name :: "string option \<Rightarrow> string \<Rightarrow> string" where
  "instance_name inst work = (case inst of Some (c # cs) \<Rightarrow> c # cs | _ \<Rightarrow> work)"

definition add_instantiation_context :: "string option \<Rightarrow> string \<Rightarrow> string option \<Rightarrow> string" where
  "add_instantiation_context details work inst =
     (let context = ''Instantiation context: work item name is '' @ py_repr (strip work) @ ''; workflow instance name is '' @
          py_repr (strip (instance_name inst work)) @ ''. Use these values as search context and verify repository documents '' @
          ''before deciding what they identify.'' in
      case details of None \<Rightarrow> context | Some d \<Rightarrow> d @ [char_of (10 :: nat), char_of (10 :: nat)] @ context)"

section \<open>References to upstream task templates\<close>

text \<open>\<^verbatim>\<open>re.fullmatch(r"<upstream-task-(\d+)>\..+", item)\<close>\<close>

definition is_decimal :: "char \<Rightarrow> bool" where
  "is_decimal c = (let n = of_char c :: nat in 48 \<le> n \<and> n \<le> 57)"

definition upstream_reference :: "string \<Rightarrow> nat option" where
  "upstream_reference s =
     (let rest = drop (length ''<upstream-task-'') s; digits = takeWhile is_decimal rest; tail = drop (length digits) rest in
      if prefix ''<upstream-task-'' s \<and> digits \<noteq> [] \<and> prefix ''>.'' tail \<and> 2 < length tail \<and> char_of (10 :: nat) \<notin> set (drop 2 tail)
      then Some (read_nat digits) else None)"

fun references :: "pyval \<Rightarrow> nat list" where
  "references (PStr s) = (case upstream_reference s of None \<Rightarrow> [] | Some i \<Rightarrow> [i])"
| "references (PDict d) = concat (map (\<lambda>(k, v). references v) d)"
| "references (PList xs) = concat (map references xs)"
| "references v = []"

definition upstream_indexes :: "pyval \<Rightarrow> nat list" where
  "upstream_indexes v = py_dedup (references v)"

section \<open>Names\<close>

text \<open>\<^verbatim>\<open>re.sub(r"[^a-z0-9]+", "-", s.strip().lower()).strip("-")\<close>\<close>

definition slug_char :: "char \<Rightarrow> bool" where
  "slug_char c = (let n = of_char c :: nat in 97 \<le> n \<and> n \<le> 122 \<or> 48 \<le> n \<and> n \<le> 57)"

definition lower_char :: "char \<Rightarrow> char" where
  "lower_char c = (let n = of_char c :: nat in if 65 \<le> n \<and> n \<le> 90 then char_of (n + 32) else c)"

fun dash_runs :: "bool \<Rightarrow> string \<Rightarrow> string" where
  "dash_runs b [] = []"
| "dash_runs b (c # s) =
     (if slug_char c then c # dash_runs False s else (if b then [] else ''-'') @ dash_runs True s)"

definition slugify :: "string \<Rightarrow> string" where
  "slugify s = (let d = dropWhile (\<lambda>c. c = CHR ''-'') (dash_runs False (map lower_char (strip s))) in rstrip_char (CHR ''-'') d)"

text \<open>\<^verbatim>\<open>f"{prefix}task-{index + 1:03d}"\<close>\<close>

definition numbered_id :: "string \<Rightarrow> nat \<Rightarrow> string" where
  "numbered_id pre i = (let d = show_nat (i + 1) in pre @ ''task-'' @ replicate (3 - length d) (CHR ''0'') @ d)"

section \<open>Workflow directories\<close>

type_synonym folder = "(string \<times> (string + pyval)) list"

definition has_suffix :: "string \<Rightarrow> string \<Rightarrow> bool" where
  "has_suffix ext name \<longleftrightarrow> suffix ext name \<and> name \<noteq> ext"

definition is_task_file :: "string \<Rightarrow> bool" where
  "is_task_file name \<longleftrightarrow> (has_suffix ''.yaml'' name \<or> has_suffix ''.yml'' name \<or> has_suffix ''.json'' name) \<and>
     \<not> suffix ''-workflow.yaml'' name"

text \<open>\<^verbatim>\<open>_workflow_task_paths\<close>: the task files in the order of their names, each with its format and contents.\<close>

definition task_files :: "string \<Rightarrow> folder \<Rightarrow> (string \<times> string \<times> (string + pyval)) list" where
  "task_files dir files =
     map (\<lambda>name. (dir @ ''/'' @ name, if suffix ''.json'' name then ''JSON'' else ''YAML'', the (map_of files name)))
       (sort (filter is_task_file (map fst files)))"

definition load_task :: "folder \<Rightarrow> string \<Rightarrow> workflow_task result" where
  "load_task files tid =
     (case map_of files (tid @ ''.yaml'') of
        None \<Rightarrow> Inl (FileNotFoundError (tid @ ''.yaml''))
      | Some (Inl err) \<Rightarrow> Inl MalformedDocument
      | Some (Inr (PDict d)) \<Rightarrow> workflow_task_from_data d
      | Some (Inr _) \<Rightarrow> Inl (ValueError ''Workflow task YAML must decode to an object.''))"

definition save_task :: "folder \<Rightarrow> workflow_task \<Rightarrow> folder" where
  "save_task files t = AList.update (task_id t @ ''.yaml'') (Inr (PDict (task_to_data t))) files"

definition check_directory :: "string \<Rightarrow> string \<Rightarrow> folder \<Rightarrow> unit result" where
  "check_directory what dir files =
     bind_r (build_workflow_task_directory_validation_report dir (TaskFiles (task_files dir files))) (\<lambda>r.
     guard_r (tr_validation_successful r) (ValueError (what @ py_join ''; '' (map ti_message (tr_issues r)))))"

definition check_first_ready :: "string \<Rightarrow> string list \<Rightarrow> workflow_task list \<Rightarrow> unit result" where
  "check_first_ready what ids ts =
     bind_r (select_ready_workflow_tasks ts None None) (\<lambda>ready.
     guard_r (case ready of [t] \<Rightarrow> task_id t = hd ids | _ \<Rightarrow> False)
       (ValueError (what @ '' workflow must have exactly one ready first task; found '' @ repr_val (PList (map (PStr \<circ> task_id) ready)))))"

section \<open>Instantiating a template\<close>

definition reuse_tasks :: "string \<Rightarrow> folder \<Rightarrow> string list \<Rightarrow> workflow_task list result" where
  "reuse_tasks dir files ids =
     bind_r (guard_r (list_all (\<lambda>tid. map_of files (tid @ ''.yaml'') \<noteq> None) ids)
       (OSError (''Workflow generation left a partial task set in '' @ dir @ ''; remove the incomplete workflow before retrying.''))) (\<lambda>_.
     bind_r (mapM_r (load_task files) ids) (\<lambda>ts.
     bind_r (check_directory ''Existing workflow failed validation and cannot be reused: '' dir files) (\<lambda>_.
     bind_r (check_first_ready ''Existing'' ids ts) (\<lambda>_. Inr ts))))"

definition template_task ::
    "string \<Rightarrow> string option \<Rightarrow> substitutions \<Rightarrow> substitutions \<Rightarrow> string \<Rightarrow> string list \<Rightarrow> nat \<Rightarrow> task_template \<Rightarrow> workflow_task result" where
  "template_task work inst subs explicit identity ids index t =
     (let ups = upstream_indexes (tt_input_state t) in
      bind_r (case find (\<lambda>u. length ids \<le> u) ups of
          Some u \<Rightarrow> Inl (ValueError (''Task template '' @ show_nat index @ '' references unknown upstream task template index: '' @ show_nat u))
        | None \<Rightarrow> Inr ()) (\<lambda>_.
      bind_r (substitute_coding_loop subs (tt_coding_loop t)) (\<lambda>loop.
      make_task
        \<lparr>task_id = ids ! index, task_status = TS_OPEN, task_description = tt_description t, task_complexity = tt_complexity t,
         input_state = substitute_placeholders subs (tt_input_state t), output_state = PNone,
         assignee_type = tt_assignee_type t, assignee_role = tt_assignee_role t,
         task_details = Some (add_instantiation_context (tt_details t) work inst), llm_type = tt_llm_type t,
         interaction_style = tt_interaction_style t, uses_processes = tt_uses_processes t,
         tool_invocations = map (substitute_tool_invocation explicit) (tt_tool_invocations t), prompt_catalogs = [],
         task_actions = tt_actions t, actions_declared = tt_actions_declared t, output_state_type = tt_output_state_type t,
         upstream_task_ids = map (\<lambda>u. ids ! u) ups, dependent_state = tt_dependent_state t, step_type = tt_step_type t,
         pre_step = tt_pre_step t, task_gate = tt_gate t, coding_loop = loop, workflow_template = PStr identity,
         phase_type = tt_phase_type t, task_persona_id = tt_persona_id t, process_id = None, process_checkpoint = None\<rparr>)))"

fun write_tasks ::
    "string \<Rightarrow> (nat \<Rightarrow> task_template \<Rightarrow> workflow_task result) \<Rightarrow> nat \<Rightarrow> task_template list \<Rightarrow> folder \<Rightarrow> workflow_task list
     \<Rightarrow> workflow_task list result \<times> folder" where
  "write_tasks dir mk i [] files ts = (Inr ts, files)"
| "write_tasks dir mk i (x # xs) files ts =
     (case mk i x of
        Inl e \<Rightarrow> (Inl e, files)
      | Inr t \<Rightarrow>
          if map_of files (task_id t @ ''.yaml'') \<noteq> None
          then (Inl (OSError (''Workflow task already exists: '' @ dir @ ''/'' @ task_id t @ ''.yaml. Choose a new workflow-instance-name.'')), files)
          else write_tasks dir mk (i + 1) xs (save_task files t) (ts @ [t]))"

text \<open>The placeholders: the names, then the explicit values, then the identifiers of the upstream tasks.\<close>

definition base_substitutions :: "string \<Rightarrow> string option \<Rightarrow> substitutions \<Rightarrow> substitutions" where
  "base_substitutions work inst vals =
     foldl (\<lambda>d (k, v). AList.update k v d)
       [(''work-item-name'', work), (''workflow-instance-name'', instance_name inst work)] vals"

definition task_substitutions :: "string \<Rightarrow> string option \<Rightarrow> substitutions \<Rightarrow> string list \<Rightarrow> substitutions" where
  "task_substitutions work inst vals ids =
     foldl (\<lambda>d (i, tid). AList.update (''upstream-task-'' @ show_nat i) tid d) (base_substitutions work inst vals) (List.enumerate 0 ids)"

definition instance_ids :: "process_template \<Rightarrow> string \<Rightarrow> string option \<Rightarrow> string list" where
  "instance_ids t work inst =
     (let pre = (if inst = None \<or> inst = Some [] then [] else slugify (instance_name inst work) @ ''-'') in
      map (numbered_id pre) [0..<length (wt_task_templates t)])"

definition template_identity :: "process_template \<Rightarrow> string \<Rightarrow> string" where
  "template_identity t stem = (case wt_id t of Some (c # cs) \<Rightarrow> c # cs | _ \<Rightarrow> stem)"

definition generate_tasks ::
    "string \<Rightarrow> string \<Rightarrow> process_template \<Rightarrow> string \<Rightarrow> string option \<Rightarrow> substitutions \<Rightarrow> folder \<Rightarrow> workflow_task list result \<times> folder" where
  "generate_tasks dir stem t work inst vals files =
     (let ids = instance_ids t work inst in
      case write_tasks dir (template_task work inst (task_substitutions work inst vals ids) vals (template_identity t stem) ids) 0
          (wt_task_templates t) files [] of
        (Inl e, files') \<Rightarrow> (Inl e, files')
      | (Inr ts, files') \<Rightarrow>
          (bind_r (check_directory ''Generated workflow failed validation: '' dir files') (\<lambda>_.
           bind_r (check_first_ready ''Generated'' ids ts) (\<lambda>_. Inr ts)), files'))"

text \<open>The checks of the names and of the directory that both instantiations begin with: the directory, created if missing.\<close>

definition open_output :: "string \<Rightarrow> string \<Rightarrow> string option \<Rightarrow> folder option \<Rightarrow> (string \<times> folder) result \<times> folder option" where
  "open_output root work inst folder =
     (let dir = root @ ''/'' @ slugify work; files = (case folder of None \<Rightarrow> [] | Some fs \<Rightarrow> fs) in
      if slugify work = [] then (Inl (ValueError ''work-item-name must contain at least one letter or digit''), folder)
      else if inst = None \<and> files \<noteq> [] then
        (Inl (OSError (''Workflow output directory is not empty: '' @ dir @ ''. Choose a new work item or remove it with explicit approval.'')), folder)
      else if slugify (instance_name inst work) = [] then
        (Inl (ValueError ''workflow-instance-name must contain at least one letter or digit''), Some files)
      else (Inr (dir, files), Some files))"

definition instantiate_workflow_template ::
    "string \<Rightarrow> string \<Rightarrow> process_template result \<Rightarrow> string \<Rightarrow> string option \<Rightarrow> substitutions \<Rightarrow> folder option
     \<Rightarrow> (string \<times> workflow_task list) result \<times> folder option" where
  "instantiate_workflow_template root stem loaded work inst vals folder =
     (case loaded of
        Inl e \<Rightarrow> (Inl e, folder)
      | Inr t \<Rightarrow>
          (case open_output root work inst folder of
             (Inl e, folder') \<Rightarrow> (Inl e, folder')
           | (Inr (dir, files), _) \<Rightarrow>
               let ids = instance_ids t work inst in
               if list_ex (\<lambda>tid. map_of files (tid @ ''.yaml'') \<noteq> None) ids
               then (bind_r (reuse_tasks dir files ids) (\<lambda>ts. Inr (dir, ts)), Some files)
               else (case generate_tasks dir stem t work inst vals files of
                   (res, files') \<Rightarrow> (bind_r res (\<lambda>ts. Inr (dir, ts)), Some files'))))"

section \<open>Relationships of an instance\<close>

definition resolve_invariant :: "string \<Rightarrow> substitutions \<Rightarrow> pydict \<Rightarrow> (pydict \<times> pydict) result" where
  "resolve_invariant source subs raw =
     (let invariant = the_dict (substitute_placeholders subs (PDict raw)) in
      case get_item invariant ''id'' of
        PStr s \<Rightarrow>
          if strip s = [] then Inl (ValueError ''Every relationship invariant requires a non-empty id.'')
          else
            let relation = AList.update ''invariant_id'' (PStr s) invariant;
                relation' = AList.update ''source_id'' (get_default relation ''source_id'' (PStr source)) relation in
            Inr (invariant, AList.delete ''id'' relation')
      | _ \<Rightarrow> Inl (ValueError ''Every relationship invariant requires a non-empty id.''))"

text \<open>The default source is the value of \<^verbatim>\<open>substitutions["workflow-instance-name"]\<close>, which an explicit value may replace.\<close>

definition instantiated_workflow_relationships ::
    "process_template result \<Rightarrow> string \<Rightarrow> string option \<Rightarrow> substitutions \<Rightarrow> (pydict list \<times> pydict list) result" where
  "instantiated_workflow_relationships loaded work inst vals =
     bind_r loaded (\<lambda>t.
     let subs = base_substitutions work inst vals in
     bind_r (mapM_r (resolve_invariant (the (map_of subs ''workflow-instance-name'')) subs) (wt_invariants t)) (\<lambda>rs.
     Inr (map fst rs, map snd rs)))"

section \<open>Running a catalogued process\<close>

text \<open>
  \<^verbatim>\<open>instantiate_procedrr_process_workflow\<close>: \<open>process\<close> is the name of the process that the catalog finds, or the exception of
  the catalog, and \<open>accepts\<close> what \<^verbatim>\<open>process.validate_inputs\<close> does with the bindings.
\<close>

definition process_task :: "string \<Rightarrow> string \<Rightarrow> string \<Rightarrow> pydict \<Rightarrow> workflow_task" where
  "process_task tid pid name state =
     \<lparr>task_id = tid, task_status = TS_OPEN, task_description = ''Run Procedrr process '' @ pid, task_complexity = TC_HIGH,
      input_state = PDict state, output_state = PNone, assignee_type = AT_AGENT, assignee_role = AgentRole AR_CODER,
      task_details = Some (''Execute the catalogued Procedrr process '' @ py_repr name @ '' using this task's input_state as its workflow '' @
        ''context. Preserve the durable workflow checkpoint and report the process result.''),
      llm_type = None, interaction_style = None, uses_processes = [], tool_invocations = [], prompt_catalogs = [], task_actions = [],
      actions_declared = False, output_state_type = pid @ ''-result-state'', upstream_task_ids = [], dependent_state = [],
      step_type = ''governed'', pre_step = None, task_gate = None, coding_loop = None, workflow_template = PNone, phase_type = None,
      task_persona_id = None, process_id = Some pid, process_checkpoint = None\<rparr>"

definition instantiate_procedrr_process_workflow ::
    "string \<Rightarrow> string result \<Rightarrow> (pydict \<Rightarrow> unit result) \<Rightarrow> string \<Rightarrow> pydict \<Rightarrow> string \<Rightarrow> string option \<Rightarrow> folder option
     \<Rightarrow> (string \<times> workflow_task list) result \<times> folder option" where
  "instantiate_procedrr_process_workflow root process accepts pid state work inst folder =
     (case process of
        Inl e \<Rightarrow> (Inl e, folder)
      | Inr name \<Rightarrow>
          (case open_output root work inst folder of
             (Inl e, folder') \<Rightarrow> (Inl e, folder')
           | (Inr (dir, files), _) \<Rightarrow>
               let tid = slugify (instance_name inst work) @ ''-task-001'' in
               (case accepts [(''task_context'', PDict [(''input_state'', PDict state)])] of
                  Inl e \<Rightarrow> (Inl e, Some files)
                | Inr _ \<Rightarrow>
                    if map_of files (tid @ ''.yaml'') \<noteq> None then
                      (bind_r (load_task files tid) (\<lambda>old.
                       bind_r (guard_r (process_id old = Some pid \<and> py_eq (input_state old) (PDict state))
                         (OSError (''Workflow task already exists with different Procedrr inputs: '' @ dir @ ''/'' @ tid @
                           ''.yaml. Choose a new workflow-instance-name.''))) (\<lambda>_.
                       bind_r (check_directory ''Existing workflow failed validation and cannot be reused: '' dir files) (\<lambda>_.
                       Inr (dir, [old])))), Some files)
                    else
                      (case make_task (process_task tid pid name state) of
                         Inl e \<Rightarrow> (Inl e, Some files)
                       | Inr t \<Rightarrow>
                           (bind_r (check_directory ''Generated workflow failed validation: '' dir (save_task files t)) (\<lambda>_. Inr (dir, [t])),
                            Some (save_task files t))))))"

end
