(* ===== verification/Template_Report.thy ===== *)
theory Template_Report
  imports Template_Instantiation
begin

text \<open>
  \<^verbatim>\<open>process/templates.py\<close>, the validation report of a template document. The report is computed from the outcome of the JSON
  library, an error text or the decoded value. It is a result: the code tests \<^verbatim>\<open>step_type\<close> for membership in a set, which
  raises TypeError for an array or an object.
\<close>

record template_report =
  rep_successful :: bool
  rep_count :: nat
  rep_issues :: "task_issue list"

definition path_issue :: "string option \<Rightarrow> string \<Rightarrow> string \<Rightarrow> task_issue" where
  "path_issue at code msg = \<lparr>ti_code = code, ti_message = msg, ti_path = at\<rparr>"

definition index_path :: "string option \<Rightarrow> nat \<Rightarrow> string option" where
  "index_path at i = Some ((case at of None \<Rightarrow> [] | Some p \<Rightarrow> p) @ ''['' @ show_nat i @ '']'')"

definition key_issues :: "string \<Rightarrow> string list \<Rightarrow> string option \<Rightarrow> pydict \<Rightarrow> task_issue list" where
  "key_issues subject allowed at data =
     map (\<lambda>key. path_issue (Some (case at of Some (c # cs) \<Rightarrow> (c # cs) @ ''.'' @ key | _ \<Rightarrow> key)) ''unknown_key''
        (subject @ '' contains unknown field '' @ py_repr key @ ''.''))
       (filter (\<lambda>key. key \<notin> set allowed) (map fst data))"

definition PROCESS_TEMPLATE_KEYS :: "string list" where
  "PROCESS_TEMPLATE_KEYS = [''id'', ''when_to_use'', ''how_to_fill_this_out'', ''task_templates'', ''invariants'']"

definition TASK_TEMPLATE_KEYS :: "string list" where
  "TASK_TEMPLATE_KEYS =
     [''description'', ''step_type'', ''complexity'', ''input_state'', ''assignee_type'', ''assignee_role'', ''details'', ''llm_type'',
      ''interaction_style'', ''uses_processes'', ''tool_invocations'', ''prompt_catalogs'', ''actions'', ''pre_step'',
      ''output_state_type'', ''dependent_state'', ''generation'', ''gate'', ''coding_loop'', ''phase_type'', ''persona_id'']"

text \<open>
  \<^verbatim>\<open>re.finditer(r"<([^<>]+)>", details)\<close>: a match contains no other opening bracket, so the search may go on inside it.
\<close>

definition plain_char :: "char \<Rightarrow> bool" where
  "plain_char c \<longleftrightarrow> c \<noteq> CHR ''<'' \<and> c \<noteq> CHR ''>''"

fun angle_names :: "string \<Rightarrow> string list" where
  "angle_names [] = []"
| "angle_names (c # s) =
     (if c = CHR ''<'' \<and> takeWhile plain_char s \<noteq> [] \<and> prefix ''>'' (dropWhile plain_char s)
      then [takeWhile plain_char s] else []) @ angle_names s"

definition placeholder_issues :: "string option \<Rightarrow> pyval \<Rightarrow> pyval \<Rightarrow> task_issue list" where
  "placeholder_issues at details state =
     (case (details, state) of
        (PStr text, PDict d) \<Rightarrow>
          map (\<lambda>p. path_issue at ''undeclared_detail_input''
              (''Workflow task details reference placeholder <'' @ p @ ''> but '' @ py_repr p @ '' is not listed in input_state.''))
            (filter (\<lambda>p. p \<notin> set (map fst d) \<and> p \<notin> set (map (\<lambda>i. ''upstream-task-'' @ show_nat i) (upstream_indexes state)))
              (py_dedup (angle_names text)))
      | _ \<Rightarrow> [])"

definition template_step_issues :: "string option \<Rightarrow> pydict \<Rightarrow> task_issue list result" where
  "template_step_issues at d =
     (let st = get_default d ''step_type'' (PStr ''governed''); pre = get_item d ''pre_step''; procs = get_item d ''uses_processes'';
          i1 = unless_issue (case st of PStr s \<Rightarrow> s \<in> set SUPPORTED_TASK_STEP_TYPES | _ \<Rightarrow> False)
            (task_issue_at at ''invalid_step_type_value''
              ''Workflow task template step_type must be governed, invoke_tool, gate, or coding_loop.'' ''step_type'');
          i2 = unless_issue (style_ok (get_item d ''interaction_style''))
            (task_issue_at at ''invalid_interaction_style''
              (''Workflow task template interaction_style must be one of: '' @ py_join '', '' (sort SUPPORTED_TASK_INTERACTION_STYLES) @ ''.'')
              ''interaction_style'');
          i3 = unless_issue (\<not> (pre \<noteq> PNone \<and> is_array procs \<and> procs \<noteq> PList []))
            (task_issue_at at ''uses_processes_with_pre_step''
              ''Workflow task templates must use either uses_processes or pre_step, not both.'' ''pre_step'') in
      bind_r (set_member st [''invoke_tool'', ''gate'']) (\<lambda>tool_step.
      if tool_step \<and> \<not> is_mapping pre then
        Inr (i1 @ i2 @ i3 @ [task_issue_at at ''missing_pre_step'' ''invoke_tool and gate task templates must declare a pre_step.'' ''pre_step''])
      else if st = PStr ''invoke_tool'' \<and> truthy (get_item d ''tool_invocations'') then
        Inr (i1 @ i2 @ i3 @ [task_issue_at at ''unexpected_tool_invocations''
          ''invoke_tool task templates must use pre_step instead of tool_invocations.'' ''tool_invocations''])
      else bind_r (set_member st [''governed'', ''coding_loop'']) (\<lambda>plain_step.
        Inr (i1 @ i2 @ i3 @ unless_issue (\<not> (plain_step \<and> pre \<noteq> PNone))
          (task_issue_at at ''unexpected_pre_step'' ''Only invoke_tool and gate task templates may declare pre_step.'' ''pre_step'')))))"

definition template_identity_issues :: "string option \<Rightarrow> pydict \<Rightarrow> task_issue list" where
  "template_identity_issues at d =
     (case template_phase_type (get_item d ''phase_type'') of
        Inl (ValueError m) \<Rightarrow> [task_issue_at at ''invalid_phase_type'' m ''phase_type'']
      | _ \<Rightarrow> [])
     @ unless_issue (get_item d ''persona_id'' = PNone \<or> task_optional_string (get_item d ''persona_id'') \<noteq> None)
         (task_issue_at at ''invalid_persona_id'' ''Workflow task template persona_id must be a non-empty string.'' ''persona_id'')"

definition template_field_issues :: "string option \<Rightarrow> pydict \<Rightarrow> task_issue list" where
  "template_field_issues at d =
     (let complexity = task_optional_string (get_item d ''complexity'');
          ty = task_optional_string (get_item d ''assignee_type'');
          role = task_optional_string (get_item d ''assignee_role'') in
      unless_issue (get_item d ''prompt_catalogs'' \<noteq> PList [])
        (task_issue_at at ''empty_prompt_catalogs''
          ''Workflow task template prompt_catalogs must omit the field when no prompt catalog is needed.'' ''prompt_catalogs'')
      @ unless_issue (task_optional_string (get_item d ''description'') \<noteq> None)
          (task_issue_at at ''missing_description'' ''Workflow task templates must include a non-empty description.'' ''description'')
      @ (case complexity of
           None \<Rightarrow> [task_issue_at at ''missing_complexity'' ''Workflow task templates must include a non-empty complexity.'' ''complexity'']
         | Some s \<Rightarrow> unless_issue (s \<in> set (map complexity_value complexity_members))
             (task_issue_at at ''invalid_complexity'' ''Workflow task template complexity must be one of low, medium, or high.'' ''complexity''))
      @ unless_issue (ty \<noteq> None)
          (task_issue_at at ''missing_assignee_type'' ''Workflow task templates must include a non-empty assignee_type.'' ''assignee_type'')
      @ unless_issue (role \<noteq> None)
          (task_issue_at at ''missing_assignee_role'' ''Workflow task templates must include a non-empty assignee_role.'' ''assignee_role'')
      @ (case (ty, role) of
           (Some s, Some r) \<Rightarrow>
             (case validate_assignee s r of Inl (ValueError m) \<Rightarrow> [task_issue_at at ''invalid_assignee_role'' m ''assignee_role''] | _ \<Rightarrow> [])
         | _ \<Rightarrow> [])
      @ (case map_of d ''input_state'' of
           None \<Rightarrow> [task_issue_at at ''missing_input_state'' ''Workflow task templates must include input_state.'' ''input_state'']
         | Some v \<Rightarrow> placeholder_issues (child_path at ''details'') (get_item d ''details'') v)
      @ unless_issue (task_optional_string (get_item d ''output_state_type'') \<noteq> None)
          (task_issue_at at ''missing_output_state_type'' ''Workflow task templates must include a non-empty output_state_type.''
            ''output_state_type''))"

definition template_state_issues :: "string option \<Rightarrow> pydict \<Rightarrow> task_issue list" where
  "template_state_issues at d =
     (case get_item d ''dependent_state'' of
        PList vs \<Rightarrow> concat (map (\<lambda>(i, v). unless_issue (task_optional_string v \<noteq> None)
          (path_issue (sequence_path at ''dependent_state'' i) ''invalid_dependent_state_item''
            ''Workflow task template dependent_state must contain non-empty strings.'')) (List.enumerate 0 vs))
      | _ \<Rightarrow> [task_issue_at at ''invalid_dependent_state_type'' ''Workflow task template dependent_state must be an array.'' ''dependent_state''])"

text \<open>
  \<^verbatim>\<open>_optional_int_sequence\<close>: the indexes, or the issue at the first entry that is none. Repeated indexes are issues of their own.
\<close>

fun first_bad_index :: "nat \<Rightarrow> pyval list \<Rightarrow> int list + nat" where
  "first_bad_index i [] = Inl []"
| "first_bad_index i (v # vs) =
     (case index_item v of
        None \<Rightarrow> Inr i
      | Some n \<Rightarrow> (case first_bad_index (i + 1) vs of Inl ns \<Rightarrow> Inl (n # ns) | Inr j \<Rightarrow> Inr j))"

fun repeated_indexes :: "nat \<Rightarrow> int list \<Rightarrow> int list \<Rightarrow> nat list" where
  "repeated_indexes i seen [] = []"
| "repeated_indexes i seen (n # ns) =
     (if n \<in> set seen then i # repeated_indexes (i + 1) seen ns else repeated_indexes (i + 1) (n # seen) ns)"

definition downstream_index_issues :: "string option \<Rightarrow> pyval \<Rightarrow> task_issue list" where
  "downstream_index_issues at v =
     (let bad = (\<lambda>p. path_issue p ''invalid_downstream_task_template_index''
          ''Workflow task template generation downstream indexes must be an array of non-negative integers.'') in
      case v of
        PNone \<Rightarrow> []
      | PList vs \<Rightarrow>
          (case first_bad_index 0 vs of
             Inr i \<Rightarrow> [bad (index_path at i)]
           | Inl ns \<Rightarrow> map (\<lambda>i. path_issue (index_path at i) ''duplicate_downstream_task_template_index''
               ''Workflow task template generation downstream indexes must not contain duplicates.'') (repeated_indexes 0 [] ns))
      | _ \<Rightarrow> [bad at])"

definition generation_issues :: "string option \<Rightarrow> pydict \<Rightarrow> task_issue list" where
  "generation_issues at d =
     (let here = child_path at ''generation'' in
      case get_item d ''generation'' of
        PNone \<Rightarrow> []
      | PDict g \<Rightarrow>
          key_issues ''Workflow Task Template Generation'' [''for_each'', ''downstream_task_template_indexes''] here g
          @ unless_issue (task_optional_string (get_item g ''for_each'') \<noteq> None)
              (task_issue_at here ''missing_for_each'' ''Workflow task template generation must include a non-empty for_each description.'' ''for_each'')
          @ downstream_index_issues (child_path here ''downstream_task_template_indexes'') (get_item g ''downstream_task_template_indexes'')
      | _ \<Rightarrow> [path_issue here ''invalid_generation_type'' ''Workflow task template generation must be an object.''])"

definition task_template_issues :: "string option \<Rightarrow> nat \<times> pyval \<Rightarrow> task_issue list result" where
  "task_template_issues src entry =
     (case entry of (i, v) \<Rightarrow>
        let at = sequence_path src ''task_templates'' i in
        case v of
          PDict d \<Rightarrow>
            bind_r (template_step_issues at d) (\<lambda>steps.
            Inr (key_issues ''Workflow Task Template'' TASK_TEMPLATE_KEYS at d @ template_identity_issues at d @ steps
              @ template_field_issues at d @ template_state_issues at d @ generation_issues at d))
        | _ \<Rightarrow> Inr [path_issue at ''invalid_task_template_type'' ''Workflow template task templates must be objects.''])"

text \<open>The two loops over the references between task templates.\<close>

definition upstream_template_issues :: "string option \<Rightarrow> nat \<Rightarrow> nat \<times> pyval \<Rightarrow> task_issue list" where
  "upstream_template_issues src count entry =
     (case entry of (i, v) \<Rightarrow>
        let at = sequence_path src ''task_templates'' i in
        if \<not> is_mapping v then []
        else concat (map (\<lambda>u.
          if count \<le> u then [path_issue at ''missing_upstream_task_template'' ''Workflow task input references an unknown upstream task template index.'']
          else if u = i then [path_issue at ''self_dependency'' ''A workflow task template cannot depend on itself.'']
          else []) (upstream_indexes (get_item (the_dict v) ''input_state''))))"

definition normalize_indexes :: "pyval \<Rightarrow> int list option" where
  "normalize_indexes v =
     (case v of
        PNone \<Rightarrow> Some []
      | PList vs \<Rightarrow> (case first_bad_index 0 vs of Inl ns \<Rightarrow> Some ns | Inr _ \<Rightarrow> None)
      | _ \<Rightarrow> None)"

definition downstream_template_issues :: "string option \<Rightarrow> nat \<Rightarrow> nat \<times> pyval \<Rightarrow> task_issue list" where
  "downstream_template_issues src count entry =
     (case entry of (i, v) \<Rightarrow>
        let at = sequence_path src ''task_templates'' i; gen = get_item (the_dict v) ''generation'' in
        case (if is_mapping v \<and> is_mapping gen then normalize_indexes (get_item (the_dict gen) ''downstream_task_template_indexes'') else None) of
          None \<Rightarrow> []
        | Some ns \<Rightarrow> concat (map (\<lambda>n.
            if n < 0 \<or> int count \<le> n
            then [path_issue at ''missing_downstream_task_template'' ''Workflow task template generation references an unknown downstream task template index.'']
            else if n = int i
            then [path_issue at ''self_generation_dependency'' ''Workflow task template generation cannot point to itself as downstream.'']
            else []) ns))"

definition purpose_issues :: "string option \<Rightarrow> pydict \<Rightarrow> string \<Rightarrow> task_issue list" where
  "purpose_issues src raw key =
     (case template_strings raw key of
        Inr [] \<Rightarrow> [task_issue_at src (''missing_'' @ key) (''Workflow template must include at least one '' @ key @ ''.'') key]
      | Inr _ \<Rightarrow> []
      | Inl (ValueError m) \<Rightarrow> [task_issue_at src (''invalid_'' @ key) m key]
      | Inl _ \<Rightarrow> [])"

definition document_issues :: "string option \<Rightarrow> pydict \<Rightarrow> task_issue list" where
  "document_issues src raw =
     unless_issue (case map_of raw ''id'' of None \<Rightarrow> True | Some v \<Rightarrow> is_str v \<and> strip (the_str v) \<noteq> [])
       (task_issue_at src ''invalid_id'' ''Workflow template id must be a non-empty string.'' ''id'')
     @ key_issues ''Workflow Template'' PROCESS_TEMPLATE_KEYS src raw
     @ purpose_issues src raw ''when_to_use'' @ purpose_issues src raw ''how_to_fill_this_out''
     @ unless_issue (case get_default raw ''invariants'' (PList []) of PList vs \<Rightarrow> list_all is_mapping vs | _ \<Rightarrow> False)
         (task_issue_at src ''invalid_invariants'' ''invariants must be an array of objects.'' ''invariants'')
     @ unless_issue (is_array (get_item raw ''task_templates''))
         (task_issue_at src ''invalid_task_templates_type'' ''Workflow template task_templates must be an array.'' ''task_templates'')"

definition build_workflow_template_validation_report :: "string option \<Rightarrow> string + pyval \<Rightarrow> template_report result" where
  "build_workflow_template_validation_report src parsed =
     (case parsed of
        Inl err \<Rightarrow> Inr \<lparr>rep_successful = False, rep_count = 0,
          rep_issues = [path_issue src ''invalid_json'' (''Could not parse workflow template JSON: '' @ err)]\<rparr>
      | Inr (PDict raw) \<Rightarrow>
          (let items = (case get_item raw ''task_templates'' of PList vs \<Rightarrow> vs | _ \<Rightarrow> []); entries = List.enumerate 0 items in
           bind_r (mapM_r (task_template_issues src) entries) (\<lambda>steps.
           let issues = document_issues src raw
                 @ unless_issue (items \<noteq> [])
                     (task_issue_at src ''missing_task_templates'' ''Workflow template must include at least one task template.'' ''task_templates'')
                 @ concat steps
                 @ concat (map (upstream_template_issues src (length items)) entries)
                 @ concat (map (downstream_template_issues src (length items)) entries) in
           Inr \<lparr>rep_successful = (issues = []), rep_count = length items, rep_issues = issues\<rparr>))
      | Inr _ \<Rightarrow> Inr \<lparr>rep_successful = False, rep_count = 0,
          rep_issues = [path_issue src ''invalid_root_type'' ''Workflow template JSON must decode to an object.'']\<rparr>)"

end
