(* ===== verification/Template_Safety.thy ===== *)
theory Template_Safety
  imports Template_Report
begin

text \<open>
  What an instantiated template is: tasks and files in one-to-one correspondence with the task templates, references
  turned into upstream tasks, a repeatable operation; and what a successful validation report of a template guarantees.
\<close>

section \<open>Identifiers\<close>

lemma read_nat_zeros: "read_nat (replicate k (CHR ''0'') @ d) = read_nat d"
  by (induction k) simp_all

lemma numbered_id_inject [simp]: "numbered_id pre i = numbered_id pre j \<longleftrightarrow> i = j"
proof
  assume "numbered_id pre i = numbered_id pre j"
  then have "read_nat (replicate (3 - length (show_nat (i + 1))) (CHR ''0'') @ show_nat (i + 1)) =
      read_nat (replicate (3 - length (show_nat (j + 1))) (CHR ''0'') @ show_nat (j + 1))"
    by (simp add: numbered_id_def Let_def del: read_nat.simps)
  then show "i = j" by (simp only: read_nat_zeros read_show_nat add_right_cancel)
qed simp

lemma instance_ids_distinct: "distinct (instance_ids t work inst)"
  by (simp add: instance_ids_def Let_def distinct_map inj_on_def)

lemma instance_ids_length [simp]: "length (instance_ids t work inst) = length (wt_task_templates t)"
  by (simp add: instance_ids_def Let_def)

lemma slugify_chars: "c \<in> set (slugify s) \<Longrightarrow> slug_char c \<or> c = CHR ''-''"
proof -
  have "c \<in> set (dash_runs b s) \<Longrightarrow> slug_char c \<or> c = CHR ''-''" for b s
    by (induction b s rule: dash_runs.induct) (auto split: if_splits)
  moreover assume "c \<in> set (slugify s)"
  ultimately show "slug_char c \<or> c = CHR ''-''"
    by (auto simp: slugify_def Let_def rstrip_char_def dest!: set_dropWhileD)
qed

lemma slug_char_no_space: "slug_char c \<or> c = CHR ''-'' \<Longrightarrow> \<not> py_isspace c"
  by (auto simp: slug_char_def py_isspace_def Let_def)

lemma digit_slug: "c \<in> set (show_nat n) \<Longrightarrow> slug_char c"
  using show_nat_digits [of c n] by (simp add: slug_char_def Let_def)

lemma numbered_id_chars:
  assumes "c \<in> set (numbered_id pre i)" "\<forall>c \<in> set pre. slug_char c \<or> c = CHR ''-''"
  shows "slug_char c \<or> c = CHR ''-''"
proof -
  have "slug_char (CHR ''0'')" "\<forall>c \<in> set ''task-''. slug_char c \<or> c = CHR ''-''" by code_simp+
  with assms digit_slug show ?thesis by (auto simp: numbered_id_def Let_def)
qed

lemma instance_ids_canonical: "list_all canonical (instance_ids t work inst)"
proof -
  let ?pre = "if inst = None \<or> inst = Some [] then [] else slugify (instance_name inst work) @ ''-''"
  have pre: "\<forall>c \<in> set ?pre. slug_char c \<or> c = CHR ''-''" using slugify_chars by auto
  have "canonical (numbered_id ?pre i)" for i
  proof -
    have "numbered_id ?pre i \<noteq> []" by (simp add: numbered_id_def Let_def)
    then show ?thesis
      unfolding canonical_iff using numbered_id_chars [OF _ pre] slug_char_no_space by (meson hd_in_set last_in_set)
  qed
  then show ?thesis by (simp add: instance_ids_def Let_def list_all_iff)
qed

lemma show_nat_last: "show_nat n \<noteq> [] \<and> slug_char (last (show_nat n)) \<and> last (show_nat n) \<noteq> CHR ''w''"
proof -
  have ne: "show_nat n \<noteq> []" by (subst show_nat.simps) simp
  moreover from ne have "last (show_nat n) \<in> set (show_nat n)" by simp
  then have "48 \<le> (of_char (last (show_nat n)) :: nat) \<and> (of_char (last (show_nat n)) :: nat) \<le> 57"
    by (rule show_nat_digits)
  ultimately show ?thesis by (auto simp: slug_char_def Let_def)
qed

lemma task_file_name: "tid \<in> set (instance_ids t work inst) \<Longrightarrow> is_task_file (tid @ ''.yaml'')"
proof -
  assume "tid \<in> set (instance_ids t work inst)"
  then obtain pre i where tid: "tid = numbered_id pre i" by (auto simp: instance_ids_def Let_def)
  then have ne: "tid \<noteq> []" "last tid \<noteq> CHR ''w''" using show_nat_last [of "i + 1"] by (auto simp: numbered_id_def Let_def)
  have "\<not> suffix ''-workflow.yaml'' (tid @ ''.yaml'')"
  proof
    assume "suffix ''-workflow.yaml'' (tid @ ''.yaml'')"
    then obtain zs where "tid @ ''.yaml'' = (zs @ ''-workflow'') @ ''.yaml''" by (auto simp: suffix_def)
    then have "tid = zs @ ''-workflow''" by (rule append_same_eq [THEN iffD1])
    with ne(2) show False by simp
  qed
  with ne(1) show "is_task_file (tid @ ''.yaml'')" by (auto simp: is_task_file_def has_suffix_def suffix_def)
qed

section \<open>Writing the tasks\<close>

lemma write_tasks_effect:
  assumes "write_tasks dir mk i xs files ts = (Inr ts', files')"
  shows "\<exists>us. ts' = ts @ us \<and> length us = length xs \<and> (\<forall>k < length xs. mk (i + k) (xs ! k) = Inr (us ! k)) \<and>
    files' = foldl save_task files us"
  using assms
proof (induction xs arbitrary: i files ts)
  case (Cons x xs)
  from Cons.prems obtain t where t: "mk i x = Inr t"
    "write_tasks dir mk (i + 1) xs (save_task files t) (ts @ [t]) = (Inr ts', files')"
    by (auto split: sum.splits if_splits)
  from Cons.IH [OF t(2)] obtain us where "ts' = (ts @ [t]) @ us" "length us = length xs"
    "\<forall>k < length xs. mk (i + 1 + k) (xs ! k) = Inr (us ! k)" "files' = foldl save_task (save_task files t) us" by blast
  with t(1) show ?case by (intro exI [of _ "t # us"]) (auto simp: nth_Cons split: nat.splits)
qed simp

lemma saved_files:
  "distinct (map task_id us) \<Longrightarrow>
   map_of (foldl save_task files us) = map_of files ++ map_of (map (\<lambda>u. (task_id u @ ''.yaml'', Inr (PDict (task_to_data u)))) us)"
proof (induction us arbitrary: files)
  case (Cons u us)
  have "map_of (map (\<lambda>u. (task_id u @ ''.yaml'', Inr (PDict (task_to_data u)))) us) (task_id u @ ''.yaml'') = (None :: (string + pyval) option)"
    using Cons.prems by (force simp: map_of_eq_None_iff)
  with Cons show ?case
    by (auto simp: save_task_def update_conv' map_add_def fun_eq_iff split: option.splits)
qed simp

definition made_from :: "substitutions \<Rightarrow> string list \<Rightarrow> task_template \<Rightarrow> workflow_task \<Rightarrow> bool" where
  "made_from subs ids x u \<longleftrightarrow>
     task_status u = TS_OPEN \<and> task_description u = tt_description x \<and> output_state_type u = tt_output_state_type x \<and>
     input_state u = substitute_placeholders subs (tt_input_state x) \<and>
     list_all (\<lambda>k. k < length ids) (upstream_indexes (tt_input_state x)) \<and>
     upstream_task_ids u = map ((!) ids) (upstream_indexes (tt_input_state x))"

lemma template_task_made:
  assumes "template_task work inst subs vals identity ids i x = Inr u"
  shows "task_id u = ids ! i \<and> made_from subs ids x u"
proof -
  from assms have "find (\<lambda>k. length ids \<le> k) (upstream_indexes (tt_input_state x)) = None"
    by (auto simp: template_task_def Let_def split: option.splits)
  then have "list_all (\<lambda>k. k < length ids) (upstream_indexes (tt_input_state x))"
    by (auto simp: find_None_iff list_all_iff not_le)
  with assms show ?thesis
    by (auto simp: template_task_def Let_def made_from_def make_task_Inr split: option.splits)
qed

lemma open_tasks_ready:
  assumes "list_all (\<lambda>t. task_status t = TS_OPEN) ts"
  shows "select_ready_workflow_tasks ts None None = Inr (filter (\<lambda>t. upstream_task_ids t = []) ts)"
proof -
  have "set (map snd (foldl (\<lambda>d t. AList.update (task_id t) t d) d ts)) \<subseteq> set (map snd d) \<union> set ts" for d
  proof (induction ts arbitrary: d)
    case (Cons t ts)
    have "set (map snd (AList.update (task_id t) t d)) \<subseteq> insert t (set (map snd d))"
      using set_update_subset [of "task_id t" t d] by auto
    with Cons.IH [of "AList.update (task_id t) t d"] show ?case by auto
  qed simp
  from this [of "[]"] have "t \<in> set ts" if "map_of (tasks_by_id ts) u = Some t" for u t
    using map_of_SomeD [OF that] by (force simp: tasks_by_id_def)
  with assms have none: "\<not> upstream_completed (tasks_by_id ts) u" for u
    by (auto simp: upstream_completed_def list_all_iff split: option.splits)
  have "task_status t = TS_OPEN \<and> list_all (upstream_completed (tasks_by_id ts)) (upstream_task_ids t) \<longleftrightarrow> upstream_task_ids t = []"
    if "t \<in> set ts" for t
    using that assms none by (cases "upstream_task_ids t") (auto simp: list_all_iff)
  then show ?thesis
    by (simp add: select_ready_workflow_tasks_def normalize_assignee_filters_def Let_def cong: filter_cong)
qed

lemma first_ready_iff:
  assumes "list_all (\<lambda>t. task_status t = TS_OPEN) ts" "distinct (map task_id ts)" "map task_id ts = ids"
  shows "check_first_ready what ids ts = Inr () \<longleftrightarrow>
    (\<exists>u us. ts = u # us \<and> upstream_task_ids u = [] \<and> list_all (\<lambda>v. upstream_task_ids v \<noteq> []) us)"
proof (cases ts)
  case (Cons u us)
  let ?P = "\<lambda>t. upstream_task_ids t = []"
  have "(case filter ?P ts of [t] \<Rightarrow> task_id t = hd ids | _ \<Rightarrow> False) \<longleftrightarrow> ?P u \<and> filter ?P us = []"
  proof (cases "?P u")
    case False
    have "task_id u \<notin> task_id ` set us" using assms(2) by (simp add: Cons)
    then have "task_id t \<noteq> task_id u" if "t \<in> set (filter ?P us)" for t using that by (metis filter_is_subset imageI subsetD)
    with False assms(3) show ?thesis by (cases "filter ?P us") (auto simp: Cons split: list.splits)
  qed (use assms(3) in \<open>auto simp: Cons split: list.splits\<close>)
  then have "check_first_ready what ids ts = Inr () \<longleftrightarrow> ?P u \<and> filter ?P us = []"
    by (simp add: check_first_ready_def open_tasks_ready [OF assms(1)])
  then show ?thesis by (auto simp: Cons filter_empty_conv list_all_iff)
qed (simp add: check_first_ready_def select_ready_workflow_tasks_def normalize_assignee_filters_def)

lemma generated:
  assumes "generate_tasks dir stem t work inst vals files = (Inr ts, files')"
  defines "ids \<equiv> instance_ids t work inst"
  shows "map task_id ts = ids \<and> list_all2 (made_from (task_substitutions work inst vals ids) ids) (wt_task_templates t) ts \<and>
    files' = foldl save_task files ts \<and> check_directory ''Generated workflow failed validation: '' dir files' = Inr () \<and>
    check_first_ready ''Generated'' ids ts = Inr ()"
proof -
  from assms(1) have run: "write_tasks dir (template_task work inst (task_substitutions work inst vals ids) vals (template_identity t stem) ids) 0
      (wt_task_templates t) files [] = (Inr ts, files')"
    and checks: "check_directory ''Generated workflow failed validation: '' dir files' = Inr ()" "check_first_ready ''Generated'' ids ts = Inr ()"
    by (auto simp: generate_tasks_def ids_def Let_def split: prod.splits sum.splits)
  from write_tasks_effect [OF run] have us: "length ts = length (wt_task_templates t)"
    "\<And>k. k < length (wt_task_templates t) \<Longrightarrow> template_task work inst (task_substitutions work inst vals ids) vals (template_identity t stem)
       ids k (wt_task_templates t ! k) = Inr (ts ! k)" "files' = foldl save_task files ts" by auto
  note made = template_task_made [OF us(2)]
  have "map task_id ts = ids" using us(1) made by (intro nth_equalityI) (auto simp: ids_def)
  moreover have "list_all2 (made_from (task_substitutions work inst vals ids) ids) (wt_task_templates t) ts"
    using us(1) made by (auto simp: list_all2_conv_all_nth)
  ultimately show ?thesis using us(3) checks by blast
qed


section \<open>What an instance is\<close>

definition files_of :: "folder option \<Rightarrow> folder" where
  "files_of folder = (case folder of None \<Rightarrow> [] | Some files \<Rightarrow> files)"

lemma instantiated_cases:
  assumes "instantiate_workflow_template root stem (Inr t) work inst vals folder = (Inr (dir, ts), folder')"
  defines "ids \<equiv> instance_ids t work inst"
  shows "open_output root work inst folder = (Inr (dir, files_of folder), Some (files_of folder)) \<and>
    ((\<exists>tid \<in> set ids. map_of (files_of folder) (tid @ ''.yaml'') \<noteq> None) \<and> reuse_tasks dir (files_of folder) ids = Inr ts \<and>
       folder' = Some (files_of folder) \<or>
     (\<forall>tid \<in> set ids. map_of (files_of folder) (tid @ ''.yaml'') = None) \<and>
       (\<exists>files'. generate_tasks dir stem t work inst vals (files_of folder) = (Inr ts, files') \<and> folder' = Some files'))"
proof -
  from assms(1) obtain d files f where o: "open_output root work inst folder = (Inr (d, files), f)"
    by (auto simp: instantiate_workflow_template_def split: prod.splits sum.splits)
  then have f: "f = Some files" "files = files_of folder"
    by (auto simp: open_output_def files_of_def Let_def split: if_splits)
  from assms(1) o f show ?thesis
    by (auto simp: instantiate_workflow_template_def Let_def list_ex_iff ids_def split: prod.splits if_splits)
qed

text \<open>
  C30: A first instantiation that succeeds has written one open task per task template, in their order and under distinct
  identifiers. The input of a task is that of its template with the placeholders filled in, and its upstream tasks are
  those of the templates the input refers to, all of which exist. Exactly the first template refers to none, so exactly
  its task is ready. The directory has the documents of the tasks and is otherwise unchanged.
\<close>

theorem instantiation_exact:
  assumes "instantiate_workflow_template root stem (Inr t) work inst vals folder = (Inr (dir, ts), folder')"
    and "list_all (\<lambda>tid. map_of (files_of folder) (tid @ ''.yaml'') = None) (instance_ids t work inst)"
  shows "map task_id ts = instance_ids t work inst \<and> distinct (map task_id ts) \<and>
    list_all2 (made_from (task_substitutions work inst vals (map task_id ts)) (map task_id ts)) (wt_task_templates t) ts \<and>
    (\<exists>u us. ts = u # us \<and> upstream_task_ids u = [] \<and> list_all (\<lambda>v. upstream_task_ids v \<noteq> []) us \<and>
       select_ready_workflow_tasks ts None None = Inr [u]) \<and>
    (\<exists>files'. folder' = Some files' \<and>
       map_of files' = map_of (files_of folder) ++ map_of (map (\<lambda>u. (task_id u @ ''.yaml'', Inr (PDict (task_to_data u)))) ts))"
proof -
  let ?ids = "instance_ids t work inst"
  from instantiated_cases [OF assms(1)] assms(2) obtain files' where
    gen: "generate_tasks dir stem t work inst vals (files_of folder) = (Inr ts, files')" and f: "folder' = Some files'"
    by (auto simp: list_all_iff)
  note g = generated [OF gen]
  then have ids: "map task_id ts = ?ids" and made: "list_all2 (made_from (task_substitutions work inst vals ?ids) ?ids) (wt_task_templates t) ts"
    by blast+
  have d: "distinct (map task_id ts)" unfolding ids by (rule instance_ids_distinct)
  have op: "list_all (\<lambda>u. task_status u = TS_OPEN) ts"
    using made by (auto simp: list_all_length list_all2_conv_all_nth made_from_def)
  from g first_ready_iff [OF op d ids] obtain u us where u: "ts = u # us" "upstream_task_ids u = []" "list_all (\<lambda>v. upstream_task_ids v \<noteq> []) us"
    by blast
  then have "filter (\<lambda>v. upstream_task_ids v = []) ts = [u]" by (auto simp: list_all_iff filter_empty_conv)
  with open_tasks_ready [OF op] have "select_ready_workflow_tasks ts None None = Inr [u]" by simp
  moreover have "map_of files' = map_of (files_of folder) ++ map_of (map (\<lambda>u. (task_id u @ ''.yaml'', Inr (PDict (task_to_data u)))) ts)"
    using g saved_files [OF d] by metis
  ultimately show ?thesis using ids d made u f by metis
qed

section \<open>Instantiating again\<close>

lemma loaded_task:
  assumes "workflow_task_from_data (task_to_data u) = Inr v" "canonical (task_id u)" "list_all canonical (upstream_task_ids u)"
  shows "task_id v = task_id u \<and> task_status v = task_status u \<and> upstream_task_ids v = upstream_task_ids u"
proof -
  note l = task_lookups [of u]
  have req: "task_required_string (task_to_data u) ''task_id'' = Inr (task_id u)"
    "required_status (task_to_data u) ''status'' = Inr (task_status u)"
    "required_string_sequence (task_to_data u) ''upstream_task_ids'' = Inr (upstream_task_ids u)"
    using assms(2,3) by (simp_all add: task_required_string_def required_status_def get_item_def l status_enum.find_val
        required_string_sequence_def mapM_sequence_item del: task_optional_string.simps)
  from assms(1) show ?thesis
    unfolding workflow_task_from_data_def req bind_r_eq_Inr guard_r_Inr
    by (elim exE conjE) (simp add: make_task_Inr split: prod.splits, elim exE conjE, simp)
qed

lemma validated_loads:
  assumes "check_directory what dir files = Inr ()" "is_task_file (tid @ ''.yaml'')"
    and "map_of files (tid @ ''.yaml'') = Some (Inr (PDict d))"
  shows "\<exists>v. load_task files tid = Inr v \<and> workflow_task_from_data d = Inr v"
proof -
  from assms(1) obtain r where "build_workflow_task_directory_validation_report dir (TaskFiles (task_files dir files)) = Inr r"
    "tr_validation_successful r" by (auto simp: check_directory_def)
  from directory_report_sound [OF this] obtain vs where vs: "list_all2 file_holds (task_files dir files) vs" by blast
  have "tid @ ''.yaml'' \<in> set (sort (filter is_task_file (map fst files)))"
    using assms(2) map_of_SomeD [OF assms(3)] by force
  then have "(dir @ ''/'' @ tid @ ''.yaml'', if suffix ''.json'' (tid @ ''.yaml'') then ''JSON'' else ''YAML'', the (map_of files (tid @ ''.yaml'')))
      \<in> set (task_files dir files)" by (auto simp: task_files_def)
  with vs obtain v where "file_holds (dir @ ''/'' @ tid @ ''.yaml'', if suffix ''.json'' (tid @ ''.yaml'') then ''JSON'' else ''YAML'',
      the (map_of files (tid @ ''.yaml''))) v"
    by (auto simp: list_all2_conv_all_nth in_set_conv_nth)
  with assms(3) show ?thesis by (auto simp: file_holds_def load_task_def)
qed

lemma reloaded:
  assumes "generate_tasks dir stem t work inst vals files = (Inr ts, files')"
  shows "\<exists>ts'. reuse_tasks dir files' (instance_ids t work inst) = Inr ts' \<and> map task_id ts' = map task_id ts \<and>
    map task_status ts' = map task_status ts \<and> map upstream_task_ids ts' = map upstream_task_ids ts \<and> (list_all task_ok ts \<longrightarrow> ts' = ts)"
proof -
  let ?ids = "instance_ids t work inst"
  note g = generated [OF assms]
  then have ids: "map task_id ts = ?ids" and made: "list_all2 (made_from (task_substitutions work inst vals ?ids) ?ids) (wt_task_templates t) ts"
    and dirok: "check_directory ''Generated workflow failed validation: '' dir files' = Inr ()" by blast+
  have d: "distinct (map task_id ts)" unfolding ids by (rule instance_ids_distinct)
  have stored: "map_of files' (task_id u @ ''.yaml'') = Some (Inr (PDict (task_to_data u)))" if "u \<in> set ts" for u
  proof -
    have "distinct (map fst (map (\<lambda>u. (task_id u @ ''.yaml'', Inr (PDict (task_to_data u)) :: string + pyval)) ts))"
      using d by (auto simp: distinct_map inj_on_def)
    with that have "map_of (map (\<lambda>u. (task_id u @ ''.yaml'', Inr (PDict (task_to_data u)) :: string + pyval)) ts) (task_id u @ ''.yaml'') =
        Some (Inr (PDict (task_to_data u)))" by (intro map_of_is_SomeI) auto
    moreover have "files' = foldl save_task files ts" using g by blast
    ultimately show ?thesis by (simp add: saved_files [OF d])
  qed
  have canon: "canonical (task_id u) \<and> list_all canonical (upstream_task_ids u) \<and> is_task_file (task_id u @ ''.yaml'')" if u: "u \<in> set ts" for u
  proof -
    have "task_id u \<in> set ?ids" using u ids by (metis image_eqI list.set_map)
    moreover obtain x where "made_from (task_substitutions work inst vals ?ids) ?ids x u"
      using u made by (auto simp: list_all2_conv_all_nth in_set_conv_nth)
    ultimately show ?thesis
      using instance_ids_canonical [of t work inst] task_file_name by (auto simp: made_from_def list_all_iff)
  qed
  have "\<exists>v. load_task files' (task_id u) = Inr v \<and> workflow_task_from_data (task_to_data u) = Inr v" if "u \<in> set ts" for u
    using validated_loads [OF dirok] stored canon that by blast
  then obtain f where f: "\<And>u. u \<in> set ts \<Longrightarrow> load_task files' (task_id u) = Inr (f u) \<and> workflow_task_from_data (task_to_data u) = Inr (f u)"
    by metis
  have same: "task_id (f u) = task_id u \<and> task_status (f u) = task_status u \<and> upstream_task_ids (f u) = upstream_task_ids u" if "u \<in> set ts" for u
    using loaded_task f canon that by blast
  have load: "mapM_r (load_task files') ?ids = Inr (map f ts)"
    unfolding ids [symmetric] mapM_r_map mapM_r_Inr_iff using f by (auto simp: list_all2_conv_all_nth)
  have eqs: "map task_id (map f ts) = ?ids" "map task_status (map f ts) = map task_status ts" "map upstream_task_ids (map f ts) = map upstream_task_ids ts"
    using same unfolding ids [symmetric] by auto
  have op: "list_all (\<lambda>u. task_status u = TS_OPEN) ts"
    using made by (auto simp: list_all_length list_all2_conv_all_nth made_from_def)
  have op': "list_all (\<lambda>u. task_status u = TS_OPEN) (map f ts)" using op same by (auto simp: list_all_iff)
  from g first_ready_iff [OF op d ids] obtain u us where u: "ts = u # us" "upstream_task_ids u = []" "list_all (\<lambda>v. upstream_task_ids v \<noteq> []) us"
    by blast
  have d': "distinct (map task_id (map f ts))" unfolding eqs(1) by (rule instance_ids_distinct)
  have "check_first_ready ''Existing'' ?ids (map f ts) = Inr ()"
    by (rule first_ready_iff [OF op' d' eqs(1), THEN iffD2]) (use u same in \<open>auto simp: list_all_iff\<close>)
  moreover have "check_directory ''Existing workflow failed validation and cannot be reused: '' dir files' = Inr ()"
    using dirok by (auto simp: check_directory_def)
  moreover have "list_all (\<lambda>tid. map_of files' (tid @ ''.yaml'') \<noteq> None) ?ids"
    using stored by (auto simp: list_all_iff simp flip: ids)
  ultimately have "reuse_tasks dir files' ?ids = Inr (map f ts)" by (simp add: reuse_tasks_def load)
  moreover have "map f ts = ts" if "list_all task_ok ts"
    using that f task_document_roundtrip by (intro map_idI) (auto simp: list_all_iff)
  ultimately show ?thesis using eqs ids by (intro exI [of _ "map f ts"]) simp
qed

text \<open>
  Instantiating a named instance is repeatable: after a success the same call, whatever values it is given, changes
  nothing and returns the tasks as they are stored. These have the same identifiers, status and upstream tasks, and are
  the same tasks if the generated ones were well formed.
\<close>

theorem instantiation_repeatable:
  assumes "instantiate_workflow_template root stem (Inr t) work (Some name) vals folder = (Inr (dir, ts), folder')"
  shows "\<exists>ts'. instantiate_workflow_template root stem (Inr t) work (Some name) vals' folder' = (Inr (dir, ts'), folder') \<and>
    map task_id ts' = map task_id ts \<and> map task_status ts' = map task_status ts \<and>
    map upstream_task_ids ts' = map upstream_task_ids ts \<and> (list_all task_ok ts \<longrightarrow> ts' = ts)"
proof -
  let ?ids = "instance_ids t work (Some name)"
  note c = instantiated_cases [OF assms]
  then have opened: "open_output root work (Some name) folder = (Inr (dir, files_of folder), Some (files_of folder))" by blast
  have again: "open_output root work (Some name) (Some files) = (Inr (dir, files), Some files)" for files
    using opened by (auto simp: open_output_def Let_def split: if_splits)
  from c consider (old) "\<exists>tid \<in> set ?ids. map_of (files_of folder) (tid @ ''.yaml'') \<noteq> None" "reuse_tasks dir (files_of folder) ?ids = Inr ts"
      "folder' = Some (files_of folder)"
    | (new) files' where "generate_tasks dir stem t work (Some name) vals (files_of folder) = (Inr ts, files')" "folder' = Some files'"
    by blast
  then show ?thesis
  proof cases
    case old
    then show ?thesis by (auto simp: instantiate_workflow_template_def again list_ex_iff)
  next
    case new
    from reloaded [OF new(1)] obtain ts' where ts': "reuse_tasks dir files' ?ids = Inr ts'" "map task_id ts' = map task_id ts"
      "map task_status ts' = map task_status ts" "map upstream_task_ids ts' = map upstream_task_ids ts" "list_all task_ok ts \<longrightarrow> ts' = ts" by blast
    then have "list_all (\<lambda>tid. map_of files' (tid @ ''.yaml'') \<noteq> None) ?ids" by (auto simp: reuse_tasks_def)
    moreover have "?ids \<noteq> []"
      using ts'(1) by (auto simp: reuse_tasks_def check_first_ready_def select_ready_workflow_tasks_def normalize_assignee_filters_def)
    ultimately have "list_ex (\<lambda>tid. map_of files' (tid @ ''.yaml'') \<noteq> None) ?ids" by (cases ?ids) auto
    with ts' new(2) show ?thesis by (simp add: instantiate_workflow_template_def again)
  qed
qed

section \<open>What a successful report guarantees\<close>

text \<open>What the report does not check of a task template, and its parser does.\<close>

definition loadable :: "pydict \<Rightarrow> bool" where
  "loadable d \<longleftrightarrow> is_ok (task_execution_settings_from_data d) \<and>
     (map_of d ''uses_processes'' \<noteq> None \<longrightarrow> is_ok (template_strings d ''uses_processes'')) \<and>
     (is_mapping (get_item d ''generation'') \<longrightarrow> get_item (the_dict (get_item d ''generation'')) ''downstream_task_template_indexes'' \<noteq> PNone)"

lemma required_from_optional: "task_optional_string (get_item d k) \<noteq> None \<Longrightarrow> \<exists>s. template_required_string d k = Inr s \<and> task_optional_string (get_item d k) = Some s"
  by (auto simp: template_required_string_def)

lemma mapM_template_item: "(\<forall>v \<in> set vs. task_optional_string v \<noteq> None) \<Longrightarrow> \<exists>xs. mapM_r (template_item key) vs = Inr xs"
  by (induction vs) (auto simp: template_item_def)

lemma clean_states: "template_state_issues at d = [] \<Longrightarrow> \<exists>xs. template_strings d ''dependent_state'' = Inr xs"
proof (cases "get_item d ''dependent_state''")
  case (PList vs)
  assume "template_state_issues at d = []"
  then have "\<forall>v \<in> snd ` set (List.enumerate 0 vs). task_optional_string v \<noteq> None"
    by (auto simp: template_state_issues_def PList)
  then have "\<forall>v \<in> set vs. task_optional_string v \<noteq> None" by (metis list.set_map map_snd_enumerate)
  with mapM_template_item show ?thesis by (simp add: template_strings_def PList)
qed (simp_all add: template_state_issues_def)

lemma assignee_value_error: "validate_assignee ty role = Inl e \<Longrightarrow> \<exists>m. e = ValueError m"
  by (auto simp: validate_assignee_def split: option.splits assignee_type.splits)

lemma phase_value_error: "template_phase_type v = Inl e \<Longrightarrow> \<exists>m. e = ValueError m"
  by (cases v) (auto simp: template_phase_type_def split: option.splits)

lemma strings_value_error: "template_strings d key = Inl e \<Longrightarrow> \<exists>m. e = ValueError m"
proof -
  have "mapM_r (template_item key) vs = Inl e \<Longrightarrow> \<exists>m. e = ValueError m" for vs
    by (induction vs) (auto simp: template_item_def bind_r_def split: sum.splits option.splits)
  then show "template_strings d key = Inl e \<Longrightarrow> \<exists>m. e = ValueError m"
    by (auto simp: template_strings_def split: pyval.splits)
qed

lemma clean_phase: "template_identity_issues at d = [] \<Longrightarrow> \<exists>p. template_phase_type (get_item d ''phase_type'') = Inr p"
  using phase_value_error by (cases "template_phase_type (get_item d ''phase_type'')") (fastforce simp: template_identity_issues_def)+

lemma clean_purpose: "purpose_issues src raw key = [] \<Longrightarrow> \<exists>xs. template_strings raw key = Inr xs"
  using strings_value_error by (cases "template_strings raw key") (fastforce simp: purpose_issues_def)+

lemma first_bad_parsed: "first_bad_index i vs = Inl ns \<Longrightarrow>
    mapM_r (\<lambda>item. case index_item item of Some i \<Rightarrow> Inr i | None \<Rightarrow> Inl e) vs = Inr ns"
  by (induction vs arbitrary: i ns) (auto split: option.splits sum.splits)

lemma clean_generation:
  assumes "generation_issues at d = []" "loadable d" "get_item d ''generation'' \<noteq> PNone"
  shows "\<exists>g. parse_generation (get_item d ''generation'') = Inr g"
proof -
  from assms(1,3) obtain g where g: "get_item d ''generation'' = PDict g"
    by (cases "get_item d ''generation''") (auto simp: generation_issues_def Let_def)
  let ?v = "get_item g ''downstream_task_template_indexes''"
  from assms(1) g have clean: "task_optional_string (get_item g ''for_each'') \<noteq> None" "downstream_index_issues
      (child_path (child_path at ''generation'') ''downstream_task_template_indexes'') ?v = []"
    by (auto simp: generation_issues_def Let_def)
  have "?v \<noteq> PNone" using assms(2) g by (simp add: loadable_def)
  with clean(2) obtain vs ns where v: "?v = PList vs" "first_bad_index 0 vs = Inl ns"
    by (cases ?v) (auto simp: downstream_index_issues_def Let_def split: sum.splits)
  from v(2) have "template_indexes g ''downstream_task_template_indexes'' = Inr ns"
    unfolding template_indexes_def v(1) pyval.case by (rule first_bad_parsed)
  with required_from_optional [OF clean(1)] show ?thesis by (auto simp: parse_generation_def g)
qed

lemma clean_fields:
  assumes "template_field_issues at d = []"
  shows "\<exists>desc c ty role oty. template_required_string d ''description'' = Inr desc \<and> template_complexity d ''complexity'' = Inr c \<and>
    (\<exists>a b. template_required_string d ''assignee_type'' = Inr a \<and> template_required_string d ''assignee_role'' = Inr b \<and>
       validate_assignee a b = Inr (ty, role)) \<and>
    map_of d ''input_state'' \<noteq> None \<and> template_required_string d ''output_state_type'' = Inr oty"
proof -
  let ?o = "\<lambda>k. task_optional_string (get_item d k)"
  from assms have ne: "?o ''description'' \<noteq> None" "?o ''assignee_type'' \<noteq> None" "?o ''assignee_role'' \<noteq> None" "?o ''output_state_type'' \<noteq> None"
    "map_of d ''input_state'' \<noteq> None"
    and c: "case ?o ''complexity'' of None \<Rightarrow> False | Some s \<Rightarrow> s \<in> set (map complexity_value complexity_members)"
    and va: "case (?o ''assignee_type'', ?o ''assignee_role'') of
           (Some s, Some r) \<Rightarrow>
             (case validate_assignee s r of Inl (ValueError m) \<Rightarrow> [task_issue_at at ''invalid_assignee_role'' m ''assignee_role''] | _ \<Rightarrow> []) = []
         | _ \<Rightarrow> True"
    unfolding template_field_issues_def Let_def append_is_Nil_conv unless_issue_Nil
    by (auto split: option.splits)
  from c obtain s where s: "?o ''complexity'' = Some s" "s \<in> set (map complexity_value complexity_members)" by (auto split: option.splits)
  then obtain k where "s = complexity_value k" by auto
  with s(1) have "template_complexity d ''complexity'' = Inr k"
    by (auto simp: template_complexity_def template_required_string_def complexity_enum.find_val)
  moreover from required_from_optional [OF ne(2)] required_from_optional [OF ne(3)] obtain a b where
    ab: "template_required_string d ''assignee_type'' = Inr a" "?o ''assignee_type'' = Some a"
    "template_required_string d ''assignee_role'' = Inr b" "?o ''assignee_role'' = Some b" by blast
  with va assignee_value_error [of a b] obtain ty role where "validate_assignee a b = Inr (ty, role)"
    by (cases "validate_assignee a b") fastforce+
  ultimately show ?thesis
    using required_from_optional [OF ne(1)] required_from_optional [OF ne(4)] ne(5) ab by blast
qed

lemma clean_template_parses:
  assumes "task_template_issues src (i, PDict d) = Inr []" "loadable d"
  shows "\<exists>t. parse_task_template (PDict d) = Inr t"
proof -
  let ?at = "sequence_path src ''task_templates'' i"
  from assms(1) have clean: "template_identity_issues ?at d = []" "template_field_issues ?at d = []" "template_state_issues ?at d = []"
    "generation_issues ?at d = []" by (auto simp: task_template_issues_def Let_def)
  from assms(2) obtain se where se: "task_execution_settings_from_data d = Inr se" by (auto simp: loadable_def is_ok_iff)
  have procs: "\<exists>xs. (if map_of d ''uses_processes'' \<noteq> None then template_strings d ''uses_processes'' else Inr []) = Inr xs"
    using assms(2) by (auto simp: loadable_def is_ok_iff)
  have gen: "\<exists>g. (if get_item d ''generation'' = PNone then Inr None
      else bind_r (parse_generation (get_item d ''generation'')) (\<lambda>g. Inr (Some g))) = Inr g"
    using clean_generation [OF clean(4) assms(2)] by auto
  from clean_fields [OF clean(2)] obtain desc c ty role oty a b where f: "template_required_string d ''description'' = Inr desc"
    "template_complexity d ''complexity'' = Inr c" "template_required_string d ''assignee_type'' = Inr a"
    "template_required_string d ''assignee_role'' = Inr b" "validate_assignee a b = Inr (ty, role)" "map_of d ''input_state'' \<noteq> None"
    "template_required_string d ''output_state_type'' = Inr oty" by blast
  have fits: "role_fits ty role" using f(5) by (simp add: validate_assignee_Inr)
  have made: "\<exists>u. make_task_template x = Inr u" if "tt_assignee_type x = ty" "tt_assignee_role x = role" for x
    using fits that by (auto simp: make_task_template_Inr)
  from procs gen clean_states [OF clean(3)] clean_phase [OF clean(1)] obtain xs g ss p where
    "(if map_of d ''uses_processes'' \<noteq> None then template_strings d ''uses_processes'' else Inr []) = Inr xs"
    "(if get_item d ''generation'' = PNone then Inr None
      else bind_r (parse_generation (get_item d ''generation'')) (\<lambda>g. Inr (Some g))) = Inr g"
    "template_strings d ''dependent_state'' = Inr ss" "template_phase_type (get_item d ''phase_type'') = Inr p" by blast
  with f se show ?thesis
    unfolding parse_task_template_def pyval.case by (simp add: made)
qed

lemma all_in_range:
  "concat (map (\<lambda>u. if n \<le> u then [a] else if u = i then [b] else []) us) = [] \<Longrightarrow> u \<in> set us \<Longrightarrow> u < (n :: nat) \<and> u \<noteq> i"
  by (induction us) (auto split: if_splits)

lemma upstream_clean:
  assumes "upstream_template_issues src n (i, PDict d) = []" "u \<in> set (upstream_indexes (get_item d ''input_state''))"
  shows "u < n \<and> u \<noteq> i"
  using assms(1) unfolding upstream_template_issues_def prod.case Let_def is_mapping.simps the_dict.simps not_True_eq_False if_False
  by (rule all_in_range) (rule assms(2))

lemma mapping_dict: "is_mapping v \<Longrightarrow> PDict (the_dict v) = v"
  by (cases v) auto

lemma mapM_Nil: "mapM_r f xs = Inr ys \<Longrightarrow> concat ys = [] \<Longrightarrow> x \<in> set xs \<Longrightarrow> f x = Inr []"
  by (induction xs arbitrary: ys) auto

lemma mapM_exists: "(\<And>x. x \<in> set xs \<Longrightarrow> \<exists>y. f x = Inr y) \<Longrightarrow> \<exists>ys. mapM_r f xs = Inr ys"
  by (induction xs) fastforce+

lemma enumerated: "x \<in> set (List.enumerate 0 vs) \<longleftrightarrow> (\<exists>i v. x = (i, v) \<and> i < length vs \<and> v = vs ! i)"
  by (cases x) (auto simp: in_set_enumerate_eq)


section \<open>Examples\<close>

definition template_of :: "pydict \<Rightarrow> process_template" where
  "template_of doc = (case template_from_data doc of Inr t \<Rightarrow> t | Inl e \<Rightarrow> \<lparr>wt_when_to_use = [], wt_how_to_fill_this_out = [],
     wt_task_templates = [], wt_invariants = [], wt_id = None\<rparr>)"

definition instantiate_sample :: "pydict \<Rightarrow> (string \<times> workflow_task list) result \<times> folder option" where
  "instantiate_sample doc = instantiate_workflow_template ''out'' ''demo'' (Inr (template_of doc)) ''Item 7'' (Some ''run'') [] None"

lemma sample_instantiated: "is_ok (fst (instantiate_sample sample_template_document))"
  by code_simp

lemma sample_ids: "instance_ids (template_of sample_template_document) ''Item 7'' (Some ''run'') = [''run-task-001'', ''run-task-002'']"
  by code_simp

lemma sample_instance:
  obtains dir ts folder' where "instantiate_workflow_template ''out'' ''demo'' (Inr (template_of sample_template_document)) ''Item 7'' (Some ''run'') [] None =
    (Inr (dir, ts), folder')"
  using sample_instantiated unfolding instantiate_sample_def is_ok_iff by (metis prod.collapse)

theorem instantiation_exact_witness:
  "\<exists>dir u v folder'. instantiate_workflow_template ''out'' ''demo'' (Inr (template_of sample_template_document)) ''Item 7'' (Some ''run'') [] None =
     (Inr (dir, [u, v]), folder') \<and> task_id u = ''run-task-001'' \<and> task_id v = ''run-task-002'' \<and> upstream_task_ids u = [] \<and>
     upstream_task_ids v \<noteq> []"
proof -
  obtain dir ts folder' where run: "instantiate_workflow_template ''out'' ''demo'' (Inr (template_of sample_template_document)) ''Item 7'' (Some ''run'') []
    None = (Inr (dir, ts), folder')" by (rule sample_instance)
  have "list_all (\<lambda>tid. map_of (files_of None) (tid @ ''.yaml'') = None) (instance_ids (template_of sample_template_document) ''Item 7'' (Some ''run''))"
    by (simp add: files_of_def list_all_iff)
  from instantiation_exact [OF run this] have "map task_id ts = [''run-task-001'', ''run-task-002'']"
    "\<exists>u us. ts = u # us \<and> upstream_task_ids u = [] \<and> list_all (\<lambda>v. upstream_task_ids v \<noteq> []) us" unfolding sample_ids by blast+
  then obtain u v where "ts = [u, v]" "task_id u = ''run-task-001''" "task_id v = ''run-task-002''" "upstream_task_ids u = []" "upstream_task_ids v \<noteq> []"
    by (auto simp: map_eq_Cons_conv)
  with run show ?thesis by blast
qed

theorem instantiation_repeatable_witness:
  "\<exists>dir ts ts' folder'. instantiate_workflow_template ''out'' ''demo'' (Inr (template_of sample_template_document)) ''Item 7'' (Some ''run'') [] None =
     (Inr (dir, ts), folder') \<and>
     instantiate_workflow_template ''out'' ''demo'' (Inr (template_of sample_template_document)) ''Item 7'' (Some ''run'') [(''a'', ''b'')] folder' =
     (Inr (dir, ts'), folder') \<and> map task_id ts' = map task_id ts"
proof -
  obtain dir ts folder' where run: "instantiate_workflow_template ''out'' ''demo'' (Inr (template_of sample_template_document)) ''Item 7'' (Some ''run'') []
    None = (Inr (dir, ts), folder')" by (rule sample_instance)
  from instantiation_repeatable [OF run, of "[(''a'', ''b'')]"] run show ?thesis by blast
qed


section \<open>What goes wrong\<close>

text \<open>
  A template whose second and third task wait for each other passes the report and is instantiated, but once the first task
  is completed no task is ready.
\<close>

definition cyclic_template_document :: pydict where
  "cyclic_template_document = template_document
     [template_step (PDict [(''name'', PStr ''<work-item-name>'')]) [],
      template_step (PDict [(''in'', PStr ''<upstream-task-2>.state'')]) [],
      template_step (PDict [(''in'', PStr ''<upstream-task-1>.state'')]) []]"

theorem cyclic_template_validates:
  "case build_workflow_template_validation_report None (Inr (PDict cyclic_template_document)) of Inr r \<Rightarrow> rep_successful r | Inl e \<Rightarrow> False"
  by code_simp

theorem cyclic_template_deadlocks:
  "case fst (instantiate_sample cyclic_template_document) of
     Inr (dir, u # us) \<Rightarrow> select_ready_workflow_tasks (finish_task u PNone # us) None None = Inr [] \<and> length us = 2
   | _ \<Rightarrow> False"
  by code_simp

text \<open>Instantiation drops the prompt catalogs of a task template and the labels of its tool invocations.\<close>

theorem instance_drops_settings:
  assumes "template_task work inst subs vals identity ids i x = Inr u"
  shows "prompt_catalogs u = [] \<and> list_all (\<lambda>v. ti_label v = None) (tool_invocations u)"
  using assms by (auto simp: template_task_def Let_def make_task_Inr substitute_tool_invocation_def list_all_iff split: option.splits)

text \<open>
  A failing instantiation leaves the tasks written so far behind, and the next attempt refuses to continue.
\<close>

definition broken_template_document :: pydict where
  "broken_template_document = template_document
     [template_step (PDict []) [], template_step (PDict [(''in'', PStr ''<upstream-task-9>.state'')]) []]"

theorem failed_instance_blocks:
  "case instantiate_sample broken_template_document of
     (Inl e, Some files) \<Rightarrow> map fst files = [''run-task-001.yaml''] \<and>
       fst (instantiate_workflow_template ''out'' ''demo'' (Inr (template_of sample_template_document)) ''Item 7'' (Some ''run'') [] (Some files)) =
       Inl (OSError (''Workflow generation left a partial task set in out/item-7; remove the incomplete workflow before retrying.''))
   | _ \<Rightarrow> False"
  by code_simp

text \<open>
  A padded number counts as a reference, but its placeholder is not filled in; the check for a missing verification command
  looks at command lines only, not at argument lists; and the report accepts a generation without downstream indexes, which
  the parser refuses.
\<close>

theorem padded_reference_stays:
  "upstream_reference ''<upstream-task-01>.state'' = Some 1 \<and>
   substitute_text [(''upstream-task-0'', ''a''), (''upstream-task-1'', ''b'')] ''<upstream-task-01>.state'' = ''<upstream-task-01>.state''"
  by code_simp

theorem argv_placeholder_stays:
  "substitute_verification [] \<lparr>clv_id = ''v'', clv_command = Argv [''<verification-command>''], clv_cwd = None, clv_env = []\<rparr> =
     Inr \<lparr>clv_id = ''v'', clv_command = Argv [''<verification-command>''], clv_cwd = None, clv_env = []\<rparr> \<and>
   \<not> is_ok (substitute_verification [] \<lparr>clv_id = ''v'', clv_command = ShellText ''<verification-command>'', clv_cwd = None, clv_env = []\<rparr>)"
  by code_simp

definition partial_generation_document :: pydict where
  "partial_generation_document = template_document
     [template_step (PDict []) [(''generation'', PDict [(''for_each'', PStr ''unit'')])]]"

theorem validated_template_may_not_load:
  "(case build_workflow_template_validation_report None (Inr (PDict partial_generation_document)) of Inr r \<Rightarrow> rep_successful r | Inl e \<Rightarrow> False) \<and>
   \<not> is_ok (template_from_data partial_generation_document)"
  by code_simp

end
