(* ===== verification/Execution_State.thy ===== *)
theory Execution_State
  imports Delivery_Types
begin

text \<open>
  \<^verbatim>\<open>core/execution_state.py\<close>: the serializable execution state, the typed events and the
  reducer that folds the event stream into the state. The event stream is the durable history,
  the state document a rebuildable materialization of it.

  Every data class is a record, every \<^verbatim>\<open>StrEnum\<close> a datatype, every \<^verbatim>\<open>to_data\<close> a
  function to JSON objects and every parser a function that returns \<open>Inl\<close> with the exception
  it raises. The theory shows that parsing inverts serialization on canonical states, that the
  reducer keeps states canonical and identifiers unique, that it is guarded by sequence and
  version, and that obligations leave the open status only by the events meant for that.
\<close>

section \<open>Enumerations\<close>

definition EXECUTION_STATE_SCHEMA_VERSION :: string where
  "EXECUTION_STATE_SCHEMA_VERSION = ''execution-state-v1''"

datatype execution_mode = OFF | OBSERVE | ENFORCE

definition mode_members :: "execution_mode list" where
  "mode_members = [OFF, OBSERVE, ENFORCE]"

fun mode_value :: "execution_mode \<Rightarrow> string" where
  "mode_value OFF = ''off''"
| "mode_value OBSERVE = ''observe''"
| "mode_value ENFORCE = ''enforce''"

datatype execution_event_type =
    CREATED | PERSONA_ASSIGNED | PHASE_ENTERED | PHASE_EXITED | ACTION_PROPOSED | ACTION_STARTED
  | ACTION_COMPLETED | ACTION_FAILED | ARTIFACT_PRODUCED | ARTIFACT_ACCEPTED | OBLIGATION_OPENED
  | OBLIGATION_SATISFIED | EVIDENCE_RECORDED | EVIDENCE_INVALIDATED | FINDING_OPENED
  | FINDING_DISPOSED | CHECKPOINT_CREATED | CHECKPOINT_REVERTED | CAPABILITY_DECISION
  | CAPABILITY_EXCEPTION_REQUESTED | OBSERVER_DECISION

definition event_type_members :: "execution_event_type list" where
  "event_type_members =
     [CREATED, PERSONA_ASSIGNED, PHASE_ENTERED, PHASE_EXITED, ACTION_PROPOSED, ACTION_STARTED,
      ACTION_COMPLETED, ACTION_FAILED, ARTIFACT_PRODUCED, ARTIFACT_ACCEPTED, OBLIGATION_OPENED,
      OBLIGATION_SATISFIED, EVIDENCE_RECORDED, EVIDENCE_INVALIDATED, FINDING_OPENED,
      FINDING_DISPOSED, CHECKPOINT_CREATED, CHECKPOINT_REVERTED, CAPABILITY_DECISION,
      CAPABILITY_EXCEPTION_REQUESTED, OBSERVER_DECISION]"

fun event_type_value :: "execution_event_type \<Rightarrow> string" where
  "event_type_value CREATED = ''execution_created''"
| "event_type_value PERSONA_ASSIGNED = ''persona_assigned''"
| "event_type_value PHASE_ENTERED = ''phase_entered''"
| "event_type_value PHASE_EXITED = ''phase_exited''"
| "event_type_value ACTION_PROPOSED = ''action_proposed''"
| "event_type_value ACTION_STARTED = ''action_started''"
| "event_type_value ACTION_COMPLETED = ''action_completed''"
| "event_type_value ACTION_FAILED = ''action_failed''"
| "event_type_value ARTIFACT_PRODUCED = ''artifact_produced''"
| "event_type_value ARTIFACT_ACCEPTED = ''artifact_accepted''"
| "event_type_value OBLIGATION_OPENED = ''obligation_opened''"
| "event_type_value OBLIGATION_SATISFIED = ''obligation_satisfied''"
| "event_type_value EVIDENCE_RECORDED = ''evidence_recorded''"
| "event_type_value EVIDENCE_INVALIDATED = ''evidence_invalidated''"
| "event_type_value FINDING_OPENED = ''finding_opened''"
| "event_type_value FINDING_DISPOSED = ''finding_disposed''"
| "event_type_value CHECKPOINT_CREATED = ''checkpoint_created''"
| "event_type_value CHECKPOINT_REVERTED = ''checkpoint_reverted''"
| "event_type_value CAPABILITY_DECISION = ''capability_decision''"
| "event_type_value CAPABILITY_EXCEPTION_REQUESTED = ''capability_exception_requested''"
| "event_type_value OBSERVER_DECISION = ''observer_decision''"

datatype action_status =
    AS_PROPOSED | AS_STARTED | AS_COMPLETED | AS_CORRECTABLE_ERROR | AS_TERMINAL_ERROR | AS_REVERTED

definition action_status_members :: "action_status list" where
  "action_status_members =
     [AS_PROPOSED, AS_STARTED, AS_COMPLETED, AS_CORRECTABLE_ERROR, AS_TERMINAL_ERROR, AS_REVERTED]"

fun action_status_value :: "action_status \<Rightarrow> string" where
  "action_status_value AS_PROPOSED = ''proposed''"
| "action_status_value AS_STARTED = ''started''"
| "action_status_value AS_COMPLETED = ''completed''"
| "action_status_value AS_CORRECTABLE_ERROR = ''correctable_error''"
| "action_status_value AS_TERMINAL_ERROR = ''terminal_error''"
| "action_status_value AS_REVERTED = ''reverted''"

datatype obligation_status = OS_OPEN | OS_SATISFIED | OS_WAIVED | OS_OBSOLETE

definition obligation_status_members :: "obligation_status list" where
  "obligation_status_members = [OS_OPEN, OS_SATISFIED, OS_WAIVED, OS_OBSOLETE]"

fun obligation_status_value :: "obligation_status \<Rightarrow> string" where
  "obligation_status_value OS_OPEN = ''open''"
| "obligation_status_value OS_SATISFIED = ''satisfied''"
| "obligation_status_value OS_WAIVED = ''waived''"
| "obligation_status_value OS_OBSOLETE = ''obsolete''"

datatype finding_status = FS_OPEN | FS_ACCEPTED | FS_FIXED | FS_NOT_APPLICABLE | FS_SUPERSEDED

definition finding_status_members :: "finding_status list" where
  "finding_status_members = [FS_OPEN, FS_ACCEPTED, FS_FIXED, FS_NOT_APPLICABLE, FS_SUPERSEDED]"

fun finding_status_value :: "finding_status \<Rightarrow> string" where
  "finding_status_value FS_OPEN = ''open''"
| "finding_status_value FS_ACCEPTED = ''accepted''"
| "finding_status_value FS_FIXED = ''fixed''"
| "finding_status_value FS_NOT_APPLICABLE = ''not_applicable''"
| "finding_status_value FS_SUPERSEDED = ''superseded''"

definition ExecutionMode :: "pyval \<Rightarrow> execution_mode result" where
  "ExecutionMode = enum_of ''ExecutionMode'' mode_value mode_members"

definition ExecutionEventType :: "pyval \<Rightarrow> execution_event_type result" where
  "ExecutionEventType = enum_of ''ExecutionEventType'' event_type_value event_type_members"

definition ActionStatus :: "pyval \<Rightarrow> action_status result" where
  "ActionStatus = enum_of ''ActionStatus'' action_status_value action_status_members"

definition ObligationStatus :: "pyval \<Rightarrow> obligation_status result" where
  "ObligationStatus = enum_of ''ObligationStatus'' obligation_status_value obligation_status_members"

definition FindingStatus :: "pyval \<Rightarrow> finding_status result" where
  "FindingStatus = enum_of ''FindingStatus'' finding_status_value finding_status_members"

section \<open>Data classes\<close>

record execution_artifact =
  artifact_id :: string
  artifact_type :: string
  art_schema_version :: string
  owner_persona_id :: string
  content_ref :: string
  accepted :: bool

record action_record =
  action_instance_id :: string
  ar_kind :: string
  ar_status :: action_status
  actor_id :: string
  ar_phase_type :: phase_type
  arguments_fingerprint :: "string option"
  ar_error_code :: "string option"

record execution_obligation =
  obligation_id :: string
  ob_description :: string
  ob_status :: obligation_status
  source_action_instance_id :: "string option"
  required_action :: "string option"
  relationship_id :: "string option"
  target_ref :: "string option"

record execution_evidence =
  evidence_id :: string
  producer_action_instance_id :: string
  evidence_type :: string
  input_fingerprint :: string
  successful :: bool
  fresh :: bool

record execution_finding =
  finding_id :: string
  reviewer_run_id :: string
  severity :: string
  fi_description :: string
  fi_status :: finding_status
  blocking :: bool

record execution_state =
  execution_id :: string
  profile_id :: string
  mode :: execution_mode
  current_phase :: phase_type
  schema_version :: string
  phase_revision :: int
  state_version :: int
  event_sequence :: int
  current_persona_id :: "string option"
  active_unit_id :: "string option"
  artifacts :: "execution_artifact list"
  actions :: "action_record list"
  obligations :: "execution_obligation list"
  evidence :: "execution_evidence list"
  findings :: "execution_finding list"
  completed_idempotency_keys :: "string list"

record execution_event =
  ev_execution_id :: string
  ev_sequence :: int
  expected_state_version :: int
  event_type :: execution_event_type
  payload :: pydict
  event_id :: string

section \<open>Serializers\<close>

definition artifact_to_data :: "execution_artifact \<Rightarrow> pydict" where
  "artifact_to_data a =
     [(''artifact_id'', PStr (artifact_id a)),
      (''artifact_type'', PStr (artifact_type a)),
      (''schema_version'', PStr (art_schema_version a)),
      (''owner_persona_id'', PStr (owner_persona_id a)),
      (''content_ref'', PStr (content_ref a)),
      (''accepted'', PBool (accepted a))]"

definition action_to_data :: "action_record \<Rightarrow> pydict" where
  "action_to_data a =
     [(''action_instance_id'', PStr (action_instance_id a)),
      (''kind'', PStr (ar_kind a)),
      (''status'', PStr (action_status_value (ar_status a))),
      (''actor_id'', PStr (actor_id a)),
      (''phase_type'', PStr (phase_value (ar_phase_type a)))]
     @ entry_if ''arguments_fingerprint'' (arguments_fingerprint a)
     @ entry_if ''error_code'' (ar_error_code a)"

definition obligation_to_data :: "execution_obligation \<Rightarrow> pydict" where
  "obligation_to_data ob =
     [(''obligation_id'', PStr (obligation_id ob)),
      (''description'', PStr (ob_description ob)),
      (''status'', PStr (obligation_status_value (ob_status ob)))]
     @ entry_if ''source_action_instance_id'' (source_action_instance_id ob)
     @ entry_if ''required_action'' (required_action ob)
     @ entry_if ''relationship_id'' (relationship_id ob)
     @ entry_if ''target_ref'' (target_ref ob)"

definition evidence_to_data :: "execution_evidence \<Rightarrow> pydict" where
  "evidence_to_data e =
     [(''evidence_id'', PStr (evidence_id e)),
      (''producer_action_instance_id'', PStr (producer_action_instance_id e)),
      (''evidence_type'', PStr (evidence_type e)),
      (''input_fingerprint'', PStr (input_fingerprint e)),
      (''successful'', PBool (successful e)),
      (''fresh'', PBool (fresh e))]"

definition finding_to_data :: "execution_finding \<Rightarrow> pydict" where
  "finding_to_data f =
     [(''finding_id'', PStr (finding_id f)),
      (''reviewer_run_id'', PStr (reviewer_run_id f)),
      (''severity'', PStr (severity f)),
      (''description'', PStr (fi_description f)),
      (''status'', PStr (finding_status_value (fi_status f))),
      (''blocking'', PBool (blocking f))]"

definition state_to_data :: "execution_state \<Rightarrow> pydict" where
  "state_to_data s =
     [(''schema_version'', PStr (schema_version s)),
      (''execution_id'', PStr (execution_id s)),
      (''profile_id'', PStr (profile_id s)),
      (''mode'', PStr (mode_value (mode s))),
      (''current_phase'', PStr (phase_value (current_phase s))),
      (''phase_revision'', PInt (phase_revision s)),
      (''state_version'', PInt (state_version s)),
      (''event_sequence'', PInt (event_sequence s)),
      (''current_persona_id'', opt_str (current_persona_id s)),
      (''active_unit_id'', opt_str (active_unit_id s)),
      (''artifacts'', PList (map (PDict \<circ> artifact_to_data) (artifacts s))),
      (''actions'', PList (map (PDict \<circ> action_to_data) (actions s))),
      (''obligations'', PList (map (PDict \<circ> obligation_to_data) (obligations s))),
      (''evidence'', PList (map (PDict \<circ> evidence_to_data) (evidence s))),
      (''findings'', PList (map (PDict \<circ> finding_to_data) (findings s))),
      (''completed_idempotency_keys'', str_list (completed_idempotency_keys s))]"

definition event_to_data :: "execution_event \<Rightarrow> pydict" where
  "event_to_data e =
     [(''event_id'', PStr (event_id e)),
      (''execution_id'', PStr (ev_execution_id e)),
      (''sequence'', PInt (ev_sequence e)),
      (''expected_state_version'', PInt (expected_state_version e)),
      (''event_type'', PStr (event_type_value (event_type e))),
      (''payload'', PDict (payload e))]"

section \<open>Field readers and parsers\<close>

definition required_string :: "pydict \<Rightarrow> string \<Rightarrow> string result" where
  "required_string data key =
     (case get_item data key of
        PStr s \<Rightarrow> if strip s = [] then
            Inl (ValueError (''Execution data field '' @ py_repr key @ '' must be a non-empty string.''))
          else Inr (strip s)
      | _ \<Rightarrow> Inl (ValueError (''Execution data field '' @ py_repr key @ '' must be a non-empty string.'')))"

definition optional_string :: "pyval \<Rightarrow> string option" where
  "optional_string v =
     (case v of PStr s \<Rightarrow> if strip s = [] then None else Some (strip s) | _ \<Rightarrow> None)"

definition required_nonnegative_int :: "pydict \<Rightarrow> string \<Rightarrow> int result" where
  "required_nonnegative_int data key =
     (case get_item data key of
        PInt i \<Rightarrow> if i < 0 then
            Inl (ValueError (''Execution data field '' @ py_repr key @ '' must be a non-negative integer.''))
          else Inr i
      | _ \<Rightarrow> Inl (ValueError (''Execution data field '' @ py_repr key @ '' must be a non-negative integer.'')))"

definition mapping_sequence :: "pydict \<Rightarrow> string \<Rightarrow> pydict list result" where
  "mapping_sequence data key =
     (case get_default data key (PList []) of
        PList items \<Rightarrow> if list_all is_mapping items then Inr (map the_dict items)
          else Inl (ValueError (''Execution data field '' @ py_repr key @ '' must be an array of objects.''))
      | _ \<Rightarrow> Inl (ValueError (''Execution data field '' @ py_repr key @ '' must be an array of objects.'')))"

definition parse_artifact :: "pydict \<Rightarrow> execution_artifact result" where
  "parse_artifact data =
     bind_r (required_string data ''artifact_id'') (\<lambda>aid.
     bind_r (required_string data ''artifact_type'') (\<lambda>aty.
     bind_r (required_string data ''schema_version'') (\<lambda>ver.
     bind_r (required_string data ''owner_persona_id'') (\<lambda>own.
     bind_r (required_string data ''content_ref'') (\<lambda>ref.
     Inr \<lparr>artifact_id = aid, artifact_type = aty, art_schema_version = ver,
          owner_persona_id = own, content_ref = ref,
          accepted = truthy (get_default data ''accepted'' (PBool False))\<rparr>)))))"

definition parse_action :: "pydict \<Rightarrow> action_record result" where
  "parse_action data =
     bind_r (required_string data ''action_instance_id'') (\<lambda>aid.
     bind_r (required_string data ''kind'') (\<lambda>k.
     bind_r (bind_r (required_string data ''status'') (ActionStatus \<circ> PStr)) (\<lambda>st.
     bind_r (required_string data ''actor_id'') (\<lambda>act.
     bind_r (bind_r (required_string data ''phase_type'') (PhaseType \<circ> PStr)) (\<lambda>ph.
     Inr \<lparr>action_instance_id = aid, ar_kind = k, ar_status = st, actor_id = act,
          ar_phase_type = ph,
          arguments_fingerprint = optional_string (get_item data ''arguments_fingerprint''),
          ar_error_code = optional_string (get_item data ''error_code'')\<rparr>)))))"

definition parse_obligation :: "pydict \<Rightarrow> execution_obligation result" where
  "parse_obligation data =
     bind_r (required_string data ''obligation_id'') (\<lambda>oid.
     bind_r (required_string data ''description'') (\<lambda>desc.
     bind_r (ObligationStatus (get_default data ''status'' (PStr (obligation_status_value OS_OPEN)))) (\<lambda>st.
     Inr \<lparr>obligation_id = oid, ob_description = desc, ob_status = st,
          source_action_instance_id = optional_string (get_item data ''source_action_instance_id''),
          required_action = optional_string (get_item data ''required_action''),
          relationship_id = optional_string (get_item data ''relationship_id''),
          target_ref = optional_string (get_item data ''target_ref'')\<rparr>)))"

definition parse_evidence :: "pydict \<Rightarrow> execution_evidence result" where
  "parse_evidence data =
     bind_r (required_string data ''evidence_id'') (\<lambda>eid.
     bind_r (required_string data ''producer_action_instance_id'') (\<lambda>prod.
     bind_r (required_string data ''evidence_type'') (\<lambda>ty.
     bind_r (required_string data ''input_fingerprint'') (\<lambda>fp.
     Inr \<lparr>evidence_id = eid, producer_action_instance_id = prod, evidence_type = ty,
          input_fingerprint = fp,
          successful = truthy (get_default data ''successful'' (PBool False)),
          fresh = truthy (get_default data ''fresh'' (PBool True))\<rparr>))))"

definition parse_finding :: "pydict \<Rightarrow> execution_finding result" where
  "parse_finding data =
     bind_r (required_string data ''finding_id'') (\<lambda>fid.
     bind_r (required_string data ''reviewer_run_id'') (\<lambda>run.
     bind_r (required_string data ''severity'') (\<lambda>sev.
     bind_r (required_string data ''description'') (\<lambda>desc.
     bind_r (FindingStatus (get_default data ''status'' (PStr (finding_status_value FS_OPEN)))) (\<lambda>st.
     Inr \<lparr>finding_id = fid, reviewer_run_id = run, severity = sev, fi_description = desc,
          fi_status = st, blocking = truthy (get_default data ''blocking'' (PBool True))\<rparr>)))))"

definition parse_items :: "(pydict \<Rightarrow> 'a result) \<Rightarrow> pydict \<Rightarrow> string \<Rightarrow> 'a list result" where
  "parse_items parse data key = bind_r (mapping_sequence data key) (mapM_r parse)"

text \<open>
  \<^verbatim>\<open>tuple(item for item in data.get(key, ()) if isinstance(item, str))\<close>: iterating a
  text yields its characters, iterating an object its keys; a null or a number is a TypeError.
\<close>

definition key_strings :: "pydict \<Rightarrow> string \<Rightarrow> string list result" where
  "key_strings data key =
     (case get_default data key (PList []) of
        PList items \<Rightarrow> Inr (map the_str (filter is_str items))
      | PStr s \<Rightarrow> Inr (map (\<lambda>c. [c]) s)
      | PDict d \<Rightarrow> Inr (map fst d)
      | v \<Rightarrow> Inl (not_iterable v))"

definition state_from_data :: "pydict \<Rightarrow> execution_state result" where
  "state_from_data data =
     bind_r (guard_r (py_eq (get_item data ''schema_version'') (PStr EXECUTION_STATE_SCHEMA_VERSION))
       (ValueError (''schema_version must be '' @ py_repr EXECUTION_STATE_SCHEMA_VERSION @ ''.''))) (\<lambda>_.
     bind_r (required_string data ''execution_id'') (\<lambda>eid.
     bind_r (required_string data ''profile_id'') (\<lambda>pid.
     bind_r (bind_r (required_string data ''mode'') (ExecutionMode \<circ> PStr)) (\<lambda>md.
     bind_r (bind_r (required_string data ''current_phase'') (PhaseType \<circ> PStr)) (\<lambda>ph.
     bind_r (required_nonnegative_int data ''phase_revision'') (\<lambda>rev.
     bind_r (required_nonnegative_int data ''state_version'') (\<lambda>ver.
     bind_r (required_nonnegative_int data ''event_sequence'') (\<lambda>sq.
     bind_r (parse_items parse_artifact data ''artifacts'') (\<lambda>arts.
     bind_r (parse_items parse_action data ''actions'') (\<lambda>acts.
     bind_r (parse_items parse_obligation data ''obligations'') (\<lambda>obs.
     bind_r (parse_items parse_evidence data ''evidence'') (\<lambda>evs.
     bind_r (parse_items parse_finding data ''findings'') (\<lambda>fins.
     bind_r (key_strings data ''completed_idempotency_keys'') (\<lambda>keys.
     Inr \<lparr>execution_id = eid, profile_id = pid, mode = md, current_phase = ph,
          schema_version = EXECUTION_STATE_SCHEMA_VERSION, phase_revision = rev,
          state_version = ver, event_sequence = sq,
          current_persona_id = optional_string (get_item data ''current_persona_id''),
          active_unit_id = optional_string (get_item data ''active_unit_id''),
          artifacts = arts, actions = acts, obligations = obs, evidence = evs, findings = fins,
          completed_idempotency_keys = keys\<rparr>))))))))))))))"

definition state_from_document :: "pyval \<Rightarrow> execution_state result" where
  "state_from_document v =
     (case v of PDict d \<Rightarrow> state_from_data d
      | _ \<Rightarrow> Inl (ValueError ''Execution state JSON must decode to an object.''))"

definition event_from_data :: "pydict \<Rightarrow> execution_event result" where
  "event_from_data data =
     (case get_default data ''payload'' (PDict []) of
        PDict pl \<Rightarrow>
          bind_r (required_string data ''event_id'') (\<lambda>evid.
          bind_r (required_string data ''execution_id'') (\<lambda>eid.
          bind_r (required_nonnegative_int data ''sequence'') (\<lambda>sq.
          bind_r (required_nonnegative_int data ''expected_state_version'') (\<lambda>ver.
          bind_r (bind_r (required_string data ''event_type'') (ExecutionEventType \<circ> PStr)) (\<lambda>ty.
          Inr \<lparr>ev_execution_id = eid, ev_sequence = sq, expected_state_version = ver,
               event_type = ty, payload = pl, event_id = evid\<rparr>)))))
      | _ \<Rightarrow> Inl (ValueError ''Execution event payload must be an object.''))"

section \<open>The reducer\<close>

definition initial_execution_state ::
    "string \<Rightarrow> string \<Rightarrow> execution_mode \<Rightarrow> phase_type \<Rightarrow> execution_state result" where
  "initial_execution_state eid pid md phase =
     bind_r (guard_r (strip eid \<noteq> []) (ValueError ''execution_id must be a non-empty string.'')) (\<lambda>_.
     bind_r (guard_r (strip pid \<noteq> []) (ValueError ''profile_id must be a non-empty string.'')) (\<lambda>_.
     Inr \<lparr>execution_id = eid, profile_id = pid, mode = md, current_phase = phase,
          schema_version = EXECUTION_STATE_SCHEMA_VERSION, phase_revision = 0,
          state_version = 0, event_sequence = 0, current_persona_id = None, active_unit_id = None,
          artifacts = [], actions = [], obligations = [], evidence = [], findings = [],
          completed_idempotency_keys = []\<rparr>))"

definition event_status :: "execution_event_type \<Rightarrow> pydict \<Rightarrow> action_status result" where
  "event_status ty pl =
     bind_r (ActionStatus (get_default pl ''status'' (PStr (action_status_value AS_CORRECTABLE_ERROR))))
       (\<lambda>failed. Inr (case ty of
          ACTION_PROPOSED \<Rightarrow> AS_PROPOSED
        | ACTION_STARTED \<Rightarrow> AS_STARTED
        | ACTION_COMPLETED \<Rightarrow> AS_COMPLETED
        | _ \<Rightarrow> failed))"

text \<open>The \<^verbatim>\<open>ActionRecord\<close> an action event writes: identity fields come from the existing record.\<close>

definition action_record_for ::
    "action_record list \<Rightarrow> string \<Rightarrow> action_status \<Rightarrow> pydict \<Rightarrow> action_record result" where
  "action_record_for records aid st pl =
     (case List.find (\<lambda>item. action_instance_id item = aid) records of
        Some existing \<Rightarrow>
          Inr \<lparr>action_instance_id = aid, ar_kind = ar_kind existing, ar_status = st,
               actor_id = actor_id existing, ar_phase_type = ar_phase_type existing,
               arguments_fingerprint = arguments_fingerprint existing,
               ar_error_code = optional_string (get_item pl ''error_code'')\<rparr>
      | None \<Rightarrow>
          bind_r (required_string pl ''kind'') (\<lambda>k.
          bind_r (required_string pl ''actor_id'') (\<lambda>act.
          bind_r (bind_r (required_string pl ''phase_type'') (PhaseType \<circ> PStr)) (\<lambda>ph.
          Inr \<lparr>action_instance_id = aid, ar_kind = k, ar_status = st, actor_id = act,
               ar_phase_type = ph,
               arguments_fingerprint = optional_string (get_item pl ''arguments_fingerprint''),
               ar_error_code = optional_string (get_item pl ''error_code'')\<rparr>))))"

definition reduce_action_event ::
    "execution_state \<Rightarrow> execution_event_type \<Rightarrow> pydict \<Rightarrow> execution_state result" where
  "reduce_action_event s ty pl =
     bind_r (required_string pl ''action_instance_id'') (\<lambda>aid.
     bind_r (event_status ty pl) (\<lambda>st.
     bind_r (action_record_for (actions s) aid st pl) (\<lambda>rec.
     Inr (s\<lparr>actions := upsert_by action_instance_id (actions s) rec\<rparr>))))"

definition set_obligation_status ::
    "execution_state \<Rightarrow> string \<Rightarrow> obligation_status \<Rightarrow> execution_state" where
  "set_obligation_status s oid st =
     s\<lparr>obligations := map (\<lambda>ob. if obligation_id ob = oid then ob\<lparr>ob_status := st\<rparr> else ob)
        (obligations s)\<rparr>"

text \<open>
  \<^verbatim>\<open>payload.get("arguments", {}).get("idempotency_key")\<close>: a present value that is not an
  object has no \<^verbatim>\<open>get\<close>.
\<close>

definition decision_key :: "pydict \<Rightarrow> pyval result" where
  "decision_key pl =
     (case get_default pl ''arguments'' (PDict []) of
        PDict args \<Rightarrow> Inr (get_item args ''idempotency_key'')
      | v \<Rightarrow> Inl (no_attribute v ''get''))"

definition reduce_payload ::
    "execution_state \<Rightarrow> execution_event_type \<Rightarrow> pydict \<Rightarrow> execution_state result" where
  "reduce_payload s ty pl =
     (case ty of
        PERSONA_ASSIGNED \<Rightarrow>
          bind_r (required_string pl ''persona_id'') (\<lambda>p. Inr (s\<lparr>current_persona_id := Some p\<rparr>))
      | PHASE_ENTERED \<Rightarrow>
          bind_r (bind_r (required_string pl ''phase_type'') (PhaseType \<circ> PStr)) (\<lambda>ph.
          Inr (s\<lparr>current_phase := ph,
            current_persona_id := optional_string (get_item pl ''persona_id''),
            phase_revision := phase_revision s + 1\<rparr>))
      | PHASE_EXITED \<Rightarrow> Inr s
      | ACTION_PROPOSED \<Rightarrow> reduce_action_event s ty pl
      | ACTION_STARTED \<Rightarrow> reduce_action_event s ty pl
      | ACTION_COMPLETED \<Rightarrow> reduce_action_event s ty pl
      | ACTION_FAILED \<Rightarrow> reduce_action_event s ty pl
      | CAPABILITY_DECISION \<Rightarrow>
          bind_r (decision_key pl) (\<lambda>key.
          if py_eq (get_item pl ''kind'') (PStr ''executable'') \<and> is_str key
          then Inr (s\<lparr>completed_idempotency_keys :=
            py_dedup (completed_idempotency_keys s @ [the_str key])\<rparr>)
          else Inr s)
      | ARTIFACT_PRODUCED \<Rightarrow>
          bind_r (parse_artifact pl) (\<lambda>a.
          Inr (s\<lparr>artifacts := upsert_by artifact_id (artifacts s) a\<rparr>))
      | ARTIFACT_ACCEPTED \<Rightarrow>
          bind_r (required_string pl ''artifact_id'') (\<lambda>aid.
          Inr (s\<lparr>artifacts := map (\<lambda>a. if artifact_id a = aid then a\<lparr>accepted := True\<rparr> else a)
            (artifacts s)\<rparr>))
      | OBLIGATION_OPENED \<Rightarrow>
          bind_r (parse_obligation pl) (\<lambda>ob.
          Inr (s\<lparr>obligations := upsert_by obligation_id (obligations s) ob\<rparr>))
      | OBLIGATION_SATISFIED \<Rightarrow>
          bind_r (required_string pl ''obligation_id'') (\<lambda>oid.
          Inr (set_obligation_status s oid OS_SATISFIED))
      | EVIDENCE_RECORDED \<Rightarrow>
          bind_r (parse_evidence pl) (\<lambda>e.
          Inr (s\<lparr>evidence := upsert_by evidence_id (evidence s) e\<rparr>))
      | EVIDENCE_INVALIDATED \<Rightarrow>
          bind_r (required_string pl ''evidence_id'') (\<lambda>eid.
          Inr (s\<lparr>evidence := map (\<lambda>e. if evidence_id e = eid then e\<lparr>fresh := False\<rparr> else e)
            (evidence s)\<rparr>))
      | FINDING_OPENED \<Rightarrow>
          bind_r (parse_finding pl) (\<lambda>f.
          Inr (s\<lparr>findings := upsert_by finding_id (findings s) f\<rparr>))
      | FINDING_DISPOSED \<Rightarrow>
          bind_r (required_string pl ''finding_id'') (\<lambda>fid.
          bind_r (bind_r (required_string pl ''status'') (FindingStatus \<circ> PStr)) (\<lambda>st.
          Inr (s\<lparr>findings := map (\<lambda>f. if finding_id f = fid then f\<lparr>fi_status := st\<rparr> else f)
            (findings s)\<rparr>)))
      | CHECKPOINT_REVERTED \<Rightarrow>
          (case get_item pl ''state'' of
             PDict d \<Rightarrow>
               bind_r (state_from_data d) (\<lambda>restored.
               bind_r (guard_r (execution_id restored = execution_id s)
                 (ValueError ''checkpoint state belongs to a different execution''))
               (\<lambda>_. Inr restored))
           | _ \<Rightarrow> Inl (ValueError ''checkpoint_reverted requires a typed state snapshot''))
      | _ \<Rightarrow> Inr s)"

definition reduce_execution_event ::
    "execution_state \<Rightarrow> execution_event \<Rightarrow> execution_state result" where
  "reduce_execution_event s e =
     bind_r (guard_r (ev_execution_id e = execution_id s)
       (ValueError ''Execution event belongs to a different execution.'')) (\<lambda>_.
     bind_r (guard_r (ev_sequence e = event_sequence s + 1)
       (ValueError (''Execution event sequence must be '' @ show_int (event_sequence s + 1) @ ''.''))) (\<lambda>_.
     bind_r (guard_r (expected_state_version e = state_version s)
       (ValueError ''Execution event expected_state_version does not match current state.'')) (\<lambda>_.
     bind_r (reduce_payload s (event_type e) (payload e)) (\<lambda>next_state.
     Inr (next_state\<lparr>state_version := state_version s + 1, event_sequence := ev_sequence e\<rparr>)))))"

definition reduce_execution_events ::
    "execution_state \<Rightarrow> execution_event list \<Rightarrow> execution_state result" where
  "reduce_execution_events s events = foldM_r reduce_execution_event s events"

section \<open>Enumerations are closed and decodable\<close>

interpretation mode_enum: str_enum mode_members mode_value
proof
  show "e \<in> set mode_members" for e
    by (cases e) (simp_all add: mode_members_def)
  show "distinct (map mode_value mode_members)"
    by code_simp
qed

interpretation event_type_enum: str_enum event_type_members event_type_value
proof
  show "e \<in> set event_type_members" for e
    by (cases e) (simp_all add: event_type_members_def)
  show "distinct (map event_type_value event_type_members)"
    by code_simp
qed

interpretation action_status_enum: str_enum action_status_members action_status_value
proof
  show "e \<in> set action_status_members" for e
    by (cases e) (simp_all add: action_status_members_def)
  show "distinct (map action_status_value action_status_members)"
    by code_simp
qed

interpretation obligation_status_enum: str_enum obligation_status_members obligation_status_value
proof
  show "e \<in> set obligation_status_members" for e
    by (cases e) (simp_all add: obligation_status_members_def)
  show "distinct (map obligation_status_value obligation_status_members)"
    by code_simp
qed

interpretation finding_status_enum: str_enum finding_status_members finding_status_value
proof
  show "e \<in> set finding_status_members" for e
    by (cases e) (simp_all add: finding_status_members_def)
  show "distinct (map finding_status_value finding_status_members)"
    by code_simp
qed

lemma enum_parsers [simp]:
  "ExecutionMode v = Inr md \<longleftrightarrow> v = PStr (mode_value md)"
  "ExecutionEventType v = Inr ty \<longleftrightarrow> v = PStr (event_type_value ty)"
  "ActionStatus v = Inr ast \<longleftrightarrow> v = PStr (action_status_value ast)"
  "ObligationStatus v = Inr ost \<longleftrightarrow> v = PStr (obligation_status_value ost)"
  "FindingStatus v = Inr fst' \<longleftrightarrow> v = PStr (finding_status_value fst')"
  by (simp_all add: ExecutionMode_def ExecutionEventType_def ActionStatus_def ObligationStatus_def
      FindingStatus_def enum_of_Inr mode_enum.str_enum_axioms event_type_enum.str_enum_axioms
      action_status_enum.str_enum_axioms obligation_status_enum.str_enum_axioms
      finding_status_enum.str_enum_axioms)

lemma enum_parsers_value [simp]:
  "ExecutionMode (PStr (mode_value md)) = Inr md"
  "ExecutionEventType (PStr (event_type_value ty)) = Inr ty"
  "ActionStatus (PStr (action_status_value ast)) = Inr ast"
  "ObligationStatus (PStr (obligation_status_value ost)) = Inr ost"
  "FindingStatus (PStr (finding_status_value fst')) = Inr fst'"
  by (subst enum_parsers, rule refl)+

lemma enum_values_canonical [simp]:
  "canonical (mode_value md)"
  "canonical (event_type_value ty)"
  "canonical (action_status_value ast)"
  "canonical (obligation_status_value ost)"
  "canonical (finding_status_value fst')"
  by (rule mode_enum.val_canonical event_type_enum.val_canonical action_status_enum.val_canonical
      obligation_status_enum.val_canonical finding_status_enum.val_canonical; code_simp)+

section \<open>Canonical values and the round trip\<close>

definition opt_ok :: "string option \<Rightarrow> bool" where
  "opt_ok x = (case x of None \<Rightarrow> True | Some s \<Rightarrow> canonical s)"

definition artifact_ok :: "execution_artifact \<Rightarrow> bool" where
  "artifact_ok a \<longleftrightarrow> canonical (artifact_id a) \<and> canonical (artifact_type a) \<and>
     canonical (art_schema_version a) \<and> canonical (owner_persona_id a) \<and> canonical (content_ref a)"

definition action_ok :: "action_record \<Rightarrow> bool" where
  "action_ok a \<longleftrightarrow> canonical (action_instance_id a) \<and> canonical (ar_kind a) \<and>
     canonical (actor_id a) \<and> opt_ok (arguments_fingerprint a) \<and> opt_ok (ar_error_code a)"

definition obligation_ok :: "execution_obligation \<Rightarrow> bool" where
  "obligation_ok ob \<longleftrightarrow> canonical (obligation_id ob) \<and> canonical (ob_description ob) \<and>
     opt_ok (source_action_instance_id ob) \<and> opt_ok (required_action ob) \<and>
     opt_ok (relationship_id ob) \<and> opt_ok (target_ref ob)"

definition evidence_ok :: "execution_evidence \<Rightarrow> bool" where
  "evidence_ok e \<longleftrightarrow> canonical (evidence_id e) \<and> canonical (producer_action_instance_id e) \<and>
     canonical (evidence_type e) \<and> canonical (input_fingerprint e)"

definition finding_ok :: "execution_finding \<Rightarrow> bool" where
  "finding_ok f \<longleftrightarrow> canonical (finding_id f) \<and> canonical (reviewer_run_id f) \<and>
     canonical (severity f) \<and> canonical (fi_description f)"

definition state_ok :: "execution_state \<Rightarrow> bool" where
  "state_ok s \<longleftrightarrow> canonical (execution_id s) \<and> canonical (profile_id s) \<and>
     schema_version s = EXECUTION_STATE_SCHEMA_VERSION \<and>
     0 \<le> phase_revision s \<and> 0 \<le> state_version s \<and> 0 \<le> event_sequence s \<and>
     opt_ok (current_persona_id s) \<and> opt_ok (active_unit_id s) \<and>
     list_all artifact_ok (artifacts s) \<and> list_all action_ok (actions s) \<and>
     list_all obligation_ok (obligations s) \<and> list_all evidence_ok (evidence s) \<and>
     list_all finding_ok (findings s)"

definition event_ok :: "execution_event \<Rightarrow> bool" where
  "event_ok e \<longleftrightarrow> canonical (event_id e) \<and> canonical (ev_execution_id e) \<and>
     0 \<le> ev_sequence e \<and> 0 \<le> expected_state_version e"

locale json_codec =
  fixes to_data :: "'a \<Rightarrow> pydict" and from_data :: "pydict \<Rightarrow> 'a result" and ok :: "'a \<Rightarrow> bool"
  assumes roundtrip: "ok x \<Longrightarrow> from_data (to_data x) = Inr x"
    and parsed_ok: "from_data d = Inr x \<Longrightarrow> ok x"
begin

lemma mapM_roundtrip: "list_all ok xs \<Longrightarrow> mapM_r from_data (map to_data xs) = Inr xs"
  by (simp add: mapM_r_map) (rule mapM_r_id, simp add: list_all_iff roundtrip)

lemma mapM_ok: "mapM_r from_data ds = Inr xs \<Longrightarrow> list_all ok xs"
  by (auto simp: list_all_iff dest: mapM_r_all parsed_ok)

lemma items_roundtrip:
  assumes "get_default data key (PList []) = PList (map (PDict \<circ> to_data) xs)" "list_all ok xs"
  shows "parse_items from_data data key = Inr xs"
proof -
  have "map the_dict (map (PDict \<circ> to_data) xs) = map to_data xs" by simp
  with assms show ?thesis
    by (simp add: parse_items_def mapping_sequence_def list_all_iff mapM_roundtrip del: map_map)
qed

lemma items_ok: "parse_items from_data data key = Inr xs \<Longrightarrow> list_all ok xs"
  by (auto simp: parse_items_def dest: mapM_ok)

lemma to_data_inj: "ok x \<Longrightarrow> ok y \<Longrightarrow> to_data x = to_data y \<Longrightarrow> x = y"
  using roundtrip by (metis sum.inject(2))

end

lemma required_string_eq: "get_item data k = PStr s \<Longrightarrow> canonical s \<Longrightarrow> required_string data k = Inr s"
  by (simp add: required_string_def)

lemma required_string_Inr:
  "required_string data k = Inr s \<longleftrightarrow> (\<exists>t. get_item data k = PStr t \<and> strip t \<noteq> [] \<and> s = strip t)"
  by (auto simp: required_string_def split: pyval.splits)

lemma required_string_ok: "required_string data k = Inr s \<Longrightarrow> canonical s"
  by (auto simp: required_string_Inr)

lemma optional_string_ok [simp]: "opt_ok (optional_string v)"
  by (simp add: opt_ok_def optional_string_def split: pyval.splits)

lemma optional_string_opt_str [simp]: "opt_ok x \<Longrightarrow> optional_string (opt_str x) = x"
  by (cases x) (auto simp: opt_ok_def optional_string_def)

lemma opt_ok_simps [simp]: "opt_ok None" "opt_ok (Some s) = canonical s"
  by (simp_all add: opt_ok_def)

lemma optional_string_None [simp]: "optional_string PNone = None"
  by (simp add: optional_string_def)

lemma required_nonnegative_int_eq:
  "get_item data k = PInt i \<Longrightarrow> 0 \<le> i \<Longrightarrow> required_nonnegative_int data k = Inr i"
  by (simp add: required_nonnegative_int_def)

lemma required_nonnegative_int_ok: "required_nonnegative_int data k = Inr i \<Longrightarrow> 0 \<le> i"
  by (auto simp: required_nonnegative_int_def split: pyval.splits if_splits)

lemmas field_eqs = required_string_eq required_nonnegative_int_eq get_item_entry_if get_default_entry_if
lemmas field_oks = required_string_ok required_nonnegative_int_ok

interpretation artifact_codec: json_codec artifact_to_data parse_artifact artifact_ok
proof
  show "parse_artifact (artifact_to_data a) = Inr a" if "artifact_ok a" for a
    using that by (simp add: parse_artifact_def artifact_to_data_def artifact_ok_def field_eqs)
  show "artifact_ok a" if "parse_artifact d = Inr a" for d a
    using that by (auto simp: parse_artifact_def artifact_ok_def dest: field_oks)
qed

interpretation action_codec: json_codec action_to_data parse_action action_ok
proof
  show "parse_action (action_to_data a) = Inr a" if "action_ok a" for a
    using that by (simp add: parse_action_def action_to_data_def action_ok_def field_eqs)
  show "action_ok a" if "parse_action d = Inr a" for d a
    using that by (auto simp: parse_action_def action_ok_def dest: field_oks)
qed

interpretation obligation_codec: json_codec obligation_to_data parse_obligation obligation_ok
proof
  show "parse_obligation (obligation_to_data ob) = Inr ob" if "obligation_ok ob" for ob
    using that by (simp add: parse_obligation_def obligation_to_data_def obligation_ok_def field_eqs)
  show "obligation_ok ob" if "parse_obligation d = Inr ob" for d ob
    using that by (auto simp: parse_obligation_def obligation_ok_def dest: field_oks)
qed

interpretation evidence_codec: json_codec evidence_to_data parse_evidence evidence_ok
proof
  show "parse_evidence (evidence_to_data e) = Inr e" if "evidence_ok e" for e
    using that by (simp add: parse_evidence_def evidence_to_data_def evidence_ok_def field_eqs)
  show "evidence_ok e" if "parse_evidence d = Inr e" for d e
    using that by (auto simp: parse_evidence_def evidence_ok_def dest: field_oks)
qed

interpretation finding_codec: json_codec finding_to_data parse_finding finding_ok
proof
  show "parse_finding (finding_to_data f) = Inr f" if "finding_ok f" for f
    using that by (simp add: parse_finding_def finding_to_data_def finding_ok_def field_eqs)
  show "finding_ok f" if "parse_finding d = Inr f" for d f
    using that by (auto simp: parse_finding_def finding_ok_def dest: field_oks)
qed

interpretation event_codec: json_codec event_to_data event_from_data event_ok
proof
  show "event_from_data (event_to_data e) = Inr e" if "event_ok e" for e
    using that by (simp add: event_from_data_def event_to_data_def event_ok_def field_eqs)
  show "event_ok e" if "event_from_data d = Inr e" for d e
    using that by (auto simp: event_from_data_def event_ok_def dest: field_oks split: pyval.splits)
qed

lemma key_strings_str_list: "get_default data k (PList []) = str_list xs \<Longrightarrow> key_strings data k = Inr xs"
proof -
  have "filter is_str (map PStr xs) = map PStr xs" for xs by (induction xs) simp_all
  then show "get_default data k (PList []) = str_list xs \<Longrightarrow> key_strings data k = Inr xs"
    by (simp add: key_strings_def str_list_def comp_def)
qed

lemmas items_roundtrips = artifact_codec.items_roundtrip action_codec.items_roundtrip
  obligation_codec.items_roundtrip evidence_codec.items_roundtrip finding_codec.items_roundtrip
lemmas items_oks = artifact_codec.items_ok action_codec.items_ok obligation_codec.items_ok
  evidence_codec.items_ok finding_codec.items_ok

interpretation state_codec: json_codec state_to_data state_from_data state_ok
proof
  show "state_from_data (state_to_data s) = Inr s" if "state_ok s" for s
    using that
    by (simp add: state_from_data_def state_to_data_def state_ok_def field_eqs items_roundtrips
        key_strings_str_list)
  show "state_ok s" if "state_from_data d = Inr s" for d s
    using that
    by (auto simp: state_from_data_def state_ok_def dest: field_oks items_oks)
qed

section \<open>Invariants of the reducer\<close>

interpretation artifact_key: keyed artifact_id .
interpretation action_key: keyed action_instance_id .
interpretation obligation_key: keyed obligation_id .
interpretation evidence_key: keyed evidence_id .
interpretation finding_key: keyed finding_id .

definition state_unique :: "execution_state \<Rightarrow> bool" where
  "state_unique s \<longleftrightarrow> distinct (map artifact_id (artifacts s)) \<and>
     distinct (map action_instance_id (actions s)) \<and> distinct (map obligation_id (obligations s)) \<and>
     distinct (map evidence_id (evidence s)) \<and> distinct (map finding_id (findings s)) \<and>
     distinct (completed_idempotency_keys s)"

lemma state_ok_lists:
  assumes "state_ok s"
  shows "list_all artifact_ok (artifacts s)" "list_all action_ok (actions s)"
    "list_all obligation_ok (obligations s)" "list_all evidence_ok (evidence s)"
    "list_all finding_ok (findings s)"
  using assms by (simp_all add: state_ok_def)

lemma state_ok_updates:
  assumes "state_ok s"
  shows "opt_ok p \<Longrightarrow> state_ok (s\<lparr>current_persona_id := p\<rparr>)"
    "opt_ok p \<Longrightarrow> state_ok (s\<lparr>current_phase := ph, current_persona_id := p,
       phase_revision := phase_revision s + 1\<rparr>)"
    "list_all artifact_ok arts \<Longrightarrow> state_ok (s\<lparr>artifacts := arts\<rparr>)"
    "list_all action_ok acts \<Longrightarrow> state_ok (s\<lparr>actions := acts\<rparr>)"
    "list_all obligation_ok obs \<Longrightarrow> state_ok (s\<lparr>obligations := obs\<rparr>)"
    "list_all evidence_ok evs \<Longrightarrow> state_ok (s\<lparr>evidence := evs\<rparr>)"
    "list_all finding_ok fins \<Longrightarrow> state_ok (s\<lparr>findings := fins\<rparr>)"
    "state_ok (s\<lparr>completed_idempotency_keys := ks\<rparr>)"
  using assms by (simp_all add: state_ok_def)

lemma action_record_for_ok:
  assumes "action_record_for records aid st pl = Inr r" "canonical aid" "list_all action_ok records"
  shows "action_ok r"
proof (cases "List.find (\<lambda>item. action_instance_id item = aid) records")
  case None
  with assms show ?thesis
    by (auto simp: action_record_for_def action_ok_def dest: field_oks)
next
  case (Some old)
  with assms(3) have "action_ok old"
    by (auto simp: list_all_iff dest: find_Some_mem)
  with Some assms show ?thesis
    by (auto simp: action_record_for_def action_ok_def)
qed

lemma reduce_action_event_Inr:
  assumes "reduce_action_event s ty pl = Inr t"
  shows "\<exists>r. t = s\<lparr>actions := upsert_by action_instance_id (actions s) r\<rparr> \<and>
    (list_all action_ok (actions s) \<longrightarrow> action_ok r)"
  using assms
  by (auto simp: reduce_action_event_def intro: action_record_for_ok dest: field_oks)

lemma reduce_decision_Inr:
  assumes "reduce_payload s CAPABILITY_DECISION pl = Inr t"
  shows "t = s \<or> (\<exists>k. t = s\<lparr>completed_idempotency_keys := py_dedup (completed_idempotency_keys s @ [k])\<rparr>)"
proof -
  from assms obtain v where "(if py_eq (get_item pl ''kind'') (PStr ''executable'') \<and> is_str v
      then Inr (s\<lparr>completed_idempotency_keys := py_dedup (completed_idempotency_keys s @ [the_str v])\<rparr>)
      else Inr s) = (Inr t :: execution_state result)"
    unfolding reduce_payload_def by (simp only: bind_r_eq_Inr execution_event_type.case) blast
  then show ?thesis
    by (auto split: if_split_asm)
qed

lemma reduce_payload_cases:
  assumes "reduce_payload s ty pl = Inr t"
  obtains
    (unchanged) "ty \<in> {CREATED, PHASE_EXITED, CHECKPOINT_CREATED, CAPABILITY_EXCEPTION_REQUESTED,
        OBSERVER_DECISION, CAPABILITY_DECISION}" "t = s"
  | (persona) p where "ty = PERSONA_ASSIGNED" "canonical p" "t = s\<lparr>current_persona_id := Some p\<rparr>"
  | (phase) ph where "ty = PHASE_ENTERED" "required_string pl ''phase_type'' = Inr (phase_value ph)"
      "t = s\<lparr>current_phase := ph, current_persona_id := optional_string (get_item pl ''persona_id''),
        phase_revision := phase_revision s + 1\<rparr>"
  | (action) "ty \<in> {ACTION_PROPOSED, ACTION_STARTED, ACTION_COMPLETED, ACTION_FAILED}"
      "reduce_action_event s ty pl = Inr t"
  | (key) k where "ty = CAPABILITY_DECISION"
      "t = s\<lparr>completed_idempotency_keys := py_dedup (completed_idempotency_keys s @ [k])\<rparr>"
  | (artifact) a where "ty = ARTIFACT_PRODUCED" "parse_artifact pl = Inr a"
      "t = s\<lparr>artifacts := upsert_by artifact_id (artifacts s) a\<rparr>"
  | (accept) aid where "ty = ARTIFACT_ACCEPTED"
      "t = s\<lparr>artifacts := map (\<lambda>a. if artifact_id a = aid then a\<lparr>accepted := True\<rparr> else a) (artifacts s)\<rparr>"
  | (obligation) ob where "ty = OBLIGATION_OPENED" "parse_obligation pl = Inr ob"
      "t = s\<lparr>obligations := upsert_by obligation_id (obligations s) ob\<rparr>"
  | (satisfied) oid where "ty = OBLIGATION_SATISFIED" "required_string pl ''obligation_id'' = Inr oid"
      "t = set_obligation_status s oid OS_SATISFIED"
  | (evidence) e where "ty = EVIDENCE_RECORDED" "parse_evidence pl = Inr e"
      "t = s\<lparr>evidence := upsert_by evidence_id (evidence s) e\<rparr>"
  | (invalid) eid where "ty = EVIDENCE_INVALIDATED"
      "t = s\<lparr>evidence := map (\<lambda>e. if evidence_id e = eid then e\<lparr>fresh := False\<rparr> else e) (evidence s)\<rparr>"
  | (finding) f where "ty = FINDING_OPENED" "parse_finding pl = Inr f"
      "t = s\<lparr>findings := upsert_by finding_id (findings s) f\<rparr>"
  | (disposed) fid st where "ty = FINDING_DISPOSED"
      "t = s\<lparr>findings := map (\<lambda>f. if finding_id f = fid then f\<lparr>fi_status := st\<rparr> else f) (findings s)\<rparr>"
  | (reverted) d where "ty = CHECKPOINT_REVERTED" "state_from_data d = Inr t"
      "execution_id t = execution_id s" "get_item pl ''state'' = PDict d"
proof (cases ty)
  case CAPABILITY_DECISION
  then show ?thesis
    using assms unchanged key reduce_decision_Inr by blast
next
  case CHECKPOINT_REVERTED
  with assms show ?thesis
    using reverted by (auto simp: reduce_payload_def split: pyval.splits)
next
  case PERSONA_ASSIGNED
  with assms show ?thesis
    using persona by (auto simp: reduce_payload_def dest: field_oks)
next
  case PHASE_ENTERED with assms phase show ?thesis by (auto simp: reduce_payload_def)
next
  case ACTION_PROPOSED with assms action show ?thesis by (auto simp: reduce_payload_def)
next
  case ACTION_STARTED with assms action show ?thesis by (auto simp: reduce_payload_def)
next
  case ACTION_COMPLETED with assms action show ?thesis by (auto simp: reduce_payload_def)
next
  case ACTION_FAILED with assms action show ?thesis by (auto simp: reduce_payload_def)
next
  case ARTIFACT_PRODUCED with assms artifact show ?thesis by (auto simp: reduce_payload_def)
next
  case ARTIFACT_ACCEPTED with assms accept show ?thesis by (auto simp: reduce_payload_def)
next
  case OBLIGATION_OPENED with assms obligation show ?thesis by (auto simp: reduce_payload_def)
next
  case OBLIGATION_SATISFIED with assms satisfied show ?thesis by (auto simp: reduce_payload_def)
next
  case EVIDENCE_RECORDED with assms evidence show ?thesis by (auto simp: reduce_payload_def)
next
  case EVIDENCE_INVALIDATED with assms invalid show ?thesis by (auto simp: reduce_payload_def)
next
  case FINDING_OPENED with assms finding show ?thesis by (auto simp: reduce_payload_def)
next
  case FINDING_DISPOSED with assms disposed show ?thesis by (auto simp: reduce_payload_def)
next
  case CREATED with assms show ?thesis by (auto simp: reduce_payload_def intro: unchanged)
next
  case PHASE_EXITED with assms show ?thesis by (auto simp: reduce_payload_def intro: unchanged)
next
  case CHECKPOINT_CREATED with assms show ?thesis by (auto simp: reduce_payload_def intro: unchanged)
next
  case CAPABILITY_EXCEPTION_REQUESTED with assms show ?thesis by (auto simp: reduce_payload_def intro: unchanged)
next
  case OBSERVER_DECISION with assms show ?thesis by (auto simp: reduce_payload_def intro: unchanged)
qed

lemma reduce_payload_ok:
  assumes "reduce_payload s ty pl = Inr t" "state_ok s"
  shows "state_ok t"
  using assms(1)
proof (cases rule: reduce_payload_cases)
  case action
  with assms(2) show ?thesis
    by (auto dest!: reduce_action_event_Inr intro: state_ok_updates state_ok_lists)
next
  case accept
  with assms(2) show ?thesis
    by (auto simp: artifact_ok_def intro!: state_ok_updates list_all_map_update dest: state_ok_lists)
next
  case satisfied
  with assms(2) show ?thesis
    by (auto simp: obligation_ok_def set_obligation_status_def
        intro!: state_ok_updates list_all_map_update dest: state_ok_lists)
next
  case invalid
  with assms(2) show ?thesis
    by (auto simp: evidence_ok_def intro!: state_ok_updates list_all_map_update dest: state_ok_lists)
next
  case disposed
  with assms(2) show ?thesis
    by (auto simp: finding_ok_def intro!: state_ok_updates list_all_map_update dest: state_ok_lists)
qed (use assms(2) in \<open>auto intro: state_ok_updates state_ok_lists artifact_codec.parsed_ok
      obligation_codec.parsed_ok evidence_codec.parsed_ok finding_codec.parsed_ok state_codec.parsed_ok\<close>)

lemma reduce_payload_unique:
  assumes "reduce_payload s ty pl = Inr t" "state_unique s" "ty \<noteq> CHECKPOINT_REVERTED"
  shows "state_unique t"
  using assms(1)
proof (cases rule: reduce_payload_cases)
  case action
  with assms(2) show ?thesis
    by (auto dest!: reduce_action_event_Inr simp: state_unique_def intro!: action_key.upsert_distinct)
qed (use assms(2,3) in \<open>auto simp: state_unique_def set_obligation_status_def simp del: map_map
      intro!: artifact_key.upsert_distinct obligation_key.upsert_distinct
        evidence_key.upsert_distinct finding_key.upsert_distinct distinct_map_update\<close>)

definition same_labels :: "execution_state \<Rightarrow> execution_state \<Rightarrow> bool" where
  "same_labels s t \<longleftrightarrow> execution_id t = execution_id s \<and> profile_id t = profile_id s \<and>
     mode t = mode s \<and> schema_version t = schema_version s \<and> active_unit_id t = active_unit_id s"

lemma same_labels_updates:
  "same_labels s s" "same_labels s (s\<lparr>current_persona_id := p\<rparr>)"
  "same_labels s (s\<lparr>current_phase := ph, current_persona_id := p, phase_revision := r\<rparr>)"
  "same_labels s (s\<lparr>artifacts := arts\<rparr>)" "same_labels s (s\<lparr>actions := acts\<rparr>)"
  "same_labels s (s\<lparr>obligations := obs\<rparr>)" "same_labels s (s\<lparr>evidence := evs\<rparr>)"
  "same_labels s (s\<lparr>findings := fins\<rparr>)" "same_labels s (s\<lparr>completed_idempotency_keys := ks\<rparr>)"
  by (simp_all add: same_labels_def)

lemma reduce_payload_labels:
  assumes "reduce_payload s ty pl = Inr t" "ty \<noteq> CHECKPOINT_REVERTED"
  shows "same_labels s t"
  using assms(1)
proof (cases rule: reduce_payload_cases)
  case action
  then show ?thesis
    by (auto dest!: reduce_action_event_Inr simp: same_labels_updates)
qed (use assms(2) in \<open>simp_all add: same_labels_updates set_obligation_status_def\<close>)

lemma reduce_payload_execution:
  assumes "reduce_payload s ty pl = Inr t"
  shows "execution_id t = execution_id s"
  using assms
proof (cases rule: reduce_payload_cases)
  case action
  then show ?thesis
    by (auto dest!: reduce_action_event_Inr)
qed (simp_all add: set_obligation_status_def)

lemma reduce_event_Inr:
  "reduce_execution_event s e = Inr t \<longleftrightarrow>
    ev_execution_id e = execution_id s \<and> ev_sequence e = event_sequence s + 1 \<and>
    expected_state_version e = state_version s \<and>
    (\<exists>u. reduce_payload s (event_type e) (payload e) = Inr u \<and>
      t = u\<lparr>state_version := state_version s + 1, event_sequence := event_sequence s + 1\<rparr>)"
  by (auto simp: reduce_execution_event_def)

lemma state_ok_versions:
  "state_ok s \<Longrightarrow> 0 \<le> v \<Longrightarrow> 0 \<le> n \<Longrightarrow> state_ok (s\<lparr>state_version := v, event_sequence := n\<rparr>)"
  by (simp add: state_ok_def)

lemma reduce_event_ok: "state_ok s \<Longrightarrow> reduce_execution_event s e = Inr t \<Longrightarrow> state_ok t"
  by (auto simp: reduce_event_Inr dest!: reduce_payload_ok)
    (auto intro!: state_ok_versions simp: state_ok_def)

lemma reduce_event_counts:
  assumes "reduce_execution_event s e = Inr t"
  shows "state_version t = state_version s + 1" "event_sequence t = event_sequence s + 1"
    "execution_id t = execution_id s"
  using assms by (auto simp: reduce_event_Inr dest: reduce_payload_execution)

lemma reduce_events_ok: "state_ok s \<Longrightarrow> reduce_execution_events s es = Inr t \<Longrightarrow> state_ok t"
  unfolding reduce_execution_events_def
  by (erule foldM_r_invariant [where I = state_ok]) (auto intro: reduce_event_ok)

lemma reduce_events_counts:
  assumes "reduce_execution_events s es = Inr t"
  shows "state_version t = state_version s + int (length es) \<and>
    event_sequence t = event_sequence s + int (length es) \<and> execution_id t = execution_id s"
  using assms
proof (induction es arbitrary: s)
  case (Cons e es)
  then obtain u where "reduce_execution_event s e = Inr u" "reduce_execution_events u es = Inr t"
    by (auto simp: reduce_execution_events_def)
  with Cons.IH [of u] show ?case
    by (simp add: reduce_event_counts)
qed (simp add: reduce_execution_events_def)

section \<open>Rebuilding a state from its event log\<close>

text \<open>
  \<^verbatim>\<open>FileExecutionStateStore.verify\<close> replays the log from an initial state that carries the
  profile, the mode and the phase of the final state. Replay is insensitive to those three
  labels: two runs over the same events that start with different labels differ at every point
  at most in labels no event has written yet.
\<close>

definition relabel :: "execution_state \<Rightarrow> string \<Rightarrow> execution_mode \<Rightarrow> phase_type \<Rightarrow> execution_state" where
  "relabel s q m p = s\<lparr>profile_id := q, mode := m, current_phase := p\<rparr>"

definition label_sim ::
    "string \<Rightarrow> execution_mode \<Rightarrow> phase_type \<Rightarrow> execution_state \<Rightarrow> execution_state \<Rightarrow> bool" where
  "label_sim q m p s u \<longleftrightarrow> (\<exists>a b c. u = relabel s a b c \<and>
     a \<in> {profile_id s, q} \<and> b \<in> {mode s, m} \<and> c \<in> {current_phase s, p})"

lemma relabel_sel [simp]:
  "execution_id (relabel s q m p) = execution_id s" "state_version (relabel s q m p) = state_version s"
  "event_sequence (relabel s q m p) = event_sequence s" "actions (relabel s q m p) = actions s"
  "artifacts (relabel s q m p) = artifacts s" "obligations (relabel s q m p) = obligations s"
  "evidence (relabel s q m p) = evidence s" "findings (relabel s q m p) = findings s"
  "completed_idempotency_keys (relabel s q m p) = completed_idempotency_keys s"
  "profile_id (relabel s q m p) = q" "mode (relabel s q m p) = m" "current_phase (relabel s q m p) = p"
  by (simp_all add: relabel_def)

lemma relabel_self [simp]: "relabel s (profile_id s) (mode s) (current_phase s) = s"
  by (simp add: relabel_def)

lemma label_sim_refl: "label_sim q m p s s"
  unfolding label_sim_def by (metis insertI1 relabel_self)

lemma relabel_versions [simp]:
  "(relabel s q m p)\<lparr>state_version := v, event_sequence := n\<rparr>
    = relabel (s\<lparr>state_version := v, event_sequence := n\<rparr>) q m p"
  by (simp add: relabel_def)

lemma relabel_updates [simp]:
  "(relabel s q m p)\<lparr>current_persona_id := x1\<rparr> = relabel (s\<lparr>current_persona_id := x1\<rparr>) q m p"
  "(relabel s q m p)\<lparr>artifacts := x2\<rparr> = relabel (s\<lparr>artifacts := x2\<rparr>) q m p"
  "(relabel s q m p)\<lparr>actions := x3\<rparr> = relabel (s\<lparr>actions := x3\<rparr>) q m p"
  "(relabel s q m p)\<lparr>obligations := x4\<rparr> = relabel (s\<lparr>obligations := x4\<rparr>) q m p"
  "(relabel s q m p)\<lparr>evidence := x5\<rparr> = relabel (s\<lparr>evidence := x5\<rparr>) q m p"
  "(relabel s q m p)\<lparr>findings := x6\<rparr> = relabel (s\<lparr>findings := x6\<rparr>) q m p"
  "(relabel s q m p)\<lparr>completed_idempotency_keys := x7\<rparr> =
     relabel (s\<lparr>completed_idempotency_keys := x7\<rparr>) q m p"
  by (simp_all add: relabel_def)

lemma reduce_payload_phase:
  assumes "reduce_payload s ty pl = Inr t" "ty \<noteq> CHECKPOINT_REVERTED" "ty \<noteq> PHASE_ENTERED"
  shows "current_phase t = current_phase s \<and> phase_revision t = phase_revision s"
  using assms(1)
proof (cases rule: reduce_payload_cases)
  case action
  then show ?thesis
    by (auto dest!: reduce_action_event_Inr)
qed (use assms(2,3) in \<open>simp_all add: set_obligation_status_def\<close>)

lemma reduce_action_relabel:
  "reduce_action_event (relabel s q m p) ty pl =
    bind_r (reduce_action_event s ty pl) (\<lambda>t. Inr (relabel t q m p))"
  by (simp add: reduce_action_event_def bind_r_assoc)

lemma reduce_payload_relabel:
  assumes "ty \<noteq> CHECKPOINT_REVERTED" "ty \<noteq> PHASE_ENTERED"
  shows "reduce_payload (relabel s q m p) ty pl =
    bind_r (reduce_payload s ty pl) (\<lambda>t. Inr (relabel t q m p))"
  using assms
  by (cases ty; simp add: reduce_payload_def reduce_action_relabel set_obligation_status_def
      bind_r_assoc bind_if cong: if_cong)

lemma label_sim_step:
  assumes "label_sim q m p s u" "reduce_execution_event s e = Inr s'"
  shows "\<exists>u'. reduce_execution_event u e = Inr u' \<and> label_sim q m p s' u'"
proof -
  from assms(1) obtain a b c where u: "u = relabel s a b c"
    and lab: "a \<in> {profile_id s, q}" "b \<in> {mode s, m}" "c \<in> {current_phase s, p}"
    by (auto simp: label_sim_def)
  from assms(2) obtain v where v: "reduce_payload s (event_type e) (payload e) = Inr v"
    and s': "s' = v\<lparr>state_version := state_version s + 1, event_sequence := event_sequence s + 1\<rparr>"
    and g: "ev_execution_id e = execution_id s" "ev_sequence e = event_sequence s + 1"
      "expected_state_version e = state_version s"
    by (auto simp: reduce_event_Inr)
  have "\<exists>w. reduce_payload u (event_type e) (payload e) = Inr w \<and> label_sim q m p v w"
  proof -
    consider "event_type e = CHECKPOINT_REVERTED" | "event_type e = PHASE_ENTERED"
      | "event_type e \<noteq> CHECKPOINT_REVERTED" "event_type e \<noteq> PHASE_ENTERED" by blast
    then show ?thesis
    proof cases
      case 1
      with v u have "reduce_payload u (event_type e) (payload e) = Inr v"
        by (auto simp: reduce_payload_def split: pyval.splits)
      then show ?thesis using label_sim_refl by blast
    next
      case 2
      with v u have "reduce_payload u (event_type e) (payload e) =
          Inr (relabel v a b (current_phase v))"
        by (auto simp: reduce_payload_def relabel_def)
      moreover from 2 v have "profile_id v = profile_id s" "mode v = mode s"
        by (auto simp: reduce_payload_def)
      ultimately show ?thesis using lab unfolding label_sim_def by auto
    next
      case 3
      with v u have "reduce_payload u (event_type e) (payload e) = Inr (relabel v a b c)"
        by (simp add: reduce_payload_relabel)
      moreover have "profile_id v = profile_id s" "mode v = mode s" "current_phase v = current_phase s"
        using reduce_payload_labels [OF v] reduce_payload_phase [OF v] 3
        by (simp_all add: same_labels_def)
      ultimately show ?thesis using lab unfolding label_sim_def by auto
    qed
  qed
  then obtain w a' b' c' where w: "reduce_payload u (event_type e) (payload e) = Inr w"
    "w = relabel v a' b' c'"
    "a' \<in> {profile_id v, q}" "b' \<in> {mode v, m}" "c' \<in> {current_phase v, p}"
    unfolding label_sim_def by auto
  with u g s' show ?thesis
    by (auto simp: reduce_event_Inr label_sim_def)
qed


lemma label_sim_run:
  assumes "label_sim q m p s u" "reduce_execution_events s es = Inr s'"
  shows "\<exists>u'. reduce_execution_events u es = Inr u' \<and> label_sim q m p s' u'"
  using assms
proof (induction es arbitrary: s u)
  case (Cons e es)
  from Cons.prems(2) obtain t where t: "reduce_execution_event s e = Inr t"
    "reduce_execution_events t es = Inr s'"
    by (auto simp: reduce_execution_events_def)
  from label_sim_step [OF Cons.prems(1) t(1)] obtain w where
    "reduce_execution_event u e = Inr w" "label_sim q m p t w" by blast
  with Cons.IH [OF _ t(2)] show ?case
    by (auto simp: reduce_execution_events_def)
qed (auto simp: reduce_execution_events_def)

lemma initial_relabel:
  "initial_execution_state eid pid md ph = Inr s \<Longrightarrow> strip q \<noteq> [] \<Longrightarrow>
    initial_execution_state eid q m p = Inr (relabel s q m p)"
  by (auto simp: initial_execution_state_def relabel_def)

lemma replay_from_final_labels:
  assumes "initial_execution_state eid pid md ph = Inr s" "reduce_execution_events s es = Inr t"
    and "strip (profile_id t) \<noteq> []"
  shows "bind_r (initial_execution_state (execution_id t) (profile_id t) (mode t) (current_phase t))
    (\<lambda>u. reduce_execution_events u es) = Inr t"
proof -
  have s: "strip eid \<noteq> []" "execution_id s = eid" "execution_id t = eid"
    using assms(1) reduce_events_counts [OF assms(2)] by (auto simp: initial_execution_state_def)
  define u where "u = relabel s (profile_id t) (mode t) (current_phase t)"
  have "initial_execution_state (execution_id t) (profile_id t) (mode t) (current_phase t) = Inr u"
    using initial_relabel [OF assms(1,3)] s by (simp add: u_def)
  moreover have "label_sim (profile_id t) (mode t) (current_phase t) s u"
    by (auto simp: label_sim_def u_def)
  from label_sim_run [OF this assms(2)] have "reduce_execution_events u es = Inr t"
    by (auto simp: label_sim_def)
  ultimately show ?thesis by simp
qed

section \<open>Obligations leave the open status only by their own events\<close>

definition closes_obligation :: "execution_event \<Rightarrow> string \<Rightarrow> bool" where
  "closes_obligation e oid \<longleftrightarrow>
     (event_type e \<in> {OBLIGATION_OPENED, OBLIGATION_SATISFIED} \<and>
        required_string (payload e) ''obligation_id'' = Inr oid)
     \<or> event_type e = CHECKPOINT_REVERTED"

lemma parse_obligation_id: "parse_obligation pl = Inr ob \<Longrightarrow> required_string pl ''obligation_id'' = Inr (obligation_id ob)"
  by (auto simp: parse_obligation_def)

lemma reduce_event_keeps_obligation:
  assumes "reduce_execution_event s e = Inr t" "ob \<in> set (obligations s)"
    "\<not> closes_obligation e (obligation_id ob)"
  shows "ob \<in> set (obligations t)"
proof -
  from assms(1) obtain u where u: "reduce_payload s (event_type e) (payload e) = Inr u"
    "obligations t = obligations u"
    by (auto simp: reduce_event_Inr)
  from u(1) have "ob \<in> set (obligations u)"
  proof (cases rule: reduce_payload_cases)
    case action
    then show ?thesis using assms(2) by (auto dest!: reduce_action_event_Inr)
  next
    case (obligation o')
    with assms(2,3) show ?thesis
      by (auto simp: obligation_key.upsert_mem closes_obligation_def dest: parse_obligation_id)
  next
    case (satisfied oid)
    with assms(2,3) show ?thesis
      by (auto simp: set_obligation_status_def closes_obligation_def image_iff intro!: bexI [of _ ob])
  next
    case (reverted d)
    with assms(3) show ?thesis by (simp add: closes_obligation_def)
  qed (use assms(2) in simp_all)
  with u(2) show ?thesis by simp
qed

lemma reduce_events_keep_obligation:
  assumes "reduce_execution_events s es = Inr t" "ob \<in> set (obligations s)"
    "\<And>e. e \<in> set es \<Longrightarrow> \<not> closes_obligation e (obligation_id ob)"
  shows "ob \<in> set (obligations t)"
  using assms unfolding reduce_execution_events_def
  by (auto intro: foldM_r_invariant [where I = "\<lambda>s. ob \<in> set (obligations s)"]
      reduce_event_keeps_obligation)

section \<open>Reachable states\<close>

inductive reachable_state :: "execution_state \<Rightarrow> bool" where
  created: "initial_execution_state eid pid md ph = Inr s \<Longrightarrow> canonical eid \<Longrightarrow> canonical pid \<Longrightarrow>
    reachable_state s"
| reduced: "reachable_state s \<Longrightarrow> reduce_execution_event s e = Inr t \<Longrightarrow> reachable_state t"

lemma initial_state_ok:
  "initial_execution_state eid pid md ph = Inr s \<Longrightarrow> canonical eid \<Longrightarrow> canonical pid \<Longrightarrow> state_ok s"
  by (auto simp: initial_execution_state_def state_ok_def)

lemma reachable_ok: "reachable_state s \<Longrightarrow> state_ok s"
  by (induction rule: reachable_state.induct) (auto intro: initial_state_ok reduce_event_ok)

lemma reachable_versions: "reachable_state s \<Longrightarrow> state_version s = event_sequence s"
  by (induction rule: reachable_state.induct)
    (auto simp: initial_execution_state_def reduce_event_counts)

section \<open>Properties\<close>

text \<open>every document the loader accepts yields a canonical state, and writing that state back
  and loading it again returns the same state (\<^verbatim>\<open>ExecutionState.to_data\<close>, \<^verbatim>\<open>from_data\<close>).\<close>

theorem state_roundtrip:
  assumes "state_from_data data = Inr s"
  shows "state_ok s \<and> state_from_data (state_to_data s) = Inr s"
  using assms state_codec.parsed_ok state_codec.roundtrip by blast

definition sample_document :: pydict where
  "sample_document =
     [(''schema_version'', PStr ''execution-state-v1''), (''execution_id'', PStr ''  e1 ''),
      (''profile_id'', PStr ''p''), (''mode'', PStr ''enforce''), (''current_phase'', PStr ''intake''),
      (''phase_revision'', PInt 0), (''state_version'', PInt 4), (''event_sequence'', PInt 4),
      (''obligations'', PList [PDict [(''obligation_id'', PStr ''o1''), (''description'', PStr ''d'')]])]"

definition sample_state :: execution_state where
  "sample_state =
     \<lparr>execution_id = ''e1'', profile_id = ''p'', mode = ENFORCE, current_phase = INTAKE,
      schema_version = ''execution-state-v1'', phase_revision = 0, state_version = 4,
      event_sequence = 4, current_persona_id = None, active_unit_id = None, artifacts = [],
      actions = [],
      obligations = [\<lparr>obligation_id = ''o1'', ob_description = ''d'', ob_status = OS_OPEN,
        source_action_instance_id = None, required_action = None, relationship_id = None,
        target_ref = None\<rparr>],
      evidence = [], findings = [], completed_idempotency_keys = []\<rparr>"

theorem state_roundtrip_witness:
  "state_ok sample_state \<and> state_from_data (state_to_data sample_state) = Inr sample_state"
proof -
  have "state_from_data sample_document = Inr sample_state" by code_simp
  then show ?thesis by (rule state_roundtrip)
qed

text \<open>C16: along every run of the reducer from a created execution the state stays canonical, so it can
  be stored and loaded again, and the state version equals the event sequence.\<close>

theorem reachable_state_invariant:
  assumes "reachable_state s"
  shows "state_ok s \<and> state_version s = event_sequence s \<and> state_from_data (state_to_data s) = Inr s"
  using assms reachable_ok reachable_versions state_codec.roundtrip by blast

definition sample_initial :: execution_state where
  "sample_initial = sample_state\<lparr>state_version := 0, event_sequence := 0, obligations := []\<rparr>"

definition sample_event :: execution_event where
  "sample_event =
     \<lparr>ev_execution_id = ''e1'', ev_sequence = 1, expected_state_version = 0,
      event_type = OBLIGATION_OPENED,
      payload = [(''obligation_id'', PStr ''o1''), (''description'', PStr ''d'')], event_id = ''e1:1''\<rparr>"

definition sample_next :: execution_state where
  "sample_next = sample_state\<lparr>state_version := 1, event_sequence := 1\<rparr>"

lemma sample_run:
  "initial_execution_state ''e1'' ''p'' ENFORCE INTAKE = Inr sample_initial"
  "reduce_execution_event sample_initial sample_event = Inr sample_next"
  by code_simp+

theorem reachable_state_invariant_witness:
  "state_ok sample_next \<and> state_version sample_next = event_sequence sample_next \<and>
    state_from_data (state_to_data sample_next) = Inr sample_next"
proof -
  have "canonical ''e1''" "canonical ''p''" by code_simp+
  then have "reachable_state sample_next"
    using sample_run reachable_state.intros by blast
  then show ?thesis by (rule reachable_state_invariant)
qed

text \<open>C17: an event is applied only if it names this execution, the next sequence number and the current
  version; then exactly one version and one sequence number are consumed and the execution keeps its
  identity.\<close>

theorem reduce_event_guarded:
  assumes "reduce_execution_event s e = Inr t"
  shows "ev_execution_id e = execution_id s \<and> ev_sequence e = event_sequence s + 1 \<and>
    expected_state_version e = state_version s \<and> state_version t = state_version s + 1 \<and>
    event_sequence t = ev_sequence e \<and> execution_id t = execution_id s"
  using assms reduce_event_counts [OF assms] by (auto simp: reduce_event_Inr)

theorem reduce_event_guarded_witness:
  "ev_sequence sample_event = event_sequence sample_initial + 1 \<and>
    event_sequence sample_next = ev_sequence sample_event"
  using reduce_event_guarded [OF sample_run(2)] by simp

text \<open>C12: the state is rebuildable: replaying the whole log from an initial state that carries the final
  profile, mode and phase (as \<^verbatim>\<open>verify\<close> does) gives the materialized state.\<close>

theorem event_log_replays:
  assumes "initial_execution_state eid pid md ph = Inr s" "canonical eid" "canonical pid"
    and "reduce_execution_events s es = Inr t"
  shows "bind_r (initial_execution_state (execution_id t) (profile_id t) (mode t) (current_phase t))
    (\<lambda>u. reduce_execution_events u es) = Inr t"
proof -
  have "state_ok t"
    using reduce_events_ok initial_state_ok assms by blast
  then have "strip (profile_id t) \<noteq> []"
    by (auto simp: state_ok_def)
  with replay_from_final_labels assms show ?thesis by blast
qed

theorem event_log_replays_witness:
  "bind_r (initial_execution_state ''e1'' ''p'' ENFORCE INTAKE)
    (\<lambda>u. reduce_execution_events u [sample_event]) = Inr sample_next"
proof -
  have "canonical ''e1''" "canonical ''p''"
    "reduce_execution_events sample_initial [sample_event] = Inr sample_next" by code_simp+
  from event_log_replays [OF sample_run(1) this] show ?thesis
    by (simp add: sample_next_def sample_state_def)
qed

text \<open>C13: an obligation survives unchanged through any events that neither reopen or satisfy that very
  obligation nor restore a checkpoint.\<close>

theorem obligation_survives:
  assumes "reduce_execution_events s es = Inr t" "ob \<in> set (obligations s)"
    and "\<forall>e \<in> set es. \<not> closes_obligation e (obligation_id ob)"
  shows "ob \<in> set (obligations t)"
  using assms reduce_events_keep_obligation by blast

definition sample_phase_event :: execution_event where
  "sample_phase_event =
     \<lparr>ev_execution_id = ''e1'', ev_sequence = 5, expected_state_version = 4,
      event_type = PHASE_ENTERED, payload = [(''phase_type'', PStr ''build'')],
      event_id = ''e1:5''\<rparr>"

theorem obligation_survives_witness:
  "\<exists>t. reduce_execution_events sample_state [sample_phase_event] = Inr t \<and>
    hd (obligations sample_state) \<in> set (obligations t)"
proof -
  let ?t = "sample_state\<lparr>current_phase := BUILD, phase_revision := 1, state_version := 5,
    event_sequence := 5\<rparr>"
  have "reduce_execution_events sample_state [sample_phase_event] = Inr ?t" by code_simp
  moreover have "hd (obligations sample_state) \<in> set (obligations sample_state)"
    by (simp add: sample_state_def)
  moreover have "\<forall>e \<in> set [sample_phase_event].
      \<not> closes_obligation e (obligation_id (hd (obligations sample_state)))"
    by (simp add: closes_obligation_def sample_phase_event_def)
  ultimately show ?thesis using obligation_survives by blast
qed

text \<open>identifiers of artifacts, actions, obligations, evidence and findings and the completed
  idempotency keys stay free of duplicates under every event but the restoration of a snapshot,
  which installs the snapshot's tuples.\<close>

theorem reduce_event_keeps_ids_unique:
  assumes "reduce_execution_event s e = Inr t" "state_unique s"
    and "event_type e \<noteq> CHECKPOINT_REVERTED"
  shows "state_unique t"
  using assms reduce_payload_unique by (fastforce simp: reduce_event_Inr state_unique_def)

theorem reduce_event_keeps_ids_unique_witness: "state_unique sample_next"
proof -
  have "state_unique sample_initial" "event_type sample_event \<noteq> CHECKPOINT_REVERTED" by code_simp+
  with sample_run(2) show ?thesis by (rule reduce_event_keeps_ids_unique)
qed

end
