(* ===== verification/Behavior_Rules.thy ===== *)
theory Behavior_Rules
  imports Execution_State "HOL-Library.Product_Lexorder"
begin

text \<open>
  \<^verbatim>\<open>core/behavior_rule.py\<close>: versioned operating rules and their file store. The file is
  \<open>None\<close> while it does not exist and otherwise its JSON document; every operation reads the
  document, and on success writes the whole document back. Concurrent callers are serialized by the file lock
  of \<^verbatim>\<open>_locked\<close>, so an operation is one step on the document.

  Comparison of the current time with an expiry date (\<^verbatim>\<open>now < datetime.fromisoformat(text)\<close>)
  is the parameter \<open>before\<close>. Entries of the document whose fields have another JSON type than
  the data class declares are read as \<open>MalformedDocument\<close>.
\<close>

section \<open>Rules\<close>

definition BEHAVIOR_RULE_SCHEMA_VERSION :: string where
  "BEHAVIOR_RULE_SCHEMA_VERSION = ''behavior-rule-v1''"

record behavior_rule =
  rule_id :: string
  rule_text :: string
  normalized_text :: string
  rule_source_ref :: string
  rule_scope :: "(string \<times> string) list"
  rule_precedence :: int
  rule_version :: int
  rule_active :: bool
  rule_expires_at :: "string option"
  supersedes_rule_id :: "string option"
  rule_schema_version :: string

definition rule_to_data :: "behavior_rule \<Rightarrow> pydict" where
  "rule_to_data r =
     [(''schema_version'', PStr (rule_schema_version r)),
      (''rule_id'', PStr (rule_id r)),
      (''text'', PStr (rule_text r)),
      (''normalized_text'', PStr (normalized_text r)),
      (''source_ref'', PStr (rule_source_ref r)),
      (''scope'', PDict (map (\<lambda>(k, v). (k, PStr v)) (rule_scope r))),
      (''precedence'', PInt (rule_precedence r)),
      (''version'', PInt (rule_version r)),
      (''active'', PBool (rule_active r)),
      (''expires_at'', opt_str (rule_expires_at r)),
      (''supersedes_rule_id'', opt_str (supersedes_rule_id r))]"

fun typed_str :: "pyval \<Rightarrow> string result" where
  "typed_str (PStr s) = Inr s"
| "typed_str _ = Inl MalformedDocument"

fun typed_int :: "pyval \<Rightarrow> int result" where
  "typed_int (PInt i) = Inr i"
| "typed_int _ = Inl MalformedDocument"

fun typed_bool :: "pyval \<Rightarrow> bool result" where
  "typed_bool (PBool b) = Inr b"
| "typed_bool _ = Inl MalformedDocument"

fun typed_opt_str :: "pyval \<Rightarrow> string option result" where
  "typed_opt_str PNone = Inr None"
| "typed_opt_str (PStr s) = Inr (Some s)"
| "typed_opt_str _ = Inl MalformedDocument"

fun typed_str_dict :: "pyval \<Rightarrow> (string \<times> string) list result" where
  "typed_str_dict (PDict d) =
     mapM_r (\<lambda>(k, v). bind_r (typed_str v) (\<lambda>s. Inr (k, s))) d"
| "typed_str_dict _ = Inl MalformedDocument"

definition rule_from_data :: "pydict \<Rightarrow> behavior_rule result" where
  "rule_from_data data =
     bind_r (guard_r (py_eq (get_item data ''schema_version'') (PStr BEHAVIOR_RULE_SCHEMA_VERSION))
       (ValueError ''unsupported behavior rule schema version'')) (\<lambda>_.
     bind_r (bind_r (get_required data ''rule_id'') typed_str) (\<lambda>rid.
     bind_r (bind_r (get_required data ''text'') typed_str) (\<lambda>txt.
     bind_r (bind_r (get_required data ''normalized_text'') typed_str) (\<lambda>norm.
     bind_r (bind_r (get_required data ''source_ref'') typed_str) (\<lambda>src.
     bind_r (bind_r (get_required data ''scope'') typed_str_dict) (\<lambda>sc.
     bind_r (typed_int (get_default data ''precedence'' (PInt 0))) (\<lambda>prec.
     bind_r (typed_int (get_default data ''version'' (PInt 1))) (\<lambda>ver.
     bind_r (typed_bool (get_default data ''active'' (PBool True))) (\<lambda>act.
     bind_r (typed_opt_str (get_item data ''expires_at'')) (\<lambda>exp.
     bind_r (typed_opt_str (get_item data ''supersedes_rule_id'')) (\<lambda>sup.
     Inr \<lparr>rule_id = rid, rule_text = txt, normalized_text = norm, rule_source_ref = src,
          rule_scope = sc, rule_precedence = prec, rule_version = ver, rule_active = act,
          rule_expires_at = exp, supersedes_rule_id = sup,
          rule_schema_version = BEHAVIOR_RULE_SCHEMA_VERSION\<rparr>)))))))))))"

definition is_applicable ::
    "(string \<Rightarrow> bool result) \<Rightarrow> behavior_rule \<Rightarrow> (string \<times> string) list \<Rightarrow> bool result" where
  "is_applicable before r context =
     (if \<not> rule_active r \<or> (\<exists>(k, v) \<in> set (rule_scope r). map_of context k \<noteq> Some v)
      then Inr False
      else case rule_expires_at r of None \<Rightarrow> Inr True | Some t \<Rightarrow> before t)"

text \<open>
  \<^verbatim>\<open>text.split()\<close>: the maximal runs of characters that are not white space; and
  \<^verbatim>\<open>casefold\<close> on Latin-1 (the micro sign, which folds to a code point above 255, is kept).
\<close>

function split_ws :: "string \<Rightarrow> string list" where
  "split_ws [] = []"
| "split_ws (c # cs) =
     (if py_isspace c then split_ws cs
      else (c # takeWhile (\<lambda>x. \<not> py_isspace x) cs) # split_ws (dropWhile (\<lambda>x. \<not> py_isspace x) cs))"
  by pat_completeness auto

termination split_ws
  by (relation "measure length") (simp_all add: length_dropWhile_le less_Suc_eq_le)

definition fold_char :: "char \<Rightarrow> string" where
  "fold_char c = (let n = of_char c :: nat in
     if n = 223 then ''ss''
     else if (65 \<le> n \<and> n \<le> 90) \<or> (192 \<le> n \<and> n \<le> 222 \<and> n \<noteq> 215) then [char_of (n + 32)]
     else [c])"

definition casefold :: "string \<Rightarrow> string" where
  "casefold s = concat (map fold_char s)"

definition normalize_behavior_text :: "string \<Rightarrow> string" where
  "normalize_behavior_text text = py_join '' '' (split_ws (casefold (strip text)))"

definition nominate_behavior_rule ::
    "string \<Rightarrow> string \<Rightarrow> string \<Rightarrow> (string \<times> string) list option \<Rightarrow> behavior_rule result" where
  "nominate_behavior_rule text rid src sc =
     (if strip text = [] \<or> src = [] \<or> sc = None
      then Inl (ValueError ''A behavior rule requires text, source_ref, and scope.'')
      else Inr \<lparr>rule_id = rid, rule_text = strip text, normalized_text = normalize_behavior_text text,
             rule_source_ref = src, rule_scope = the sc, rule_precedence = 0, rule_version = 1,
             rule_active = True, rule_expires_at = None, supersedes_rule_id = None,
             rule_schema_version = BEHAVIOR_RULE_SCHEMA_VERSION\<rparr>)"

text \<open>The generator of \<^verbatim>\<open>applicable_behavior_rules\<close>: an error in one test aborts the whole.\<close>

primrec filter_r :: "('a \<Rightarrow> bool result) \<Rightarrow> 'a list \<Rightarrow> 'a list result" where
  "filter_r p [] = Inr []"
| "filter_r p (x # xs) =
     bind_r (p x) (\<lambda>b. bind_r (filter_r p xs) (\<lambda>ys. Inr (if b then x # ys else ys)))"

definition applicable_behavior_rules ::
    "(string \<Rightarrow> bool result) \<Rightarrow> behavior_rule list \<Rightarrow> (string \<times> string) list \<Rightarrow> behavior_rule list result" where
  "applicable_behavior_rules before rules context =
     bind_r (filter_r (\<lambda>r. is_applicable before r context) rules) (\<lambda>ms.
     Inr (sort_key (\<lambda>r. (- rule_precedence r, rule_id r)) ms))"

section \<open>The file store\<close>

type_synonym rule_file = "pyval option"

definition parse_rules :: "rule_file \<Rightarrow> behavior_rule list result" where
  "parse_rules file =
     (case file of
        None \<Rightarrow> Inr []
      | Some (PList items) \<Rightarrow>
          mapM_r (\<lambda>item. case item of PDict d \<Rightarrow> rule_from_data d | _ \<Rightarrow> Inl MalformedDocument) items
      | Some _ \<Rightarrow> Inl MalformedDocument)"

definition list_rules :: "rule_file \<Rightarrow> bool \<Rightarrow> behavior_rule list result" where
  "list_rules file include_inactive =
     bind_r (parse_rules file) (\<lambda>rules.
     Inr (if include_inactive then rules else filter rule_active rules))"

definition write_rules :: "behavior_rule list \<Rightarrow> rule_file" where
  "write_rules rules = Some (PList (map (PDict \<circ> rule_to_data) rules))"

definition find_rule :: "behavior_rule list \<Rightarrow> string \<Rightarrow> behavior_rule option" where
  "find_rule rules rid = List.find (\<lambda>item. rule_id item = rid) rules"

definition explain_rule :: "rule_file \<Rightarrow> string \<Rightarrow> (pydict \<times> string list \<times> bool) result" where
  "explain_rule file rid =
     bind_r (list_rules file True) (\<lambda>rules.
     case find_rule rules rid of
       None \<Rightarrow> Inl (KeyError rid)
     | Some current \<Rightarrow>
         Inr (rule_to_data current,
              map rule_id (filter (\<lambda>item. supersedes_rule_id item = Some rid) rules),
              rule_active current))"

definition save_rule ::
    "rule_file \<Rightarrow> behavior_rule \<Rightarrow> int option \<Rightarrow> (behavior_rule \<times> rule_file) result" where
  "save_rule file rule expected =
     bind_r (list_rules file True) (\<lambda>rules.
     let current = find_rule rules (rule_id rule) in
     bind_r (guard_r (\<not> (current \<noteq> None \<and> expected \<noteq> Some (rule_version (the current))))
       (ValueError (''stale behavior rule version for '' @ py_repr (rule_id rule)))) (\<lambda>_.
     bind_r (guard_r (\<not> (current = None \<and> expected \<notin> {None, Some 0}))
       (ValueError (''unexpected behavior rule version for '' @ py_repr (rule_id rule)))) (\<lambda>_.
     let saved = rule\<lparr>rule_version := (case current of Some c \<Rightarrow> rule_version c + 1 | None \<Rightarrow> 1),
                      rule_schema_version := BEHAVIOR_RULE_SCHEMA_VERSION\<rparr>;
         rules1 = map (\<lambda>item. if rule_id item = rule_id rule then saved else item) rules
     in Inr (saved, write_rules (if current = None then rules1 @ [saved] else rules1)))))"

definition retire_rule :: "behavior_rule \<Rightarrow> behavior_rule" where
  "retire_rule c = c\<lparr>rule_version := rule_version c + 1, rule_active := False,
                     rule_schema_version := BEHAVIOR_RULE_SCHEMA_VERSION\<rparr>"

definition supersede_rule ::
    "rule_file \<Rightarrow> string \<Rightarrow> behavior_rule \<Rightarrow> int \<Rightarrow> (behavior_rule \<times> rule_file) result" where
  "supersede_rule file rid replacement expected =
     bind_r (list_rules file True) (\<lambda>rules.
     case find_rule rules rid of
       None \<Rightarrow> Inl (KeyError rid)
     | Some current \<Rightarrow>
         bind_r (guard_r (rule_version current = expected)
           (ValueError (''stale behavior rule version for '' @ py_repr rid))) (\<lambda>_.
         bind_r (guard_r (rule_id replacement \<noteq> rid)
           (ValueError ''a behavior rule cannot supersede itself'')) (\<lambda>_.
         bind_r (guard_r (\<not> (\<exists>item \<in> set rules. rule_id item = rule_id replacement))
           (ValueError (''behavior rule already exists: '' @ py_repr (rule_id replacement)))) (\<lambda>_.
         let installed = replacement\<lparr>rule_version := 1, rule_active := True,
                           supersedes_rule_id := Some rid,
                           rule_schema_version := BEHAVIOR_RULE_SCHEMA_VERSION\<rparr>
         in Inr (installed, write_rules
              (map (\<lambda>item. if rule_id item = rid then retire_rule current else item) rules
               @ [installed]))))))"

definition revoke_rule :: "rule_file \<Rightarrow> string \<Rightarrow> int \<Rightarrow> (behavior_rule \<times> rule_file) result" where
  "revoke_rule file rid expected =
     bind_r (list_rules file True) (\<lambda>rules.
     case find_rule rules rid of
       None \<Rightarrow> Inl (KeyError rid)
     | Some current \<Rightarrow>
         bind_r (guard_r (rule_version current = expected)
           (ValueError (''stale behavior rule version for '' @ py_repr rid))) (\<lambda>_.
         let rules1 = map (\<lambda>item. if rule_id item = rid then retire_rule current else item) rules
         in Inr (the (find_rule rules1 rid), write_rules rules1)))"

section \<open>Versioned entries\<close>

text \<open>
  What the rule store and the intent store have in common: entries with an identifier, a version
  and an active flag, and a way to retire an entry. An update by compare-and-set replaces the
  entries with one identifier and leaves the others.
\<close>

locale versioned =
  fixes key :: "'a \<Rightarrow> string" and ver :: "'a \<Rightarrow> int" and act :: "'a \<Rightarrow> bool" and retire :: "'a \<Rightarrow> 'a"
  assumes retire_key: "key (retire x) = key x"
    and retire_ver: "ver (retire x) = ver x + 1"
    and retire_act: "\<not> act (retire x)"
begin

lemma replaced_keys:
  "key y = k \<Longrightarrow> map key (map (\<lambda>x. if key x = k then y else x) xs) = map key xs"
  by (induction xs) auto

lemma replaced_distinct:
  "key y = k \<Longrightarrow> distinct (map key xs) \<Longrightarrow> distinct (map key (map (\<lambda>x. if key x = k then y else x) xs))"
  by (simp only: replaced_keys)

lemma replaced_others:
  "key x \<noteq> k \<Longrightarrow> x \<in> set (map (\<lambda>x. if key x = k then y else x) xs) \<longleftrightarrow> x \<in> set xs \<or> (x = y \<and> k \<in> key ` set xs)"
  by auto

lemma find_replaced:
  assumes "List.find (\<lambda>x. key x = k) xs = Some c" "key y = k"
  shows "List.find (\<lambda>x. key x = k) (map (\<lambda>x. if key x = k then y else x) xs) = Some y"
  using assms by (induction xs) (auto split: if_splits)

lemma retired_entry:
  assumes "List.find (\<lambda>x. key x = k) xs = Some c"
    and "x \<in> set (map (\<lambda>x. if key x = k then retire c else x) xs)" "key x = k"
  shows "\<not> act x \<and> ver x = ver c + 1"
  using assms retire_act retire_ver by (auto split: if_splits)

end

lemma find_snoc_Some: "List.find P xs = Some y \<Longrightarrow> List.find P (xs @ [z]) = Some y"
  by (induction xs) auto

lemma find_snoc_None: "List.find P xs = None \<Longrightarrow> P z \<Longrightarrow> List.find P (xs @ [z]) = Some z"
  by (induction xs) (auto split: if_splits)

lemma find_filter_id: "List.find P xs = Some y \<Longrightarrow> P y"
  by (auto simp: find_Some_iff)

interpretation rules: versioned rule_id rule_version rule_active retire_rule
  by unfold_locales (simp_all add: retire_rule_def)

section \<open>Documents\<close>

definition rule_ok :: "behavior_rule \<Rightarrow> bool" where
  "rule_ok r \<longleftrightarrow> rule_schema_version r = BEHAVIOR_RULE_SCHEMA_VERSION"

lemma typed_opt_str_opt [simp]: "typed_opt_str (opt_str x) = Inr x"
  by (cases x) (simp_all add: opt_str_def)

lemma typed_str_dict_roundtrip [simp]:
  "mapM_r (\<lambda>(k, v). bind_r (typed_str v) (\<lambda>s. Inr (k, s))) (map (\<lambda>(k, v). (k, PStr v)) d) = Inr d"
  by (induction d) auto

interpretation rule_codec: json_codec rule_to_data rule_from_data rule_ok
proof
  show "rule_from_data (rule_to_data r) = Inr r" if "rule_ok r" for r
    using that by (simp add: rule_from_data_def rule_to_data_def rule_ok_def get_required_def)
  show "rule_ok r" if "rule_from_data d = Inr r" for d r
    using that by (auto simp: rule_from_data_def rule_ok_def)
qed

lemma parse_write_rules: "list_all rule_ok rules \<Longrightarrow> list_rules (write_rules rules) True = Inr rules"
proof -
  assume "list_all rule_ok rules"
  then have "mapM_r rule_from_data (map rule_to_data rules) = Inr rules"
    by (rule rule_codec.mapM_roundtrip)
  then show ?thesis
    by (simp add: list_rules_def parse_rules_def write_rules_def mapM_r_map comp_def)
qed

lemma list_rules_ok: "list_rules file True = Inr rules \<Longrightarrow> list_all rule_ok rules"
  by (auto simp: list_rules_def parse_rules_def list_all_iff split: option.splits pyval.splits
      dest!: mapM_r_all rule_codec.parsed_ok)


section \<open>Properties\<close>

text \<open>\<^verbatim>\<open>save\<close> is a compare-and-set: with the current version of the rule (or none or 0 for a new one) it
  stores the rule under the next version and leaves every other rule as it was; any other
  expectation is an error and writes nothing.\<close>

theorem save_rule_compare_and_set:
  assumes "list_rules file True = Inr rules"
  shows "case find_rule rules (rule_id rule) of
      Some c \<Rightarrow>
        (if expected = Some (rule_version c)
         then \<exists>saved file' rules'. save_rule file rule expected = Inr (saved, file') \<and>
           list_rules file' True = Inr rules' \<and> rule_version saved = rule_version c + 1 \<and>
           find_rule rules' (rule_id rule) = Some saved \<and>
           (\<forall>r. rule_id r \<noteq> rule_id rule \<longrightarrow> (r \<in> set rules' \<longleftrightarrow> r \<in> set rules))
         else \<exists>msg. save_rule file rule expected = Inl (ValueError msg))
    | None \<Rightarrow>
        (if expected \<in> {None, Some 0}
         then \<exists>saved file'. save_rule file rule expected = Inr (saved, file') \<and>
           list_rules file' True = Inr (rules @ [saved]) \<and> rule_version saved = 1 \<and> rule_id saved = rule_id rule
         else \<exists>msg. save_rule file rule expected = Inl (ValueError msg))"
proof (cases "find_rule rules (rule_id rule)")
  case None
  then have "map (\<lambda>item. if rule_id item = rule_id rule then x else item) rules = rules" for x
    by (auto simp: find_rule_def find_None_iff intro!: map_idI)
  with None assms list_rules_ok [OF assms] show ?thesis
    by (auto simp: save_rule_def Let_def guard_r_def parse_write_rules rule_ok_def)
next
  case (Some c)
  let ?saved = "rule\<lparr>rule_version := rule_version c + 1, rule_schema_version := BEHAVIOR_RULE_SCHEMA_VERSION\<rparr>"
  let ?rules = "map (\<lambda>item. if rule_id item = rule_id rule then ?saved else item) rules"
  have "list_all rule_ok ?rules"
    using list_rules_ok [OF assms] by (auto simp: list_all_iff rule_ok_def)
  then have "list_rules (write_rules ?rules) True = Inr ?rules" by (rule parse_write_rules)
  moreover have "find_rule ?rules (rule_id rule) = Some ?saved"
    using Some rules.find_replaced [of "rule_id rule" rules c ?saved] by (simp add: find_rule_def)
  moreover have "\<forall>r. rule_id r \<noteq> rule_id rule \<longrightarrow> (r \<in> set ?rules \<longleftrightarrow> r \<in> set rules)"
    by auto
  moreover have "expected = Some (rule_version c) \<Longrightarrow>
      save_rule file rule expected = Inr (?saved, write_rules ?rules)"
    using Some assms by (simp add: save_rule_def Let_def cong: if_cong)
  moreover have "expected \<noteq> Some (rule_version c) \<Longrightarrow>
      \<exists>msg. save_rule file rule expected = Inl (ValueError msg)"
    using Some assms by (simp add: save_rule_def Let_def)
  ultimately show ?thesis
    using Some by auto
qed

definition sample_rule :: behavior_rule where
  "sample_rule =
     \<lparr>rule_id = ''r1'', rule_text = ''Run tests'', normalized_text = ''run tests'',
      rule_source_ref = ''chat:1'', rule_scope = [(''phase'', ''build'')], rule_precedence = 0,
      rule_version = 1, rule_active = True, rule_expires_at = None, supersedes_rule_id = None,
      rule_schema_version = ''behavior-rule-v1''\<rparr>"

lemma sample_rule_listed: "list_rules (write_rules [sample_rule]) True = Inr [sample_rule]"
  by (rule parse_write_rules) (simp add: rule_ok_def sample_rule_def BEHAVIOR_RULE_SCHEMA_VERSION_def)

theorem save_rule_compare_and_set_witness:
  "(\<exists>saved file'. save_rule (write_rules [sample_rule]) sample_rule (Some 1) = Inr (saved, file') \<and>
     rule_version saved = 2) \<and>
   (\<exists>msg. save_rule (write_rules [sample_rule]) sample_rule (Some 2) = Inl (ValueError msg))"
proof -
  have "find_rule [sample_rule] (rule_id sample_rule) = Some sample_rule" "rule_version sample_rule = 1"
    by (simp_all add: find_rule_def sample_rule_def)
  with save_rule_compare_and_set [OF sample_rule_listed, where rule = sample_rule and expected = "Some 1"]
    save_rule_compare_and_set [OF sample_rule_listed, where rule = sample_rule and expected = "Some 2"]
  show ?thesis by fastforce
qed

text \<open>superseding a rule retires every entry of the old identifier under the next version, installs
  the replacement as an active rule of version 1 that names its predecessor, keeps all other
  rules, keeps identifiers unique, and is refused for a stale version.\<close>

theorem supersede_rule_atomic:
  assumes "list_rules file True = Inr rules" "supersede_rule file rid replacement expected = Inr (inst, file')"
  shows "\<exists>c rules'. find_rule rules rid = Some c \<and> rule_version c = expected \<and>
    list_rules file' True = Inr rules' \<and>
    (\<forall>r \<in> set rules'. rule_id r = rid \<longrightarrow> \<not> rule_active r \<and> rule_version r = expected + 1) \<and>
    find_rule rules' (rule_id replacement) = Some inst \<and>
    rule_active inst \<and> rule_version inst = 1 \<and> supersedes_rule_id inst = Some rid \<and>
    (\<forall>r. rule_id r \<notin> {rid, rule_id replacement} \<longrightarrow> (r \<in> set rules' \<longleftrightarrow> r \<in> set rules)) \<and>
    (distinct (map rule_id rules) \<longrightarrow> distinct (map rule_id rules'))"
proof -
  let ?inst = "replacement\<lparr>rule_version := 1, rule_active := True, supersedes_rule_id := Some rid,
    rule_schema_version := BEHAVIOR_RULE_SCHEMA_VERSION\<rparr>"
  from assms obtain c where c: "find_rule rules rid = Some c" "rule_version c = expected"
    and new: "rule_id replacement \<noteq> rid" "\<not> (\<exists>item \<in> set rules. rule_id item = rule_id replacement)"
    and out: "inst = ?inst" "file' = write_rules
      (map (\<lambda>item. if rule_id item = rid then retire_rule c else item) rules @ [?inst])"
    by (auto simp: supersede_rule_def Let_def split: option.splits)
  let ?old = "map (\<lambda>item. if rule_id item = rid then retire_rule c else item) rules"
  have id: "rule_id c = rid" using c(1) by (auto simp: find_rule_def dest: find_Some_mem)
  have keys: "map rule_id ?old = map rule_id rules"
    using id by (intro rules.replaced_keys) (simp add: rules.retire_key)
  have "list_all rule_ok (?old @ [?inst])"
    using list_rules_ok [OF assms(1)] by (auto simp: list_all_iff rule_ok_def retire_rule_def)
  then have listed: "list_rules file' True = Inr (?old @ [?inst])"
    unfolding out(2) by (rule parse_write_rules)
  have "List.find (\<lambda>r. rule_id r = rule_id replacement) ?old = None"
    using new id by (auto simp: find_None_iff rules.retire_key)
  then have found: "find_rule (?old @ [?inst]) (rule_id replacement) = Some inst"
    unfolding find_rule_def out(1) by (rule find_snoc_None) simp
  have retired: "\<forall>r \<in> set (?old @ [?inst]). rule_id r = rid \<longrightarrow> \<not> rule_active r \<and> rule_version r = expected + 1"
    using rules.retired_entry [of rid rules c] c new(1) by (auto simp: find_rule_def)
  have others: "\<forall>r. rule_id r \<notin> {rid, rule_id replacement} \<longrightarrow> (r \<in> set (?old @ [?inst]) \<longleftrightarrow> r \<in> set rules)"
    using id by (auto simp: rules.retire_key)
  have "rule_id replacement \<notin> set (map rule_id rules)" using new(2) by auto
  then have "distinct (map rule_id rules) \<Longrightarrow> distinct (map rule_id (?old @ [?inst]))"
    unfolding map_append keys by simp
  with c listed found retired others out(1) show ?thesis by auto
qed

theorem supersede_rule_atomic_witness:
  "\<exists>inst file' rules'. supersede_rule (write_rules [sample_rule]) ''r1'' (sample_rule\<lparr>rule_id := ''r2''\<rparr>) 1 = Inr (inst, file') \<and>
     list_rules file' True = Inr rules' \<and> find_rule rules' ''r2'' = Some inst \<and> supersedes_rule_id inst = Some ''r1''"
proof -
  have "is_ok (supersede_rule (write_rules [sample_rule]) ''r1'' (sample_rule\<lparr>rule_id := ''r2''\<rparr>) 1)"
    by code_simp
  then obtain inst file' where s: "supersede_rule (write_rules [sample_rule]) ''r1''
      (sample_rule\<lparr>rule_id := ''r2''\<rparr>) 1 = Inr (inst, file')"
    by (auto simp: is_ok_iff)
  from supersede_rule_atomic [OF sample_rule_listed this] s show ?thesis
    by auto
qed

lemma filter_r_Inr: "filter_r p xs = Inr ys \<Longrightarrow> (\<forall>x \<in> set xs. \<exists>b. p x = Inr b) \<and> ys = filter (\<lambda>x. p x = Inr True) xs"
  by (induction xs arbitrary: ys) (auto split: if_splits)

text \<open>the rules offered for a context are exactly the active, unexpired rules whose scope the context
  satisfies, in order of falling precedence and then of identifier.\<close>

theorem applicable_rules_exact:
  assumes "applicable_behavior_rules before rules context = Inr out"
  shows "set out = {r \<in> set rules. rule_active r \<and> (\<forall>(k, v) \<in> set (rule_scope r). map_of context k = Some v) \<and>
      (\<forall>t. rule_expires_at r = Some t \<longrightarrow> before t = Inr True)} \<and>
    sorted (map (\<lambda>r. (- rule_precedence r, rule_id r)) out)"
proof -
  have iff: "is_applicable before r context = Inr True \<longleftrightarrow>
      rule_active r \<and> (\<forall>(k, v) \<in> set (rule_scope r). map_of context k = Some v) \<and>
      (\<forall>t. rule_expires_at r = Some t \<longrightarrow> before t = Inr True)" for r
    by (auto simp: is_applicable_def split: option.splits)
  from assms show ?thesis
    by (auto simp: applicable_behavior_rules_def iff dest!: filter_r_Inr)
qed

theorem applicable_rules_exact_witness:
  "sample_rule \<in> set [sample_rule] \<and>
   (\<exists>out. applicable_behavior_rules (\<lambda>t. Inr False) [sample_rule] [(''phase'', ''build'')] = Inr out \<and>
     sample_rule \<in> set out)"
proof -
  obtain out where a: "applicable_behavior_rules (\<lambda>t. Inr False) [sample_rule] [(''phase'', ''build'')] = Inr out"
    by (simp add: applicable_behavior_rules_def is_applicable_def sample_rule_def)
  from applicable_rules_exact [OF this] a show ?thesis
    by (simp add: sample_rule_def)
qed

end
