(* ===== verification/Tool_Manifest.thy ===== *)
theory Tool_Manifest
  imports Delivery_Types
begin

text \<open>
  \<^verbatim>\<open>core/tool_manifest.py\<close> and \<^verbatim>\<open>execution/tools.py\<close>: typed declarations of the tools
  the kernel may run, their validation, and the registry of adapters.

  A tool adapter is an interface of the source (a \<^verbatim>\<open>Protocol\<close>); it is a record of its
  manifest, its two operations and the optional method \<^verbatim>\<open>effects_for\<close> that some adapters have. The SHA-256 digest of the manifest's canonical JSON text is a
  parameter \<open>digest\<close>: nothing here depends on its values.
\<close>

section \<open>Manifests\<close>

definition TOOL_MANIFEST_SCHEMA_VERSION :: string where
  "TOOL_MANIFEST_SCHEMA_VERSION = ''tool-manifest-v1''"

text \<open>\<^verbatim>\<open>_IDENTIFIER = re.compile(r"^[a-z][a-z0-9_-]*$")\<close> under \<^verbatim>\<open>fullmatch\<close>.\<close>

definition is_lower :: "char \<Rightarrow> bool" where
  "is_lower c = (let n = of_char c :: nat in 97 \<le> n \<and> n \<le> 122)"

definition is_identifier_char :: "char \<Rightarrow> bool" where
  "is_identifier_char c = (let n = of_char c :: nat in
     is_lower c \<or> (48 \<le> n \<and> n \<le> 57) \<or> c = CHR ''_'' \<or> c = CHR ''-'')"

fun is_identifier :: "string \<Rightarrow> bool" where
  "is_identifier [] = False"
| "is_identifier (c # cs) = (is_lower c \<and> list_all is_identifier_char cs)"

text \<open>The character classes on the bits of a character, for evaluation.\<close>

lemma is_lower_bits [code]:
  "is_lower (Char b0 b1 b2 b3 b4 b5 b6 b7) \<longleftrightarrow>
     \<not> b7 \<and> b6 \<and> b5 \<and> (b0 \<or> b1 \<or> b2 \<or> b3 \<or> b4) \<and> \<not> (b4 \<and> b3 \<and> (b2 \<or> b1 \<and> b0))"
  by (cases b0; cases b1; cases b2; cases b3; cases b4; cases b5; cases b6; cases b7) (simp_all add: is_lower_def Let_def)

lemma is_identifier_char_bits [code]:
  "is_identifier_char (Char b0 b1 b2 b3 b4 b5 b6 b7) \<longleftrightarrow>
     is_lower (Char b0 b1 b2 b3 b4 b5 b6 b7) \<or>
     \<not> b7 \<and> \<not> b6 \<and> b5 \<and> b4 \<and> \<not> (b3 \<and> (b2 \<or> b1)) \<or>
     Char b0 b1 b2 b3 b4 b5 b6 b7 = CHR ''_'' \<or> Char b0 b1 b2 b3 b4 b5 b6 b7 = CHR ''-''"
  by (cases b0; cases b1; cases b2; cases b3; cases b4; cases b5; cases b6; cases b7)
    (simp_all add: is_identifier_char_def is_lower_bits Let_def)

datatype tool_effect =
    WORKSPACE_READ | WORKSPACE_WRITE | PROCESS_EXECUTION | NETWORK_READ | GIT_MUTATION
  | GITHUB_MUTATION | EXTERNAL_WRITE | SECRET_READ

definition effect_members :: "tool_effect list" where
  "effect_members =
     [WORKSPACE_READ, WORKSPACE_WRITE, PROCESS_EXECUTION, NETWORK_READ, GIT_MUTATION,
      GITHUB_MUTATION, EXTERNAL_WRITE, SECRET_READ]"

fun effect_value :: "tool_effect \<Rightarrow> string" where
  "effect_value WORKSPACE_READ = ''workspace_read''"
| "effect_value WORKSPACE_WRITE = ''workspace_write''"
| "effect_value PROCESS_EXECUTION = ''process_execution''"
| "effect_value NETWORK_READ = ''network_read''"
| "effect_value GIT_MUTATION = ''git_mutation''"
| "effect_value GITHUB_MUTATION = ''github_mutation''"
| "effect_value EXTERNAL_WRITE = ''external_write''"
| "effect_value SECRET_READ = ''secret_read''"

datatype idempotency_kind = IDEM_NONE | KEYED | NATURALLY_IDEMPOTENT

definition idempotency_members :: "idempotency_kind list" where
  "idempotency_members = [IDEM_NONE, KEYED, NATURALLY_IDEMPOTENT]"

fun idempotency_value :: "idempotency_kind \<Rightarrow> string" where
  "idempotency_value IDEM_NONE = ''none''"
| "idempotency_value KEYED = ''keyed''"
| "idempotency_value NATURALLY_IDEMPOTENT = ''naturally_idempotent''"

interpretation effect_enum: str_enum effect_members effect_value
proof
  show "e \<in> set effect_members" for e
    by (cases e) (simp_all add: effect_members_def)
  show "distinct (map effect_value effect_members)"
    by code_simp
qed

interpretation idempotency_enum: str_enum idempotency_members idempotency_value
proof
  show "e \<in> set idempotency_members" for e
    by (cases e) (simp_all add: idempotency_members_def)
  show "distinct (map idempotency_value idempotency_members)"
    by code_simp
qed

definition ToolEffect :: "pyval \<Rightarrow> tool_effect result" where
  "ToolEffect = enum_of ''ToolEffect'' effect_value effect_members"

lemma ToolEffect_iff [simp]: "ToolEffect v = Inr e \<longleftrightarrow> v = PStr (effect_value e)"
  by (simp add: ToolEffect_def enum_of_Inr effect_enum.str_enum_axioms)

record validation_issue =
  vi_path :: string
  vi_message :: string

record tool_manifest =
  tool_name :: string
  semantic_actions :: "string list"
  effects :: "tool_effect list"
  tm_scope :: string
  sandbox_profile :: string
  reversible :: bool
  idempotency :: idempotency_kind
  evidence_producers :: "string list"
  tm_schema_version :: string

definition manifest_to_data :: "tool_manifest \<Rightarrow> pydict" where
  "manifest_to_data m =
     [(''schema_version'', PStr (tm_schema_version m)),
      (''tool_name'', PStr (tool_name m)),
      (''semantic_actions'', str_list (semantic_actions m)),
      (''effects'', str_list (map effect_value (effects m))),
      (''scope'', PStr (tm_scope m)),
      (''sandbox_profile'', PStr (sandbox_profile m)),
      (''reversible'', PBool (reversible m)),
      (''idempotency'', PStr (idempotency_value (idempotency m))),
      (''evidence_producers'', str_list (evidence_producers m))]"

definition manifest_fingerprint_of :: "(string \<Rightarrow> string) \<Rightarrow> tool_manifest \<Rightarrow> string" where
  "manifest_fingerprint_of digest m = digest (json_compact (PDict (manifest_to_data m)))"

section \<open>Validation\<close>

definition check_identifier :: "string \<Rightarrow> string \<Rightarrow> validation_issue list" where
  "check_identifier path v =
     (if is_identifier v then []
      else [\<lparr>vi_path = path, vi_message = ''must be a lowercase identifier''\<rparr>])"

definition check_identifiers :: "string \<Rightarrow> string list \<Rightarrow> validation_issue list" where
  "check_identifiers path vs =
     (if card (set vs) \<noteq> length vs
      then [\<lparr>vi_path = path, vi_message = ''must not contain duplicates''\<rparr>] else [])
     @ concat (map (\<lambda>(i, v). check_identifier (path @ ''['' @ show_nat i @ '']'') v)
         (List.enumerate 0 vs))"

definition build_tool_manifest_validation_report :: "tool_manifest \<Rightarrow> validation_issue list" where
  "build_tool_manifest_validation_report m =
     (if tm_schema_version m \<noteq> TOOL_MANIFEST_SCHEMA_VERSION
      then [\<lparr>vi_path = ''schema_version'', vi_message = ''unsupported version''\<rparr>] else [])
     @ check_identifier ''tool_name'' (tool_name m)
     @ (if semantic_actions m = []
        then [\<lparr>vi_path = ''semantic_actions'', vi_message = ''must not be empty''\<rparr>] else [])
     @ check_identifiers ''semantic_actions'' (semantic_actions m)
     @ (if effects m = [] then [\<lparr>vi_path = ''effects'', vi_message = ''must not be empty''\<rparr>] else [])
     @ (if card (set (effects m)) \<noteq> length (effects m)
        then [\<lparr>vi_path = ''effects'', vi_message = ''must not contain duplicates''\<rparr>] else [])
     @ check_identifier ''scope'' (tm_scope m)
     @ check_identifier ''sandbox_profile'' (sandbox_profile m)
     @ check_identifiers ''evidence_producers'' (evidence_producers m)"

definition validate_tool_manifest :: "tool_manifest \<Rightarrow> unit result" where
  "validate_tool_manifest m =
     (let issues = build_tool_manifest_validation_report m
      in guard_r (issues = []) (ValueError (''Invalid tool manifest: '' @
           py_join ''; '' (map (\<lambda>i. vi_path i @ '': '' @ vi_message i) issues))))"

section \<open>Adapters and the registry\<close>

record tool_context =
  repo_root :: string
  worktree_root :: string
  ctx_semantic_actions :: "string set"
  ctx_allowed_effects :: "tool_effect set"
  ctx_execution_id :: "string option"
  ctx_active_unit_id :: "string option"
  ctx_active_persona_id :: "string option"

record tool_result =
  tr_output :: pyval
  observed_effects :: "tool_effect set"
  tr_evidence :: "string list"
  checkpoint_id :: "string option"

record tool_adapter =
  manifest :: tool_manifest
  adapter_validate :: "tool_context \<Rightarrow> pydict \<Rightarrow> string list"
  adapter_execute :: "tool_context \<Rightarrow> pydict \<Rightarrow> tool_result result"
  adapter_effects_for :: "(tool_context \<Rightarrow> pydict \<Rightarrow> tool_effect list) option"

record tool_registry =
  adapters :: "(string \<times> tool_adapter) list"
  fingerprints :: "(string \<times> string) list"

definition empty_registry :: tool_registry where
  "empty_registry = \<lparr>adapters = [], fingerprints = []\<rparr>"

definition install_adapter ::
    "(string \<Rightarrow> string) \<Rightarrow> tool_registry \<Rightarrow> tool_adapter \<Rightarrow> tool_registry" where
  "install_adapter digest reg a =
     reg\<lparr>adapters := AList.update (tool_name (manifest a)) a (adapters reg),
         fingerprints := AList.update (tool_name (manifest a))
           (manifest_fingerprint_of digest (manifest a)) (fingerprints reg)\<rparr>"

definition register ::
    "(string \<Rightarrow> string) \<Rightarrow> tool_registry \<Rightarrow> tool_adapter \<Rightarrow> tool_registry result" where
  "register digest reg a =
     bind_r (validate_tool_manifest (manifest a)) (\<lambda>_.
     bind_r (guard_r (map_of (adapters reg) (tool_name (manifest a)) = None)
       (ValueError (''Tool is already registered: '' @ tool_name (manifest a)))) (\<lambda>_.
     Inr (install_adapter digest reg a)))"

definition replace_adapter ::
    "(string \<Rightarrow> string) \<Rightarrow> tool_registry \<Rightarrow> tool_adapter \<Rightarrow> tool_registry result" where
  "replace_adapter digest reg a =
     bind_r (validate_tool_manifest (manifest a)) (\<lambda>_. Inr (install_adapter digest reg a))"

definition new_registry :: "(string \<Rightarrow> string) \<Rightarrow> tool_adapter list \<Rightarrow> tool_registry result" where
  "new_registry digest xs = foldM_r (register digest) empty_registry xs"

definition get_adapter :: "tool_registry \<Rightarrow> string \<Rightarrow> tool_adapter option" where
  "get_adapter reg name = map_of (adapters reg) name"

definition manifest_fingerprint :: "tool_registry \<Rightarrow> string \<Rightarrow> string option" where
  "manifest_fingerprint reg name = map_of (fingerprints reg) name"

definition manifests :: "tool_registry \<Rightarrow> tool_manifest list" where
  "manifests reg = map (manifest \<circ> snd) (adapters reg)"

section \<open>What validation accepts\<close>

definition manifest_ok :: "tool_manifest \<Rightarrow> bool" where
  "manifest_ok m \<longleftrightarrow> tm_schema_version m = TOOL_MANIFEST_SCHEMA_VERSION \<and>
     semantic_actions m \<noteq> [] \<and> effects m \<noteq> [] \<and>
     list_all is_identifier ([tool_name m, tm_scope m, sandbox_profile m] @
       semantic_actions m @ evidence_producers m) \<and>
     distinct (semantic_actions m) \<and> distinct (effects m) \<and> distinct (evidence_producers m)"

lemma check_identifier_Nil [simp]: "check_identifier p v = [] \<longleftrightarrow> is_identifier v"
  by (simp add: check_identifier_def)

lemma card_set_length: "card (set xs) = length xs \<longleftrightarrow> distinct xs"
  by (metis card_distinct distinct_card)

lemma check_identifiers_Nil [simp]:
  "check_identifiers p vs = [] \<longleftrightarrow> distinct vs \<and> list_all is_identifier vs"
proof -
  have "concat (map (\<lambda>(i, v). check_identifier (f i) v) (List.enumerate n vs)) = [] \<longleftrightarrow>
      list_all is_identifier vs" for n f
    by (induction vs arbitrary: n) auto
  then show ?thesis
    by (simp add: check_identifiers_def card_set_length)
qed

lemma manifest_report_Nil: "build_tool_manifest_validation_report m = [] \<longleftrightarrow> manifest_ok m"
  by (auto simp: build_tool_manifest_validation_report_def manifest_ok_def card_set_length)

lemma validate_manifest_Inr [simp]: "validate_tool_manifest m = Inr u \<longleftrightarrow> manifest_ok m"
  by (simp add: validate_tool_manifest_def Let_def manifest_report_Nil)

section \<open>The registry invariant\<close>

definition registry_ok :: "(string \<Rightarrow> string) \<Rightarrow> tool_registry \<Rightarrow> bool" where
  "registry_ok digest reg \<longleftrightarrow>
     keyed_dict (tool_name \<circ> manifest) (adapters reg) \<and>
     (\<forall>a \<in> snd ` set (adapters reg). manifest_ok (manifest a)) \<and>
     (\<forall>name. map_of (fingerprints reg) name =
        map_option (manifest_fingerprint_of digest \<circ> manifest) (map_of (adapters reg) name))"

lemma empty_registry_ok: "registry_ok digest empty_registry"
  by (simp add: registry_ok_def empty_registry_def)

lemma install_ok:
  assumes "registry_ok digest reg" "manifest_ok (manifest a)"
  shows "registry_ok digest (install_adapter digest reg a)"
proof -
  have "keyed_dict (tool_name \<circ> manifest) (AList.update (tool_name (manifest a)) a (adapters reg))"
    using assms(1) keyed_dict_update [of "tool_name \<circ> manifest" "adapters reg" a]
    by (simp add: registry_ok_def)
  moreover have "\<forall>b \<in> snd ` set (AList.update (tool_name (manifest a)) a (adapters reg)). manifest_ok (manifest b)"
    using assms by (intro values_update_all) (auto simp: registry_ok_def)
  ultimately show ?thesis
    using assms(1) by (simp add: registry_ok_def install_adapter_def update_conv')
qed

lemma register_ok: "register digest reg a = Inr reg' \<Longrightarrow> registry_ok digest reg \<Longrightarrow> registry_ok digest reg'"
  by (auto simp: register_def install_ok)

lemma replace_ok: "replace_adapter digest reg a = Inr reg' \<Longrightarrow> registry_ok digest reg \<Longrightarrow> registry_ok digest reg'"
  by (auto simp: replace_adapter_def install_ok)

lemma new_registry_ok: "new_registry digest xs = Inr reg \<Longrightarrow> registry_ok digest reg"
  unfolding new_registry_def
  by (erule foldM_r_invariant) (auto intro: empty_registry_ok register_ok)

lemma get_adapter_install [simp]:
  "get_adapter (install_adapter digest reg a) name =
    (if name = tool_name (manifest a) then Some a else get_adapter reg name)"
  by (simp add: get_adapter_def install_adapter_def update_conv')

lemma registry_lookup:
  assumes "registry_ok digest reg" "get_adapter reg name = Some a"
  shows "tool_name (manifest a) = name \<and> manifest_ok (manifest a) \<and>
    manifest_fingerprint reg name = Some (manifest_fingerprint_of digest (manifest a))"
proof -
  have "(name, a) \<in> set (adapters reg)"
    using assms(2) by (simp add: get_adapter_def map_of_SomeD)
  with assms show ?thesis
    by (force simp: registry_ok_def get_adapter_def manifest_fingerprint_def keyed_dict_def)
qed

inductive registry_reachable :: "(string \<Rightarrow> string) \<Rightarrow> tool_registry \<Rightarrow> bool" for digest where
  reg_empty: "registry_reachable digest empty_registry"
| reg_register: "registry_reachable digest reg \<Longrightarrow> register digest reg a = Inr reg' \<Longrightarrow>
    registry_reachable digest reg'"
| reg_replace: "registry_reachable digest reg \<Longrightarrow> replace_adapter digest reg a = Inr reg' \<Longrightarrow>
    registry_reachable digest reg'"

lemma registry_reachable_ok: "registry_reachable digest reg \<Longrightarrow> registry_ok digest reg"
  by (induction rule: registry_reachable.induct) (auto intro: empty_registry_ok register_ok replace_ok)

section \<open>Properties\<close>

text \<open>a registry built and changed only by registering and replacing adapters holds every adapter
  under its manifest's name, with a valid manifest and the fingerprint of that very manifest.\<close>

theorem registry_consistent:
  assumes "registry_reachable digest reg" "get_adapter reg name = Some a"
  shows "tool_name (manifest a) = name \<and> manifest_ok (manifest a) \<and>
    manifest_fingerprint reg name = Some (manifest_fingerprint_of digest (manifest a))"
  using registry_lookup registry_reachable_ok assms by blast

definition sample_manifest :: tool_manifest where
  "sample_manifest =
     \<lparr>tool_name = ''edit'', semantic_actions = [''edit_file''], effects = [WORKSPACE_WRITE],
      tm_scope = ''worktree'', sandbox_profile = ''workspace'', reversible = True,
      idempotency = KEYED, evidence_producers = [], tm_schema_version = ''tool-manifest-v1''\<rparr>"

definition sample_adapter :: tool_adapter where
  "sample_adapter =
     \<lparr>manifest = sample_manifest, adapter_validate = \<lambda>ctx args. [],
      adapter_execute = \<lambda>ctx args. Inr \<lparr>tr_output = PNone, observed_effects = {},
        tr_evidence = [], checkpoint_id = None\<rparr>, adapter_effects_for = None\<rparr>"

lemma sample_manifest_ok: "manifest_ok sample_manifest"
  by code_simp

theorem registry_consistent_witness:
  "tool_name (manifest sample_adapter) = ''edit'' \<and>
   manifest_fingerprint (install_adapter id empty_registry sample_adapter) ''edit'' =
     Some (manifest_fingerprint_of id sample_manifest)"
proof -
  have "register id empty_registry sample_adapter = Inr (install_adapter id empty_registry sample_adapter)"
    by (simp add: register_def sample_adapter_def sample_manifest_ok empty_registry_def)
  then have "registry_reachable id (install_adapter id empty_registry sample_adapter)"
    using reg_empty reg_register by blast
  moreover have "get_adapter (install_adapter id empty_registry sample_adapter) ''edit'' = Some sample_adapter"
    by (simp add: sample_adapter_def sample_manifest_def)
  ultimately show ?thesis
    using registry_consistent by (fastforce simp: sample_adapter_def)
qed

end
