(* ===== verification/Capability_Broker.thy ===== *)
theory Capability_Broker
  imports Behavior_Rules Tool_Manifest "HOL-Library.Sublist"
begin

text \<open>
  \<^verbatim>\<open>core/capability_exception.py\<close> and \<^verbatim>\<open>execution/capabilities.py\<close>: the broker that decides
  whether a tool request may run, and the signed, use-limited exceptions to its effect constraints.

  SHA-256 and HMAC are the fields of \<open>crypto\<close>, the wall clock and the comparison of an expiry date with it
  the fields of \<open>clock\<close> (the comparison raises for a text that is no date). The exception store is the
  directory of \<^verbatim>\<open>FileCapabilityExceptionStore\<close>, a table from file names to JSON documents in which
  \<^verbatim>\<open>_write\<close> replaces one file; \<open>None\<close> is a broker without a store. An operation returns its result or
  exception together with the broker it leaves behind, since caches filled before an exception stay.
\<close>

section \<open>Exception requests and decisions\<close>

record crypto =
  sha256_hex :: "string \<Rightarrow> string"
  hmac_hex :: "string \<Rightarrow> string \<Rightarrow> string"

record clock =
  utc_now :: string
  past :: "string \<Rightarrow> bool result"

record exception_request =
  ce_exception_id :: string
  ce_execution_id :: string
  ce_tool_name :: string
  ce_semantic_action :: string
  ce_arguments :: pydict
  ce_manifest_fingerprint :: string
  ce_effects :: "tool_effect list"
  ce_reason :: string
  ce_created_at :: string
  ce_expires_at :: string
  ce_max_uses :: int

definition exception_binding :: "crypto \<Rightarrow> exception_request \<Rightarrow> string" where
  "exception_binding cr x = sha256_hex cr (json_compact (PDict
     [(''exception_id'', PStr (ce_exception_id x)), (''execution_id'', PStr (ce_execution_id x)),
      (''tool_name'', PStr (ce_tool_name x)), (''semantic_action'', PStr (ce_semantic_action x)),
      (''arguments'', PDict (ce_arguments x)), (''manifest_fingerprint'', PStr (ce_manifest_fingerprint x)),
      (''effects'', str_list (map effect_value (ce_effects x))), (''expires_at'', PStr (ce_expires_at x)),
      (''max_uses'', PInt (ce_max_uses x))]))"

definition exception_to_data :: "exception_request \<Rightarrow> pydict" where
  "exception_to_data x =
     [(''exception_id'', PStr (ce_exception_id x)), (''execution_id'', PStr (ce_execution_id x)),
      (''tool_name'', PStr (ce_tool_name x)), (''semantic_action'', PStr (ce_semantic_action x)),
      (''arguments'', PDict (ce_arguments x)), (''manifest_fingerprint'', PStr (ce_manifest_fingerprint x)),
      (''effects'', str_list (map effect_value (ce_effects x))), (''reason'', PStr (ce_reason x)),
      (''created_at'', PStr (ce_created_at x)), (''expires_at'', PStr (ce_expires_at x)),
      (''max_uses'', PInt (ce_max_uses x))]"

text \<open>\<^verbatim>\<open>decision_packet\<close> returns the same document as \<^verbatim>\<open>to_data\<close>.\<close>

definition decision_packet :: "exception_request \<Rightarrow> pydict" where
  "decision_packet x = exception_to_data x"

fun typed_dict :: "pyval \<Rightarrow> pydict result" where
  "typed_dict (PDict d) = Inr d"
| "typed_dict _ = Inl MalformedDocument"

fun typed_list :: "pyval \<Rightarrow> pyval list result" where
  "typed_list (PList xs) = Inr xs"
| "typed_list _ = Inl MalformedDocument"

definition exception_from_data :: "pydict \<Rightarrow> exception_request result" where
  "exception_from_data data =
     bind_r (bind_r (get_required data ''exception_id'') typed_str) (\<lambda>xid.
     bind_r (bind_r (get_required data ''execution_id'') typed_str) (\<lambda>eid.
     bind_r (bind_r (get_required data ''tool_name'') typed_str) (\<lambda>tool.
     bind_r (bind_r (get_required data ''semantic_action'') typed_str) (\<lambda>act.
     bind_r (bind_r (get_required data ''arguments'') typed_dict) (\<lambda>args.
     bind_r (bind_r (get_required data ''manifest_fingerprint'') typed_str) (\<lambda>fp.
     bind_r (bind_r (bind_r (get_required data ''effects'') typed_list) (mapM_r ToolEffect)) (\<lambda>effs.
     bind_r (bind_r (get_required data ''reason'') typed_str) (\<lambda>why.
     bind_r (bind_r (get_required data ''created_at'') typed_str) (\<lambda>cre.
     bind_r (bind_r (get_required data ''expires_at'') typed_str) (\<lambda>expi.
     bind_r (bind_r (get_required data ''max_uses'') typed_int) (\<lambda>mx.
     Inr \<lparr>ce_exception_id = xid, ce_execution_id = eid, ce_tool_name = tool, ce_semantic_action = act,
          ce_arguments = args, ce_manifest_fingerprint = fp, ce_effects = effs, ce_reason = why,
          ce_created_at = cre, ce_expires_at = expi, ce_max_uses = mx\<rparr>)))))))))))"

record exception_decision =
  cd_exception_id :: string
  cd_binding :: string
  cd_approved :: bool
  cd_decided_by :: string
  cd_decided_at :: string
  cd_token :: "string option"
  cd_uses :: int

definition decision_to_data :: "exception_decision \<Rightarrow> pydict" where
  "decision_to_data d =
     [(''exception_id'', PStr (cd_exception_id d)), (''binding'', PStr (cd_binding d)),
      (''approved'', PBool (cd_approved d)), (''decided_by'', PStr (cd_decided_by d)),
      (''decided_at'', PStr (cd_decided_at d)), (''token'', opt_str (cd_token d)), (''uses'', PInt (cd_uses d))]"

definition decision_from_data :: "pydict \<Rightarrow> exception_decision result" where
  "decision_from_data data =
     bind_r (bind_r (get_required data ''exception_id'') typed_str) (\<lambda>xid.
     bind_r (bind_r (get_required data ''binding'') typed_str) (\<lambda>bnd.
     bind_r (bind_r (get_required data ''approved'') typed_bool) (\<lambda>ok.
     bind_r (bind_r (get_required data ''decided_by'') typed_str) (\<lambda>by_id.
     bind_r (bind_r (get_required data ''decided_at'') typed_str) (\<lambda>at_time.
     bind_r (typed_opt_str (get_item data ''token'')) (\<lambda>tok.
     bind_r (bind_r (get_required data ''uses'') typed_int) (\<lambda>n.
     Inr \<lparr>cd_exception_id = xid, cd_binding = bnd, cd_approved = ok, cd_decided_by = by_id,
          cd_decided_at = at_time, cd_token = tok, cd_uses = n\<rparr>)))))))"

text \<open>\<^verbatim>\<open>CapabilityExceptionAuthority\<close>: its state is the secret.\<close>

definition new_authority :: "string \<Rightarrow> string result" where
  "new_authority secret =
     bind_r (guard_r (secret \<noteq> []) (ValueError ''Capability exception signing secret must not be empty.'')) (\<lambda>_.
     Inr secret)"

definition sign_exception :: "crypto \<Rightarrow> string \<Rightarrow> exception_request \<Rightarrow> string" where
  "sign_exception cr secret x = hmac_hex cr secret (exception_binding cr x)"

definition verify_token :: "crypto \<Rightarrow> string \<Rightarrow> exception_request \<Rightarrow> string \<Rightarrow> bool" where
  "verify_token cr secret x token = (sign_exception cr secret x = token)"

definition is_expired :: "clock \<Rightarrow> exception_request \<Rightarrow> bool result" where
  "is_expired clk x = past clk (ce_expires_at x)"

section \<open>The exception store\<close>

type_synonym exception_files = "(string \<times> pyval) list"

definition file_stem :: "string \<Rightarrow> string" where
  "file_stem xid = map (\<lambda>c. if c = CHR '':'' then CHR ''_'' else c) xid"

definition decision_file :: "string \<Rightarrow> string" where
  "decision_file xid = file_stem xid @ ''.json''"

definition request_file :: "string \<Rightarrow> string" where
  "request_file xid = file_stem xid @ ''.request.json''"

definition save_decision :: "exception_files \<Rightarrow> exception_request \<Rightarrow> exception_decision \<Rightarrow> exception_files" where
  "save_decision fs x d = AList.update (decision_file (ce_exception_id x))
     (PDict [(''exception'', PDict (exception_to_data x)), (''decision'', PDict (decision_to_data d))]) fs"

definition save_request :: "exception_files \<Rightarrow> exception_request \<Rightarrow> exception_files" where
  "save_request fs x = AList.update (request_file (ce_exception_id x))
     (PDict [(''exception'', PDict (exception_to_data x))]) fs"

definition load_decision ::
    "exception_files \<Rightarrow> string \<Rightarrow> (exception_request \<times> exception_decision) option result" where
  "load_decision fs xid =
     (case map_of fs (decision_file xid) of
        None \<Rightarrow> Inr None
      | Some doc \<Rightarrow>
          bind_r (typed_dict doc) (\<lambda>data.
          bind_r (bind_r (bind_r (get_required data ''exception'') typed_dict) exception_from_data) (\<lambda>x.
          bind_r (bind_r (bind_r (get_required data ''decision'') typed_dict) decision_from_data) (\<lambda>d.
          Inr (Some (x, d))))))"

definition read_request :: "pyval \<Rightarrow> exception_request result" where
  "read_request doc =
     bind_r (typed_dict doc) (\<lambda>data.
     bind_r (bind_r (get_required data ''exception'') typed_dict) exception_from_data)"

definition load_request :: "exception_files \<Rightarrow> string \<Rightarrow> exception_request option result" where
  "load_request fs xid =
     (case map_of fs (request_file xid) of
        None \<Rightarrow> Inr None
      | Some doc \<Rightarrow> bind_r (read_request doc) (\<lambda>x. Inr (Some x)))"

fun undecided :: "exception_files \<Rightarrow> (string \<times> pyval) list \<Rightarrow> exception_request list result" where
  "undecided fs [] = Inr []"
| "undecided fs ((name, doc) # rest) =
     bind_r (read_request doc) (\<lambda>x.
     bind_r (load_decision fs (ce_exception_id x)) (\<lambda>stored.
     bind_r (undecided fs rest) (\<lambda>xs.
     Inr (if stored = None then x # xs else xs))))"

definition pending_requests :: "exception_files \<Rightarrow> exception_request list result" where
  "pending_requests fs = undecided fs (sort_key fst (filter (\<lambda>(name, doc). suffix ''.request.json'' name) fs))"

section \<open>Requests, resolutions and the broker\<close>

datatype resolution_kind = EXECUTABLE | CORRECTABLE | EXCEPTION_REQUIRED | DENIED

fun resolution_value :: "resolution_kind \<Rightarrow> string" where
  "resolution_value EXECUTABLE = ''executable''"
| "resolution_value CORRECTABLE = ''correctable''"
| "resolution_value EXCEPTION_REQUIRED = ''exception_required''"
| "resolution_value DENIED = ''denied''"

record capability_request =
  rq_tool_name :: string
  rq_semantic_action :: string
  rq_arguments :: pydict
  rq_exception_token :: "string option"

record capability_resolution =
  rs_kind :: resolution_kind
  rs_reason :: string
  rs_adapter :: "tool_adapter option"
  rs_arguments :: "pydict option"
  rs_manifest_fingerprint :: "string option"

record capability_decision =
  dc_tool_name :: string
  dc_semantic_action :: string
  dc_kind :: resolution_kind
  dc_reason :: string
  dc_manifest_fingerprint :: "string option"
  dc_arguments :: pydict
  dc_checkpoint_id :: "string option"

definition capability_decision_to_data :: "capability_decision \<Rightarrow> pydict" where
  "capability_decision_to_data c =
     [(''tool_name'', PStr (dc_tool_name c)), (''semantic_action'', PStr (dc_semantic_action c)),
      (''kind'', PStr (resolution_value (dc_kind c))), (''reason'', PStr (dc_reason c)),
      (''manifest_fingerprint'', opt_str (dc_manifest_fingerprint c)), (''arguments'', PDict (dc_arguments c)),
      (''checkpoint_id'', opt_str (dc_checkpoint_id c))]"

record capability_broker =
  cb_registry :: tool_registry
  cb_authority :: "string option"
  cb_store :: "exception_files option"
  cb_decisions :: "(string \<times> exception_decision) list"
  cb_exceptions :: "(string \<times> exception_request) list"
  cb_decision_log :: "capability_decision list"

definition new_broker :: "tool_registry \<Rightarrow> string option \<Rightarrow> exception_files option \<Rightarrow> capability_broker" where
  "new_broker reg auth store =
     \<lparr>cb_registry = reg, cb_authority = auth, cb_store = store, cb_decisions = [], cb_exceptions = [],
      cb_decision_log = []\<rparr>"

text \<open>The identifier f"{execution}:{tool}:{action}"; an absent execution prints as None.\<close>

definition base_exception_id :: "string option \<Rightarrow> capability_request \<Rightarrow> string" where
  "base_exception_id eid rq =
     (case eid of None \<Rightarrow> ''None'' | Some e \<Rightarrow> e) @ '':'' @ rq_tool_name rq @ '':'' @ rq_semantic_action rq"

definition adapter_effects :: "tool_adapter \<Rightarrow> tool_context \<Rightarrow> pydict \<Rightarrow> tool_effect list" where
  "adapter_effects a ctx args =
     (case adapter_effects_for a of Some f \<Rightarrow> f ctx args | None \<Rightarrow> effects (manifest a))"

definition cache_exception :: "string \<Rightarrow> exception_request \<Rightarrow> capability_broker \<Rightarrow> capability_broker" where
  "cache_exception k x br = br\<lparr>cb_exceptions := AList.update k x (cb_exceptions br)\<rparr>"

definition cache_decision :: "string \<Rightarrow> exception_decision \<Rightarrow> capability_broker \<Rightarrow> capability_broker" where
  "cache_decision k d br = br\<lparr>cb_decisions := AList.update k d (cb_decisions br)\<rparr>"

definition store_decision :: "exception_request \<Rightarrow> exception_decision \<Rightarrow> capability_broker \<Rightarrow> capability_broker" where
  "store_decision x d br = br\<lparr>cb_store := map_option (\<lambda>fs. save_decision fs x d) (cb_store br)\<rparr>"

definition log_decision :: "capability_decision \<Rightarrow> capability_broker \<Rightarrow> capability_broker" where
  "log_decision c br = br\<lparr>cb_decision_log := cb_decision_log br @ [c]\<rparr>"

definition existing_request :: "capability_broker \<Rightarrow> string \<Rightarrow> exception_request option result" where
  "existing_request br xid =
     (case map_of (cb_exceptions br) xid of
        Some x \<Rightarrow> Inr (Some x)
      | None \<Rightarrow> (case cb_store br of None \<Rightarrow> Inr None | Some fs \<Rightarrow> load_request fs xid))"

definition create_exception_request ::
    "crypto \<Rightarrow> clock \<Rightarrow> capability_broker \<Rightarrow> tool_context \<Rightarrow> capability_request \<Rightarrow> string \<Rightarrow> string \<Rightarrow> int
     \<Rightarrow> exception_request option result \<times> capability_broker" where
  "create_exception_request cr clk br ctx rq reason expires_at max_uses =
     (case (ctx_execution_id ctx, get_adapter (cb_registry br) (rq_tool_name rq)) of
        (Some eid, Some a) \<Rightarrow>
          if rq_semantic_action rq \<notin> set (semantic_actions (manifest a)) then (Inr None, br)
          else if max_uses < 1 then
            (Inl (PowdrrExecutionError ''capability_exception_invalid_use_count'' ''max_uses must be positive''), br)
          else
            let x = \<lparr>ce_exception_id = base_exception_id (Some eid) rq, ce_execution_id = eid,
                  ce_tool_name = rq_tool_name rq, ce_semantic_action = rq_semantic_action rq,
                  ce_arguments = rq_arguments rq,
                  ce_manifest_fingerprint = manifest_fingerprint_of (sha256_hex cr) (manifest a),
                  ce_effects = adapter_effects a ctx (rq_arguments rq), ce_reason = reason,
                  ce_created_at = utc_now clk, ce_expires_at = expires_at, ce_max_uses = max_uses\<rparr>;
                install = (\<lambda>y. (Inr (Some y),
                  (cache_exception (ce_exception_id y) y br)
                    \<lparr>cb_store := map_option (\<lambda>fs. save_request fs y) (cb_store br)\<rparr>)) in
            (case existing_request br (ce_exception_id x) of
               Inl e \<Rightarrow> (Inl e, br)
             | Inr None \<Rightarrow> install x
             | Inr (Some old) \<Rightarrow>
                 if py_eq (PDict (ce_arguments old)) (PDict (ce_arguments x)) then (Inr (Some old), br)
                 else install (x\<lparr>ce_exception_id := ce_exception_id x @ '':'' @
                   take 12 (sha256_hex cr (json_sorted (PDict (ce_arguments x))))\<rparr>))
      | _ \<Rightarrow> (Inr None, br))"

definition find_decision ::
    "capability_broker \<Rightarrow> string \<Rightarrow> (exception_decision option \<times> capability_broker) result" where
  "find_decision br xid =
     (case map_of (cb_decisions br) xid of
        Some d \<Rightarrow> Inr (Some d, br)
      | None \<Rightarrow>
          (case cb_store br of
             None \<Rightarrow> Inr (None, br)
           | Some fs \<Rightarrow>
               bind_r (load_decision fs xid) (\<lambda>stored.
               case stored of
                 None \<Rightarrow> Inr (None, br)
               | Some (_, d) \<Rightarrow> Inr (Some d, cache_decision xid d br))))"

definition decide_exception ::
    "crypto \<Rightarrow> clock \<Rightarrow> capability_broker \<Rightarrow> exception_request \<Rightarrow> bool \<Rightarrow> string
     \<Rightarrow> exception_decision result \<times> capability_broker" where
  "decide_exception cr clk br x approved decided_by =
     (case cb_authority br of
        None \<Rightarrow> (Inl (PowdrrExecutionError ''capability_exception_authority_missing''
          ''An exception authority is required to decide capabilities.''), br)
      | Some secret \<Rightarrow>
          (case is_expired clk x of
             Inl e \<Rightarrow> (Inl e, br)
           | Inr True \<Rightarrow> (Inl (PowdrrExecutionError ''capability_exception_expired''
               ''Cannot decide an expired capability exception.''), br)
           | Inr False \<Rightarrow>
               (case find_decision br (ce_exception_id x) of
                  Inl e \<Rightarrow> (Inl e, br)
                | Inr (Some d, br1) \<Rightarrow>
                    if cd_approved d \<noteq> approved \<or> cd_decided_by d \<noteq> decided_by then
                      (Inl (PowdrrExecutionError ''capability_exception_decision_conflict''
                        (''capability exception '' @ py_repr (ce_exception_id x) @ '' already has a decision'')), br1)
                    else (Inr d, br1)
                | Inr (None, br1) \<Rightarrow>
                    let d = \<lparr>cd_exception_id = ce_exception_id x, cd_binding = exception_binding cr x,
                          cd_approved = approved, cd_decided_by = decided_by, cd_decided_at = utc_now clk,
                          cd_token = (if approved then Some (sign_exception cr secret x) else None), cd_uses = 0\<rparr> in
                    (Inr d, store_decision x d (log_decision
                       \<lparr>dc_tool_name = ce_tool_name x, dc_semantic_action = ce_semantic_action x,
                        dc_kind = (if approved then EXECUTABLE else DENIED),
                        dc_reason = (if approved then ''exception approved'' else ''exception denied''),
                        dc_manifest_fingerprint = Some (ce_manifest_fingerprint x), dc_arguments = [],
                        dc_checkpoint_id = None\<rparr> (cache_decision (ce_exception_id x) d br1))))))"

section \<open>Resolution\<close>

text \<open>\<^verbatim>\<open>_record\<close>: log the resolution and return it.\<close>

definition record_resolution ::
    "capability_request \<Rightarrow> capability_resolution \<Rightarrow> string option \<Rightarrow> capability_broker
     \<Rightarrow> capability_resolution result \<times> capability_broker" where
  "record_resolution rq res fp br =
     (Inr res, log_decision
        \<lparr>dc_tool_name = rq_tool_name rq, dc_semantic_action = rq_semantic_action rq, dc_kind = rs_kind res,
         dc_reason = rs_reason res,
         dc_manifest_fingerprint = (case fp of Some (c # cs) \<Rightarrow> fp | _ \<Rightarrow> rs_manifest_fingerprint res),
         dc_arguments = rq_arguments rq, dc_checkpoint_id = None\<rparr> br)"

definition refusal :: "resolution_kind \<Rightarrow> string \<Rightarrow> capability_resolution" where
  "refusal k why = \<lparr>rs_kind = k, rs_reason = why, rs_adapter = None, rs_arguments = None, rs_manifest_fingerprint = None\<rparr>"

definition admission :: "string \<Rightarrow> tool_adapter \<Rightarrow> pydict \<Rightarrow> string \<Rightarrow> capability_resolution" where
  "admission why a args fp =
     \<lparr>rs_kind = EXECUTABLE, rs_reason = why, rs_adapter = Some a, rs_arguments = Some args,
      rs_manifest_fingerprint = Some fp\<rparr>"

text \<open>
  \<^verbatim>\<open>_scope_error\<close>: \<open>fs\<close> is \<^verbatim>\<open>Path.resolve\<close>, the components of the absolute path a text stands for;
  \<open>root\<close> holds those of the worktree. A path is inside it if its components extend the root's.
\<close>

definition under_root :: "string list \<Rightarrow> string \<Rightarrow> string" where
  "under_root root v = ''/'' @ py_join ''/'' (root @ [v])"

fun scope_error :: "(string \<Rightarrow> string list) \<Rightarrow> string list \<Rightarrow> pydict \<Rightarrow> string option" where
  "scope_error fs root [] = None"
| "scope_error fs root ((key, v) # args) =
     (case v of
        PStr s \<Rightarrow>
          if key \<notin> {''path'', ''file_path'', ''directory'', ''cwd''} then scope_error fs root args
          else if startswith s ''/'' then Some (key @ '' must be relative to the active worktree'')
          else if \<not> prefix root (fs (under_root root s)) then Some (key @ '' escapes the active worktree'')
          else scope_error fs root args
      | _ \<Rightarrow> scope_error fs root args)"

text \<open>
  The exception a request refers to when effects are missing: the one in memory, or the first pending one
  for the same execution, tool, action and arguments, which is then cached and gives its identifier.
\<close>

definition locate_exception ::
    "capability_broker \<Rightarrow> tool_context \<Rightarrow> capability_request \<Rightarrow> (string \<times> capability_broker) result" where
  "locate_exception br ctx rq =
     (let xid = base_exception_id (ctx_execution_id ctx) rq in
      case (map_of (cb_exceptions br) xid, cb_store br) of
        (None, Some fs) \<Rightarrow>
          bind_r (pending_requests fs) (\<lambda>xs.
          case List.find (\<lambda>x. Some (ce_execution_id x) = ctx_execution_id ctx \<and> ce_tool_name x = rq_tool_name rq \<and>
              ce_semantic_action x = rq_semantic_action rq \<and>
              py_eq (PDict (ce_arguments x)) (PDict (rq_arguments rq))) xs of
            None \<Rightarrow> Inr (xid, br)
          | Some x \<Rightarrow> Inr (ce_exception_id x, cache_exception (ce_exception_id x) x br))
      | _ \<Rightarrow> Inr (xid, br))"

text \<open>The decision in memory for the request's own identifier, or the stored one, cached with its exception.\<close>

definition locate_decision ::
    "capability_broker \<Rightarrow> string \<Rightarrow> exception_decision option \<Rightarrow> (exception_decision option \<times> capability_broker) result" where
  "locate_decision br xid decision =
     (case (decision, cb_store br) of
        (None, Some fs) \<Rightarrow>
          bind_r (load_decision fs xid) (\<lambda>stored.
          case stored of
            None \<Rightarrow> Inr (None, br)
          | Some (x, d) \<Rightarrow> Inr (Some d, cache_decision xid d (cache_exception xid x br)))
      | _ \<Rightarrow> Inr (decision, br))"

text \<open>Whether an approved decision covers the request, and the exception it was made for.\<close>

definition usable_exception ::
    "crypto \<Rightarrow> clock \<Rightarrow> capability_broker \<Rightarrow> tool_context \<Rightarrow> capability_request \<Rightarrow> exception_decision
     \<Rightarrow> exception_request option result" where
  "usable_exception cr clk br ctx rq d =
     (case (cb_authority br, map_of (cb_exceptions br) (cd_exception_id d)) of
        (Some secret, Some x) \<Rightarrow>
          if cd_approved d \<and> cd_token d \<noteq> None \<and> ctx_execution_id ctx \<noteq> None then
            bind_r (is_expired clk x) (\<lambda>late.
            Inr (if \<not> late \<and> py_eq (PDict (ce_arguments x)) (PDict (rq_arguments rq)) \<and>
                  verify_token cr secret x (case rq_exception_token rq of None \<Rightarrow> '''' | Some t \<Rightarrow> t) \<and>
                  cd_binding d = exception_binding cr x \<and> cd_uses d < ce_max_uses x
                then Some x else None))
          else Inr None
      | _ \<Rightarrow> Inr None)"

definition consume_exception :: "exception_request \<Rightarrow> exception_decision \<Rightarrow> capability_broker \<Rightarrow> capability_broker" where
  "consume_exception x d br =
     (let d' = d\<lparr>cd_uses := cd_uses d + 1\<rparr> in store_decision x d' (cache_decision (cd_exception_id d) d' br))"

text \<open>The branch of \<^verbatim>\<open>resolve\<close> for requests with effects the context does not allow.\<close>

definition resolve_missing ::
    "crypto \<Rightarrow> clock \<Rightarrow> capability_broker \<Rightarrow> tool_context \<Rightarrow> capability_request \<Rightarrow> tool_adapter \<Rightarrow> tool_effect list
     \<Rightarrow> capability_resolution result \<times> capability_broker" where
  "resolve_missing cr clk br ctx rq a missing =
     (let fp = manifest_fingerprint_of (sha256_hex cr) (manifest a);
          kind = (if SECRET_READ \<in> set missing then DENIED else EXCEPTION_REQUIRED);
          refuse = record_resolution rq (refusal kind
            (''tool requires unavailable effects: '' @ py_join '', '' (sorted_set (map effect_value missing)))) (Some fp);
          decision = map_of (cb_decisions br) (base_exception_id (ctx_execution_id ctx) rq) in
      case locate_exception br ctx rq of
        Inl e \<Rightarrow> (Inl e, br)
      | Inr (xid, br1) \<Rightarrow>
          (case locate_decision br1 xid decision of
             Inl e \<Rightarrow> (Inl e, br1)
           | Inr (None, br2) \<Rightarrow> refuse br2
           | Inr (Some d, br2) \<Rightarrow>
               if kind = EXCEPTION_REQUIRED then
                 (case usable_exception cr clk br2 ctx rq d of
                    Inl e \<Rightarrow> (Inl e, br2)
                  | Inr None \<Rightarrow> refuse br2
                  | Inr (Some x) \<Rightarrow>
                      record_resolution rq (admission ''approved exception'' a (rq_arguments rq) fp) (Some fp)
                        (consume_exception x d br2))
               else refuse br2))"

definition resolve ::
    "crypto \<Rightarrow> clock \<Rightarrow> (string \<Rightarrow> string list) \<Rightarrow> capability_broker \<Rightarrow> tool_context \<Rightarrow> capability_request
     \<Rightarrow> capability_resolution result \<times> capability_broker" where
  "resolve cr clk fs br ctx rq =
     (case get_adapter (cb_registry br) (rq_tool_name rq) of
        None \<Rightarrow> record_resolution rq (refusal DENIED ''unknown tool'') None br
      | Some a \<Rightarrow>
          let fp = manifest_fingerprint_of (sha256_hex cr) (manifest a);
              missing = filter (\<lambda>e. e \<notin> ctx_allowed_effects ctx) (adapter_effects a ctx (rq_arguments rq)) in
          if rq_semantic_action rq \<notin> set (semantic_actions (manifest a))
          then record_resolution rq (refusal DENIED ''action is not supported by tool'') (Some fp) br
          else if rq_semantic_action rq \<notin> ctx_semantic_actions ctx
          then record_resolution rq (refusal DENIED ''action is not allowed in this step'') (Some fp) br
          else if missing \<noteq> [] then resolve_missing cr clk br ctx rq a missing
          else
            (case scope_error fs (fs (worktree_root ctx)) (rq_arguments rq) of
               Some err \<Rightarrow> record_resolution rq (refusal CORRECTABLE err) (Some fp) br
             | None \<Rightarrow>
                 let errors = adapter_validate a ctx (rq_arguments rq) in
                 if errors \<noteq> [] then record_resolution rq (refusal CORRECTABLE (py_join ''; '' errors)) (Some fp) br
                 else record_resolution rq
                   (admission ''request satisfies manifest and step constraints'' a (rq_arguments rq) fp) (Some fp) br))"

section \<open>Invocation\<close>

text \<open>
  \<open>invoke_hooks\<close> are the checkpoint store and the state provider of the broker. \<^verbatim>\<open>changed\<close> is the outcome of
  loading the checkpoint and comparing it with the worktree after a failure, if the store can do that;
  \<open>exc_text\<close> prints an exception. What an invocation does to the outside is the list of its effects.
\<close>

record checkpoint_hooks =
  cp_create :: "string \<Rightarrow> string \<Rightarrow> string option \<Rightarrow> unit result"
  cp_changed :: "(string \<Rightarrow> string \<Rightarrow> string list result) option"

record invoke_hooks =
  checkpoint_store :: "checkpoint_hooks option"
  state_json_provider :: "(tool_context \<Rightarrow> string option) option"
  exc_text :: "exc \<Rightarrow> string"

datatype outside_effect = CreateCheckpoint string "string option" | ExecuteTool string pydict

datatype invocation_result = Invoked tool_result | NotExecuted capability_resolution

definition invocation_checkpoint_id :: "crypto \<Rightarrow> tool_context \<Rightarrow> capability_request \<Rightarrow> string" where
  "invocation_checkpoint_id cr ctx rq = ''before-'' @ take 24 (sha256_hex cr (json_compact (PDict
     [(''execution_id'', opt_str (ctx_execution_id ctx)), (''tool'', PStr (rq_tool_name rq)),
      (''action'', PStr (rq_semantic_action rq)), (''arguments'', PDict (rq_arguments rq))])))"

definition mutating :: "tool_effect list \<Rightarrow> bool" where
  "mutating es = list_ex (\<lambda>e. e \<noteq> WORKSPACE_READ) es"

definition failed_invocation ::
    "invoke_hooks \<Rightarrow> tool_context \<Rightarrow> capability_request \<Rightarrow> string option \<Rightarrow> exc \<Rightarrow> exc" where
  "failed_invocation h ctx rq cid err =
     (case (case (cid, checkpoint_store h) of
              (Some c, Some s) \<Rightarrow> (case cp_changed s of Some f \<Rightarrow> f c (worktree_root ctx) | None \<Rightarrow> Inr [])
            | _ \<Rightarrow> Inr []) of
        Inl e \<Rightarrow> e
      | Inr paths \<Rightarrow> PowdrrExecutionError
          (if paths \<noteq> [] then ''capability_partial_mutation'' else ''capability_execution_failed'')
          (''Capability '' @ py_repr (rq_tool_name rq) @ '' failed: '' @ exc_text h err))"

text \<open>Set the checkpoint of the last entry of the decision log.\<close>

definition set_log_checkpoint :: "string option \<Rightarrow> capability_broker \<Rightarrow> capability_broker" where
  "set_log_checkpoint cid br =
     (if cb_decision_log br = [] then br
      else br\<lparr>cb_decision_log := butlast (cb_decision_log br) @
             [(last (cb_decision_log br))\<lparr>dc_checkpoint_id := cid\<rparr>]\<rparr>)"

definition run_adapter ::
    "invoke_hooks \<Rightarrow> capability_broker \<Rightarrow> tool_context \<Rightarrow> capability_request \<Rightarrow> tool_adapter \<Rightarrow> pydict \<Rightarrow> string option
     \<Rightarrow> invocation_result result \<times> capability_broker" where
  "run_adapter h br ctx rq a args cid =
     (case adapter_execute a ctx args of
        Inl err \<Rightarrow> (Inl (failed_invocation h ctx rq cid err), br)
      | Inr res \<Rightarrow> (Inr (Invoked (if cid = None then res else res\<lparr>checkpoint_id := cid\<rparr>)), set_log_checkpoint cid br))"

definition invoke ::
    "crypto \<Rightarrow> clock \<Rightarrow> (string \<Rightarrow> string list) \<Rightarrow> invoke_hooks \<Rightarrow> capability_broker \<Rightarrow> tool_context \<Rightarrow> capability_request
     \<Rightarrow> invocation_result result \<times> capability_broker \<times> outside_effect list" where
  "invoke cr clk fs h br ctx rq =
     (case resolve cr clk fs br ctx rq of
        (Inl e, br1) \<Rightarrow> (Inl e, br1, [])
      | (Inr res, br1) \<Rightarrow>
          (case (rs_kind res, rs_adapter res, rs_arguments res) of
             (EXECUTABLE, Some a, Some args) \<Rightarrow>
               let run = (\<lambda>cid done. case run_adapter h br1 ctx rq a args cid of
                     (r, br2) \<Rightarrow> (r, br2, done @ [ExecuteTool (rq_tool_name rq) args])) in
               if mutating (adapter_effects a ctx args) then
                 (case checkpoint_store h of
                    None \<Rightarrow>
                      if ctx_execution_id ctx \<noteq> None then
                        (Inl (PowdrrExecutionError ''capability_checkpoint_required''
                          ''Mutating capability execution requires a checkpoint store.''), br1, [])
                      else run None []
                  | Some s \<Rightarrow>
                      let cid = invocation_checkpoint_id cr ctx rq;
                          snapshot = (case state_json_provider h of None \<Rightarrow> None | Some f \<Rightarrow> f ctx) in
                      (case cp_create s (worktree_root ctx) cid snapshot of
                         Inl e \<Rightarrow> (Inl e, br1, [])
                       | Inr _ \<Rightarrow> run (Some cid) [CreateCheckpoint cid snapshot]))
               else run None []
           | _ \<Rightarrow> (Inr (NotExecuted res), br1, [])))"

end
