(* ===== verification/Action_Relationship.thy ===== *)
theory Action_Relationship
  imports Execution_State
begin

text \<open>
  Declarative follow-up relationships between semantic actions:
  \<^verbatim>\<open>powdrr_service/action_relationship.py\<close> (facts, relationships, one expansion pass, the
  cycle check) and \<^verbatim>\<open>execution/relationships.py\<close> (instance-bound obligations).

  A \<^verbatim>\<open>frozenset[str]\<close> is a set; \<^verbatim>\<open>sorted(s)\<close> is its sorted list. The loop of the
  cycle check is the recursive function \<open>walk\<close>, whose measure is the number of sources not
  seen yet. The theory shows that the check is exact for the dictionary of edges it builds,
  hence for relationship sets with one follow-up per source, and that it is not for others.
\<close>

section \<open>Facts, relationships, obligations\<close>

record action_fact =
  af_action :: string
  af_attributes :: "string set"

record action_relationship =
  rel_id :: string
  source_action :: string
  follow_up_action :: string
  obligation_description :: string
  required_attributes :: "string set"
  excluded_attributes :: "string set"
  priority :: int

definition rel_matches :: "action_relationship \<Rightarrow> action_fact \<Rightarrow> bool" where
  "rel_matches r f \<longleftrightarrow> af_action f = source_action r \<and>
     required_attributes r \<subseteq> af_attributes f \<and>
     excluded_attributes r \<inter> af_attributes f = {}"

record relationship_obligation =
  ro_obligation_id :: string
  ro_relationship_id :: string
  ro_required_action :: string
  ro_description :: string
  ro_source_action :: string
  ro_target_ref :: "string option"

definition BUILTIN_ACTION_RELATIONSHIPS :: "action_relationship list" where
  "BUILTIN_ACTION_RELATIONSHIPS =
     [\<lparr>rel_id = ''review-edit-requires-validation'', source_action = ''edit_for_review_comment'',
       follow_up_action = ''run_validation'',
       obligation_description = ''Run successful validation after changing code for a review comment.'',
       required_attributes = {}, excluded_attributes = {}, priority = 0\<rparr>,
      \<lparr>rel_id = ''review-edit-requires-thread-resolution'', source_action = ''edit_for_review_comment'',
       follow_up_action = ''resolve_review_thread'',
       obligation_description = ''Resolve the exact review thread after the correction is validated.'',
       required_attributes = {''validated''}, excluded_attributes = {}, priority = 0\<rparr>,
      \<lparr>rel_id = ''mutable-row-requires-optimistic-lock'', source_action = ''change_mutable_row'',
       follow_up_action = ''add_optimistic_lock'',
       obligation_description = ''Use optimistic locking for the mutable database row change.'',
       required_attributes = {}, excluded_attributes = {''optimistic_locking''}, priority = 0\<rparr>,
      \<lparr>rel_id = ''mutable-row-requires-concurrency-evidence'', source_action = ''change_mutable_row'',
       follow_up_action = ''run_concurrency_test'',
       obligation_description = ''Produce concurrency evidence for the mutable database row change.'',
       required_attributes = {}, excluded_attributes = {''concurrency_evidence''}, priority = 0\<rparr>]"

text \<open>
  \<^verbatim>\<open>next((a for a in sorted(attributes) if a.startswith(("thread:", "row:"))), None)\<close>.
\<close>

definition first_target :: "string set \<Rightarrow> string option" where
  "first_target attrs =
     List.find (\<lambda>a. startswith a ''thread:'' \<or> startswith a ''row:'') (sorted_list_of_set attrs)"

section \<open>Expansion\<close>

definition make_obligation :: "action_fact \<Rightarrow> action_relationship \<Rightarrow> relationship_obligation" where
  "make_obligation f r =
     \<lparr>ro_obligation_id = rel_id r @ '':'' @ af_action f, ro_relationship_id = rel_id r,
      ro_required_action = follow_up_action r, ro_description = obligation_description r,
      ro_source_action = af_action f, ro_target_ref = first_target (af_attributes f)\<rparr>"

definition expand_action_relationships ::
    "action_fact list \<Rightarrow> action_relationship list \<Rightarrow> relationship_obligation list" where
  "expand_action_relationships facts relationships =
     sort_key ro_obligation_id (map snd
       (foldl (\<lambda>obligations fact.
          foldl (\<lambda>obligations r.
            if rel_matches r fact
            then AList.update (ro_obligation_id (make_obligation fact r)) (make_obligation fact r) obligations
            else obligations) obligations relationships)
        [] facts))"

section \<open>The cycle check\<close>

function walk :: "(string \<times> string) list \<Rightarrow> string list \<Rightarrow> string \<Rightarrow> string option" where
  "walk edges seen current =
     (case map_of edges current of
        None \<Rightarrow> None
      | Some next_action \<Rightarrow>
          if current \<in> set seen then Some (''relationship cycle contains '' @ py_repr current)
          else walk edges (current # seen) next_action)"
  by pat_completeness auto

lemma walk_measure:
  assumes "map_of edges c = Some n" "c \<notin> set seen"
  shows "card (fst ` set edges - set (c # seen)) < card (fst ` set edges - set seen)"
proof (rule psubset_card_mono)
  show "fst ` set edges - set (c # seen) \<subset> fst ` set edges - set seen"
    using assms by (force dest: map_of_SomeD)
qed simp

termination walk
  by (relation "measure (\<lambda>(edges, seen, c). card (fst ` set edges - set seen))")
    (use walk_measure in auto)

declare walk.simps [simp del]

definition relationship_edges :: "action_relationship list \<Rightarrow> (string \<times> string) list" where
  "relationship_edges relationships =
     foldl (\<lambda>edges r. AList.update (source_action r) (follow_up_action r) edges) [] relationships"

definition validate_relationship_graph :: "action_relationship list \<Rightarrow> string list" where
  "validate_relationship_graph relationships =
     (let edges = relationship_edges relationships
      in sorted_set (List.map_filter (\<lambda>start. walk edges [] start) (map fst edges)))"

section \<open>Instance-bound obligations\<close>

record 'a relationship_expansion =
  exp_obligations :: "'a list"
  exp_errors :: "string list"

definition expansion_valid :: "'a relationship_expansion \<Rightarrow> bool" where
  "expansion_valid x \<longleftrightarrow> exp_errors x = []"

definition expand_obligations ::
    "action_fact list \<Rightarrow> action_relationship list \<Rightarrow> relationship_obligation relationship_expansion" where
  "expand_obligations facts relationships =
     (let errors = validate_relationship_graph relationships
      in if errors \<noteq> [] then \<lparr>exp_obligations = [], exp_errors = errors\<rparr>
         else \<lparr>exp_obligations = expand_action_relationships facts relationships, exp_errors = []\<rparr>)"

definition expand_execution_obligations ::
    "string \<Rightarrow> string \<Rightarrow> string set \<Rightarrow> action_relationship list \<Rightarrow>
     execution_obligation relationship_expansion" where
  "expand_execution_obligations aid action attrs relationships =
     (let expansion = expand_obligations [\<lparr>af_action = action, af_attributes = attrs\<rparr>] relationships
      in \<lparr>exp_obligations = map (\<lambda>item.
            \<lparr>obligation_id = aid @ '':'' @ ro_obligation_id item,
             ob_description = ro_description item, ob_status = OS_OPEN,
             source_action_instance_id = Some aid,
             required_action = Some (ro_required_action item),
             relationship_id = Some (ro_relationship_id item),
             target_ref = ro_target_ref item\<rparr>) (exp_obligations expansion),
          exp_errors = exp_errors expansion\<rparr>)"

definition satisfy_execution_obligation :: "execution_obligation \<Rightarrow> string \<Rightarrow> string \<Rightarrow> bool" where
  "satisfy_execution_obligation ob aid action \<longleftrightarrow>
     source_action_instance_id ob = Some aid \<and> required_action ob = Some action"

definition unresolved_obligations :: "execution_obligation list \<Rightarrow> execution_obligation list" where
  "unresolved_obligations obs = filter (\<lambda>ob. ob_status ob = OS_OPEN) obs"

definition action_can_complete :: "string \<Rightarrow> relationship_obligation list \<Rightarrow> bool" where
  "action_can_complete action open_obligations \<longleftrightarrow>
     action \<noteq> ''resolve_review_thread'' \<or>
     \<not> (\<exists>item \<in> set open_obligations. ro_required_action item = ''run_validation'')"

definition satisfy_obligation :: "relationship_obligation \<Rightarrow> string \<Rightarrow> bool" where
  "satisfy_obligation ob completed_action \<longleftrightarrow> completed_action = ro_required_action ob"

definition explain_obligation :: "relationship_obligation \<Rightarrow> string" where
  "explain_obligation ob =
     ro_obligation_id ob @ '': action '' @ py_repr (ro_required_action ob) @ '' is required '' @
     ''because of '' @ py_repr (ro_source_action ob) @ '' ('' @ ro_relationship_id ob @ ''). '' @
     ro_description ob"

section \<open>The cycle check is exact for its edge dictionary\<close>

definition edge_rel :: "(string \<times> string) list \<Rightarrow> (string \<times> string) set" where
  "edge_rel edges = {(a, b). map_of edges a = Some b}"

lemma edge_rel_functional: "(a, b) \<in> edge_rel edges \<Longrightarrow> (a, c) \<in> edge_rel edges \<Longrightarrow> b = c"
  by (simp add: edge_rel_def)

lemma walk_finds_cycle:
  assumes "walk edges seen c = Some e" "\<forall>x \<in> set seen. (x, c) \<in> (edge_rel edges)\<^sup>+"
  shows "\<not> acyclic (edge_rel edges)"
  using assms
proof (induction edges seen c rule: walk.induct)
  case (1 edges seen c)
  from "1.prems"(1) obtain n where n: "map_of edges c = Some n"
    by (subst (asm) walk.simps) (auto split: option.splits)
  then have step: "(c, n) \<in> edge_rel edges"
    by (simp add: edge_rel_def)
  show ?case
  proof (cases "c \<in> set seen")
    case True
    with "1.prems"(2) show ?thesis by (auto simp: acyclic_def)
  next
    case False
    with "1.prems"(1) n have "walk edges (c # seen) n = Some e"
      by (subst (asm) walk.simps) simp
    moreover have "\<forall>x \<in> set (c # seen). (x, n) \<in> (edge_rel edges)\<^sup>+"
      using "1.prems"(2) step by (auto intro: trancl_into_trancl)
    ultimately show ?thesis
      using "1.IH" [OF n False] by blast
  qed
qed

lemma cycle_continues:
  assumes "(c, c) \<in> (edge_rel edges)\<^sup>+"
  shows "\<exists>n. map_of edges c = Some n \<and> (n, n) \<in> (edge_rel edges)\<^sup>+"
proof -
  from assms obtain n where n: "(c, n) \<in> edge_rel edges" "(n, c) \<in> (edge_rel edges)\<^sup>*"
    by (meson tranclD)
  then have "(n, n) \<in> (edge_rel edges)\<^sup>+"
    by (simp add: rtrancl_into_trancl1)
  with n(1) show ?thesis by (auto simp: edge_rel_def)
qed

lemma walk_on_cycle:
  "(c, c) \<in> (edge_rel edges)\<^sup>+ \<Longrightarrow> walk edges seen c \<noteq> None"
proof (induction edges seen c rule: walk.induct)
  case (1 edges seen c)
  from cycle_continues [OF "1.prems"] obtain n where
    n: "map_of edges c = Some n" "(n, n) \<in> (edge_rel edges)\<^sup>+" by blast
  with "1.IH" show ?case
    by (subst walk.simps) auto
qed

lemma map_filter_eq_Nil: "List.map_filter f xs = [] \<longleftrightarrow> (\<forall>x \<in> set xs. f x = None)"
  by (induction xs) (auto simp: List.map_filter_simps split: option.splits)

lemma validate_graph_iff:
  "validate_relationship_graph rels = [] \<longleftrightarrow> acyclic (edge_rel (relationship_edges rels))"
proof
  assume "validate_relationship_graph rels = []"
  then have none: "\<forall>x \<in> fst ` set (relationship_edges rels). walk (relationship_edges rels) [] x = None"
    by (auto simp: validate_relationship_graph_def Let_def map_filter_eq_Nil)
  show "acyclic (edge_rel (relationship_edges rels))"
  proof (rule ccontr)
    assume "\<not> ?thesis"
    then obtain c where c: "(c, c) \<in> (edge_rel (relationship_edges rels))\<^sup>+"
      by (auto simp: acyclic_def)
    with cycle_continues have "c \<in> fst ` set (relationship_edges rels)"
      by (metis domIff dom_map_of_conv_image_fst option.distinct(1))
    with none walk_on_cycle [OF c] show False by blast
  qed
next
  assume "acyclic (edge_rel (relationship_edges rels))"
  then have "walk (relationship_edges rels) [] x = None" for x
    using walk_finds_cycle [of "relationship_edges rels" "[]" x] by fastforce
  then show "validate_relationship_graph rels = []"
    by (simp add: validate_relationship_graph_def Let_def map_filter_eq_Nil)
qed

text \<open>The graph the relationships really span: an edge for each of them.\<close>

definition follow_up_graph :: "action_relationship list \<Rightarrow> (string \<times> string) set" where
  "follow_up_graph rels = (\<lambda>r. (source_action r, follow_up_action r)) ` set rels"

lemma map_of_relationship_edges:
  "map_of (foldl (\<lambda>edges r. AList.update (source_action r) (follow_up_action r) edges) d rels) a =
    (case List.find (\<lambda>r. source_action r = a) (rev rels) of
       Some r \<Rightarrow> Some (follow_up_action r) | None \<Rightarrow> map_of d a)"
  by (induction rels rule: rev_induct) (simp_all add: update_conv')

lemma edge_rel_subset: "edge_rel (relationship_edges rels) \<subseteq> follow_up_graph rels"
  by (force simp: edge_rel_def relationship_edges_def follow_up_graph_def map_of_relationship_edges
      split: option.splits dest: find_Some_mem)

lemma edge_rel_distinct:
  assumes "distinct (map source_action rels)"
  shows "edge_rel (relationship_edges rels) = follow_up_graph rels"
proof
  show "follow_up_graph rels \<subseteq> edge_rel (relationship_edges rels)"
  proof
    fix e assume "e \<in> follow_up_graph rels"
    then obtain r where r: "r \<in> set rels" "e = (source_action r, follow_up_action r)"
      by (auto simp: follow_up_graph_def)
    obtain r' where r': "List.find (\<lambda>x. source_action x = source_action r) (rev rels) = Some r'"
      using r(1) by (cases "List.find (\<lambda>x. source_action x = source_action r) (rev rels)")
        (auto simp: find_None_iff)
    with find_Some_mem [OF r'] r(1) assms have "r' = r"
      by (auto simp: distinct_map inj_on_def)
    with r' r show "e \<in> edge_rel (relationship_edges rels)"
      by (simp add: edge_rel_def relationship_edges_def map_of_relationship_edges)
  qed
qed (rule edge_rel_subset)

section \<open>What an expansion opens\<close>

text \<open>The dictionary of one expansion pass, one update per matching pair.\<close>

definition expansion_step ::
    "(string \<times> relationship_obligation) list \<Rightarrow> action_fact \<Rightarrow> action_relationship \<Rightarrow>
     (string \<times> relationship_obligation) list" where
  "expansion_step d f r =
     (if rel_matches r f then AList.update (ro_obligation_id (make_obligation f r)) (make_obligation f r) d
      else d)"

definition expansion_dict ::
    "action_fact list \<Rightarrow> action_relationship list \<Rightarrow> (string \<times> relationship_obligation) list" where
  "expansion_dict facts rels = foldl (\<lambda>d f. foldl (\<lambda>d r. expansion_step d f r) d rels) [] facts"

lemma expand_dict: "expand_action_relationships facts rels = sort_key ro_obligation_id (map snd (expansion_dict facts rels))"
  by (simp add: expand_action_relationships_def expansion_dict_def expansion_step_def)

lemma expansion_dict_keyed: "keyed_dict ro_obligation_id (expansion_dict facts rels)"
  unfolding expansion_dict_def
  by (rule foldl_invariant, simp, rule foldl_invariant)
    (auto simp: expansion_step_def intro: keyed_dict_update)

definition justified :: "action_fact list \<Rightarrow> action_relationship list \<Rightarrow> relationship_obligation \<Rightarrow> bool" where
  "justified facts rels ob \<longleftrightarrow>
     (\<exists>f \<in> set facts. \<exists>r \<in> set rels. rel_matches r f \<and> ob = make_obligation f r)"

lemma expansion_dict_sound: "\<forall>v \<in> snd ` set (expansion_dict facts rels). justified facts rels v"
  unfolding expansion_dict_def
proof (rule foldl_invariant, simp, rule foldl_invariant)
  fix d' d :: "(string \<times> relationship_obligation) list" and f r
  assume f: "f \<in> set facts" "r \<in> set rels" and d: "\<forall>v \<in> snd ` set d. justified facts rels v"
  show "\<forall>v \<in> snd ` set (expansion_step d f r). justified facts rels v"
  proof (cases "rel_matches r f")
    case True
    with f have "justified facts rels (make_obligation f r)"
      by (auto simp: justified_def)
    with d True show ?thesis
      unfolding expansion_step_def by (simp only: if_True) (rule values_update_all)
  qed (use d in \<open>simp add: expansion_step_def\<close>)
qed simp

lemma expansion_step_keys: "fst ` set d \<subseteq> fst ` set (expansion_step d f r)"
  by (auto simp: expansion_step_def)

lemma expansion_inner_keys:
  "fst ` set d \<union> {ro_obligation_id (make_obligation f r) | r. r \<in> set rels \<and> rel_matches r f} \<subseteq>
    fst ` set (foldl (\<lambda>d r. expansion_step d f r) d rels)"
proof (induction rels rule: rev_induct)
  case (snoc r rels)
  then show ?case
    using expansion_step_keys [of "foldl (\<lambda>d r. expansion_step d f r) d rels" f r]
    by (auto simp: expansion_step_def)
qed simp

lemma expansion_dict_complete:
  assumes "f \<in> set facts" "r \<in> set rels" "rel_matches r f"
  shows "ro_obligation_id (make_obligation f r) \<in> fst ` set (expansion_dict facts rels)"
  using assms(1) unfolding expansion_dict_def
proof (induction facts rule: rev_induct)
  case (snoc g facts)
  let ?d = "foldl (\<lambda>d f. foldl (\<lambda>d r. expansion_step d f r) d rels) [] facts"
  show ?case
    using snoc assms(2,3) expansion_inner_keys [where d = ?d and f = g and rels = rels]
    by auto
qed simp

lemma expand_sound: "ob \<in> set (expand_action_relationships facts rels) \<Longrightarrow> justified facts rels ob"
  using expansion_dict_sound by (auto simp: expand_dict)

lemma expand_complete:
  assumes "f \<in> set facts" "r \<in> set rels" "rel_matches r f"
  shows "\<exists>ob \<in> set (expand_action_relationships facts rels).
    ro_obligation_id ob = rel_id r @ '':'' @ af_action f"
proof -
  from expansion_dict_complete [OF assms] obtain v where
    "(ro_obligation_id (make_obligation f r), v) \<in> set (expansion_dict facts rels)" by auto
  moreover from this have "ro_obligation_id v = ro_obligation_id (make_obligation f r)"
    using expansion_dict_keyed [of facts rels] by (auto simp: keyed_dict_def)
  ultimately show ?thesis
    by (auto simp: expand_dict make_obligation_def intro!: bexI [of _ "(_, v)"])
qed

lemma expand_sorted:
  "sorted (map ro_obligation_id (expand_action_relationships facts rels)) \<and>
    distinct (map ro_obligation_id (expand_action_relationships facts rels))"
proof -
  have "distinct (map ro_obligation_id (map snd (expansion_dict facts rels)))"
    by (rule keyed_dict_values_distinct [OF expansion_dict_keyed])
  then have "distinct (map ro_obligation_id (expand_action_relationships facts rels))"
    unfolding expand_dict by (metis distinct_map distinct_sort set_sort)
  then show ?thesis by (simp add: expand_dict)
qed

section \<open>Properties\<close>

text \<open>one expansion pass opens exactly the follow-ups of the matching relationships: every
  obligation comes from a fact and a relationship that matches it, every such pair has an
  obligation under its identifier, and the result is strictly ordered by identifier.\<close>

theorem expansion_exact:
  "(\<forall>ob \<in> set (expand_action_relationships facts rels). justified facts rels ob) \<and>
   (\<forall>f \<in> set facts. \<forall>r \<in> set rels. rel_matches r f \<longrightarrow>
      (\<exists>ob \<in> set (expand_action_relationships facts rels).
        ro_obligation_id ob = rel_id r @ '':'' @ af_action f)) \<and>
   sorted (map ro_obligation_id (expand_action_relationships facts rels)) \<and>
   distinct (map ro_obligation_id (expand_action_relationships facts rels))"
  using expand_sound expand_complete expand_sorted by blast

definition sample_fact :: action_fact where
  "sample_fact = \<lparr>af_action = ''edit_for_review_comment'', af_attributes = {''validated'', ''thread:7''}\<rparr>"

theorem expansion_exact_witness:
  "map ro_required_action (expand_action_relationships [sample_fact] BUILTIN_ACTION_RELATIONSHIPS) =
     [''resolve_review_thread'', ''run_validation''] \<and>
   list_all (justified [sample_fact] BUILTIN_ACTION_RELATIONSHIPS)
     (expand_action_relationships [sample_fact] BUILTIN_ACTION_RELATIONSHIPS)"
proof
  show "map ro_required_action (expand_action_relationships [sample_fact] BUILTIN_ACTION_RELATIONSHIPS) =
     [''resolve_review_thread'', ''run_validation'']"
    by code_simp
  show "list_all (justified [sample_fact] BUILTIN_ACTION_RELATIONSHIPS)
     (expand_action_relationships [sample_fact] BUILTIN_ACTION_RELATIONSHIPS)"
    using expansion_exact [of "[sample_fact]" BUILTIN_ACTION_RELATIONSHIPS] by (simp add: list_all_iff)
qed

text \<open>for relationship sets with one follow-up per source action the cycle check is exact: it
  reports nothing if and only if the follow-up graph has no cycle.\<close>

theorem cycle_check_exact:
  assumes "distinct (map source_action rels)"
  shows "validate_relationship_graph rels = [] \<longleftrightarrow> acyclic (follow_up_graph rels)"
  using validate_graph_iff edge_rel_distinct [OF assms] by simp

definition loop_relationships :: "action_relationship list" where
  "loop_relationships =
     [\<lparr>rel_id = ''r1'', source_action = ''a'', follow_up_action = ''b'', obligation_description = ''d'',
       required_attributes = {}, excluded_attributes = {}, priority = 0\<rparr>,
      \<lparr>rel_id = ''r2'', source_action = ''b'', follow_up_action = ''a'', obligation_description = ''d'',
       required_attributes = {}, excluded_attributes = {}, priority = 0\<rparr>]"

theorem cycle_check_exact_witness:
  "validate_relationship_graph loop_relationships \<noteq> [] \<and> \<not> acyclic (follow_up_graph loop_relationships)"
proof -
  have "distinct (map source_action loop_relationships)"
    "validate_relationship_graph loop_relationships =
      [''relationship cycle contains '' @ py_repr ''a'', ''relationship cycle contains '' @ py_repr ''b'']"
    by code_simp+
  with cycle_check_exact [of loop_relationships] show ?thesis by simp
qed

text \<open>with two follow-ups for one source the check keeps only the last edge of each source, so a
  cycle through the other one is accepted: a needs b and c, b needs a, and nothing is reported.\<close>

theorem cycle_check_incomplete:
  "validate_relationship_graph
     (loop_relationships @ [(hd loop_relationships)\<lparr>rel_id := ''r3'', follow_up_action := ''c''\<rparr>]) = [] \<and>
   \<not> acyclic (follow_up_graph
     (loop_relationships @ [(hd loop_relationships)\<lparr>rel_id := ''r3'', follow_up_action := ''c''\<rparr>]))"
proof
  show "validate_relationship_graph
     (loop_relationships @ [(hd loop_relationships)\<lparr>rel_id := ''r3'', follow_up_action := ''c''\<rparr>]) = []"
    by code_simp
  let ?g = "follow_up_graph
     (loop_relationships @ [(hd loop_relationships)\<lparr>rel_id := ''r3'', follow_up_action := ''c''\<rparr>])"
  have "(''a'', ''b'') \<in> ?g" "(''b'', ''a'') \<in> ?g"
    by (auto simp: follow_up_graph_def loop_relationships_def)
  then have "(''a'', ''a'') \<in> ?g\<^sup>+" by (meson trancl.intros)
  then show "\<not> acyclic ?g" by (auto simp: acyclic_def)
qed

end
