(* ===== verification/Action_Kernel.thy ===== *)
theory Action_Kernel
  imports Action_Relationship
begin

text \<open>
  \<^verbatim>\<open>execution/kernel.py\<close>: the action kernel records the lifecycle of every action, opens
  the follow-up obligations of a proposed action, closes them when the follow-up completes, and
  projects its lifecycle events into the durable event schema.

  An action is whatever the adapter passes: a mapping, or an object whose attributes are read
  with \<^verbatim>\<open>getattr\<close>; both are given by their entries, and the two readers of the source that
  differ between them are kept apart. A set, list or tuple of attributes is a \<open>PList\<close>.
  The dictionary of open obligations is an association list in insertion order.

  The theory shows the kernel's invariant (events numbered from 0, obligations stored under their
  identifiers), what each operation opens and closes, when a proposal is blocked, and a simulation:
  reducing the projected events on the durable state makes its open obligations equal to the
  kernel's.
\<close>

section \<open>Actions, errors, lifecycle events\<close>

datatype kernel_action = MappingAction pydict | ObjectAction pydict

text \<open>
  An error attached to a failed action: plain data, or an object with a type name, its text and,
  for the repository's exceptions, an \<^verbatim>\<open>error_code\<close>.
\<close>

datatype kernel_error =
    PlainError pyval
  | ObjectError (err_type: string) (err_text: string) (err_code: "pyval option")

datatype lifecycle_phase =
    LC_PROPOSED | LC_STARTED | LC_COMPLETED | LC_FAILED | LC_OBLIGATION_OPENED | LC_OBLIGATION_SATISFIED

fun lifecycle_value :: "lifecycle_phase \<Rightarrow> string" where
  "lifecycle_value LC_PROPOSED = ''proposed''"
| "lifecycle_value LC_STARTED = ''started''"
| "lifecycle_value LC_COMPLETED = ''completed''"
| "lifecycle_value LC_FAILED = ''failed''"
| "lifecycle_value LC_OBLIGATION_OPENED = ''obligation_opened''"
| "lifecycle_value LC_OBLIGATION_SATISFIED = ''obligation_satisfied''"

definition lifecycle_members :: "lifecycle_phase list" where
  "lifecycle_members =
     [LC_PROPOSED, LC_STARTED, LC_COMPLETED, LC_FAILED, LC_OBLIGATION_OPENED, LC_OBLIGATION_SATISFIED]"

interpretation lifecycle_enum: str_enum lifecycle_members lifecycle_value
proof
  show "e \<in> set lifecycle_members" for e
    by (cases e) (simp_all add: lifecycle_members_def)
  show "distinct (map lifecycle_value lifecycle_members)"
    by code_simp
qed

record lifecycle_event =
  lc_sequence :: nat
  lc_phase :: lifecycle_phase
  lc_action :: kernel_action
  lc_error :: "kernel_error option"
  lc_obligations :: "execution_obligation list"

text \<open>\<^verbatim>\<open>ActionLifecycleEvent.to_data\<close>; the action is passed through as it is.\<close>

record lifecycle_data =
  ld_sequence :: nat
  ld_phase :: string
  ld_action :: kernel_action
  ld_error :: pyval
  ld_obligations :: "pydict list"

fun error_data :: "kernel_error option \<Rightarrow> pyval" where
  "error_data None = PNone"
| "error_data (Some (PlainError v)) =
     (case v of PNone \<Rightarrow> PNone | PStr s \<Rightarrow> PStr s | PInt i \<Rightarrow> PInt i | PBool b \<Rightarrow> PBool b
      | _ \<Rightarrow> PStr (str_val v))"
| "error_data (Some (ObjectError ty txt code)) = PStr txt"

definition lifecycle_to_data :: "lifecycle_event \<Rightarrow> lifecycle_data" where
  "lifecycle_to_data e =
     \<lparr>ld_sequence = lc_sequence e, ld_phase = lifecycle_value (lc_phase e), ld_action = lc_action e,
      ld_error = error_data (lc_error e), ld_obligations = map obligation_to_data (lc_obligations e)\<rparr>"

record action_kernel =
  k_events :: "lifecycle_event list"
  k_obligations :: "(string \<times> execution_obligation) list"

definition new_kernel :: action_kernel where
  "new_kernel = \<lparr>k_events = [], k_obligations = []\<rparr>"

definition open_obligations :: "action_kernel \<Rightarrow> execution_obligation list" where
  "open_obligations k = map snd (k_obligations k)"

definition snapshot :: "action_kernel \<Rightarrow> lifecycle_data list \<times> pydict list" where
  "snapshot k = (map lifecycle_to_data (k_events k), map obligation_to_data (open_obligations k))"

section \<open>Readers of actions\<close>

fun entries :: "kernel_action \<Rightarrow> pydict" where
  "entries (MappingAction d) = d"
| "entries (ObjectAction d) = d"

definition semantic_action :: "kernel_action \<Rightarrow> string option \<Rightarrow> string" where
  "semantic_action a explicit =
     (case explicit of
        Some (c # cs) \<Rightarrow> c # cs
      | _ \<Rightarrow> (case a of
          MappingAction d \<Rightarrow>
            str_val (py_or (py_or (get_item d ''semantic_action'') (get_item d ''kind'')) (PStr ''''))
        | ObjectAction d \<Rightarrow>
            str_val (py_or (get_item d ''semantic_action'') (get_default d ''kind'' (PStr '''')))))"

text \<open>\<^verbatim>\<open>value if isinstance(value, str) and value else None\<close>.\<close>

definition nonempty_text :: "pyval \<Rightarrow> string option" where
  "nonempty_text v = (case v of PStr s \<Rightarrow> if s = [] then None else Some s | _ \<Rightarrow> None)"

definition kernel_action_id :: "kernel_action \<Rightarrow> nat \<Rightarrow> string" where
  "kernel_action_id a sequence =
     (case nonempty_text (get_item (entries a) ''action_instance_id'') of
        Some s \<Rightarrow> s
      | None \<Rightarrow> ''action-'' @ show_nat sequence)"

definition action_attributes :: "kernel_action \<Rightarrow> string set" where
  "action_attributes a =
     (case get_default (entries a) ''attributes'' (PList []) of
        PList items \<Rightarrow> if list_all is_str items then set (map the_str items) else {}
      | _ \<Rightarrow> {})"

definition action_target_ref :: "kernel_action \<Rightarrow> string option" where
  "action_target_ref a = first_target (action_attributes a)"

definition source_instance_id :: "kernel_action \<Rightarrow> string option" where
  "source_instance_id a = nonempty_text (get_item (entries a) ''source_action_instance_id'')"

section \<open>Operations\<close>

definition kernel_record ::
    "action_kernel \<Rightarrow> lifecycle_phase \<Rightarrow> kernel_action \<Rightarrow> kernel_error option \<Rightarrow>
     execution_obligation list \<Rightarrow> lifecycle_event \<times> action_kernel" where
  "kernel_record k phase a err obs =
     (let event = \<lparr>lc_sequence = length (k_events k), lc_phase = phase, lc_action = a,
                   lc_error = err, lc_obligations = obs\<rparr>
      in (event, k\<lparr>k_events := k_events k @ [event]\<rparr>))"

definition restore_obligations :: "action_kernel \<Rightarrow> execution_obligation list \<Rightarrow> action_kernel" where
  "restore_obligations k obs =
     k\<lparr>k_obligations := foldl (\<lambda>d ob. AList.update (obligation_id ob) ob d) []
         (filter (\<lambda>ob. ob_status ob = OS_OPEN) obs)\<rparr>"

definition add_obligation ::
    "action_kernel \<Rightarrow> execution_obligation \<Rightarrow> kernel_action option \<Rightarrow> action_kernel" where
  "add_obligation k ob act =
     (if map_of (k_obligations k) (obligation_id ob) \<noteq> None then k
      else let k1 = k\<lparr>k_obligations := AList.update (obligation_id ob) ob (k_obligations k)\<rparr>
           in case act of
                None \<Rightarrow> k1
              | Some a \<Rightarrow> snd (kernel_record k1 LC_OBLIGATION_OPENED a None [ob]))"

definition propose ::
    "action_kernel \<Rightarrow> kernel_action \<Rightarrow> string option \<Rightarrow> string set \<Rightarrow> lifecycle_event \<times> action_kernel" where
  "propose k a explicit attrs =
     (let sem = semantic_action a explicit;
          attrs' = (if attrs = {} then action_attributes a else attrs);
          obs = (if sem \<noteq> [] then exp_obligations (expand_execution_obligations
                   (''action-'' @ show_nat (length (k_events k))) sem attrs' BUILTIN_ACTION_RELATIONSHIPS)
                 else []);
          k1 = k\<lparr>k_obligations :=
                 foldl (\<lambda>d ob. AList.update (obligation_id ob) ob d) (k_obligations k) obs\<rparr>;
          (event, k2) = kernel_record k1 LC_PROPOSED a None obs
      in (event, foldl (\<lambda>k ob. snd (kernel_record k LC_OBLIGATION_OPENED a None [ob])) k2 obs))"

definition close_one :: "kernel_action \<Rightarrow> action_kernel \<Rightarrow> string \<times> execution_obligation \<Rightarrow> action_kernel" where
  "close_one a k item =
     snd (kernel_record (k\<lparr>k_obligations := AList.delete (fst item) (k_obligations k)\<rparr>)
       LC_OBLIGATION_SATISFIED a None [snd item])"

definition satisfy :: "action_kernel \<Rightarrow> string \<Rightarrow> string \<Rightarrow> bool \<times> action_kernel" where
  "satisfy k aid sem =
     (let matches = filter (\<lambda>item. source_action_instance_id item = Some aid \<and>
                              required_action item = Some sem) (open_obligations k);
          a = MappingAction [(''action_instance_id'', PStr aid), (''action'', PStr sem)]
      in (matches \<noteq> [], foldl (\<lambda>k item. close_one a k (obligation_id item, item)) k matches))"

definition start :: "action_kernel \<Rightarrow> kernel_action \<Rightarrow> lifecycle_event \<times> action_kernel" where
  "start k a = kernel_record k LC_STARTED a None []"

definition matching_obligations ::
    "action_kernel \<Rightarrow> string \<Rightarrow> string option \<Rightarrow> string option \<Rightarrow> (string \<times> execution_obligation) list" where
  "matching_obligations k sem src tgt =
     (let matches = filter (\<lambda>(oid, ob). required_action ob = Some sem \<and>
            (src = None \<or> source_action_instance_id ob = src) \<and>
            (target_ref ob = None \<or> target_ref ob = tgt)) (k_obligations k)
      in if src = None then take 1 matches else matches)"

definition close_matching_obligations ::
    "action_kernel \<Rightarrow> string \<Rightarrow> string option \<Rightarrow> string option \<Rightarrow> action_kernel" where
  "close_matching_obligations k sem src tgt =
     foldl (close_one (MappingAction [(''action'', PStr sem)])) k (matching_obligations k sem src tgt)"

definition complete :: "action_kernel \<Rightarrow> kernel_action \<Rightarrow> lifecycle_event \<times> action_kernel" where
  "complete k a =
     kernel_record
       (close_matching_obligations k (semantic_action a None) (source_instance_id a) (action_target_ref a))
       LC_COMPLETED a None []"

definition fail :: "action_kernel \<Rightarrow> kernel_action \<Rightarrow> kernel_error option \<Rightarrow> lifecycle_event \<times> action_kernel" where
  "fail k a err = kernel_record k LC_FAILED a err []"

definition repr_opt :: "string option \<Rightarrow> string" where
  "repr_opt x = (case x of None \<Rightarrow> ''None'' | Some s \<Rightarrow> py_repr s)"

text \<open>\<^verbatim>\<open>{item.required_action for ... if item.required_action is not None}\<close>, in dictionary order.\<close>

definition required_actions :: "action_kernel \<Rightarrow> string list" where
  "required_actions k = List.map_filter required_action (open_obligations k)"

definition validate_proposal :: "action_kernel \<Rightarrow> kernel_action \<Rightarrow> string option \<Rightarrow> string list" where
  "validate_proposal k a explicit =
     (let sem = semantic_action a explicit;
          required = required_actions k;
          tgt = action_target_ref a;
          targeted = filter (\<lambda>item. required_action item = Some sem \<and>
                        target_ref item \<noteq> None \<and> target_ref item \<noteq> Some []) (open_obligations k)
      in if sem = ''emit_outputs'' then []
         else if sem \<in> {''delete_file'', ''file_management''} then []
         else if k_obligations k = [] then []
         else if sem = ''resolve_review_thread'' \<and> ''run_validation'' \<in> set required
           then [''Review-thread resolution is blocked until run_validation is complete.'']
         else if sem \<in> set required
           then (if targeted \<noteq> [] \<and> \<not> (\<exists>item \<in> set targeted. target_ref item = tgt)
                 then [''Action '' @ py_repr sem @ '' targets '' @ repr_opt tgt @ '', but open '' @
                       ''obligations require '' @ repr_opt (target_ref (hd targeted)) @ ''.'']
                 else [])
         else [''Action '' @ py_repr sem @ '' is blocked by open relationship '' @
               ''obligations: '' @ py_join '', '' (sorted_set required) @ ''.''])"

section \<open>Projection into durable events\<close>

fun durable_type :: "lifecycle_phase \<Rightarrow> execution_event_type" where
  "durable_type LC_PROPOSED = ACTION_PROPOSED"
| "durable_type LC_STARTED = ACTION_STARTED"
| "durable_type LC_COMPLETED = ACTION_COMPLETED"
| "durable_type LC_FAILED = ACTION_FAILED"
| "durable_type LC_OBLIGATION_OPENED = OBLIGATION_OPENED"
| "durable_type LC_OBLIGATION_SATISFIED = OBLIGATION_SATISFIED"

fun error_code_of :: "kernel_error \<Rightarrow> pyval" where
  "error_code_of (PlainError v) = PStr (type_name v)"
| "error_code_of (ObjectError ty txt code) = (case code of Some c \<Rightarrow> c | None \<Rightarrow> PStr ty)"

definition durable_payload :: "string \<Rightarrow> string \<Rightarrow> lifecycle_event \<Rightarrow> pydict result" where
  "durable_payload phase actor e =
     (if lc_phase e \<in> {LC_OBLIGATION_OPENED, LC_OBLIGATION_SATISFIED}
      then (case lc_obligations e of
              [] \<Rightarrow> Inl (IndexError ''tuple index out of range'')
            | ob # _ \<Rightarrow> Inr (obligation_to_data ob))
      else Inr ([(''action_instance_id'', PStr (kernel_action_id (lc_action e) (lc_sequence e))),
                 (''kind'', PStr (semantic_action (lc_action e) None)),
                 (''actor_id'', PStr actor),
                 (''phase_type'', PStr phase)]
                @ (case lc_error e of
                     None \<Rightarrow> []
                   | Some err \<Rightarrow> [(''status'', PStr ''correctable_error''),
                                  (''error_code'', error_code_of err)])))"

fun project_events ::
    "string \<Rightarrow> string \<Rightarrow> string \<Rightarrow> int \<Rightarrow> int \<Rightarrow> lifecycle_event list \<Rightarrow> execution_event list result" where
  "project_events eid phase actor version sq [] = Inr []"
| "project_events eid phase actor version sq (e # es) =
     bind_r (durable_payload phase actor e) (\<lambda>pl.
     bind_r (project_events eid phase actor (version + 1) (sq + 1) es) (\<lambda>rest.
     Inr (\<lparr>ev_execution_id = eid, ev_sequence = sq + 1, expected_state_version = version,
           event_type = durable_type (lc_phase e), payload = pl,
           event_id = eid @ '':'' @ show_int (sq + 1)\<rparr> # rest)))"

definition to_execution_events ::
    "action_kernel \<Rightarrow> string \<Rightarrow> string \<Rightarrow> string \<Rightarrow> execution_state option \<Rightarrow>
     lifecycle_event list option \<Rightarrow> execution_event list result" where
  "to_execution_events k eid phase actor starting evs =
     project_events eid phase actor
       (case starting of Some s \<Rightarrow> state_version s | None \<Rightarrow> 0)
       (case starting of Some s \<Rightarrow> event_sequence s | None \<Rightarrow> 0)
       (case evs of Some es \<Rightarrow> es | None \<Rightarrow> k_events k)"

section \<open>Invariant\<close>

definition kernel_wf :: "action_kernel \<Rightarrow> bool" where
  "kernel_wf k \<longleftrightarrow> map lc_sequence (k_events k) = [0..<length (k_events k)] \<and>
     keyed_dict obligation_id (k_obligations k)"

text \<open>What a lifecycle event means for the open obligations.\<close>

definition apply_lifecycle ::
    "(string \<rightharpoonup> execution_obligation) \<Rightarrow> lifecycle_event \<Rightarrow> (string \<rightharpoonup> execution_obligation)" where
  "apply_lifecycle m e =
     (case (lc_phase e, lc_obligations e) of
        (LC_OBLIGATION_OPENED, ob # _) \<Rightarrow> m(obligation_id ob \<mapsto> ob)
      | (LC_OBLIGATION_SATISFIED, ob # _) \<Rightarrow> m(obligation_id ob := None)
      | _ \<Rightarrow> m)"

lemma apply_lifecycle_simps [simp]:
  "lc_phase e = LC_OBLIGATION_OPENED \<Longrightarrow> lc_obligations e = ob # obs \<Longrightarrow>
     apply_lifecycle m e = m(obligation_id ob \<mapsto> ob)"
  "lc_phase e = LC_OBLIGATION_SATISFIED \<Longrightarrow> lc_obligations e = ob # obs \<Longrightarrow>
     apply_lifecycle m e = m(obligation_id ob := None)"
  "lc_phase e \<notin> {LC_OBLIGATION_OPENED, LC_OBLIGATION_SATISFIED} \<Longrightarrow> apply_lifecycle m e = m"
  by (auto simp: apply_lifecycle_def split: lifecycle_phase.split)

text \<open>
  \<open>emits k k' evs\<close>: between the two kernels exactly the events \<open>evs\<close> were recorded, and the
  dictionary of open obligations changed by what those events say.
\<close>

definition emits :: "action_kernel \<Rightarrow> action_kernel \<Rightarrow> lifecycle_event list \<Rightarrow> bool" where
  "emits k k' evs \<longleftrightarrow> k_events k' = k_events k @ evs \<and>
     map_of (k_obligations k') = foldl apply_lifecycle (map_of (k_obligations k)) evs"

lemma emits_refl: "emits k k []"
  by (simp add: emits_def)

lemma emits_trans: "emits k k1 es \<Longrightarrow> emits k1 k2 fs \<Longrightarrow> emits k k2 (es @ fs)"
  by (simp add: emits_def)

lemma emits_events: "emits k k' evs \<Longrightarrow> evs = drop (length (k_events k)) (k_events k')"
  by (simp add: emits_def)

lemma kernel_record_snd:
  "snd (kernel_record k ph a err obs) = k\<lparr>k_events := k_events k @
     [\<lparr>lc_sequence = length (k_events k), lc_phase = ph, lc_action = a, lc_error = err, lc_obligations = obs\<rparr>]\<rparr>"
  by (simp add: kernel_record_def Let_def)

lemma kernel_record_wf: "kernel_wf k \<Longrightarrow> kernel_wf (snd (kernel_record k ph a err obs))"
  by (simp add: kernel_record_snd kernel_wf_def)

lemma kernel_record_emits:
  assumes "ph \<notin> {LC_OBLIGATION_OPENED, LC_OBLIGATION_SATISFIED}"
  shows "\<exists>e. emits k (snd (kernel_record k ph a err obs)) [e]"
  using assms by (cases ph) (auto simp: kernel_record_snd emits_def)

subsection \<open>Closing obligations\<close>

lemma close_one_wf: "kernel_wf k \<Longrightarrow> kernel_wf (close_one a k item)"
  unfolding close_one_def
  by (rule kernel_record_wf) (simp add: kernel_wf_def keyed_dict_delete)

lemma close_one_emits:
  "fst item = obligation_id (snd item) \<Longrightarrow> \<exists>e. emits k (close_one a k item) [e]"
  by (simp add: close_one_def kernel_record_snd emits_def delete_conv')

lemma close_one_dict: "k_obligations (close_one a k item) = AList.delete (fst item) (k_obligations k)"
  by (simp add: close_one_def kernel_record_snd)

lemma foldl_close_wf: "kernel_wf k \<Longrightarrow> kernel_wf (foldl (close_one a) k items)"
  by (rule foldl_invariant) (auto intro: close_one_wf)

lemma foldl_close_emits:
  "\<forall>item \<in> set items. fst item = obligation_id (snd item) \<Longrightarrow>
    \<exists>evs. emits k (foldl (close_one a) k items) evs"
proof (induction items arbitrary: k)
  case (Cons item items)
  then obtain e where "emits k (close_one a k item) [e]"
    using close_one_emits by (meson list.set_intros(1))
  moreover obtain evs where "emits (close_one a k item) (foldl (close_one a) (close_one a k item) items) evs"
    using Cons by auto
  ultimately show ?case
    using emits_trans by fastforce
qed (use emits_refl in auto)

lemma foldl_close_dict:
  "k_obligations (foldl (close_one a) k items) =
    filter (\<lambda>(oid, ob). oid \<notin> fst ` set items) (k_obligations k)"
proof (induction items arbitrary: k)
  case (Cons item items)
  have "AList.delete (fst item) d = filter (\<lambda>(oid, ob). oid \<noteq> fst item) d"
    for d :: "(string \<times> execution_obligation) list"
    by (induction d) auto
  with Cons show ?case
    by (auto simp: close_one_dict intro!: filter_cong)
qed simp

lemma satisfy_foldl:
  "satisfy k aid sem = (let matches = filter (\<lambda>(oid, ob). source_action_instance_id ob = Some aid \<and>
        required_action ob = Some sem) (k_obligations k)
     in (matches \<noteq> [], foldl (close_one (MappingAction [(''action_instance_id'', PStr aid), (''action'', PStr sem)])) k matches))"
  if "kernel_wf k"
proof -
  let ?P = "\<lambda>ob. source_action_instance_id ob = Some aid \<and> required_action ob = Some sem"
  let ?m = "filter (\<lambda>(oid, ob). ?P ob) (k_obligations k)"
  have keys: "\<forall>x \<in> set ?m. (obligation_id (snd x), snd x) = x"
    using that by (auto simp: kernel_wf_def keyed_dict_def)
  have "filter ?P (open_obligations k) = map snd ?m"
    by (simp add: open_obligations_def filter_map comp_def case_prod_unfold)
  moreover have "foldl (\<lambda>k item. close_one a k (obligation_id item, item)) k (map snd xs) =
      foldl (close_one a) k xs" if "\<forall>x \<in> set xs. (obligation_id (snd x), snd x) = x" for xs k a
    using that by (induction xs arbitrary: k) auto
  ultimately show ?thesis
    using keys by (simp add: satisfy_def Let_def)
qed

section \<open>Opening obligations\<close>

lemma foldl_update_dict_wf:
  "keyed_dict obligation_id d \<Longrightarrow>
    keyed_dict obligation_id (foldl (\<lambda>d ob. AList.update (obligation_id ob) ob d) d obs)"
  by (rule foldl_invariant) (auto intro: keyed_dict_update)

lemma foldl_update_map:
  "map_of (foldl (\<lambda>d ob. AList.update (obligation_id ob) ob d) d obs) =
    foldl (\<lambda>m ob. m(obligation_id ob \<mapsto> ob)) (map_of d) obs"
  by (induction obs arbitrary: d) (simp_all add: update_conv')

lemma open_events:
  "\<exists>evs. k_events (foldl (\<lambda>k ob. snd (kernel_record k LC_OBLIGATION_OPENED a None [ob])) k obs) = k_events k @ evs \<and>
    k_obligations (foldl (\<lambda>k ob. snd (kernel_record k LC_OBLIGATION_OPENED a None [ob])) k obs) = k_obligations k \<and>
    foldl apply_lifecycle m evs = foldl (\<lambda>m ob. m(obligation_id ob \<mapsto> ob)) m obs"
proof (induction obs arbitrary: k m)
  case (Cons ob obs)
  let ?k = "snd (kernel_record k LC_OBLIGATION_OPENED a None [ob])"
  let ?e = "\<lparr>lc_sequence = length (k_events k), lc_phase = LC_OBLIGATION_OPENED, lc_action = a,
    lc_error = None, lc_obligations = [ob]\<rparr>"
  obtain evs where "k_events (foldl (\<lambda>k ob. snd (kernel_record k LC_OBLIGATION_OPENED a None [ob])) ?k obs)
        = k_events ?k @ evs"
      "k_obligations (foldl (\<lambda>k ob. snd (kernel_record k LC_OBLIGATION_OPENED a None [ob])) ?k obs)
        = k_obligations ?k"
      "foldl apply_lifecycle (m(obligation_id ob \<mapsto> ob)) evs =
        foldl (\<lambda>m ob. m(obligation_id ob \<mapsto> ob)) (m(obligation_id ob \<mapsto> ob)) obs"
    using Cons.IH [of ?k "m(obligation_id ob \<mapsto> ob)"] by blast
  then show ?case
    by (intro exI [of _ "?e # evs"]) (simp add: kernel_record_snd del: fun_upd_apply)
qed simp

definition proposal_obligations ::
    "action_kernel \<Rightarrow> kernel_action \<Rightarrow> string option \<Rightarrow> string set \<Rightarrow> execution_obligation list" where
  "proposal_obligations k a explicit attrs =
     (if semantic_action a explicit \<noteq> []
      then exp_obligations (expand_execution_obligations (''action-'' @ show_nat (length (k_events k)))
        (semantic_action a explicit) (if attrs = {} then action_attributes a else attrs)
        BUILTIN_ACTION_RELATIONSHIPS)
      else [])"

lemma propose_unfold:
  "snd (propose k a explicit attrs) =
    (let obs = proposal_obligations k a explicit attrs;
         k1 = k\<lparr>k_obligations := foldl (\<lambda>d ob. AList.update (obligation_id ob) ob d) (k_obligations k) obs\<rparr>
     in foldl (\<lambda>k ob. snd (kernel_record k LC_OBLIGATION_OPENED a None [ob]))
          (snd (kernel_record k1 LC_PROPOSED a None obs)) obs)"
  by (simp add: propose_def proposal_obligations_def Let_def split_beta)

lemma propose_wf: "kernel_wf k \<Longrightarrow> kernel_wf (snd (propose k a explicit attrs))"
  unfolding propose_unfold Let_def
  by (rule foldl_invariant; (rule kernel_record_wf)?)
    (auto simp: kernel_wf_def intro: foldl_update_dict_wf)

lemma propose_emits: "\<exists>evs. emits k (snd (propose k a explicit attrs)) evs"
proof -
  let ?obs = "proposal_obligations k a explicit attrs"
  let ?k1 = "k\<lparr>k_obligations := foldl (\<lambda>d ob. AList.update (obligation_id ob) ob d) (k_obligations k) ?obs\<rparr>"
  let ?k2 = "snd (kernel_record ?k1 LC_PROPOSED a None ?obs)"
  let ?e = "\<lparr>lc_sequence = length (k_events k), lc_phase = LC_PROPOSED, lc_action = a,
    lc_error = None, lc_obligations = ?obs\<rparr>"
  obtain evs where "k_events (snd (propose k a explicit attrs)) = k_events ?k2 @ evs"
    "k_obligations (snd (propose k a explicit attrs)) = k_obligations ?k2"
    "foldl apply_lifecycle (map_of (k_obligations k)) evs =
      foldl (\<lambda>m ob. m(obligation_id ob \<mapsto> ob)) (map_of (k_obligations k)) ?obs"
    unfolding propose_unfold Let_def using open_events by meson
  then have "emits k (snd (propose k a explicit attrs)) (?e # evs)"
    by (simp add: emits_def kernel_record_snd foldl_update_map)
  then show ?thesis by blast
qed

lemma propose_dict:
  "k_obligations (snd (propose k a explicit attrs)) =
    foldl (\<lambda>d ob. AList.update (obligation_id ob) ob d) (k_obligations k) (proposal_obligations k a explicit attrs)"
proof -
  have "k_obligations (foldl (\<lambda>k ob. snd (kernel_record k LC_OBLIGATION_OPENED a None [ob])) k' obs) =
      k_obligations k'" for k' obs
    using open_events by blast
  then show ?thesis
    unfolding propose_unfold Let_def by (simp add: kernel_record_snd)
qed

section \<open>Runs of the kernel\<close>

text \<open>The operations an adapter performs on the kernel of a running execution.\<close>

inductive kernel_op :: "action_kernel \<Rightarrow> action_kernel \<Rightarrow> bool" where
  op_propose: "kernel_op k (snd (propose k a explicit attrs))"
| op_start: "kernel_op k (snd (start k a))"
| op_complete: "kernel_op k (snd (complete k a))"
| op_fail: "kernel_op k (snd (fail k a err))"
| op_satisfy: "kernel_op k (snd (satisfy k aid sem))"
| op_add: "kernel_op k (add_obligation k ob (Some a))"

inductive_cases kernel_op_cases: "kernel_op k k'"

lemma matching_keys:
  "kernel_wf k \<Longrightarrow> \<forall>item \<in> set (matching_obligations k sem src tgt). fst item = obligation_id (snd item)"
  by (auto simp: matching_obligations_def Let_def kernel_wf_def keyed_dict_def
      dest!: in_set_takeD split: if_splits)

lemma add_obligation_wf: "kernel_wf k \<Longrightarrow> kernel_wf (add_obligation k ob act)"
proof -
  assume "kernel_wf k"
  then have "kernel_wf (k\<lparr>k_obligations := AList.update (obligation_id ob) ob (k_obligations k)\<rparr>)"
    by (simp add: kernel_wf_def keyed_dict_update)
  with \<open>kernel_wf k\<close> show ?thesis
    by (auto simp: add_obligation_def Let_def kernel_record_wf split: option.split)
qed

lemma kernel_op_wf: "kernel_op k k' \<Longrightarrow> kernel_wf k \<Longrightarrow> kernel_wf k'"
proof (induction rule: kernel_op.induct)
  case (op_complete k a)
  then show ?case
    by (simp add: complete_def close_matching_obligations_def kernel_record_wf foldl_close_wf)
next
  case (op_satisfy k aid sem)
  then show ?case by (simp add: satisfy_foldl Let_def foldl_close_wf)
qed (simp_all add: propose_wf start_def fail_def kernel_record_wf add_obligation_wf)

lemma kernel_op_emits: "kernel_op k k' \<Longrightarrow> kernel_wf k \<Longrightarrow> \<exists>evs. emits k k' evs"
proof (induction rule: kernel_op.induct)
  case (op_propose k a explicit attrs)
  show ?case by (rule propose_emits)
next
  case (op_start k a)
  then show ?case unfolding start_def using kernel_record_emits by blast
next
  case (op_complete k a)
  let ?k = "close_matching_obligations k (semantic_action a None) (source_instance_id a) (action_target_ref a)"
  from op_complete obtain evs where "emits k ?k evs"
    unfolding close_matching_obligations_def using foldl_close_emits matching_keys by meson
  moreover obtain e where "emits ?k (snd (complete k a)) [e]"
    unfolding complete_def using kernel_record_emits by blast
  ultimately show ?case using emits_trans by blast
next
  case (op_fail k a err)
  then show ?case unfolding fail_def using kernel_record_emits by blast
next
  case (op_satisfy k aid sem)
  then show ?case
    unfolding satisfy_foldl [OF op_satisfy] Let_def snd_conv
    by (intro foldl_close_emits) (auto simp: kernel_wf_def keyed_dict_def)
next
  case (op_add k ob a)
  then show ?case
    by (cases "map_of (k_obligations k) (obligation_id ob)")
      (auto simp: add_obligation_def Let_def kernel_record_snd emits_def
        update_conv' intro: emits_refl exI [of _ "[]"] exI [of _ "[_]"])
qed

lemma kernel_run_wf: "kernel_op\<^sup>*\<^sup>* k k' \<Longrightarrow> kernel_wf k \<Longrightarrow> kernel_wf k'"
  by (induction rule: rtranclp_induct) (auto intro: kernel_op_wf)

lemma kernel_run_emits: "kernel_op\<^sup>*\<^sup>* k k' \<Longrightarrow> kernel_wf k \<Longrightarrow> \<exists>evs. emits k k' evs"
proof (induction rule: rtranclp_induct)
  case (step k1 k2)
  then show ?case
    using kernel_run_wf kernel_op_emits emits_trans by meson
qed (use emits_refl in blast)

lemma new_kernel_wf: "kernel_wf new_kernel"
  by (simp add: new_kernel_def kernel_wf_def)

lemma restore_wf: "kernel_wf k \<Longrightarrow> kernel_wf (restore_obligations k obs)"
  by (simp add: kernel_wf_def restore_obligations_def foldl_update_dict_wf)

section \<open>The projection simulates the kernel\<close>

definition open_map :: "execution_state \<Rightarrow> (string \<rightharpoonup> execution_obligation)" where
  "open_map s oid =
     (case List.find (\<lambda>ob. obligation_id ob = oid) (obligations s) of
        None \<Rightarrow> None
      | Some ob \<Rightarrow> if ob_status ob = OS_OPEN then Some ob else None)"

text \<open>Lifecycle events whose projection the reducer accepts.\<close>

definition lifecycle_ok :: "lifecycle_event \<Rightarrow> bool" where
  "lifecycle_ok e \<longleftrightarrow>
     (case lc_phase e of
        LC_OBLIGATION_OPENED \<Rightarrow>
          (case lc_obligations e of ob # _ \<Rightarrow> obligation_ok ob \<and> ob_status ob = OS_OPEN | [] \<Rightarrow> False)
      | LC_OBLIGATION_SATISFIED \<Rightarrow>
          (case lc_obligations e of ob # _ \<Rightarrow> obligation_ok ob | [] \<Rightarrow> False)
      | _ \<Rightarrow> canonical (kernel_action_id (lc_action e) (lc_sequence e)) \<and>
             canonical (semantic_action (lc_action e) None))"

lemma open_map_opened:
  "ob_status ob = OS_OPEN \<Longrightarrow>
    open_map (s\<lparr>obligations := upsert_by obligation_id (obligations s) ob\<rparr>) = (open_map s)(obligation_id ob \<mapsto> ob)"
  by (rule ext) (simp add: open_map_def obligation_key.upsert_find)

lemma find_map_status:
  "List.find (\<lambda>ob. obligation_id ob = k)
     (map (\<lambda>ob. if obligation_id ob = oid then ob\<lparr>ob_status := st\<rparr> else ob) obs) =
   map_option (\<lambda>ob. if obligation_id ob = oid then ob\<lparr>ob_status := st\<rparr> else ob)
     (List.find (\<lambda>ob. obligation_id ob = k) obs)"
  by (induction obs) auto

lemma open_map_satisfied:
  "open_map (set_obligation_status s oid OS_SATISFIED) = (open_map s)(oid := None)"
  by (rule ext) (auto simp: open_map_def set_obligation_status_def find_map_status
      split: option.splits dest: find_Some_mem)

lemma obligation_payload: "obligation_ok ob \<Longrightarrow> required_string (obligation_to_data ob) ''obligation_id'' = Inr (obligation_id ob)"
  by (simp add: obligation_to_data_def obligation_ok_def field_eqs)

lemma action_event_accepted:
  assumes "lc_phase e \<notin> {LC_OBLIGATION_OPENED, LC_OBLIGATION_SATISFIED}" "lifecycle_ok e"
    "canonical actor"
  shows "\<exists>pl t. durable_payload (phase_value ph) actor e = Inr pl \<and>
    reduce_payload s (durable_type (lc_phase e)) pl = Inr t \<and> obligations t = obligations s"
proof -
  obtain pl where pl: "durable_payload (phase_value ph) actor e = Inr pl"
    using assms(1) by (simp add: durable_payload_def)
  have ids: "canonical (kernel_action_id (lc_action e) (lc_sequence e))"
    "canonical (semantic_action (lc_action e) None)"
    using assms(1,2) by (auto simp: lifecycle_ok_def split: lifecycle_phase.splits)
  have fields: "required_string pl ''action_instance_id'' = Inr (kernel_action_id (lc_action e) (lc_sequence e))"
    "required_string pl ''kind'' = Inr (semantic_action (lc_action e) None)"
    "required_string pl ''actor_id'' = Inr actor" "required_string pl ''phase_type'' = Inr (phase_value ph)"
    using pl assms(1,3) ids by (auto simp: durable_payload_def field_eqs)
  have "get_default pl ''status'' (PStr ''correctable_error'') = PStr ''correctable_error''"
    using pl assms(1) by (auto simp: durable_payload_def get_default_def split: option.splits)
  moreover have "ActionStatus (PStr ''correctable_error'') = Inr AS_CORRECTABLE_ERROR"
    using enum_parsers_value(3) [of AS_CORRECTABLE_ERROR] by simp
  ultimately obtain st where st: "event_status (durable_type (lc_phase e)) pl = Inr st"
    by (simp add: event_status_def del: enum_parsers)
  obtain r where "action_record_for (actions s) (kernel_action_id (lc_action e) (lc_sequence e)) st pl = Inr r"
    using fields by (cases "List.find (\<lambda>item. action_instance_id item =
      kernel_action_id (lc_action e) (lc_sequence e)) (actions s)") (auto simp: action_record_for_def)
  with fields st have "reduce_action_event s (durable_type (lc_phase e)) pl =
      Inr (s\<lparr>actions := upsert_by action_instance_id (actions s) r\<rparr>)"
    by (simp add: reduce_action_event_def)
  moreover have "reduce_payload s (durable_type (lc_phase e)) pl = reduce_action_event s (durable_type (lc_phase e)) pl"
    using assms(1) by (cases "lc_phase e") (simp_all add: reduce_payload_def)
  ultimately show ?thesis using pl by auto
qed

lemma lifecycle_event_accepted:
  assumes "lifecycle_ok e" "canonical actor"
  shows "\<exists>pl t. durable_payload (phase_value ph) actor e = Inr pl \<and>
    reduce_payload s (durable_type (lc_phase e)) pl = Inr t \<and>
    open_map t = apply_lifecycle (open_map s) e"
proof -
  consider "lc_phase e = LC_OBLIGATION_OPENED" | "lc_phase e = LC_OBLIGATION_SATISFIED"
    | "lc_phase e \<notin> {LC_OBLIGATION_OPENED, LC_OBLIGATION_SATISFIED}" by blast
  then show ?thesis
  proof cases
    case 1
    with assms obtain ob obs where "lc_obligations e = ob # obs" "obligation_ok ob" "ob_status ob = OS_OPEN"
      by (auto simp: lifecycle_ok_def split: list.splits)
    with 1 show ?thesis
      by (auto simp: durable_payload_def reduce_payload_def obligation_codec.roundtrip open_map_opened)
  next
    case 2
    with assms obtain ob obs where "lc_obligations e = ob # obs" "obligation_ok ob"
      by (auto simp: lifecycle_ok_def split: list.splits)
    with 2 show ?thesis
      by (auto simp: durable_payload_def reduce_payload_def obligation_payload open_map_satisfied)
  next
    case 3
    from action_event_accepted [OF 3 assms] obtain pl t where
      "durable_payload (phase_value ph) actor e = Inr pl"
      "reduce_payload s (durable_type (lc_phase e)) pl = Inr t" "obligations t = obligations s" by blast
    moreover from this(3) have "open_map t = open_map s" by (simp add: open_map_def fun_eq_iff)
    ultimately show ?thesis using 3 by auto
  qed
qed

lemma projection_accepted:
  assumes "list_all lifecycle_ok evs" "canonical actor"
  shows "\<exists>es t. project_events (execution_id s) (phase_value ph) actor (state_version s) (event_sequence s) evs = Inr es \<and>
    reduce_execution_events s es = Inr t \<and> open_map t = foldl apply_lifecycle (open_map s) evs \<and>
    length es = length evs"
  using assms(1)
proof (induction evs arbitrary: s)
  case Nil
  then show ?case by (simp add: reduce_execution_events_def)
next
  case (Cons e evs)
  then obtain pl u where pl: "durable_payload (phase_value ph) actor e = Inr pl"
    and u: "reduce_payload s (durable_type (lc_phase e)) pl = Inr u"
      "open_map u = apply_lifecycle (open_map s) e"
    using lifecycle_event_accepted [OF _ assms(2), of e ph s] by auto
  let ?t = "u\<lparr>state_version := state_version s + 1, event_sequence := event_sequence s + 1\<rparr>"
  let ?e = "\<lparr>ev_execution_id = execution_id s, ev_sequence = event_sequence s + 1,
    expected_state_version = state_version s, event_type = durable_type (lc_phase e), payload = pl,
    event_id = execution_id s @ '':'' @ show_int (event_sequence s + 1)\<rparr>"
  have step: "reduce_execution_event s ?e = Inr ?t"
    using u by (simp add: reduce_event_Inr)
  have "execution_id ?t = execution_id s" "open_map ?t = open_map u"
    using reduce_payload_execution [OF u(1)] by (simp_all add: open_map_def fun_eq_iff)
  with Cons obtain es t where "project_events (execution_id s) (phase_value ph) actor
      (state_version s + 1) (event_sequence s + 1) evs = Inr es"
    "reduce_execution_events ?t es = Inr t" "open_map t = foldl apply_lifecycle (open_map u) evs"
    "length es = length evs"
    using Cons.IH [of ?t] by auto
  with pl step u(2) show ?case
    by (auto simp: reduce_execution_events_def)
qed

section \<open>Properties\<close>

text \<open>along every run of the kernel the lifecycle events are numbered 0, 1, 2, ... in the order they
  were recorded, earlier events are never changed, and every open obligation is stored once,
  under its own identifier.\<close>

theorem kernel_run_invariant:
  assumes "kernel_op\<^sup>*\<^sup>* new_kernel k"
  shows "map lc_sequence (k_events k) = [0..<length (k_events k)] \<and>
    distinct (map obligation_id (open_obligations k)) \<and>
    (kernel_op\<^sup>*\<^sup>* k k' \<longrightarrow> take (length (k_events k)) (k_events k') = k_events k)"
proof -
  have wf: "kernel_wf k"
    using assms kernel_run_wf new_kernel_wf by blast
  then have "distinct (map obligation_id (open_obligations k))"
    unfolding open_obligations_def kernel_wf_def using keyed_dict_values_distinct by blast
  moreover have "kernel_op\<^sup>*\<^sup>* k k' \<Longrightarrow> take (length (k_events k)) (k_events k') = k_events k"
    using kernel_run_emits [OF _ wf] unfolding emits_def by (metis append_eq_conv_conj)
  ultimately show ?thesis using wf by (auto simp: kernel_wf_def)
qed

definition review_edit :: kernel_action where
  "review_edit = MappingAction [(''kind'', PStr ''edit_for_review_comment''),
     (''attributes'', PList [PStr ''thread:7''])]"

definition reviewed_kernel :: action_kernel where
  "reviewed_kernel = snd (propose new_kernel review_edit None {})"

lemma reviewed_kernel_run: "kernel_op\<^sup>*\<^sup>* new_kernel reviewed_kernel"
  unfolding reviewed_kernel_def by (simp add: op_propose r_into_rtranclp)

theorem kernel_run_invariant_witness:
  "map lc_sequence (k_events reviewed_kernel) = [0..<2] \<and>
    distinct (map obligation_id (open_obligations reviewed_kernel))"
proof -
  have "length (k_events reviewed_kernel) = 2" by code_simp
  with kernel_run_invariant [OF reviewed_kernel_run] show ?thesis by metis
qed



text \<open>C19: \<^verbatim>\<open>satisfy\<close> closes exactly the open obligations of the given source action that require
  the given follow-up, keeps all others in their order, and reports whether there was one.\<close>

theorem satisfy_exact:
  assumes "kernel_wf k" "satisfy k aid sem = (found, k')"
  shows "open_obligations k' = filter (\<lambda>ob. \<not> satisfy_execution_obligation ob aid sem) (open_obligations k) \<and>
    (found \<longleftrightarrow> (\<exists>ob \<in> set (open_obligations k). satisfy_execution_obligation ob aid sem))"
proof -
  let ?m = "filter (\<lambda>(oid, ob). source_action_instance_id ob = Some aid \<and> required_action ob = Some sem)
    (k_obligations k)"
  let ?a = "MappingAction [(''action_instance_id'', PStr aid), (''action'', PStr sem)]"
  have "satisfy k aid sem = (?m \<noteq> [], foldl (close_one ?a) k ?m)"
    by (simp add: satisfy_foldl [OF assms(1)] Let_def)
  with assms(2) have found: "found \<longleftrightarrow> ?m \<noteq> []" and "k' = foldl (close_one ?a) k ?m"
    by simp_all
  then have "k_obligations k' = filter (\<lambda>(oid, ob). oid \<notin> fst ` set ?m) (k_obligations k)"
    by (simp only: foldl_close_dict)
  also have "\<dots> = filter (\<lambda>x. x \<notin> set ?m) (k_obligations k)"
    using assms(1) by (intro filter_keys_notin) (auto simp: kernel_wf_def keyed_dict_def)
  also have "\<dots> = filter (\<lambda>(oid, ob). \<not> satisfy_execution_obligation ob aid sem) (k_obligations k)"
    by (intro filter_cong) (auto simp: satisfy_execution_obligation_def)
  finally have k': "k_obligations k' =
    filter (\<lambda>(oid, ob). \<not> satisfy_execution_obligation ob aid sem) (k_obligations k)" .
  from k' found show ?thesis
    by (auto simp: open_obligations_def filter_map comp_def case_prod_unfold
        satisfy_execution_obligation_def filter_empty_conv)
qed

theorem satisfy_exact_witness:
  "open_obligations (snd (satisfy reviewed_kernel ''action-0'' ''run_validation'')) = [] \<and>
   fst (satisfy reviewed_kernel ''action-0'' ''run_validation'')"
proof -
  have wf: "kernel_wf reviewed_kernel"
    using kernel_run_wf new_kernel_wf reviewed_kernel_run by blast
  have "filter (\<lambda>ob. \<not> satisfy_execution_obligation ob ''action-0'' ''run_validation'')
      (open_obligations reviewed_kernel) = []"
    "list_ex (\<lambda>ob. satisfy_execution_obligation ob ''action-0'' ''run_validation'')
      (open_obligations reviewed_kernel)"
    by code_simp+
  with satisfy_exact [OF wf prod.collapse [symmetric]] show ?thesis
    by (simp add: list_ex_iff)
qed

text \<open>completing an action closes only obligations that require its semantic action and whose target,
  if any, is the action's; one that names its source closes all of that source, and one
  without provenance closes at most one, the oldest.\<close>

theorem complete_exact:
  assumes "kernel_wf k"
  shows "k_obligations (snd (complete k a)) =
    (let m = matching_obligations k (semantic_action a None) (source_instance_id a) (action_target_ref a)
     in filter (\<lambda>x. x \<notin> set m) (k_obligations k)) \<and>
   (\<forall>(oid, ob) \<in> set (matching_obligations k (semantic_action a None) (source_instance_id a) (action_target_ref a)).
      required_action ob = Some (semantic_action a None) \<and>
      (target_ref ob = None \<or> target_ref ob = action_target_ref a) \<and>
      (source_instance_id a \<noteq> None \<longrightarrow> source_action_instance_id ob = source_instance_id a)) \<and>
   (source_instance_id a = None \<longrightarrow>
      length (matching_obligations k (semantic_action a None) None (action_target_ref a)) \<le> 1)"
proof -
  let ?m = "matching_obligations k (semantic_action a None) (source_instance_id a) (action_target_ref a)"
  have sub: "set ?m \<subseteq> set (k_obligations k)"
    by (auto simp: matching_obligations_def Let_def dest!: in_set_takeD split: if_splits)
  have "k_obligations (snd (complete k a)) = filter (\<lambda>(oid, ob). oid \<notin> fst ` set ?m) (k_obligations k)"
    by (simp add: complete_def kernel_record_snd close_matching_obligations_def foldl_close_dict)
  also have "\<dots> = filter (\<lambda>x. x \<notin> set ?m) (k_obligations k)"
    using assms sub by (intro filter_keys_notin) (auto simp: kernel_wf_def keyed_dict_def)
  finally show ?thesis
    by (auto simp: matching_obligations_def Let_def dest!: in_set_takeD split: if_splits)
qed

theorem complete_exact_witness:
  "length (k_obligations (snd (complete
     (snd (propose reviewed_kernel (MappingAction [(''kind'', PStr ''edit_for_review_comment'')]) None {}))
     (MappingAction [(''kind'', PStr ''run_validation'')])))) = 1"
proof -
  let ?k = "snd (propose reviewed_kernel (MappingAction [(''kind'', PStr ''edit_for_review_comment'')]) None {})"
  let ?a = "MappingAction [(''kind'', PStr ''run_validation'')]"
  have "kernel_wf ?k"
    using kernel_run_wf new_kernel_wf reviewed_kernel_run propose_wf by blast
  from complete_exact [OF this, of ?a]
  have "k_obligations (snd (complete ?k ?a)) = filter (\<lambda>x. x \<notin> set
      (matching_obligations ?k (semantic_action ?a None) (source_instance_id ?a) (action_target_ref ?a)))
      (k_obligations ?k)" by (simp add: Let_def)
  moreover have "length (filter (\<lambda>x. x \<notin> set
      (matching_obligations ?k (semantic_action ?a None) (source_instance_id ?a) (action_target_ref ?a)))
      (k_obligations ?k)) = 1" by code_simp
  ultimately show ?thesis by simp
qed

text \<open>C18: when a proposal may start while obligations are open: only housekeeping actions, or an action
  some obligation requires, on a target one of those obligations names if any does, and never the
  resolution of a review thread before its validation.\<close>

theorem proposal_admitted_iff:
  "validate_proposal k a explicit = [] \<longleftrightarrow>
    (let sem = semantic_action a explicit;
         obs = open_obligations k;
         needed = filter (\<lambda>ob. required_action ob = Some sem) obs;
         targeted = filter (\<lambda>ob. target_ref ob \<noteq> None \<and> target_ref ob \<noteq> Some []) needed
     in sem \<in> {''emit_outputs'', ''delete_file'', ''file_management''} \<or> obs = [] \<or>
        (needed \<noteq> [] \<and>
         (targeted = [] \<or> action_target_ref a \<in> target_ref ` set targeted) \<and>
         \<not> (sem = ''resolve_review_thread'' \<and> (\<exists>ob \<in> set obs. required_action ob = Some ''run_validation''))))"
proof -
  have req: "x \<in> set (required_actions k) \<longleftrightarrow> (\<exists>ob \<in> set (open_obligations k). required_action ob = Some x)" for x
    by (force simp: required_actions_def List.map_filter_def)
  have "filter (\<lambda>ob. required_action ob = Some (semantic_action a explicit)) (open_obligations k) \<noteq> [] \<longleftrightarrow>
      semantic_action a explicit \<in> set (required_actions k)"
    by (auto simp: req filter_empty_conv)
  moreover have "k_obligations k = [] \<longleftrightarrow> open_obligations k = []"
    by (simp add: open_obligations_def)
  ultimately show ?thesis
    by (auto simp: validate_proposal_def Let_def req image_iff conj_ac eq_commute)
qed

theorem proposal_admitted_iff_witness:
  "validate_proposal reviewed_kernel (MappingAction [(''kind'', PStr ''resolve_review_thread'')]) None \<noteq> [] \<and>
   validate_proposal reviewed_kernel (MappingAction [(''kind'', PStr ''run_validation''),
     (''attributes'', PList [PStr ''thread:7''])]) None = []"
proof
  show "validate_proposal reviewed_kernel (MappingAction [(''kind'', PStr ''resolve_review_thread'')]) None \<noteq> []"
    by code_simp
  show "validate_proposal reviewed_kernel (MappingAction [(''kind'', PStr ''run_validation''),
     (''attributes'', PList [PStr ''thread:7''])]) None = []"
    unfolding proposal_admitted_iff by code_simp
qed

text \<open>an action without an instance identifier of its own gets a different durable identifier at
  each lifecycle event, so its proposal is never completed: after propose, start and complete the
  durable state holds three records, the first still proposed.\<close>

definition anonymous_action :: kernel_action where
  "anonymous_action = MappingAction [(''kind'', PStr ''read_file'')]"

definition anonymous_kernel :: action_kernel where
  "anonymous_kernel =
     snd (complete (snd (start (snd (propose new_kernel anonymous_action None {})) anonymous_action))
       anonymous_action)"

theorem anonymous_action_never_completes:
  "bind_r (to_execution_events anonymous_kernel ''e1'' ''build'' ''engineer'' (Some sample_initial) None)
     (\<lambda>es. bind_r (reduce_execution_events sample_initial es) (\<lambda>t.
       Inr (map (\<lambda>r. (action_instance_id r, ar_status r)) (actions t)))) =
   Inr [(''action-0'', AS_PROPOSED), (''action-1'', AS_STARTED), (''action-2'', AS_COMPLETED)]"
  by code_simp

end
