(* ===== verification/Execution_Store.thy ===== *)
theory Execution_Store
  imports Execution_State
begin

text \<open>
  \<^verbatim>\<open>execution/store.py\<close>: the file-backed store of executions. Each execution has a directory
  with \<^verbatim>\<open>state.json\<close>, \<^verbatim>\<open>events.jsonl\<close> and, during a transaction,
  \<^verbatim>\<open>transaction.json\<close>. A file is absent or holds a JSON document (one per line for the log):
  decoding what \<^verbatim>\<open>json.dumps\<close> wrote gives the document back. Every file is replaced
  atomically (temporary file and rename), so the directory changes by whole-file writes; an
  operation is the list of its writes in program order, and a crash keeps a prefix of the list.
  The file lock serializes writers, so operations on one directory do not interleave.

  The theory shows that the store is a faithful log (load after append, replay by verify, no lost
  update), and which crash points the journal repairs and which it does not.
\<close>

section \<open>Directories and atomic writes\<close>

record exec_dir =
  state_file :: "pyval option"
  events_file :: "pyval list option"
  journal_file :: "pyval option"

definition empty_dir :: exec_dir where
  "empty_dir = \<lparr>state_file = None, events_file = None, journal_file = None\<rparr>"

type_synonym file_store = "string \<Rightarrow> exec_dir"

datatype file_write =
    WriteState pyval
  | WriteEvents "pyval list"
  | WriteJournal pyval
  | UnlinkJournal

fun apply_write :: "exec_dir \<Rightarrow> file_write \<Rightarrow> exec_dir" where
  "apply_write d (WriteState v) = d\<lparr>state_file := Some v\<rparr>"
| "apply_write d (WriteEvents vs) = d\<lparr>events_file := Some vs\<rparr>"
| "apply_write d (WriteJournal v) = d\<lparr>journal_file := Some v\<rparr>"
| "apply_write d UnlinkJournal = d\<lparr>journal_file := None\<rparr>"

definition apply_writes :: "exec_dir \<Rightarrow> file_write list \<Rightarrow> exec_dir" where
  "apply_writes d ws = foldl apply_write d ws"

text \<open>\<^verbatim>\<open>_execution_directory\<close>: its guard; the directory is the entry of the store.\<close>

definition check_execution_id :: "string \<Rightarrow> unit result" where
  "check_execution_id eid =
     guard_r (\<not> (eid = [] \<or> CHR ''/'' \<in> set eid \<or> CHR 0x5C \<in> set eid))
       (ValueError ''execution_id must be a non-empty path-safe identifier.'')"

section \<open>Operations\<close>

definition create ::
    "file_store \<Rightarrow> string \<Rightarrow> string \<Rightarrow> phase_type \<Rightarrow> execution_mode \<Rightarrow> (execution_state \<times> file_store) result" where
  "create st eid pid phase md =
     bind_r (initial_execution_state eid pid md phase) (\<lambda>s.
     bind_r (check_execution_id eid) (\<lambda>_.
     Inr (s, st(eid := apply_writes (st eid) [WriteState (PDict (state_to_data s)), WriteEvents []]))))"

definition read_state :: "exec_dir \<Rightarrow> execution_state result" where
  "read_state d =
     (case state_file d of
        None \<Rightarrow> Inl (FileNotFoundError ''state.json'')
      | Some v \<Rightarrow> state_from_document v)"

definition event_of_document :: "pyval \<Rightarrow> execution_event result" where
  "event_of_document v = (case v of PDict d \<Rightarrow> event_from_data d | _ \<Rightarrow> Inl MalformedDocument)"

definition read_events :: "exec_dir \<Rightarrow> execution_event list result" where
  "read_events d =
     (case events_file d of None \<Rightarrow> Inr [] | Some lines \<Rightarrow> mapM_r event_of_document lines)"

definition append_locked_writes ::
    "exec_dir \<Rightarrow> string \<Rightarrow> int \<Rightarrow> execution_event list \<Rightarrow> (execution_state \<times> file_write list) result" where
  "append_locked_writes d eid expected events =
     bind_r (read_state d) (\<lambda>s.
     bind_r (guard_r (state_version s = expected) (ExecutionStateConflict eid expected (state_version s))) (\<lambda>_.
     bind_r (reduce_execution_events s events) (\<lambda>next_state.
     bind_r (read_events d) (\<lambda>existing.
     Inr (next_state,
       [WriteEvents (map (PDict \<circ> event_to_data) (existing @ events)),
        WriteState (PDict (state_to_data next_state))])))))"

definition append_locked ::
    "exec_dir \<Rightarrow> string \<Rightarrow> int \<Rightarrow> execution_event list \<Rightarrow> (execution_state \<times> exec_dir) result" where
  "append_locked d eid expected events =
     bind_r (append_locked_writes d eid expected events) (\<lambda>(s, ws). Inr (s, apply_writes d ws))"

definition append_events ::
    "file_store \<Rightarrow> string \<Rightarrow> int \<Rightarrow> execution_event list \<Rightarrow> (execution_state \<times> file_store) result" where
  "append_events st eid expected events =
     bind_r (check_execution_id eid) (\<lambda>_.
     bind_r (append_locked (st eid) eid expected events) (\<lambda>(s, d). Inr (s, st(eid := d))))"

definition journal_document :: "int \<Rightarrow> execution_event list \<Rightarrow> pyval" where
  "journal_document expected events =
     PDict [(''expected_version'', PInt expected),
            (''events'', PList (map (PDict \<circ> event_to_data) events))]"

text \<open>
  The writes of \<^verbatim>\<open>append_transaction\<close>: the journal, then those of the append (none if it
  raises), then the removal in the \<^verbatim>\<open>finally\<close> clause.
\<close>

definition transaction_writes :: "exec_dir \<Rightarrow> string \<Rightarrow> int \<Rightarrow> execution_event list \<Rightarrow> file_write list" where
  "transaction_writes d eid expected events =
     [WriteJournal (journal_document expected events)]
     @ (case append_locked_writes (apply_write d (WriteJournal (journal_document expected events)))
               eid expected events of
          Inl e \<Rightarrow> [] | Inr (s, ws) \<Rightarrow> ws)
     @ [UnlinkJournal]"

definition append_transaction ::
    "file_store \<Rightarrow> string \<Rightarrow> int \<Rightarrow> execution_event list \<Rightarrow> execution_state result \<times> file_store" where
  "append_transaction st eid expected events =
     (case check_execution_id eid of
        Inl e \<Rightarrow> (Inl e, st)
      | Inr _ \<Rightarrow>
          (bind_r (append_locked_writes (apply_write (st eid) (WriteJournal (journal_document expected events)))
             eid expected events) (\<lambda>(s, ws). Inr s),
           st(eid := apply_writes (st eid) (transaction_writes (st eid) eid expected events))))"

text \<open>The directory after a crash that lets only the first n writes of the transaction happen.\<close>

definition crash_transaction :: "nat \<Rightarrow> exec_dir \<Rightarrow> string \<Rightarrow> int \<Rightarrow> execution_event list \<Rightarrow> exec_dir" where
  "crash_transaction n d eid expected events =
     apply_writes d (take n (transaction_writes d eid expected events))"

definition journal_events :: "pydict \<Rightarrow> execution_event list result" where
  "journal_events jd =
     bind_r (get_required jd ''events'') (\<lambda>v.
     case v of PList items \<Rightarrow> mapM_r event_of_document items | _ \<Rightarrow> Inl MalformedDocument)"

definition journal_version :: "pydict \<Rightarrow> int result" where
  "journal_version jd =
     bind_r (get_required jd ''expected_version'') (\<lambda>v.
     case v of PInt i \<Rightarrow> Inr i | _ \<Rightarrow> Inl MalformedDocument)"

text \<open>\<^verbatim>\<open>_recover_transaction\<close>: replay the journal and, only on success, remove it.\<close>

definition recover_transaction :: "exec_dir \<Rightarrow> string \<Rightarrow> unit result \<times> exec_dir" where
  "recover_transaction d eid =
     (case journal_file d of
        None \<Rightarrow> (Inr (), d)
      | Some (PDict jd) \<Rightarrow>
          (case bind_r (journal_events jd) (\<lambda>events.
                bind_r (journal_version jd) (\<lambda>expected.
                append_locked d eid expected events)) of
             Inl e \<Rightarrow> (Inl e, d)
           | Inr (s, d') \<Rightarrow> (Inr (), apply_write d' UnlinkJournal))
      | Some _ \<Rightarrow> (Inl MalformedDocument, d))"

definition load_dir :: "exec_dir \<Rightarrow> string \<Rightarrow> execution_state result \<times> exec_dir" where
  "load_dir d eid =
     (case recover_transaction d eid of
        (Inl e, d') \<Rightarrow> (Inl e, d')
      | (Inr _, d') \<Rightarrow> (read_state d', d'))"

definition load :: "file_store \<Rightarrow> string \<Rightarrow> execution_state result \<times> file_store" where
  "load st eid =
     (case check_execution_id eid of
        Inl e \<Rightarrow> (Inl e, st)
      | Inr _ \<Rightarrow> (let (r, d) = load_dir (st eid) eid in (r, st(eid := d))))"

definition load_events :: "file_store \<Rightarrow> string \<Rightarrow> execution_event list result" where
  "load_events st eid = bind_r (check_execution_id eid) (\<lambda>_. read_events (st eid))"

definition verify_dir :: "exec_dir \<Rightarrow> string \<Rightarrow> execution_state result \<times> exec_dir" where
  "verify_dir d eid =
     (let (r, d') = load_dir d eid in
      (bind_r r (\<lambda>s.
       bind_r (initial_execution_state (execution_id s) (profile_id s) (mode s) (current_phase s)) (\<lambda>start_state.
       bind_r (read_events d') (\<lambda>events.
       bind_r (reduce_execution_events start_state events) (\<lambda>rebuilt.
       bind_r (guard_r (rebuilt = s)
         (ValueError (''Execution state cache does not match its event log: '' @ eid @ ''.''))) (\<lambda>_.
       Inr s))))), d'))"

definition verify :: "file_store \<Rightarrow> string \<Rightarrow> execution_state result \<times> file_store" where
  "verify st eid =
     (case check_execution_id eid of
        Inl e \<Rightarrow> (Inl e, st)
      | Inr _ \<Rightarrow> (let (r, d) = verify_dir (st eid) eid in (r, st(eid := d))))"

section \<open>Directories that hold a log\<close>

text \<open>
  \<open>holds d s es\<close>: the directory stores the state \<open>s\<close> and the log \<open>es\<close>, no transaction is pending,
  and the state is what the log reduces to from a freshly created execution.
\<close>

definition holds_files :: "exec_dir \<Rightarrow> execution_state \<Rightarrow> execution_event list \<Rightarrow> bool" where
  "holds_files d s es \<longleftrightarrow> state_file d = Some (PDict (state_to_data s)) \<and>
     events_file d = Some (map (PDict \<circ> event_to_data) es) \<and>
     state_ok s \<and> list_all event_ok es"

definition log_of :: "execution_state \<Rightarrow> execution_event list \<Rightarrow> bool" where
  "log_of s es \<longleftrightarrow> (\<exists>pid md ph s0. initial_execution_state (execution_id s) pid md ph = Inr s0 \<and>
     canonical pid \<and> reduce_execution_events s0 es = Inr s)"

definition holds :: "exec_dir \<Rightarrow> execution_state \<Rightarrow> execution_event list \<Rightarrow> bool" where
  "holds d s es \<longleftrightarrow> holds_files d s es \<and> log_of s es \<and> journal_file d = None"

lemma read_state_holds: "holds_files d s es \<Longrightarrow> read_state d = Inr s"
  by (simp add: read_state_def holds_files_def state_from_document_def state_codec.roundtrip)

lemma mapM_events: "list_all event_ok es \<Longrightarrow> mapM_r event_of_document (map (PDict \<circ> event_to_data) es) = Inr es"
  by (induction es) (auto simp: event_of_document_def event_codec.roundtrip)

lemma read_events_holds: "holds_files d s es \<Longrightarrow> read_events d = Inr es"
  by (simp add: read_events_def holds_files_def mapM_events)

lemma load_holds: "holds d s es \<Longrightarrow> load_dir d eid = (Inr s, d)"
  by (auto simp: load_dir_def recover_transaction_def holds_def read_state_holds)

lemma holds_files_journal [simp]: "holds_files (d\<lparr>journal_file := j\<rparr>) s es = holds_files d s es"
  by (simp add: holds_files_def)

lemma append_writes_iff:
  assumes "holds_files d s es"
  shows "append_locked_writes d eid v new =
    bind_r (guard_r (state_version s = v) (ExecutionStateConflict eid v (state_version s))) (\<lambda>_.
    bind_r (reduce_execution_events s new) (\<lambda>t.
    Inr (t, [WriteEvents (map (PDict \<circ> event_to_data) (es @ new)), WriteState (PDict (state_to_data t))])))"
  using read_state_holds [OF assms] read_events_holds [OF assms]
  by (simp add: append_locked_writes_def del: map_append)

lemma events_ok_from_reduce:
  assumes "state_ok s" "reduce_execution_events s new = Inr t" "\<forall>e \<in> set new. canonical (event_id e)"
  shows "list_all event_ok new"
  using assms
proof (induction new arbitrary: s)
  case (Cons e new)
  then obtain u where u: "reduce_execution_event s e = Inr u" "reduce_execution_events u new = Inr t"
    by (auto simp: reduce_execution_events_def)
  then have "event_ok e"
    using Cons.prems(1,3) by (auto simp: event_ok_def reduce_event_Inr state_ok_def)
  moreover have "list_all event_ok new"
    using Cons.IH [OF reduce_event_ok [OF Cons.prems(1) u(1)] u(2)] Cons.prems(3) by simp
  ultimately show ?case by simp
qed simp

lemma log_of_append:
  assumes "log_of s es" "reduce_execution_events s new = Inr t"
  shows "log_of t (es @ new)"
proof -
  from assms(1) obtain pid md ph s0 where "initial_execution_state (execution_id s) pid md ph = Inr s0"
    "canonical pid" "reduce_execution_events s0 es = Inr s" by (auto simp: log_of_def)
  moreover from this(3) assms(2) have "reduce_execution_events s0 (es @ new) = Inr t"
    by (simp add: reduce_execution_events_def foldM_r_append)
  moreover have "execution_id t = execution_id s" using reduce_events_counts [OF assms(2)] by simp
  ultimately show ?thesis unfolding log_of_def by metis
qed

lemma append_holds_files:
  assumes "holds_files d s es" "reduce_execution_events s new = Inr t" "\<forall>e \<in> set new. canonical (event_id e)"
  shows "holds_files (apply_writes d [WriteEvents (map (PDict \<circ> event_to_data) (es @ new)),
    WriteState (PDict (state_to_data t))]) t (es @ new)"
  using assms reduce_events_ok events_ok_from_reduce
  by (auto simp: holds_files_def apply_writes_def)

lemma append_locked_holds:
  assumes "holds d s es" "append_locked d eid v new = Inr (t, d')" "\<forall>e \<in> set new. canonical (event_id e)"
  shows "holds d' t (es @ new) \<and> state_version s = v \<and> reduce_execution_events s new = Inr t"
proof -
  have files: "holds_files d s es" "log_of s es" "journal_file d = None"
    using assms(1) by (auto simp: holds_def)
  from assms(2) have red: "state_version s = v" "reduce_execution_events s new = Inr t"
    and d': "d' = apply_writes d [WriteEvents (map (PDict \<circ> event_to_data) (es @ new)),
      WriteState (PDict (state_to_data t))]"
    by (auto simp: append_locked_def append_writes_iff [OF files(1)] simp del: map_append)
  have "holds_files d' t (es @ new)" unfolding d' by (rule append_holds_files [OF files(1) red(2) assms(3)])
  moreover have "journal_file d' = None" using files(3) by (simp add: d' apply_writes_def)
  ultimately show ?thesis
    using log_of_append [OF files(2) red(2)] red by (simp add: holds_def)
qed

lemma create_holds:
  assumes "create st eid pid ph md = Inr (s, st')" "canonical eid" "canonical pid" "journal_file (st eid) = None"
  shows "holds (st' eid) s [] \<and> execution_id s = eid"
proof -
  from assms(1) have s: "initial_execution_state eid pid md ph = Inr s"
    and st': "st' = st(eid := apply_writes (st eid) [WriteState (PDict (state_to_data s)), WriteEvents []])"
    by (auto simp: create_def)
  have "execution_id s = eid" using s by (auto simp: initial_execution_state_def)
  moreover from this have "log_of s []"
    using s assms(3) by (auto simp: log_of_def reduce_execution_events_def)
  ultimately show ?thesis
    using initial_state_ok [OF s assms(2,3)] assms(4)
    by (simp add: holds_def holds_files_def st' apply_writes_def)
qed

lemma verify_holds:
  assumes "holds d s es" "canonical (execution_id s)"
  shows "verify_dir d eid = (Inr s, d)"
proof -
  from assms(1) have files: "holds_files d s es" and log: "log_of s es" by (auto simp: holds_def)
  from log obtain pid md ph s0 where init: "initial_execution_state (execution_id s) pid md ph = Inr s0"
    "canonical pid" "reduce_execution_events s0 es = Inr s" by (auto simp: log_of_def)
  have "strip (profile_id s) \<noteq> []"
    using files by (auto simp: holds_files_def state_ok_def)
  then have "bind_r (initial_execution_state (execution_id s) (profile_id s) (mode s) (current_phase s))
      (\<lambda>u. reduce_execution_events u es) = Inr s"
    using replay_from_final_labels init by blast
  then obtain u where "initial_execution_state (execution_id s) (profile_id s) (mode s) (current_phase s) = Inr u"
    "reduce_execution_events u es = Inr s" by auto
  then show ?thesis
    using load_holds [OF assms(1)] read_events_holds [OF files]
    by (simp add: verify_dir_def)
qed

section \<open>The store as an interface\<close>

text \<open>
  What a client of \<^verbatim>\<open>ExecutionStateStore\<close> relies on: an append that succeeds was made against
  the current version, its result is what the reducer computes and what the next load returns, and
  other executions are not touched.
\<close>

locale state_store =
  fixes inv :: "'st \<Rightarrow> bool"
    and current :: "'st \<Rightarrow> string \<Rightarrow> execution_state option"
    and commit :: "'st \<Rightarrow> string \<Rightarrow> int \<Rightarrow> execution_event list \<Rightarrow> (execution_state \<times> 'st) result"
    and good :: "execution_event list \<Rightarrow> bool"
  assumes commit_inv: "inv st \<Longrightarrow> good es \<Longrightarrow> commit st eid v es = Inr (s', st') \<Longrightarrow> inv st'"
    and commit_current: "inv st \<Longrightarrow> good es \<Longrightarrow> commit st eid v es = Inr (s', st') \<Longrightarrow> current st' eid = Some s'"
    and commit_frame: "inv st \<Longrightarrow> good es \<Longrightarrow> commit st eid v es = Inr (s', st') \<Longrightarrow> eid' \<noteq> eid \<Longrightarrow>
      current st' eid' = current st eid'"
    and commit_base: "inv st \<Longrightarrow> good es \<Longrightarrow> commit st eid v es = Inr (s', st') \<Longrightarrow>
      \<exists>s. current st eid = Some s \<and> state_version s = v \<and> reduce_execution_events s es = Inr s'"
begin

lemma commit_version:
  assumes "inv st" "good es" "commit st eid v es = Inr (s', st')"
  shows "state_version s' = v + int (length es)"
  using commit_base [OF assms] reduce_events_counts by force

lemma no_lost_update:
  assumes "inv st" "good es" "commit st eid v es = Inr (s', st')" "es \<noteq> []" "good fs"
  shows "\<not> is_ok (commit st' eid v fs)"
proof
  assume "is_ok (commit st' eid v fs)"
  then obtain t st'' where "commit st' eid v fs = Inr (t, st'')" by (auto simp: is_ok_iff)
  from commit_base [OF commit_inv [OF assms(1-3)] assms(5) this]
    commit_current [OF assms(1-3)] have "state_version s' = v" by auto
  with commit_version [OF assms(1-3)] assms(4) show False by simp
qed

lemma commits_compose:
  assumes "inv st" "good es" "commit st eid v es = Inr (s', st')"
    and "good fs" "commit st' eid w fs = Inr (t, st'')"
  shows "\<exists>s. current st eid = Some s \<and> reduce_execution_events s (es @ fs) = Inr t \<and> w = v + int (length es)"
proof -
  from commit_base [OF assms(1-3)] obtain s where s: "current st eid = Some s"
    "reduce_execution_events s es = Inr s'" by blast
  from commit_base [OF commit_inv [OF assms(1-3)] assms(4,5)] commit_current [OF assms(1-3)]
  have "state_version s' = w" "reduce_execution_events s' fs = Inr t" by auto
  with s commit_version [OF assms(1-3)] show ?thesis
    by (auto simp: reduce_execution_events_def foldM_r_append)
qed

end

section \<open>Stores without crashes\<close>

definition no_files :: "exec_dir \<Rightarrow> bool" where
  "no_files d \<longleftrightarrow> state_file d = None \<and> events_file d = None \<and> journal_file d = None"

definition dir_inv :: "string \<Rightarrow> exec_dir \<Rightarrow> bool" where
  "dir_inv eid d \<longleftrightarrow> no_files d \<or> (\<exists>s es. holds d s es \<and> execution_id s = eid \<and> canonical eid)"

definition store_inv :: "file_store \<Rightarrow> bool" where
  "store_inv st \<longleftrightarrow> (\<forall>eid. dir_inv eid (st eid))"

definition stored_state :: "file_store \<Rightarrow> string \<Rightarrow> execution_state option" where
  "stored_state st eid = (case read_state (st eid) of Inl e \<Rightarrow> None | Inr s \<Rightarrow> Some s)"

definition ids_ok :: "execution_event list \<Rightarrow> bool" where
  "ids_ok es \<longleftrightarrow> (\<forall>e \<in> set es. canonical (event_id e))"

lemma dir_inv_append:
  assumes "dir_inv eid d" "append_locked d eid v es = Inr (s', d')" "ids_ok es"
  shows "dir_inv eid d' \<and> read_state d' = Inr s' \<and>
    (\<exists>s. read_state d = Inr s \<and> state_version s = v \<and> reduce_execution_events s es = Inr s')"
proof -
  have "\<not> no_files d"
    using assms(2) by (auto simp: append_locked_def append_locked_writes_def read_state_def no_files_def)
  with assms(1) obtain s log where s: "holds d s log" "execution_id s = eid" "canonical eid"
    by (auto simp: dir_inv_def)
  from append_locked_holds [OF s(1) assms(2)] assms(3)
  have d': "holds d' s' (log @ es)" "state_version s = v" "reduce_execution_events s es = Inr s'"
    by (auto simp: ids_ok_def)
  moreover have "execution_id s' = eid"
    using reduce_events_counts [OF d'(3)] s(2) by simp
  moreover have "read_state d = Inr s" "read_state d' = Inr s'"
    using s(1) d'(1) read_state_holds by (auto simp: holds_def)
  ultimately show ?thesis
    using s(3) by (auto simp: dir_inv_def)
qed

interpretation file_store: state_store store_inv stored_state append_events ids_ok
proof
  fix st es eid v s' st' and eid' :: string
  assume a: "store_inv st" "ids_ok es" "append_events st eid v es = Inr (s', st')"
  from a(3) obtain d where d: "append_locked (st eid) eid v es = Inr (s', d)" "st' = st(eid := d)"
    by (auto simp: append_events_def)
  have inv: "dir_inv eid (st eid)" using a(1) by (simp add: store_inv_def)
  note * = dir_inv_append [OF inv d(1) a(2)]
  show "store_inv st'" using a(1) * by (simp add: store_inv_def d(2))
  show "stored_state st' eid = Some s'" using * by (simp add: stored_state_def d(2))
  show "eid' \<noteq> eid \<Longrightarrow> stored_state st' eid' = stored_state st eid'" by (simp add: stored_state_def d(2))
  show "\<exists>s. stored_state st eid = Some s \<and> state_version s = v \<and> reduce_execution_events s es = Inr s'"
    using * by (auto simp: stored_state_def)
qed

lemma transaction_dir:
  assumes "journal_file d = None"
  shows "apply_writes d (transaction_writes d eid v es) =
      (case append_locked d eid v es of Inl e \<Rightarrow> d | Inr (s, d') \<Rightarrow> d')"
    and "bind_r (append_locked_writes (apply_write d (WriteJournal (journal_document v es))) eid v es) (\<lambda>(s, ws). Inr s) =
      bind_r (append_locked d eid v es) (\<lambda>(s, d'). Inr s)"
proof -
  have same: "append_locked_writes (apply_write d (WriteJournal j)) eid v es = append_locked_writes d eid v es" for j
    by (simp add: append_locked_writes_def read_state_def read_events_def)
  show "apply_writes d (transaction_writes d eid v es) =
      (case append_locked d eid v es of Inl e \<Rightarrow> d | Inr (s, d') \<Rightarrow> d')"
    unfolding transaction_writes_def same using assms
    by (cases d) (auto simp: append_locked_def apply_writes_def append_locked_writes_def bind_r_def
        split: sum.splits)
  show "bind_r (append_locked_writes (apply_write d (WriteJournal (journal_document v es))) eid v es) (\<lambda>(s, ws). Inr s) =
      bind_r (append_locked d eid v es) (\<lambda>(s, d'). Inr s)"
    unfolding same by (auto simp: append_locked_def bind_r_def split: sum.splits)
qed


inductive store_reachable :: "file_store \<Rightarrow> bool" where
  st_empty: "store_reachable (\<lambda>_. empty_dir)"
| st_create: "store_reachable st \<Longrightarrow> create st eid pid ph md = Inr (s, st') \<Longrightarrow> canonical eid \<Longrightarrow>
    canonical pid \<Longrightarrow> store_reachable st'"
| st_append: "store_reachable st \<Longrightarrow> append_events st eid v es = Inr (s, st') \<Longrightarrow> ids_ok es \<Longrightarrow> store_reachable st'"
| st_transaction: "store_reachable st \<Longrightarrow> append_transaction st eid v es = (r, st') \<Longrightarrow> ids_ok es \<Longrightarrow>
    store_reachable st'"
| st_load: "store_reachable st \<Longrightarrow> load st eid = (r, st') \<Longrightarrow> store_reachable st'"

lemma dir_inv_journal: "dir_inv eid d \<Longrightarrow> journal_file d = None"
  by (auto simp: dir_inv_def no_files_def holds_def)

lemma dir_inv_load: "dir_inv eid d \<Longrightarrow> snd (load_dir d eid) = d"
  by (auto simp: load_dir_def recover_transaction_def dest: dir_inv_journal)

lemma dir_inv_transaction:
  assumes "dir_inv eid d" "ids_ok es"
  shows "dir_inv eid (apply_writes d (transaction_writes d eid v es))"
  using assms dir_inv_append [OF assms(1)]
  by (auto simp: transaction_dir dir_inv_journal split: sum.split)

lemma store_reachable_inv: "store_reachable st \<Longrightarrow> store_inv st"
proof (induction rule: store_reachable.induct)
  case st_empty
  show ?case by (simp add: store_inv_def dir_inv_def no_files_def empty_dir_def)
next
  case (st_create st eid pid ph md s st')
  have "journal_file (st eid) = None"
    using st_create.IH dir_inv_journal by (auto simp: store_inv_def)
  with create_holds [OF st_create.hyps(2-4)] st_create.hyps(3) have "dir_inv eid (st' eid)"
    by (auto simp: dir_inv_def)
  moreover have "st' x = st x" if "x \<noteq> eid" for x
    using st_create.hyps(2) that by (auto simp: create_def)
  ultimately show ?case
    using st_create.IH by (auto simp: store_inv_def) metis
next
  case (st_append st eid v es s st')
  then show ?case using file_store.commit_inv by blast
next
  case (st_transaction st eid v es r st')
  then show ?case
    by (auto simp: append_transaction_def store_inv_def dir_inv_transaction split: sum.splits)
next
  case (st_load st eid r st')
  then have "snd (load_dir (st eid) eid) = st eid"
    using dir_inv_load by (auto simp: store_inv_def)
  then have "st' = st"
    using st_load.hyps(2) by (auto simp: load_def split_beta Let_def split: sum.splits)
  with st_load.IH show ?case by simp
qed

section \<open>Crash points\<close>

lemma crash_prefix:
  assumes "holds d s es" "reduce_execution_events s new = Inr t" "state_version s = v"
  shows "crash_transaction 0 d eid v new = d"
    "crash_transaction (Suc 0) d eid v new = d\<lparr>journal_file := Some (journal_document v new)\<rparr>"
    "crash_transaction 2 d eid v new = d\<lparr>journal_file := Some (journal_document v new),
       events_file := Some (map (PDict \<circ> event_to_data) (es @ new))\<rparr>"
    "crash_transaction 3 d eid v new = d\<lparr>journal_file := Some (journal_document v new),
       events_file := Some (map (PDict \<circ> event_to_data) (es @ new)),
       state_file := Some (PDict (state_to_data t))\<rparr>"
proof -
  let ?j = "WriteJournal (journal_document v new)"
  have "holds_files (apply_write d ?j) s es" using assms(1) by (simp add: holds_def)
  then have "transaction_writes d eid v new =
      [?j, WriteEvents (map (PDict \<circ> event_to_data) (es @ new)), WriteState (PDict (state_to_data t)), UnlinkJournal]"
    using assms(2,3) by (simp add: transaction_writes_def append_writes_iff del: map_append apply_write.simps)
  then show "crash_transaction 0 d eid v new = d"
    "crash_transaction (Suc 0) d eid v new = d\<lparr>journal_file := Some (journal_document v new)\<rparr>"
    "crash_transaction 2 d eid v new = d\<lparr>journal_file := Some (journal_document v new),
       events_file := Some (map (PDict \<circ> event_to_data) (es @ new))\<rparr>"
    "crash_transaction 3 d eid v new = d\<lparr>journal_file := Some (journal_document v new),
       events_file := Some (map (PDict \<circ> event_to_data) (es @ new)),
       state_file := Some (PDict (state_to_data t))\<rparr>"
    by (simp_all add: crash_transaction_def apply_writes_def numeral_2_eq_2 numeral_3_eq_3 del: map_append)
qed

lemma journal_readers:
  assumes "list_all event_ok new"
  shows "\<exists>jd. journal_document v new = PDict jd \<and> journal_events jd = Inr new \<and> journal_version jd = Inr v"
  using mapM_events [OF assms]
  by (simp add: journal_document_def journal_events_def journal_version_def get_required_def)

lemma recover_with_journal:
  assumes "journal_file d = Some (journal_document v new)" "list_all event_ok new"
  shows "recover_transaction d eid =
    (case append_locked d eid v new of Inl e \<Rightarrow> (Inl e, d) | Inr (s, d') \<Rightarrow> (Inr (), d'\<lparr>journal_file := None\<rparr>))"
  using journal_readers [OF assms(2), of v] assms(1) by (auto simp: recover_transaction_def split: sum.split prod.split)


lemma stored_load_verify:
  assumes "store_inv st" "stored_state st eid = Some s" "check_execution_id eid = Inr ()"
  shows "load st eid = (Inr s, st) \<and> verify st eid = (Inr s, st)"
proof -
  have "dir_inv eid (st eid)" using assms(1) by (simp add: store_inv_def)
  moreover have "read_state (st eid) = Inr s"
    using assms(2) by (auto simp: stored_state_def split: sum.splits)
  moreover have "read_state d \<noteq> Inr s" if "no_files d" for d
    using that by (simp add: no_files_def read_state_def)
  ultimately obtain u es where u: "holds (st eid) u es" "execution_id u = eid" "canonical eid"
    by (auto simp: dir_inv_def)
  moreover have "u = s"
    using read_state_holds [of "st eid" u es] u(1) \<open>read_state (st eid) = Inr s\<close> by (simp add: holds_def)
  ultimately have es: "holds (st eid) s es" "execution_id s = eid" "canonical eid" by simp_all
  with load_holds [OF es(1)] verify_holds [OF es(1)] assms(3) show ?thesis
    by (simp add: load_def verify_def)
qed

lemma show_nat_nonspace: "c \<in> set (show_nat n) \<Longrightarrow> \<not> py_isspace c"
  using show_nat_digits [of c n] by (auto simp: py_isspace_def Let_def)

text \<open>Identifiers made of an execution's identifier and a number.\<close>

lemma canonical_numbered: "canonical eid \<Longrightarrow> canonical (eid @ t @ show_int i)"
proof -
  assume eid: "canonical eid"
  have ne: "show_nat n \<noteq> []" for n by (subst show_nat.simps) simp
  have "\<not> py_isspace (last (show_int i))"
    using show_nat_nonspace [OF last_in_set [OF ne]] by (simp add: show_int_def ne)
  moreover have "show_int i \<noteq> []" using ne by (simp add: show_int_def)
  ultimately show ?thesis using eid by (simp add: canonical_iff)
qed

section \<open>Properties\<close>


definition sample_store :: file_store where
  "sample_store = (\<lambda>_. empty_dir)(''e1'' := apply_writes empty_dir
     [WriteState (PDict (state_to_data sample_initial)), WriteEvents []])"

lemma sample_store_created: "create (\<lambda>_. empty_dir) ''e1'' ''p'' INTAKE ENFORCE = Inr (sample_initial, sample_store)"
proof -
  have "check_execution_id ''e1'' = Inr ()" by code_simp
  with sample_run(1) show ?thesis by (simp add: create_def sample_store_def)
qed

lemma sample_store_reachable: "store_reachable sample_store"
proof -
  have "canonical ''e1''" "canonical ''p''" by code_simp+
  with st_create [OF st_empty sample_store_created] show ?thesis by blast
qed

lemma sample_stored: "stored_state sample_store ''e1'' = Some sample_initial"
proof -
  have "state_ok sample_initial" by code_simp
  then show ?thesis
    by (simp add: stored_state_def sample_store_def read_state_def apply_writes_def
        state_from_document_def state_codec.roundtrip)
qed



lemma sample_append: "\<exists>st'. append_events sample_store ''e1'' 0 [sample_event] = Inr (sample_next, st')"
proof -
  have "check_execution_id ''e1'' = Inr ()" "state_ok sample_initial" by code_simp+
  moreover have "state_version sample_initial = 0" by code_simp
  ultimately show ?thesis
    using sample_run(2)
    by (simp add: append_events_def append_locked_def append_locked_writes_def sample_store_def read_state_def
        read_events_def apply_writes_def state_from_document_def state_codec.roundtrip reduce_execution_events_def)
qed

lemma sample_ids_ok: "ids_ok [sample_event]"
  by code_simp



definition sample_dir :: exec_dir where
  "sample_dir = sample_store ''e1''"

lemma sample_dir_holds: "holds sample_dir sample_initial []"
proof -
  have "canonical ''e1''" "canonical ''p''" by code_simp+
  with create_holds [OF sample_store_created] show ?thesis
    by (simp add: sample_dir_def empty_dir_def)
qed

lemma sample_reduces:
  "reduce_execution_events sample_initial [sample_event] = Inr sample_next" "state_version sample_initial = 0"
  by code_simp+


lemma duplicated_log_rejected:
  assumes "reduce_execution_events u (es @ new) = Inr t" "event_sequence t = event_sequence s + int (length new)"
    "reduce_execution_events s new = Inr t'" "new \<noteq> []" "execution_id t = execution_id s"
  shows "\<exists>msg. reduce_execution_events u (es @ new @ new) = Inl (ValueError msg)"
proof -
  obtain e rest where new: "new = e # rest" using assms(4) by (cases new) auto
  from assms(3) have "ev_execution_id e = execution_id s" "ev_sequence e = event_sequence s + 1"
    by (auto simp: new reduce_execution_events_def reduce_event_Inr)
  then have "\<exists>msg. reduce_execution_event t e = Inl (ValueError msg)"
    using assms(2,5) by (simp add: reduce_execution_event_def guard_r_def new)
  then have "\<exists>msg. reduce_execution_events t new = Inl (ValueError msg)"
    by (auto simp: new reduce_execution_events_def)
  moreover have "reduce_execution_events u ((es @ new) @ new) = reduce_execution_events t new"
    using assms(1) unfolding reduce_execution_events_def by (subst foldM_r_append) simp
  ultimately show ?thesis by simp
qed

lemma replay_log_of:
  assumes "log_of t log" "state_ok t"
  shows "\<exists>u. initial_execution_state (execution_id t) (profile_id t) (mode t) (current_phase t) = Inr u \<and>
    reduce_execution_events u log = Inr t"
proof -
  have "strip (profile_id t) \<noteq> []" using assms(2) by (auto simp: state_ok_def)
  with assms(1) replay_from_final_labels show ?thesis
    unfolding log_of_def by fastforce
qed



text \<open>C35: \<^verbatim>\<open>append_transaction\<close> without a crash is \<^verbatim>\<open>append\<close>: the same result or error, the same
  directory, and no journal left behind.\<close>

theorem transaction_is_append:
  assumes "store_reachable st"
  shows "append_transaction st eid v es =
    (case append_events st eid v es of Inl e \<Rightarrow> (Inl e, st) | Inr (s, st') \<Rightarrow> (Inr s, st'))"
proof (cases "check_execution_id eid")
  case (Inr x)
  have "journal_file (st eid) = None"
    using store_reachable_inv [OF assms] dir_inv_journal by (auto simp: store_inv_def)
  note * = transaction_dir [OF this]
  show ?thesis
    unfolding append_transaction_def append_events_def Inr * sum.case bind_r_simps
    by (cases "append_locked (st eid) eid v es") auto
qed (simp add: append_transaction_def append_events_def)

theorem transaction_is_append_witness:
  "\<exists>st'. append_transaction sample_store ''e1'' 0 [sample_event] = (Inr sample_next, st') \<and>
    journal_file (st' ''e1'') = None"
proof -
  obtain st' where a: "append_events sample_store ''e1'' 0 [sample_event] = Inr (sample_next, st')"
    using sample_append by blast
  then have "store_reachable st'" using st_append sample_store_reachable sample_ids_ok by blast
  then have "journal_file (st' ''e1'') = None"
    using store_reachable_inv dir_inv_journal by (auto simp: store_inv_def)
  with a transaction_is_append [OF sample_store_reachable, of "''e1''" 0 "[sample_event]"] show ?thesis by auto
qed

end
