(* ===== verification/Phase_Control.thy ===== *)
theory Phase_Control
  imports Tool_Manifest Behavior_Rules
begin

text \<open>
  \<^verbatim>\<open>execution/phases.py\<close> and \<^verbatim>\<open>execution/personas.py\<close>: the closed phase topology with its
  obligation guard, the packet that assigns a phase to a persona, and the check of a typed
  artifact handoff.

  Python iterates the set of required artifact types in an unspecified order; the model takes
  the order of the handoff contracts, and the statements about the errors do not depend on it.
\<close>

section \<open>Phase transitions\<close>

definition DEFAULT_PHASE_TRANSITIONS :: "(phase_type \<times> phase_type set) list" where
  "DEFAULT_PHASE_TRANSITIONS =
     [(INTAKE, {SPECIFY}),
      (SPECIFY, {REVIEW_SPECIFICATIONS}),
      (REVIEW_SPECIFICATIONS, {DECOMPOSE}),
      (DECOMPOSE, {REVIEW_PROPOSED_PRS}),
      (REVIEW_PROPOSED_PRS, {PLAN_PR}),
      (PLAN_PR, {AWAIT_PLAN_DECISION, BUILD}),
      (AWAIT_PLAN_DECISION, {BUILD}),
      (BUILD, {VALIDATE}),
      (VALIDATE, {REVIEW_PR}),
      (REVIEW_PR, {RESOLVE_FINDINGS, CONFIRM_READINESS}),
      (RESOLVE_FINDINGS, {VALIDATE, REVIEW_PR}),
      (CONFIRM_READINESS, {PUBLISH_PR}),
      (PUBLISH_PR, {COMPLETE_FEATURE}),
      (COMPLETE_FEATURE, {})]"

record phase_decision =
  allowed :: bool
  pt_current_phase :: phase_type
  target_phase :: phase_type
  guards :: "string list"

text \<open>\<^verbatim>\<open>PhaseController.__init__\<close>: no table, or an empty one, means the default table.\<close>

definition controller_transitions ::
    "(phase_type \<times> phase_type set) list option \<Rightarrow> (phase_type \<times> phase_type set) list" where
  "controller_transitions t =
     (case t of None \<Rightarrow> DEFAULT_PHASE_TRANSITIONS
      | Some [] \<Rightarrow> DEFAULT_PHASE_TRANSITIONS
      | Some (x # xs) \<Rightarrow> x # xs)"

definition evaluate_transition ::
    "(phase_type \<times> phase_type set) list \<Rightarrow> execution_state \<Rightarrow> phase_type \<Rightarrow> string list \<Rightarrow> phase_decision" where
  "evaluate_transition transitions s target open_descriptions =
     (let allowed_targets = (case map_of transitions (current_phase s) of None \<Rightarrow> {} | Some ts \<Rightarrow> ts)
      in if target \<notin> allowed_targets
         then \<lparr>allowed = False, pt_current_phase = current_phase s, target_phase = target,
               guards = [''Transition from '' @ phase_value (current_phase s) @ '' to '' @
                         phase_value target @ '' is not allowed.'']\<rparr>
         else if target \<in> {CONFIRM_READINESS, PUBLISH_PR, COMPLETE_FEATURE} \<and> open_descriptions \<noteq> []
         then \<lparr>allowed = False, pt_current_phase = current_phase s, target_phase = target,
               guards = map (\<lambda>item. ''Open relationship obligation blocks transition: '' @ item)
                          open_descriptions\<rparr>
         else \<lparr>allowed = True, pt_current_phase = current_phase s, target_phase = target, guards = []\<rparr>)"

section \<open>Persona packets\<close>

datatype persona_run_status = PR_ACTIVE | PR_HANDED_OFF | PR_COMPLETED | PR_FAILED

fun persona_run_status_value :: "persona_run_status \<Rightarrow> string" where
  "persona_run_status_value PR_ACTIVE = ''active''"
| "persona_run_status_value PR_HANDED_OFF = ''handed_off''"
| "persona_run_status_value PR_COMPLETED = ''completed''"
| "persona_run_status_value PR_FAILED = ''failed''"

record persona_packet =
  pp_run_id :: string
  pp_execution_id :: string
  pp_phase_type :: phase_type
  pp_persona :: persona_definition
  responsibility :: string
  posture :: string
  allowed_actions :: "string set"
  allowed_effects :: "tool_effect set"
  input_artifact_ids :: "string list"
  guidance_rules :: "behavior_rule list"

record persona_run =
  pr_run_id :: string
  pr_execution_id :: string
  pr_phase_type :: phase_type
  pr_persona_id :: string
  pr_model_profile :: string
  pr_status :: persona_run_status
  handoff_artifact_ids :: "string list"

definition prompt_catalog :: "persona_packet \<Rightarrow> string list" where
  "prompt_catalog p = responsibility p # posture p # map rule_text (guidance_rules p)"

definition build_persona_packet ::
    "delivery_profile \<Rightarrow> string \<Rightarrow> string \<Rightarrow> phase_type \<Rightarrow> string set \<Rightarrow> (string \<times> string set) list \<Rightarrow>
     tool_effect set \<Rightarrow> string list \<Rightarrow> behavior_rule list \<Rightarrow> persona_packet result" where
  "build_persona_packet profile eid rid ph phase_actions persona_actions effs inputs guidance =
     (case List.find (\<lambda>item. pa_phase_type item = ph) (dp_phases profile) of
        None \<Rightarrow> Inl (ValueError (''No assignment exists for phase '' @ py_repr (phase_value ph) @ ''.''))
      | Some phase \<Rightarrow>
          (case List.find (\<lambda>item. pd_persona_id item = pa_persona_id phase) (dp_personas profile) of
             None \<Rightarrow> Inl (ValueError (''No persona exists for '' @ py_repr (pa_persona_id phase) @ ''.''))
           | Some persona \<Rightarrow>
               Inr \<lparr>pp_run_id = rid, pp_execution_id = eid, pp_phase_type = ph, pp_persona = persona,
                    responsibility = ''Own the '' @ phase_value ph @ '' responsibilities assigned to '' @
                      pd_persona_id persona @ ''.'',
                    posture = ''Use only the active phase envelope and produce the assigned typed artifacts.'',
                    allowed_actions = phase_actions \<inter>
                      (case map_of persona_actions (pd_persona_id persona) of None \<Rightarrow> {} | Some acts \<Rightarrow> acts),
                    allowed_effects = effs, input_artifact_ids = inputs, guidance_rules = guidance\<rparr>))"

section \<open>Handoffs\<close>

definition handoff_contracts :: "delivery_profile \<Rightarrow> phase_type \<Rightarrow> phase_type \<Rightarrow> artifact_handoff list" where
  "handoff_contracts profile src dst =
     filter (\<lambda>h. ah_source_phase h = src \<and> ah_destination_phase h = dst) (dp_artifact_handoffs profile)"

text \<open>\<^verbatim>\<open>{artifact.artifact_id: artifact for artifact in state.artifacts}.get(id)\<close>: the last one wins.\<close>

definition artifact_by_id :: "execution_state \<Rightarrow> string \<Rightarrow> execution_artifact option" where
  "artifact_by_id s aid = List.find (\<lambda>a. artifact_id a = aid) (rev (artifacts s))"

definition validate_handoff ::
    "delivery_profile \<Rightarrow> execution_state \<Rightarrow> phase_type \<Rightarrow> phase_type \<Rightarrow> string list \<Rightarrow> bool \<times> string list" where
  "validate_handoff profile s src dst artifact_ids =
     (let contracts = handoff_contracts profile src dst;
          required_types = py_dedup (map ah_artifact_type (filter ah_required contracts));
          supplied = map (artifact_by_id s) artifact_ids;
          missing = map (\<lambda>ty. ''missing accepted '' @ ty @ '' handoff artifact'')
            (filter (\<lambda>ty. \<not> (\<exists>item \<in> set supplied. case item of None \<Rightarrow> False
               | Some a \<Rightarrow> artifact_type a = ty \<and> accepted a)) required_types);
          bad = concat (map (\<lambda>item. case item of
              None \<Rightarrow> [''handoff references an unknown artifact'']
            | Some a \<Rightarrow> if \<not> accepted a
                then [''artifact '' @ py_repr (artifact_id a) @ '' has not been accepted''] else []) supplied);
          owner = concat (map (\<lambda>c. concat (map (\<lambda>item. case item of
              None \<Rightarrow> []
            | Some a \<Rightarrow> if artifact_type a = ah_artifact_type c \<and> owner_persona_id a \<noteq> ah_owner_persona_id c
                then [''artifact '' @ py_repr (artifact_id a) @ '' has the wrong owner''] else []) supplied)) contracts);
          errors = missing @ bad @ owner
      in (errors = [], errors))"

section \<open>Paths through the default topology\<close>

definition next_phases :: "phase_type \<Rightarrow> phase_type set" where
  "next_phases p = (case map_of DEFAULT_PHASE_TRANSITIONS p of None \<Rightarrow> {} | Some ts \<Rightarrow> ts)"

text \<open>The phases an execution visits when every transition is one the controller allows.\<close>

inductive phase_path :: "phase_type list \<Rightarrow> bool" where
  begin_intake: "phase_path [INTAKE]"
| transition: "phase_path ps \<Longrightarrow> evaluate_transition DEFAULT_PHASE_TRANSITIONS s target obs = d \<Longrightarrow>
    current_phase s = last ps \<Longrightarrow> allowed d \<Longrightarrow> phase_path (ps @ [target])"

lemma allowed_iff:
  "allowed (evaluate_transition ts s target obs) \<longleftrightarrow>
    (\<exists>targets. map_of ts (current_phase s) = Some targets \<and> target \<in> targets) \<and>
    (target \<in> {CONFIRM_READINESS, PUBLISH_PR, COMPLETE_FEATURE} \<longrightarrow> obs = [])"
  by (auto simp: evaluate_transition_def Let_def split: option.splits)

lemma allowed_next: "allowed (evaluate_transition DEFAULT_PHASE_TRANSITIONS s target obs) \<Longrightarrow>
    target \<in> next_phases (current_phase s)"
  by (auto simp: allowed_iff next_phases_def)

text \<open>The phases listed before a gate: closed under transitions that do not enter the gate.\<close>

definition before_gate :: "phase_type \<Rightarrow> phase_type list" where
  "before_gate D = takeWhile (\<lambda>p. p \<noteq> D) phase_members"

definition closed_avoiding :: "phase_type \<Rightarrow> phase_type list \<Rightarrow> bool" where
  "closed_avoiding D r \<longleftrightarrow> INTAKE \<in> set r \<and>
     list_all (\<lambda>p. list_all (\<lambda>q. q \<in> next_phases p \<and> q \<noteq> D \<longrightarrow> q \<in> set r) phase_members) r"

lemma path_stays:
  assumes "phase_path ps" "closed_avoiding D r" "D \<notin> set ps"
  shows "last ps \<in> set r"
  using assms
proof (induction rule: phase_path.induct)
  case (transition ps s target obs d)
  then have "last ps \<in> set r" "target \<in> next_phases (last ps)" "target \<noteq> D"
    using allowed_next [of s target obs] by auto
  with transition.prems(1) show ?case
    using phase_enum.members_UNIV by (fastforce simp: closed_avoiding_def list_all_iff)
qed (simp add: closed_avoiding_def)

definition mandatory_phases :: "phase_type list" where
  "mandatory_phases = [SPECIFY, REVIEW_SPECIFICATIONS, DECOMPOSE, REVIEW_PROPOSED_PRS, PLAN_PR, BUILD,
     VALIDATE, REVIEW_PR, CONFIRM_READINESS]"

lemma mandatory_dominate:
  "list_all (\<lambda>D. closed_avoiding D (before_gate D) \<and> PUBLISH_PR \<notin> set (before_gate D)) mandatory_phases"
  by code_simp

section \<open>Properties\<close>

text \<open>a transition is allowed exactly if the topology has it and, towards readiness confirmation,
  publication or completion, no open obligation is reported; a refusal names its reasons.\<close>

theorem transition_allowed_iff:
  "allowed (evaluate_transition ts s target obs) \<longleftrightarrow>
    (\<exists>targets. map_of ts (current_phase s) = Some targets \<and> target \<in> targets) \<and>
    (target \<in> {CONFIRM_READINESS, PUBLISH_PR, COMPLETE_FEATURE} \<longrightarrow> obs = []) \<and>
    guards (evaluate_transition ts s target obs) = []"
  by (auto simp: evaluate_transition_def Let_def split: option.splits)

theorem transition_allowed_iff_witness:
  "allowed (evaluate_transition DEFAULT_PHASE_TRANSITIONS (sample_initial\<lparr>current_phase := CONFIRM_READINESS\<rparr>) PUBLISH_PR []) \<and>
   \<not> allowed (evaluate_transition DEFAULT_PHASE_TRANSITIONS (sample_initial\<lparr>current_phase := CONFIRM_READINESS\<rparr>) PUBLISH_PR [''o1''])"
  unfolding transition_allowed_iff
  by (simp add: DEFAULT_PHASE_TRANSITIONS_def evaluate_transition_def)

text \<open>C14: no execution reaches publication without having been specified, reviewed, decomposed, planned,
  built, validated, reviewed again and confirmed ready: every sequence of allowed transitions from
  intake to publication visits all those phases.\<close>

theorem publication_requires_all_gates:
  assumes "phase_path ps" "last ps = PUBLISH_PR"
  shows "{SPECIFY, REVIEW_SPECIFICATIONS, DECOMPOSE, REVIEW_PROPOSED_PRS, PLAN_PR, BUILD, VALIDATE,
    REVIEW_PR, CONFIRM_READINESS} \<subseteq> set ps"
proof
  fix D assume "D \<in> {SPECIFY, REVIEW_SPECIFICATIONS, DECOMPOSE, REVIEW_PROPOSED_PRS, PLAN_PR, BUILD,
    VALIDATE, REVIEW_PR, CONFIRM_READINESS}"
  then have "D \<in> set mandatory_phases" by (auto simp: mandatory_phases_def)
  then have "closed_avoiding D (before_gate D)" "PUBLISH_PR \<notin> set (before_gate D)"
    using mandatory_dominate by (auto simp: list_all_iff)
  with path_stays [OF assms(1)] assms(2) show "D \<in> set ps" by metis
qed

definition sample_path :: "phase_type list" where
  "sample_path = [INTAKE, SPECIFY, REVIEW_SPECIFICATIONS, DECOMPOSE, REVIEW_PROPOSED_PRS, PLAN_PR, BUILD,
     VALIDATE, REVIEW_PR, CONFIRM_READINESS, PUBLISH_PR]"

lemma path_step: "phase_path ps \<Longrightarrow> target \<in> next_phases (last ps) \<Longrightarrow> phase_path (ps @ [target])"
  by (rule transition [where s = "sample_initial\<lparr>current_phase := last ps\<rparr>" and obs = "[]", OF _ refl])
    (auto simp: allowed_iff next_phases_def split: option.splits)

lemma path_chain:
  "phase_path ps \<Longrightarrow> successively (\<lambda>p q. q \<in> next_phases p) (last ps # qs) \<Longrightarrow> phase_path (ps @ qs)"
proof (induction qs arbitrary: ps)
  case (Cons q qs)
  then have "phase_path (ps @ [q])" by (intro path_step) simp_all
  with Cons show ?case using Cons.IH [of "ps @ [q]"] by simp
qed simp

theorem publication_requires_all_gates_witness:
  "phase_path sample_path \<and> {BUILD, VALIDATE, REVIEW_PR, CONFIRM_READINESS} \<subseteq> set sample_path"
proof -
  have "successively (\<lambda>p q. q \<in> next_phases p) (last [INTAKE] # tl sample_path)" by code_simp
  then have path: "phase_path sample_path"
    using path_chain [OF begin_intake, of "tl sample_path"] by (simp add: sample_path_def)
  moreover have "last sample_path = PUBLISH_PR" by (simp add: sample_path_def)
  ultimately show ?thesis using publication_requires_all_gates by blast
qed

lemma option_case_False: "(case x of None \<Rightarrow> False | Some a \<Rightarrow> Q a) \<longleftrightarrow> (\<exists>a. x = Some a \<and> Q a)"
  by (cases x) simp_all

lemma option_case_unknown:
  "(case x of None \<Rightarrow> [e] | Some a \<Rightarrow> if \<not> Q a then [f a] else []) = [] \<longleftrightarrow> (\<exists>a. x = Some a \<and> Q a)"
  by (cases x) simp_all

lemma option_case_skip:
  "(case x of None \<Rightarrow> [] | Some a \<Rightarrow> if Q a \<and> R a then [f a] else []) = [] \<longleftrightarrow> (\<forall>a. x = Some a \<and> Q a \<longrightarrow> \<not> R a)"
  by (cases x) simp_all

text \<open>a handoff is valid exactly if every supplied artifact is known, accepted and owned by the
  persona its contracts name, and every required artifact type of the handoff is supplied.\<close>

theorem handoff_valid_iff:
  "fst (validate_handoff profile s src dst ids) \<longleftrightarrow>
    (\<forall>i \<in> set ids. \<exists>a. artifact_by_id s i = Some a \<and> accepted a \<and>
      (\<forall>c \<in> set (handoff_contracts profile src dst).
        ah_artifact_type c = artifact_type a \<longrightarrow> ah_owner_persona_id c = owner_persona_id a)) \<and>
    (\<forall>c \<in> set (handoff_contracts profile src dst). ah_required c \<longrightarrow>
      (\<exists>i \<in> set ids. \<exists>a. artifact_by_id s i = Some a \<and> artifact_type a = ah_artifact_type c))"
  (is "?valid \<longleftrightarrow> ?good \<and> ?supplied")
proof -
  let ?cs = "handoff_contracts profile src dst"
  have "?valid \<longleftrightarrow>
      (\<forall>c \<in> set ?cs. ah_required c \<longrightarrow> (\<exists>i \<in> set ids. \<exists>a. artifact_by_id s i = Some a \<and>
        artifact_type a = ah_artifact_type c \<and> accepted a)) \<and>
      (\<forall>i \<in> set ids. \<exists>a. artifact_by_id s i = Some a \<and> accepted a) \<and>
      (\<forall>c \<in> set ?cs. \<forall>i \<in> set ids. \<forall>a. artifact_by_id s i = Some a \<and> artifact_type a = ah_artifact_type c \<longrightarrow>
        owner_persona_id a = ah_owner_persona_id c)"
    unfolding validate_handoff_def Let_def fst_conv append_is_Nil_conv
    by (simp add: filter_empty_conv option_case_False option_case_unknown option_case_skip) blast
  also have "\<dots> \<longleftrightarrow> ?good \<and> ?supplied"
    by (intro iffI conjI ballI impI) (fastforce+)
  finally show ?thesis .
qed

definition sample_profile :: delivery_profile where
  "sample_profile =
     \<lparr>dp_schema_version = ''delivery-profile-v1'', dp_profile_id = ''p'',
      dp_personas = [\<lparr>pd_persona_id = ''eng'', pd_persona_type = ENGINEER, pd_model_profile = ''m'',
        pd_prompt_catalogs = [], pd_process_references = [], pd_step_budget = None\<rparr>],
      dp_phases = [\<lparr>pa_phase_type = BUILD, pa_persona_id = ''eng'', pa_input_artifacts = [],
        pa_output_artifacts = [''implementation''], pa_validation_profiles = [],
        pa_auto_approve_low_risk_plan = False\<rparr>],
      dp_artifact_handoffs = [\<lparr>ah_source_phase = BUILD, ah_destination_phase = VALIDATE,
        ah_artifact_type = ''implementation'', ah_owner_persona_id = ''eng'', ah_required = True\<rparr>],
      dp_reviews = []\<rparr>"

definition handoff_state :: execution_state where
  "handoff_state = sample_initial\<lparr>artifacts := [\<lparr>artifact_id = ''a1'', artifact_type = ''implementation'',
     art_schema_version = ''v1'', owner_persona_id = ''eng'', content_ref = ''ref'', accepted = True\<rparr>]\<rparr>"

theorem handoff_valid_iff_witness:
  "fst (validate_handoff sample_profile handoff_state BUILD VALIDATE [''a1'']) \<and>
   \<not> fst (validate_handoff sample_profile handoff_state BUILD VALIDATE [])"
  unfolding handoff_valid_iff
  by (simp add: handoff_contracts_def sample_profile_def artifact_by_id_def handoff_state_def)

text \<open>a persona packet offers only actions that both the phase and the assigned persona allow, and names
  the persona the profile assigns to the phase.\<close>

theorem packet_least_privilege:
  assumes "build_persona_packet profile eid rid ph phase_actions persona_actions effs inputs guidance = Inr p"
  shows "allowed_actions p \<subseteq> phase_actions \<and>
    (\<forall>a \<in> allowed_actions p. \<exists>acts. map_of persona_actions (pd_persona_id (pp_persona p)) = Some acts \<and> a \<in> acts) \<and>
    (\<exists>as \<in> set (dp_phases profile). pa_phase_type as = ph \<and> pa_persona_id as = pd_persona_id (pp_persona p)) \<and>
    pp_persona p \<in> set (dp_personas profile)"
  using assms
  by (auto simp: build_persona_packet_def split: option.splits dest!: find_Some_mem)

theorem packet_least_privilege_witness:
  "\<exists>p. build_persona_packet sample_profile ''e1'' ''run-1'' BUILD {''edit_file'', ''run_tests''}
      [(''eng'', {''edit_file''})] {WORKSPACE_WRITE} [] [] = Inr p \<and> allowed_actions p \<subseteq> {''edit_file'', ''run_tests''}"
proof -
  obtain p where p: "build_persona_packet sample_profile ''e1'' ''run-1'' BUILD {''edit_file'', ''run_tests''}
      [(''eng'', {''edit_file''})] {WORKSPACE_WRITE} [] [] = Inr p"
    by (simp add: build_persona_packet_def sample_profile_def)
  with packet_least_privilege [OF p] show ?thesis by blast
qed

end
