(* ===== verification/Readiness.thy ===== *)
theory Readiness
  imports Execution_State
begin

text \<open>
  \<^verbatim>\<open>execution/evidence.py\<close>: the readiness gate, finding dispositions, invalidation of
  evidence and the agreement of independent reviewers, all pure functions of the execution state.
\<close>

section \<open>Requirements and reports\<close>

record evidence_requirement =
  er_evidence_type :: string
  er_input_fingerprint :: string
  er_description :: string

record readiness_report =
  ready :: bool
  reasons :: "string list"
  satisfied_requirements :: "string list"

record publish_requirements =
  plan_fingerprint :: "string option"
  proposed_pr_fingerprint :: "string option"
  require_independent_review :: bool
  author_id :: "string option"
  reviewer_findings :: "(string \<times> string list) list"

record review_agreement =
  independent_reviewers :: nat
  agreeing_reviewers :: nat
  disagreement_reasons :: "string list"

definition sufficient :: "review_agreement \<Rightarrow> bool" where
  "sufficient a \<longleftrightarrow> 0 < independent_reviewers a \<and> disagreement_reasons a = []"

definition evaluate_review_agreement :: "(string \<times> string list) list \<Rightarrow> review_agreement" where
  "evaluate_review_agreement fs =
     (if fs = [] then \<lparr>independent_reviewers = 0, agreeing_reviewers = 0,
         disagreement_reasons = [''no independent reviewer findings'']\<rparr>
      else let signatures = (\<lambda>(_, found). sort found) ` set fs;
               why = (if card signatures = 1 then [] else [''independent reviewers disagree''])
           in \<lparr>independent_reviewers = length fs,
               agreeing_reviewers = (if why = [] then length fs else 0), disagreement_reasons = why\<rparr>)"

section \<open>The readiness gate\<close>

definition evidence_match :: "execution_state \<Rightarrow> evidence_requirement \<Rightarrow> bool" where
  "evidence_match s r \<longleftrightarrow> (\<exists>e \<in> set (evidence s). evidence_type e = er_evidence_type r \<and>
     input_fingerprint e = er_input_fingerprint r \<and> successful e \<and> fresh e)"

definition fingerprint_reasons :: "string set \<Rightarrow> string \<Rightarrow> string option \<Rightarrow> string list" where
  "fingerprint_reasons accepted_refs label fp =
     (case fp of
        Some f \<Rightarrow> if f \<notin> accepted_refs
          then [''current accepted '' @ label @ '' fingerprint is missing''] else []
      | None \<Rightarrow> [])"

definition publish_reasons :: "execution_state \<Rightarrow> publish_requirements \<Rightarrow> string list" where
  "publish_reasons s p =
     (let accepted_refs = content_ref ` {a \<in> set (artifacts s). accepted a};
          agreement = evaluate_review_agreement (reviewer_findings p)
      in fingerprint_reasons accepted_refs ''plan'' (plan_fingerprint p)
         @ fingerprint_reasons accepted_refs ''proposed PR'' (proposed_pr_fingerprint p)
         @ (if require_independent_review p
            then (if author_id p \<noteq> None \<and> (\<exists>(r, _) \<in> set (reviewer_findings p). author_id p = Some r)
                  then [''review agreement: author cannot provide independent review''] else [])
                 @ (if \<not> sufficient agreement
                    then map (\<lambda>r. ''review agreement: '' @ r) (disagreement_reasons agreement) else [])
            else []))"

definition evaluate_readiness ::
    "execution_state \<Rightarrow> evidence_requirement list \<Rightarrow> string list \<Rightarrow> publish_requirements option \<Rightarrow> readiness_report" where
  "evaluate_readiness s required_evidence required_artifact_types publish =
     (let why =
            map (\<lambda>r. ''missing fresh successful evidence: '' @ er_description r)
              (filter (\<lambda>r. \<not> evidence_match s r) required_evidence)
            @ map (\<lambda>ob. ''open obligation: '' @ ob_description ob)
                (filter (\<lambda>ob. ob_status ob = OS_OPEN) (obligations s))
            @ map (\<lambda>f. ''blocking finding: '' @ fi_description f)
                (filter (\<lambda>f. blocking f \<and> fi_status f \<in> {FS_OPEN, FS_ACCEPTED}) (findings s))
            @ map (\<lambda>ty. ''missing accepted artifact: '' @ ty)
                (filter (\<lambda>ty. \<not> (\<exists>a \<in> set (artifacts s). artifact_type a = ty \<and> accepted a)) required_artifact_types)
            @ (case publish of None \<Rightarrow> [] | Some p \<Rightarrow> publish_reasons s p);
          satisfied = map er_description (filter (evidence_match s) required_evidence)
      in \<lparr>ready = (why = []), reasons = why, satisfied_requirements = satisfied\<rparr>)"

section \<open>Dispositions and invalidation\<close>

record finding_disposition =
  fd_finding :: execution_finding
  previous_status :: finding_status
  fd_actor_id :: string
  evidence_ids :: "string list"

definition dispose_finding ::
    "execution_finding \<Rightarrow> finding_status \<Rightarrow> string \<Rightarrow> execution_evidence list \<Rightarrow> finding_disposition result" where
  "dispose_finding f st actor supporting =
     bind_r (guard_r (st \<noteq> FS_OPEN) (ValueError ''A finding disposition must be terminal or accepted.'')) (\<lambda>_.
     bind_r (guard_r (\<not> (st \<in> {FS_FIXED, FS_NOT_APPLICABLE, FS_ACCEPTED} \<and>
         \<not> (\<exists>e \<in> set supporting. successful e \<and> fresh e)))
       (ValueError ''This finding disposition requires fresh successful evidence.'')) (\<lambda>_.
     Inr \<lparr>fd_finding = f\<lparr>fi_status := st\<rparr>, previous_status = fi_status f, fd_actor_id = actor,
          evidence_ids = map evidence_id supporting\<rparr>))"

definition invalidate_evidence :: "execution_state \<Rightarrow> string set \<Rightarrow> execution_state" where
  "invalidate_evidence s changed =
     s\<lparr>evidence := map (\<lambda>e. if input_fingerprint e \<in> changed then e\<lparr>fresh := False\<rparr> else e) (evidence s)\<rparr>"

section \<open>What ready means\<close>

definition reviewers_agree :: "publish_requirements \<Rightarrow> bool" where
  "reviewers_agree p \<longleftrightarrow> reviewer_findings p \<noteq> [] \<and>
     (\<forall>(r1, f1) \<in> set (reviewer_findings p). \<forall>(r2, f2) \<in> set (reviewer_findings p). sort f1 = sort f2)"

definition publishable :: "execution_state \<Rightarrow> publish_requirements \<Rightarrow> bool" where
  "publishable s p \<longleftrightarrow>
     (\<forall>fp. plan_fingerprint p = Some fp \<longrightarrow> (\<exists>a \<in> set (artifacts s). accepted a \<and> content_ref a = fp)) \<and>
     (\<forall>fp. proposed_pr_fingerprint p = Some fp \<longrightarrow> (\<exists>a \<in> set (artifacts s). accepted a \<and> content_ref a = fp)) \<and>
     (require_independent_review p \<longrightarrow> reviewers_agree p \<and>
        (\<forall>(r, found) \<in> set (reviewer_findings p). author_id p \<noteq> Some r))"

lemma card_image_1:
  assumes "xs \<noteq> []"
  shows "card (f ` set xs) = Suc 0 \<longleftrightarrow> (\<forall>x \<in> set xs. \<forall>y \<in> set xs. f x = f y)"
proof
  assume "card (f ` set xs) = Suc 0"
  then obtain b where "f ` set xs = {b}" by (metis One_nat_def card_1_singletonE)
  then have "f x = b" if "x \<in> set xs" for x using that by blast
  then show "\<forall>x \<in> set xs. \<forall>y \<in> set xs. f x = f y" by simp
next
  assume eq: "\<forall>x \<in> set xs. \<forall>y \<in> set xs. f x = f y"
  have "f ` set xs = {f (hd xs)}" using eq hd_in_set [OF assms] by blast
  then show "card (f ` set xs) = Suc 0" by simp
qed

lemma sufficient_iff: "sufficient (evaluate_review_agreement (reviewer_findings p)) \<longleftrightarrow> reviewers_agree p"
proof (cases "reviewer_findings p = []")
  case False
  then have "card ((\<lambda>(_, found). sort found) ` set (reviewer_findings p)) = 1 \<longleftrightarrow>
      (\<forall>(r1, f1) \<in> set (reviewer_findings p). \<forall>(r2, f2) \<in> set (reviewer_findings p). sort f1 = sort f2)"
    by (simp add: card_image_1 case_prod_unfold)
  with False show ?thesis
    by (simp add: sufficient_def evaluate_review_agreement_def reviewers_agree_def Let_def)
qed (simp add: sufficient_def evaluate_review_agreement_def reviewers_agree_def)

lemma agreement_reasons_Nil:
  "disagreement_reasons (evaluate_review_agreement fs) = [] \<longleftrightarrow> sufficient (evaluate_review_agreement fs)"
  by (auto simp: sufficient_def evaluate_review_agreement_def Let_def)

lemma publish_reasons_Nil: "publish_reasons s p = [] \<longleftrightarrow> publishable s p"
  by (auto simp: publish_reasons_def publishable_def fingerprint_reasons_def Let_def sufficient_iff
      agreement_reasons_Nil split: option.splits)

section \<open>Properties\<close>



text \<open>changing an input makes the gate close: once the fingerprint of a required input is invalidated, no
  evidence recorded before counts for it, and evidence on other inputs is untouched.\<close>

theorem invalidated_evidence_blocks:
  assumes "r \<in> set required_evidence" "er_input_fingerprint r \<in> changed"
  shows "\<not> ready (evaluate_readiness (invalidate_evidence s changed) required_evidence required_types publish) \<and>
    (\<forall>q. er_input_fingerprint q \<notin> changed \<longrightarrow>
      evidence_match (invalidate_evidence s changed) q = evidence_match s q)"
proof -
  have "\<not> evidence_match (invalidate_evidence s changed) r"
    using assms(2) by (auto simp: evidence_match_def invalidate_evidence_def split: if_splits)
  moreover have "evidence_match (invalidate_evidence s changed) q = evidence_match s q"
    if "er_input_fingerprint q \<notin> changed" for q
    using that by (auto simp: evidence_match_def invalidate_evidence_def)
  moreover have "\<not> ready (evaluate_readiness t required_evidence required_types publish)"
    if "\<not> evidence_match t r" for t
    using that assms(1) by (auto simp: evaluate_readiness_def Let_def filter_empty_conv)
  ultimately show ?thesis by blast
qed

theorem invalidated_evidence_blocks_witness:
  "\<not> ready (evaluate_readiness (invalidate_evidence sample_initial {''fp''})
     [\<lparr>er_evidence_type = ''tests'', er_input_fingerprint = ''fp'', er_description = ''tests''\<rparr>] [] None)"
  using invalidated_evidence_blocks [of "\<lparr>er_evidence_type = ''tests'', er_input_fingerprint = ''fp'', er_description = ''tests''\<rparr>"
      "[\<lparr>er_evidence_type = ''tests'', er_input_fingerprint = ''fp'', er_description = ''tests''\<rparr>]" "{''fp''}"]
  by simp

text \<open>a finding is disposed of only with a status other than open; fixed, not-applicable and accepted
  need fresh successful evidence, superseded needs none; the finding changes in its status only.\<close>

theorem disposition_iff:
  "(\<exists>d. dispose_finding f st actor supporting = Inr d \<and> fd_finding d = f\<lparr>fi_status := st\<rparr> \<and>
      previous_status d = fi_status f) \<longleftrightarrow>
    st = FS_SUPERSEDED \<or> (st \<noteq> FS_OPEN \<and> (\<exists>e \<in> set supporting. successful e \<and> fresh e))"
  by (cases st) (auto simp: dispose_finding_def)

end
