(* ===== verification/Intent_Store.thy ===== *)
theory Intent_Store
  imports Behavior_Rules
begin

text \<open>
  \<^verbatim>\<open>structrr/intent.py\<close> and \<^verbatim>\<open>core/effective_contract.py\<close>: durable user intent. A source
  owns the user's exact wording; its clauses carry an executable contract (selectors, trigger,
  requirements). The store is one JSON document guarded by a file lock, so an operation is a step
  on the document, \<open>None\<close> while the file does not exist. The index selects clauses by exact
  selector match.

  The SHA-256 digest in hexadecimal is the parameter \<open>digest\<close>; the time stamp of a new source is
  an argument. A persisted entry that is not an object raises, and its exception class is not
  tracked (\<open>MalformedDocument\<close>).
\<close>

section \<open>Data\<close>

definition INTENT_SCHEMA_VERSION :: string where
  "INTENT_SCHEMA_VERSION = ''intent-v1''"

datatype intent_kind = DECISION | INVARIANT | PROCEDURE | GUIDANCE

definition intent_kind_members :: "intent_kind list" where
  "intent_kind_members = [DECISION, INVARIANT, PROCEDURE, GUIDANCE]"

fun intent_kind_value :: "intent_kind \<Rightarrow> string" where
  "intent_kind_value DECISION = ''decision''"
| "intent_kind_value INVARIANT = ''invariant''"
| "intent_kind_value PROCEDURE = ''procedure''"
| "intent_kind_value GUIDANCE = ''guidance''"

datatype intent_trigger = BEFORE_ACTION | AFTER_ACTION | TR_ACTION_COMPLETED | PHASE_ENTRY

definition intent_trigger_members :: "intent_trigger list" where
  "intent_trigger_members = [BEFORE_ACTION, AFTER_ACTION, TR_ACTION_COMPLETED, PHASE_ENTRY]"

fun intent_trigger_value :: "intent_trigger \<Rightarrow> string" where
  "intent_trigger_value BEFORE_ACTION = ''before_action''"
| "intent_trigger_value AFTER_ACTION = ''after_action''"
| "intent_trigger_value TR_ACTION_COMPLETED = ''action_completed''"
| "intent_trigger_value PHASE_ENTRY = ''phase_entry''"

interpretation intent_kind_enum: str_enum intent_kind_members intent_kind_value
proof
  show "e \<in> set intent_kind_members" for e
    by (cases e) (simp_all add: intent_kind_members_def)
  show "distinct (map intent_kind_value intent_kind_members)"
    by code_simp
qed

interpretation intent_trigger_enum: str_enum intent_trigger_members intent_trigger_value
proof
  show "e \<in> set intent_trigger_members" for e
    by (cases e) (simp_all add: intent_trigger_members_def)
  show "distinct (map intent_trigger_value intent_trigger_members)"
    by code_simp
qed

definition IntentKind :: "pyval \<Rightarrow> intent_kind result" where
  "IntentKind = enum_of ''IntentKind'' intent_kind_value intent_kind_members"

definition IntentTrigger :: "pyval \<Rightarrow> intent_trigger result" where
  "IntentTrigger = enum_of ''IntentTrigger'' intent_trigger_value intent_trigger_members"

record intent_source =
  src_intent_id :: string
  exact_text :: string
  src_source_ref :: string
  supplied_by :: string
  created_at :: string
  content_fingerprint :: string
  src_schema_version :: string

record intent_contract =
  selectors :: "(string \<times> string list) list"
  trigger :: intent_trigger
  trigger_action :: "string option"
  requirements :: "string list"
  completion_gate :: "string option"
  ic_precedence :: int

record intent_clause =
  clause_id :: string
  cl_intent_id :: string
  source_span :: "int \<times> int"
  cl_kind :: intent_kind
  contract :: intent_contract
  cl_version :: int
  cl_active :: bool
  supersedes_clause_id :: "string option"

section \<open>Field readers\<close>

definition intent_fingerprint_text :: "(string \<Rightarrow> string) \<Rightarrow> string \<Rightarrow> string" where
  "intent_fingerprint_text digest v = ''sha256:'' @ digest v"

definition strict_keys :: "pydict \<Rightarrow> string list \<Rightarrow> unit result" where
  "strict_keys data allowed =
     (let unknown = filter (\<lambda>k. k \<notin> set allowed) (map fst data)
      in guard_r (unknown = []) (ValueError (''unknown intent fields: '' @ py_join '', '' (sorted_set unknown))))"

definition string_value :: "pyval \<Rightarrow> string result" where
  "string_value v =
     (case v of
        PStr s \<Rightarrow> if strip s = [] then Inl (ValueError ''intent values must be non-empty strings'') else Inr s
      | _ \<Rightarrow> Inl (ValueError ''intent values must be non-empty strings''))"

definition string_field :: "pydict \<Rightarrow> string \<Rightarrow> string result" where
  "string_field data key = string_value (get_item data key)"

definition optional_string_value :: "pyval \<Rightarrow> string option result" where
  "optional_string_value v =
     (case v of PNone \<Rightarrow> Inr None | _ \<Rightarrow> bind_r (string_value v) (\<lambda>s. Inr (Some s)))"

text \<open>\<^verbatim>\<open>isinstance(value, int)\<close> holds of booleans, which count as 0 and 1.\<close>

fun as_int :: "pyval \<Rightarrow> int option" where
  "as_int (PInt i) = Some i"
| "as_int (PBool b) = Some (if b then 1 else 0)"
| "as_int _ = None"

definition positive_int_field :: "pydict \<Rightarrow> string \<Rightarrow> int result" where
  "positive_int_field data key =
     (case as_int (get_item data key) of
        Some i \<Rightarrow> if i < 1 then Inl (ValueError (''intent '' @ key @ '' must be a positive integer'')) else Inr i
      | None \<Rightarrow> Inl (ValueError (''intent '' @ key @ '' must be a positive integer'')))"

definition bool_field :: "pydict \<Rightarrow> string \<Rightarrow> bool result" where
  "bool_field data key =
     (case get_item data key of
        PBool b \<Rightarrow> Inr b
      | _ \<Rightarrow> Inl (ValueError (''intent '' @ key @ '' must be a boolean'')))"

section \<open>Construction and JSON forms\<close>

text \<open>\<^verbatim>\<open>IntentSource(...)\<close> with its \<^verbatim>\<open>__post_init__\<close>.\<close>

definition new_source ::
    "(string \<Rightarrow> string) \<Rightarrow> string \<Rightarrow> string \<Rightarrow> string \<Rightarrow> string \<Rightarrow> string \<Rightarrow> string \<Rightarrow> intent_source result" where
  "new_source digest iid txt ref who at fp =
     bind_r (guard_r (strip iid \<noteq> [] \<and> strip txt \<noteq> [])
       (ValueError ''intent source requires a non-empty id and exact_text'')) (\<lambda>_.
     let fingerprint = intent_fingerprint_text digest txt in
     bind_r (guard_r (fp = [] \<or> fp = fingerprint)
       (ValueError ''intent source content_fingerprint does not match text'')) (\<lambda>_.
     Inr \<lparr>src_intent_id = iid, exact_text = txt, src_source_ref = ref, supplied_by = who,
          created_at = at, content_fingerprint = fingerprint,
          src_schema_version = INTENT_SCHEMA_VERSION\<rparr>))"

definition make_intent_source ::
    "(string \<Rightarrow> string) \<Rightarrow> string \<Rightarrow> string \<Rightarrow> string \<Rightarrow> string \<Rightarrow> string \<Rightarrow> intent_source result" where
  "make_intent_source digest now iid txt ref who = new_source digest iid txt ref who now []"

definition source_to_data :: "intent_source \<Rightarrow> pydict" where
  "source_to_data x =
     [(''schema_version'', PStr (src_schema_version x)),
      (''intent_id'', PStr (src_intent_id x)),
      (''exact_text'', PStr (exact_text x)),
      (''source_ref'', PStr (src_source_ref x)),
      (''supplied_by'', PStr (supplied_by x)),
      (''created_at'', PStr (created_at x)),
      (''content_fingerprint'', PStr (content_fingerprint x))]"

definition source_from_data :: "(string \<Rightarrow> string) \<Rightarrow> pydict \<Rightarrow> intent_source result" where
  "source_from_data digest data =
     bind_r (strict_keys data [''schema_version'', ''intent_id'', ''exact_text'', ''source_ref'',
       ''supplied_by'', ''created_at'', ''content_fingerprint'']) (\<lambda>_.
     bind_r (guard_r (py_eq (get_item data ''schema_version'') (PStr INTENT_SCHEMA_VERSION))
       (ValueError ''unsupported intent source schema version'')) (\<lambda>_.
     bind_r (string_field data ''intent_id'') (\<lambda>iid.
     bind_r (string_field data ''exact_text'') (\<lambda>txt.
     bind_r (string_field data ''source_ref'') (\<lambda>ref.
     bind_r (string_field data ''supplied_by'') (\<lambda>who.
     bind_r (string_field data ''created_at'') (\<lambda>at.
     bind_r (string_field data ''content_fingerprint'') (\<lambda>fp.
     new_source digest iid txt ref who at fp))))))))"

text \<open>\<^verbatim>\<open>IntentContract(...)\<close> with its \<^verbatim>\<open>__post_init__\<close>: selector values are sorted sets.\<close>

definition new_contract ::
    "(string \<times> string list) list \<Rightarrow> intent_trigger \<Rightarrow> string option \<Rightarrow> string list \<Rightarrow> string option \<Rightarrow>
     int \<Rightarrow> intent_contract result" where
  "new_contract sels tr ta reqs gate prec =
     (let normalized = map (\<lambda>(k, vs). (k, sorted_set vs)) sels
      in bind_r (guard_r (\<not> (\<exists>(k, vs) \<in> set normalized. k = [] \<or> vs = []))
           (ValueError ''intent selectors require non-empty keys and values'')) (\<lambda>_.
         Inr \<lparr>selectors = normalized, trigger = tr, trigger_action = ta, requirements = reqs,
              completion_gate = gate, ic_precedence = prec\<rparr>))"

definition contract_to_data :: "intent_contract \<Rightarrow> pydict" where
  "contract_to_data c =
     [(''selectors'', PDict (map (\<lambda>(k, vs). (k, str_list vs)) (sort_key fst (selectors c)))),
      (''trigger'', PStr (intent_trigger_value (trigger c))),
      (''trigger_action'', opt_str (trigger_action c)),
      (''requirements'', str_list (requirements c)),
      (''completion_gate'', opt_str (completion_gate c)),
      (''precedence'', PInt (ic_precedence c))]"

definition selector_values :: "string \<times> pyval \<Rightarrow> (string \<times> string list) result" where
  "selector_values kv =
     (case snd kv of
        PList vs \<Rightarrow> bind_r (mapM_r string_value vs) (\<lambda>ss. Inr (fst kv, ss))
      | _ \<Rightarrow> Inl (ValueError ''intent selector values must be arrays''))"

definition contract_from_data :: "pydict \<Rightarrow> intent_contract result" where
  "contract_from_data data =
     bind_r (strict_keys data [''selectors'', ''trigger'', ''trigger_action'', ''requirements'',
       ''completion_gate'', ''precedence'']) (\<lambda>_.
     case get_default data ''selectors'' (PDict []) of
       PDict raw \<Rightarrow>
         bind_r (mapM_r selector_values raw) (\<lambda>sels.
         case get_default data ''requirements'' (PList []) of
           PList reqs \<Rightarrow>
             bind_r (bind_r (string_value (get_default data ''trigger'' (PStr ''before_action'')))
               (IntentTrigger \<circ> PStr)) (\<lambda>tr.
             bind_r (optional_string_value (get_item data ''trigger_action'')) (\<lambda>ta.
             bind_r (mapM_r string_value reqs) (\<lambda>rs.
             bind_r (optional_string_value (get_item data ''completion_gate'')) (\<lambda>gate.
             bind_r (py_int (get_default data ''precedence'' (PInt 0))) (\<lambda>prec.
             new_contract sels tr ta rs gate prec)))))
         | _ \<Rightarrow> Inl (ValueError ''intent requirements must be an array''))
     | _ \<Rightarrow> Inl (ValueError ''intent selectors must be an object''))"

definition clause_to_data :: "intent_clause \<Rightarrow> pydict" where
  "clause_to_data c =
     [(''clause_id'', PStr (clause_id c)),
      (''intent_id'', PStr (cl_intent_id c)),
      (''source_span'', PList [PInt (fst (source_span c)), PInt (snd (source_span c))]),
      (''kind'', PStr (intent_kind_value (cl_kind c))),
      (''contract'', PDict (contract_to_data (contract c))),
      (''version'', PInt (cl_version c)),
      (''active'', PBool (cl_active c)),
      (''supersedes_clause_id'', opt_str (supersedes_clause_id c))]"

definition parse_span :: "pyval \<Rightarrow> (int \<times> int) result" where
  "parse_span v =
     (case v of
        PList [a, b] \<Rightarrow> (case (as_int a, as_int b) of
            (Some i, Some j) \<Rightarrow> if 0 \<le> i \<and> i \<le> j then Inr (i, j)
              else Inl (ValueError ''intent clause source_span must be [start, end]'')
          | _ \<Rightarrow> Inl (ValueError ''intent clause source_span must be [start, end]''))
      | _ \<Rightarrow> Inl (ValueError ''intent clause source_span must be [start, end]''))"

definition clause_from_data :: "pydict \<Rightarrow> intent_clause result" where
  "clause_from_data data =
     bind_r (strict_keys data [''clause_id'', ''intent_id'', ''source_span'', ''kind'', ''contract'',
       ''version'', ''active'', ''supersedes_clause_id'']) (\<lambda>_.
     bind_r (parse_span (get_item data ''source_span'')) (\<lambda>span.
     case get_item data ''contract'' of
       PDict cd \<Rightarrow>
         bind_r (string_field data ''clause_id'') (\<lambda>cid.
         bind_r (string_field data ''intent_id'') (\<lambda>iid.
         bind_r (bind_r (string_field data ''kind'') (IntentKind \<circ> PStr)) (\<lambda>k.
         bind_r (contract_from_data cd) (\<lambda>c.
         bind_r (positive_int_field data ''version'') (\<lambda>v.
         bind_r (bool_field data ''active'') (\<lambda>a.
         bind_r (optional_string_value (get_item data ''supersedes_clause_id'')) (\<lambda>sup.
         Inr \<lparr>clause_id = cid, cl_intent_id = iid, source_span = span, cl_kind = k, contract = c,
              cl_version = v, cl_active = a, supersedes_clause_id = sup\<rparr>)))))))
     | _ \<Rightarrow> Inl (ValueError ''intent clause contract must be an object'')))"

definition intent_fingerprint :: "(string \<Rightarrow> string) \<Rightarrow> intent_clause \<Rightarrow> string" where
  "intent_fingerprint digest c = intent_fingerprint_text digest (json_sorted (PDict (clause_to_data c)))"

section \<open>The selector index\<close>

definition selectors_match :: "(string \<times> string list) list \<Rightarrow> (string \<times> string) list \<Rightarrow> bool" where
  "selectors_match sels context =
     list_all (\<lambda>(k, expected).
       case map_of context k of
         None \<Rightarrow> False
       | Some actual \<Rightarrow>
           if k \<in> {''path'', ''file_path''}
           then \<exists>e \<in> set expected. actual = e \<or> startswith actual (rstrip_char (CHR ''/'') e @ ''/'')
           else actual \<in> set expected) sels"

definition resolve_clauses :: "intent_clause list \<Rightarrow> (string \<times> string) list \<Rightarrow> intent_clause list" where
  "resolve_clauses clauses context =
     sort_key (\<lambda>c. (- ic_precedence (contract c), clause_id c))
       (filter (\<lambda>c. cl_active c \<and> selectors_match (selectors (contract c)) context) clauses)"

section \<open>The store\<close>

type_synonym intent_file = "pyval option"
type_synonym intent_data = "intent_source list \<times> intent_clause list"

definition item_dict :: "pyval \<Rightarrow> pydict result" where
  "item_dict v = (case v of PDict d \<Rightarrow> Inr d | _ \<Rightarrow> Inl MalformedDocument)"

definition item_list :: "pyval \<Rightarrow> pydict list result" where
  "item_list v =
     (case v of PList xs \<Rightarrow> mapM_r item_dict xs | PDict [] \<Rightarrow> Inr [] | PStr [] \<Rightarrow> Inr []
      | _ \<Rightarrow> Inl MalformedDocument)"

definition read_intents :: "(string \<Rightarrow> string) \<Rightarrow> intent_file \<Rightarrow> intent_data result" where
  "read_intents digest file =
     (case file of
        None \<Rightarrow> Inr ([], [])
      | Some (PDict data) \<Rightarrow>
          bind_r (guard_r (py_eq (get_item data ''schema_version'') (PStr INTENT_SCHEMA_VERSION))
            (ValueError ''unsupported persisted intent schema'')) (\<lambda>_.
          bind_r (bind_r (item_list (get_default data ''sources'' (PList []))) (mapM_r (source_from_data digest))) (\<lambda>srcs.
          bind_r (bind_r (item_list (get_default data ''clauses'' (PList []))) (mapM_r clause_from_data)) (\<lambda>cls.
          bind_r (guard_r (set (map cl_intent_id cls) \<subseteq> set (map src_intent_id srcs))
            (ValueError ''intent clause references an unknown source'')) (\<lambda>_.
          Inr (srcs, cls)))))
      | Some _ \<Rightarrow> Inl (ValueError ''unsupported persisted intent schema''))"

definition write_intents :: "intent_source list \<Rightarrow> intent_clause list \<Rightarrow> intent_file" where
  "write_intents srcs cls =
     Some (PDict [(''schema_version'', PStr INTENT_SCHEMA_VERSION),
       (''sources'', PList (map (PDict \<circ> source_to_data) srcs)),
       (''clauses'', PList (map (PDict \<circ> clause_to_data) cls))])"

definition list_clauses ::
    "(string \<Rightarrow> string) \<Rightarrow> intent_file \<Rightarrow> bool \<Rightarrow> intent_clause list result" where
  "list_clauses digest file include_inactive =
     bind_r (read_intents digest file) (\<lambda>(srcs, cls).
     Inr (if include_inactive then cls else filter cl_active cls))"

definition list_sources :: "(string \<Rightarrow> string) \<Rightarrow> intent_file \<Rightarrow> intent_source list result" where
  "list_sources digest file = bind_r (read_intents digest file) (\<lambda>(srcs, cls). Inr srcs)"

definition capture ::
    "(string \<Rightarrow> string) \<Rightarrow> intent_file \<Rightarrow> intent_source \<Rightarrow> intent_clause list \<Rightarrow>
     ((intent_source \<times> intent_clause list \<times> bool) \<times> intent_file) result" where
  "capture digest file src new =
     bind_r (read_intents digest file) (\<lambda>(srcs, cls).
     case List.find (\<lambda>item. src_source_ref item = src_source_ref src) srcs of
       Some existing \<Rightarrow>
         bind_r (guard_r (content_fingerprint existing = content_fingerprint src)
           (ValueError ''source_ref already contains different intent text'')) (\<lambda>_.
         Inr ((existing, filter (\<lambda>item. cl_intent_id item = src_intent_id existing) cls, False), file))
     | None \<Rightarrow>
         bind_r (guard_r (\<not> (\<exists>item \<in> set new. cl_intent_id item \<noteq> src_intent_id src))
           (ValueError ''all clauses must reference their captured source'')) (\<lambda>_.
         bind_r (guard_r (\<not> (\<exists>item \<in> set srcs. src_intent_id item = src_intent_id src))
           (ValueError (''intent id already exists: '' @ py_repr (src_intent_id src)))) (\<lambda>_.
         bind_r (guard_r (set (map clause_id cls) \<inter> set (map clause_id new) = {})
           (ValueError ''intent clause id already exists'')) (\<lambda>_.
         Inr ((src, new, True), write_intents (srcs @ [src]) (cls @ new))))))"

definition retire_clause :: "intent_clause \<Rightarrow> intent_clause" where
  "retire_clause c = c\<lparr>cl_version := cl_version c + 1, cl_active := False\<rparr>"

definition update_clause ::
    "(string \<Rightarrow> string) \<Rightarrow> intent_file \<Rightarrow> string \<Rightarrow> intent_clause \<Rightarrow> int \<Rightarrow> (intent_clause \<times> intent_file) result" where
  "update_clause digest file cid replacement expected =
     bind_r (read_intents digest file) (\<lambda>(srcs, cls).
     case List.find (\<lambda>item. clause_id item = cid) cls of
       None \<Rightarrow> Inl (KeyError cid)
     | Some current \<Rightarrow>
         bind_r (guard_r (cl_version current = expected)
           (ValueError (''stale intent clause version for '' @ py_repr cid))) (\<lambda>_.
         bind_r (guard_r (clause_id replacement \<noteq> cid)
           (ValueError ''intent replacement must have a new clause id'')) (\<lambda>_.
         bind_r (guard_r (\<not> (\<exists>item \<in> set cls. clause_id item = clause_id replacement))
           (ValueError ''replacement clause id already exists'')) (\<lambda>_.
         let installed = replacement\<lparr>cl_version := 1, cl_active := True, supersedes_clause_id := Some cid\<rparr>
         in Inr (installed, write_intents srcs
              (map (\<lambda>item. if clause_id item = cid then retire_clause current else item) cls
               @ [installed]))))))"

definition revoke_clause ::
    "(string \<Rightarrow> string) \<Rightarrow> intent_file \<Rightarrow> string \<Rightarrow> int \<Rightarrow> (intent_clause \<times> intent_file) result" where
  "revoke_clause digest file cid expected =
     bind_r (read_intents digest file) (\<lambda>(srcs, cls).
     case List.find (\<lambda>item. clause_id item = cid) cls of
       None \<Rightarrow> Inl (KeyError cid)
     | Some current \<Rightarrow>
         bind_r (guard_r (cl_version current = expected)
           (ValueError (''stale intent clause version for '' @ py_repr cid))) (\<lambda>_.
         Inr (retire_clause current, write_intents srcs
           (map (\<lambda>item. if clause_id item = cid then retire_clause current else item) cls))))"

text \<open>
  \<^verbatim>\<open>migrate_legacy_behavior_rules\<close>: every rule of the behaviour-rule file becomes a source
  with one guidance clause; the loop writes after each capture, so an error keeps the rules
  migrated before it. The result pairs the outcome with the file as it is left.
\<close>

definition legacy_clause :: "behavior_rule \<Rightarrow> intent_source \<Rightarrow> intent_clause result" where
  "legacy_clause r src =
     bind_r (new_contract (map (\<lambda>(k, v). (k, [v])) (rule_scope r)) BEFORE_ACTION None [] None
       (rule_precedence r)) (\<lambda>c.
     Inr \<lparr>clause_id = ''legacy:'' @ rule_id r @ '':v'' @ show_int (rule_version r),
          cl_intent_id = src_intent_id src, source_span = (0, int (length (exact_text src))),
          cl_kind = GUIDANCE, contract = c, cl_version = rule_version r, cl_active = rule_active r,
          supersedes_clause_id = None\<rparr>)"

fun migrate_rules ::
    "(string \<Rightarrow> string) \<Rightarrow> string \<Rightarrow> intent_file \<Rightarrow> nat \<Rightarrow> behavior_rule list \<Rightarrow> nat result \<times> intent_file" where
  "migrate_rules digest now file migrated [] = (Inr migrated, file)"
| "migrate_rules digest now file migrated (r # rs) =
     (case bind_r (make_intent_source digest now (''legacy:'' @ rule_id r) (rule_text r)
             (rule_source_ref r) ''legacy-migration'') (\<lambda>src.
           bind_r (legacy_clause r src) (\<lambda>c. capture digest file src [c])) of
        Inl e \<Rightarrow> (Inl e, file)
      | Inr ((s, cs, created), file') \<Rightarrow>
          migrate_rules digest now file' (if created then migrated + 1 else migrated) rs)"

definition migrate_legacy_behavior_rules ::
    "(string \<Rightarrow> string) \<Rightarrow> string \<Rightarrow> rule_file \<Rightarrow> intent_file \<Rightarrow> nat result \<times> intent_file" where
  "migrate_legacy_behavior_rules digest now rfile file =
     (case list_rules rfile True of
        Inl e \<Rightarrow> (Inl e, file)
      | Inr rules \<Rightarrow> migrate_rules digest now file 0 rules)"

section \<open>The effective contract\<close>

record effective_contract =
  ec_fingerprint :: string
  ec_clauses :: "intent_clause list"
  ec_sources :: "intent_source list"
  ec_context :: "(string \<times> string) list"
  ec_conflicts :: "string list"

definition contract_clause_ids :: "effective_contract \<Rightarrow> string list" where
  "contract_clause_ids c = map clause_id (ec_clauses c)"

definition clause_entry :: "bool \<Rightarrow> intent_source list \<Rightarrow> intent_clause \<Rightarrow> pydict" where
  "clause_entry include_text srcs c =
     [(''clause_id'', PStr (clause_id c)),
      (''intent_id'', PStr (cl_intent_id c)),
      (''kind'', PStr (intent_kind_value (cl_kind c))),
      (''version'', PInt (cl_version c)),
      (''selectors'', PDict (map (\<lambda>(k, vs). (k, str_list vs)) (sort_key fst (selectors (contract c))))),
      (''trigger'', PStr (intent_trigger_value (trigger (contract c)))),
      (''trigger_action'', opt_str (trigger_action (contract c))),
      (''requirements'', str_list (requirements (contract c))),
      (''completion_gate'', opt_str (completion_gate (contract c)))]
     @ (if include_text
        then (case List.find (\<lambda>x. src_intent_id x = cl_intent_id c) (rev srcs) of
                Some x \<Rightarrow> [(''source_ref'', PStr (src_source_ref x)), (''text'', PStr (exact_text x))]
              | None \<Rightarrow> [])
        else [])"

definition effective_to_data :: "bool \<Rightarrow> effective_contract \<Rightarrow> pydict" where
  "effective_to_data include_text c =
     [(''contract_fingerprint'', PStr (ec_fingerprint c)),
      (''clause_ids'', str_list (contract_clause_ids c)),
      (''clauses'', PList (map (PDict \<circ> clause_entry include_text (ec_sources c)) (ec_clauses c))),
      (''conflicts'', str_list (ec_conflicts c))]"

definition explain_contract :: "effective_contract \<Rightarrow> pydict" where
  "explain_contract c =
     [(''context'', PDict (map (\<lambda>(k, v). (k, PStr v)) (ec_context c))),
      (''contract'', PDict (effective_to_data True c)),
      (''resolution'', PStr ''exact selector match; semantic similarity is not used'')]"

text \<open>\<^verbatim>\<open>left.contract.selectors == right.contract.selectors\<close>: dictionaries with equal items.\<close>

definition same_selectors :: "intent_clause \<Rightarrow> intent_clause \<Rightarrow> bool" where
  "same_selectors a b \<longleftrightarrow> set (selectors (contract a)) = set (selectors (contract b))"

definition clauses_conflict :: "intent_clause \<Rightarrow> intent_clause \<Rightarrow> bool" where
  "clauses_conflict a b \<longleftrightarrow> ic_precedence (contract a) = ic_precedence (contract b) \<and>
     cl_kind a \<noteq> cl_kind b \<and> same_selectors a b"

fun conflict_pairs :: "intent_clause list \<Rightarrow> string list" where
  "conflict_pairs [] = []"
| "conflict_pairs (a # cs) =
     map (\<lambda>b. clause_id a @ '':'' @ clause_id b) (filter (clauses_conflict a) cs) @ conflict_pairs cs"

definition resolve_effective_contract ::
    "(string \<Rightarrow> string) \<Rightarrow> intent_file \<Rightarrow> (string \<times> string) list \<Rightarrow> effective_contract result" where
  "resolve_effective_contract digest file context =
     bind_r (list_clauses digest file False) (\<lambda>active.
     let cls = resolve_clauses active context in
     bind_r (list_sources digest file) (\<lambda>all_sources.
     let srcs = List.map_filter (\<lambda>c. List.find (\<lambda>x. src_intent_id x = cl_intent_id c) (rev all_sources)) cls;
         identity = PList (map (\<lambda>c. PDict [(''clause_id'', PStr (clause_id c)), (''version'', PInt (cl_version c))]) cls)
     in Inr \<lparr>ec_fingerprint = ''sha256:'' @ digest (json_sorted identity), ec_clauses = cls,
             ec_sources = srcs, ec_context = context, ec_conflicts = sort (conflict_pairs cls)\<rparr>))"

section \<open>Documents the store writes and reads\<close>

definition nonblank :: "string \<Rightarrow> bool" where
  "nonblank s \<longleftrightarrow> strip s \<noteq> []"

lemma string_value_Inr [simp]: "string_value v = Inr s \<longleftrightarrow> v = PStr s \<and> nonblank s"
  by (auto simp: string_value_def nonblank_def split: pyval.splits)

lemma string_value_PStr [simp]: "nonblank s \<Longrightarrow> string_value (PStr s) = Inr s"
  by simp

lemma optional_string_value_opt [simp]:
  "(\<forall>s. x = Some s \<longrightarrow> nonblank s) \<Longrightarrow> optional_string_value (opt_str x) = Inr x"
  by (cases x) (auto simp: optional_string_value_def opt_str_def)

lemma optional_string_value_Inr: "optional_string_value v = Inr x \<Longrightarrow> x = Some s \<Longrightarrow> nonblank s"
  by (cases v) (auto simp: optional_string_value_def)

lemma mapM_string_value [simp]: "list_all nonblank xs \<Longrightarrow> mapM_r string_value (map PStr xs) = Inr xs"
  by (induction xs) auto

lemma mapM_string_value_ok: "mapM_r string_value vs = Inr xs \<Longrightarrow> list_all nonblank xs"
  by (auto simp: list_all_iff dest: mapM_r_all)

lemma nonblank_Cons [simp]: "\<not> py_isspace c \<Longrightarrow> nonblank (c # s)"
proof -
  assume "\<not> py_isspace c"
  then have "rstrip (c # s) \<noteq> []"
    by (auto simp: rstrip_def dropWhile_eq_Nil_conv)
  with \<open>\<not> py_isspace c\<close> show ?thesis by (simp add: nonblank_def strip_def lstrip_def)
qed

definition source_ok :: "(string \<Rightarrow> string) \<Rightarrow> intent_source \<Rightarrow> bool" where
  "source_ok digest x \<longleftrightarrow> nonblank (src_intent_id x) \<and> nonblank (exact_text x) \<and>
     nonblank (src_source_ref x) \<and> nonblank (supplied_by x) \<and> nonblank (created_at x) \<and>
     content_fingerprint x = intent_fingerprint_text digest (exact_text x) \<and>
     src_schema_version x = INTENT_SCHEMA_VERSION"

definition contract_ok :: "intent_contract \<Rightarrow> bool" where
  "contract_ok c \<longleftrightarrow>
     list_all (\<lambda>(k, vs). k \<noteq> [] \<and> vs \<noteq> [] \<and> list_all nonblank vs \<and> sorted_set vs = vs) (selectors c) \<and>
     (\<forall>s. trigger_action c = Some s \<longrightarrow> nonblank s) \<and> list_all nonblank (requirements c) \<and>
     (\<forall>s. completion_gate c = Some s \<longrightarrow> nonblank s)"

definition clause_ok :: "intent_clause \<Rightarrow> bool" where
  "clause_ok c \<longleftrightarrow> nonblank (clause_id c) \<and> nonblank (cl_intent_id c) \<and>
     0 \<le> fst (source_span c) \<and> fst (source_span c) \<le> snd (source_span c) \<and>
     contract_ok (contract c) \<and> 1 \<le> cl_version c \<and>
     (\<forall>s. supersedes_clause_id c = Some s \<longrightarrow> nonblank s)"

text \<open>A stored contract lists its selectors in the order of their keys.\<close>

definition norm_clause :: "intent_clause \<Rightarrow> intent_clause" where
  "norm_clause c = c\<lparr>contract := (contract c)\<lparr>selectors := sort_key fst (selectors (contract c))\<rparr>\<rparr>"

lemma norm_clause_sel [simp]:
  "clause_id (norm_clause c) = clause_id c" "cl_intent_id (norm_clause c) = cl_intent_id c"
  "cl_version (norm_clause c) = cl_version c" "cl_active (norm_clause c) = cl_active c"
  "cl_kind (norm_clause c) = cl_kind c" "supersedes_clause_id (norm_clause c) = supersedes_clause_id c"
  by (simp_all add: norm_clause_def)

lemma intent_enum_parsers [simp]:
  "IntentKind v = Inr k \<longleftrightarrow> v = PStr (intent_kind_value k)"
  "IntentTrigger v = Inr t \<longleftrightarrow> v = PStr (intent_trigger_value t)"
  by (simp_all add: IntentKind_def IntentTrigger_def enum_of_Inr intent_kind_enum.str_enum_axioms
      intent_trigger_enum.str_enum_axioms)

lemma intent_enum_values [simp]:
  "IntentKind (PStr (intent_kind_value k)) = Inr k"
  "IntentTrigger (PStr (intent_trigger_value t)) = Inr t"
  by (subst intent_enum_parsers, rule refl)+

lemma intent_values_nonblank [simp]: "nonblank (intent_kind_value k)" "nonblank (intent_trigger_value t)"
  by (cases k; cases t; simp add: py_isspace_def)+

interpretation source_codec: json_codec source_to_data "source_from_data digest" "source_ok digest"
proof
  show "source_from_data digest (source_to_data x) = Inr x" if "source_ok digest x" for x
    using that
    by (simp add: source_from_data_def source_to_data_def source_ok_def strict_keys_def string_field_def
        new_source_def Let_def intent_fingerprint_text_def py_isspace_def)
      (simp add: nonblank_def)
  show "source_ok digest x" if "source_from_data digest d = Inr x" for d x
    using that
    by (auto simp only: source_from_data_def source_ok_def new_source_def Let_def string_field_def
        bind_r_eq_Inr guard_r_Inr string_value_Inr sum.inject intent_source.simps)
qed

lemma mapM_selectors:
  "list_all (\<lambda>(k, vs). list_all nonblank vs) sels \<Longrightarrow>
    mapM_r selector_values (map (\<lambda>(k, vs). (k, str_list vs)) sels) = Inr sels"
  by (induction sels) (auto simp: selector_values_def str_list_def)

lemma contract_roundtrip:
  assumes "contract_ok c"
  shows "contract_from_data (contract_to_data c) = Inr (c\<lparr>selectors := sort_key fst (selectors c)\<rparr>)"
proof -
  let ?s = "sort_key fst (selectors c)"
  have all: "list_all (\<lambda>(k, vs). k \<noteq> [] \<and> vs \<noteq> [] \<and> list_all nonblank vs \<and> sorted_set vs = vs) ?s"
    using assms by (simp add: contract_ok_def list_all_iff)
  then have sel: "mapM_r selector_values (map (\<lambda>(k, vs). (k, str_list vs)) ?s) = Inr ?s"
    by (intro mapM_selectors) (auto simp: list_all_iff)
  have norm: "map (\<lambda>(k, vs). (k, sorted_set vs)) ?s = ?s"
    using all by (intro map_idI) (auto simp: list_all_iff)
  have ok: "\<not> (\<exists>(k, vs) \<in> set ?s. k = [] \<or> vs = [])"
    using all by (auto simp: list_all_iff)
  have new: "new_contract ?s (trigger c) (trigger_action c) (requirements c) (completion_gate c)
      (ic_precedence c) = Inr (c\<lparr>selectors := ?s\<rparr>)"
    unfolding new_contract_def Let_def norm using ok by simp
  show ?thesis
    using assms sel new
    by (simp add: contract_from_data_def contract_to_data_def strict_keys_def contract_ok_def
        str_list_def py_int_def)
qed

lemma clause_roundtrip:
  assumes "clause_ok c"
  shows "clause_from_data (clause_to_data c) = Inr (norm_clause c)"
  using assms contract_roundtrip [of "contract c"]
  by (simp add: clause_from_data_def clause_to_data_def clause_ok_def strict_keys_def string_field_def
      parse_span_def positive_int_field_def bool_field_def norm_clause_def)

lemma contract_parts:
  assumes "contract_from_data d = Inr c"
  obtains raw sels tr ta reqs rs gate prec where
    "mapM_r selector_values raw = Inr sels" "mapM_r string_value reqs = Inr rs"
    "optional_string_value (get_item d ''trigger_action'') = Inr ta"
    "optional_string_value (get_item d ''completion_gate'') = Inr gate"
    "new_contract sels tr ta rs gate prec = Inr c"
proof (cases "get_default d ''selectors'' (PDict [])")
  case (PDict raw)
  with assms that show ?thesis
    by (cases "get_default d ''requirements'' (PList [])") (auto simp: contract_from_data_def)
qed (use assms in \<open>simp_all add: contract_from_data_def\<close>)

lemma selector_values_ok: "selector_values kv = Inr (k, vs) \<Longrightarrow> list_all nonblank vs"
  by (auto simp: selector_values_def split: pyval.splits dest: mapM_string_value_ok)

lemma sorted_set_idem [simp]: "sorted_set (sorted_set xs) = sorted_set xs"
  by (simp add: sorted_set_def distinct_remdups_id sorted_sort_id)

lemma contract_parsed_ok: "contract_from_data d = Inr c \<Longrightarrow> contract_ok c"
proof (erule contract_parts)
  fix raw sels tr ta reqs rs gate prec
  assume a: "mapM_r selector_values raw = Inr sels" "mapM_r string_value reqs = Inr rs"
    "optional_string_value (get_item d ''trigger_action'') = Inr ta"
    "optional_string_value (get_item d ''completion_gate'') = Inr gate"
    "new_contract sels tr ta rs gate prec = Inr c"
  have "list_all nonblank vs" if "(k, vs) \<in> set sels" for k vs
    using mapM_r_all [OF a(1) that] selector_values_ok by blast
  then have "list_all (\<lambda>(k, vs). k \<noteq> [] \<and> vs \<noteq> [] \<and> list_all nonblank vs \<and> sorted_set vs = vs) (selectors c)"
    using a(5) by (fastforce simp: new_contract_def Let_def list_all_iff)
  moreover have "trigger_action c = ta" "requirements c = rs" "completion_gate c = gate"
    using a(5) by (auto simp: new_contract_def Let_def)
  ultimately show "contract_ok c"
    using a mapM_string_value_ok optional_string_value_Inr by (auto simp: contract_ok_def)
qed

lemma clause_parsed_ok:
  assumes "clause_from_data d = Inr c"
  shows "clause_ok c"
proof -
  have span: "parse_span v = Inr sp \<Longrightarrow> 0 \<le> fst sp \<and> fst sp \<le> snd sp" for v sp
    by (auto simp: parse_span_def split: pyval.splits list.splits option.splits if_splits)
  have ver: "positive_int_field d k = Inr v \<Longrightarrow> 1 \<le> v" for k v
    by (auto simp: positive_int_field_def split: option.splits if_splits)
  from assms show ?thesis
    by (cases "get_item d ''contract''")
      (auto simp: clause_from_data_def clause_ok_def string_field_def
        dest: span ver contract_parsed_ok optional_string_value_Inr)
qed

definition intents_ok :: "(string \<Rightarrow> string) \<Rightarrow> intent_data \<Rightarrow> bool" where
  "intents_ok digest data \<longleftrightarrow> list_all (source_ok digest) (fst data) \<and> list_all clause_ok (snd data)"

lemma mapM_dicts: "mapM_r item_dict (map (PDict \<circ> f) xs) = Inr (map f xs)"
  by (induction xs) (auto simp: item_dict_def)

lemma mapM_clauses: "list_all clause_ok cls \<Longrightarrow> mapM_r clause_from_data (map clause_to_data cls) = Inr (map norm_clause cls)"
  by (induction cls) (auto simp: clause_roundtrip)

lemma read_write:
  assumes "intents_ok digest (srcs, cls)"
  shows "read_intents digest (write_intents srcs cls) =
    (if set (map cl_intent_id cls) \<subseteq> set (map src_intent_id srcs) then Inr (srcs, map norm_clause cls)
     else Inl (ValueError ''intent clause references an unknown source''))"
proof -
  have "mapM_r (source_from_data digest) (map source_to_data srcs) = Inr srcs"
    using assms by (intro source_codec.mapM_roundtrip) (simp add: intents_ok_def)
  moreover have "mapM_r clause_from_data (map clause_to_data cls) = Inr (map norm_clause cls)"
    using assms by (intro mapM_clauses) (simp add: intents_ok_def)
  moreover have "cl_intent_id ` norm_clause ` set cls = cl_intent_id ` set cls"
    by (simp add: image_image)
  ultimately show ?thesis
    by (simp add: read_intents_def write_intents_def item_list_def mapM_dicts)
qed

lemma read_ok:
  assumes "read_intents digest file = Inr (srcs, cls)"
  shows "intents_ok digest (srcs, cls) \<and> set (map cl_intent_id cls) \<subseteq> set (map src_intent_id srcs)"
proof (cases "file")
  case None
  with assms show ?thesis by (simp add: read_intents_def intents_ok_def)
next
  case (Some v)
  with assms obtain ds es where
    ds: "mapM_r (source_from_data digest) ds = Inr srcs" "mapM_r clause_from_data es = Inr cls"
    "set (map cl_intent_id cls) \<subseteq> set (map src_intent_id srcs)"
    by (cases v) (auto simp: read_intents_def)
  have "list_all clause_ok cls"
    using mapM_r_all [OF ds(2)] clause_parsed_ok by (fastforce simp: list_all_iff)
  with ds source_codec.mapM_ok show ?thesis by (auto simp: intents_ok_def)
qed

interpretation clauses: versioned clause_id cl_version cl_active retire_clause
  by unfold_locales (simp_all add: retire_clause_def)

lemma retire_clause_ok: "clause_ok c \<Longrightarrow> clause_ok (retire_clause c)"
  by (simp add: clause_ok_def retire_clause_def)

lemma list_all_retired:
  "list_all clause_ok cls \<Longrightarrow> clause_ok c \<Longrightarrow>
    list_all clause_ok (map (\<lambda>item. if clause_id item = cid then retire_clause c else item) cls)"
  by (auto simp: list_all_iff intro: retire_clause_ok)

section \<open>Properties\<close>

text \<open>capturing a new source appends it and its clauses to the store, and capturing the same wording
  again changes nothing and returns what is stored: the capture is idempotent.\<close>

theorem capture_idempotent:
  assumes "read_intents digest file = Inr (srcs, cls)" "source_ok digest src" "list_all clause_ok new"
    and "capture digest file src new = Inr ((s, cs, True), file')"
  shows "read_intents digest file' = Inr (srcs @ [src], map norm_clause (cls @ new)) \<and>
    capture digest file' src new' =
      Inr ((src, filter (\<lambda>c. cl_intent_id c = src_intent_id src) (map norm_clause (cls @ new)), False), file')"
proof -
  from assms(1,4) have fresh: "List.find (\<lambda>item. src_source_ref item = src_source_ref src) srcs = None"
    and refs: "\<forall>c \<in> set new. cl_intent_id c = src_intent_id src"
    and out: "file' = write_intents (srcs @ [src]) (cls @ new)"
    by (auto simp: capture_def split: option.splits)
  have "intents_ok digest (srcs @ [src], cls @ new)"
    using read_ok [OF assms(1)] assms(2,3) by (simp add: intents_ok_def)
  moreover have "set (map cl_intent_id (cls @ new)) \<subseteq> set (map src_intent_id (srcs @ [src]))"
    using read_ok [OF assms(1)] refs by auto
  ultimately have read: "read_intents digest file' = Inr (srcs @ [src], map norm_clause (cls @ new))"
    unfolding out by (simp only: read_write if_True)
  have "List.find (\<lambda>item. src_source_ref item = src_source_ref src) (srcs @ [src]) = Some src"
    using fresh by (rule find_snoc_None) simp
  with read show ?thesis by (simp add: capture_def del: map_append)
qed

definition sample_source :: intent_source where
  "sample_source =
     \<lparr>src_intent_id = ''i1'', exact_text = ''Always run tests'', src_source_ref = ''chat:1'',
      supplied_by = ''user'', created_at = ''2025-01-01'',
      content_fingerprint = intent_fingerprint_text id ''Always run tests'',
      src_schema_version = ''intent-v1''\<rparr>"

definition sample_clause :: intent_clause where
  "sample_clause =
     \<lparr>clause_id = ''c1'', cl_intent_id = ''i1'', source_span = (0, 16), cl_kind = INVARIANT,
      contract = \<lparr>selectors = [(''phase'', [''build''])], trigger = BEFORE_ACTION, trigger_action = None,
        requirements = [''run_tests''], completion_gate = None, ic_precedence = 0\<rparr>,
      cl_version = 1, cl_active = True, supersedes_clause_id = None\<rparr>"

lemma sample_intent_ok: "source_ok id sample_source" "clause_ok sample_clause"
proof -
  show "source_ok id sample_source"
    by (simp add: source_ok_def sample_source_def nonblank_def INTENT_SCHEMA_VERSION_def) code_simp
  show "clause_ok sample_clause"
    by (simp add: clause_ok_def sample_clause_def contract_ok_def nonblank_def) code_simp
qed

definition sample_intents :: intent_file where
  "sample_intents = write_intents [sample_source] [sample_clause]"

lemma sample_capture: "capture id None sample_source [sample_clause] =
    Inr ((sample_source, [sample_clause], True), sample_intents)"
  by (simp add: capture_def read_intents_def sample_intents_def sample_source_def sample_clause_def)

theorem capture_idempotent_witness:
  "capture id sample_intents sample_source [] =
    Inr ((sample_source, filter (\<lambda>c. cl_intent_id c = src_intent_id sample_source) [norm_clause sample_clause], False),
      sample_intents)"
proof -
  have "read_intents id None = Inr ([], [])" by (simp add: read_intents_def)
  from capture_idempotent [OF this sample_intent_ok(1) _ sample_capture, of "[]"] sample_intent_ok(2)
  show ?thesis by simp
qed

lemma sample_read: "read_intents id sample_intents = Inr ([sample_source], [norm_clause sample_clause])"
  using read_write [of id "[sample_source]" "[sample_clause]"] sample_intent_ok
  by (simp add: sample_intents_def intents_ok_def sample_source_def sample_clause_def)

text \<open>updating a clause retires the old one under the next version and installs the replacement as an
  active clause of version 1 that names its predecessor, provided the replacement belongs to a
  known source; other clauses keep their place in the store.\<close>

theorem update_clause_atomic:
  assumes "read_intents digest file = Inr (srcs, cls)"
    and "update_clause digest file cid replacement expected = Inr (inst, file')"
    and "clause_ok replacement" "nonblank cid" "cl_intent_id replacement \<in> set (map src_intent_id srcs)"
  shows "\<exists>c cls'. List.find (\<lambda>x. clause_id x = cid) cls = Some c \<and> cl_version c = expected \<and>
    read_intents digest file' = Inr (srcs, cls') \<and>
    (\<forall>x \<in> set cls'. clause_id x = cid \<longrightarrow> \<not> cl_active x \<and> cl_version x = expected + 1) \<and>
    norm_clause inst \<in> set cls' \<and> cl_active inst \<and> cl_version inst = 1 \<and>
    supersedes_clause_id inst = Some cid \<and>
    map clause_id cls' = map clause_id cls @ [clause_id replacement]"
proof -
  let ?inst = "replacement\<lparr>cl_version := 1, cl_active := True, supersedes_clause_id := Some cid\<rparr>"
  from assms(1,2) obtain c where c: "List.find (\<lambda>x. clause_id x = cid) cls = Some c" "cl_version c = expected"
    and new: "clause_id replacement \<noteq> cid"
    and out: "inst = ?inst" "file' = write_intents srcs
      (map (\<lambda>item. if clause_id item = cid then retire_clause c else item) cls @ [?inst])"
    by (auto simp: update_clause_def Let_def split: option.splits)
  let ?old = "map (\<lambda>item. if clause_id item = cid then retire_clause c else item) cls"
  have c': "c \<in> set cls" "clause_id c = cid" using find_Some_mem [OF c(1)] by auto
  have keys: "map clause_id ?old = map clause_id cls"
    using c' by (intro clauses.replaced_keys) (simp add: clauses.retire_key)
  have "clause_ok c" using read_ok [OF assms(1)] c' by (auto simp: intents_ok_def list_all_iff)
  then have "list_all clause_ok ?old"
    using read_ok [OF assms(1)] by (intro list_all_retired) (auto simp: intents_ok_def)
  moreover have "clause_ok ?inst" using assms(3,4) by (simp add: clause_ok_def)
  ultimately have ok: "intents_ok digest (srcs, ?old @ [?inst])"
    using read_ok [OF assms(1)] by (simp add: intents_ok_def)
  have "cl_intent_id (retire_clause c) = cl_intent_id c" by (simp add: retire_clause_def)
  then have "set (map cl_intent_id (?old @ [?inst])) \<subseteq> set (map src_intent_id srcs)"
    using read_ok [OF assms(1)] c'(1) assms(5) by auto
  then have read: "read_intents digest file' = Inr (srcs, map norm_clause (?old @ [?inst]))"
    unfolding out by (simp only: read_write [OF ok] if_True)
  have "\<not> cl_active x \<and> cl_version x = expected + 1" if "x \<in> set ?old" "clause_id x = cid" for x
    using clauses.retired_entry [OF c(1) that] c(2) by simp
  then have "\<forall>x \<in> set (?old @ [?inst]). clause_id x = cid \<longrightarrow> \<not> cl_active x \<and> cl_version x = expected + 1"
    using new by (auto simp del: set_map)
  then have "\<forall>x \<in> set (map norm_clause (?old @ [?inst])). clause_id x = cid \<longrightarrow>
      \<not> cl_active x \<and> cl_version x = expected + 1"
    by (simp only: set_map [of norm_clause] ball_simps norm_clause_sel)
  moreover have "map clause_id (map norm_clause (?old @ [?inst])) = map clause_id cls @ [clause_id replacement]"
    using keys by (simp add: comp_def del: map_map) (simp add: comp_def)
  ultimately show ?thesis
    using c read out(1) by (intro exI [of _ c] exI [of _ "map norm_clause (?old @ [?inst])"]) simp
qed

theorem update_clause_atomic_witness:
  "\<exists>inst file'. update_clause id sample_intents ''c1'' (sample_clause\<lparr>clause_id := ''c2''\<rparr>) 1 = Inr (inst, file') \<and>
     is_ok (read_intents id file') \<and> supersedes_clause_id inst = Some ''c1''"
proof -
  have "is_ok (update_clause id sample_intents ''c1'' (sample_clause\<lparr>clause_id := ''c2''\<rparr>) 1)" by code_simp
  then obtain inst file' where u: "update_clause id sample_intents ''c1'' (sample_clause\<lparr>clause_id := ''c2''\<rparr>) 1
      = Inr (inst, file')" by (auto simp: is_ok_iff)
  have "clause_ok (sample_clause\<lparr>clause_id := ''c2''\<rparr>)" "nonblank ''c1''"
    using sample_intent_ok(2) by (simp_all add: clause_ok_def py_isspace_def)
  moreover have "cl_intent_id (sample_clause\<lparr>clause_id := ''c2''\<rparr>) \<in> set (map src_intent_id [sample_source])"
    by (simp add: sample_clause_def sample_source_def)
  ultimately show ?thesis
    using update_clause_atomic [OF sample_read u] u by auto
qed

text \<open>\<^verbatim>\<open>update_clause\<close> does not check the source of the replacement: with an unknown one it
  succeeds and writes a document that every later read rejects, so the store is lost.\<close>

theorem update_clause_unknown_source:
  assumes "read_intents digest file = Inr (srcs, cls)"
    and "update_clause digest file cid replacement expected = Inr (inst, file')"
    and "clause_ok replacement" "nonblank cid" "cl_intent_id replacement \<notin> set (map src_intent_id srcs)"
  shows "read_intents digest file' = Inl (ValueError ''intent clause references an unknown source'')"
proof -
  let ?inst = "replacement\<lparr>cl_version := 1, cl_active := True, supersedes_clause_id := Some cid\<rparr>"
  from assms(1,2) obtain c where c: "List.find (\<lambda>x. clause_id x = cid) cls = Some c"
    and out: "file' = write_intents srcs
      (map (\<lambda>item. if clause_id item = cid then retire_clause c else item) cls @ [?inst])"
    by (auto simp: update_clause_def Let_def split: option.splits)
  have "clause_ok c"
    using read_ok [OF assms(1)] find_Some_mem [OF c] by (auto simp: intents_ok_def list_all_iff)
  then have "intents_ok digest (srcs, map (\<lambda>item. if clause_id item = cid then retire_clause c else item) cls @ [?inst])"
    using read_ok [OF assms(1)] assms(3,4) list_all_retired [of cls c cid]
    by (auto simp: intents_ok_def clause_ok_def)
  with assms(5) show ?thesis
    unfolding out by (simp add: read_write)
qed

theorem update_clause_unknown_source_witness:
  "\<exists>inst file'. update_clause id sample_intents ''c1'' (sample_clause\<lparr>clause_id := ''c2'', cl_intent_id := ''i9''\<rparr>) 1
      = Inr (inst, file') \<and>
    read_intents id file' = Inl (ValueError ''intent clause references an unknown source'')"
proof -
  let ?r = "sample_clause\<lparr>clause_id := ''c2'', cl_intent_id := ''i9''\<rparr>"
  have "is_ok (update_clause id sample_intents ''c1'' ?r 1)" by code_simp
  then obtain inst file' where u: "update_clause id sample_intents ''c1'' ?r 1 = Inr (inst, file')"
    by (auto simp: is_ok_iff)
  have "clause_ok ?r" "nonblank ''c1''"
    using sample_intent_ok(2) by (simp_all add: clause_ok_def py_isspace_def)
  moreover have "cl_intent_id ?r \<notin> set (map src_intent_id [sample_source])"
    by (simp add: sample_source_def)
  ultimately show ?thesis
    using update_clause_unknown_source [OF sample_read u] u by blast
qed

lemma find_source:
  "i \<in> set (map src_intent_id srcs) \<Longrightarrow> \<exists>x. List.find (\<lambda>x. src_intent_id x = i) (rev srcs) = Some x \<and> src_intent_id x = i"
  by (cases "List.find (\<lambda>x. src_intent_id x = i) (rev srcs)") (auto simp: find_None_iff dest: find_Some_mem)

lemma map_filter_total: "(\<And>x. x \<in> set xs \<Longrightarrow> \<exists>y. f x = Some y \<and> g y = h x) \<Longrightarrow> map g (List.map_filter f xs) = map h xs"
  by (induction xs) (force simp: List.map_filter_simps)+

text \<open>the effective contract of a context holds exactly the active clauses whose selectors the context
  matches, in order of falling precedence and then of identifier, and the source of each of them.\<close>

theorem effective_contract_exact:
  assumes "read_intents digest file = Inr (srcs, cls)" "resolve_effective_contract digest file context = Inr c"
  shows "set (ec_clauses c) = {x \<in> set cls. cl_active x \<and> selectors_match (selectors (contract x)) context} \<and>
    sorted (map (\<lambda>x. (- ic_precedence (contract x), clause_id x)) (ec_clauses c)) \<and>
    map src_intent_id (ec_sources c) = map cl_intent_id (ec_clauses c)"
proof -
  have c: "ec_clauses c = resolve_clauses (filter cl_active cls) context"
    "ec_sources c = List.map_filter (\<lambda>x. List.find (\<lambda>s. src_intent_id s = cl_intent_id x) (rev srcs)) (ec_clauses c)"
    using assms by (auto simp: resolve_effective_contract_def list_clauses_def list_sources_def Let_def)
  have sub: "set (ec_clauses c) \<subseteq> set cls" by (auto simp: c(1) resolve_clauses_def)
  have "map src_intent_id (ec_sources c) = map cl_intent_id (ec_clauses c)"
    unfolding c(2) using read_ok [OF assms(1)] sub
    by (intro map_filter_total find_source) auto
  then show ?thesis by (auto simp: c(1) resolve_clauses_def)
qed

theorem effective_contract_exact_witness:
  "\<exists>c. resolve_effective_contract id sample_intents [(''phase'', ''build'')] = Inr c \<and>
    map src_intent_id (ec_sources c) = map cl_intent_id (ec_clauses c)"
proof -
  obtain c where c: "resolve_effective_contract id sample_intents [(''phase'', ''build'')] = Inr c"
    by (simp add: resolve_effective_contract_def list_clauses_def list_sources_def sample_read Let_def)
  from effective_contract_exact [OF sample_read this] c show ?thesis by blast
qed

end
