(* ===== verification/Delivery_Profile.thy ===== *)
theory Delivery_Profile
  imports Tool_Manifest
begin

text \<open>
  \<^verbatim>\<open>core/delivery_profile.py\<close>, validation and loading: a delivery profile names the personas,
  assigns every phase to one, and declares artifact handoffs and reviews. The validator collects
  every issue instead of stopping at the first one; the parser raises.

  A validator returns what it validated with the issues it appends, in the source's order. YAML text
  is read and written by a library: \<open>yaml_load\<close> and \<open>yaml_dump\<close> are parameters, and the statements
  about \<^verbatim>\<open>from_data\<close> rest on the hypothesis that loading what was dumped gives the document back.
  The repair instructions an issue carries are not modelled.
\<close>

section \<open>Issues\<close>

definition DELIVERY_PROFILE_SCHEMA_VERSION :: string where
  "DELIVERY_PROFILE_SCHEMA_VERSION = ''delivery-profile-v1''"

definition IDENTIFIER_PATTERN :: string where
  "IDENTIFIER_PATTERN = ''^[a-z][a-z0-9_-]*$''"

record profile_issue =
  issue_code :: string
  issue_message :: string
  issue_path :: "string option"

record profile_report =
  validation_successful :: bool
  report_profile_id :: "string option"
  report_issues :: "profile_issue list"

definition make_issue :: "string option \<Rightarrow> string \<Rightarrow> string \<Rightarrow> string \<Rightarrow> profile_issue" where
  "make_issue src code msg relative =
     \<lparr>issue_code = code, issue_message = msg,
      issue_path = Some (case src of
          Some (c # cs) \<Rightarrow> (c # cs) @ '':'' @ relative
        | _ \<Rightarrow> relative)\<rparr>"

definition issue_unless :: "bool \<Rightarrow> profile_issue \<Rightarrow> profile_issue list" where
  "issue_unless ok i = (if ok then [] else [i])"

type_synonym 'a checked = "'a \<times> profile_issue list"

section \<open>Field validators\<close>

definition validate_unknown_keys ::
    "string option \<Rightarrow> pydict \<Rightarrow> string list \<Rightarrow> string \<Rightarrow> string \<Rightarrow> profile_issue list" where
  "validate_unknown_keys src data known subject path =
     map (\<lambda>key. make_issue src ''unknown_field'' (''Unknown '' @ subject @ '' field '' @ py_repr key @ ''.'')
            (if path \<noteq> [] then path @ ''.'' @ key else key))
       (filter (\<lambda>key. key \<notin> set known) (map fst data))"

fun identifier_value :: "pyval \<Rightarrow> string option" where
  "identifier_value (PStr s) = (if is_identifier s then Some s else None)"
| "identifier_value _ = None"

definition validate_identifier ::
    "string option \<Rightarrow> pyval \<Rightarrow> string \<Rightarrow> string \<Rightarrow> string option checked" where
  "validate_identifier src v name path =
     (identifier_value v,
      issue_unless (identifier_value v \<noteq> None)
        (make_issue src ''invalid_identifier'' (name @ '' must match '' @ py_repr IDENTIFIER_PATTERN @ ''.'')
          (path @ ''.'' @ name)))"

definition required_identifier :: "pydict \<Rightarrow> string \<Rightarrow> string result" where
  "required_identifier data key =
     (case identifier_value (get_item data key) of
        Some s \<Rightarrow> Inr s
      | None \<Rightarrow> Inl (ValueError (key @ '' must match '' @ py_repr IDENTIFIER_PATTERN @ ''.'')))"

definition validate_enum ::
    "('e \<Rightarrow> string) \<Rightarrow> 'e list \<Rightarrow> string option \<Rightarrow> pyval \<Rightarrow> string \<Rightarrow> string \<Rightarrow> 'e option checked" where
  "validate_enum val members src v name path =
     (case v of
        PStr s \<Rightarrow>
          (enum_find val members s,
           issue_unless (enum_find val members s \<noteq> None)
             (make_issue src ''invalid_enum'' (name @ '' must be one of: '' @ py_join '', '' (map val members) @ ''.'')
               (path @ ''.'' @ name)))
      | _ \<Rightarrow> (None, [make_issue src ''invalid_enum'' (name @ '' must be a string.'') (path @ ''.'' @ name)]))"

definition validate_artifact :: "string option \<Rightarrow> pyval \<Rightarrow> string \<Rightarrow> string \<Rightarrow> string option checked" where
  "validate_artifact src v name path =
     (case validate_identifier src v name path of
        (Some s, issues) \<Rightarrow>
          if s \<in> set SUPPORTED_ARTIFACT_TYPES then (Some s, issues)
          else (None, issues @ [make_issue src ''unsupported_artifact_type''
            (name @ '' must be one of: '' @ py_join '', '' (sort SUPPORTED_ARTIFACT_TYPES) @ ''.'')
            (path @ ''.'' @ name)])
      | (None, issues) \<Rightarrow> (None, issues))"

definition indexed :: "string \<Rightarrow> nat \<Rightarrow> string" where
  "indexed path i = path @ ''['' @ show_nat i @ '']''"

definition validate_identifier_sequence ::
    "string option \<Rightarrow> pydict \<Rightarrow> string \<Rightarrow> string \<Rightarrow> bool \<Rightarrow> string list checked" where
  "validate_identifier_sequence src data key path required =
     (case get_item data key of
        PList items \<Rightarrow>
          let values = List.map_filter identifier_value items in
          (values,
           concat (map (\<lambda>(i, v). issue_unless (identifier_value v \<noteq> None)
               (make_issue src ''invalid_identifier''
                 (key @ '' must contain identifiers matching '' @ py_repr IDENTIFIER_PATTERN @ ''.'')
                 (indexed (path @ ''.'' @ key) i))) (List.enumerate 0 items))
           @ issue_unless (length values = card (set values))
               (make_issue src ''duplicate_sequence_item'' (key @ '' must not contain duplicates.'')
                 (path @ ''.'' @ key)))
      | v \<Rightarrow>
          if v = PNone \<and> \<not> required then ([], [])
          else ([], [make_issue src ''invalid_sequence'' (key @ '' must be an array of identifiers.'')
                      (path @ ''.'' @ key)]))"

definition validate_artifact_sequence ::
    "string option \<Rightarrow> pydict \<Rightarrow> string \<Rightarrow> string \<Rightarrow> bool \<Rightarrow> string list checked" where
  "validate_artifact_sequence src data key path required =
     (let (values, issues) = validate_identifier_sequence src data key path required in
      (filter (\<lambda>v. v \<in> set SUPPORTED_ARTIFACT_TYPES) values,
       issues @ concat (map (\<lambda>(i, v). issue_unless (v \<in> set SUPPORTED_ARTIFACT_TYPES)
         (make_issue src ''unsupported_artifact_type''
           (key @ '' contains unsupported artifact type '' @ py_repr v @ ''.'')
           (indexed (path @ ''.'' @ key) i))) (List.enumerate 0 values))))"

definition required_identifier_sequence :: "pydict \<Rightarrow> string \<Rightarrow> bool \<Rightarrow> string list result" where
  "required_identifier_sequence data key optional =
     (case get_item data key of
        PList items \<Rightarrow>
          if \<exists>v \<in> set items. identifier_value v = None
          then Inl (ValueError (key @ '' must contain identifiers matching '' @ py_repr IDENTIFIER_PATTERN @ ''.''))
          else Inr (map the_str items)
      | v \<Rightarrow>
          if v = PNone \<and> optional then Inr []
          else Inl (ValueError (key @ '' must be an array of identifiers.'')))"

definition optional_positive_int :: "pydict \<Rightarrow> string \<Rightarrow> int option result" where
  "optional_positive_int data key =
     (case get_item data key of
        PNone \<Rightarrow> Inr None
      | PInt i \<Rightarrow> if 0 < i then Inr (Some i)
          else Inl (ValueError (key @ '' must be a positive integer.''))
      | _ \<Rightarrow> Inl (ValueError (key @ '' must be a positive integer.'')))"

definition required_mapping_sequence :: "pyval \<Rightarrow> string \<Rightarrow> pydict list result" where
  "required_mapping_sequence v key =
     (case v of
        PList items \<Rightarrow> if list_all is_mapping items then Inr (map the_dict items)
          else Inl (ValueError (key @ '' must contain only objects.''))
      | _ \<Rightarrow> Inl (ValueError (key @ '' must be an array of objects.'')))"

definition optional_mapping_sequence :: "pydict \<Rightarrow> string \<Rightarrow> pydict list result" where
  "optional_mapping_sequence data key =
     (case get_default data key (PList []) of
        PNone \<Rightarrow> Inr []
      | v \<Rightarrow> required_mapping_sequence v key)"

definition validate_mapping_sequence :: "string option \<Rightarrow> pydict \<Rightarrow> string \<Rightarrow> pydict list checked" where
  "validate_mapping_sequence src data key =
     (case get_item data key of
        PList items \<Rightarrow>
          (map the_dict (filter is_mapping items),
           concat (map (\<lambda>(i, item). issue_unless (is_mapping item)
             (make_issue src ''invalid_item'' (key @ '' must contain only objects.'') (indexed key i)))
             (List.enumerate 0 items)))
      | _ \<Rightarrow> ([], [make_issue src ''invalid_sequence'' (key @ '' must be an array of objects.'') key]))"

definition validate_optional_mapping_sequence :: "string option \<Rightarrow> pydict \<Rightarrow> string \<Rightarrow> pydict list checked" where
  "validate_optional_mapping_sequence src data key =
     (if get_item data key = PNone then ([], []) else validate_mapping_sequence src data key)"

section \<open>Parsers\<close>

definition parse_persona :: "pydict \<Rightarrow> persona_definition result" where
  "parse_persona data =
     bind_r (required_identifier data ''persona_id'') (\<lambda>pid.
     bind_r (bind_r (required_identifier data ''persona_type'') (PersonaType \<circ> PStr)) (\<lambda>ty.
     bind_r (required_identifier data ''model_profile'') (\<lambda>model.
     bind_r (required_identifier_sequence data ''prompt_catalogs'' True) (\<lambda>cats.
     bind_r (required_identifier_sequence data ''process_references'' True) (\<lambda>procs.
     bind_r (optional_positive_int data ''step_budget'') (\<lambda>budget.
     Inr \<lparr>pd_persona_id = pid, pd_persona_type = ty, pd_model_profile = model,
          pd_prompt_catalogs = cats, pd_process_references = procs, pd_step_budget = budget\<rparr>))))))"

definition parse_phase :: "pydict \<Rightarrow> phase_assignment result" where
  "parse_phase data =
     bind_r (bind_r (required_identifier data ''phase_type'') (PhaseType \<circ> PStr)) (\<lambda>ty.
     bind_r (required_identifier data ''persona_id'') (\<lambda>pid.
     bind_r (required_identifier_sequence data ''input_artifacts'' True) (\<lambda>ins.
     bind_r (required_identifier_sequence data ''output_artifacts'' True) (\<lambda>outs.
     bind_r (required_identifier_sequence data ''validation_profiles'' True) (\<lambda>vals.
     Inr \<lparr>pa_phase_type = ty, pa_persona_id = pid, pa_input_artifacts = ins,
          pa_output_artifacts = outs, pa_validation_profiles = vals,
          pa_auto_approve_low_risk_plan =
            truthy (get_default data ''auto_approve_low_risk_plan'' (PBool True))\<rparr>)))))"

definition parse_handoff :: "pydict \<Rightarrow> artifact_handoff result" where
  "parse_handoff data =
     bind_r (bind_r (required_identifier data ''source_phase'') (PhaseType \<circ> PStr)) (\<lambda>src.
     bind_r (bind_r (required_identifier data ''destination_phase'') (PhaseType \<circ> PStr)) (\<lambda>dst.
     bind_r (required_identifier data ''artifact_type'') (\<lambda>ty.
     bind_r (required_identifier data ''owner_persona_id'') (\<lambda>own.
     Inr \<lparr>ah_source_phase = src, ah_destination_phase = dst, ah_artifact_type = ty,
          ah_owner_persona_id = own,
          ah_required = truthy (get_default data ''required'' (PBool True))\<rparr>))))"

definition parse_review :: "pydict \<Rightarrow> review_assignment result" where
  "parse_review data =
     bind_r (required_identifier data ''reviewer_persona_id'') (\<lambda>rev.
     bind_r (required_identifier_sequence data ''artifact_types'' False) (\<lambda>tys.
     bind_r (required_identifier_sequence data ''blocking_severities'' True) (\<lambda>sevs.
     Inr \<lparr>ra_reviewer_persona_id = rev, ra_artifact_types = tys,
          ra_independent = truthy (get_default data ''independent'' (PBool True)),
          ra_blocking_severities = (if sevs = [] then [''blocking''] else sevs)\<rparr>)))"

section \<open>Validators of the parts\<close>

definition valid_budget :: "pyval \<Rightarrow> bool" where
  "valid_budget v = (case v of PNone \<Rightarrow> True | PInt i \<Rightarrow> 0 < i | _ \<Rightarrow> False)"

definition validate_persona ::
    "string option \<Rightarrow> nat \<Rightarrow> pydict \<Rightarrow> persona_definition option checked" where
  "validate_persona src index data =
     (let path = indexed ''personas'' index;
          unknown = validate_unknown_keys src data [''persona_id'', ''persona_type'', ''model_profile'',
            ''prompt_catalogs'', ''process_references'', ''step_budget''] ''persona'' path;
          (pid, i1) = validate_identifier src (get_item data ''persona_id'') ''persona_id'' path;
          (ty, i2) = validate_enum persona_value persona_members src (get_item data ''persona_type'') ''persona_type'' path;
          (model, i3) = validate_identifier src (get_item data ''model_profile'') ''model_profile'' path;
          (cats, i4) = validate_identifier_sequence src data ''prompt_catalogs'' path False;
          (procs, i5) = validate_identifier_sequence src data ''process_references'' path False;
          budget = get_item data ''step_budget'';
          i6 = issue_unless (valid_budget budget)
            (make_issue src ''invalid_step_budget'' ''step_budget must be a positive integer.''
              (path @ ''.step_budget''))
      in (case (pid, ty, model) of
            (Some p, Some t, Some m) \<Rightarrow>
              Some \<lparr>pd_persona_id = p, pd_persona_type = t, pd_model_profile = m, pd_prompt_catalogs = cats,
                    pd_process_references = procs,
                    pd_step_budget = (case budget of PInt n \<Rightarrow> Some n | _ \<Rightarrow> None)\<rparr>
          | _ \<Rightarrow> None,
          unknown @ i1 @ i2 @ i3 @ i4 @ i5 @ i6))"

fun as_bool :: "pyval \<Rightarrow> bool option" where
  "as_bool (PBool b) = Some b"
| "as_bool _ = None"

definition phase_persona_issues ::
    "string option \<Rightarrow> string \<Rightarrow> (string \<times> persona_definition) list \<Rightarrow> phase_type option \<Rightarrow> string option \<Rightarrow>
     profile_issue list" where
  "phase_persona_issues src path personas ty pid =
     (case pid of
        None \<Rightarrow> []
      | Some p \<Rightarrow>
          (case map_of personas p of
             None \<Rightarrow> [make_issue src ''unknown_persona'' (''Phase references unknown persona '' @ py_repr p @ ''.'')
                        (path @ ''.persona_id'')]
           | Some persona \<Rightarrow>
               (case ty of
                  None \<Rightarrow> []
                | Some t \<Rightarrow> issue_unless (pd_persona_type persona \<in> set (expected_phase_persona_types t))
                    (make_issue src ''invalid_phase_persona''
                      (''Phase '' @ py_repr (phase_value t) @ '' requires a persona of type '' @
                       py_join '', '' (sort (map persona_value (expected_phase_persona_types t))) @ ''.'')
                      (path @ ''.persona_id'')))))"

definition validate_phase ::
    "string option \<Rightarrow> nat \<Rightarrow> (string \<times> persona_definition) list \<Rightarrow> pydict \<Rightarrow> phase_assignment option checked" where
  "validate_phase src index personas data =
     (let path = indexed ''phases'' index;
          unknown = validate_unknown_keys src data [''phase_type'', ''persona_id'', ''input_artifacts'',
            ''output_artifacts'', ''validation_profiles'', ''auto_approve_low_risk_plan''] ''phase assignment'' path;
          (ty, i1) = validate_enum phase_value phase_members src (get_item data ''phase_type'') ''phase_type'' path;
          (pid, i2) = validate_identifier src (get_item data ''persona_id'') ''persona_id'' path;
          (ins, i3) = validate_artifact_sequence src data ''input_artifacts'' path False;
          (outs, i4) = validate_artifact_sequence src data ''output_artifacts'' path False;
          (vals, i5) = validate_identifier_sequence src data ''validation_profiles'' path False;
          auto = as_bool (get_default data ''auto_approve_low_risk_plan'' (PBool True));
          i6 = issue_unless (auto \<noteq> None)
            (make_issue src ''invalid_policy_value'' ''auto_approve_low_risk_plan must be a boolean.''
              (path @ ''.auto_approve_low_risk_plan''));
          i7 = phase_persona_issues src path personas ty pid
      in (case (ty, pid) of
            (Some t, Some p) \<Rightarrow>
              Some \<lparr>pa_phase_type = t, pa_persona_id = p, pa_input_artifacts = ins, pa_output_artifacts = outs,
                    pa_validation_profiles = vals,
                    pa_auto_approve_low_risk_plan = (case auto of Some b \<Rightarrow> b | None \<Rightarrow> True)\<rparr>
          | _ \<Rightarrow> None,
          unknown @ i1 @ i2 @ i3 @ i4 @ i5 @ i6 @ i7))"

definition handoff_topology_issues ::
    "string option \<Rightarrow> string \<Rightarrow> (phase_type \<times> phase_assignment) list \<Rightarrow> phase_type \<Rightarrow> phase_type \<Rightarrow> string \<Rightarrow>
     profile_issue list" where
  "handoff_topology_issues src path phases source dest artifact =
     (case map_of phases source of
        Some a \<Rightarrow> issue_unless (artifact \<in> set (pa_output_artifacts a))
          (make_issue src ''handoff_missing_source_output''
            (''Artifact '' @ py_repr artifact @ '' is not declared as a source phase output.'') path)
      | None \<Rightarrow> [])
     @ (case map_of phases dest of
        Some a \<Rightarrow> issue_unless (artifact \<in> set (pa_input_artifacts a))
          (make_issue src ''handoff_missing_destination_input''
            (''Artifact '' @ py_repr artifact @ '' is not declared as a destination phase input.'') path)
      | None \<Rightarrow> [])"

definition validate_profile_handoff ::
    "string option \<Rightarrow> nat \<Rightarrow> (string \<times> persona_definition) list \<Rightarrow> (phase_type \<times> phase_assignment) list \<Rightarrow>
     pydict \<Rightarrow> profile_issue list" where
  "validate_profile_handoff src index personas phases data =
     (let path = indexed ''artifact_handoffs'' index;
          unknown = validate_unknown_keys src data [''source_phase'', ''destination_phase'', ''artifact_type'',
            ''owner_persona_id'', ''required''] ''artifact handoff'' path;
          (source, i1) = validate_enum phase_value phase_members src (get_item data ''source_phase'') ''source_phase'' path;
          (dest, i2) = validate_enum phase_value phase_members src (get_item data ''destination_phase'') ''destination_phase'' path;
          (artifact, i3) = validate_artifact src (get_item data ''artifact_type'') ''artifact_type'' path;
          (owner, i4) = validate_identifier src (get_item data ''owner_persona_id'') ''owner_persona_id'' path;
          i5 = (case owner of
            Some ow \<Rightarrow> issue_unless (map_of personas ow \<noteq> None)
              (make_issue src ''unknown_persona'' (''Handoff references unknown persona '' @ py_repr ow @ ''.'')
                (path @ ''.owner_persona_id''))
          | None \<Rightarrow> []);
          i6 = (case source of
            Some p \<Rightarrow> issue_unless (map_of phases p \<noteq> None)
              (make_issue src ''unknown_phase'' (''Handoff references unknown source phase '' @ py_repr (phase_value p) @ ''.'')
                (path @ ''.source_phase''))
          | None \<Rightarrow> []);
          i7 = (case dest of
            Some p \<Rightarrow> issue_unless (map_of phases p \<noteq> None)
              (make_issue src ''unknown_phase'' (''Handoff references unknown destination phase '' @ py_repr (phase_value p) @ ''.'')
                (path @ ''.destination_phase''))
          | None \<Rightarrow> []);
          i8 = issue_unless (as_bool (get_default data ''required'' (PBool True)) \<noteq> None)
            (make_issue src ''invalid_required'' ''required must be a boolean.'' (path @ ''.required''));
          i9 = issue_unless (\<not> (source \<noteq> None \<and> dest \<noteq> None \<and> source = dest))
            (make_issue src ''self_handoff'' ''An artifact handoff must cross a phase boundary.'' path);
          i10 = (case (artifact, source, dest) of
            (Some a, Some p, Some q) \<Rightarrow> handoff_topology_issues src path phases p q a
          | _ \<Rightarrow> [])
      in unknown @ i1 @ i2 @ i3 @ i4 @ i5 @ i6 @ i7 @ i8 @ i9 @ i10)"

definition validate_review ::
    "string option \<Rightarrow> nat \<Rightarrow> (string \<times> persona_definition) list \<Rightarrow> pydict \<Rightarrow> profile_issue list" where
  "validate_review src index personas data =
     (let path = indexed ''reviews'' index;
          unknown = validate_unknown_keys src data [''reviewer_persona_id'', ''artifact_types'', ''independent'',
            ''blocking_severities''] ''review assignment'' path;
          (reviewer, i1) = validate_identifier src (get_item data ''reviewer_persona_id'') ''reviewer_persona_id'' path;
          (arts, i2) = validate_artifact_sequence src data ''artifact_types'' path True;
          i3 = issue_unless (as_bool (get_default data ''independent'' (PBool True)) \<noteq> None)
            (make_issue src ''invalid_independent'' ''independent must be a boolean.'' (path @ ''.independent''));
          (sevs, i4) = validate_identifier_sequence src data ''blocking_severities'' path False;
          i5 = (case reviewer of
            None \<Rightarrow> []
          | Some r \<Rightarrow> (case map_of personas r of
              None \<Rightarrow> [make_issue src ''unknown_persona'' (''Review references unknown persona '' @ py_repr r @ ''.'')
                         (path @ ''.reviewer_persona_id'')]
            | Some persona \<Rightarrow> issue_unless (pd_persona_type persona \<in> {SPECIFICATION_REVIEWER, CODE_REVIEWER})
                (make_issue src ''invalid_reviewer_persona'' ''Review assignments must use a reviewer persona.''
                  (path @ ''.reviewer_persona_id''))));
          i6 = issue_unless (arts \<noteq> [])
            (make_issue src ''missing_review_artifacts'' ''Review assignment must name at least one artifact type.''
              (path @ ''.artifact_types''))
      in unknown @ i1 @ i2 @ i3 @ i4 @ i5 @ i6)"

section \<open>The whole profile\<close>

fun validate_personas ::
    "string option \<Rightarrow> nat \<Rightarrow> pydict list \<Rightarrow> (string \<times> persona_definition) list \<Rightarrow>
     (string \<times> persona_definition) list checked" where
  "validate_personas src index [] personas = (personas, [])"
| "validate_personas src index (raw # raws) personas =
     (let (parsed, i1) = validate_persona src index raw;
          i2 = (case parsed of
            Some p \<Rightarrow> issue_unless (map_of personas (pd_persona_id p) = None)
              (make_issue src ''duplicate_persona_id'' (''Persona id '' @ py_repr (pd_persona_id p) @ '' must be unique.'')
                (indexed ''personas'' index @ ''.persona_id''))
          | None \<Rightarrow> []);
          personas1 = (case parsed of Some p \<Rightarrow> AList.update (pd_persona_id p) p personas | None \<Rightarrow> personas);
          (personas2, rest) = validate_personas src (index + 1) raws personas1
      in (personas2, i1 @ i2 @ rest))"

fun validate_phases ::
    "string option \<Rightarrow> nat \<Rightarrow> (string \<times> persona_definition) list \<Rightarrow> pydict list \<Rightarrow>
     (phase_type \<times> phase_assignment) list \<Rightarrow> (phase_type \<times> phase_assignment) list checked" where
  "validate_phases src index personas [] phases = (phases, [])"
| "validate_phases src index personas (raw # raws) phases =
     (let (parsed, i1) = validate_phase src index personas raw;
          i2 = (case parsed of
            Some p \<Rightarrow> issue_unless (map_of phases (pa_phase_type p) = None)
              (make_issue src ''duplicate_phase_type''
                (''Phase '' @ py_repr (phase_value (pa_phase_type p)) @ '' must be assigned once.'')
                (indexed ''phases'' index @ ''.phase_type''))
          | None \<Rightarrow> []);
          phases1 = (case parsed of Some p \<Rightarrow> AList.update (pa_phase_type p) p phases | None \<Rightarrow> phases);
          (phases2, rest) = validate_phases src (index + 1) personas raws phases1
      in (phases2, i1 @ i2 @ rest))"

definition missing_phase_issues :: "string option \<Rightarrow> (phase_type \<times> phase_assignment) list \<Rightarrow> profile_issue list" where
  "missing_phase_issues src phases =
     (let missing = map phase_value (filter (\<lambda>p. map_of phases p = None) phase_members)
      in issue_unless (missing = []) (make_issue src ''missing_phase_assignments''
           (''Delivery profile must assign every supported phase: '' @ py_join '', '' missing @ ''.'') ''phases''))"

definition document_report :: "string option \<Rightarrow> pyval \<Rightarrow> profile_report" where
  "document_report src loaded =
     (case loaded of
        PDict data \<Rightarrow>
          (let unknown = validate_unknown_keys src data [''schema_version'', ''profile_id'', ''personas'', ''phases'',
                 ''artifact_handoffs'', ''reviews''] ''delivery profile'' '''';
               version = issue_unless (py_eq (get_item data ''schema_version'') (PStr DELIVERY_PROFILE_SCHEMA_VERSION))
                 (make_issue src ''unsupported_schema_version''
                   (''schema_version must be '' @ py_repr DELIVERY_PROFILE_SCHEMA_VERSION @ ''.'') ''schema_version'');
               (pid, i1) = validate_identifier src (get_item data ''profile_id'') ''profile_id'' '''';
               (raw_personas, i2) = validate_mapping_sequence src data ''personas'';
               (raw_phases, i3) = validate_mapping_sequence src data ''phases'';
               (raw_handoffs, i4) = validate_optional_mapping_sequence src data ''artifact_handoffs'';
               (raw_reviews, i5) = validate_optional_mapping_sequence src data ''reviews'';
               (personas, i6) = validate_personas src 0 raw_personas [];
               (phases, i7) = validate_phases src 0 personas raw_phases [];
               i8 = missing_phase_issues src phases;
               i9 = concat (map (\<lambda>(i, d). validate_profile_handoff src i personas phases d) (List.enumerate 0 raw_handoffs));
               i10 = concat (map (\<lambda>(i, d). validate_review src i personas d) (List.enumerate 0 raw_reviews));
               issues = unknown @ version @ i1 @ i2 @ i3 @ i4 @ i5 @ i6 @ i7 @ i8 @ i9 @ i10
           in \<lparr>validation_successful = (issues = []), report_profile_id = pid, report_issues = issues\<rparr>)
      | _ \<Rightarrow> \<lparr>validation_successful = False, report_profile_id = None, report_issues =
          [\<lparr>issue_code = ''invalid_root_type'', issue_message = ''Delivery profile YAML must decode to an object.'',
            issue_path = src\<rparr>]\<rparr>)"

definition build_delivery_profile_validation_report ::
    "(string \<Rightarrow> string + pyval) \<Rightarrow> string \<Rightarrow> string option \<Rightarrow> profile_report" where
  "build_delivery_profile_validation_report yaml_load content src =
     (case yaml_load content of
        Inl err \<Rightarrow> \<lparr>validation_successful = False, report_profile_id = None, report_issues =
          [\<lparr>issue_code = ''invalid_yaml'',
            issue_message = ''Could not parse delivery profile YAML: '' @ err, issue_path = src\<rparr>]\<rparr>
      | Inr loaded \<Rightarrow> document_report src loaded)"

definition invalid_profile :: "string \<Rightarrow> profile_report \<Rightarrow> exc" where
  "invalid_profile what r = ValueError (what @ '': '' @ py_join ''; '' (map issue_message (report_issues r)))"

definition profile_from_data ::
    "(string \<Rightarrow> string + pyval) \<Rightarrow> (pyval \<Rightarrow> string) \<Rightarrow> pydict \<Rightarrow> delivery_profile result" where
  "profile_from_data yaml_load yaml_dump data =
     (let validation = build_delivery_profile_validation_report yaml_load (yaml_dump (PDict data)) None in
      bind_r (guard_r (validation_successful validation) (invalid_profile ''Invalid delivery profile'' validation)) (\<lambda>_.
      bind_r (bind_r (required_mapping_sequence (get_item data ''personas'') ''personas'') (mapM_r parse_persona)) (\<lambda>personas.
      bind_r (bind_r (required_mapping_sequence (get_item data ''phases'') ''phases'') (mapM_r parse_phase)) (\<lambda>phases.
      bind_r (bind_r (optional_mapping_sequence data ''artifact_handoffs'') (mapM_r parse_handoff)) (\<lambda>handoffs.
      bind_r (bind_r (optional_mapping_sequence data ''reviews'') (mapM_r parse_review)) (\<lambda>reviews.
      bind_r (required_identifier data ''profile_id'') (\<lambda>pid.
      Inr \<lparr>dp_schema_version = DELIVERY_PROFILE_SCHEMA_VERSION, dp_profile_id = pid, dp_personas = personas,
           dp_phases = phases, dp_artifact_handoffs = handoffs, dp_reviews = reviews\<rparr>)))))))"

definition profile_from_yaml ::
    "(string \<Rightarrow> string + pyval) \<Rightarrow> (pyval \<Rightarrow> string) \<Rightarrow> string \<Rightarrow> delivery_profile result" where
  "profile_from_yaml yaml_load yaml_dump content =
     (case yaml_load content of
        Inl err \<Rightarrow> Inl MalformedDocument
      | Inr (PDict data) \<Rightarrow> profile_from_data yaml_load yaml_dump data
      | Inr _ \<Rightarrow> Inl (ValueError ''Delivery profile YAML must decode to an object.''))"

text \<open>
  \<^verbatim>\<open>load_delivery_profile\<close>: the file is read twice, for the profile and for the report.
\<close>

definition load_delivery_profile ::
    "(string \<Rightarrow> string + pyval) \<Rightarrow> (pyval \<Rightarrow> string) \<Rightarrow> string \<Rightarrow> string \<Rightarrow> delivery_profile result" where
  "load_delivery_profile yaml_load yaml_dump path content =
     bind_r (profile_from_yaml yaml_load yaml_dump content) (\<lambda>profile.
     let report = build_delivery_profile_validation_report yaml_load content (Some path) in
     bind_r (guard_r (validation_successful report)
       (invalid_profile (''Invalid delivery profile '' @ path) report)) (\<lambda>_. Inr profile))"

section \<open>A clean report means the parser succeeds\<close>

lemma issue_unless_Nil [simp]: "issue_unless b i = [] \<longleftrightarrow> b"
  by (simp add: issue_unless_def)

lemma identifier_value_Some: "identifier_value v = Some s \<longleftrightarrow> v = PStr s \<and> is_identifier s"
  by (cases v) auto

lemma required_identifier_Inr [simp]:
  "required_identifier data key = Inr s \<longleftrightarrow> identifier_value (get_item data key) = Some s"
  by (auto simp: required_identifier_def split: option.splits)

lemma enum_values_identifiers [simp]: "is_identifier (phase_value ph)" "is_identifier (persona_value pt)"
proof -
  have "list_all (\<lambda>ph. is_identifier (phase_value ph)) phase_members" by code_simp
  then show "is_identifier (phase_value ph)"
    using phase_enum.members_UNIV by (auto simp: list_all_iff)
  have "list_all (\<lambda>pt. is_identifier (persona_value pt)) persona_members" by code_simp
  then show "is_identifier (persona_value pt)"
    using persona_enum.members_UNIV by (auto simp: list_all_iff)
qed

lemma validate_phase_enum:
  "validate_enum phase_value phase_members src v name path = (r, []) \<longleftrightarrow>
    (\<exists>t. r = Some t \<and> v = PStr (phase_value t))"
  by (cases v) (auto simp: validate_enum_def phase_enum.find_iff issue_unless_def split: if_splits)

lemma validate_persona_enum:
  "validate_enum persona_value persona_members src v name path = (r, []) \<longleftrightarrow>
    (\<exists>t. r = Some t \<and> v = PStr (persona_value t))"
  by (cases v) (auto simp: validate_enum_def persona_enum.find_iff issue_unless_def split: if_splits)

lemma validate_identifier_Nil:
  "validate_identifier src v name path = (r, []) \<longleftrightarrow> (\<exists>s. r = Some s \<and> identifier_value v = Some s)"
  by (auto simp: validate_identifier_def)

lemma map_filter_all: "\<forall>v \<in> set items. f v \<noteq> None \<Longrightarrow> List.map_filter f items = map (the \<circ> f) items"
  by (induction items) (auto simp: List.map_filter_simps)

lemma ball_enumerate:
  "(\<forall>x \<in> set (List.enumerate n xs). (case x of (i, v) \<Rightarrow> g i v) = []) \<longleftrightarrow>
    (\<forall>i < length xs. g (n + i) (xs ! i) = [])"
  by (auto simp: all_set_conv_all_nth nth_enumerate_eq)

lemma concat_enumerate_Nil:
  "(\<forall>x \<in> set (List.enumerate n xs). (case x of (i, v) \<Rightarrow> issue_unless (P v) (f i v)) = []) \<longleftrightarrow>
    (\<forall>v \<in> set xs. P v)"
  unfolding ball_enumerate by (simp add: all_set_conv_all_nth)

lemma validate_identifier_sequence_Nil:
  assumes "validate_identifier_sequence src data key path required = (vs, [])"
  shows "required_identifier_sequence data key (\<not> required) = Inr vs \<and> distinct vs"
proof (cases "get_item data key")
  case (PList items)
  with assms have ok: "\<forall>v \<in> set items. identifier_value v \<noteq> None"
    and vs: "vs = List.map_filter identifier_value items" "length vs = card (set vs)"
    by (auto simp: validate_identifier_sequence_def Let_def concat_enumerate_Nil)
  from ok have "the (identifier_value v) = the_str v" if "v \<in> set items" for v
    using that by (cases v) (auto split: if_splits)
  then have "vs = map the_str items"
    using vs(1) map_filter_all [OF ok] by auto
  with PList ok vs(2) show ?thesis
    by (auto simp: required_identifier_sequence_def card_set_length [symmetric])
qed (use assms in \<open>auto simp: validate_identifier_sequence_def required_identifier_sequence_def split: if_splits\<close>)

lemma validate_artifact_sequence_Nil:
  assumes "validate_artifact_sequence src data key path required = (vs, [])"
  shows "required_identifier_sequence data key (\<not> required) = Inr vs \<and> set vs \<subseteq> set SUPPORTED_ARTIFACT_TYPES"
proof -
  obtain ws iss where w: "validate_identifier_sequence src data key path required = (ws, iss)" by force
  with assms have "iss = []" "\<forall>v \<in> set ws. v \<in> set SUPPORTED_ARTIFACT_TYPES"
    "vs = filter (\<lambda>v. v \<in> set SUPPORTED_ARTIFACT_TYPES) ws"
    by (auto simp: validate_artifact_sequence_def concat_enumerate_Nil)
  with w validate_identifier_sequence_Nil show ?thesis
    by (auto simp: filter_id_conv [THEN iffD2])
qed

lemma budget_parsed: "valid_budget (get_item data key) \<Longrightarrow>
    optional_positive_int data key = Inr (case get_item data key of PInt n \<Rightarrow> Some n | _ \<Rightarrow> None)"
  by (auto simp: valid_budget_def optional_positive_int_def split: pyval.splits)

lemma validate_persona_Nil:
  assumes "validate_persona src i data = (r, [])"
  shows "\<exists>p. r = Some p \<and> parse_persona data = Inr p"
proof -
  let ?path = "indexed ''personas'' i"
  obtain pid i1 ty i2 model i3 cats i4 procs i5 where
    v: "validate_identifier src (get_item data ''persona_id'') ''persona_id'' ?path = (pid, i1)"
      "validate_enum persona_value persona_members src (get_item data ''persona_type'') ''persona_type'' ?path = (ty, i2)"
      "validate_identifier src (get_item data ''model_profile'') ''model_profile'' ?path = (model, i3)"
      "validate_identifier_sequence src data ''prompt_catalogs'' ?path False = (cats, i4)"
      "validate_identifier_sequence src data ''process_references'' ?path False = (procs, i5)"
    by (metis surj_pair)
  from assms have "i1 = [] \<and> i2 = [] \<and> i3 = [] \<and> i4 = [] \<and> i5 = [] \<and> valid_budget (get_item data ''step_budget'')"
    and r: "r = (case (pid, ty, model) of (Some p, Some t, Some m) \<Rightarrow>
        Some \<lparr>pd_persona_id = p, pd_persona_type = t, pd_model_profile = m, pd_prompt_catalogs = cats,
              pd_process_references = procs,
              pd_step_budget = (case get_item data ''step_budget'' of PInt n \<Rightarrow> Some n | _ \<Rightarrow> None)\<rparr>
      | _ \<Rightarrow> None)"
    by (simp_all add: validate_persona_def Let_def v)
  with v show ?thesis
    by (auto simp: parse_persona_def validate_identifier_Nil validate_persona_enum identifier_value_Some
        budget_parsed dest!: validate_identifier_sequence_Nil)
qed


lemma as_bool_truthy: "as_bool v = Some b \<Longrightarrow> truthy v = b"
  by (cases v) auto

lemma validate_phase_Nil:
  assumes "validate_phase src i personas data = (r, [])"
  shows "\<exists>p persona. r = Some p \<and> parse_phase data = Inr p \<and>
    map_of personas (pa_persona_id p) = Some persona \<and>
    pd_persona_type persona \<in> set (expected_phase_persona_types (pa_phase_type p))"
proof -
  let ?path = "indexed ''phases'' i"
  let ?auto = "as_bool (get_default data ''auto_approve_low_risk_plan'' (PBool True))"
  obtain ty i1 pid i2 ins i3 outs i4 vals i5 where
    v: "validate_enum phase_value phase_members src (get_item data ''phase_type'') ''phase_type'' ?path = (ty, i1)"
      "validate_identifier src (get_item data ''persona_id'') ''persona_id'' ?path = (pid, i2)"
      "validate_artifact_sequence src data ''input_artifacts'' ?path False = (ins, i3)"
      "validate_artifact_sequence src data ''output_artifacts'' ?path False = (outs, i4)"
      "validate_identifier_sequence src data ''validation_profiles'' ?path False = (vals, i5)"
    by (metis surj_pair)
  from assms have "i1 = [] \<and> i2 = [] \<and> i3 = [] \<and> i4 = [] \<and> i5 = [] \<and> (\<exists>b. ?auto = Some b) \<and>
      phase_persona_issues src ?path personas ty pid = []"
    and r: "r = (case (ty, pid) of (Some t, Some p) \<Rightarrow>
        Some \<lparr>pa_phase_type = t, pa_persona_id = p, pa_input_artifacts = ins, pa_output_artifacts = outs,
              pa_validation_profiles = vals,
              pa_auto_approve_low_risk_plan = (case ?auto of Some b \<Rightarrow> b | None \<Rightarrow> True)\<rparr>
      | _ \<Rightarrow> None)"
    by (simp_all add: validate_phase_def Let_def v)
  with v show ?thesis
    by (auto simp: parse_phase_def validate_identifier_Nil validate_phase_enum identifier_value_Some
        as_bool_truthy phase_persona_issues_def split: option.splits
        dest!: validate_identifier_sequence_Nil validate_artifact_sequence_Nil)
qed

definition handoff_ok ::
    "(string \<times> persona_definition) list \<Rightarrow> (phase_type \<times> phase_assignment) list \<Rightarrow> artifact_handoff \<Rightarrow> bool" where
  "handoff_ok personas phases h \<longleftrightarrow>
     ah_source_phase h \<noteq> ah_destination_phase h \<and>
     ah_artifact_type h \<in> set SUPPORTED_ARTIFACT_TYPES \<and>
     map_of personas (ah_owner_persona_id h) \<noteq> None \<and>
     (case map_of phases (ah_source_phase h) of
        Some a \<Rightarrow> ah_artifact_type h \<in> set (pa_output_artifacts a) | None \<Rightarrow> False) \<and>
     (case map_of phases (ah_destination_phase h) of
        Some a \<Rightarrow> ah_artifact_type h \<in> set (pa_input_artifacts a) | None \<Rightarrow> False)"

definition review_ok :: "(string \<times> persona_definition) list \<Rightarrow> review_assignment \<Rightarrow> bool" where
  "review_ok personas r \<longleftrightarrow>
     ra_artifact_types r \<noteq> [] \<and> set (ra_artifact_types r) \<subseteq> set SUPPORTED_ARTIFACT_TYPES \<and>
     (case map_of personas (ra_reviewer_persona_id r) of
        Some p \<Rightarrow> pd_persona_type p \<in> {SPECIFICATION_REVIEWER, CODE_REVIEWER} | None \<Rightarrow> False)"

lemma validate_artifact_Nil:
  "validate_artifact src v name path = (r, []) \<longleftrightarrow>
    (\<exists>s. r = Some s \<and> identifier_value v = Some s \<and> s \<in> set SUPPORTED_ARTIFACT_TYPES)"
  by (cases "identifier_value v") (auto simp: validate_artifact_def validate_identifier_def)

lemma handoff_topology_Nil:
  assumes "handoff_topology_issues src path phases p q a = []"
    and "map_of phases p \<noteq> None" "map_of phases q \<noteq> None"
  shows "(case map_of phases p of Some x \<Rightarrow> a \<in> set (pa_output_artifacts x) | None \<Rightarrow> False) \<and>
    (case map_of phases q of Some x \<Rightarrow> a \<in> set (pa_input_artifacts x) | None \<Rightarrow> False)"
  using assms by (auto simp: handoff_topology_issues_def)

lemma validate_handoff_Nil:
  assumes "validate_profile_handoff src i personas phases data = []"
  shows "\<exists>h. parse_handoff data = Inr h \<and> handoff_ok personas phases h"
proof -
  let ?path = "indexed ''artifact_handoffs'' i"
  obtain s i1 d i2 a i3 w i4 where
    v: "validate_enum phase_value phase_members src (get_item data ''source_phase'') ''source_phase'' ?path = (s, i1)"
      "validate_enum phase_value phase_members src (get_item data ''destination_phase'') ''destination_phase'' ?path = (d, i2)"
      "validate_artifact src (get_item data ''artifact_type'') ''artifact_type'' ?path = (a, i3)"
      "validate_identifier src (get_item data ''owner_persona_id'') ''owner_persona_id'' ?path = (w, i4)"
    by (metis surj_pair)
  note assms [unfolded validate_profile_handoff_def Let_def v split_conv append_is_Nil_conv]
  then have e: "i1 = [] \<and> i2 = [] \<and> i3 = [] \<and> i4 = []" and
    rest: "(case w of Some ow \<Rightarrow> issue_unless (map_of personas ow \<noteq> None)
              (make_issue src ''unknown_persona'' (''Handoff references unknown persona '' @ py_repr ow @ ''.'')
                (?path @ ''.owner_persona_id'')) | None \<Rightarrow> []) = []"
    and rest2: "\<And>p. s = Some p \<Longrightarrow> map_of phases p \<noteq> None" "\<And>p. d = Some p \<Longrightarrow> map_of phases p \<noteq> None"
      "\<not> (s \<noteq> None \<and> d \<noteq> None \<and> s = d)"
      "(case (a, s, d) of (Some a, Some p, Some q) \<Rightarrow> handoff_topology_issues src ?path phases p q a | _ \<Rightarrow> []) = []"
    by (auto split: option.splits)
  from e v obtain p q x y where w: "s = Some p" "d = Some q" "a = Some x" "w = Some y"
      "get_item data ''source_phase'' = PStr (phase_value p)"
      "get_item data ''destination_phase'' = PStr (phase_value q)"
      "identifier_value (get_item data ''artifact_type'') = Some x" "x \<in> set SUPPORTED_ARTIFACT_TYPES"
      "identifier_value (get_item data ''owner_persona_id'') = Some y"
    by (auto simp: validate_identifier_Nil validate_phase_enum validate_artifact_Nil)
  let ?h = "\<lparr>ah_source_phase = p, ah_destination_phase = q, ah_artifact_type = x, ah_owner_persona_id = y,
    ah_required = truthy (get_default data ''required'' (PBool True))\<rparr>"
  from w have "parse_handoff data = Inr ?h"
    by (simp add: parse_handoff_def required_identifier_def)
  moreover have "handoff_ok personas phases ?h"
    using w rest rest2 handoff_topology_Nil [of src ?path phases p q x] by (auto simp: handoff_ok_def)
  ultimately show ?thesis by blast
qed

lemma validate_review_Nil:
  assumes "validate_review src i personas data = []"
  shows "\<exists>r. parse_review data = Inr r \<and> review_ok personas r"
proof -
  let ?path = "indexed ''reviews'' i"
  obtain rv i1 arts i2 sevs i4 where
    v: "validate_identifier src (get_item data ''reviewer_persona_id'') ''reviewer_persona_id'' ?path = (rv, i1)"
      "validate_artifact_sequence src data ''artifact_types'' ?path True = (arts, i2)"
      "validate_identifier_sequence src data ''blocking_severities'' ?path False = (sevs, i4)"
    by (metis surj_pair)
  note assms [unfolded validate_review_def Let_def v split_conv append_is_Nil_conv]
  with v obtain x p where w: "identifier_value (get_item data ''reviewer_persona_id'') = Some x"
      "required_identifier_sequence data ''artifact_types'' False = Inr arts"
      "required_identifier_sequence data ''blocking_severities'' True = Inr sevs"
      "arts \<noteq> []" "set arts \<subseteq> set SUPPORTED_ARTIFACT_TYPES"
      "map_of personas x = Some p" "pd_persona_type p \<in> {SPECIFICATION_REVIEWER, CODE_REVIEWER}"
    by (auto simp: validate_identifier_Nil
        split: option.splits dest!: validate_identifier_sequence_Nil validate_artifact_sequence_Nil)
  let ?r = "\<lparr>ra_reviewer_persona_id = x, ra_artifact_types = arts,
    ra_independent = truthy (get_default data ''independent'' (PBool True)),
    ra_blocking_severities = (if sevs = [] then [''blocking''] else sevs)\<rparr>"
  from w have "parse_review data = Inr ?r"
    by (simp add: parse_review_def required_identifier_def)
  moreover have "review_ok personas ?r"
    using w by (auto simp: review_ok_def)
  ultimately show ?thesis by blast
qed


lemma update_fresh: "map_of ps k = None \<Longrightarrow> AList.update k v ps = ps @ [(k, v)]"
  by (induction ps) auto

lemma validate_personas_Nil:
  assumes "validate_personas src i raws ps = (qs, [])" and "distinct (map fst ps)"
  shows "\<exists>xs. mapM_r parse_persona raws = Inr xs \<and> qs = ps @ map (\<lambda>p. (pd_persona_id p, p)) xs \<and> distinct (map fst qs)"
  using assms
proof (induction raws arbitrary: i ps)
  case (Cons raw raws)
  obtain r i1 where v: "validate_persona src i raw = (r, i1)" by force
  with Cons.prems(1) have "i1 = []" by (auto simp: Let_def split: prod.splits)
  with v validate_persona_Nil obtain p where p: "r = Some p" "parse_persona raw = Inr p" by blast
  with Cons.prems v have fresh: "map_of ps (pd_persona_id p) = None"
    and rest: "validate_personas src (i + 1) raws (ps @ [(pd_persona_id p, p)]) = (qs, [])"
    by (auto simp: Let_def update_fresh split: prod.splits)
  with Cons.prems(2) have "distinct (map fst (ps @ [(pd_persona_id p, p)]))"
    by (auto simp: map_of_eq_None_iff)
  from Cons.IH [OF rest this] p show ?case by auto
qed simp

definition phase_ok :: "(string \<times> persona_definition) list \<Rightarrow> phase_assignment \<Rightarrow> bool" where
  "phase_ok personas a \<longleftrightarrow>
     (case map_of personas (pa_persona_id a) of
        Some p \<Rightarrow> pd_persona_type p \<in> set (expected_phase_persona_types (pa_phase_type a)) | None \<Rightarrow> False)"

lemma validate_phases_Nil:
  assumes "validate_phases src i personas raws ps = (qs, [])" and "distinct (map fst ps)"
  shows "\<exists>xs. mapM_r parse_phase raws = Inr xs \<and> qs = ps @ map (\<lambda>p. (pa_phase_type p, p)) xs \<and>
    distinct (map fst qs) \<and> list_all (phase_ok personas) xs"
  using assms
proof (induction raws arbitrary: i ps)
  case (Cons raw raws)
  obtain r i1 where v: "validate_phase src i personas raw = (r, i1)" by force
  with Cons.prems(1) have "i1 = []" by (auto simp: Let_def split: prod.splits)
  with v validate_phase_Nil obtain p where p: "r = Some p" "parse_phase raw = Inr p" "phase_ok personas p"
    by (fastforce simp: phase_ok_def)
  with Cons.prems v have fresh: "map_of ps (pa_phase_type p) = None"
    and rest: "validate_phases src (i + 1) personas raws (ps @ [(pa_phase_type p, p)]) = (qs, [])"
    by (auto simp: Let_def update_fresh split: prod.splits)
  with Cons.prems(2) have "distinct (map fst (ps @ [(pa_phase_type p, p)]))"
    by (auto simp: map_of_eq_None_iff)
  from Cons.IH [OF rest this] p show ?case by auto
qed simp

lemma mapM_parse_all:
  assumes "\<And>x. x \<in> set xs \<Longrightarrow> \<exists>y. f x = Inr y \<and> P y"
  shows "\<exists>ys. mapM_r f xs = Inr ys \<and> list_all P ys"
  using assms by (induction xs) fastforce+

lemma missing_phase_Nil: "missing_phase_issues src phases = [] \<longleftrightarrow> (\<forall>t. map_of phases t \<noteq> None)"
  using phase_enum.members_UNIV by (auto simp: missing_phase_issues_def Let_def filter_empty_conv)

lemma validate_mapping_sequence_Nil:
  "validate_mapping_sequence src data key = (raws, []) \<Longrightarrow>
    required_mapping_sequence (get_item data key) key = Inr raws"
  by (cases "get_item data key")
    (auto simp: validate_mapping_sequence_def required_mapping_sequence_def concat_enumerate_Nil list_all_iff
      filter_id_conv [THEN iffD2])

lemma get_default_some: "get_item data key \<noteq> PNone \<Longrightarrow> get_default data key d = get_item data key"
  by (auto simp: get_item_def get_default_def split: option.splits)

lemma validate_optional_mapping_sequence_Nil:
  "validate_optional_mapping_sequence src data key = (raws, []) \<Longrightarrow>
    optional_mapping_sequence data key = Inr raws"
  using validate_mapping_sequence_Nil [of src data key raws]
  by (cases "get_item data key = PNone")
    (auto simp: validate_optional_mapping_sequence_def optional_mapping_sequence_def get_default_some
      required_mapping_sequence_def get_item_def get_default_def split: option.splits pyval.splits)

definition profile_ok :: "delivery_profile \<Rightarrow> bool" where
  "profile_ok d \<longleftrightarrow>
     (let personas = map (\<lambda>p. (pd_persona_id p, p)) (dp_personas d);
          phases = map (\<lambda>p. (pa_phase_type p, p)) (dp_phases d) in
      distinct (map fst personas) \<and> distinct (map fst phases) \<and>
      list_all (\<lambda>t. map_of phases t \<noteq> None) phase_members \<and>
      list_all (phase_ok personas) (dp_phases d) \<and>
      list_all (handoff_ok personas phases) (dp_artifact_handoffs d) \<and>
      list_all (review_ok personas) (dp_reviews d))"


lemma enumerate_Nil_all:
  "concat (map (\<lambda>(i, d). f i d) (List.enumerate n xs)) = [] \<Longrightarrow> x \<in> set xs \<Longrightarrow> \<exists>i. f i x = []"
  unfolding concat_eq_Nil_conv
  by (simp add: ball_enumerate) (metis in_set_conv_nth)

lemma document_report_parses:
  assumes "validation_successful (document_report src (PDict data))"
  shows "\<exists>personas phases handoffs reviews pid.
    bind_r (required_mapping_sequence (get_item data ''personas'') ''personas'') (mapM_r parse_persona) = Inr personas \<and>
    bind_r (required_mapping_sequence (get_item data ''phases'') ''phases'') (mapM_r parse_phase) = Inr phases \<and>
    bind_r (optional_mapping_sequence data ''artifact_handoffs'') (mapM_r parse_handoff) = Inr handoffs \<and>
    bind_r (optional_mapping_sequence data ''reviews'') (mapM_r parse_review) = Inr reviews \<and>
    required_identifier data ''profile_id'' = Inr pid \<and>
    profile_ok \<lparr>dp_schema_version = DELIVERY_PROFILE_SCHEMA_VERSION, dp_profile_id = pid, dp_personas = personas,
      dp_phases = phases, dp_artifact_handoffs = handoffs, dp_reviews = reviews\<rparr>"
proof -
  obtain pid i1 rp i2 rph i3 rh i4 rr i5 personas i6 phases i7 where
    v: "validate_identifier src (get_item data ''profile_id'') ''profile_id'' '''' = (pid, i1)"
      "validate_mapping_sequence src data ''personas'' = (rp, i2)"
      "validate_mapping_sequence src data ''phases'' = (rph, i3)"
      "validate_optional_mapping_sequence src data ''artifact_handoffs'' = (rh, i4)"
      "validate_optional_mapping_sequence src data ''reviews'' = (rr, i5)"
      "validate_personas src 0 rp [] = (personas, i6)"
      "validate_phases src 0 personas rph [] = (phases, i7)"
    by (metis surj_pair)
  from assms have e: "i1 = []" "i2 = []" "i3 = []" "i4 = []" "i5 = []" "i6 = []" "i7 = []"
    and missing: "missing_phase_issues src phases = []"
    and hs: "concat (map (\<lambda>(i, d). validate_profile_handoff src i personas phases d) (List.enumerate 0 rh)) = []"
    and rs: "concat (map (\<lambda>(i, d). validate_review src i personas d) (List.enumerate 0 rr)) = []"
    by (simp_all add: document_report_def Let_def v del: concat_eq_Nil_conv)
  from validate_personas_Nil v(6) e obtain xs where xs: "mapM_r parse_persona rp = Inr xs"
      "personas = map (\<lambda>p. (pd_persona_id p, p)) xs" "distinct (map fst personas)"
    by fastforce
  from validate_phases_Nil v(7) e obtain ys where ys: "mapM_r parse_phase rph = Inr ys"
      "phases = map (\<lambda>p. (pa_phase_type p, p)) ys" "distinct (map fst phases)" "list_all (phase_ok personas) ys"
    by fastforce
  from enumerate_Nil_all [OF hs] validate_handoff_Nil obtain zs where
    zs: "mapM_r parse_handoff rh = Inr zs" "list_all (handoff_ok personas phases) zs"
    using mapM_parse_all [of rh parse_handoff "handoff_ok personas phases"] by blast
  from enumerate_Nil_all [OF rs] validate_review_Nil obtain ws where
    ws: "mapM_r parse_review rr = Inr ws" "list_all (review_ok personas) ws"
    using mapM_parse_all [of rr parse_review "review_ok personas"] by blast
  from v(1) e obtain p where "required_identifier data ''profile_id'' = Inr p"
    by (auto simp: validate_identifier_Nil)
  moreover have "list_all (\<lambda>t. map_of phases t \<noteq> None) phase_members"
    using missing by (auto simp: missing_phase_Nil list_all_iff)
  ultimately show ?thesis
    using v e xs ys zs ws
    by (auto simp: profile_ok_def Let_def validate_mapping_sequence_Nil validate_optional_mapping_sequence_Nil)
qed

text \<open>
  C32: \<^verbatim>\<open>DeliveryProfile.from_data\<close>, for a YAML library that reads back what it wrote: the profile is
  built exactly when the validation report is successful, and then persona ids are distinct, every
  phase is assigned exactly once and to a known persona of a type the phase accepts, every handoff
  crosses a phase boundary with an artifact its source declares as output and its destination as
  input, and every review has a reviewer persona and at least one artifact type. A failed report is
  a ValueError carrying its messages.
\<close>

theorem profile_from_data_ok:
  assumes yaml_round_trip: "yaml_load (yaml_dump (PDict data)) = Inr (PDict data)"
  shows "if validation_successful (document_report None (PDict data))
    then (\<exists>d. profile_from_data yaml_load yaml_dump data = Inr d \<and> profile_ok d)
    else profile_from_data yaml_load yaml_dump data =
      Inl (invalid_profile ''Invalid delivery profile'' (document_report None (PDict data)))"
proof (cases "validation_successful (document_report None (PDict data))")
  case True
  from document_report_parses [OF this] True yaml_round_trip show ?thesis
    by (auto simp: profile_from_data_def build_delivery_profile_validation_report_def Let_def guard_r_def)
next
  case False
  with yaml_round_trip show ?thesis
    by (simp add: profile_from_data_def build_delivery_profile_validation_report_def Let_def guard_r_def)
qed


text \<open>
  The profile the repository ships, \<^verbatim>\<open>delivery-profiles/default-software-delivery.yaml\<close>, as the YAML
  library loads it.
\<close>

definition default_software_delivery :: pydict where
  "default_software_delivery =
    [(''schema_version'', PStr ''delivery-profile-v1''),
     (''profile_id'', PStr ''default-software-delivery''),
     (''personas'', PList [
       PDict [(''persona_id'', PStr ''architect''), (''persona_type'', PStr ''architect''), (''model_profile'', PStr ''architecture''), (''prompt_catalogs'', PList [PStr ''architect-responsibilities'']), (''process_references'', PList [PStr ''specify-feature''])],
       PDict [(''persona_id'', PStr ''engineering-manager''), (''persona_type'', PStr ''engineering_manager''), (''model_profile'', PStr ''planning''), (''prompt_catalogs'', PList [PStr ''engineering-manager-responsibilities'']), (''process_references'', PList [PStr ''start-implementing-feature''])],
       PDict [(''persona_id'', PStr ''engineer''), (''persona_type'', PStr ''engineer''), (''model_profile'', PStr ''implementation''), (''prompt_catalogs'', PList [PStr ''engineer-responsibilities'']), (''process_references'', PList [PStr ''execute-proposed-pr''])],
       PDict [(''persona_id'', PStr ''specification-reviewer''), (''persona_type'', PStr ''specification_reviewer''), (''model_profile'', PStr ''review''), (''prompt_catalogs'', PList [PStr ''specification-reviewer-responsibilities''])],
       PDict [(''persona_id'', PStr ''code-reviewer''), (''persona_type'', PStr ''code_reviewer''), (''model_profile'', PStr ''review''), (''prompt_catalogs'', PList [PStr ''code-reviewer-responsibilities'']), (''process_references'', PList [PStr ''review-system''])]]),
     (''phases'', PList [
       PDict [(''phase_type'', PStr ''intake''), (''persona_id'', PStr ''architect''), (''output_artifacts'', PList [PStr ''request''])],
       PDict [(''phase_type'', PStr ''specify''), (''persona_id'', PStr ''architect''), (''input_artifacts'', PList [PStr ''request'']), (''output_artifacts'', PList [PStr ''specification'']), (''validation_profiles'', PList [PStr ''specification-validation''])],
       PDict [(''phase_type'', PStr ''review_specifications''), (''persona_id'', PStr ''specification-reviewer''), (''input_artifacts'', PList [PStr ''specification'']), (''output_artifacts'', PList [PStr ''specification_review'']), (''validation_profiles'', PList [PStr ''specification-validation''])],
       PDict [(''phase_type'', PStr ''decompose''), (''persona_id'', PStr ''engineering-manager''), (''input_artifacts'', PList [PStr ''specification_review'']), (''output_artifacts'', PList [PStr ''proposed_pr'']), (''validation_profiles'', PList [PStr ''proposed-pr-validation''])],
       PDict [(''phase_type'', PStr ''review_proposed_prs''), (''persona_id'', PStr ''specification-reviewer''), (''input_artifacts'', PList [PStr ''proposed_pr'']), (''output_artifacts'', PList [PStr ''proposed_pr_review'']), (''validation_profiles'', PList [PStr ''proposed-pr-validation''])],
       PDict [(''phase_type'', PStr ''plan_pr''), (''persona_id'', PStr ''engineer''), (''input_artifacts'', PList [PStr ''proposed_pr'', PStr ''proposed_pr_review'']), (''output_artifacts'', PList [PStr ''execution_plan'']), (''validation_profiles'', PList [PStr ''execution-plan-validation''])],
       PDict [(''phase_type'', PStr ''await_plan_decision''), (''persona_id'', PStr ''engineering-manager''), (''input_artifacts'', PList [PStr ''execution_plan''])],
       PDict [(''phase_type'', PStr ''build''), (''persona_id'', PStr ''engineer''), (''input_artifacts'', PList [PStr ''execution_plan'']), (''output_artifacts'', PList [PStr ''implementation''])],
       PDict [(''phase_type'', PStr ''validate''), (''persona_id'', PStr ''engineer''), (''input_artifacts'', PList [PStr ''implementation'']), (''output_artifacts'', PList [PStr ''validation_evidence'']), (''validation_profiles'', PList [PStr ''repository-validation''])],
       PDict [(''phase_type'', PStr ''review_pr''), (''persona_id'', PStr ''code-reviewer''), (''input_artifacts'', PList [PStr ''implementation'', PStr ''validation_evidence'']), (''output_artifacts'', PList [PStr ''code_findings'']), (''validation_profiles'', PList [PStr ''repository-validation''])],
       PDict [(''phase_type'', PStr ''resolve_findings''), (''persona_id'', PStr ''engineer''), (''input_artifacts'', PList [PStr ''code_findings'']), (''output_artifacts'', PList [PStr ''implementation''])],
       PDict [(''phase_type'', PStr ''confirm_readiness''), (''persona_id'', PStr ''code-reviewer''), (''input_artifacts'', PList [PStr ''implementation'', PStr ''validation_evidence'', PStr ''code_findings'']), (''output_artifacts'', PList [PStr ''readiness_report'']), (''validation_profiles'', PList [PStr ''repository-validation''])],
       PDict [(''phase_type'', PStr ''publish_pr''), (''persona_id'', PStr ''engineering-manager''), (''input_artifacts'', PList [PStr ''readiness_report'']), (''output_artifacts'', PList [PStr ''published_pr''])],
       PDict [(''phase_type'', PStr ''complete_feature''), (''persona_id'', PStr ''engineering-manager''), (''input_artifacts'', PList [PStr ''published_pr''])]]),
     (''artifact_handoffs'', PList [
       PDict [(''source_phase'', PStr ''intake''), (''destination_phase'', PStr ''specify''), (''artifact_type'', PStr ''request''), (''owner_persona_id'', PStr ''architect'')],
       PDict [(''source_phase'', PStr ''specify''), (''destination_phase'', PStr ''review_specifications''), (''artifact_type'', PStr ''specification''), (''owner_persona_id'', PStr ''architect'')],
       PDict [(''source_phase'', PStr ''review_specifications''), (''destination_phase'', PStr ''decompose''), (''artifact_type'', PStr ''specification_review''), (''owner_persona_id'', PStr ''specification-reviewer'')],
       PDict [(''source_phase'', PStr ''decompose''), (''destination_phase'', PStr ''review_proposed_prs''), (''artifact_type'', PStr ''proposed_pr''), (''owner_persona_id'', PStr ''engineering-manager'')],
       PDict [(''source_phase'', PStr ''review_proposed_prs''), (''destination_phase'', PStr ''plan_pr''), (''artifact_type'', PStr ''proposed_pr_review''), (''owner_persona_id'', PStr ''specification-reviewer'')],
       PDict [(''source_phase'', PStr ''plan_pr''), (''destination_phase'', PStr ''build''), (''artifact_type'', PStr ''execution_plan''), (''owner_persona_id'', PStr ''engineer'')],
       PDict [(''source_phase'', PStr ''build''), (''destination_phase'', PStr ''validate''), (''artifact_type'', PStr ''implementation''), (''owner_persona_id'', PStr ''engineer'')],
       PDict [(''source_phase'', PStr ''validate''), (''destination_phase'', PStr ''review_pr''), (''artifact_type'', PStr ''validation_evidence''), (''owner_persona_id'', PStr ''engineer'')],
       PDict [(''source_phase'', PStr ''review_pr''), (''destination_phase'', PStr ''resolve_findings''), (''artifact_type'', PStr ''code_findings''), (''owner_persona_id'', PStr ''code-reviewer'')],
       PDict [(''source_phase'', PStr ''confirm_readiness''), (''destination_phase'', PStr ''publish_pr''), (''artifact_type'', PStr ''readiness_report''), (''owner_persona_id'', PStr ''code-reviewer'')],
       PDict [(''source_phase'', PStr ''publish_pr''), (''destination_phase'', PStr ''complete_feature''), (''artifact_type'', PStr ''published_pr''), (''owner_persona_id'', PStr ''engineering-manager'')]]),
     (''reviews'', PList [
       PDict [(''reviewer_persona_id'', PStr ''specification-reviewer''), (''artifact_types'', PList [PStr ''specification'', PStr ''proposed_pr'']), (''independent'', PBool True), (''blocking_severities'', PList [PStr ''blocking'', PStr ''major''])],
       PDict [(''reviewer_persona_id'', PStr ''code-reviewer''), (''artifact_types'', PList [PStr ''implementation'', PStr ''validation_evidence'']), (''independent'', PBool True), (''blocking_severities'', PList [PStr ''blocking'', PStr ''major''])]])]"

definition only_document :: "pydict \<Rightarrow> string \<Rightarrow> string + pyval" where
  "only_document data text = (if text = ''---'' then Inr (PDict data) else Inl ''unknown document'')"

declare issue_unless_def [code_unfold]

theorem profile_from_data_ok_witness:
  "only_document default_software_delivery ((\<lambda>v. ''---'') (PDict default_software_delivery)) =
     Inr (PDict default_software_delivery) \<and>
   validation_successful (document_report None (PDict default_software_delivery)) \<and>
   (\<exists>d. profile_from_data (only_document default_software_delivery) (\<lambda>v. ''---'') default_software_delivery = Inr d \<and>
     profile_ok d)"
proof -
  have y: "only_document default_software_delivery ((\<lambda>v. ''---'') (PDict default_software_delivery)) =
     Inr (PDict default_software_delivery)"
    by (simp add: only_document_def)
  moreover have v: "validation_successful (document_report None (PDict default_software_delivery))"
    by code_simp
  ultimately show ?thesis
    using profile_from_data_ok [of "only_document default_software_delivery" "\<lambda>v. ''---''" default_software_delivery]
    by simp
qed

end
