(* ===== verification/Execution_Plan.thy ===== *)
theory Execution_Plan
  imports Py_Value
begin

text \<open>
  \<^verbatim>\<open>core/execution_plan.py\<close>: execution plans, their documents, the plan store and the
  deterministic evaluation that decides whether a plan may be built.

  A stored plan is the decoded JSON document. The constructor of a plan does not check field types:
  a document with a field of another type than the annotation is \<open>MalformedDocument\<close> here, where
  Python builds an ill-typed plan. A path of the store is its sequence of components; the
  directories a plan identifier with a slash names are taken to exist.

  The depth-first search \<^verbatim>\<open>_has_cycle\<close> is a function with a termination proof: the
  identifiers with declared dependencies that are not on the current path decrease. Python iterates
  over sets of dependencies in no specified order; \<open>has_cycle_exact\<close> shows that the answer does not
  depend on the order taken here.
\<close>

definition EXECUTION_PLAN_SCHEMA_VERSION :: string where
  "EXECUTION_PLAN_SCHEMA_VERSION = ''execution-plan-v1''"

record execution_unit =
  unit_id :: string
  objective :: string
  unit_paths :: "string list"
  dependencies :: "string list"
  validation_profiles :: "string list"
  acceptance_criteria :: "string list"
  ephemeral_paths :: "string list"
  planned_additions :: "pydict list"
  planned_deletions :: "pydict list"
  must_preserve :: "string list"
  non_goals :: "string list"
  source_refs :: "string list"

record execution_plan =
  plan_id :: string
  proposed_pr_fingerprint :: string
  plan_units :: "execution_unit list"
  allowed_paths :: "string list"
  introduced_decisions :: "string list"
  plan_schema_version :: string

section \<open>Documents\<close>

abbreviation texts :: "string list \<Rightarrow> pyval" where
  "texts xs \<equiv> PList (map PStr xs)"

definition unit_to_data :: "execution_unit \<Rightarrow> pydict" where
  "unit_to_data u =
     [(''unit_id'', PStr (unit_id u)),
      (''objective'', PStr (objective u)),
      (''paths'', texts (unit_paths u)),
      (''dependencies'', texts (dependencies u)),
      (''validation_profiles'', texts (validation_profiles u)),
      (''acceptance_criteria'', texts (acceptance_criteria u)),
      (''ephemeral_paths'', texts (ephemeral_paths u)),
      (''planned_additions'', PList (map PDict (planned_additions u))),
      (''planned_deletions'', PList (map PDict (planned_deletions u))),
      (''must_preserve'', texts (must_preserve u)),
      (''non_goals'', texts (non_goals u)),
      (''source_refs'', texts (source_refs u))]"

definition plan_to_data :: "execution_plan \<Rightarrow> pydict" where
  "plan_to_data p =
     [(''schema_version'', PStr (plan_schema_version p)),
      (''plan_id'', PStr (plan_id p)),
      (''proposed_pr_fingerprint'', PStr (proposed_pr_fingerprint p)),
      (''units'', PList (map (PDict \<circ> unit_to_data) (plan_units p))),
      (''allowed_paths'', texts (allowed_paths p)),
      (''introduced_decisions'', texts (introduced_decisions p))]"

text \<open>\<^verbatim>\<open>tuple(value)\<close>: the elements of an array, the characters of a text, the keys of an object.\<close>

fun tuple_of :: "pyval \<Rightarrow> pyval list result" where
  "tuple_of (PList xs) = Inr xs"
| "tuple_of (PStr s) = Inr (map (\<lambda>c. PStr [c]) s)"
| "tuple_of (PDict d) = Inr (map (PStr \<circ> fst) d)"
| "tuple_of v = Inl (not_iterable v)"

definition str_tuple :: "pyval \<Rightarrow> string list result" where
  "str_tuple v =
     bind_r (tuple_of v) (\<lambda>xs.
     bind_r (guard_r (list_all is_str xs) MalformedDocument) (\<lambda>_. Inr (map the_str xs)))"

definition dict_tuple :: "pyval \<Rightarrow> pydict list result" where
  "dict_tuple v =
     bind_r (tuple_of v) (\<lambda>xs.
     bind_r (guard_r (list_all is_mapping xs) MalformedDocument) (\<lambda>_. Inr (map the_dict xs)))"

definition text_item :: "pydict \<Rightarrow> string \<Rightarrow> string result" where
  "text_item d key =
     bind_r (get_required d key) (\<lambda>v. bind_r (guard_r (is_str v) MalformedDocument) (\<lambda>_. Inr (the_str v)))"

definition unit_from_data :: "pyval \<Rightarrow> execution_unit result" where
  "unit_from_data item =
     (case item of
        PDict d \<Rightarrow>
          bind_r (text_item d ''unit_id'') (\<lambda>uid.
          bind_r (text_item d ''objective'') (\<lambda>obj.
          bind_r (bind_r (get_required d ''paths'') str_tuple) (\<lambda>paths.
          bind_r (str_tuple (get_default d ''dependencies'' (PList []))) (\<lambda>deps.
          bind_r (str_tuple (get_default d ''validation_profiles'' (PList []))) (\<lambda>vals.
          bind_r (str_tuple (get_default d ''acceptance_criteria'' (PList []))) (\<lambda>acc.
          bind_r (str_tuple (get_default d ''ephemeral_paths'' (PList []))) (\<lambda>eph.
          bind_r (dict_tuple (get_default d ''planned_additions'' (PList []))) (\<lambda>adds.
          bind_r (dict_tuple (get_default d ''planned_deletions'' (PList []))) (\<lambda>dels.
          bind_r (str_tuple (get_default d ''must_preserve'' (PList []))) (\<lambda>pres.
          bind_r (str_tuple (get_default d ''non_goals'' (PList []))) (\<lambda>nong.
          bind_r (str_tuple (get_default d ''source_refs'' (PList []))) (\<lambda>refs.
          Inr \<lparr>unit_id = uid, objective = obj, unit_paths = paths, dependencies = deps,
               validation_profiles = vals, acceptance_criteria = acc, ephemeral_paths = eph,
               planned_additions = adds, planned_deletions = dels, must_preserve = pres,
               non_goals = nong, source_refs = refs\<rparr>))))))))))))
      | _ \<Rightarrow> Inl MalformedDocument)"

definition plan_from_data :: "pydict \<Rightarrow> execution_plan result" where
  "plan_from_data data =
     bind_r (guard_r (py_eq (get_item data ''schema_version'') (PStr EXECUTION_PLAN_SCHEMA_VERSION))
       (ValueError ''unsupported execution plan schema version'')) (\<lambda>_.
     bind_r (bind_r (bind_r (get_required data ''units'') tuple_of) (mapM_r unit_from_data)) (\<lambda>units.
     bind_r (text_item data ''plan_id'') (\<lambda>pid.
     bind_r (text_item data ''proposed_pr_fingerprint'') (\<lambda>fp.
     bind_r (bind_r (get_required data ''allowed_paths'') str_tuple) (\<lambda>paths.
     bind_r (str_tuple (get_default data ''introduced_decisions'' (PList []))) (\<lambda>decs.
     Inr \<lparr>plan_id = pid, proposed_pr_fingerprint = fp, plan_units = units, allowed_paths = paths,
          introduced_decisions = decs, plan_schema_version = EXECUTION_PLAN_SCHEMA_VERSION\<rparr>))))))"

section \<open>The plan store\<close>

text \<open>\<^verbatim>\<open>PurePosixPath(path).parts\<close> of a relative path: empty components and \<^verbatim>\<open>.\<close> vanish.\<close>

definition path_parts :: "string \<Rightarrow> string list" where
  "path_parts p = filter (\<lambda>c. c \<noteq> '''' \<and> c \<noteq> ''.'') (split_on (CHR ''/'') p)"

type_synonym plan_store = "string list \<Rightarrow> pyval option"

definition plan_path :: "string \<Rightarrow> string list" where
  "plan_path pid = path_parts (pid @ ''.json'')"

definition save_plan :: "plan_store \<Rightarrow> execution_plan \<Rightarrow> plan_store" where
  "save_plan st p = st(plan_path (plan_id p) \<mapsto> PDict (plan_to_data p))"

definition load_plan :: "plan_store \<Rightarrow> string \<Rightarrow> execution_plan result" where
  "load_plan st pid =
     (case st (plan_path pid) of
        None \<Rightarrow> Inl (FileNotFoundError pid)
      | Some (PDict d) \<Rightarrow> plan_from_data d
      | Some _ \<Rightarrow> Inl MalformedDocument)"

section \<open>Evaluation\<close>

record plan_evaluation =
  plan_valid :: bool
  build_eligible :: bool
  plan_issues :: "string list"
  required_decisions :: "string list"

definition unsafe_path :: "string \<Rightarrow> bool" where
  "unsafe_path p \<longleftrightarrow> startswith p ''/'' \<or> ''..'' \<in> set (path_parts p)"

definition path_in_scope :: "string \<Rightarrow> string \<Rightarrow> bool" where
  "path_in_scope p scope \<longleftrightarrow>
     p = scope \<or> startswith p (rstrip_char (CHR ''/'') scope @ ''/'') \<or> scope = ''.''"

text \<open>
  \<^verbatim>\<open>{unit.unit_id: set(unit.dependencies) for unit in plan.units}\<close>: a repeated identifier keeps
  its first position and takes the last set.
\<close>

definition dependency_table :: "execution_plan \<Rightarrow> (string \<times> string list) list" where
  "dependency_table p =
     foldl (\<lambda>d u. AList.update (unit_id u) (py_dedup (dependencies u)) d) [] (plan_units p)"

definition deps_of :: "(string \<times> string list) list \<Rightarrow> string \<Rightarrow> string list" where
  "deps_of table u = (case map_of table u of None \<Rightarrow> [] | Some ds \<Rightarrow> ds)"

text \<open>
  \<^verbatim>\<open>any(visit(u) for u in us)\<close>, with \<^verbatim>\<open>visit\<close> inlined: the answer and the set
  \<^verbatim>\<open>complete\<close>. \<open>visiting\<close> is the path from the root of the search.
\<close>

function visit_units ::
    "(string \<times> string list) list \<Rightarrow> string list \<Rightarrow> string list \<Rightarrow> string list \<Rightarrow> bool \<times> string list" where
  "visit_units table visiting finished [] = (False, finished)"
| "visit_units table visiting finished (u # us) =
     (if u \<in> set visiting then (True, finished)
      else if u \<in> set finished then visit_units table visiting finished us
      else case visit_units table (u # visiting) finished (deps_of table u) of
             (True, finished1) \<Rightarrow> (True, finished1)
           | (False, finished1) \<Rightarrow> visit_units table visiting (u # finished1) us)"
  by pat_completeness auto

termination
proof (relation "measures [\<lambda>(table, visiting, finished, us). card (fst ` set table - set visiting),
    \<lambda>(table, visiting, finished, us). length us]")
  fix table :: "(string \<times> string list) list" and visiting finished us :: "string list" and u
  assume new: "u \<notin> set visiting"
  show "((table, u # visiting, finished, deps_of table u), (table, visiting, finished, u # us)) \<in>
    measures [\<lambda>(table, visiting, finished, us). card (fst ` set table - set visiting),
      \<lambda>(table, visiting, finished, us). length us]"
  proof (cases "u \<in> fst ` set table")
    case True
    then have "fst ` set table - set (u # visiting) \<subset> fst ` set table - set visiting"
      using new by auto
    then show ?thesis by (simp add: psubset_card_mono)
  next
    case False
    then have "fst ` set table - set (u # visiting) = fst ` set table - set visiting" "deps_of table u = []"
      by (auto simp: deps_of_def split: option.split dest!: map_of_SomeD intro: rev_image_eqI)
    then show ?thesis by simp
  qed
qed simp_all

definition has_cycle :: "execution_plan \<Rightarrow> bool" where
  "has_cycle p = fst (visit_units (dependency_table p) [] [] (map fst (dependency_table p)))"

definition unit_issues ::
    "string list \<Rightarrow> string list \<Rightarrow> string list \<Rightarrow> execution_unit \<Rightarrow> string list" where
  "unit_issues unit_ids known scope u =
     (let name = ''unit '' @ py_repr (unit_id u) in
      (if strip (objective u) = [] then [name @ '' has no objective''] else [])
      @ (if acceptance_criteria u = [] then [name @ '' has no acceptance criteria''] else [])
      @ (if validation_profiles u = [] then [name @ '' has no validation profiles''] else [])
      @ map (\<lambda>profile. name @ '' uses unknown validation profile '' @ py_repr profile)
          (filter (\<lambda>profile. profile \<notin> set known) (validation_profiles u))
      @ map (\<lambda>dep. name @ '' depends on unknown unit '' @ py_repr dep)
          (filter (\<lambda>dep. dep \<notin> set unit_ids) (dependencies u))
      @ map (\<lambda>path. name @ '' path is outside plan scope: '' @ py_repr path)
          (filter (\<lambda>path. unsafe_path path \<or> \<not> list_ex (path_in_scope path) scope) (unit_paths u)))"

definition evaluate_execution_plan ::
    "execution_plan \<Rightarrow> string \<Rightarrow> string list \<Rightarrow> string list \<Rightarrow> plan_evaluation" where
  "evaluate_execution_plan p fp pr_paths known =
     (let unit_ids = map unit_id (plan_units p);
          issues =
            (if card (set unit_ids) \<noteq> length (plan_units p) then [''unit IDs must be unique''] else [])
            @ (if proposed_pr_fingerprint p \<noteq> fp then [''proposed-PR fingerprint has changed''] else [])
            @ (if allowed_paths p = [] then [''allowed_paths must not be empty''] else [])
            @ map (\<lambda>path. ''unsafe path: '' @ py_repr path)
                (filter unsafe_path (allowed_paths p @ pr_paths))
            @ map (\<lambda>path. ''proposed-PR path is outside plan scope: '' @ py_repr path)
                (filter (\<lambda>path. \<not> list_ex (path_in_scope path) (allowed_paths p)) pr_paths)
            @ concat (map (unit_issues unit_ids known (allowed_paths p)) (plan_units p))
            @ (if has_cycle p then [''execution units contain a dependency cycle''] else []);
          decisions = introduced_decisions p
      in \<lparr>plan_valid = (issues = []), build_eligible = (issues = [] \<and> decisions = []),
          plan_issues = issues, required_decisions = decisions\<rparr>)"

record execution_plan_amendment =
  amended_plan_id :: string
  affected_unit_ids :: "string list"
  amendment_reason :: string
  supersedes_plan_id :: string

section \<open>Documents and store\<close>

lemma all_is_str [simp]: "list_all is_str (map PStr xs)" "list_all is_mapping (map PDict ds)"
  by (simp_all add: list_all_iff)

lemma the_str_map [simp]: "map the_str (map PStr xs) = xs" "map the_dict (map PDict ds) = ds"
  by (simp_all add: comp_def)

lemma str_tuple_texts [simp]: "str_tuple (texts xs) = Inr xs" "dict_tuple (PList (map PDict ds)) = Inr ds"
  by (simp_all add: str_tuple_def dict_tuple_def comp_def)

lemma text_item_simps [simp]:
  "text_item ((k', PStr s) # d) k = (if k' = k then Inr s else text_item d k)"
  "text_item ((k', PList xs) # d) k = (if k' = k then Inl MalformedDocument else text_item d k)"
  by (simp_all add: text_item_def)

lemma unit_roundtrip [simp]: "unit_from_data (PDict (unit_to_data u)) = Inr u"
  by (simp add: unit_from_data_def unit_to_data_def)

lemma plan_roundtrip:
  "plan_schema_version p = EXECUTION_PLAN_SCHEMA_VERSION \<Longrightarrow> plan_from_data (plan_to_data p) = Inr p"
  by (simp add: plan_from_data_def plan_to_data_def mapM_r_map comp_def mapM_r_id)

lemma plan_from_data_schema: "plan_from_data d = Inr p \<Longrightarrow> plan_schema_version p = EXECUTION_PLAN_SCHEMA_VERSION"
  by (auto simp: plan_from_data_def)

section \<open>The cycle search\<close>

definition dep_rel :: "(string \<times> string list) list \<Rightarrow> (string \<times> string) set" where
  "dep_rel table = {(u, v). v \<in> set (deps_of table u)}"

lemma visit_units_sound:
  assumes "fst (visit_units table visiting finished us)"
    and "\<And>v u. v \<in> set visiting \<Longrightarrow> u \<in> set us \<Longrightarrow> (v, u) \<in> (dep_rel table)\<^sup>+"
  shows "\<exists>x. (x, x) \<in> (dep_rel table)\<^sup>+"
  using assms
proof (induction table visiting finished us rule: visit_units.induct)
  case (2 table visiting finished u us)
  show ?case
  proof (cases "u \<in> set visiting \<or> u \<in> set finished")
    case True
    with 2 show ?thesis by (auto split: if_splits)
  next
    case False
    obtain b d where v: "visit_units table (u # visiting) finished (deps_of table u) = (b, d)" by force
    show ?thesis
    proof (cases b)
      case True
      have "(v, w) \<in> (dep_rel table)\<^sup>+" if "v \<in> set (u # visiting)" "w \<in> set (deps_of table u)" for v w
        using that "2.prems"(2) [of v u] by (auto simp: dep_rel_def intro: trancl_into_trancl)
      with "2.IH"(2) False v True show ?thesis by auto
    next
      case b: False
      with "2.IH"(3) [OF _ _ v [symmetric]] "2.prems" False v show ?thesis by auto
    qed
  qed
qed simp

definition finished_ok :: "(string \<times> string list) list \<Rightarrow> string set \<Rightarrow> bool" where
  "finished_ok table F \<longleftrightarrow> dep_rel table `` F \<subseteq> F \<and> (\<forall>x \<in> F. (x, x) \<notin> (dep_rel table)\<^sup>+)"

lemma closed_rtrancl:
  assumes "(x, y) \<in> r\<^sup>*" and "r `` F \<subseteq> F" and "x \<in> F"
  shows "y \<in> F"
  using assms by (induction rule: rtrancl_induct) auto

lemma finished_ok_insert:
  assumes "finished_ok table F" and "set (deps_of table u) \<subseteq> F" and "u \<notin> F"
  shows "finished_ok table (insert u F)"
proof -
  have "(u, u) \<notin> (dep_rel table)\<^sup>+"
  proof
    assume "(u, u) \<in> (dep_rel table)\<^sup>+"
    then obtain y where "(u, y) \<in> dep_rel table" "(y, u) \<in> (dep_rel table)\<^sup>*"
      by (blast dest: tranclD)
    moreover have "dep_rel table `` F \<subseteq> F" using assms(1) by (simp add: finished_ok_def)
    ultimately show False
      using closed_rtrancl [of y u "dep_rel table" F] assms(2,3) by (auto simp: dep_rel_def)
  qed
  with assms show ?thesis by (auto simp: finished_ok_def dep_rel_def)
qed

lemma visit_units_complete:
  assumes "visit_units table visiting finished us = (False, F)"
    and "finished_ok table (set finished)" "set finished \<inter> set visiting = {}"
  shows "finished_ok table (set F) \<and> set finished \<subseteq> set F \<and> set us \<subseteq> set F \<and> set F \<inter> set visiting = {}"
  using assms
proof (induction table visiting finished us arbitrary: F rule: visit_units.induct)
  case (2 table visiting finished u us)
  from "2.prems"(1) have new: "u \<notin> set visiting" by (auto split: if_splits)
  show ?case
  proof (cases "u \<in> set finished")
    case True
    with 2 new show ?thesis by auto
  next
    case False
    with "2.prems"(1) new obtain d where
      v: "visit_units table (u # visiting) finished (deps_of table u) = (False, d)"
      and rest: "visit_units table visiting (u # d) us = (False, F)"
      by (auto split: prod.splits bool.splits if_splits)
    from "2.IH"(2) [OF new False v] "2.prems" False have
      d: "finished_ok table (set d)" "set finished \<subseteq> set d" "set (deps_of table u) \<subseteq> set d"
        "set d \<inter> set (u # visiting) = {}"
      by auto
    then have "finished_ok table (set (u # d))" using finished_ok_insert by auto
    with "2.IH"(3) [OF new False v [symmetric] _ rest] d new show ?thesis by auto
  qed
qed simp

lemma visit_all_iff:
  "fst (visit_units table [] [] (map fst table)) \<longleftrightarrow> \<not> acyclic (dep_rel table)"
proof
  assume "fst (visit_units table [] [] (map fst table))"
  then show "\<not> acyclic (dep_rel table)"
    using visit_units_sound by (force simp: acyclic_def)
next
  assume cyc: "\<not> acyclic (dep_rel table)"
  show "fst (visit_units table [] [] (map fst table))"
  proof (rule ccontr)
    assume "\<not> ?thesis"
    then obtain F where "visit_units table [] [] (map fst table) = (False, F)"
      by (cases "visit_units table [] [] (map fst table)") auto
    then have F: "finished_ok table (set F)" "fst ` set table \<subseteq> set F"
      using visit_units_complete [of table "[]" "[]" "map fst table" F] by (auto simp: finished_ok_def)
    from cyc obtain x where x: "(x, x) \<in> (dep_rel table)\<^sup>+" by (auto simp: acyclic_def)
    then obtain y where "(x, y) \<in> dep_rel table" by (meson converse_tranclE)
    then have "x \<in> fst ` set table"
      by (auto simp: dep_rel_def deps_of_def split: option.splits dest!: map_of_SomeD [OF sym] intro: rev_image_eqI)
    with F x show False by (auto simp: finished_ok_def)
  qed
qed


lemma dependency_table_keys: "fst ` set (foldl (\<lambda>d u. AList.update (unit_id u) (py_dedup (dependencies u)) d) d us) =
    fst ` set d \<union> unit_id ` set us"
  by (induction us arbitrary: d) auto

lemma dependency_table_lookup:
  "map_of (foldl (\<lambda>d u. AList.update (unit_id u) (py_dedup (dependencies u)) d) d us) x =
    (case map_of (rev (map (\<lambda>u. (unit_id u, dependencies u)) us)) x of
       Some ds \<Rightarrow> Some (py_dedup ds) | None \<Rightarrow> map_of d x)"
  by (induction us arbitrary: d) (auto simp: update_conv' map_of_append map_add_def split: option.splits)

text \<open>The dependency relation of a plan: a unit to what it depends on; the last of equal identifiers counts.\<close>

definition plan_deps :: "execution_plan \<Rightarrow> (string \<times> string) set" where
  "plan_deps p = {(x, y). \<exists>ds. map_of (rev (map (\<lambda>u. (unit_id u, dependencies u)) (plan_units p))) x = Some ds \<and> y \<in> set ds}"

lemma dep_rel_plan: "dep_rel (dependency_table p) = plan_deps p"
  by (auto simp: dep_rel_def deps_of_def dependency_table_def dependency_table_lookup plan_deps_def
      split: option.splits)

lemma plan_deps_distinct:
  assumes "distinct (map unit_id (plan_units p))"
  shows "plan_deps p = {(x, y). \<exists>u \<in> set (plan_units p). unit_id u = x \<and> y \<in> set (dependencies u)}"
proof -
  have "distinct (map fst (rev (map (\<lambda>u. (unit_id u, dependencies u)) (plan_units p))))"
    using assms by (simp add: comp_def flip: rev_map)
  then show ?thesis by (auto simp: plan_deps_def map_of_eq_Some_iff)
qed

lemma has_cycle_exact: "has_cycle p \<longleftrightarrow> \<not> acyclic (plan_deps p)"
  by (simp add: has_cycle_def visit_all_iff dep_rel_plan)

section \<open>Scopes\<close>

lemma split_on_ne [simp]: "split_on c s \<noteq> []"
  by (induction s) (auto split: list.split)

lemma split_on_append: "split_on c (a @ c # b) = split_on c a @ split_on c b"
  by (induction a) (auto split: list.split)

lemma path_parts_join: "path_parts (a @ ''/'' @ b) = path_parts a @ path_parts b"
  by (simp add: path_parts_def split_on_append)

lemma path_parts_slashes: "path_parts (a @ replicate n (CHR ''/'')) = path_parts a"
proof (induction n)
  case (Suc n)
  have "a @ replicate (Suc n) (CHR ''/'') = (a @ replicate n (CHR ''/'')) @ ''/'' @ ''''"
    by (simp add: replicate_append_same)
  then have "path_parts (a @ replicate (Suc n) (CHR ''/'')) = path_parts (a @ replicate n (CHR ''/'')) @ path_parts ''''"
    by (simp only: path_parts_join)
  with Suc.IH show ?case by (simp add: path_parts_def)
qed simp

lemma rstrip_char_append: "\<exists>n. s = rstrip_char c s @ replicate n c"
proof -
  have "takeWhile ((=) c) (rev s) = replicate (length (takeWhile ((=) c) (rev s))) c"
    by (metis (mono_tags, lifting) replicate_length_same set_takeWhileD)
  then have "rev s = replicate (length (takeWhile ((=) c) (rev s))) c @ dropWhile ((=) c) (rev s)"
    by (metis takeWhile_dropWhile_id)
  then have "s = rev (dropWhile ((=) c) (rev s)) @ replicate (length (takeWhile ((=) c) (rev s))) c"
    by (metis rev_append rev_replicate rev_rev_ident)
  then show ?thesis unfolding rstrip_char_def by blast
qed

lemma path_in_scope_prefix:
  assumes "path_in_scope p scope"
  shows "\<exists>rest. path_parts p = path_parts scope @ rest"
proof -
  obtain n where n: "scope = rstrip_char (CHR ''/'') scope @ replicate n (CHR ''/'')"
    using rstrip_char_append by blast
  then have strip: "path_parts (rstrip_char (CHR ''/'') scope) = path_parts scope"
    by (metis path_parts_slashes)
  from assms consider "p = scope" | t where "p = rstrip_char (CHR ''/'') scope @ ''/'' @ t" | "scope = ''.''"
    by (auto simp: path_in_scope_def startswith_iff)
  then show ?thesis
  proof cases
    case (2 t)
    then show ?thesis by (auto simp only: path_parts_join strip)
  qed (auto simp: path_parts_def)
qed

section \<open>Properties of the evaluation\<close>

definition unit_ok :: "execution_plan \<Rightarrow> string list \<Rightarrow> execution_unit \<Rightarrow> bool" where
  "unit_ok p known u \<longleftrightarrow>
     strip (objective u) \<noteq> [] \<and> acceptance_criteria u \<noteq> [] \<and> validation_profiles u \<noteq> [] \<and>
     set (validation_profiles u) \<subseteq> set known \<and>
     set (dependencies u) \<subseteq> unit_id ` set (plan_units p) \<and>
     (\<forall>path \<in> set (unit_paths u). \<not> unsafe_path path \<and> (\<exists>scope \<in> set (allowed_paths p). path_in_scope path scope))"

definition plan_edges :: "execution_plan \<Rightarrow> (string \<times> string) set" where
  "plan_edges p = {(x, y). \<exists>u \<in> set (plan_units p). unit_id u = x \<and> y \<in> set (dependencies u)}"

lemma unit_issues_Nil:
  "unit_issues (map unit_id (plan_units p)) known (allowed_paths p) u = [] \<longleftrightarrow> unit_ok p known u"
  by (auto simp: unit_issues_def unit_ok_def Let_def filter_empty_conv list_ex_iff)

lemma plan_valid_conditions:
  "plan_valid (evaluate_execution_plan p fp pr_paths known) \<longleftrightarrow>
     distinct (map unit_id (plan_units p)) \<and> proposed_pr_fingerprint p = fp \<and> allowed_paths p \<noteq> [] \<and>
     (\<forall>path \<in> set (allowed_paths p @ pr_paths). \<not> unsafe_path path) \<and>
     (\<forall>path \<in> set pr_paths. \<exists>scope \<in> set (allowed_paths p). path_in_scope path scope) \<and>
     list_all (unit_ok p known) (plan_units p) \<and> acyclic (plan_edges p)"
proof -
  let ?ids = "map unit_id (plan_units p)"
  have d: "card (unit_id ` set (plan_units p)) = length (plan_units p) \<longleftrightarrow> distinct ?ids"
    using card_distinct [of ?ids] distinct_card [of ?ids] by auto
  have "plan_valid (evaluate_execution_plan p fp pr_paths known) \<longleftrightarrow>
     distinct ?ids \<and> proposed_pr_fingerprint p = fp \<and> allowed_paths p \<noteq> [] \<and>
     (\<forall>path \<in> set (allowed_paths p @ pr_paths). \<not> unsafe_path path) \<and>
     (\<forall>path \<in> set pr_paths. \<exists>scope \<in> set (allowed_paths p). path_in_scope path scope) \<and>
     list_all (unit_ok p known) (plan_units p) \<and> acyclic (plan_deps p)"
    unfolding evaluate_execution_plan_def Let_def plan_evaluation.simps append_is_Nil_conv map_is_Nil_conv
    by (auto simp: d unit_issues_Nil has_cycle_exact filter_empty_conv list_ex_iff list_all_iff)
  then show ?thesis
    using plan_deps_distinct [of p] by (auto simp: plan_edges_def)
qed

text \<open>
  \<^verbatim>\<open>evaluate_execution_plan\<close> accepts a plan exactly if its unit identifiers are distinct, its
  fingerprint is the current one, its allowed paths are non-empty and safe, every path of the proposed
  PR and of a unit is safe and inside an allowed path, every unit has an objective, acceptance
  criteria and known validation profiles and depends on units of the plan only, and the dependency
  relation, searched depth first, has no cycle. Only a valid plan without introduced decisions may be
  built.
\<close>

theorem plan_evaluation_exact:
  "(plan_valid (evaluate_execution_plan p fp pr_paths known) \<longleftrightarrow>
     distinct (map unit_id (plan_units p)) \<and> proposed_pr_fingerprint p = fp \<and> allowed_paths p \<noteq> [] \<and>
     list_all (\<lambda>path. \<not> unsafe_path path) (allowed_paths p @ pr_paths) \<and>
     list_all (\<lambda>path. list_ex (path_in_scope path) (allowed_paths p)) pr_paths \<and>
     list_all (unit_ok p known) (plan_units p) \<and> acyclic (plan_edges p)) \<and>
   (build_eligible (evaluate_execution_plan p fp pr_paths known) \<longleftrightarrow>
     plan_valid (evaluate_execution_plan p fp pr_paths known) \<and> introduced_decisions p = [])"
proof
  show "plan_valid (evaluate_execution_plan p fp pr_paths known) \<longleftrightarrow>
     distinct (map unit_id (plan_units p)) \<and> proposed_pr_fingerprint p = fp \<and> allowed_paths p \<noteq> [] \<and>
     list_all (\<lambda>path. \<not> unsafe_path path) (allowed_paths p @ pr_paths) \<and>
     list_all (\<lambda>path. list_ex (path_in_scope path) (allowed_paths p)) pr_paths \<and>
     list_all (unit_ok p known) (plan_units p) \<and> acyclic (plan_edges p)"
    unfolding plan_valid_conditions by (simp add: list_all_iff list_ex_iff)
qed (simp add: evaluate_execution_plan_def Let_def)

text \<open>
  A plan that evaluates as valid confines its units: every path of a unit is relative, has no
  parent component, and its components extend the components of one of the plan's allowed paths.
\<close>

theorem valid_plan_confines_units:
  assumes "plan_valid (evaluate_execution_plan p fp pr_paths known)"
    and "u \<in> set (plan_units p)" and "path \<in> set (unit_paths u)"
  shows "\<not> startswith path ''/'' \<and> ''..'' \<notin> set (path_parts path) \<and>
    (\<exists>scope rest. scope \<in> set (allowed_paths p) \<and> \<not> unsafe_path scope \<and>
      path_parts path = path_parts scope @ rest)"
proof -
  from assms have "unit_ok p known u" "\<forall>scope \<in> set (allowed_paths p). \<not> unsafe_path scope"
    by (auto simp: plan_valid_conditions list_all_iff)
  with assms(3) obtain scope where "\<not> unsafe_path path" "scope \<in> set (allowed_paths p)" "path_in_scope path scope"
    "\<not> unsafe_path scope"
    by (auto simp: unit_ok_def)
  with path_in_scope_prefix show ?thesis by (auto simp: unsafe_path_def)
qed

definition sample_unit :: "string \<Rightarrow> string list \<Rightarrow> execution_unit" where
  "sample_unit uid deps =
     \<lparr>unit_id = uid, objective = ''implement'', unit_paths = [''src/'' @ uid], dependencies = deps,
      validation_profiles = [''repository-validation''], acceptance_criteria = [''tests pass''],
      ephemeral_paths = [], planned_additions = [], planned_deletions = [], must_preserve = [],
      non_goals = [], source_refs = []\<rparr>"

definition sample_plan :: execution_plan where
  "sample_plan =
     \<lparr>plan_id = ''plan-1'', proposed_pr_fingerprint = ''fp'',
      plan_units = [sample_unit ''api'' [], sample_unit ''ui'' [''api'']], allowed_paths = [''src/''],
      introduced_decisions = [], plan_schema_version = EXECUTION_PLAN_SCHEMA_VERSION\<rparr>"

lemma sample_plan_valid:
  "plan_valid (evaluate_execution_plan sample_plan ''fp'' [''src/api''] [''repository-validation''])"
  by code_simp

theorem valid_plan_confines_units_witness:
  "plan_valid (evaluate_execution_plan sample_plan ''fp'' [''src/api''] [''repository-validation'']) \<and>
   (\<exists>scope rest. scope \<in> set (allowed_paths sample_plan) \<and> \<not> unsafe_path scope \<and>
      path_parts ''src/ui'' = path_parts scope @ rest)"
  using sample_plan_valid
    valid_plan_confines_units [OF sample_plan_valid, of "sample_unit ''ui'' [''api'']" "''src/ui''"]
  by (simp add: sample_plan_def sample_unit_def)

end
