(* ===== verification/Plan_Compile.thy ===== *)
theory Plan_Compile
  imports Delivery_Profile Execution_Plan Workflow_Instance
begin

text \<open>
  \<^verbatim>\<open>execution/compile.py\<close>: an execution plan and a delivery profile become one task per unit and
  phase, chained along the phases of a unit and, phase by phase, along the dependencies of the units;
  the tasks are then added to a new workflow one after the other.
\<close>

section \<open>Compilation\<close>

definition AGENT_ROLE :: "persona_type \<Rightarrow> agent_role" where
  "AGENT_ROLE p =
     (if p = ARCHITECT then AR_ARCHITECT
      else if p \<in> {SPECIFICATION_REVIEWER, CODE_REVIEWER} then AR_REVIEWER
      else AR_CODER)"

definition profile_assignments :: "delivery_profile \<Rightarrow> (phase_type \<times> phase_assignment) list" where
  "profile_assignments profile = foldl (\<lambda>d a. AList.update (pa_phase_type a) a d) [] (dp_phases profile)"

definition profile_personas :: "delivery_profile \<Rightarrow> (string \<times> persona_definition) list" where
  "profile_personas profile = foldl (\<lambda>d p. AList.update (pd_persona_id p) p d) [] (dp_personas profile)"

type_synonym by_phase = "(phase_type \<times> string list) list"

definition phase_get :: "by_phase \<Rightarrow> phase_type \<Rightarrow> string list \<Rightarrow> string list" where
  "phase_get m p d = (case map_of m p of None \<Rightarrow> d | Some v \<Rightarrow> v)"

definition phase_actions :: "by_phase \<Rightarrow> phase_type \<Rightarrow> string list result" where
  "phase_actions actions_by_phase p =
     (case map_of actions_by_phase p of
        None \<Rightarrow> Inl (PowdrrExecutionError ''compiled_workflow_actions_missing''
          (''No action contract was supplied for phase '' @ py_repr (phase_value p) @ ''.''))
      | Some acts \<Rightarrow>
          bind_r (guard_r (list_all (\<lambda>a. strip a \<noteq> []) acts)
            (PowdrrExecutionError ''compiled_workflow_action_invalid''
              (''Action contracts may not contain blank actions for phase '' @ py_repr (phase_value p) @ ''.''))) (\<lambda>_.
          bind_r (guard_r (card (set acts) = length acts)
            (PowdrrExecutionError ''compiled_workflow_action_duplicate''
              (''Action contracts may not contain duplicate actions for phase '' @ py_repr (phase_value p) @ ''.''))) (\<lambda>_.
          bind_r (guard_r (set acts \<subseteq> set SUPPORTED_TASK_ACTIONS)
            (PowdrrExecutionError ''compiled_workflow_action_unsupported''
              (''Action contract contains unsupported action(s): '' @
               py_join '', '' (sorted_set (filter (\<lambda>a. a \<notin> set SUPPORTED_TASK_ACTIONS) acts)) @ ''.''))) (\<lambda>_.
          Inr acts))))"

definition compiled_id :: "string \<Rightarrow> phase_type \<Rightarrow> string" where
  "compiled_id uid p = uid @ ''-'' @ phase_value p"

definition compile_task ::
    "execution_plan \<Rightarrow> execution_unit \<Rightarrow> phase_type \<Rightarrow> phase_assignment \<Rightarrow> persona_definition \<Rightarrow> string list \<Rightarrow>
     by_phase \<Rightarrow> by_phase \<Rightarrow> by_phase \<Rightarrow> string option \<Rightarrow> workflow_task result" where
  "compile_task plan u p assignment persona acts processes intent_ids clause_ids previous =
     make_task \<lparr>task_id = compiled_id (unit_id u) p, task_status = TS_OPEN,
       task_description = phase_value p @ '' for '' @ unit_id u @ '': '' @ objective u,
       task_complexity = TC_MEDIUM,
       input_state = PDict [
         (''artifacts'', texts (pa_input_artifacts assignment)),
         (''execution_plan_id'', PStr (plan_id plan)),
         (''proposed_pr_fingerprint'', PStr (proposed_pr_fingerprint plan)),
         (''execution_unit_id'', PStr (unit_id u)),
         (''phase_type'', PStr (phase_value p)),
         (''persona_id'', PStr (pd_persona_id persona)),
         (''intent_ids'', texts (phase_get intent_ids p [])),
         (''clause_ids'', texts (phase_get clause_ids p []))],
       output_state = PDict [
         (''artifacts'', texts (pa_output_artifacts assignment)),
         (''acceptance_criteria'', texts (acceptance_criteria u)),
         (''validation_profiles'', texts (validation_profiles u))],
       assignee_type = AT_AGENT, assignee_role = AgentRole (AGENT_ROLE (pd_persona_type persona)),
       task_details = None, llm_type = Some (pd_model_profile persona), interaction_style = None,
       uses_processes = phase_get processes p (pd_process_references persona), tool_invocations = [],
       prompt_catalogs = pd_prompt_catalogs persona, task_actions = acts, actions_declared = True,
       output_state_type = ''state'',
       upstream_task_ids = (case previous of None \<Rightarrow> [] | Some t \<Rightarrow> [t])
         @ map (\<lambda>dep. compiled_id dep p) (dependencies u),
       dependent_state = [], step_type = ''governed'', pre_step = None, task_gate = None, coding_loop = None,
       workflow_template = PNone, phase_type = Some p, task_persona_id = Some (pd_persona_id persona),
       process_id = None, process_checkpoint = None\<rparr>"

text \<open>One round of the inner loop: the tasks of the unit so far and the identifier of the last one.\<close>

definition compile_phase ::
    "delivery_profile \<Rightarrow> execution_plan \<Rightarrow> by_phase \<Rightarrow> by_phase \<Rightarrow> by_phase \<Rightarrow> by_phase \<Rightarrow> execution_unit \<Rightarrow>
     workflow_task list \<times> string option \<Rightarrow> phase_type \<Rightarrow> (workflow_task list \<times> string option) result" where
  "compile_phase profile plan actions_by_phase processes intent_ids clause_ids u acc p =
     (case map_of (profile_assignments profile) p of
        None \<Rightarrow> Inl (KeyError (phase_value p))
      | Some assignment \<Rightarrow>
          (case map_of (profile_personas profile) (pa_persona_id assignment) of
             None \<Rightarrow> Inl (KeyError (pa_persona_id assignment))
           | Some persona \<Rightarrow>
               bind_r (phase_actions actions_by_phase p) (\<lambda>acts.
               bind_r (compile_task plan u p assignment persona acts processes intent_ids clause_ids (snd acc)) (\<lambda>t.
               Inr (fst acc @ [t], Some (task_id t))))))"

definition compile_unit ::
    "delivery_profile \<Rightarrow> execution_plan \<Rightarrow> by_phase \<Rightarrow> by_phase \<Rightarrow> by_phase \<Rightarrow> by_phase \<Rightarrow> execution_unit \<Rightarrow>
     workflow_task list result" where
  "compile_unit profile plan actions_by_phase processes intent_ids clause_ids u =
     bind_r (foldM_r (compile_phase profile plan actions_by_phase processes intent_ids clause_ids u) ([], None)
       (map fst (profile_assignments profile))) (\<lambda>acc. Inr (fst acc))"

definition compile_execution_plan ::
    "delivery_profile \<Rightarrow> execution_plan \<Rightarrow> by_phase \<Rightarrow> by_phase \<Rightarrow> by_phase \<Rightarrow> by_phase \<Rightarrow> workflow_task list result" where
  "compile_execution_plan profile plan actions_by_phase processes intent_ids clause_ids =
     (let phases = map fst (profile_assignments profile);
          unknown = filter (\<lambda>p. p \<notin> set phases) (map fst actions_by_phase) in
      bind_r (guard_r (unknown = [])
        (PowdrrExecutionError ''compiled_workflow_phase_unknown''
          (''Action contract contains unknown delivery phase(s): '' @
           py_join '', '' (sort (map phase_value unknown)) @ ''.''))) (\<lambda>_.
      bind_r (mapM_r (compile_unit profile plan actions_by_phase processes intent_ids clause_ids) (plan_units plan)) (\<lambda>tss.
      Inr (concat tss))))"

definition workflow_instance_from_execution_plan ::
    "(string \<Rightarrow> pydict option) \<Rightarrow> delivery_profile \<Rightarrow> execution_plan \<Rightarrow> by_phase \<Rightarrow> by_phase \<Rightarrow> by_phase \<Rightarrow>
     workflow_instance result" where
  "workflow_instance_from_execution_plan files profile plan actions_by_phase intent_ids clause_ids =
     bind_r (compile_execution_plan profile plan actions_by_phase [] intent_ids clause_ids) (create_workflow files)"

section \<open>Identifiers of compiled tasks\<close>

lemma phase_value_no_dash: "CHR ''-'' \<notin> set (phase_value p)"
  by (cases p) auto

lemma split_at_last:
  assumes "a @ c # b = a' @ c # b'" "c \<notin> set b" "c \<notin> set b'"
  shows "a = a' \<and> b = b'"
  using assms
proof (induction a arbitrary: a')
  case Nil
  then show ?case by (cases a') auto
next
  case (Cons x a)
  then show ?case by (cases a') auto
qed

lemma compiled_id_inject [simp]: "compiled_id u p = compiled_id v q \<longleftrightarrow> u = v \<and> p = q"
  using split_at_last [of u "CHR ''-''" "phase_value p" v "phase_value q"] phase_value_no_dash phase_enum.val_inj
  by (auto simp: compiled_id_def)

section \<open>What is compiled\<close>

lemma compile_task_fields:
  assumes "compile_task plan u p a persona acts procs ints cls previous = Inr t"
  shows "task_id t = compiled_id (unit_id u) p \<and> task_status t = TS_OPEN \<and> task_actions t = acts \<and>
    phase_type t = Some p \<and> task_persona_id t = Some (pd_persona_id persona) \<and>
    upstream_task_ids t = (case previous of None \<Rightarrow> [] | Some x \<Rightarrow> [x]) @ map (\<lambda>dep. compiled_id dep p) (dependencies u)"
  using assms by (auto simp: compile_task_def make_task_Inr)

text \<open>The tasks of a unit, for the phases in order: each waits for the one before and for its dependencies.\<close>

fun unit_chain :: "execution_unit \<Rightarrow> string option \<Rightarrow> phase_type list \<Rightarrow> workflow_task list \<Rightarrow> bool" where
  "unit_chain u previous [] ts = (ts = [])"
| "unit_chain u previous (p # ps) [] = False"
| "unit_chain u previous (p # ps) (t # ts) =
     (task_id t = compiled_id (unit_id u) p \<and> task_status t = TS_OPEN \<and> phase_type t = Some p \<and>
      upstream_task_ids t = (case previous of None \<Rightarrow> [] | Some x \<Rightarrow> [x]) @ map (\<lambda>dep. compiled_id dep p) (dependencies u) \<and>
      unit_chain u (Some (task_id t)) ps ts)"

lemma compile_phases_chain:
  assumes "foldM_r (compile_phase profile plan acts procs ints cls u) (ts, previous) ps = Inr (us, fin)"
  shows "\<exists>more. us = ts @ more \<and> unit_chain u previous ps more"
  using assms
proof (induction ps arbitrary: ts previous)
  case (Cons p ps)
  from Cons.prems obtain acc where step: "compile_phase profile plan acts procs ints cls u (ts, previous) p = Inr acc"
    and rest: "foldM_r (compile_phase profile plan acts procs ints cls u) acc ps = Inr (us, fin)" by auto
  from step obtain t a persona xs where t: "acc = (ts @ [t], Some (task_id t))"
    "compile_task plan u p a persona xs procs ints cls previous = Inr t"
    by (auto simp: compile_phase_def split: option.splits)
  from Cons.IH rest t(1) obtain more where "us = (ts @ [t]) @ more" "unit_chain u (Some (task_id t)) ps more" by blast
  with compile_task_fields [OF t(2)] show ?case by (intro exI [of _ "t # more"]) simp
qed simp

lemma compile_unit_chain:
  "compile_unit profile plan acts procs ints cls u = Inr ts \<Longrightarrow> unit_chain u None (map fst (profile_assignments profile)) ts"
  unfolding compile_unit_def using compile_phases_chain [of profile plan acts procs ints cls u "[]" None] by fastforce

section \<open>Adding the compiled tasks\<close>

abbreviation task_ids :: "workflow_instance \<Rightarrow> string set" where
  "task_ids w \<equiv> fst ` set (wf_tasks w)"

lemma add_task_ok:
  assumes "task_id t \<notin> task_ids w" "set (upstream_task_ids t) \<subseteq> task_ids w"
  shows "add_task w t = Inr (put_task w t)" "task_ids (put_task w t) = insert (task_id t) (task_ids w)"
  using assms by (auto simp: add_effect map_of_eq_None_iff put_task_def)

lemma add_chain:
  assumes "unit_chain u previous ps ts" "distinct ps" "set_option previous \<subseteq> task_ids w"
    and "\<And>dep p. dep \<in> set (dependencies u) \<Longrightarrow> p \<in> set ps \<Longrightarrow> compiled_id dep p \<in> task_ids w"
    and "\<And>p. p \<in> set ps \<Longrightarrow> compiled_id (unit_id u) p \<notin> task_ids w"
  shows "\<exists>w'. foldM_r add_task w ts = Inr w' \<and> task_ids w' = task_ids w \<union> compiled_id (unit_id u) ` set ps"
  using assms
proof (induction ps arbitrary: previous ts w)
  case (Cons p ps)
  then obtain t ts' where ts: "ts = t # ts'" "task_id t = compiled_id (unit_id u) p"
    "upstream_task_ids t = (case previous of None \<Rightarrow> [] | Some x \<Rightarrow> [x]) @ map (\<lambda>dep. compiled_id dep p) (dependencies u)"
    "unit_chain u (Some (task_id t)) ps ts'"
    by (cases ts) auto
  have new: "task_id t \<notin> task_ids w" using Cons.prems(5) [of p] ts(2) by simp
  have ups: "set (upstream_task_ids t) \<subseteq> task_ids w"
    using Cons.prems(3,4) by (cases previous) (auto simp: ts(3))
  note added = add_task_ok [OF new ups]
  have "\<exists>w'. foldM_r add_task (put_task w t) ts' = Inr w' \<and>
      task_ids w' = task_ids (put_task w t) \<union> compiled_id (unit_id u) ` set ps"
    using Cons.prems(2,4,5) by (intro Cons.IH [OF ts(4)]) (auto simp: added ts(2))
  with added ts show ?case by auto
qed simp

fun units_ordered :: "string set \<Rightarrow> execution_unit list \<Rightarrow> bool" where
  "units_ordered seen [] = True"
| "units_ordered seen (u # us) = (set (dependencies u) \<subseteq> seen \<and> units_ordered (insert (unit_id u) seen) us)"

lemma add_units:
  assumes "mapM_r (compile_unit profile plan acts procs ints cls) us = Inr tss"
    and "units_ordered seen us" "distinct (map unit_id us)" "seen \<inter> unit_id ` set us = {}"
    and "ps = map fst (profile_assignments profile)" "distinct ps"
    and "task_ids w = {compiled_id x p | x p. x \<in> seen \<and> p \<in> set ps}"
  shows "\<exists>w'. foldM_r add_task w (concat tss) = Inr w' \<and>
    task_ids w' = {compiled_id x p | x p. x \<in> seen \<union> unit_id ` set us \<and> p \<in> set ps}"
  using assms
proof (induction us arbitrary: tss seen w)
  case (Cons u us)
  then obtain ts rest where t: "compile_unit profile plan acts procs ints cls u = Inr ts" "tss = ts # rest"
    "mapM_r (compile_unit profile plan acts procs ints cls) us = Inr rest" by auto
  have "unit_chain u None ps ts" using compile_unit_chain [OF t(1)] Cons.prems(5) by simp
  moreover have "compiled_id dep p \<in> task_ids w" if "dep \<in> set (dependencies u)" "p \<in> set ps" for dep p
    using that Cons.prems(2,7) by auto
  moreover have "compiled_id (unit_id u) p \<notin> task_ids w" if "p \<in> set ps" for p
    using that Cons.prems(4,7) by auto
  ultimately obtain w1 where w1: "foldM_r add_task w ts = Inr w1" "task_ids w1 = task_ids w \<union> compiled_id (unit_id u) ` set ps"
    using add_chain [of u None ps ts w] Cons.prems(6) by auto
  have "task_ids w1 = {compiled_id x p | x p. x \<in> insert (unit_id u) seen \<and> p \<in> set ps}"
    using w1(2) Cons.prems(7) by auto
  from Cons.IH [OF t(3) _ _ _ Cons.prems(5,6) this] Cons.prems(2,3,4) w1(1) t(2) show ?case
    by (auto simp: foldM_r_append)
qed auto

lemma assignments_distinct: "distinct (map fst (profile_assignments profile))"
proof -
  have "distinct (map fst d) \<Longrightarrow> distinct (map fst (foldl (\<lambda>d a. AList.update (pa_phase_type a) a d) d as))" for d as
    by (induction as arbitrary: d) (auto simp: distinct_keys_update)
  from this [of "[]" "dp_phases profile"] show ?thesis by (simp add: profile_assignments_def)
qed

lemma compiled_open:
  assumes "compile_execution_plan profile plan acts procs ints cls = Inr ts"
  shows "list_all (\<lambda>t. task_status t = TS_OPEN) ts"
proof -
  have "unit_chain u prev ps xs \<Longrightarrow> list_all (\<lambda>t. task_status t = TS_OPEN) xs" for u prev ps xs
    by (induction u prev ps xs rule: unit_chain.induct) auto
  moreover from assms obtain tss where tss: "ts = concat tss"
    "mapM_r (compile_unit profile plan acts procs ints cls) (plan_units plan) = Inr tss"
    by (auto simp: compile_execution_plan_def Let_def)
  ultimately have "list_all (\<lambda>t. task_status t = TS_OPEN) xs" if "xs \<in> set tss" for xs
    using compile_unit_chain mapM_r_all [OF tss(2) that] by blast
  then show ?thesis by (auto simp: tss(1) list_all_iff)
qed

lemma created_tasks: "create_workflow files ts = Inr w \<Longrightarrow> tasks_of w = ts"
proof -
  have "foldM_r add_task w0 ts = Inr w \<Longrightarrow> tasks_of w = tasks_of w0 @ ts" for w0
    by (induction ts arbitrary: w0) (auto simp: add_effect tasks_of_def add_tasks)
  then show "create_workflow files ts = Inr w \<Longrightarrow> ?thesis" by (force simp: create_workflow_def tasks_of_def)
qed

section \<open>When compilation succeeds\<close>

lemma foldl_update_lookup:
  "map_of (foldl (\<lambda>d x. AList.update (key x) x d) d xs) k =
    (case map_of (rev (map (\<lambda>x. (key x, x)) xs)) k of Some v \<Rightarrow> Some v | None \<Rightarrow> map_of d k)"
  by (induction xs arbitrary: d) (auto simp: update_conv' map_add_def split: option.splits)

lemma distinct_map_of_rev: "distinct (map fst xs) \<Longrightarrow> map_of (rev xs) = map_of xs"
proof -
  assume "distinct (map fst xs)"
  then have "distinct (map fst (rev xs))" by (simp flip: rev_map)
  with \<open>distinct (map fst xs)\<close> show ?thesis by (simp add: map_of_inject_set)
qed

lemma profile_lookups:
  assumes "profile_ok profile"
  shows "map_of (profile_assignments profile) = map_of (map (\<lambda>a. (pa_phase_type a, a)) (dp_phases profile))"
    "map_of (profile_personas profile) = map_of (map (\<lambda>p. (pd_persona_id p, p)) (dp_personas profile))"
  using assms
  by (auto simp: profile_assignments_def profile_personas_def foldl_update_lookup profile_ok_def Let_def
      distinct_map_of_rev fun_eq_iff split: option.splits)

lemma profile_phases_all:
  assumes "profile_ok profile"
  shows "p \<in> set (map fst (profile_assignments profile))"
proof -
  have "map_of (profile_assignments profile) p \<noteq> None"
    using assms phase_cases_complete [of p] by (auto simp: profile_lookups profile_ok_def Let_def list_all_iff)
  then show ?thesis unfolding map_of_eq_None_iff by simp
qed

lemma compile_phase_ok:
  assumes "profile_ok profile" "is_ok (phase_actions acts p)"
  shows "is_ok (compile_phase profile plan acts procs ints cls u acc p)"
proof -
  obtain a where a: "map_of (profile_assignments profile) p = Some a"
    using profile_phases_all [OF assms(1), of p] by (cases "map_of (profile_assignments profile) p") (auto simp: map_of_eq_None_iff)
  then have "a \<in> set (dp_phases profile)"
    using assms(1) by (auto simp: profile_lookups dest!: map_of_SomeD)
  then have "phase_ok (map (\<lambda>p. (pd_persona_id p, p)) (dp_personas profile)) a"
    using assms(1) by (auto simp: profile_ok_def Let_def list_all_iff)
  then obtain persona where "map_of (profile_personas profile) (pa_persona_id a) = Some persona"
    unfolding profile_lookups [OF assms(1)] phase_ok_def
    by (cases "map_of (map (\<lambda>p. (pd_persona_id p, p)) (dp_personas profile)) (pa_persona_id a)") simp_all
  moreover from assms(2) obtain xs where "phase_actions acts p = Inr xs" by (auto simp: is_ok_iff)
  moreover have "is_ok (compile_task plan u p a persona xs procs ints cls prev)" for prev
    unfolding compile_task_def by (subst make_task_id) (auto simp: role_fits_def)
  ultimately show ?thesis using a by (auto simp: compile_phase_def is_ok_iff)
qed

lemma foldM_total: "(\<And>s x. x \<in> set xs \<Longrightarrow> is_ok (f s x)) \<Longrightarrow> is_ok (foldM_r f s xs)"
  by (induction xs arbitrary: s) (auto simp: is_ok_iff, metis)

lemma mapM_total: "(\<And>x. x \<in> set xs \<Longrightarrow> is_ok (f x)) \<Longrightarrow> is_ok (mapM_r f xs)"
  by (induction xs) (auto simp: is_ok_iff)

lemma compile_ok:
  assumes "profile_ok profile" "list_all (\<lambda>p. is_ok (phase_actions acts p)) phase_members"
  shows "\<exists>ts. compile_execution_plan profile plan acts procs ints cls = Inr ts"
proof -
  have "is_ok (phase_actions acts p)" for p
    using assms(2) phase_cases_complete [of p] by (auto simp: list_all_iff)
  then have "is_ok (compile_unit profile plan acts procs ints cls u)" for u
    using foldM_total [of "map fst (profile_assignments profile)" "compile_phase profile plan acts procs ints cls u" "([], None)"]
      compile_phase_ok [OF assms(1)] by (auto simp: compile_unit_def is_ok_iff)
  then have "is_ok (mapM_r (compile_unit profile plan acts procs ints cls) (plan_units plan))" by (intro mapM_total)
  moreover have "filter (\<lambda>p. p \<notin> set (map fst (profile_assignments profile))) (map fst acts) = []"
    using profile_phases_all [OF assms(1)] by (auto simp: filter_empty_conv)
  ultimately show ?thesis unfolding compile_execution_plan_def Let_def by (auto simp: is_ok_iff)
qed


text \<open>
  The order of the units matters although the plan evaluation does not look at it: a plan whose
  first unit has a dependency is never turned into a workflow, because the tasks of a unit are added
  before those of the units listed after it.
\<close>

theorem dependency_order_rejected:
  assumes "plan_units plan = u # us" "dependencies u \<noteq> []" "dp_phases profile \<noteq> []"
  shows "\<not> is_ok (workflow_instance_from_execution_plan files profile plan acts ints cls)"
proof
  assume "is_ok (workflow_instance_from_execution_plan files profile plan acts ints cls)"
  then obtain w ts where ts: "compile_execution_plan profile plan acts [] ints cls = Inr ts" "create_workflow files ts = Inr w"
    by (auto simp: is_ok_iff workflow_instance_from_execution_plan_def)
  then obtain xs rest where xs: "compile_unit profile plan acts [] ints cls u = Inr xs" "ts = xs @ concat rest"
    using assms(1) by (auto simp: compile_execution_plan_def Let_def)
  obtain p ps where ps: "map fst (profile_assignments profile) = p # ps"
  proof (cases "profile_assignments profile")
    case Nil
    have "fst ` set (foldl (\<lambda>d a. AList.update (pa_phase_type a) a d) d as) = fst ` set d \<union> pa_phase_type ` set as" for d as
      by (induction as arbitrary: d) auto
    from this [of "[]" "dp_phases profile"] Nil assms(3) show ?thesis by (simp add: profile_assignments_def)
  qed auto
  from compile_unit_chain [OF xs(1)] ps obtain t xs' where t: "xs = t # xs'"
    "upstream_task_ids t = map (\<lambda>dep. compiled_id dep p) (dependencies u)"
    by (cases xs) auto
  with ts(2) xs(2) assms(2) show False
    by (cases "dependencies u") (auto simp: create_workflow_def add_effect)
qed

definition sample_profile :: delivery_profile where
  "sample_profile =
     \<lparr>dp_schema_version = DELIVERY_PROFILE_SCHEMA_VERSION, dp_profile_id = ''sample'',
      dp_personas = map (\<lambda>t. \<lparr>pd_persona_id = persona_value t, pd_persona_type = t, pd_model_profile = ''model'',
        pd_prompt_catalogs = [], pd_process_references = [], pd_step_budget = None\<rparr>) persona_members,
      dp_phases = map (\<lambda>p. \<lparr>pa_phase_type = p, pa_persona_id = persona_value (hd (expected_phase_persona_types p)),
        pa_input_artifacts = [], pa_output_artifacts = [], pa_validation_profiles = [],
        pa_auto_approve_low_risk_plan = True\<rparr>) phase_members,
      dp_artifact_handoffs = [], dp_reviews = []\<rparr>"

definition sample_actions :: by_phase where
  "sample_actions = map (\<lambda>p. (p, [''read_document'', ''task_complete''])) phase_members"

lemma sample_profile_ok: "profile_ok sample_profile"
  by code_simp

lemma sample_actions_ok: "list_all (\<lambda>p. is_ok (phase_actions sample_actions p)) phase_members"
  by code_simp


definition reordered_plan :: execution_plan where
  "reordered_plan = sample_plan\<lparr>plan_units := rev (plan_units sample_plan)\<rparr>"

theorem dependency_order_rejected_witness:
  "plan_valid (evaluate_execution_plan reordered_plan ''fp'' [''src/api''] [''repository-validation'']) \<and>
   \<not> is_ok (workflow_instance_from_execution_plan Map.empty sample_profile reordered_plan sample_actions [] [])"
proof
  show "plan_valid (evaluate_execution_plan reordered_plan ''fp'' [''src/api''] [''repository-validation''])" by code_simp
  show "\<not> is_ok (workflow_instance_from_execution_plan Map.empty sample_profile reordered_plan sample_actions [] [])"
    by (rule dependency_order_rejected [of reordered_plan "sample_unit ''ui'' [''api'']" "[sample_unit ''api'' []]"])
      (simp_all add: reordered_plan_def sample_plan_def sample_unit_def sample_profile_def phase_members_def)
qed

end
