(* ===== verification/Execution_Runtime.thy ===== *)
theory Execution_Runtime
  imports Capability_Broker Action_Kernel Execution_Store Phase_Control Readiness Intent_Store Plan_Compile Task_Validation
begin

text \<open>
  \<^verbatim>\<open>execution/runtime.py\<close>: the owner of one execution. It holds the materialized state next to the durable
  store, the action kernel, the capability broker and the documents of rules, intents and plans, computes the
  actions a step may take, and turns every change into events of the store.

  An operation maps a runtime to its result or exception and the runtime it leaves behind; \<open>bind_rt\<close> sequences
  operations and stops at an exception, keeping what was done before. The wall clock, the hash functions, path
  resolution and the checkpoint store are those of the broker's theory; how exceptions and objects print is a
  parameter. \<open>rt_effects\<close> records the tool executions and checkpoints an invocation caused.
\<close>

section \<open>Runtimes and operations\<close>

record runtime_env =
  env_crypto :: crypto
  env_clock :: clock
  env_paths :: "string \<Rightarrow> string list"
  env_hooks :: invoke_hooks
  env_state_json :: "execution_state \<Rightarrow> string"
  env_exc_class :: "exc \<Rightarrow> string"
  env_resolution_text :: "capability_resolution \<Rightarrow> string"

record runtime =
  rt_execution_id :: string
  rt_profile :: "delivery_profile option"
  rt_repo_root :: string
  rt_store :: file_store
  rt_state :: execution_state
  rt_kernel :: action_kernel
  rt_rules :: rule_file
  rt_intents :: intent_file
  rt_plans :: plan_store
  rt_broker :: capability_broker
  rt_projected :: nat
  rt_allowed_actions :: "string set option"
  rt_observer_action :: "(string \<times> string) list option"
  rt_phase_actions :: "string set option"
  rt_persona_actions :: "string set option"
  rt_unit_actions :: "string set option"
  rt_adapter_actions :: "string set option"
  rt_transaction :: "(execution_event_type \<times> pydict) list option"
  rt_effects :: "outside_effect list"

type_synonym 'a rt_op = "runtime \<Rightarrow> 'a result \<times> runtime"

definition bind_rt :: "'a rt_op \<Rightarrow> ('a \<Rightarrow> 'b rt_op) \<Rightarrow> 'b rt_op" where
  "bind_rt m f r = (case m r of (Inl e, r') \<Rightarrow> (Inl e, r') | (Inr x, r') \<Rightarrow> f x r')"

definition ok_rt :: "'a \<Rightarrow> 'a rt_op" where
  "ok_rt x r = (Inr x, r)"

definition raise_rt :: "exc \<Rightarrow> 'a rt_op" where
  "raise_rt e r = (Inl e, r)"

definition lift_rt :: "'a result \<Rightarrow> 'a rt_op" where
  "lift_rt x r = (x, r)"

definition guard_rt :: "bool \<Rightarrow> exc \<Rightarrow> unit rt_op" where
  "guard_rt b e = lift_rt (guard_r b e)"

definition modify_rt :: "(runtime \<Rightarrow> runtime) \<Rightarrow> unit rt_op" where
  "modify_rt f r = (Inr (), f r)"

primrec for_rt :: "('a \<Rightarrow> unit rt_op) \<Rightarrow> 'a list \<Rightarrow> unit rt_op" where
  "for_rt f [] = ok_rt ()"
| "for_rt f (x # xs) = bind_rt (f x) (\<lambda>_. for_rt f xs)"

text \<open>\<^verbatim>\<open>__init__\<close>: load the execution, or create it if its directory has no state yet; the result
  comes with the store and the intents as they are left. \<open>root\<close> is the resolved repository path.\<close>

definition new_runtime ::
    "runtime_env \<Rightarrow> string \<Rightarrow> string \<Rightarrow> string \<Rightarrow> phase_type \<Rightarrow> execution_mode \<Rightarrow> delivery_profile option
     \<Rightarrow> file_store \<Rightarrow> rule_file \<Rightarrow> intent_file \<Rightarrow> plan_store \<Rightarrow> tool_registry \<Rightarrow> string option \<Rightarrow> exception_files
     \<Rightarrow> runtime result \<times> file_store \<times> intent_file" where
  "new_runtime env eid pid root phase md profile st rules intents plans reg auth exceptions =
     (let (loaded, st1) = load st eid;
          opened = (case loaded of
              Inr s \<Rightarrow> Inr (s, st1)
            | Inl e \<Rightarrow> (case e of FileNotFoundError _ \<Rightarrow> create st1 eid pid phase md | _ \<Rightarrow> Inl e)) in
      case opened of
        Inl e \<Rightarrow> (Inl e, st1, intents)
      | Inr (s, st2) \<Rightarrow>
          (case migrate_legacy_behavior_rules (sha256_hex (env_crypto env)) (utc_now (env_clock env)) rules intents of
             (Inl e, intents1) \<Rightarrow> (Inl e, st2, intents1)
           | (Inr _, intents1) \<Rightarrow>
               (Inr \<lparr>rt_execution_id = eid, rt_profile = profile, rt_repo_root = root, rt_store = st2, rt_state = s,
                     rt_kernel = restore_obligations new_kernel (obligations s), rt_rules = rules, rt_intents = intents1,
                     rt_plans = plans, rt_broker = new_broker reg auth (Some exceptions), rt_projected = 0,
                     rt_allowed_actions = None, rt_observer_action = None, rt_phase_actions = None,
                     rt_persona_actions = None, rt_unit_actions = None, rt_adapter_actions = None,
                     rt_transaction = None, rt_effects = []\<rparr>, st2, intents1)))"

section \<open>The action contract of a step\<close>

definition set_action_contract :: "string set option \<Rightarrow> bool \<Rightarrow> runtime \<Rightarrow> runtime" where
  "set_action_contract acts enforce_empty r =
     (let r1 = r\<lparr>rt_allowed_actions := (if (acts \<noteq> None \<and> acts \<noteq> Some {}) \<or> enforce_empty then acts else None),
                 rt_observer_action := None\<rparr> in
      if acts = None \<and> \<not> enforce_empty
      then r1\<lparr>rt_phase_actions := None, rt_persona_actions := None, rt_unit_actions := None, rt_adapter_actions := None\<rparr>
      else r1)"

definition install_step_scope :: "string set \<Rightarrow> bool \<Rightarrow> runtime \<Rightarrow> runtime" where
  "install_step_scope acts enforce_empty r =
     r\<lparr>rt_allowed_actions := (if acts \<noteq> {} \<or> enforce_empty then Some acts else None), rt_observer_action := None\<rparr>"

text \<open>The observer's action is a mapping from keys to texts or \<^verbatim>\<open>None\<close>.\<close>

definition allow_observer_action :: "(string \<times> string option) list \<Rightarrow> unit rt_op" where
  "allow_observer_action action r =
     (case map_of action ''kind'' of
        Some (Some k) \<Rightarrow>
          if strip k \<noteq> [] then
            (Inr (), r\<lparr>rt_observer_action := Some (List.map_filter (\<lambda>(key, v). case v of
                 None \<Rightarrow> None
               | Some s \<Rightarrow> if strip s \<noteq> [] then Some (key, strip s) else None) action)\<rparr>)
          else (Inl (ValueError ''observer action kind must be a non-empty string''), r)
      | _ \<Rightarrow> (Inl (ValueError ''observer action kind must be a non-empty string''), r))"

definition observer_action_matches :: "runtime \<Rightarrow> pydict \<Rightarrow> bool" where
  "observer_action_matches r action =
     (case rt_observer_action r of
        None \<Rightarrow> False
      | Some wanted \<Rightarrow> list_all (\<lambda>(key, v). get_item action key = PStr v) wanted)"

definition consume_observer_action :: "pydict \<Rightarrow> runtime \<Rightarrow> runtime" where
  "consume_observer_action action r =
     (if observer_action_matches r action then r\<lparr>rt_observer_action := None\<rparr> else r)"

definition set_execution_scope ::
    "string set option \<Rightarrow> string set option \<Rightarrow> string set option \<Rightarrow> string set option \<Rightarrow> string set option \<Rightarrow> runtime \<Rightarrow> runtime" where
  "set_execution_scope declared phase_acts persona_acts unit_acts adapter_acts r =
     r\<lparr>rt_allowed_actions := declared, rt_observer_action := None, rt_phase_actions := phase_acts,
       rt_persona_actions := persona_acts, rt_unit_actions := unit_acts, rt_adapter_actions := adapter_acts\<rparr>"

definition installed_scopes :: "runtime \<Rightarrow> string set list" where
  "installed_scopes r = List.map_filter (\<lambda>x. x)
     [rt_allowed_actions r, rt_phase_actions r, rt_persona_actions r, rt_unit_actions r, rt_adapter_actions r]"

definition all_obligations :: "runtime \<Rightarrow> execution_obligation list" where
  "all_obligations r = obligations (rt_state r) @ open_obligations (rt_kernel r)"

definition pending_required_actions :: "runtime \<Rightarrow> string set" where
  "pending_required_actions r =
     set (List.map_filter (\<lambda>ob. if ob_status ob = OS_OPEN then (case required_action ob of Some (c # cs) \<Rightarrow> Some (c # cs) | _ \<Rightarrow> None)
       else None) (all_obligations r))"

definition effective_action_contract :: "runtime \<Rightarrow> string set option" where
  "effective_action_contract r =
     (let scopes = installed_scopes r;
          base = (case scopes of [] \<Rightarrow> {} | s # ss \<Rightarrow> foldl (\<inter>) s ss);
          observed = (case rt_observer_action r of
              None \<Rightarrow> base
            | Some wanted \<Rightarrow> (case map_of wanted ''kind'' of Some k \<Rightarrow> insert k base | None \<Rightarrow> base));
          required = pending_required_actions r;
          result = (if required \<noteq> {} \<and> observed \<inter> required \<noteq> {} then observed \<inter> required else observed) in
      if scopes \<noteq> [] \<or> result \<noteq> {} then Some result else None)"

definition runtime_allowed_actions :: "runtime \<Rightarrow> string list option" where
  "runtime_allowed_actions r =
     map_option (\<lambda>acts. sorted_list_of_set (acts \<union> {''prompt_user'', ''next_step''})) (effective_action_contract r)"

text \<open>\<^verbatim>\<open>without_action_contract\<close>: run a body with no step contract and restore the previous one.\<close>

definition without_action_contract :: "'a rt_op \<Rightarrow> 'a rt_op" where
  "without_action_contract body r =
     (case body (r\<lparr>rt_allowed_actions := None\<rparr>) of (res, r1) \<Rightarrow> (res, r1\<lparr>rt_allowed_actions := rt_allowed_actions r\<rparr>))"

definition validate_action :: "runtime \<Rightarrow> string \<Rightarrow> string list" where
  "validate_action r kind =
     (if kind = ''emit_outputs'' then []
      else case effective_action_contract r of
        None \<Rightarrow> []
      | Some acts \<Rightarrow>
          if kind \<in> acts then []
          else if kind \<in> {''prompt_user'', ''next_step''} then []
          else [''action '' @ py_repr kind @ '' is not allowed by the active step contract''])"

definition ACTION_FAMILIES :: "(string \<times> string list) list" where
  "ACTION_FAMILIES =
     [(''edit_files'', [''edit'', ''yaml_edit'', ''file_management'', ''delete_file'']),
      (''validate_edit'', [''validate_edit'']), (''apply_edit'', [''apply_edit'']), (''run_process'', [''shell'']),
      (''inspect_code'', [''basedpyright'']), (''discover_files'', [''fuzzy_match'']),
      (''gather_context'', [''gather_context'']), (''read_document'', [''read_document'']),
      (''list_files'', [''list_files'']), (''inspect_repository'', [''git'']), (''mutate_repository'', [''git'']),
      (''inspect_pull_request'', [''gh'']), (''mutate_pull_request'', [''gh'']), (''enrich_test_output'', [''enrich''])]"

definition validate_capability_action :: "runtime \<Rightarrow> string \<Rightarrow> string list" where
  "validate_capability_action r sem =
     (case effective_action_contract r of
        None \<Rightarrow> []
      | Some acts \<Rightarrow>
          if ''invoke_tool'' \<in> acts then []
          else if sem \<in> acts then []
          else if acts \<inter> set (case map_of ACTION_FAMILIES sem of Some xs \<Rightarrow> xs | None \<Rightarrow> []) \<noteq> {} then []
          else [''capability semantic action '' @ py_repr sem @ '' is not allowed by '' @ ''the active step contract''])"

definition runtime_context :: "runtime \<Rightarrow> string set \<Rightarrow> tool_effect set \<Rightarrow> string option \<Rightarrow> tool_context" where
  "runtime_context r acts effs uid =
     \<lparr>repo_root = rt_repo_root r, worktree_root = rt_repo_root r, ctx_semantic_actions = acts,
      ctx_allowed_effects = effs, ctx_execution_id = Some (rt_execution_id r), ctx_active_unit_id = uid,
      ctx_active_persona_id = current_persona_id (rt_state r)\<rparr>"

section \<open>Events and transactions\<close>

definition runtime_event :: "runtime \<Rightarrow> execution_event_type \<Rightarrow> pydict \<Rightarrow> int \<Rightarrow> execution_event" where
  "runtime_event r ty pl offset =
     (let sq = event_sequence (rt_state r) + offset in
      \<lparr>ev_execution_id = rt_execution_id r, ev_sequence = sq,
       expected_state_version = state_version (rt_state r) + offset - 1, event_type = ty, payload = pl,
       event_id = rt_execution_id r @ '':'' @ show_int sq\<rparr>)"

text \<open>\<^verbatim>\<open>self.state = self.state_store.append(...)\<close>.\<close>

definition store_append :: "execution_event list \<Rightarrow> execution_state rt_op" where
  "store_append es r =
     (case append_events (rt_store r) (rt_execution_id r) (state_version (rt_state r)) es of
        Inl e \<Rightarrow> (Inl e, r)
      | Inr (s, st) \<Rightarrow> (Inr s, r\<lparr>rt_store := st, rt_state := s\<rparr>))"

definition runtime_append_event :: "execution_event_type \<Rightarrow> pydict \<Rightarrow> execution_state rt_op" where
  "runtime_append_event ty pl r =
     (case rt_transaction r of
        Some queued \<Rightarrow> (Inr (rt_state r), r\<lparr>rt_transaction := Some (queued @ [(ty, pl)])\<rparr>)
      | None \<Rightarrow> store_append [runtime_event r ty pl 1] r)"

definition runtime_append_events :: "execution_event list \<Rightarrow> execution_state rt_op" where
  "runtime_append_events es r =
     (case rt_transaction r of
        Some queued \<Rightarrow> (Inr (rt_state r), r\<lparr>rt_transaction := Some (queued @ map (\<lambda>e. (event_type e, payload e)) es)\<rparr>)
      | None \<Rightarrow> store_append es r)"

definition queued_events :: "runtime \<Rightarrow> (execution_event_type \<times> pydict) list \<Rightarrow> execution_event list" where
  "queued_events r queued = map (\<lambda>(i, (ty, pl)). runtime_event r ty pl (int i)) (List.enumerate 1 queued)"

text \<open>The attempts of \<^verbatim>\<open>_commit_transaction\<close>: on a conflict reload the state, except after the last one.\<close>

fun commit_attempts :: "nat \<Rightarrow> (execution_event_type \<times> pydict) list \<Rightarrow> unit rt_op" where
  "commit_attempts 0 queued r = (Inl (ValueError ''unreachable''), r)"
| "commit_attempts (Suc n) queued r =
     (case append_transaction (rt_store r) (rt_execution_id r) (state_version (rt_state r)) (queued_events r queued) of
        (Inr s, st) \<Rightarrow> (Inr (), r\<lparr>rt_store := st, rt_state := s\<rparr>)
      | (Inl e, st) \<Rightarrow>
          (case e of
             ExecutionStateConflict cid expected actual \<Rightarrow>
               if n = 0 then (Inl e, r\<lparr>rt_store := st\<rparr>)
               else (case load st (rt_execution_id r) of
                   (Inl e', st') \<Rightarrow> (Inl e', r\<lparr>rt_store := st'\<rparr>)
                 | (Inr s, st') \<Rightarrow> commit_attempts n queued (r\<lparr>rt_store := st', rt_state := s\<rparr>))
           | _ \<Rightarrow> (Inl e, r\<lparr>rt_store := st\<rparr>)))"

definition commit_transaction :: "(execution_event_type \<times> pydict) list \<Rightarrow> unit rt_op" where
  "commit_transaction queued = commit_attempts 3 queued"

text \<open>
  \<^verbatim>\<open>transaction\<close>: the queued events are committed whether the body returns or raises; an exception of the
  commit takes precedence. A nested transaction joins the outer one.
\<close>

definition transaction :: "'a rt_op \<Rightarrow> 'a rt_op" where
  "transaction body r =
     (case rt_transaction r of
        Some _ \<Rightarrow> body r
      | None \<Rightarrow>
          (case body (r\<lparr>rt_transaction := Some []\<rparr>) of
             (res, r1) \<Rightarrow>
               (case rt_transaction r1 of
                  None \<Rightarrow> (res, r1)
                | Some queued \<Rightarrow>
                    (case (if queued = [] then (Inr (), r1) else commit_transaction queued r1) of
                       (Inl e, r2) \<Rightarrow> (Inl e, r2\<lparr>rt_transaction := None\<rparr>)
                     | (Inr _, r2) \<Rightarrow> (res, r2\<lparr>rt_transaction := None\<rparr>)))))"

definition sync_kernel :: "string \<Rightarrow> string \<Rightarrow> execution_state rt_op" where
  "sync_kernel phase actor r =
     (let k = rt_kernel r; pending = drop (rt_projected r) (k_events k); done = length (k_events k) in
      if pending = [] then (Inr (rt_state r), r)
      else
        (case to_execution_events k (rt_execution_id r) phase actor (Some (rt_state r)) (Some pending) of
           Inl e \<Rightarrow> (Inl e, r)
         | Inr es \<Rightarrow>
             if rt_transaction r \<noteq> None then
               (case runtime_append_events es r of (res, r1) \<Rightarrow> (Inr (rt_state r1), r1\<lparr>rt_projected := done\<rparr>))
             else
               (case store_append es r of
                  (Inr s, r1) \<Rightarrow> (Inr s, r1\<lparr>rt_projected := done\<rparr>)
                | (Inl e, r1) \<Rightarrow>
                    (case e of
                       ExecutionStateConflict cid expected actual \<Rightarrow>
                         (case load (rt_store r) (rt_execution_id r) of
                            (Inl e', st) \<Rightarrow> (Inl e', r\<lparr>rt_store := st\<rparr>)
                          | (Inr s, st) \<Rightarrow>
                              let r2 = r\<lparr>rt_store := st, rt_state := s\<rparr> in
                              (case to_execution_events k (rt_execution_id r) phase actor (Some s) None of
                                 Inl e' \<Rightarrow> (Inl e', r2)
                               | Inr es' \<Rightarrow>
                                   (case store_append es' r2 of
                                      (Inl e', r3) \<Rightarrow> (Inl e', r3)
                                    | (Inr s', r3) \<Rightarrow> (Inr s', r3\<lparr>rt_projected := done\<rparr>))))
                     | _ \<Rightarrow> (Inl e, r1)))))"

section \<open>Readiness and phase transitions\<close>

definition runtime_readiness :: "runtime \<Rightarrow> readiness_report" where
  "runtime_readiness r = evaluate_readiness (rt_state r) [] [] None"

text \<open>
  \<^verbatim>\<open>publish_readiness(**kwargs)\<close>: \<open>kwargs\<close> holds the three arguments of the evaluator, or nothing; then the
  artifacts of the profile's publish phase are required.
\<close>

definition publish_readiness ::
    "(evidence_requirement list \<times> string list \<times> publish_requirements option) option \<Rightarrow> runtime \<Rightarrow> readiness_report" where
  "publish_readiness kwargs r =
     (case kwargs of
        Some (ev, arts, pub) \<Rightarrow> evaluate_readiness (rt_state r) ev arts pub
      | None \<Rightarrow>
          evaluate_readiness (rt_state r) []
            (case rt_profile r of
               None \<Rightarrow> []
             | Some p \<Rightarrow> (case List.find (\<lambda>item. pa_phase_type item = PUBLISH_PR) (dp_phases p) of
                 None \<Rightarrow> [] | Some item \<Rightarrow> pa_input_artifacts item)) None)"

definition require_publish_readiness ::
    "(evidence_requirement list \<times> string list \<times> publish_requirements option) option \<Rightarrow> readiness_report rt_op" where
  "require_publish_readiness kwargs r =
     (let report = publish_readiness kwargs r in
      if ready report then (Inr report, r)
      else (Inl (PowdrrExecutionError ''readiness_blocked''
        (''Pull-request publication is blocked by execution readiness: '' @ py_join ''; '' (reasons report))), r))"

text \<open>What a profile has to say against a transition the topology allows: the persona, then the handoff.\<close>

definition profile_objections :: "delivery_profile \<Rightarrow> execution_state \<Rightarrow> phase_type \<Rightarrow> string option \<Rightarrow> string list" where
  "profile_objections p s target persona =
     (let assignment = List.find (\<lambda>item. pa_phase_type item = target) (dp_phases p) in
      case (assignment, persona) of
        (Some item, Some who) \<Rightarrow>
          if who \<noteq> pa_persona_id item
          then [''phase '' @ phase_value target @ '' is assigned to persona '' @ py_repr (pa_persona_id item)]
          else snd (validate_handoff p s (current_phase s) target (map artifact_id (artifacts s)))
      | _ \<Rightarrow> snd (validate_handoff p s (current_phase s) target (map artifact_id (artifacts s))))"

definition transition_phase :: "phase_type \<Rightarrow> string option \<Rightarrow> phase_decision rt_op" where
  "transition_phase target persona r =
     (let s = rt_state r;
          decision = evaluate_transition (controller_transitions None) s target
            (py_dedup (map ob_description (all_obligations r)));
          objections = (case rt_profile r of None \<Rightarrow> [] | Some p \<Rightarrow> profile_objections p s target persona) in
      if \<not> allowed decision then (Inr decision, r)
      else if objections \<noteq> [] then (Inr (decision\<lparr>allowed := False, guards := objections\<rparr>), r)
      else
        (case store_append [runtime_event r PHASE_ENTERED
               [(''phase_type'', PStr (phase_value target)), (''persona_id'', opt_str persona)] 1] r of
           (Inl e, r1) \<Rightarrow> (Inl e, r1)
         | (Inr _, r1) \<Rightarrow> (Inr decision, r1)))"

section \<open>Recording\<close>

definition record_artifact :: "execution_artifact \<Rightarrow> execution_state rt_op" where
  "record_artifact a = runtime_append_event ARTIFACT_PRODUCED (artifact_to_data a)"

definition accept_artifact :: "string \<Rightarrow> execution_state rt_op" where
  "accept_artifact aid = runtime_append_event ARTIFACT_ACCEPTED [(''artifact_id'', PStr aid)]"

definition record_finding :: "execution_finding \<Rightarrow> execution_state rt_op" where
  "record_finding f = runtime_append_event FINDING_OPENED (finding_to_data f)"

definition record_disposition :: "string \<Rightarrow> string \<Rightarrow> execution_state rt_op" where
  "record_disposition fid status =
     runtime_append_event FINDING_DISPOSED [(''finding_id'', PStr fid), (''status'', PStr status)]"

definition record_observer_decision ::
    "string \<Rightarrow> string \<Rightarrow> string \<Rightarrow> string \<Rightarrow> bool option \<Rightarrow> string option \<Rightarrow> string option \<Rightarrow> string option \<Rightarrow> execution_state rt_op" where
  "record_observer_decision verdict reason kind signature moved target_act step proc =
     (if strip verdict = [] \<or> strip reason = [] \<or> strip kind = []
      then raise_rt (PowdrrExecutionError ''observer_decision_incomplete''
        ''Observer decisions require verdict, reason, and action.'')
      else runtime_append_event OBSERVER_DECISION
        [(''verdict'', PStr verdict), (''reason'', PStr reason), (''action_kind'', PStr kind),
         (''action_signature'', PStr signature),
         (''material_progress'', (case moved of None \<Rightarrow> PNone | Some b \<Rightarrow> PBool b)),
         (''target_action'', opt_str target_act), (''target_step_id'', opt_str step), (''target_process_id'', opt_str proc)])"

definition evidence_payload :: "string \<Rightarrow> string \<Rightarrow> string \<Rightarrow> string \<Rightarrow> bool \<Rightarrow> pydict" where
  "evidence_payload evid producer ty fp good =
     [(''evidence_id'', PStr evid), (''producer_action_instance_id'', PStr producer), (''evidence_type'', PStr ty),
      (''input_fingerprint'', PStr fp), (''successful'', PBool good), (''fresh'', PBool True)]"

text \<open>\<^verbatim>\<open>record_evidence\<close> appends to the store even inside a transaction.\<close>

definition record_evidence :: "string \<Rightarrow> string \<Rightarrow> string \<Rightarrow> string \<Rightarrow> bool \<Rightarrow> execution_state rt_op" where
  "record_evidence evid producer ty fp good r =
     store_append [runtime_event r EVIDENCE_RECORDED (evidence_payload evid producer ty fp good) 1] r"

definition invalidate_runtime_evidence :: "string set \<Rightarrow> execution_state rt_op" where
  "invalidate_runtime_evidence fps r =
     (case for_rt (\<lambda>e. bind_rt (runtime_append_event EVIDENCE_INVALIDATED [(''evidence_id'', PStr (evidence_id e))]) (\<lambda>_. ok_rt ()))
        (filter (\<lambda>e. input_fingerprint e \<in> fps \<and> fresh e) (evidence (rt_state r))) r of
        (Inl e, r1) \<Rightarrow> (Inl e, r1)
      | (Inr _, r1) \<Rightarrow> (Inr (rt_state r1), r1))"

definition runtime_verify :: "runtime_env \<Rightarrow> execution_state rt_op" where
  "runtime_verify env r =
     (case verify (rt_store r) (rt_execution_id r) of
        (Inr s, st) \<Rightarrow> (Inr s, r\<lparr>rt_store := st, rt_state := s\<rparr>)
      | (Inl e, st) \<Rightarrow>
          (case e of
             ValueError m \<Rightarrow> (Inl (PowdrrExecutionError ''execution_state_corrupt''
               (''Execution state verification failed: '' @ m)), r\<lparr>rt_store := st\<rparr>)
           | FileNotFoundError m \<Rightarrow> (Inl (PowdrrExecutionError ''execution_state_corrupt''
               (''Execution state verification failed: '' @ exc_text (env_hooks env) e)), r\<lparr>rt_store := st\<rparr>)
           | _ \<Rightarrow> (Inl e, r\<lparr>rt_store := st\<rparr>)))"

section \<open>Plans\<close>

definition plan_decision_id :: "string \<Rightarrow> string \<Rightarrow> string" where
  "plan_decision_id pid d = ''plan-decision:'' @ pid @ '':'' @ d"

definition open_plan_decision :: "string \<Rightarrow> string \<Rightarrow> unit rt_op" where
  "open_plan_decision pid d r =
     (if list_ex (\<lambda>ob. obligation_id ob = plan_decision_id pid d) (obligations (rt_state r)) then (Inr (), r)
      else bind_rt (runtime_append_event OBLIGATION_OPENED (obligation_to_data
        \<lparr>obligation_id = plan_decision_id pid d, ob_description = ''Resolve plan decision: '' @ d, ob_status = OS_OPEN,
         source_action_instance_id = None, required_action = None, relationship_id = Some pid, target_ref = None\<rparr>))
        (\<lambda>_. ok_rt ()) r)"

definition runtime_evaluation :: "delivery_profile \<Rightarrow> execution_plan \<Rightarrow> plan_evaluation" where
  "runtime_evaluation profile plan =
     evaluate_execution_plan plan (Execution_Plan.proposed_pr_fingerprint plan)
       (concat (map unit_paths (plan_units plan))) (concat (map pa_validation_profiles (dp_phases profile)))"

definition compile_plan ::
    "delivery_profile \<Rightarrow> execution_plan \<Rightarrow> by_phase \<Rightarrow> by_phase \<Rightarrow> by_phase \<Rightarrow> workflow_task list rt_op" where
  "compile_plan profile plan acts intents clauses =
     (let ev = runtime_evaluation profile plan in
      if \<not> plan_valid ev
      then raise_rt (PowdrrExecutionError ''execution_plan_invalid''
        (''execution plan is not compilable: '' @ py_join ''; '' (plan_issues ev)))
      else
        bind_rt (modify_rt (\<lambda>r. r\<lparr>rt_plans := save_plan (rt_plans r) plan\<rparr>)) (\<lambda>_.
        bind_rt (for_rt (open_plan_decision (plan_id plan)) (required_decisions ev)) (\<lambda>_.
        if acts = [] then ok_rt []
        else lift_rt (compile_execution_plan profile plan acts [] intents clauses))))"

definition compile_plan_to_workflow ::
    "delivery_profile \<Rightarrow> execution_plan \<Rightarrow> by_phase \<Rightarrow> by_phase \<Rightarrow> by_phase \<Rightarrow> (string \<Rightarrow> pydict option) \<Rightarrow> workflow_instance rt_op" where
  "compile_plan_to_workflow profile plan acts intents clauses files =
     bind_rt (compile_plan profile plan acts intents clauses) (\<lambda>_.
     lift_rt (workflow_instance_from_execution_plan files profile plan acts intents clauses))"

definition resolve_plan_decision :: "string \<Rightarrow> string \<Rightarrow> execution_state rt_op" where
  "resolve_plan_decision pid d r =
     (if \<not> list_ex (\<lambda>ob. obligation_id ob = plan_decision_id pid d \<and> ob_status ob = OS_OPEN) (obligations (rt_state r))
      then (Inl (PowdrrExecutionError ''plan_decision_not_open'' (''open plan decision not found: '' @ d)), r)
      else runtime_append_event OBLIGATION_SATISFIED [(''obligation_id'', PStr (plan_decision_id pid d))] r)"

section \<open>Guidance\<close>

definition guidance_context :: "runtime \<Rightarrow> (string \<times> string) list" where
  "guidance_context r = [(''profile_id'', profile_id (rt_state r)), (''phase_type'', phase_value (current_phase (rt_state r)))]"

definition runtime_contract :: "runtime_env \<Rightarrow> runtime \<Rightarrow> (string \<times> string) list \<Rightarrow> effective_contract result" where
  "runtime_contract env r context = resolve_effective_contract (sha256_hex (env_crypto env)) (rt_intents r) context"

text \<open>A rule is unexpired before its date: the negation of the clock's comparison.\<close>

definition load_applicable_guidance :: "runtime_env \<Rightarrow> runtime \<Rightarrow> (string \<times> string) list \<Rightarrow> behavior_rule list result" where
  "load_applicable_guidance env r context =
     bind_r (list_rules (rt_rules r) False) (\<lambda>rules.
     applicable_behavior_rules (\<lambda>s. bind_r (past (env_clock env) s) (\<lambda>late. Inr (\<not> late))) rules context)"

definition guidance_required_actions :: "runtime_env \<Rightarrow> runtime \<Rightarrow> string set result" where
  "guidance_required_actions env r =
     bind_r (runtime_contract env r (guidance_context r)) (\<lambda>c.
     Inr (set (concat (map (requirements \<circ> contract) (ec_clauses c)))))"

definition triggered_requirements :: "effective_contract \<Rightarrow> string \<Rightarrow> string list" where
  "triggered_requirements c act =
     sorted_set (concat (map (requirements \<circ> contract)
       (filter (\<lambda>cl. trigger (contract cl) = AFTER_ACTION \<and> trigger_action (contract cl) = Some act) (ec_clauses c))))"

definition guidance_obligation :: "string \<Rightarrow> string \<Rightarrow> string \<Rightarrow> execution_obligation" where
  "guidance_obligation aid act req =
     \<lparr>obligation_id = aid @ '':guidance:'' @ req,
      ob_description = ''Durable guidance requires '' @ req @ '' after '' @ act @ ''.'', ob_status = OS_OPEN,
      source_action_instance_id = Some aid, required_action = Some req, relationship_id = Some ''durable-guidance'',
      target_ref = None\<rparr>"

definition apply_guidance_obligations :: "runtime_env \<Rightarrow> string \<Rightarrow> string \<Rightarrow> unit rt_op" where
  "apply_guidance_obligations env aid act r =
     (case runtime_contract env r (guidance_context r) of
        Inl e \<Rightarrow> (Inl e, r)
      | Inr c \<Rightarrow> (Inr (), r\<lparr>rt_kernel := foldl (\<lambda>k req. add_obligation k (guidance_obligation aid act req)
          (Some (MappingAction [(''action_instance_id'', PStr aid), (''kind'', PStr act)])))
          (rt_kernel r) (triggered_requirements c act)\<rparr>))"

definition remember_guidance :: "behavior_rule \<Rightarrow> int option \<Rightarrow> behavior_rule rt_op" where
  "remember_guidance rule expected r =
     (case save_rule (rt_rules r) rule expected of
        Inl e \<Rightarrow> (Inl e, r) | Inr (saved, file) \<Rightarrow> (Inr saved, r\<lparr>rt_rules := file\<rparr>))"

definition revoke_guidance :: "string \<Rightarrow> int \<Rightarrow> behavior_rule rt_op" where
  "revoke_guidance rid expected r =
     (case revoke_rule (rt_rules r) rid expected of
        Inl e \<Rightarrow> (Inl e, r) | Inr (saved, file) \<Rightarrow> (Inr saved, r\<lparr>rt_rules := file\<rparr>))"

definition supersede_guidance :: "string \<Rightarrow> behavior_rule \<Rightarrow> int \<Rightarrow> behavior_rule rt_op" where
  "supersede_guidance rid replacement expected r =
     (case supersede_rule (rt_rules r) rid replacement expected of
        Inl e \<Rightarrow> (Inl e, r) | Inr (saved, file) \<Rightarrow> (Inr saved, r\<lparr>rt_rules := file\<rparr>))"

definition capture_guidance_intent ::
    "runtime_env \<Rightarrow> string \<Rightarrow> string \<Rightarrow> string \<Rightarrow> (string \<times> string) list \<Rightarrow> string option \<Rightarrow> string list \<Rightarrow> behavior_rule \<Rightarrow> behavior_rule rt_op" where
  "capture_guidance_intent env rid text source_ref sc trigger_act reqs saved r =
     (let digest = sha256_hex (env_crypto env) in
      case bind_r (make_intent_source digest (utc_now (env_clock env)) (''guidance:'' @ rid) text source_ref ''user-guidance'') (\<lambda>src.
           bind_r (list_sources digest (rt_intents r)) (\<lambda>srcs.
           if list_ex (\<lambda>item. src_intent_id item = src_intent_id src) srcs then Inr (rt_intents r)
           else
             bind_r (new_contract (map (\<lambda>(k, v). (k, [v])) sc) (if trigger_act \<noteq> None then AFTER_ACTION else BEFORE_ACTION)
               trigger_act reqs None 0) (\<lambda>c.
             bind_r (capture digest (rt_intents r) src
               [\<lparr>clause_id = ''guidance:'' @ rid @ '':v'' @ show_int (rule_version saved), cl_intent_id = src_intent_id src,
                 source_span = (0, int (length text)), cl_kind = GUIDANCE, contract = c, cl_version = rule_version saved,
                 cl_active = True, supersedes_clause_id = None\<rparr>]) (\<lambda>(_, file). Inr file)))) of
        Inl e \<Rightarrow> (Inl e, r)
      | Inr file \<Rightarrow> (Inr saved, r\<lparr>rt_intents := file\<rparr>))"

definition capture_guidance ::
    "runtime_env \<Rightarrow> string \<Rightarrow> string \<Rightarrow> (string \<times> string) list option \<Rightarrow> string option \<Rightarrow> string list \<Rightarrow> behavior_rule rt_op" where
  "capture_guidance env text source_ref sc trigger_act reqs r =
     (let normalized = normalize_behavior_text text;
          rid = ''guidance-'' @ take 20 (sha256_hex (env_crypto env) normalized);
          sc' = (case sc of Some x \<Rightarrow> x | None \<Rightarrow> [(''profile_id'', profile_id (rt_state r))]) in
      if normalized = [] then (Inl (PowdrrExecutionError ''guidance_empty'' ''Guidance text must not be empty.''), r)
      else
        bind_rt (lift_rt (list_rules (rt_rules r) True)) (\<lambda>rules.
        bind_rt (lift_rt (nominate_behavior_rule text rid source_ref (Some sc'))) (\<lambda>rule.
        bind_rt (remember_guidance rule (map_option rule_version (find_rule rules rid))) (\<lambda>saved.
        capture_guidance_intent env rid text source_ref sc' trigger_act reqs saved))) r)"

definition capture_explicit_guidance :: "runtime_env \<Rightarrow> string \<Rightarrow> string \<Rightarrow> behavior_rule option rt_op" where
  "capture_explicit_guidance env text source_ref =
     (if list_ex (startswith (casefold (strip text))) [''always '', ''never '', ''when you '', ''i want you to '']
      then bind_rt (capture_guidance env text source_ref None None []) (\<lambda>x. ok_rt (Some x))
      else ok_rt None)"

section \<open>Exceptions to capability constraints\<close>

text \<open>\<^verbatim>\<open>_with_idempotency_key\<close>: external repository writes get a key derived from the request.\<close>

definition with_idempotency_key :: "crypto \<Rightarrow> capability_request \<Rightarrow> capability_request result" where
  "with_idempotency_key cr rq =
     (if rq_tool_name rq \<noteq> ''repository'' then Inr rq
      else bind_r (set_member (get_item (rq_arguments rq) ''operation'') [''pr_create'', ''pr_publish_clean'', ''pr_edit'',
          ''pr_review_comment'', ''pr_review_reply'', ''pr_review_resolve'']) (\<lambda>external.
        if \<not> external then Inr rq
        else if truthy (get_item (rq_arguments rq) ''idempotency_key'') then Inr rq
        else Inr (rq\<lparr>rq_arguments := AList.update ''idempotency_key''
          (PStr (''powdrr-'' @ take 24 (sha256_hex cr (json_compact (PDict
            [(''tool'', PStr (rq_tool_name rq)), (''action'', PStr (rq_semantic_action rq)),
             (''arguments'', PDict (rq_arguments rq))])))))
          (rq_arguments rq)\<rparr>)))"

text \<open>Run an operation of the broker.\<close>

definition broker_op :: "(capability_broker \<Rightarrow> 'a result \<times> capability_broker) \<Rightarrow> 'a rt_op" where
  "broker_op f r = (case f (rt_broker r) of (res, br) \<Rightarrow> (res, r\<lparr>rt_broker := br\<rparr>))"

definition guard_capability :: "capability_request \<Rightarrow> unit rt_op" where
  "guard_capability rq r =
     (case validate_capability_action r (rq_semantic_action rq) of
        [] \<Rightarrow> (Inr (), r)
      | err # _ \<Rightarrow> (Inl (PowdrrExecutionError ''capability_action_not_allowed'' err), r))"

definition request_capability_exception ::
    "runtime_env \<Rightarrow> tool_context \<Rightarrow> capability_request \<Rightarrow> string \<Rightarrow> string \<Rightarrow> int \<Rightarrow> exception_request rt_op" where
  "request_capability_exception env ctx rq reason expires_at max_uses =
     bind_rt (lift_rt (with_idempotency_key (env_crypto env) rq)) (\<lambda>rq1.
      bind_rt (guard_capability rq1) (\<lambda>_.
      bind_rt (broker_op (\<lambda>br. create_exception_request (env_crypto env) (env_clock env) br ctx rq1 reason expires_at max_uses)) (\<lambda>x.
      case x of
        None \<Rightarrow> raise_rt (PowdrrExecutionError ''capability_exception_not_eligible''
          ''capability exception request is not eligible'')
      | Some y \<Rightarrow>
          bind_rt (runtime_append_event CAPABILITY_EXCEPTION_REQUESTED
            [(''exception_id'', PStr (ce_exception_id y)), (''decision_packet'', PDict (decision_packet y)),
             (''reason'', PStr reason)]) (\<lambda>_. ok_rt y))))"

definition decide_capability_exception ::
    "runtime_env \<Rightarrow> exception_request \<Rightarrow> bool \<Rightarrow> string \<Rightarrow> exception_decision rt_op" where
  "decide_capability_exception env x approved decided_by =
     bind_rt (broker_op (\<lambda>br. decide_exception (env_crypto env) (env_clock env) br x approved decided_by)) (\<lambda>d.
     bind_rt (runtime_append_event CAPABILITY_DECISION
       [(''exception_id'', PStr (ce_exception_id x)), (''kind'', PStr (if approved then ''executable'' else ''denied'')),
        (''reason'', PStr (if approved then ''exception approved'' else ''exception denied'')),
        (''decided_by'', PStr decided_by), (''decision_packet'', PDict (decision_packet x))]) (\<lambda>_. ok_rt d))"

section \<open>Invocation\<close>

definition exc_error :: "runtime_env \<Rightarrow> exc \<Rightarrow> kernel_error" where
  "exc_error env e =
     (case e of
        PowdrrExecutionError code msg \<Rightarrow> ObjectError ''PowdrrExecutionError'' msg (Some (PStr code))
      | ExecutionStateConflict _ _ _ \<Rightarrow>
          ObjectError ''ExecutionStateConflict'' (exc_text (env_hooks env) e) (Some (PStr ''execution_state_conflict''))
      | _ \<Rightarrow> ObjectError (env_exc_class env e) (exc_text (env_hooks env) e) None)"

definition kernel_step :: "(action_kernel \<Rightarrow> lifecycle_event \<times> action_kernel) \<Rightarrow> unit rt_op" where
  "kernel_step f = modify_rt (\<lambda>r. r\<lparr>rt_kernel := snd (f (rt_kernel r))\<rparr>)"

text \<open>\<^verbatim>\<open>sync_kernel\<close> with the current phase and persona.\<close>

definition sync_current :: "unit rt_op" where
  "sync_current r =
     bind_rt (sync_kernel (phase_value (current_phase (rt_state r)))
       (case current_persona_id (rt_state r) of Some (c # cs) \<Rightarrow> c # cs | _ \<Rightarrow> ''execution-runtime'')) (\<lambda>_. ok_rt ()) r"

text \<open>\<^verbatim>\<open>broker.invoke\<close>, with the current state as the snapshot of a checkpoint.\<close>

definition broker_invoke :: "runtime_env \<Rightarrow> tool_context \<Rightarrow> capability_request \<Rightarrow> invocation_result rt_op" where
  "broker_invoke env ctx rq r =
     (case invoke (env_crypto env) (env_clock env) (env_paths env)
         ((env_hooks env)\<lparr>state_json_provider := Some (\<lambda>_. Some (env_state_json env (rt_state r)))\<rparr>) (rt_broker r) ctx rq of
        (res, br, out) \<Rightarrow> (res, r\<lparr>rt_broker := br, rt_effects := rt_effects r @ out\<rparr>))"

definition decision_events :: "runtime \<Rightarrow> capability_decision list \<Rightarrow> execution_event list" where
  "decision_events r ds =
     map (\<lambda>(i, d). runtime_event r CAPABILITY_DECISION (capability_decision_to_data d) (int i)) (List.enumerate 1 ds)"

fun tool_result_successful :: "pyval \<Rightarrow> bool" where
  "tool_result_successful (PDict d) = (case map_of d ''returncode'' of None \<Rightarrow> True | Some v \<Rightarrow> py_eq v (PInt 0))"
| "tool_result_successful v = True"

definition request_fingerprint :: "crypto \<Rightarrow> capability_request \<Rightarrow> string" where
  "request_fingerprint cr rq = sha256_hex cr (json_sorted (PDict
     [(''tool'', PStr (rq_tool_name rq)), (''action'', PStr (rq_semantic_action rq)), (''arguments'', PDict (rq_arguments rq))]))"

text \<open>The events of an invocation: decisions, checkpoints, evidence made stale by them, and the new evidence.\<close>

definition numbered_events :: "runtime \<Rightarrow> nat \<Rightarrow> (execution_event_type \<times> pydict) list \<Rightarrow> execution_event list" where
  "numbered_events r n items = map (\<lambda>(i, (ty, pl)). runtime_event r ty pl (int i)) (List.enumerate (n + 1) items)"

definition invocation_events ::
    "runtime_env \<Rightarrow> runtime \<Rightarrow> tool_context \<Rightarrow> capability_request \<Rightarrow> invocation_result \<Rightarrow> capability_decision list \<Rightarrow> execution_event list" where
  "invocation_events env r ctx rq res ds =
     (let cids = sorted_set (List.map_filter dc_checkpoint_id ds);
          tail = map (\<lambda>c. (CHECKPOINT_CREATED, [(''checkpoint_id'', PStr c)])) cids
            @ (if cids = [] then [] else map (\<lambda>e. (EVIDENCE_INVALIDATED, [(''evidence_id'', PStr (evidence_id e))])) (evidence (rt_state r)));
          n = length ds + length tail;
          fresh_evidence = (case res of
              Invoked tr \<Rightarrow>
                if list_ex (\<lambda>d. dc_kind d = EXECUTABLE) ds
                then [(EVIDENCE_RECORDED, evidence_payload (''evidence-'' @ show_int (event_sequence (rt_state r) + int n + 1))
                       (case ctx_active_unit_id ctx of Some (c # cs) \<Rightarrow> c # cs | _ \<Rightarrow> rq_semantic_action rq)
                       (''capability:'' @ rq_tool_name rq) (request_fingerprint (env_crypto env) rq)
                       (tool_result_successful (tr_output tr)))]
                else []
            | NotExecuted _ \<Rightarrow> []) in
      decision_events r ds @ numbered_events r (length ds) (tail @ fresh_evidence))"

text \<open>The checks an invocation makes before it proposes its action to the kernel.\<close>

definition guard_invocation :: "runtime_env \<Rightarrow> tool_context \<Rightarrow> capability_request \<Rightarrow> unit rt_op" where
  "guard_invocation env ctx rq r =
     bind_rt (guard_rt (ctx_execution_id ctx = Some (rt_execution_id r))
       (PowdrrExecutionError ''capability_execution_mismatch'' ''capability context belongs to a different execution'')) (\<lambda>_.
     bind_rt (guard_rt (env_paths env (repo_root ctx) = path_parts (rt_repo_root r))
       (PowdrrExecutionError ''capability_repository_mismatch'' ''capability context belongs to a different repository'')) (\<lambda>_.
     bind_rt (guard_rt (ctx_active_persona_id ctx = current_persona_id (rt_state r))
       (PowdrrExecutionError ''capability_persona_mismatch'' ''capability context is not bound to the active persona'')) (\<lambda>_.
     bind_rt (guard_capability rq) (\<lambda>_.
     bind_rt (if rq_tool_name rq = ''repository'' \<and>
           get_item (rq_arguments rq) ''operation'' \<in> PStr ` {''pr_create'', ''pr_publish_clean''}
         then bind_rt (require_publish_readiness None) (\<lambda>_. ok_rt ()) else ok_rt ()) (\<lambda>_.
     guard_rt (\<not> (rq_tool_name rq = ''repository'' \<and> (case get_item (rq_arguments rq) ''idempotency_key'' of
           PStr k \<Rightarrow> k \<in> set (completed_idempotency_keys (rt_state r)) | _ \<Rightarrow> False)))
       (PowdrrExecutionError ''external_write_already_completed''
         ''This external write was already completed for its idempotency key.'')))))) r"

definition invocation_action :: "runtime \<Rightarrow> capability_request \<Rightarrow> kernel_action" where
  "invocation_action r rq = MappingAction
     [(''action_instance_id'', PStr (rt_execution_id r @ '':action:'' @ show_int (event_sequence (rt_state r) + 1))),
      (''semantic_action'', PStr (rq_semantic_action rq)), (''arguments'', PDict (rq_arguments rq))]"

definition guard_obligations :: "kernel_action \<Rightarrow> capability_request \<Rightarrow> unit rt_op" where
  "guard_obligations a rq r =
     (let errors = validate_proposal (rt_kernel r) a (Some (rq_semantic_action rq)) in
      guard_rt (errors = []) (PowdrrExecutionError ''relationship_obligation_blocked''
        (''Capability action is blocked by execution obligations: '' @ py_join ''; '' errors)) r)"

definition run_capability :: "runtime_env \<Rightarrow> tool_context \<Rightarrow> capability_request \<Rightarrow> kernel_action \<Rightarrow> invocation_result rt_op" where
  "run_capability env ctx rq a r =
     (case broker_invoke env ctx rq r of
        (Inl e, r1) \<Rightarrow>
          bind_rt (kernel_step (\<lambda>k. fail k a (Some (exc_error env e)))) (\<lambda>_.
          bind_rt sync_current (\<lambda>_. raise_rt e)) r1
      | (Inr res, r1) \<Rightarrow>
          bind_rt (kernel_step (\<lambda>k. case res of
              Invoked tr \<Rightarrow> complete k a
            | NotExecuted why \<Rightarrow> fail k a (Some (ObjectError ''CapabilityResolution'' (env_resolution_text env why) None)))) (\<lambda>_.
          bind_rt sync_current (\<lambda>_. ok_rt res)) r1)"

definition invoke_in_transaction :: "runtime_env \<Rightarrow> tool_context \<Rightarrow> capability_request \<Rightarrow> invocation_result rt_op" where
  "invoke_in_transaction env ctx rq0 r =
     bind_rt (lift_rt (with_idempotency_key (env_crypto env) rq0)) (\<lambda>rq.
      let a = invocation_action r rq;
          aid = rt_execution_id r @ '':action:'' @ show_int (event_sequence (rt_state r) + 1);
          logged = length (cb_decision_log (rt_broker r)) in
      bind_rt (guard_invocation env ctx rq) (\<lambda>_.
      bind_rt (guard_obligations a rq) (\<lambda>_.
      bind_rt (kernel_step (\<lambda>k. propose k a (Some (rq_semantic_action rq)) {})) (\<lambda>_.
      bind_rt (apply_guidance_obligations env aid (rq_semantic_action rq)) (\<lambda>_.
      bind_rt (kernel_step (\<lambda>k. start k a)) (\<lambda>_.
      bind_rt sync_current (\<lambda>_.
      bind_rt (run_capability env ctx rq a) (\<lambda>res r1.
        let ds = drop logged (cb_decision_log (rt_broker r1)) in
        if ds = [] then (Inr res, r1)
        else bind_rt (runtime_append_events (invocation_events env r1 ctx rq res ds)) (\<lambda>_. ok_rt res) r1)))))))) r"

definition runtime_invoke :: "runtime_env \<Rightarrow> tool_context \<Rightarrow> capability_request \<Rightarrow> invocation_result rt_op" where
  "runtime_invoke env ctx rq = transaction (invoke_in_transaction env ctx rq)"

definition invoke_approved_exception ::
    "runtime_env \<Rightarrow> tool_context \<Rightarrow> capability_request \<Rightarrow> exception_decision \<Rightarrow> invocation_result rt_op" where
  "invoke_approved_exception env ctx rq d =
     (if \<not> cd_approved d \<or> cd_token d = None \<or> cd_token d = Some ''''
      then raise_rt (PowdrrExecutionError ''capability_exception_not_approved'' ''only an approved exception can be resumed'')
      else runtime_invoke env ctx (rq\<lparr>rq_exception_token := cd_token d\<rparr>))"

definition register_adapter :: "runtime_env \<Rightarrow> tool_adapter \<Rightarrow> unit rt_op" where
  "register_adapter env a r =
     (case replace_adapter (sha256_hex (env_crypto env)) (cb_registry (rt_broker r)) a of
        Inl e \<Rightarrow> (Inl e, r)
      | Inr reg \<Rightarrow> (Inr (), r\<lparr>rt_broker := (rt_broker r)\<lparr>cb_registry := reg\<rparr>\<rparr>))"

definition invoke_adapter :: "runtime_env \<Rightarrow> tool_adapter \<Rightarrow> tool_context \<Rightarrow> capability_request \<Rightarrow> invocation_result rt_op" where
  "invoke_adapter env a ctx rq =
     bind_rt (register_adapter env a) (\<lambda>_ r.
       runtime_invoke env (ctx\<lparr>ctx_execution_id := (case ctx_execution_id ctx of Some (c # cs) \<Rightarrow> Some (c # cs) | _ \<Rightarrow> Some (rt_execution_id r)),
         ctx_active_persona_id := (case ctx_active_persona_id ctx of None \<Rightarrow> current_persona_id (rt_state r) | p \<Rightarrow> p)\<rparr>) rq r)"

section \<open>Personas and the capability surface\<close>

definition TOOLS_BY_PROMPT_ACTION :: "(string \<times> string list) list" where
  "TOOLS_BY_PROMPT_ACTION =
     [(''edit'', [''file-mutation'', ''validate-edit'', ''apply-edit'']),
      (''yaml_edit'', [''file-mutation'', ''validate-edit'', ''apply-edit'']),
      (''file_management'', [''file-mutation'']), (''delete_file'', [''file-mutation'']),
      (''read_document'', [''repository-read_document'']), (''gather_context'', [''repository-gather_context'']),
      (''fuzzy_match'', [''fuzzy-match'']), (''basedpyright'', [''basedpyright-symbol'', ''basedpyright-structure'']),
      (''shell'', [''process''])]"

definition table_entry :: "(string \<times> string list) list \<Rightarrow> string \<Rightarrow> string set" where
  "table_entry table k = set (case map_of table k of Some xs \<Rightarrow> xs | None \<Rightarrow> [])"

definition capability_catalog :: "runtime \<Rightarrow> pydict list" where
  "capability_catalog r =
     (let allowed_tools = (case rt_allowed_actions r of
          Some acts \<Rightarrow> if ''invoke_tool'' \<notin> acts then Some (\<Union> (table_entry TOOLS_BY_PROMPT_ACTION ` acts)) else None
        | None \<Rightarrow> None) in
      map manifest_to_data (sort_key tool_name (filter (\<lambda>m. case allowed_tools of None \<Rightarrow> True | Some ts \<Rightarrow> tool_name m \<in> ts)
        (manifests (cb_registry (rt_broker r))))))"

definition WORKFLOW_ACTIONS :: "string list" where
  "WORKFLOW_ACTIONS =
     [''next_step'', ''complete'', ''invoke_tool'', ''answer_question'', ''handoff'', ''request_input'', ''prompt_user'',
      ''edit'', ''yaml_edit'', ''file_management'', ''gather_context'', ''validate_edit'', ''apply_edit'', ''fuzzy_match'',
      ''basedpyright'', ''git'', ''gh'']"

definition ADAPTER_ACTIONS :: "(string \<times> string list) list" where
  "ADAPTER_ACTIONS =
     [(''file-mutation'', [''edit'', ''yaml_edit'', ''file_management'', ''delete_file'']),
      (''validate-edit'', [''validate_edit'']), (''apply-edit'', [''apply_edit'']), (''process'', [''shell'']),
      (''fuzzy-match'', [''fuzzy_match'']), (''repository-gather_context'', [''gather_context'']),
      (''repository-read_document'', [''read_document'']), (''repository-list_files'', [''list_files'']),
      (''basedpyright-symbol'', [''basedpyright'']), (''basedpyright-structure'', [''basedpyright'']),
      (''enrich'', [''enrich'']), (''repository'', [''git'', ''gh''])]"

definition available_adapter_actions :: "runtime \<Rightarrow> string set" where
  "available_adapter_actions r =
     set WORKFLOW_ACTIONS \<union>
     \<Union> ((\<lambda>m. table_entry ADAPTER_ACTIONS (tool_name m) \<union> set (semantic_actions m)) ` set (manifests (cb_registry (rt_broker r))))"

definition runtime_persona_packet ::
    "runtime_env \<Rightarrow> delivery_profile \<Rightarrow> string \<Rightarrow> phase_type \<Rightarrow> string set \<Rightarrow> (string \<times> string set) list \<Rightarrow> tool_effect set
     \<Rightarrow> persona_packet rt_op" where
  "runtime_persona_packet env profile rid ph phase_acts persona_acts effs r =
     (if ph \<noteq> current_phase (rt_state r)
      then (Inl (PowdrrExecutionError ''persona_phase_mismatch''
        (''persona packet phase '' @ py_repr (phase_value ph) @ '' does not match '' @ ''runtime phase '' @
         py_repr (phase_value (current_phase (rt_state r))))), r)
      else
        (case (case List.find (\<lambda>item. pa_phase_type item = ph) (dp_phases profile) of
               Some item \<Rightarrow> if map_of persona_acts (pa_persona_id item) = None then Some item else None
             | None \<Rightarrow> None) of
           Some item \<Rightarrow> (Inl (PowdrrExecutionError ''persona_actions_missing''
             (''persona actions omit profile-assigned persona '' @ py_repr (pa_persona_id item))), r)
         | None \<Rightarrow>
             bind_rt (lift_rt (load_applicable_guidance env r
               [(''profile_id'', dp_profile_id profile), (''phase_type'', phase_value ph)])) (\<lambda>rules.
             bind_rt (lift_rt (build_persona_packet profile (rt_execution_id r) rid ph phase_acts persona_acts effs
               (map artifact_id (artifacts (rt_state r))) rules)) (\<lambda>packet.
             bind_rt (if current_persona_id (rt_state r) \<noteq> Some (pd_persona_id (pp_persona packet))
               then bind_rt (runtime_append_event PERSONA_ASSIGNED
                 [(''phase_type'', PStr (phase_value ph)), (''persona_id'', PStr (pd_persona_id (pp_persona packet))),
                  (''run_id'', PStr rid)]) (\<lambda>_. ok_rt ())
               else ok_rt ()) (\<lambda>_.
             bind_rt (modify_rt (\<lambda>r1. set_execution_scope (Some (allowed_actions packet)) (Some phase_acts)
               (map_of persona_acts (pd_persona_id (pp_persona packet))) None (Some (available_adapter_actions r1)) r1)) (\<lambda>_.
             ok_rt packet)))) r))"

end
