(* ===== verification/Checkpoint_Store.thy ===== *)
theory Checkpoint_Store
  imports Execution_Plan
begin

text \<open>
  \<^verbatim>\<open>execution/checkpoints.py\<close>: checkpoints of a workspace in a content-addressed store, their restoration with
  rollback, the changed paths since a checkpoint, garbage collection, and bounded diagnostics.

  The hash of file contents, the program \<^verbatim>\<open>git\<close> and the interruptions of file copies are parameters. The store lies
  outside the workspace, and checkpoint identifiers and digests are single file names.
\<close>

section \<open>Workspaces\<close>

text \<open>
  A workspace is the tree below its root as a listing of relative paths, in the order in which \<^verbatim>\<open>rglob("*")\<close> meets
  them: directories, regular files with their bytes, and symbolic links, which are not descended into; a
  link to a regular file carries the bytes read through it.
\<close>

datatype entry = Dir | Regular string | Link "string option"

type_synonym workspace = "(string list \<times> entry) list"

fun file_bytes :: "entry \<Rightarrow> string option" where
  "file_bytes Dir = None"
| "file_bytes (Regular b) = Some b"
| "file_bytes (Link target) = target"

definition workspace_files :: "workspace \<Rightarrow> (string list \<times> string) list" where
  "workspace_files ws = List.map_filter (\<lambda>(p, e). if ''.git'' \<in> set p then None else map_option (Pair p) (file_bytes e)) ws"

definition relative_name :: "string list \<Rightarrow> string" where
  "relative_name p = py_join ''/'' p"

definition ancestors :: "'a list \<Rightarrow> 'a list list" where
  "ancestors p = map (\<lambda>k. take k p) [1..<length p]"

definition unlink :: "string list \<Rightarrow> workspace \<Rightarrow> workspace" where
  "unlink p ws = AList.delete p ws"

text \<open>\<^verbatim>\<open>target.parent.mkdir(parents=True, exist_ok=True)\<close>; no ancestor is a link where this is used.\<close>

definition make_dir :: "string list \<Rightarrow> workspace \<Rightarrow> string list \<Rightarrow> workspace result" where
  "make_dir p w q =
     (case map_of w q of
        None \<Rightarrow> Inr (w @ [(q, Dir)])
      | Some Dir \<Rightarrow> Inr w
      | Some _ \<Rightarrow> Inl (OSError (if q = butlast p then ''FileExistsError'' else ''NotADirectoryError'')))"

definition make_parents :: "string list \<Rightarrow> workspace \<Rightarrow> workspace result" where
  "make_parents p ws = foldM_r (make_dir p) ws (ancestors p)"

text \<open>Open for writing and write; the path is not a link where this is used.\<close>

definition write_file :: "string list \<Rightarrow> string \<Rightarrow> workspace \<Rightarrow> workspace result" where
  "write_file p b ws =
     (case map_of ws p of
        None \<Rightarrow> Inr (ws @ [(p, Regular b)])
      | Some (Regular _) \<Rightarrow> Inr (AList.update p (Regular b) ws)
      | Some Dir \<Rightarrow> Inl (OSError ''IsADirectoryError'')
      | Some (Link _) \<Rightarrow> Inl (OSError ''symbolic link''))"

fun is_link :: "entry option \<Rightarrow> bool" where
  "is_link (Some (Link _)) = True"
| "is_link _ = False"

text \<open>
  \<^verbatim>\<open>_safe_restore_path\<close>: the components of the target. The final check that the resolved path lies below the
  workspace cannot fail once the path is relative, has no parent component and passes no link.
\<close>

definition safe_restore_path :: "workspace \<Rightarrow> string \<Rightarrow> string list result" where
  "safe_restore_path ws rel =
     (let p = path_parts rel in
      if startswith rel ''/'' \<or> ''..'' \<in> set p \<or> p = []
      then Inl (ValueError (''checkpoint object path is not workspace-relative: '' @ py_repr rel))
      else if list_ex (\<lambda>q. is_link (map_of ws q)) (ancestors p @ [p])
      then Inl (ValueError (''checkpoint restore refuses symlink path: '' @ py_repr rel))
      else Inr p)"

text \<open>\<^verbatim>\<open>s.splitlines()\<close> for the line boundaries below code point 128; the pair CR LF is one boundary.\<close>

definition line_breaks :: "char set" where
  "line_breaks = set (map char_of [10 :: nat, 11, 12, 13, 28, 29, 30])"

fun splitlines :: "string \<Rightarrow> string list" where
  "splitlines [] = []"
| "splitlines (c # s) =
     (if c = char_of (13 :: nat) \<and> take 1 s = [char_of (10 :: nat)] then [] # splitlines (drop 1 s)
      else if c \<in> line_breaks then [] # splitlines s
      else (case splitlines s of [] \<Rightarrow> [[c]] | l # ls \<Rightarrow> (c # l) # ls))"

section \<open>Checkpoints and their store\<close>

record checkpoint =
  ck_checkpoint_id :: string
  ck_workspace_root :: string
  ck_objects :: "(string \<times> string) list"
  ck_state_ref :: "string option"
  ck_git_revision :: "string option"

definition checkpoint_to_data :: "checkpoint \<Rightarrow> pydict" where
  "checkpoint_to_data ck =
     [(''checkpoint_id'', PStr (ck_checkpoint_id ck)), (''workspace_root'', PStr (ck_workspace_root ck)),
      (''objects'', PDict (map (\<lambda>(k, v). (k, PStr v)) (ck_objects ck)))]
     @ entry_if ''state_ref'' (ck_state_ref ck) @ entry_if ''git_revision'' (ck_git_revision ck)"

text \<open>The store: content objects by digest and the decoded manifests by checkpoint identifier, both in directory order.\<close>

record checkpoint_files =
  cf_objects :: "(string \<times> string) list"
  cf_manifests :: "(string \<times> pydict) list"

text \<open>
  The program \<^verbatim>\<open>git\<close> run in a workspace: its output or failure, and the workspace it leaves. \<open>sha\<close> is the hash of
  file contents.
\<close>

type_synonym git_program = "string \<Rightarrow> string list \<Rightarrow> workspace \<Rightarrow> string result \<times> workspace"

definition run_git :: "git_program \<Rightarrow> string \<Rightarrow> string list \<Rightarrow> workspace \<Rightarrow> string result \<times> workspace" where
  "run_git git root args ws = (case git root args ws of (Inl e, w) \<Rightarrow> (Inl e, w) | (Inr out, w) \<Rightarrow> (Inr (strip out), w))"

definition git_revision :: "git_program \<Rightarrow> string \<Rightarrow> workspace \<Rightarrow> string option result" where
  "git_revision git root ws =
     (case fst (run_git git root [''rev-parse'', ''HEAD''] ws) of
        Inr head \<Rightarrow> Inr (Some head)
      | Inl (OSError _) \<Rightarrow> Inr None
      | Inl (FileNotFoundError _) \<Rightarrow> Inr None
      | Inl (CalledProcessError _) \<Rightarrow> Inr None
      | Inl e \<Rightarrow> Inl e)"

definition put_object :: "string \<Rightarrow> string \<Rightarrow> (string \<times> string) list \<Rightarrow> (string \<times> string) list" where
  "put_object digest content objs = (if map_of objs digest = None then objs @ [(digest, content)] else objs)"

definition put_manifest :: "checkpoint \<Rightarrow> checkpoint_files \<Rightarrow> checkpoint_files" where
  "put_manifest ck st = st\<lparr>cf_manifests := AList.update (ck_checkpoint_id ck) (checkpoint_to_data ck) (cf_manifests st)\<rparr>"

definition create_checkpoint ::
    "(string \<Rightarrow> string) \<Rightarrow> git_program \<Rightarrow> checkpoint_files \<Rightarrow> string \<Rightarrow> workspace \<Rightarrow> string \<Rightarrow> string option
     \<Rightarrow> (checkpoint \<times> checkpoint_files) result" where
  "create_checkpoint sha git st root ws cid state_json =
     bind_r (git_revision git root ws) (\<lambda>head.
     case head of
       Some r \<Rightarrow>
         (let ck = \<lparr>ck_checkpoint_id = cid, ck_workspace_root = root, ck_objects = [], ck_state_ref = None, ck_git_revision = Some r\<rparr> in
          Inr (ck, put_manifest ck st))
     | None \<Rightarrow>
         (let files = workspace_files ws;
              objs = fold (\<lambda>(p, b). put_object (sha b) b) files (cf_objects st);
              objs' = (case state_json of None \<Rightarrow> objs | Some j \<Rightarrow> put_object (sha j) j objs);
              ck = \<lparr>ck_checkpoint_id = cid, ck_workspace_root = root,
                    ck_objects = map (\<lambda>(p, b). (relative_name p, sha b)) files,
                    ck_state_ref = map_option sha state_json, ck_git_revision = None\<rparr> in
          Inr (ck, put_manifest ck (st\<lparr>cf_objects := objs'\<rparr>))))"

definition object_entry :: "string \<times> pyval \<Rightarrow> (string \<times> string) result" where
  "object_entry kv = (case kv of (k, PStr d) \<Rightarrow> Inr (k, d) | _ \<Rightarrow> Inl MalformedDocument)"

definition opt_text :: "pyval \<Rightarrow> string option result" where
  "opt_text v = (case v of PNone \<Rightarrow> Inr None | PStr s \<Rightarrow> Inr (Some s) | _ \<Rightarrow> Inl MalformedDocument)"

definition checkpoint_from_data :: "pydict \<Rightarrow> checkpoint result" where
  "checkpoint_from_data d =
     bind_r (get_required d ''checkpoint_id'') (\<lambda>cid.
     bind_r (get_required d ''workspace_root'') (\<lambda>root.
     bind_r (get_required d ''objects'') (\<lambda>objs.
     case (cid, root, objs) of
       (PStr c, PStr r, PDict os) \<Rightarrow>
         bind_r (mapM_r object_entry os) (\<lambda>xs.
         bind_r (opt_text (get_item d ''state_ref'')) (\<lambda>ref.
         bind_r (opt_text (get_item d ''git_revision'')) (\<lambda>head.
         Inr \<lparr>ck_checkpoint_id = c, ck_workspace_root = r, ck_objects = xs, ck_state_ref = ref, ck_git_revision = head\<rparr>)))
     | _ \<Rightarrow> Inl MalformedDocument)))"

definition load_checkpoint :: "checkpoint_files \<Rightarrow> string \<Rightarrow> checkpoint result" where
  "load_checkpoint st cid =
     (case map_of (cf_manifests st) cid of
        None \<Rightarrow> Inl (FileNotFoundError (cid @ ''.json''))
      | Some d \<Rightarrow> checkpoint_from_data d)"

definition read_object :: "checkpoint_files \<Rightarrow> string \<Rightarrow> string result" where
  "read_object st digest = (case map_of (cf_objects st) digest of None \<Rightarrow> Inl (FileNotFoundError digest) | Some b \<Rightarrow> Inr b)"

definition load_state_json :: "checkpoint_files \<Rightarrow> checkpoint \<Rightarrow> string option result" where
  "load_state_json st ck =
     (case ck_state_ref ck of None \<Rightarrow> Inr None | Some ref \<Rightarrow> bind_r (read_object st ref) (\<lambda>b. Inr (Some b)))"

text \<open>
  \<^verbatim>\<open>garbage_collect\<close>: the loop over the manifests keeps the objects of referenced checkpoints and unlinks the other
  manifests; a manifest that does not load stops it. Then the other objects are unlinked.
\<close>

fun collect_manifests ::
    "checkpoint_files \<Rightarrow> string set \<Rightarrow> string list \<Rightarrow> string set \<Rightarrow> string list
     \<Rightarrow> (string set \<times> string list) result \<times> checkpoint_files" where
  "collect_manifests st referenced [] kept removed = (Inr (kept, removed), st)"
| "collect_manifests st referenced (cid # cids) kept removed =
     (if cid \<in> referenced then
        (case load_checkpoint st cid of
           Inl e \<Rightarrow> (Inl e, st)
         | Inr ck \<Rightarrow> collect_manifests st referenced cids
             (kept \<union> set (map snd (ck_objects ck)) \<union> set_option (ck_state_ref ck)) removed)
      else collect_manifests (st\<lparr>cf_manifests := AList.delete cid (cf_manifests st)\<rparr>) referenced cids kept (removed @ [cid]))"

definition garbage_collect :: "checkpoint_files \<Rightarrow> string list \<Rightarrow> string list result \<times> checkpoint_files" where
  "garbage_collect st referenced =
     (case collect_manifests st (set referenced) (map fst (cf_manifests st)) {} [] of
        (Inl e, st1) \<Rightarrow> (Inl e, st1)
      | (Inr (kept, removed), st1) \<Rightarrow>
          (Inr (sort removed), st1\<lparr>cf_objects := filter (\<lambda>(d, b). d \<in> kept) (cf_objects st1)\<rparr>))"

section \<open>Restoring\<close>

text \<open>
  \<open>fault\<close> says which copies are interrupted, with which exception, and what bytes the target then holds, if it was
  opened at all.
\<close>

type_synonym copy_fault = "string \<Rightarrow> (exc \<times> string option) option"

definition copy_object ::
    "copy_fault \<Rightarrow> checkpoint_files \<Rightarrow> string \<Rightarrow> string \<Rightarrow> string list \<Rightarrow> workspace \<Rightarrow> unit result \<times> workspace" where
  "copy_object fault st rel digest p ws =
     (case read_object st digest of
        Inl e \<Rightarrow> (Inl e, ws)
      | Inr b \<Rightarrow>
          (case fault rel of
             Some (e, None) \<Rightarrow> (Inl e, ws)
           | Some (e, Some partial) \<Rightarrow> (case write_file p partial ws of Inl e' \<Rightarrow> (Inl e', ws) | Inr w \<Rightarrow> (Inl e, w))
           | None \<Rightarrow> (case write_file p b ws of Inl e \<Rightarrow> (Inl e, ws) | Inr w \<Rightarrow> (Inr (), w))))"

fun copy_objects ::
    "copy_fault \<Rightarrow> checkpoint_files \<Rightarrow> (string \<times> string) list \<Rightarrow> workspace \<Rightarrow> unit result \<times> workspace" where
  "copy_objects fault st [] ws = (Inr (), ws)"
| "copy_objects fault st ((rel, digest) # objs) ws =
     (case make_parents (path_parts rel) ws of
        Inl e \<Rightarrow> (Inl e, ws)
      | Inr w \<Rightarrow>
          (case copy_object fault st rel digest (path_parts rel) w of
             (Inl e, w1) \<Rightarrow> (Inl e, w1)
           | (Inr _, w1) \<Rightarrow> copy_objects fault st objs w1))"

fun write_back :: "(string \<times> string) list \<Rightarrow> workspace \<Rightarrow> unit result \<times> workspace" where
  "write_back [] ws = (Inr (), ws)"
| "write_back ((rel, b) # items) ws =
     (case bind_r (safe_restore_path ws rel) (\<lambda>p. bind_r (make_parents p ws) (\<lambda>w. Inr (p, w))) of
        Inl e \<Rightarrow> (Inl e, ws)
      | Inr (p, w) \<Rightarrow> (case write_file p b w of Inl e \<Rightarrow> (Inl e, w) | Inr w1 \<Rightarrow> write_back items w1))"

definition restore_files :: "copy_fault \<Rightarrow> checkpoint_files \<Rightarrow> checkpoint \<Rightarrow> workspace \<Rightarrow> unit result \<times> workspace" where
  "restore_files fault st ck ws =
     (let expected = map fst (ck_objects ck) in
      case mapM_r (safe_restore_path ws) expected of
        Inl e \<Rightarrow> (Inl e, ws)
      | Inr _ \<Rightarrow>
          (let saved = map (\<lambda>(p, b). (relative_name p, b)) (workspace_files ws);
               cleared = fold unlink (filter (\<lambda>p. relative_name p \<notin> set expected) (map fst (workspace_files ws))) ws in
           case copy_objects fault st (ck_objects ck) cleared of
             (Inr _, w) \<Rightarrow> (Inr (), w)
           | (Inl e, w) \<Rightarrow>
               (case write_back saved (fold unlink (map fst (workspace_files w)) w) of
                  (Inl e', w') \<Rightarrow> (Inl e', w')
                | (Inr _, w') \<Rightarrow> (Inl e, w'))))"

text \<open>\<open>ws\<close> is the tree at the resolved workspace path, \<open>None\<close> if there is no directory.\<close>

definition restore_checkpoint_files ::
    "git_program \<Rightarrow> copy_fault \<Rightarrow> checkpoint_files \<Rightarrow> checkpoint \<Rightarrow> string \<Rightarrow> workspace option \<Rightarrow> unit result \<times> workspace option" where
  "restore_checkpoint_files git fault st ck root ws =
     (case ws of
        None \<Rightarrow> (Inl (ValueError ''checkpoint restore workspace must be a real directory''), None)
      | Some w \<Rightarrow>
          (case ck_git_revision ck of
             Some head \<Rightarrow>
               (case run_git git root [''restore'', ''--source'', head, ''--staged'', ''--worktree'', ''--'', ''.''] w of
                  (Inl e, w1) \<Rightarrow> (Inl e, Some w1) | (Inr _, w1) \<Rightarrow> (Inr (), Some w1))
           | None \<Rightarrow> (case restore_files fault st ck w of (res, w1) \<Rightarrow> (res, Some w1))))"

definition restore_with_state ::
    "git_program \<Rightarrow> copy_fault \<Rightarrow> checkpoint_files \<Rightarrow> checkpoint \<Rightarrow> string \<Rightarrow> workspace option
     \<Rightarrow> string option result \<times> workspace option" where
  "restore_with_state git fault st ck root ws =
     (case restore_checkpoint_files git fault st ck root ws of
        (Inl e, w) \<Rightarrow> (Inl e, w) | (Inr _, w) \<Rightarrow> (load_state_json st ck, w))"

definition changed_paths ::
    "(string \<Rightarrow> string) \<Rightarrow> git_program \<Rightarrow> checkpoint \<Rightarrow> string \<Rightarrow> workspace \<Rightarrow> string list result" where
  "changed_paths sha git ck root ws =
     (case ck_git_revision ck of
        Some _ \<Rightarrow>
          bind_r (fst (run_git git root [''status'', ''--porcelain'', ''--untracked-files=all''] ws)) (\<lambda>out.
          Inr (sort (filter (\<lambda>s. s \<noteq> []) (map (\<lambda>line. strip (drop 3 line)) (filter (\<lambda>line. 4 \<le> length line) (splitlines out))))))
      | None \<Rightarrow>
          (let current = map (\<lambda>(p, b). (relative_name p, sha b)) (workspace_files ws) in
           Inr (sorted_set (filter (\<lambda>rel. map_of (ck_objects ck) rel \<noteq> map_of current rel)
             (map fst (ck_objects ck) @ map fst current)))))"

section \<open>Diagnostics\<close>

record diagnostic_result =
  dg_name :: string
  dg_successful :: bool
  dg_output :: string
  dg_truncated :: bool

definition run_diagnostics ::
    "(exc \<Rightarrow> string) \<Rightarrow> string \<Rightarrow> (string \<times> (string \<Rightarrow> string result)) list \<Rightarrow> nat \<Rightarrow> diagnostic_result list" where
  "run_diagnostics text root hooks max_chars =
     map (\<lambda>(name, hook). case hook root of
         Inr out \<Rightarrow> \<lparr>dg_name = name, dg_successful = True, dg_output = take max_chars out, dg_truncated = length out > max_chars\<rparr>
       | Inl e \<Rightarrow> \<lparr>dg_name = name, dg_successful = False, dg_output = take max_chars (text e), dg_truncated = False\<rparr>) hooks"

end
