(* ===== verification/Deferred_Edit.thy ===== *)
theory Deferred_Edit
  imports Checkpoint_Store Task_Validation
begin

text \<open>
  \<^verbatim>\<open>intrinsic_edit.py\<close>: the validation of deferred line edits against the files of a worktree, and their application. A
  worktree is the tree of the checkpoint theory, and an edit is the decoded JSON value of the tool call.
\<close>

section \<open>Targets\<close>

definition VALIDATE_EDIT_TOOL :: string where "VALIDATE_EDIT_TOOL = ''validate_edit''"

definition APPLY_EDIT_TOOL :: string where "APPLY_EDIT_TOOL = ''apply_edit''"

fun nonempty_list :: "exc \<Rightarrow> pyval \<Rightarrow> pyval list result" where
  "nonempty_list e (PList (x # xs)) = Inr (x # xs)"
| "nonempty_list e v = Inl e"

definition edit_groups :: "pydict \<Rightarrow> pydict list result" where
  "edit_groups value =
     bind_r (guard_r (get_item value ''action'' = PStr ''edit'') (ValueError ''deferred edit must have action 'edit'.'')) (\<lambda>_.
     bind_r (if map_of value ''file_edits'' \<noteq> None then Inr (get_item value ''file_edits'')
             else if map_of value ''file_path'' \<noteq> None \<and> map_of value ''edits'' \<noteq> None
             then Inr (PList [PDict [(''file_path'', get_item value ''file_path''), (''edits'', get_item value ''edits'')]])
             else Inl (ValueError ''deferred edit must contain file_path/edits or file_edits.'')) (\<lambda>groups.
     bind_r (nonempty_list (ValueError ''deferred edit file_edits must be a non-empty array.'') groups) (\<lambda>items.
     bind_r (guard_r (list_all is_mapping items) (ValueError ''deferred edit file_edits entries must be objects.'')) (\<lambda>_.
     Inr (map the_dict items)))))"

definition resolve_edit_path :: "workspace \<Rightarrow> pyval \<Rightarrow> string list result" where
  "resolve_edit_path ws raw =
     (if \<not> is_str raw \<or> strip (the_str raw) = [] then Inl (ValueError ''deferred edit file_path must be a non-empty string.'')
      else let p = path_parts (the_str raw) in
        if startswith (the_str raw) ''/'' \<or> ''..'' \<in> set p
        then Inl (ValueError ''deferred edit paths must be relative and cannot contain '..'.'')
        else if list_ex (\<lambda>q. is_link (map_of ws q)) (ancestors p @ [p])
        then Inl (ValueError (''deferred edit path contains a symlink: '' @ the_str raw))
        else Inr p)"

text \<open>
  \<open>root\<close> is the text of the root path. A read may fail: \<open>rfault\<close> gives the exception for a relative path, such as the
  \<^verbatim>\<open>UnicodeDecodeError\<close>, a \<^verbatim>\<open>ValueError\<close>, of bytes that are not UTF-8. A write may be interrupted as in the checkpoint theory.
\<close>

type_synonym read_fault = "string \<Rightarrow> exc option"

definition path_text :: "string \<Rightarrow> string list \<Rightarrow> string" where
  "path_text root p = py_join ''/'' (root # p)"

definition read_text :: "read_fault \<Rightarrow> workspace \<Rightarrow> string list \<Rightarrow> string result" where
  "read_text rfault ws p =
     (case rfault (relative_name p) of
        Some e \<Rightarrow> Inl e
      | None \<Rightarrow> (case map_of ws p of Some (Regular b) \<Rightarrow> Inr b | _ \<Rightarrow> Inl (FileNotFoundError (relative_name p))))"

definition is_regular :: "workspace \<Rightarrow> string list \<Rightarrow> bool" where
  "is_regular ws p = (case map_of ws p of Some (Regular b) \<Rightarrow> True | _ \<Rightarrow> False)"

section \<open>Validation\<close>

fun int_value :: "pyval \<Rightarrow> int option" where
  "int_value (PInt n) = Some n"
| "int_value _ = None"

definition validate_edit_item :: "string \<Rightarrow> nat \<Rightarrow> pyval \<Rightarrow> unit result" where
  "validate_edit_item path line_count edit =
     (if \<not> is_mapping edit then Inl (ValueError ''deferred edit entries must be objects.'')
      else let d = the_dict edit; kind = get_item d ''kind''; first = get_item d ''start_line''; final = get_default d ''end_line'' first in
        bind_r (set_member kind [''add'', ''remove'', ''replace'']) (\<lambda>known.
        bind_r (guard_r known (ValueError ''deferred edit kind must be add, remove, or replace.'')) (\<lambda>_.
        bind_r (guard_r (case int_value first of Some a \<Rightarrow> 1 \<le> a | None \<Rightarrow> False)
          (ValueError ''deferred edit start_line must be a positive integer.'')) (\<lambda>_.
        bind_r (guard_r (case int_value final of Some b \<Rightarrow> the (int_value first) \<le> b | None \<Rightarrow> False)
          (ValueError ''deferred edit end_line must be >= start_line.'')) (\<lambda>_.
        bind_r (if kind = PStr ''add''
                then guard_r (the (int_value first) \<le> int line_count + 1) (ValueError (''deferred edit add line is beyond '' @ path @ ''.''))
                else guard_r (the (int_value final) \<le> int line_count)
                  (ValueError (''deferred edit range ends beyond '' @ show_nat line_count @ '' lines in '' @ path @ ''.''))) (\<lambda>_.
        bind_r (guard_r (kind \<in> {PStr ''add'', PStr ''replace''} \<longrightarrow> is_str (get_item d ''text''))
          (ValueError ''deferred edit add/replace requires string text.'')) (\<lambda>_.
        guard_r (kind = PStr ''remove'' \<longrightarrow> map_of d ''text'' = None)
          (ValueError ''deferred edit remove must not include text.''))))))))"

definition validate_edit_group :: "string \<Rightarrow> read_fault \<Rightarrow> workspace \<Rightarrow> pydict \<Rightarrow> pyval result" where
  "validate_edit_group root rfault ws grp =
     bind_r (resolve_edit_path ws (get_item grp ''file_path'')) (\<lambda>p.
     bind_r (guard_r (is_regular ws p) (ValueError (''deferred edit target is not a regular file: '' @ path_text root p))) (\<lambda>_.
     bind_r (nonempty_list (ValueError (''deferred edit edits must be non-empty for '' @ path_text root p @ ''.'')) (get_item grp ''edits'')) (\<lambda>edits.
     bind_r (read_text rfault ws p) (\<lambda>b.
     let line_count = length (splitlines b) in
     bind_r (mapM_r (validate_edit_item (path_text root p) line_count) edits) (\<lambda>_.
     Inr (PDict [(''file_path'', PStr (relative_name p)), (''line_count'', PInt (int line_count))]))))))"

definition validate_deferred :: "string \<Rightarrow> read_fault \<Rightarrow> workspace \<Rightarrow> pyval \<Rightarrow> pyval list result" where
  "validate_deferred root rfault ws value =
     (if value = PNone then Inr []
      else if \<not> is_mapping value then Inl (ValueError ''deferred edit must be an object.'')
      else bind_r (edit_groups (the_dict value)) (mapM_r (validate_edit_group root rfault ws)))"

definition execute_validate_edit_tool :: "string \<Rightarrow> read_fault \<Rightarrow> workspace \<Rightarrow> pydict \<Rightarrow> pydict result" where
  "execute_validate_edit_tool root rfault ws parameters =
     (let invalid = (\<lambda>msg. Inr [(''tool'', PStr VALIDATE_EDIT_TOOL), (''returncode'', PInt 1), (''valid'', PBool False), (''error'', PStr msg)]) in
      case validate_deferred root rfault ws (get_item parameters ''edit'') of
        Inr targets \<Rightarrow> Inr [(''tool'', PStr VALIDATE_EDIT_TOOL), (''returncode'', PInt 0), (''valid'', PBool True), (''targets'', PList targets)]
      | Inl (ValueError msg) \<Rightarrow> invalid msg
      | Inl (OSError msg) \<Rightarrow> invalid msg
      | Inl (FileNotFoundError msg) \<Rightarrow> invalid msg
      | Inl e \<Rightarrow> Inl e)"

section \<open>Application\<close>

text \<open>The accessors below are applied to validated entries only.\<close>

definition edit_start :: "pydict \<Rightarrow> int" where
  "edit_start d = the (int_value (get_item d ''start_line''))"

definition edit_end :: "pydict \<Rightarrow> int" where
  "edit_end d = the (int_value (get_default d ''end_line'' (get_item d ''start_line'')))"

text \<open>Slice assignment \<^verbatim>\<open>lines[i:j] = new\<close>.\<close>

definition set_slice :: "nat \<Rightarrow> nat \<Rightarrow> 'a list \<Rightarrow> 'a list \<Rightarrow> 'a list" where
  "set_slice i j new lines = take i lines @ new @ drop (max i j) lines"

definition apply_edit_item :: "pydict \<Rightarrow> string list \<Rightarrow> string list" where
  "apply_edit_item d lines =
     (let i = nat (edit_start d - 1); j = nat (edit_end d); kind = get_item d ''kind'' in
      if kind = PStr ''add'' then set_slice i i (splitlines (the_str (get_item d ''text''))) lines
      else if kind = PStr ''remove'' then set_slice i j [] lines
      else set_slice i j (splitlines (the_str (get_item d ''text''))) lines)"

definition apply_edit_items :: "pydict list \<Rightarrow> string list \<Rightarrow> string list" where
  "apply_edit_items items lines = fold apply_edit_item (sort_key (\<lambda>d. - edit_start d) items) lines"

definition joined_lines :: "string list \<Rightarrow> string" where
  "joined_lines lines = py_join [char_of (10 :: nat)] lines @ [char_of (10 :: nat)]"

definition write_text :: "copy_fault \<Rightarrow> string list \<Rightarrow> string \<Rightarrow> workspace \<Rightarrow> unit result \<times> workspace" where
  "write_text wfault p b ws =
     (case wfault (relative_name p) of
        Some (e, None) \<Rightarrow> (Inl e, ws)
      | Some (e, Some partial) \<Rightarrow> (case write_file p partial ws of Inl e' \<Rightarrow> (Inl e', ws) | Inr w \<Rightarrow> (Inl e, w))
      | None \<Rightarrow> (case write_file p b ws of Inl e \<Rightarrow> (Inl e, ws) | Inr w \<Rightarrow> (Inr (), w)))"

fun item_dicts :: "pyval \<Rightarrow> pydict list" where
  "item_dicts (PList xs) = map the_dict xs"
| "item_dicts _ = []"

definition apply_edit_group :: "read_fault \<Rightarrow> copy_fault \<Rightarrow> pydict \<Rightarrow> workspace \<Rightarrow> unit result \<times> workspace" where
  "apply_edit_group rfault wfault grp ws =
     (case bind_r (resolve_edit_path ws (get_item grp ''file_path'')) (\<lambda>p. bind_r (read_text rfault ws p) (\<lambda>b. Inr (p, b))) of
        Inl e \<Rightarrow> (Inl e, ws)
      | Inr (p, b) \<Rightarrow> write_text wfault p (joined_lines (apply_edit_items (item_dicts (get_item grp ''edits'')) (splitlines b))) ws)"

fun apply_edit_groups :: "read_fault \<Rightarrow> copy_fault \<Rightarrow> pydict list \<Rightarrow> workspace \<Rightarrow> unit result \<times> workspace" where
  "apply_edit_groups rfault wfault [] ws = (Inr (), ws)"
| "apply_edit_groups rfault wfault (g # gs) ws =
     (case apply_edit_group rfault wfault g ws of (Inl e, w) \<Rightarrow> (Inl e, w) | (Inr _, w) \<Rightarrow> apply_edit_groups rfault wfault gs w)"

definition execute_apply_edit_tool ::
    "string \<Rightarrow> read_fault \<Rightarrow> copy_fault \<Rightarrow> pydict \<Rightarrow> workspace \<Rightarrow> pydict result \<times> workspace" where
  "execute_apply_edit_tool root rfault wfault parameters ws =
     (let edit = get_item parameters ''edit'';
          outcome = (\<lambda>applied targets. [(''tool'', PStr APPLY_EDIT_TOOL), (''returncode'', PInt 0), (''applied'', PBool applied), (''targets'', PList targets)]) in
      if edit = PNone then (Inr (outcome False []), ws)
      else (case bind_r (validate_deferred root rfault ws edit) (\<lambda>targets. bind_r (edit_groups (the_dict edit)) (\<lambda>groups. Inr (targets, groups))) of
              Inl e \<Rightarrow> (Inl e, ws)
            | Inr (targets, groups) \<Rightarrow>
                (case apply_edit_groups rfault wfault groups ws of
                   (Inl e, w) \<Rightarrow> (Inl e, w)
                 | (Inr _, w) \<Rightarrow> (Inr (outcome True targets), w))))"

end
