(* ===== verification/Builtin_Tools.thy ===== *)
theory Builtin_Tools
  imports Execution_Runtime Deferred_Edit
begin

text \<open>
  \<^verbatim>\<open>execution/builtin_tools.py\<close>: the adapters of the built-in tools with their manifests, validation and effects, the built-in
  registry, and the capabilities that invoke an adapter through the execution runtime. The programs behind the
  adapters and the executors given to them are parameters; deferred edits run the model of \<^verbatim>\<open>intrinsic_edit.py\<close>.
\<close>

section \<open>Splitting a command line\<close>

text \<open>
  \<^verbatim>\<open>shlex.split(s)\<close> in POSIX mode without comments: blanks separate words, quotes group, a backslash escapes the
  next character, inside double quotes only a quote or a backslash.
\<close>

datatype lex_state = Blank | Word | Quote char | Escape "char option"

definition is_blank :: "char \<Rightarrow> bool" where
  "is_blank c \<longleftrightarrow> c \<in> {CHR '' '', char_of (9 :: nat), char_of (10 :: nat), char_of (13 :: nat)}"

definition backslash :: char where "backslash = char_of (92 :: nat)"

definition is_quote :: "char \<Rightarrow> bool" where
  "is_quote c \<longleftrightarrow> c \<in> {char_of (34 :: nat), char_of (39 :: nat)}"

fun lex :: "lex_state \<Rightarrow> string \<Rightarrow> bool \<Rightarrow> string \<Rightarrow> string list result" where
  "lex (Quote q) token quoted [] = Inl (ValueError ''No closing quotation'')"
| "lex (Escape q) token quoted [] = Inl (ValueError ''No escaped character'')"
| "lex Blank token quoted [] = Inr []"
| "lex Word token quoted [] = Inr (if token \<noteq> [] \<or> quoted then [token] else [])"
| "lex Blank token quoted (c # s) =
     (if is_blank c then lex Blank [] False s
      else if c = backslash then lex (Escape None) [] False s
      else if is_quote c then lex (Quote c) [] False s
      else lex Word [c] False s)"
| "lex Word token quoted (c # s) =
     (if is_blank c then
        (if token \<noteq> [] \<or> quoted then bind_r (lex Blank [] False s) (\<lambda>ts. Inr (token # ts)) else lex Blank [] False s)
      else if is_quote c then lex (Quote c) token quoted s
      else if c = backslash then lex (Escape None) token quoted s
      else lex Word (token @ [c]) quoted s)"
| "lex (Quote q) token quoted (c # s) =
     (if c = q then lex Word token True s
      else if c = backslash \<and> q = char_of (34 :: nat) then lex (Escape (Some q)) token True s
      else lex (Quote q) (token @ [c]) True s)"
| "lex (Escape eq) token quoted (c # s) =
     (let kept = (case eq of Some q \<Rightarrow> c \<noteq> backslash \<and> c \<noteq> q | None \<Rightarrow> False) in
      lex (case eq of None \<Rightarrow> Word | Some q \<Rightarrow> Quote q) (token @ (if kept then [backslash] else []) @ [c]) quoted s)"

definition shlex_split :: "string \<Rightarrow> string list result" where
  "shlex_split s = lex Blank [] False s"

section \<open>Adapters\<close>

text \<open>
  The programs behind the adapters, and what they find: git and GitHub (\<^verbatim>\<open>intrinsic_git_gh.py\<close>), the enrichment of test
  output, BasedPyright, path discovery, path resolution and the kinds of resolved paths.
\<close>

record tool_programs =
  tp_git_gh :: "string \<Rightarrow> pydict \<Rightarrow> string \<Rightarrow> pydict result"
  tp_enrich :: "pydict \<Rightarrow> pyval result"
  tp_basedpyright :: "string \<Rightarrow> pydict \<Rightarrow> string \<Rightarrow> pyval result"
  tp_fuzzy_match :: "pyval \<Rightarrow> string \<Rightarrow> pyval result"
  tp_resolve :: "string \<Rightarrow> string list"
  tp_is_file :: "string list \<Rightarrow> bool"
  tp_is_dir :: "string list \<Rightarrow> bool"

definition plain_result :: "tool_effect \<Rightarrow> pyval \<Rightarrow> tool_result" where
  "plain_result effect out = \<lparr>tr_output = out, observed_effects = {effect}, tr_evidence = [], checkpoint_id = None\<rparr>"

definition workspace_manifest :: "string \<Rightarrow> string list \<Rightarrow> tool_effect list \<Rightarrow> string \<Rightarrow> bool \<Rightarrow> tool_manifest" where
  "workspace_manifest name acts effs sandbox rev' =
     \<lparr>tool_name = name, semantic_actions = acts, effects = effs, tm_scope = ''worktree'', sandbox_profile = sandbox,
      reversible = rev', idempotency = IDEM_NONE, evidence_producers = [], tm_schema_version = TOOL_MANIFEST_SCHEMA_VERSION\<rparr>"

definition repository_operations :: "string list" where
  "repository_operations =
     [''status'', ''remote'', ''branch_current'', ''head'', ''default_branch'', ''show_ref'', ''verify_pr_scope'', ''switch'',
      ''switch_create'', ''commit'', ''push'', ''add'', ''move'', ''rename'', ''pr_view'', ''pr_diff'', ''pr_checks'', ''pr_comments'',
      ''pr_create'', ''pr_publish_clean'', ''pr_edit'', ''pr_review_comment'', ''pr_review_threads'', ''pr_review_reply'',
      ''pr_review_resolve'']"

definition github_writes :: "string list" where
  "github_writes = [''pr_create'', ''pr_publish_clean'', ''pr_edit'', ''pr_review_comment'', ''pr_review_reply'', ''pr_review_resolve'']"

definition git_writes :: "string list" where
  "git_writes = [''add'', ''move'', ''rename'', ''switch'', ''switch_create'', ''commit'', ''push'']"

text \<open>\<^verbatim>\<open>str(arguments.get("operation", ""))\<close>\<close>

definition operation_text :: "pydict \<Rightarrow> string" where
  "operation_text args = str_val (get_default args ''operation'' (PStr []))"

definition repository_manifest :: tool_manifest where
  "repository_manifest =
     \<lparr>tool_name = ''repository'',
      semantic_actions = [''inspect_repository'', ''mutate_repository'', ''inspect_pull_request'', ''mutate_pull_request''],
      effects = [WORKSPACE_READ, GIT_MUTATION, GITHUB_MUTATION], tm_scope = ''worktree'', sandbox_profile = ''workspace'',
      reversible = False, idempotency = KEYED, evidence_producers = [], tm_schema_version = TOOL_MANIFEST_SCHEMA_VERSION\<rparr>"

definition repository_validate :: "pydict \<Rightarrow> string list" where
  "repository_validate args =
     (case get_item args ''operation'' of
        PStr opn \<Rightarrow>
          if opn = [] then [''repository operation is required'']
          else if opn \<notin> set repository_operations then [''unsupported repository operation: '' @ opn]
          else []
      | _ \<Rightarrow> [''repository operation is required''])"

definition repository_observed :: "string \<Rightarrow> tool_effect" where
  "repository_observed opn =
     (if startswith opn ''pr_'' then (if opn \<in> set github_writes then GITHUB_MUTATION else WORKSPACE_READ)
      else if opn \<in> {''add'', ''move'', ''rename''} then GIT_MUTATION else WORKSPACE_READ)"

definition repository_execute :: "tool_programs \<Rightarrow> tool_context \<Rightarrow> pydict \<Rightarrow> tool_result result" where
  "repository_execute tp ctx args =
     (let opn = operation_text args; tool = (if startswith opn ''pr_'' then ''gh'' else ''git'') in
      bind_r (tp_git_gh tp tool args (worktree_root ctx)) (\<lambda>out.
      Inr (plain_result (repository_observed opn)
        (if opn = ''pr_publish_clean'' then get_item out ''pull_request_url'' else PDict out))))"

definition repository_effects :: "pydict \<Rightarrow> tool_effect list" where
  "repository_effects args =
     (let opn = operation_text args in
      if startswith opn ''pr_'' then [if opn \<in> set github_writes then GITHUB_MUTATION else WORKSPACE_READ]
      else [if opn \<in> set git_writes then GIT_MUTATION else WORKSPACE_READ])"

definition repository_adapter :: "tool_programs \<Rightarrow> tool_adapter" where
  "repository_adapter tp =
     \<lparr>manifest = repository_manifest, adapter_validate = \<lambda>ctx. repository_validate, adapter_execute = repository_execute tp,
      adapter_effects_for = Some (\<lambda>ctx. repository_effects)\<rparr>"

definition enrichment_adapter :: "tool_programs \<Rightarrow> tool_adapter" where
  "enrichment_adapter tp =
     \<lparr>manifest = \<lparr>tool_name = ''enrich'', semantic_actions = [''enrich_test_output''], effects = [WORKSPACE_READ], tm_scope = ''execution'',
        sandbox_profile = ''workspace'', reversible = True, idempotency = IDEM_NONE, evidence_producers = [''pytest''],
        tm_schema_version = TOOL_MANIFEST_SCHEMA_VERSION\<rparr>,
      adapter_validate = (\<lambda>ctx args.
        if get_item args ''format'' \<noteq> PStr ''pytest'' then [''enrich format must be pytest'']
        else if \<not> is_mapping (get_item args ''tool_output'') then [''enrich tool_output must be an object'']
        else []),
      adapter_execute = (\<lambda>ctx args. bind_r (tp_enrich tp args) (\<lambda>out. Inr (plain_result WORKSPACE_READ out))),
      adapter_effects_for = Some (\<lambda>ctx args. [WORKSPACE_READ])\<rparr>"

fun text_items :: "pyval list \<Rightarrow> bool" where
  "text_items [] = True"
| "text_items (v # vs) = (is_str v \<and> the_str v \<noteq> [] \<and> text_items vs)"

definition process_control :: "string list" where
  "process_control = ['';'', ''&&'', ''||'', ''|'', ''>'', ''>>'']"

definition process_command_errors :: "pyval \<Rightarrow> string list" where
  "process_command_errors command =
     (case command of
        PStr s \<Rightarrow>
          (case shlex_split s of
             Inl _ \<Rightarrow> [''process command is not valid shell syntax'']
           | Inr items \<Rightarrow>
               if items = [] then [''process command must not be empty'']
               else if list_ex (\<lambda>item. item \<in> set process_control) items then [''process command contains shell control syntax'']
               else [])
      | PList vs \<Rightarrow> if vs = [] \<or> \<not> text_items vs then [''process argv items must be non-empty strings''] else []
      | _ \<Rightarrow> [''process command must be a string or argv''])"

definition process_validate :: "pydict \<Rightarrow> string list" where
  "process_validate args =
     (let errors = process_command_errors (get_item args ''command'') in
      if errors \<noteq> [] then errors
      else case get_default args ''env'' (PDict []) of
        PDict env \<Rightarrow> if list_ex (\<lambda>(k, v). k = [] \<or> \<not> is_str v) env then [''process env must map strings to strings''] else []
      | _ \<Rightarrow> [''process env must map strings to strings''])"

definition process_manifest :: tool_manifest where
  "process_manifest = workspace_manifest ''process'' [''run_process''] [PROCESS_EXECUTION] ''workspace-process'' False"

definition shell_adapter :: "(pydict \<Rightarrow> pyval result) \<Rightarrow> tool_adapter" where
  "shell_adapter executor =
     \<lparr>manifest = process_manifest, adapter_validate = \<lambda>ctx. process_validate,
      adapter_execute = (\<lambda>ctx args. bind_r (executor args) (\<lambda>out. Inr (plain_result PROCESS_EXECUTION out))),
      adapter_effects_for = None\<rparr>"

text \<open>\<open>inside\<close>: \<^verbatim>\<open>(root / value).resolve().relative_to(root)\<close> does not raise.\<close>

definition inside_root :: "tool_programs \<Rightarrow> tool_context \<Rightarrow> string \<Rightarrow> bool" where
  "inside_root tp ctx v \<longleftrightarrow> (let root = tp_resolve tp (worktree_root ctx) in prefix root (tp_resolve tp (under_root root v)))"

fun mutation_path_errors :: "tool_programs \<Rightarrow> tool_context \<Rightarrow> pyval list \<Rightarrow> string list" where
  "mutation_path_errors tp ctx [] = []"
| "mutation_path_errors tp ctx (v # vs) =
     (if \<not> is_str v \<or> the_str v = [] then [''file mutation paths must be strings'']
      else if startswith (the_str v) ''/'' then [''file mutation paths must be relative'']
      else if \<not> inside_root tp ctx (the_str v) then [''file mutation escapes worktree: '' @ the_str v]
      else mutation_path_errors tp ctx vs)"

definition file_mutation_manifest :: tool_manifest where
  "file_mutation_manifest = workspace_manifest ''file-mutation'' [''edit_files''] [WORKSPACE_WRITE] ''workspace-files'' False"

definition file_mutation_adapter :: "tool_programs \<Rightarrow> pyval result \<Rightarrow> tool_adapter" where
  "file_mutation_adapter tp executor =
     \<lparr>manifest = file_mutation_manifest,
      adapter_validate = (\<lambda>ctx args. case get_item args ''paths'' of
          PList vs \<Rightarrow> if vs = [] then [''file mutation requires target paths''] else mutation_path_errors tp ctx vs
        | _ \<Rightarrow> [''file mutation requires target paths'']),
      adapter_execute = (\<lambda>ctx args. bind_r executor (\<lambda>out. Inr (plain_result WORKSPACE_WRITE out))),
      adapter_effects_for = None\<rparr>"

text \<open>\<^verbatim>\<open>path.suffix\<close> of the last component: from its last dot, unless that is its first or last character.\<close>

definition path_suffix :: "string list \<Rightarrow> string" where
  "path_suffix p =
     (if p = [] then [] else
      let tail = takeWhile (\<lambda>c. c \<noteq> CHR ''.'') (rev (last p)); n = length (last p) - length tail in
      if tail \<noteq> [] \<and> 1 < n then CHR ''.'' # rev tail else [])"

definition is_python_file :: "string list \<Rightarrow> bool" where
  "is_python_file p \<longleftrightarrow> casefold (path_suffix p) = ''.py''"

definition basedpyright_manifest :: "string \<Rightarrow> tool_manifest" where
  "basedpyright_manifest tool = workspace_manifest tool [''inspect_code''] [WORKSPACE_READ] ''workspace-read'' True"

definition target_of :: "tool_programs \<Rightarrow> string \<Rightarrow> string \<Rightarrow> string list" where
  "target_of tp root v = tp_resolve tp (under_root (tp_resolve tp root) v)"

definition basedpyright_validate :: "tool_programs \<Rightarrow> string \<Rightarrow> tool_context \<Rightarrow> pydict \<Rightarrow> string list" where
  "basedpyright_validate tp tool ctx args =
     (let query = get_item args ''query''; limit = get_default args ''limit'' (PInt 50); path = get_item args ''path'' in
      if get_item args ''help'' = PBool True then []
      else if tool = ''basedpyright-symbol'' then
        (if \<not> is_str query \<or> strip (the_str query) = [] then [''basedpyright symbol query is required'']
         else if (case limit of PInt n \<Rightarrow> \<not> (1 \<le> n \<and> n \<le> 200) | _ \<Rightarrow> True)
         then [''basedpyright symbol limit must be from 1 through 200'']
         else [])
      else if \<not> is_str path \<or> strip (the_str path) = [] then [''basedpyright structure path is required'']
      else if startswith (the_str path) ''/'' then [''basedpyright structure path must be relative'']
      else if \<not> inside_root tp ctx (the_str path) then [''basedpyright structure path escapes worktree'']
      else if \<not> is_python_file (target_of tp (worktree_root ctx) (the_str path))
      then [''basedpyright structure currently supports Python files only'']
      else if \<not> tp_is_file tp (target_of tp (worktree_root ctx) (the_str path)) then [''basedpyright structure path must be a file'']
      else [])"

definition basedpyright_adapter :: "tool_programs \<Rightarrow> string \<Rightarrow> tool_adapter" where
  "basedpyright_adapter tp tool =
     \<lparr>manifest = basedpyright_manifest tool, adapter_validate = basedpyright_validate tp tool,
      adapter_execute = (\<lambda>ctx args. bind_r (tp_basedpyright tp tool args (worktree_root ctx)) (\<lambda>out. Inr (plain_result WORKSPACE_READ out))),
      adapter_effects_for = None\<rparr>"

definition fuzzy_match_manifest :: tool_manifest where
  "fuzzy_match_manifest = workspace_manifest ''fuzzy-match'' [''discover_files''] [WORKSPACE_READ] ''workspace-read'' True"

definition fuzzy_match_validate :: "pydict \<Rightarrow> string list" where
  "fuzzy_match_validate args =
     (case get_item args ''command'' of
        PStr s \<Rightarrow> if strip s = [] then [''fuzzy-match command must not be empty''] else []
      | PList vs \<Rightarrow> if vs = [] \<or> \<not> text_items vs then [''fuzzy-match command items must be non-empty strings''] else []
      | _ \<Rightarrow> [''fuzzy-match command must be a string or array''])"

definition fuzzy_match_adapter :: "tool_programs \<Rightarrow> tool_adapter" where
  "fuzzy_match_adapter tp =
     \<lparr>manifest = fuzzy_match_manifest, adapter_validate = \<lambda>ctx. fuzzy_match_validate,
      adapter_execute = (\<lambda>ctx args.
        bind_r (get_required args ''command'') (\<lambda>command.
        bind_r (tp_fuzzy_match tp command (worktree_root ctx)) (\<lambda>out.
        Inr (plain_result WORKSPACE_READ (PDict [(''tool'', PStr ''fuzzy-match''), (''command'', command), (''result'', out)]))))),
      adapter_effects_for = None\<rparr>"

definition repository_read_manifest :: "string \<Rightarrow> tool_manifest" where
  "repository_read_manifest opn = workspace_manifest (''repository-'' @ opn) [opn] [WORKSPACE_READ] ''workspace-read'' True"

definition repository_read_validate :: "tool_programs \<Rightarrow> string \<Rightarrow> tool_context \<Rightarrow> pydict \<Rightarrow> string list" where
  "repository_read_validate tp opn ctx args =
     (let v = get_default args ''file_path'' (get_default args ''directory'' (PStr ''.'')) in
      if \<not> is_str v \<or> strip (the_str v) = [] then [opn @ '' path must be non-empty'']
      else if startswith (the_str v) ''/'' then [opn @ '' path must be relative'']
      else if \<not> inside_root tp ctx (the_str v) then [opn @ '' path escapes worktree'']
      else if opn = ''read_document'' then
        (case (int_value (get_item args ''start_line''), int_value (get_item args ''end_line'')) of
           (Some a, Some b) \<Rightarrow> if b < a then [''read_document requires an ordered integer line range''] else []
         | _ \<Rightarrow> [''read_document requires an ordered integer line range''])
      else case get_default args ''recursive'' (PBool False) of
        PBool _ \<Rightarrow> [] | _ \<Rightarrow> [''list_files recursive must be a boolean''])"

definition repository_read_adapter :: "tool_programs \<Rightarrow> string \<Rightarrow> (pydict \<Rightarrow> pyval result) \<Rightarrow> tool_adapter" where
  "repository_read_adapter tp opn executor =
     \<lparr>manifest = repository_read_manifest opn, adapter_validate = repository_read_validate tp opn,
      adapter_execute = (\<lambda>ctx args. bind_r (executor args) (\<lambda>out. Inr (plain_result WORKSPACE_READ out))),
      adapter_effects_for = None\<rparr>"

definition deferred_edit_manifest :: "string \<Rightarrow> tool_manifest" where
  "deferred_edit_manifest tool =
     workspace_manifest tool [if tool = ''validate-edit'' then ''validate_edit'' else ''apply_edit'']
       [if tool = ''validate-edit'' then WORKSPACE_READ else WORKSPACE_WRITE] ''workspace-files'' (tool = ''validate-edit'')"

definition deferred_edit_validate :: "pydict \<Rightarrow> string list" where
  "deferred_edit_validate args =
     (let edit = get_item args ''edit'' in if \<not> is_mapping edit \<and> edit \<noteq> PNone then [''deferred edit must be an object''] else [])"

text \<open>The adapter works on the tree that the worktree root has when it runs.\<close>

definition deferred_edit_adapter :: "read_fault \<Rightarrow> copy_fault \<Rightarrow> workspace \<Rightarrow> string \<Rightarrow> string \<Rightarrow> tool_adapter" where
  "deferred_edit_adapter rfault wfault ws tool root =
     \<lparr>manifest = deferred_edit_manifest tool, adapter_validate = \<lambda>ctx. deferred_edit_validate,
      adapter_execute = (\<lambda>ctx args.
        if tool = ''validate-edit'' then
          bind_r (execute_validate_edit_tool root rfault ws args) (\<lambda>out. Inr (plain_result WORKSPACE_READ (PDict out)))
        else bind_r (fst (execute_apply_edit_tool root rfault wfault args ws)) (\<lambda>out. Inr (plain_result WORKSPACE_WRITE (PDict out)))),
      adapter_effects_for = None\<rparr>"

section \<open>The registry\<close>

definition manifest_only_adapter :: "tool_manifest \<Rightarrow> tool_adapter" where
  "manifest_only_adapter m =
     \<lparr>manifest = m, adapter_validate = \<lambda>ctx args. [],
      adapter_execute = (\<lambda>ctx args. Inl (PowdrrExecutionError ''capability_not_bound''
        (''Capability '' @ py_repr (tool_name m) @ '' requires a bound workflow executor.''))),
      adapter_effects_for = None\<rparr>"

definition builtin_adapters :: "tool_programs \<Rightarrow> tool_adapter list" where
  "builtin_adapters tp =
     [repository_adapter tp, enrichment_adapter tp] @
     map manifest_only_adapter
       ([process_manifest, file_mutation_manifest, deferred_edit_manifest ''validate-edit'', deferred_edit_manifest ''apply-edit'',
         fuzzy_match_manifest] @
        map (\<lambda>(name, action). workspace_manifest name [action] [WORKSPACE_READ] ''workspace-read'' True)
          [(''basedpyright-symbol'', ''inspect_code''), (''basedpyright-structure'', ''inspect_code''),
           (''repository-gather_context'', ''gather_context''), (''repository-read_document'', ''read_document''),
           (''repository-list_files'', ''list_files'')])"

definition builtin_tool_registry :: "(string \<Rightarrow> string) \<Rightarrow> tool_programs \<Rightarrow> tool_registry result" where
  "builtin_tool_registry digest tp = new_registry digest (builtin_adapters tp)"

section \<open>Capabilities\<close>

definition require_runtime :: "string \<Rightarrow> runtime option \<Rightarrow> runtime result" where
  "require_runtime capability ro =
     (case ro of
        None \<Rightarrow> Inl (PowdrrExecutionError ''execution_runtime_required'' (capability @ '' requires an ExecutionRuntime''))
      | Some r \<Rightarrow> Inr r)"

definition worktree_context :: "string \<Rightarrow> string set \<Rightarrow> tool_effect set \<Rightarrow> tool_context" where
  "worktree_context root acts effs =
     \<lparr>repo_root = root, worktree_root = root, ctx_semantic_actions = acts, ctx_allowed_effects = effs, ctx_execution_id = None,
      ctx_active_unit_id = None, ctx_active_persona_id = None\<rparr>"

definition capability_request_for :: "string \<Rightarrow> string \<Rightarrow> pydict \<Rightarrow> capability_request" where
  "capability_request_for tool action args =
     \<lparr>rq_tool_name = tool, rq_semantic_action = action, rq_arguments = args, rq_exception_token = None\<rparr>"

text \<open>
  The end that all of them share: the runtime is required and invokes the adapter; a result is returned as its output, a
  resolution that was not executable is raised.
\<close>

definition capability_output ::
    "runtime_env \<Rightarrow> string \<Rightarrow> string \<Rightarrow> tool_adapter \<Rightarrow> tool_context \<Rightarrow> capability_request \<Rightarrow> runtime option
     \<Rightarrow> pyval result \<times> runtime option" where
  "capability_output env code msg a ctx rq ro =
     (case require_runtime (rq_tool_name rq) ro of
        Inl e \<Rightarrow> (Inl e, ro)
      | Inr r \<Rightarrow>
          (case invoke_adapter env a ctx rq r of
             (Inl e, r1) \<Rightarrow> (Inl e, Some r1)
           | (Inr (Invoked tr), r1) \<Rightarrow> (Inr (tr_output tr), Some r1)
           | (Inr (NotExecuted res), r1) \<Rightarrow> (Inl (PowdrrExecutionError code (msg @ rs_reason res)), Some r1)))"

definition invoke_repository_read ::
    "runtime_env \<Rightarrow> tool_programs \<Rightarrow> string \<Rightarrow> pydict \<Rightarrow> string \<Rightarrow> (pydict \<Rightarrow> pyval result) \<Rightarrow> runtime option \<Rightarrow> pyval result \<times> runtime option" where
  "invoke_repository_read env tp opn args root executor =
     capability_output env ''capability_not_executable'' ''Repository read was not executable: '' (repository_read_adapter tp opn executor)
       (worktree_context root {opn} {WORKSPACE_READ}) (capability_request_for (''repository-'' @ opn) opn args)"

definition invoke_fuzzy_match_capability ::
    "runtime_env \<Rightarrow> tool_programs \<Rightarrow> pydict \<Rightarrow> string \<Rightarrow> runtime option \<Rightarrow> pyval result \<times> runtime option" where
  "invoke_fuzzy_match_capability env tp args root =
     capability_output env ''capability_not_executable'' ''Fuzzy-match capability was not executable: '' (fuzzy_match_adapter tp)
       (worktree_context root {''discover_files''} {WORKSPACE_READ}) (capability_request_for ''fuzzy-match'' ''discover_files'' args)"

definition invoke_file_mutation ::
    "runtime_env \<Rightarrow> tool_programs \<Rightarrow> string list \<Rightarrow> string \<Rightarrow> pyval result \<Rightarrow> runtime option \<Rightarrow> pyval result \<times> runtime option" where
  "invoke_file_mutation env tp paths root executor =
     capability_output env ''capability_not_executable'' ''File mutation was not executable: '' (file_mutation_adapter tp executor)
       (worktree_context root {''edit_files''} {WORKSPACE_WRITE})
       (capability_request_for ''file-mutation'' ''edit_files'' [(''paths'', PList (map PStr paths))])"

definition invoke_shell_capability ::
    "runtime_env \<Rightarrow> pydict \<Rightarrow> string \<Rightarrow> (pydict \<Rightarrow> pyval result) \<Rightarrow> runtime option \<Rightarrow> pyval result \<times> runtime option" where
  "invoke_shell_capability env args root executor =
     capability_output env ''capability_not_executable'' ''Process capability request was not executable: '' (shell_adapter executor)
       (worktree_context root {''run_process''} {PROCESS_EXECUTION}) (capability_request_for ''process'' ''run_process'' args)"

definition validate_basedpyright_request :: "tool_programs \<Rightarrow> string \<Rightarrow> pydict \<Rightarrow> string \<Rightarrow> unit result" where
  "validate_basedpyright_request tp tool args root =
     (let raw = get_item args ''path''; path = strip (the_str raw); target = target_of tp root path;
          bad = (\<lambda>msg. Inl (PowdrrExecutionError ''capability_not_executable'' msg)) in
      if tool \<noteq> ''basedpyright-structure'' \<or> get_item args ''help'' = PBool True then Inr ()
      else if \<not> is_str raw \<or> path = [] then bad ''BasedPyright structure requires an exact Python file path.''
      else if startswith path ''/'' then bad ''BasedPyright structure path must be repository-relative.''
      else if \<not> prefix (tp_resolve tp root) target then bad ''BasedPyright structure path escapes the worktree.''
      else if tp_is_dir tp target then bad ''BasedPyright structure path must be a file, not a directory.''
      else if \<not> is_python_file target then bad ''BasedPyright structure currently supports Python files only.''
      else if \<not> tp_is_file tp target then bad ''BasedPyright structure path does not exist as a file.''
      else Inr ())"

definition invoke_basedpyright_capability ::
    "runtime_env \<Rightarrow> tool_programs \<Rightarrow> string \<Rightarrow> pydict \<Rightarrow> string \<Rightarrow> runtime option \<Rightarrow> pyval result \<times> runtime option" where
  "invoke_basedpyright_capability env tp tool args root ro =
     (case validate_basedpyright_request tp tool args root of
        Inl e \<Rightarrow> (Inl e, ro)
      | Inr _ \<Rightarrow>
          capability_output env ''capability_not_executable'' ''BasedPyright capability was not executable: '' (basedpyright_adapter tp tool)
            (worktree_context root {''inspect_code''} {WORKSPACE_READ}) (capability_request_for tool ''inspect_code'' args) ro)"

text \<open>The tree after a deferred edit: that of the application if the runtime has run the tool.\<close>

definition invoke_deferred_edit_capability ::
    "runtime_env \<Rightarrow> read_fault \<Rightarrow> copy_fault \<Rightarrow> string \<Rightarrow> pydict \<Rightarrow> string \<Rightarrow> runtime option \<Rightarrow> workspace
     \<Rightarrow> pyval result \<times> runtime option \<times> workspace" where
  "invoke_deferred_edit_capability env rfault wfault tool args root ro ws =
     (let action = (if tool = ''validate-edit'' then ''validate_edit'' else ''apply_edit'');
          a = deferred_edit_adapter rfault wfault ws tool root in
      case capability_output env ''capability_not_executable'' ''Deferred edit capability was not executable: '' a
          (worktree_context root {action} (set (effects (manifest a)))) (capability_request_for tool action args) ro of
        (res, ro') \<Rightarrow>
          (res, ro',
           case (ro, ro') of
             (Some r, Some r1) \<Rightarrow>
               if tool \<noteq> ''validate-edit'' \<and> ExecuteTool tool args \<in> set (drop (length (rt_effects r)) (rt_effects r1))
               then snd (execute_apply_edit_tool root rfault wfault args ws) else ws
           | _ \<Rightarrow> ws))"

definition intrinsic_request :: "string \<Rightarrow> pydict \<Rightarrow> (string \<times> string) result" where
  "intrinsic_request tool args =
     (let opn = operation_text args in
      if tool = ''enrich'' then Inr (''enrich'', ''enrich_test_output'')
      else if tool = ''git'' then Inr (''repository'', if opn \<in> set git_writes then ''mutate_repository'' else ''inspect_repository'')
      else if tool = ''gh'' then Inr (''repository'', if opn \<in> set github_writes then ''mutate_pull_request'' else ''inspect_pull_request'')
      else Inl (PowdrrExecutionError ''unsupported_tool'' (''Unsupported intrinsic capability: '' @ tool)))"

definition invoke_intrinsic_capability ::
    "runtime_env \<Rightarrow> tool_programs \<Rightarrow> string \<Rightarrow> pydict \<Rightarrow> string \<Rightarrow> runtime option \<Rightarrow> pyval result \<times> runtime option" where
  "invoke_intrinsic_capability env tp tool args root ro =
     (case bind_r (intrinsic_request tool args) (\<lambda>(name, action).
          bind_r (builtin_tool_registry (sha256_hex (env_crypto env)) tp) (\<lambda>reg.
          case get_adapter reg name of
            None \<Rightarrow> Inl (PowdrrExecutionError ''intrinsic_tool_unregistered'' (''No adapter registered for intrinsic tool '' @ py_repr name))
          | Some a \<Rightarrow> Inr (name, action, a))) of
        Inl e \<Rightarrow> (Inl e, ro)
      | Inr (name, action, a) \<Rightarrow>
          capability_output env ''intrinsic_capability_not_executable'' ''Intrinsic capability request was not executable: '' a
            (worktree_context root {''inspect_repository'', ''mutate_repository'', ''inspect_pull_request'', ''mutate_pull_request'', ''enrich_test_output''}
              (set (effects (manifest a)))) (capability_request_for name action args) ro)"

end
