(* ===== verification/Context_Compaction.thy ===== *)
theory Context_Compaction
  imports Task_Validation
begin

text \<open>
  \<^verbatim>\<open>execution/compaction.py\<close>: prompt contexts shortened for a model while their typed references stay exact, the
  bounded store from which the complete context can be retrieved, and the report on persisted documents of other
  versions. The hash of a context and the time of a write are parameters.
\<close>

section \<open>Compaction\<close>

definition TYPED_REFERENCE_KEYS :: "string list" where
  "TYPED_REFERENCE_KEYS =
     [''phase'', ''persona_id'', ''artifact_ids'', ''plan_id'', ''action_ids'', ''obligation_ids'', ''evidence_ids'', ''finding_ids'',
      ''exception_ids'', ''rule_ids'', ''intent_ids'', ''clause_ids'', ''contract_fingerprint'', ''effective_contract'',
      ''checkpoint_ids'']"

text \<open>\<^verbatim>\<open>s[:n]\<close>; a negative bound counts from the end.\<close>

definition slice_to :: "int \<Rightarrow> 'a list \<Rightarrow> 'a list" where
  "slice_to n xs = (if 0 \<le> n then take (nat n) xs else take (length xs - nat (- n)) xs)"

text \<open>The ellipsis, code point 0x2026, stands for one character; its place in the character type is that of Windows-1252.\<close>

definition ellipsis :: string where
  "ellipsis = [char_of (133 :: nat)]"

definition compact_value :: "int \<Rightarrow> string \<Rightarrow> pyval \<Rightarrow> pyval" where
  "compact_value n key v =
     (if key \<in> set TYPED_REFERENCE_KEYS then v
      else if is_str v \<and> n < int (length (the_str v)) then PStr (slice_to (n - 1) (the_str v) @ ellipsis)
      else if key \<in> {''prose'', ''tool_output'', ''transcript''} then PStr (slice_to n (str_val v))
      else v)"

definition compact_execution_context :: "int \<Rightarrow> pydict \<Rightarrow> pydict" where
  "compact_execution_context n ctx = map (\<lambda>(key, v). (key, compact_value n key v)) ctx"

section \<open>The retrieval store\<close>

text \<open>
  A stored context is the decoded document of its file, whose keys \<^verbatim>\<open>json.dumps\<close> has sorted, with the time of its last
  modification; the entries are in the order in which \<^verbatim>\<open>glob\<close> lists them.
\<close>

fun sort_keys :: "pyval \<Rightarrow> pyval" where
  "sort_keys (PList xs) = PList (map sort_keys xs)"
| "sort_keys (PDict d) = PDict (sort_key fst (map (\<lambda>(k, v). (k, sort_keys v)) d))"
| "sort_keys v = v"

record context_store =
  cx_max_entries :: int
  cx_entries :: "(string \<times> pyval \<times> int) list"

definition new_context_store :: "(string \<times> pyval \<times> int) list \<Rightarrow> int \<Rightarrow> context_store result" where
  "new_context_store files n =
     (if n < 1 then Inl (ValueError ''max_entries must be positive'') else Inr \<lparr>cx_max_entries = n, cx_entries = files\<rparr>)"

definition context_reference :: "(string \<Rightarrow> string) \<Rightarrow> pydict \<Rightarrow> string" where
  "context_reference sha ctx = take 24 (sha (json_sorted (PDict ctx)))"

definition save_context :: "(string \<Rightarrow> string) \<Rightarrow> int \<Rightarrow> context_store \<Rightarrow> pydict \<Rightarrow> string \<times> context_store" where
  "save_context sha now st ctx =
     (let reference = context_reference sha ctx;
          files = AList.update reference (sort_keys (PDict ctx), now) (cx_entries st);
          entries = map fst (sort_key (snd \<circ> snd) files);
          stale = slice_to (- cx_max_entries st) entries in
      (reference, st\<lparr>cx_entries := filter (\<lambda>(ref, _). ref \<notin> set stale) files\<rparr>))"

definition load_context :: "context_store \<Rightarrow> string \<Rightarrow> pydict result" where
  "load_context st reference =
     (case map_of (cx_entries st) reference of
        None \<Rightarrow> Inl (FileNotFoundError (reference @ ''.json''))
      | Some (PDict d, _) \<Rightarrow> Inr d
      | Some _ \<Rightarrow> Inl (ValueError ''stored execution context must be an object''))"

definition compact_with_retrieval :: "(string \<Rightarrow> string) \<Rightarrow> int \<Rightarrow> int \<Rightarrow> context_store \<Rightarrow> pydict \<Rightarrow> pydict \<times> context_store" where
  "compact_with_retrieval sha now n st ctx =
     (case save_context sha now st ctx of (reference, st') \<Rightarrow>
        (AList.update ''full_context_ref'' (PStr reference) (compact_execution_context n ctx), st'))"

section \<open>Compatibility of persisted documents\<close>

definition compatibility_diagnostic :: "pydict \<Rightarrow> string option result" where
  "compatibility_diagnostic doc =
     (case get_item doc ''schema_version'' of
        PNone \<Rightarrow> Inr (Some ''persisted workflow has no schema_version; migration is required'')
      | version \<Rightarrow>
          bind_r (set_member version [''execution-state-v1'', ''execution-plan-v1'', ''behavior-rule-v1'', ''intent-v1'']) (\<lambda>known.
          Inr (if known then None else Some (''unsupported persisted workflow schema: '' @ repr_val version))))"

text \<open>The files below the directory in path order: unreadable or not JSON (\<open>None\<close>), or the decoded document.\<close>

definition report_file :: "nat \<times> (string \<times> string) list \<Rightarrow> string \<times> pyval option \<Rightarrow> (nat \<times> (string \<times> string) list) result" where
  "report_file acc entry =
     (case (acc, entry) of
        ((n, ds), (path, None)) \<Rightarrow> Inr (n, ds @ [(path, ''invalid JSON'')])
      | ((n, ds), (path, Some (PList _))) \<Rightarrow> Inr (n + 1, ds @ [(path, ''legacy behavior rules require intent migration'')])
      | ((n, ds), (path, Some (PDict doc))) \<Rightarrow>
          bind_r (compatibility_diagnostic doc) (\<lambda>diag.
          Inr (n + 1, ds @ (case diag of None \<Rightarrow> [] | Some t \<Rightarrow> [(path, t)])))
      | ((n, ds), (path, Some _)) \<Rightarrow> Inr (n, ds @ [(path, ''persisted document is not an object'')]))"

definition compatibility_report :: "string \<Rightarrow> (string \<times> pyval option) list \<Rightarrow> pydict result" where
  "compatibility_report directory files =
     bind_r (foldM_r report_file (0, []) files) (\<lambda>(n, ds).
     Inr [(''directory'', PStr directory), (''inspected'', PInt (int n)),
       (''diagnostics'', PList (map (\<lambda>(path, t). PDict [(''path'', PStr path), (''diagnostic'', PStr t)]) ds))])"

section \<open>Properties\<close>

lemma map_of_compacted: "map_of (compact_execution_context n ctx) k = map_option (compact_value n k) (map_of ctx k)"
  by (induction ctx) (auto simp: compact_execution_context_def)

lemma slice_length: "0 \<le> n \<Longrightarrow> length (slice_to n xs) \<le> nat n"
  by (simp add: slice_to_def)

definition bounded_preview :: "int \<Rightarrow> pyval \<Rightarrow> pyval \<Rightarrow> bool" where
  "bounded_preview n v w \<longleftrightarrow> (case w of PStr t \<Rightarrow> int (length t) \<le> n | _ \<Rightarrow> w = v) \<and>
     (is_str v \<and> int (length (the_str v)) \<le> n \<longrightarrow> w = v)"

text \<open>Compaction keeps the keys and their order, leaves every typed reference exactly as it was, cuts other texts to
  the preview length, and changes no text that fits; nothing but the verbose fields changes its kind.\<close>

theorem compaction_keeps_references:
  assumes "1 \<le> n"
  shows "map fst (compact_execution_context n ctx) = map fst ctx \<and>
    (\<forall>k \<in> set TYPED_REFERENCE_KEYS. map_of (compact_execution_context n ctx) k = map_of ctx k) \<and>
    (\<forall>k v. map_of ctx k = Some v \<and> k \<notin> set TYPED_REFERENCE_KEYS \<longrightarrow>
       (\<exists>w. map_of (compact_execution_context n ctx) k = Some w \<and> bounded_preview n v w))"
proof -
  have "map fst (compact_execution_context n ctx) = map fst ctx"
    by (simp add: compact_execution_context_def case_prod_unfold)
  moreover have "map_of (compact_execution_context n ctx) k = map_of ctx k" if "k \<in> set TYPED_REFERENCE_KEYS" for k
    using that by (cases "map_of ctx k") (simp_all add: map_of_compacted compact_value_def)
  moreover have "bounded_preview n v (compact_value n k v)" if "k \<notin> set TYPED_REFERENCE_KEYS" for k v
    using that assms by (cases v) (auto simp: bounded_preview_def compact_value_def slice_to_def ellipsis_def split: if_splits)
  ultimately show ?thesis by (simp add: map_of_compacted)
qed

theorem compaction_keeps_references_witness:
  "\<exists>w. map_of (compact_execution_context 10 [(''phase'', PStr ''implementation''), (''prose'', PStr ''a long explanation'')]) ''prose'' = Some w \<and>
     bounded_preview 10 (PStr ''a long explanation'') w"
proof -
  let ?ctx = "[(''phase'', PStr ''implementation''), (''prose'', PStr ''a long explanation'')]"
  have "map_of ?ctx ''prose'' = Some (PStr ''a long explanation'')" "''prose'' \<notin> set TYPED_REFERENCE_KEYS"
    by (simp_all add: TYPED_REFERENCE_KEYS_def)
  with compaction_keeps_references [of 10 ?ctx] show ?thesis by fastforce
qed

lemma last_sort_key:
  assumes "x \<in> set xs" "\<And>y. y \<in> set xs \<Longrightarrow> y \<noteq> x \<Longrightarrow> f y < (f x :: int)"
  shows "last (sort_key f xs) = x"
proof (rule ccontr)
  assume no: "last (sort_key f xs) \<noteq> x"
  have ne: "sort_key f xs \<noteq> []" using assms(1) by (metis empty_iff list.set(1) set_sort)
  then have "f (last (sort_key f xs)) < f x" using assms(2) no by (metis last_in_set set_sort)
  moreover have "f x \<le> f (last (sort_key f xs))"
  proof -
    obtain i where i: "i < length (sort_key f xs)" "sort_key f xs ! i = x" using assms(1) by (metis in_set_conv_nth set_sort)
    have "map f (sort_key f xs) ! i \<le> map f (sort_key f xs) ! (length (sort_key f xs) - 1)"
      by (rule sorted_nth_mono [OF sorted_sort_key]) (use i in auto)
    with i ne show ?thesis by (simp add: last_conv_nth)
  qed
  ultimately show False by simp
qed

lemma last_not_earlier: "distinct xs \<Longrightarrow> k < length xs \<Longrightarrow> last xs \<notin> set (take k xs)"
proof -
  assume d: "distinct xs" and k: "k < length xs"
  have "last xs = last (drop k xs)" using k by simp
  moreover have "last (drop k xs) \<in> set (drop k xs)" using k by (intro last_in_set) simp
  moreover have "set (take k xs) \<inter> set (drop k xs) = {}" using d by (metis append_take_drop_id distinct_append)
  ultimately show ?thesis by auto
qed

definition store_fits :: "int \<Rightarrow> context_store \<Rightarrow> bool" where
  "store_fits now st \<longleftrightarrow> 1 \<le> cx_max_entries st \<and> distinct (map fst (cx_entries st)) \<and> list_all (\<lambda>(ref, doc, t). t < now) (cx_entries st)"

lemma sorted_names: "distinct (map fst files) \<Longrightarrow>
    distinct (map fst (sort_key f files)) \<and> set (map fst (sort_key f files)) = fst ` set files \<and> length (sort_key f files) = length files"
  by (metis distinct_map distinct_sort length_sort list.set_map set_sort)

lemma map_of_dropped: "map_of (filter (\<lambda>(r, _). r \<notin> A) xs) r = (if r \<in> A then None else map_of xs r)"
  by (induction xs) auto

lemma length_dropped:
  assumes "distinct (map fst xs)" "distinct ys" "set ys \<subseteq> fst ` set xs"
  shows "length (filter (\<lambda>(r, _). r \<notin> set ys) xs) = length xs - length ys"
proof -
  let ?left = "filter (\<lambda>(r, _). r \<notin> set ys) xs"
  have "distinct (map fst ?left)" using assms(1) by (induction xs) auto
  then have "length ?left = card (fst ` set ?left)" by (metis distinct_card length_map list.set_map)
  also have "fst ` set ?left = fst ` set xs - set ys" by force
  also have "card \<dots> = card (fst ` set xs) - card (set ys)" using assms(3) by (simp add: card_Diff_subset)
  also have "\<dots> = length xs - length ys" using assms(1,2) by (metis distinct_card length_map list.set_map)
  finally show ?thesis .
qed

text \<open>A context saved at a time later than the stored ones loads again, with its keys sorted; the store never holds
  more entries than its bound, and one per reference.\<close>

theorem saved_context_loads:
  assumes "store_fits now st"
  shows "(let (reference, st') = save_context sha now st ctx in
    (\<exists>d. sort_keys (PDict ctx) = PDict d \<and> load_context st' reference = Inr d) \<and>
    int (length (cx_entries st')) \<le> cx_max_entries st \<and> distinct (map fst (cx_entries st')))"
proof -
  let ?ref = "context_reference sha ctx" and ?n = "cx_max_entries st"
  let ?files = "AList.update ?ref (sort_keys (PDict ctx), now) (cx_entries st)"
  let ?names = "map fst (sort_key (snd \<circ> snd) ?files)"
  let ?stale = "slice_to (- ?n) ?names"
  let ?left = "filter (\<lambda>(ref, _). ref \<notin> set ?stale) ?files"
  have n: "1 \<le> ?n" and d0: "distinct (map fst (cx_entries st))" and old: "\<And>ref doc t. (ref, doc, t) \<in> set (cx_entries st) \<Longrightarrow> t < now"
    using assms by (auto simp: store_fits_def list_all_iff)
  have d: "distinct (map fst ?files)" using d0 by (rule AList.distinct_update)
  have here: "map_of ?files ?ref = Some (sort_keys (PDict ctx), now)" by (simp add: update_conv')
  note names = sorted_names [OF d, of "snd \<circ> snd"]
  have stale: "?stale = take (length ?files - nat ?n) ?names" using n names by (simp add: slice_to_def)
  have others: "snd (snd y) < now" if "y \<in> set ?files" "y \<noteq> (?ref, sort_keys (PDict ctx), now)" for y
  proof -
    obtain r doc t where y: "y = (r, doc, t)" by (cases y) auto
    with that(1) d have "map_of ?files r = Some (doc, t)" by simp
    with that(2) y have "map_of (cx_entries st) r = Some (doc, t)" by (auto simp: update_conv' split: if_splits)
    then have "(r, doc, t) \<in> set (cx_entries st)" by (rule map_of_SomeD)
    with old y show ?thesis by auto
  qed
  have "last (sort_key (snd \<circ> snd) ?files) = (?ref, sort_keys (PDict ctx), now)"
    by (rule last_sort_key) (use here others in \<open>auto dest: map_of_SomeD\<close>)
  moreover have ne: "?files \<noteq> []" using here by auto
  moreover have "sort_key (snd \<circ> snd) ?files \<noteq> []" using names ne by fastforce
  ultimately have "last ?names = ?ref" by (simp add: last_map)
  moreover have "length ?files - nat ?n < length ?names" using n ne names by simp
  ultimately have fresh: "?ref \<notin> set ?stale" using last_not_earlier [of ?names] names unfolding stale by metis
  have loads: "map_of ?left ?ref = Some (sort_keys (PDict ctx), now)" using fresh here by (simp add: map_of_dropped)
  have "distinct ?stale" "set ?stale \<subseteq> fst ` set ?files" "length ?stale = length ?files - nat ?n"
    unfolding stale using names set_take_subset [of _ ?names] by auto
  with length_dropped [OF d] n have short: "int (length ?left) \<le> ?n" by force
  have "distinct (map fst ?left)" using d by (rule distinct_map_filter)
  moreover have "load_context (st\<lparr>cx_entries := ?left\<rparr>) ?ref = Inr (sort_key fst (map (\<lambda>(k, v). (k, sort_keys v)) ctx))"
    using loads by (simp add: load_context_def)
  ultimately show ?thesis using short by (simp only: save_context_def Let_def prod.case) simp
qed

definition sample_contexts :: context_store where
  "sample_contexts = \<lparr>cx_max_entries = 1, cx_entries = [(''old'', PDict [], 4)]\<rparr>"

theorem saved_context_loads_witness:
  "\<exists>d st'. save_context (\<lambda>t. ''0a1b'') 5 sample_contexts [(''k'', PInt 1)] = (''0a1b'', st') \<and> load_context st' ''0a1b'' = Inr d \<and>
     length (cx_entries st') \<le> 1"
proof -
  have "store_fits 5 sample_contexts" by (simp add: store_fits_def sample_contexts_def)
  from saved_context_loads [OF this, of "\<lambda>t. ''0a1b''" "[(''k'', PInt 1)]"] show ?thesis
    by (auto simp: save_context_def context_reference_def sample_contexts_def Let_def)
qed

section \<open>Sorting keys does not change a document\<close>

fun doc_ok :: "pyval \<Rightarrow> bool" where
  "doc_ok (PList xs) = list_all doc_ok xs"
| "doc_ok (PDict d) = (distinct (map fst d) \<and> list_all (\<lambda>(k, v). doc_ok v) d)"
| "doc_ok v = True"

lemma sort_keys_eq: "doc_ok v \<Longrightarrow> py_eq v (sort_keys v)"
proof (induction v rule: doc_ok.induct)
  case (1 xs)
  then show ?case by (auto simp: list_all2_conv_all_nth list_all_iff)
next
  case (2 d)
  have d: "distinct (map fst d)" using "2.prems" by simp
  let ?e = "map (\<lambda>(k, v). (k, sort_keys v)) d"
  have "map fst ?e = map fst d" by (simp add: case_prod_unfold)
  with d have "distinct (map fst ?e)" by (simp only:)
  then have de: "distinct (map fst (sort_key fst ?e))" using sorted_names by blast
  have "map_of (sort_key fst ?e) k = Some (sort_keys v)" if "(k, v) \<in> set d" for k v
    using de that by (intro map_of_is_SomeI) auto
  with 2 show ?case by (fastforce simp: list_all_iff)
qed simp_all

end
