(* ===== verification/Runtime_Context.thy ===== *)
theory Runtime_Context
  imports Execution_Runtime Checkpoint_Store Context_Compaction
begin

text \<open>
  The operations of \<^verbatim>\<open>execution/runtime.py\<close> that look outward: the context a prompt gets, its
  compaction, diagnostics recorded as evidence, and the restoration of a checkpoint's files and state.
\<close>

section \<open>Prompt contexts\<close>

text \<open>\<^verbatim>\<open>{item.obligation_id: item for item in ...}.values()\<close>: first position, last item.\<close>

definition open_obligation_items :: "runtime \<Rightarrow> execution_obligation list" where
  "open_obligation_items r =
     map snd (fold (\<lambda>ob d. AList.update (obligation_id ob) ob d) (filter (\<lambda>ob. ob_status ob = OS_OPEN) (all_obligations r)) [])"

definition prompt_guidance_context :: "runtime \<Rightarrow> (string \<times> string) list" where
  "prompt_guidance_context r =
     guidance_context r @ (case current_persona_id (rt_state r) of None \<Rightarrow> [] | Some p \<Rightarrow> [(''persona_id'', p)])"

definition rule_entry :: "behavior_rule \<Rightarrow> pyval" where
  "rule_entry rule = PDict [(''rule_id'', PStr (rule_id rule)), (''version'', PInt (rule_version rule)), (''text'', PStr (rule_text rule))]"

definition prompt_context :: "runtime_env \<Rightarrow> runtime \<Rightarrow> pydict result" where
  "prompt_context env r =
     bind_r (load_applicable_guidance env r (prompt_guidance_context r)) (\<lambda>rules.
     bind_r (runtime_contract env r (prompt_guidance_context r)) (\<lambda>c.
     bind_r (guidance_required_actions env r) (\<lambda>required.
     Inr (compact_execution_context 1000
       [(''phase'', PStr (phase_value (current_phase (rt_state r)))),
        (''allowed_actions'', (case runtime_allowed_actions r of None \<Rightarrow> PNone | Some acts \<Rightarrow> str_list acts)),
        (''capability_catalog'', PList (map PDict (capability_catalog r))),
        (''guidance'', PList (map rule_entry rules)),
        (''guidance_required_actions'', str_list (sorted_list_of_set required)),
        (''effective_contract'', PDict (effective_to_data True c)),
        (''intent_ids'', str_list (sorted_set (map cl_intent_id (ec_clauses c)))),
        (''clause_ids'', str_list (contract_clause_ids c)),
        (''contract_fingerprint'', PStr (ec_fingerprint c)),
        (''intent_requirements'', str_list (sorted_set (concat (map (requirements \<circ> contract) (ec_clauses c))))),
        (''intent_conflicts'', str_list (ec_conflicts c)),
        (''open_obligations'', PList (map (PDict \<circ> obligation_to_data) (open_obligation_items r)))]))))"

definition compact_prompt_context ::
    "runtime_env \<Rightarrow> int \<Rightarrow> runtime \<Rightarrow> context_store \<Rightarrow> pydict \<Rightarrow> pydict result \<times> context_store" where
  "compact_prompt_context env now r st context =
     (case prompt_context env r of
        Inl e \<Rightarrow> (Inl e, st)
      | Inr state \<Rightarrow>
          (case compact_with_retrieval (sha256_hex (env_crypto env)) now 1000 st (AList.update ''runtime_state'' (PDict state) context) of
             (d, st') \<Rightarrow> (Inr d, st')))"

section \<open>Diagnostics and checkpoints\<close>

definition record_diagnostic :: "runtime_env \<Rightarrow> diagnostic_result \<Rightarrow> unit rt_op" where
  "record_diagnostic env result r =
     bind_rt (record_evidence (''diagnostic-'' @ dg_name result @ ''-'' @ show_int (event_sequence (rt_state r) + 1)) (dg_name result)
       (''diagnostic:'' @ dg_name result)
       (sha256_hex (env_crypto env) (dg_name result @ '':'' @ show_int (event_sequence (rt_state r)))) (dg_successful result))
       (\<lambda>_. ok_rt ()) r"

definition diagnose ::
    "runtime_env \<Rightarrow> (string \<times> (string \<Rightarrow> string result)) list \<Rightarrow> nat \<Rightarrow> diagnostic_result list rt_op" where
  "diagnose env hooks max_chars r =
     (let results = run_diagnostics (exc_text (env_hooks env)) (rt_repo_root r) hooks max_chars in
      bind_rt (for_rt (record_diagnostic env) results) (\<lambda>_. ok_rt results) r)"

text \<open>
  What a restore finds outside the runtime: path resolution, the trees of the workspaces, the JSON reader, the programs
  and the faults of the checkpoint theory.
\<close>

record restore_env =
  re_resolve :: "string \<Rightarrow> string"
  re_json :: "string \<Rightarrow> pyval result"
  re_git :: git_program
  re_fault :: copy_fault
  re_sha :: "string \<Rightarrow> string"

text \<open>Up to the changes: the checkpoint, the state to install and the workspace to restore.\<close>

definition restore_plan ::
    "restore_env \<Rightarrow> checkpoint_files \<Rightarrow> string \<Rightarrow> string option \<Rightarrow> runtime \<Rightarrow> (checkpoint \<times> execution_state \<times> string) result" where
  "restore_plan re st cid wroot r =
     bind_r (load_checkpoint st cid) (\<lambda>ck.
     bind_r (load_state_json st ck) (\<lambda>state_json.
     bind_r (guard_r (state_json \<noteq> None \<or> ck_git_revision ck \<noteq> None)
       (PowdrrExecutionError ''checkpoint_state_missing'' ''checkpoint has no execution state snapshot'')) (\<lambda>_.
     bind_r (case state_json of None \<Rightarrow> Inr (rt_state r) | Some j \<Rightarrow> bind_r (re_json re j) state_from_document) (\<lambda>restored.
     bind_r (guard_r (execution_id restored = rt_execution_id r)
       (PowdrrExecutionError ''checkpoint_execution_mismatch'' ''checkpoint belongs to a different execution'')) (\<lambda>_.
     let target = re_resolve re (case wroot of Some (c # cs) \<Rightarrow> c # cs | _ \<Rightarrow> ck_workspace_root ck) in
     bind_r (guard_r (target = re_resolve re (ck_workspace_root ck))
       (PowdrrExecutionError ''checkpoint_workspace_mismatch'' ''checkpoint restore target differs from its recorded workspace'')) (\<lambda>_.
     Inr (ck, restored, target)))))))"

definition restore_checkpoint ::
    "restore_env \<Rightarrow> checkpoint_files \<Rightarrow> string \<Rightarrow> string option \<Rightarrow> (string \<Rightarrow> workspace option) \<Rightarrow> runtime
     \<Rightarrow> execution_state result \<times> runtime \<times> (string \<Rightarrow> workspace option)" where
  "restore_checkpoint re st cid wroot trees r =
     (case restore_plan re st cid wroot r of
        Inl e \<Rightarrow> (Inl e, r, trees)
      | Inr (ck, restored, target) \<Rightarrow>
          (case changed_paths (re_sha re) (re_git re) ck target (case trees target of None \<Rightarrow> [] | Some w \<Rightarrow> w) of
             Inl e \<Rightarrow> (Inl e, r, trees)
           | Inr changed \<Rightarrow>
               (case restore_checkpoint_files (re_git re) (re_fault re) st ck target (trees target) of
                  (Inl e, w) \<Rightarrow> (Inl e, r, trees(target := w))
                | (Inr _, w) \<Rightarrow>
                    (case runtime_append_event CHECKPOINT_REVERTED
                       [(''checkpoint_id'', PStr cid), (''changed_paths'', str_list changed), (''state'', PDict (state_to_data restored))] r of
                       (Inl e, r1) \<Rightarrow> (Inl e, r1, trees(target := w))
                     | (Inr s, r1) \<Rightarrow>
                         (Inr s, r1\<lparr>rt_kernel := restore_obligations (rt_kernel r1) (obligations s),
                                    rt_projected := length (k_events (rt_kernel r1))\<rparr>, trees(target := w))))))"

end
