(* ===== verification/Runtime_Sync.thy ===== *)
theory Runtime_Sync
  imports Runtime_Context
begin

text \<open>
  The invariant of the execution runtime: whatever operation runs, with or without an exception, the stored log reduces
  to the state in memory (\<open>synced\<close>). The locale \<open>stable_property\<close> carries this for any property of the state that
  the runtime's own events keep; it is interpreted for the trivial property and for the completion of an
  idempotency key. Reachable runtimes are defined by one step per operation and the restoration of checkpoints.
\<close>

section \<open>Runtimes in step with their store\<close>

lemmas canonical_event_id = canonical_numbered [where t = "'':''"]

text \<open>The events a runtime appends: it names them after its execution, and does not restore snapshots.\<close>

definition own_events :: "string \<Rightarrow> execution_event list \<Rightarrow> bool" where
  "own_events eid es \<longleftrightarrow> list_all (\<lambda>e. event_type e \<noteq> CHECKPOINT_REVERTED \<and> (\<exists>i. event_id e = eid @ '':'' @ show_int i)) es"

lemma own_events_ids: "canonical eid \<Longrightarrow> own_events eid es \<Longrightarrow> ids_ok es"
  using canonical_event_id by (auto simp: own_events_def ids_ok_def list_all_iff)

lemma store_load:
  assumes "store_inv st"
  shows "load st eid = (bind_r (check_execution_id eid) (\<lambda>_. read_state (st eid)), st)"
proof -
  have d: "dir_inv eid (st eid)" using assms by (simp add: store_inv_def)
  then have "load_dir (st eid) eid = (read_state (st eid), st eid)"
    using dir_inv_journal [OF d] by (simp add: load_dir_def recover_transaction_def)
  then show ?thesis by (auto simp: load_def split: sum.splits)
qed

lemma store_transaction:
  assumes "store_inv st"
  shows "append_transaction st eid v es =
    (case append_events st eid v es of Inl e \<Rightarrow> (Inl e, st) | Inr (s, st') \<Rightarrow> (Inr s, st'))"
proof -
  have "journal_file (st eid) = None" using assms dir_inv_journal by (auto simp: store_inv_def)
  note same = transaction_dir [OF this]
  show ?thesis
    by (auto simp: append_transaction_def append_events_def same simp del: apply_write.simps split: sum.splits prod.splits)
qed

section \<open>Properties of the state that no operation of the runtime breaks\<close>

definition queue_ok :: "runtime \<Rightarrow> bool" where
  "queue_ok r \<longleftrightarrow> (case rt_transaction r of None \<Rightarrow> True | Some q \<Rightarrow> list_all (\<lambda>(ty, pl). ty \<noteq> CHECKPOINT_REVERTED) q)"

definition synced :: "(execution_state \<Rightarrow> bool) \<Rightarrow> runtime \<Rightarrow> bool" where
  "synced P r \<longleftrightarrow> store_inv (rt_store r) \<and> canonical (rt_execution_id r) \<and> check_execution_id (rt_execution_id r) = Inr () \<and>
     stored_state (rt_store r) (rt_execution_id r) = Some (rt_state r) \<and> P (rt_state r) \<and> queue_ok r"

definition keeps :: "(execution_state \<Rightarrow> bool) \<Rightarrow> 'a rt_op \<Rightarrow> bool" where
  "keeps P m \<longleftrightarrow> (\<forall>r. synced P r \<longrightarrow> synced P (snd (m r)))"

definition same_durable :: "runtime \<Rightarrow> runtime \<Rightarrow> bool" where
  "same_durable r r' \<longleftrightarrow> rt_store r' = rt_store r \<and> rt_state r' = rt_state r \<and>
     rt_execution_id r' = rt_execution_id r \<and> rt_transaction r' = rt_transaction r"

lemma synced_frame: "synced P r \<Longrightarrow> same_durable r r' \<Longrightarrow> synced P r'"
  by (simp add: synced_def same_durable_def queue_ok_def)

lemma keepsI: "(\<And>r. synced P r \<Longrightarrow> synced P (snd (m r))) \<Longrightarrow> keeps P m"
  by (simp add: keeps_def)

lemma keepsD: "keeps P m \<Longrightarrow> synced P r \<Longrightarrow> m r = (x, r') \<Longrightarrow> synced P r'"
  by (force simp: keeps_def)

lemma keeps_apply: "keeps P m \<Longrightarrow> synced P r \<Longrightarrow> synced P (snd (m r))"
  by (simp add: keeps_def)

lemma keeps_bind [intro]: "keeps P m \<Longrightarrow> (\<And>x. keeps P (f x)) \<Longrightarrow> keeps P (bind_rt m f)"
  unfolding keeps_def bind_rt_def by (fastforce split: prod.splits sum.splits)

lemma synced_bind: "synced P r \<Longrightarrow> keeps P m \<Longrightarrow> (\<And>x. keeps P (f x)) \<Longrightarrow> synced P (snd (bind_rt m f r))"
  using keeps_apply [OF keeps_bind] by blast

lemma keeps_frame: "(\<And>r. same_durable r (snd (m r))) \<Longrightarrow> keeps P m"
  using synced_frame by (auto simp: keeps_def)

lemma same_durable_refl [simp]: "same_durable r r"
  by (simp add: same_durable_def)

lemma keeps_basic [simp, intro]:
  "keeps P (ok_rt x)" "keeps P (raise_rt e)" "keeps P (lift_rt y)" "keeps P (guard_rt b e)"
  by (auto intro: keeps_frame simp: ok_rt_def raise_rt_def lift_rt_def guard_rt_def)

lemma keeps_modify: "(\<And>r. same_durable r (f r)) \<Longrightarrow> keeps P (modify_rt f)"
  by (auto intro: keeps_frame simp: modify_rt_def)

lemma keeps_for [intro]: "(\<And>x. keeps P (f x)) \<Longrightarrow> keeps P (for_rt f xs)"
  by (induction xs) auto

lemma own_project: "project_events eid ph who v sq evs = Inr es \<Longrightarrow> own_events eid es"
proof (induction eid ph who v sq evs arbitrary: es rule: project_events.induct)
  case (2 eid ph who v sq e evs)
  have "durable_type (lc_phase e) \<noteq> CHECKPOINT_REVERTED" by (cases "lc_phase e") auto
  with 2 show ?case by (auto simp: own_events_def)
qed (simp add: own_events_def)

lemma own_projected: "to_execution_events k eid ph who s evs = Inr es \<Longrightarrow> own_events eid es"
  by (auto simp: to_execution_events_def intro: own_project)

lemma store_verify:
  assumes "store_inv st" "stored_state st eid = Some s" "verify st eid = (x, st')"
  shows "st' = st \<and> (\<forall>u. x = Inr u \<longrightarrow> u = s)"
proof -
  have d: "dir_inv eid (st eid)" using assms(1) by (simp add: store_inv_def)
  have r: "read_state (st eid) = Inr s" using assms(2) by (auto simp: stored_state_def split: sum.splits)
  have "load_dir (st eid) eid = (Inr s, st eid)"
    using dir_inv_journal [OF d] r by (simp add: load_dir_def recover_transaction_def)
  then have "snd (verify_dir (st eid) eid) = st eid" "\<And>u. fst (verify_dir (st eid) eid) = Inr u \<Longrightarrow> u = s"
    by (auto simp: verify_dir_def)
  with assms(3) show ?thesis
    by (auto simp: verify_def Let_def split: sum.splits prod.splits)
qed

locale stable_property =
  fixes P :: "execution_state \<Rightarrow> bool"
  assumes stable: "P s \<Longrightarrow> own_events eid es \<Longrightarrow> reduce_execution_events s es = Inr t \<Longrightarrow> P t"
begin

lemma append_synced:
  assumes "synced P r" "own_events (rt_execution_id r) es"
    and "append_events (rt_store r) (rt_execution_id r) v es = Inr (s, st)"
  shows "synced P (r\<lparr>rt_store := st, rt_state := s\<rparr>)"
proof -
  have r: "store_inv (rt_store r)" "canonical (rt_execution_id r)" "P (rt_state r)" "queue_ok r"
    "stored_state (rt_store r) (rt_execution_id r) = Some (rt_state r)" "check_execution_id (rt_execution_id r) = Inr ()"
    using assms(1) by (auto simp: synced_def)
  note ids = own_events_ids [OF r(2) assms(2)]
  from file_store.commit_base [OF r(1) ids assms(3)] r(5) have "reduce_execution_events (rt_state r) es = Inr s" by auto
  with stable [OF r(3) assms(2)] have "P s" by blast
  with r file_store.commit_inv [OF r(1) ids assms(3)] file_store.commit_current [OF r(1) ids assms(3)]
  show ?thesis by (simp add: synced_def queue_ok_def)
qed

lemma keeps_store_append: "(\<And>r. own_events (rt_execution_id r) (es r)) \<Longrightarrow> keeps P (\<lambda>r. store_append (es r) r)"
  by (rule keepsI) (auto simp: store_append_def intro: append_synced split: sum.splits)

lemma own_event: "ty \<noteq> CHECKPOINT_REVERTED \<Longrightarrow> own_events (rt_execution_id r) [runtime_event r ty pl i]"
  by (auto simp: own_events_def runtime_event_def Let_def)

lemma keeps_append_event: "ty \<noteq> CHECKPOINT_REVERTED \<Longrightarrow> keeps P (runtime_append_event ty pl)"
proof (rule keepsI)
  fix r assume ty: "ty \<noteq> CHECKPOINT_REVERTED" and r: "synced P r"
  show "synced P (snd (runtime_append_event ty pl r))"
  proof (cases "rt_transaction r")
    case None
    then show ?thesis using r own_event [OF ty]
      by (auto simp: runtime_append_event_def store_append_def intro: append_synced split: sum.splits)
  next
    case (Some q)
    then show ?thesis using r ty by (simp add: runtime_append_event_def synced_def queue_ok_def)
  qed
qed

lemma append_events_synced:
  assumes "synced P r" "own_events (rt_execution_id r) es"
  shows "synced P (snd (runtime_append_events es r))"
proof (cases "rt_transaction r")
  case None
  then show ?thesis using assms
    by (auto simp: runtime_append_events_def store_append_def intro: append_synced split: sum.splits)
next
  case (Some q)
  then show ?thesis using assms
    by (auto simp: runtime_append_events_def synced_def queue_ok_def own_events_def list_all_iff)
qed

lemma own_numbered:
  assumes "list_all (\<lambda>(ty, pl). ty \<noteq> CHECKPOINT_REVERTED) q"
  shows "own_events (rt_execution_id r) (map (\<lambda>(i, (ty, pl)). runtime_event r ty pl (int i)) (List.enumerate n q))"
proof -
  have "ty \<noteq> CHECKPOINT_REVERTED" if "(i, (ty, pl)) \<in> set (List.enumerate n q)" for i ty pl
  proof -
    have "(ty, pl) \<in> snd ` set (List.enumerate n q)" using that by force
    then have "(ty, pl) \<in> set q" by (metis list.set_map map_snd_enumerate)
    with assms show ?thesis by (auto simp: list_all_iff)
  qed
  then show ?thesis
    by (fastforce simp: own_events_def list_all_iff runtime_event_def Let_def)
qed

lemma own_queued: "list_all (\<lambda>(ty, pl). ty \<noteq> CHECKPOINT_REVERTED) q \<Longrightarrow> own_events (rt_execution_id r) (queued_events r q)"
  unfolding queued_events_def by (rule own_numbered)

lemma commit_synced:
  "synced P r \<Longrightarrow> list_all (\<lambda>(ty, pl). ty \<noteq> CHECKPOINT_REVERTED) q \<Longrightarrow> synced P (snd (commit_attempts n q r))"
proof (induction n q r rule: commit_attempts.induct)
  case (2 n q r)
  have inv: "store_inv (rt_store r)" using "2.prems"(1) by (simp add: synced_def)
  have store: "r\<lparr>rt_store := rt_store r\<rparr> = r" by simp
  show ?case
  proof (cases "append_events (rt_store r) (rt_execution_id r) (state_version (rt_state r)) (queued_events r q)")
    case (Inr p)
    obtain s st where "append_events (rt_store r) (rt_execution_id r) (state_version (rt_state r)) (queued_events r q) = Inr (s, st)"
      using Inr by (cases p) auto
    with append_synced [OF "2.prems"(1) own_queued [OF "2.prems"(2)] this] show ?thesis
      by (simp add: store_transaction [OF inv])
  next
    case (Inl e)
    have loaded: "load (rt_store r) (rt_execution_id r) = (Inr (rt_state r), rt_store r) \<or>
        (\<exists>e. load (rt_store r) (rt_execution_id r) = (Inl e, rt_store r))"
      using "2.prems"(1) by (auto simp: store_load [OF inv] synced_def stored_state_def bind_r_def split: sum.splits)
    have "synced P (r\<lparr>rt_store := rt_store r, rt_state := rt_state r\<rparr>)" using "2.prems"(1) by simp
    with 2 Inl loaded inv show ?thesis
      by (auto simp: store_transaction [OF inv] store split: exc.splits sum.splits)
  qed
qed simp

lemma keeps_transaction: "keeps P body \<Longrightarrow> keeps P (transaction body)"
proof (rule keepsI)
  fix r assume body: "keeps P body" and r: "synced P r"
  show "synced P (snd (transaction body r))"
  proof (cases "rt_transaction r")
    case (Some q)
    then show ?thesis using body r by (simp add: transaction_def keeps_def)
  next
    case None
    obtain res r1 where run: "body (r\<lparr>rt_transaction := Some []\<rparr>) = (res, r1)" by fastforce
    have "synced P (r\<lparr>rt_transaction := Some []\<rparr>)" using r by (simp add: synced_def queue_ok_def)
    with body run have r1: "synced P r1" by (auto dest: keepsD)
    have closed: "synced P (x\<lparr>rt_transaction := None\<rparr>)" if "synced P x" for x
      using that by (simp add: synced_def queue_ok_def)
    have commit: "synced P (snd (commit_transaction q r1))" if "rt_transaction r1 = Some q" for q
      using r1 that by (auto simp: commit_transaction_def synced_def [of P r1] queue_ok_def intro: commit_synced)
    show ?thesis
      using None run r1 closed commit
      by (auto simp: transaction_def split: option.splits prod.splits sum.splits)
  qed
qed

lemma load_synced:
  assumes "synced P r" "load (rt_store r) (rt_execution_id r) = (x, st)"
  shows "st = rt_store r \<and> (\<forall>s. x = Inr s \<longrightarrow> s = rt_state r)"
proof -
  have "store_inv (rt_store r)" using assms(1) by (simp add: synced_def)
  with assms show ?thesis
    by (auto simp: store_load synced_def stored_state_def split: sum.splits)
qed

lemma keeps_sync_kernel: "keeps P (sync_kernel ph who)"
proof (rule keepsI)
  fix r assume r: "synced P r"
  have frame: "synced P (x\<lparr>rt_projected := n\<rparr>)" if "synced P x" for x n
    using synced_frame [OF that] by (simp add: same_durable_def)
  have app: "synced P r'" if "store_append es r = (y, r')" "own_events (rt_execution_id r) es" for es y r'
    using that r by (auto simp: store_append_def intro: append_synced split: sum.splits)
  have queue: "synced P r'" if "runtime_append_events es r = (y, r')" "own_events (rt_execution_id r) es" for es y r'
    using append_events_synced [OF r that(2)] that(1) by simp
  have load: "st = rt_store r \<and> (\<forall>s. x = Inr s \<longrightarrow> s = rt_state r)" if "load (rt_store r) (rt_execution_id r) = (x, st)" for x st
    using load_synced [OF r that] .
  have replay: "synced P r'" if "store_append es (r\<lparr>rt_store := st, rt_state := s\<rparr>) = (y, r')"
      "load (rt_store r) (rt_execution_id r) = (Inr s, st)" "own_events (rt_execution_id r) es" for es y r' s st
    using load [OF that(2)] app that(1,3) by simp
  show "synced P (snd (sync_kernel ph who r))"
    using r
    by (auto simp: sync_kernel_def Let_def split: sum.splits exc.splits prod.splits
        intro!: frame dest: app queue load own_projected replay)
qed

lemma keeps_transition: "keeps P (transition_phase target persona)"
proof (rule keepsI)
  fix r assume r: "synced P r"
  show "synced P (snd (transition_phase target persona r))"
    using r own_event [of PHASE_ENTERED r]
    by (auto simp: transition_phase_def Let_def store_append_def intro: append_synced split: sum.splits prod.splits)
qed

lemma keeps_record_evidence: "keeps P (record_evidence evid producer ty fp good)"
proof (rule keepsI)
  fix r assume r: "synced P r"
  show "synced P (snd (record_evidence evid producer ty fp good r))"
    using r own_event [of EVIDENCE_RECORDED r]
    by (auto simp: record_evidence_def store_append_def intro: append_synced split: sum.splits)
qed

lemma keeps_recording [simp, intro]:
  "keeps P (record_artifact a)" "keeps P (accept_artifact aid)" "keeps P (record_finding f)"
  "keeps P (record_disposition fid st)" "keeps P (record_observer_decision v w x y z t u q)"
  by (auto simp: record_artifact_def accept_artifact_def record_finding_def record_disposition_def
      record_observer_decision_def intro: keeps_append_event)

lemma keeps_invalidate: "keeps P (invalidate_runtime_evidence fps)"
proof (rule keepsI)
  fix r assume r: "synced P r"
  let ?f = "\<lambda>e. bind_rt (runtime_append_event EVIDENCE_INVALIDATED [(''evidence_id'', PStr (evidence_id e))]) (\<lambda>_. ok_rt ())"
  have "keeps P (for_rt ?f xs)" for xs by (intro keeps_for keeps_bind keeps_append_event) auto
  moreover obtain y r1 where run: "for_rt ?f (filter (\<lambda>e. input_fingerprint e \<in> fps \<and> fresh e) (evidence (rt_state r))) r = (y, r1)"
    by fastforce
  ultimately have "synced P r1" using keepsD [OF _ r] by blast
  then show "synced P (snd (invalidate_runtime_evidence fps r))"
    using run by (cases y) (simp_all add: invalidate_runtime_evidence_def)
qed

lemma keeps_verify: "keeps P (runtime_verify env)"
proof (rule keepsI)
  fix r assume r: "synced P r"
  obtain x st where v: "verify (rt_store r) (rt_execution_id r) = (x, st)" by fastforce
  have "st = rt_store r \<and> (\<forall>u. x = Inr u \<longrightarrow> u = rt_state r)"
    using store_verify [OF _ _ v] r by (simp add: synced_def)
  then have st: "st = rt_store r" "\<And>u. x = Inr u \<Longrightarrow> u = rt_state r" by auto
  show "synced P (snd (runtime_verify env r))"
  proof (cases x)
    case (Inl e)
    with r v st(1) show ?thesis by (simp add: runtime_verify_def split: exc.split)
  next
    case (Inr u)
    with r v st(1) st(2) [OF Inr] show ?thesis by (simp add: runtime_verify_def)
  qed
qed

lemma keeps_open_plan_decision: "keeps P (open_plan_decision pid d)"
proof (rule keepsI)
  fix r assume r: "synced P r"
  have "keeps P (bind_rt (runtime_append_event OBLIGATION_OPENED pl) (\<lambda>_. ok_rt ()))" for pl
    by (intro keeps_bind keeps_append_event) auto
  with r show "synced P (snd (open_plan_decision pid d r))" by (auto simp: open_plan_decision_def keeps_def)
qed

lemma keeps_compile_plan: "keeps P (compile_plan profile plan acts ints cls)"
  unfolding compile_plan_def Let_def
  by (auto intro!: keeps_bind keeps_for keeps_open_plan_decision keeps_modify simp: same_durable_def)

lemma keeps_compile_plan_to_workflow: "keeps P (compile_plan_to_workflow profile plan acts ints cls files)"
  unfolding compile_plan_to_workflow_def by (auto intro: keeps_compile_plan)

lemma keeps_resolve_plan_decision: "keeps P (resolve_plan_decision pid d)"
proof (rule keepsI)
  fix r assume r: "synced P r"
  have "keeps P (runtime_append_event OBLIGATION_SATISFIED pl)" for pl by (rule keeps_append_event) simp
  with r show "synced P (snd (resolve_plan_decision pid d r))" by (auto simp: resolve_plan_decision_def keeps_def)
qed

lemma keeps_guidance [simp, intro]:
  "keeps P (apply_guidance_obligations env aid act)" "keeps P (remember_guidance rule v)" "keeps P (revoke_guidance rid i)"
  "keeps P (supersede_guidance rid rule i)" "keeps P (capture_guidance_intent env rid text src sc tr reqs saved)"
  by (rule keeps_frame, auto simp: apply_guidance_obligations_def remember_guidance_def revoke_guidance_def
      supersede_guidance_def capture_guidance_intent_def same_durable_def Let_def split: sum.splits prod.splits)+

lemma keeps_capture_guidance: "keeps P (capture_guidance env text src sc tr reqs)"
proof (rule keepsI)
  fix r assume r: "synced P r"
  then show "synced P (snd (capture_guidance env text src sc tr reqs r))"
    unfolding capture_guidance_def Let_def by (auto intro!: synced_bind keeps_bind)
qed

lemma keeps_capture_explicit_guidance: "keeps P (capture_explicit_guidance env text src)"
  unfolding capture_explicit_guidance_def by (auto intro: keeps_capture_guidance)

lemma keeps_broker_op [simp, intro]: "keeps P (broker_op f)"
  by (rule keeps_frame) (auto simp: broker_op_def same_durable_def split: prod.splits)

lemma keeps_guards [simp, intro]: "keeps P (guard_capability rq)" "keeps P (guard_obligations a rq)" "keeps P (require_publish_readiness kw)"
  by (rule keeps_frame, auto simp: guard_capability_def guard_obligations_def guard_rt_def lift_rt_def
      require_publish_readiness_def Let_def split: list.splits)+

lemma keeps_request_exception: "keeps P (request_capability_exception env ctx rq reason expires n)"
  unfolding request_capability_exception_def
  by (auto intro!: keeps_bind keeps_append_event split: option.splits)

lemma keeps_decide_exception: "keeps P (decide_capability_exception env x ok who)"
  unfolding decide_capability_exception_def by (auto intro!: keeps_bind keeps_append_event)

lemma keeps_guard_invocation: "keeps P (guard_invocation env ctx rq)"
proof (rule keepsI)
  fix r assume "synced P r"
  then show "synced P (snd (guard_invocation env ctx rq r))"
    unfolding guard_invocation_def by (auto intro!: synced_bind keeps_bind)
qed

lemma keeps_kernel_step [simp, intro]: "keeps P (kernel_step f)"
  unfolding kernel_step_def by (rule keeps_modify) (simp add: same_durable_def)

lemma keeps_sync_current [simp, intro]: "keeps P sync_current"
proof (rule keepsI)
  fix r assume "synced P r"
  then show "synced P (snd (sync_current r))"
    unfolding sync_current_def by (auto intro!: synced_bind keeps_sync_kernel)
qed

lemma keeps_run_capability: "keeps P (run_capability env ctx rq a)"
proof (rule keepsI)
  fix r assume r: "synced P r"
  obtain x r1 where run: "broker_invoke env ctx rq r = (x, r1)" by fastforce
  then have "same_durable r r1" by (auto simp: broker_invoke_def same_durable_def split: prod.splits)
  with r have "synced P r1" by (rule synced_frame)
  with run show "synced P (snd (run_capability env ctx rq a r))"
    unfolding run_capability_def by (auto intro!: synced_bind keeps_bind split: sum.splits)
qed

lemma own_invocation: "own_events (rt_execution_id r) (invocation_events env r ctx rq res ds)"
proof -
  have dec: "own_events (rt_execution_id r) (decision_events r ds)"
    by (auto simp: own_events_def decision_events_def list_all_iff runtime_event_def Let_def)
  have num: "own_events (rt_execution_id r) (numbered_events r n items)"
    if "list_all (\<lambda>(ty, pl). ty \<noteq> CHECKPOINT_REVERTED) items" for n items
    unfolding numbered_events_def by (rule own_numbered [OF that])
  have app: "own_events eid (a @ b) \<longleftrightarrow> own_events eid a \<and> own_events eid b" for eid a b
    by (simp add: own_events_def)
  show ?thesis
    unfolding invocation_events_def Let_def app
    by (intro conjI dec num) (auto simp: list_all_iff split: invocation_result.splits)
qed

lemma keeps_invoke_in_transaction: "keeps P (invoke_in_transaction env ctx rq)"
proof -
  have last: "keeps P (\<lambda>r1. if ds r1 = [] then (Inr res, r1)
      else bind_rt (runtime_append_events (invocation_events env r1 ctx rq1 res (ds r1))) (\<lambda>_. ok_rt res) r1)" for ds res rq1
  proof (rule keepsI)
    fix r1 assume r1: "synced P r1"
    have "synced P (snd (runtime_append_events (invocation_events env r1 ctx rq1 res (ds r1)) r1))"
      by (rule append_events_synced [OF r1 own_invocation])
    then show "synced P (snd (if ds r1 = [] then (Inr res, r1)
      else bind_rt (runtime_append_events (invocation_events env r1 ctx rq1 res (ds r1))) (\<lambda>_. ok_rt res) r1))"
      using r1 by (auto simp: bind_rt_def ok_rt_def split: prod.splits sum.splits)
  qed
  show ?thesis
  proof (rule keepsI)
    fix r assume "synced P r"
    then show "synced P (snd (invoke_in_transaction env ctx rq r))"
      unfolding invoke_in_transaction_def Let_def
      by (intro synced_bind keeps_bind keeps_guard_invocation keeps_run_capability last) auto
  qed
qed

lemma keeps_diagnose: "keeps P (diagnose env hooks n)"
proof -
  have one: "keeps P (record_diagnostic env d)" for d
  proof (rule keepsI)
    fix r assume r: "synced P r"
    then show "synced P (snd (record_diagnostic env d r))"
      unfolding record_diagnostic_def by (auto intro!: synced_bind keeps_record_evidence)
  qed
  show ?thesis
  proof (rule keepsI)
    fix r assume "synced P r"
    then show "synced P (snd (diagnose env hooks n r))"
      unfolding diagnose_def Let_def by (intro synced_bind keeps_for one) auto
  qed
qed

lemma keeps_invoke: "keeps P (runtime_invoke env ctx rq)"
  unfolding runtime_invoke_def by (intro keeps_transaction keeps_invoke_in_transaction)

lemma keeps_invoke_approved: "keeps P (invoke_approved_exception env ctx rq d)"
  unfolding invoke_approved_exception_def by (auto intro: keeps_invoke)

lemma keeps_register_adapter: "keeps P (register_adapter env a)"
  by (rule keeps_frame) (auto simp: register_adapter_def same_durable_def split: sum.splits)

lemma keeps_invoke_adapter: "keeps P (invoke_adapter env a ctx rq)"
proof -
  have "keeps P (\<lambda>r. runtime_invoke env (f r) rq r)" for f
    using keeps_invoke by (auto simp: keeps_def)
  then show ?thesis unfolding invoke_adapter_def by (intro keeps_bind keeps_register_adapter)
qed

lemma keeps_persona_packet: "keeps P (runtime_persona_packet env profile rid ph acts pacts effs)"
proof (rule keepsI)
  fix r assume "synced P r"
  then show "synced P (snd (runtime_persona_packet env profile rid ph acts pacts effs r))"
    unfolding runtime_persona_packet_def
    by (auto intro!: synced_bind keeps_bind keeps_append_event keeps_modify
        simp: set_execution_scope_def same_durable_def split: option.splits)
qed

end

interpretation any_state: stable_property "\<lambda>_. True"
  by unfold_locales simp

lemma reduce_payload_keys:
  assumes "reduce_payload s ty pl = Inr t" "ty \<noteq> CHECKPOINT_REVERTED"
  shows "set (completed_idempotency_keys s) \<subseteq> set (completed_idempotency_keys t)"
  using assms(1)
proof (cases rule: reduce_payload_cases)
  case action
  then show ?thesis by (auto dest!: reduce_action_event_Inr)
qed (use assms(2) in \<open>auto simp: set_obligation_status_def\<close>)

lemma own_events_Cons: "own_events eid (e # es) \<longleftrightarrow>
    event_type e \<noteq> CHECKPOINT_REVERTED \<and> (\<exists>i. event_id e = eid @ '':'' @ show_int i) \<and> own_events eid es"
  by (simp add: own_events_def)

lemma reduce_events_keys:
  "own_events eid es \<Longrightarrow> reduce_execution_events s es = Inr t \<Longrightarrow>
    set (completed_idempotency_keys s) \<subseteq> set (completed_idempotency_keys t)"
proof (induction es arbitrary: s)
  case (Cons e es)
  then obtain u where u: "reduce_execution_event s e = Inr u" "reduce_execution_events u es = Inr t"
    by (auto simp: reduce_execution_events_def)
  from u(1) Cons.prems(1) have "set (completed_idempotency_keys s) \<subseteq> set (completed_idempotency_keys u)"
    by (auto simp: reduce_event_Inr own_events_Cons dest: subsetD [OF reduce_payload_keys])
  with Cons.IH [OF _ u(2)] Cons.prems(1) show ?case by (auto simp: own_events_Cons)
qed (simp add: reduce_execution_events_def)

interpretation done_key: stable_property "\<lambda>s. k \<in> set (completed_idempotency_keys s)" for k
  by unfold_locales (use reduce_events_keys in blast)


section \<open>Reachable runtimes\<close>

text \<open>
  The steps of a runtime: one per operation, whether it returns or raises. Restoring a checkpoint replaces the state
  by an older one and is kept apart: it belongs to the reachable runtimes but keeps no property of the state.
\<close>

inductive runtime_step :: "runtime_env \<Rightarrow> runtime \<Rightarrow> runtime \<Rightarrow> bool" for env where
  step_contract: "runtime_step env r (set_action_contract acts b r)"
| step_scope: "runtime_step env r (install_step_scope scope b r)"
| step_allow_observer: "runtime_step env r (snd (allow_observer_action items r))"
| step_consume_observer: "runtime_step env r (consume_observer_action act r)"
| step_transition: "runtime_step env r (snd (transition_phase target persona r))"
| step_artifact: "runtime_step env r (snd (record_artifact a r))"
| step_accept: "runtime_step env r (snd (accept_artifact aid r))"
| step_finding: "runtime_step env r (snd (record_finding f r))"
| step_disposition: "runtime_step env r (snd (record_disposition fid st r))"
| step_observer: "runtime_step env r (snd (record_observer_decision v w x y z t u q r))"
| step_evidence: "runtime_step env r (snd (record_evidence evid producer ty fp good r))"
| step_invalidate: "runtime_step env r (snd (invalidate_runtime_evidence fps r))"
| step_verify: "runtime_step env r (snd (runtime_verify env r))"
| step_plan: "runtime_step env r (snd (compile_plan profile plan acts ints cls r))"
| step_workflow: "runtime_step env r (snd (compile_plan_to_workflow profile plan acts ints cls files r))"
| step_decision: "runtime_step env r (snd (resolve_plan_decision pid d r))"
| step_remember: "runtime_step env r (snd (remember_guidance rule ver r))"
| step_revoke: "runtime_step env r (snd (revoke_guidance rid i r))"
| step_supersede: "runtime_step env r (snd (supersede_guidance rid rule i r))"
| step_capture: "runtime_step env r (snd (capture_guidance env text src sc tr reqs r))"
| step_capture_explicit: "runtime_step env r (snd (capture_explicit_guidance env text src r))"
| step_request: "runtime_step env r (snd (request_capability_exception env ctx rq reason expires n r))"
| step_decide: "runtime_step env r (snd (decide_capability_exception env exn yes who r))"
| step_register: "runtime_step env r (snd (register_adapter env ad r))"
| step_invoke: "runtime_step env r (snd (runtime_invoke env ctx rq r))"
| step_invoke_approved: "runtime_step env r (snd (invoke_approved_exception env ctx rq dec r))"
| step_invoke_adapter: "runtime_step env r (snd (invoke_adapter env ad ctx rq r))"
| step_diagnose: "runtime_step env r (snd (diagnose env hooks n r))"
| step_sync: "runtime_step env r (snd (sync_kernel ph who r))"
| step_persona: "runtime_step env r (snd (runtime_persona_packet env prof rid pht pacts peracts effs r))"

inductive runtime_reachable :: "runtime_env \<Rightarrow> runtime \<Rightarrow> bool" for env where
  rt_open: "store_reachable st \<Longrightarrow> canonical eid \<Longrightarrow> canonical pid \<Longrightarrow>
    new_runtime env eid pid root ph md profile st rules ints plans reg auth xs = (Inr r, st', ints') \<Longrightarrow>
    runtime_reachable env r"
| rt_step: "runtime_reachable env r \<Longrightarrow> runtime_step env r r' \<Longrightarrow> runtime_reachable env r'"
| rt_restore: "runtime_reachable env r \<Longrightarrow> rt_transaction r = None \<Longrightarrow>
    restore_checkpoint re st cid wroot trees r = (res, r', trees') \<Longrightarrow> runtime_reachable env r'"

context stable_property
begin

lemma step_synced: "runtime_step env r r' \<Longrightarrow> synced P r \<Longrightarrow> synced P r'"
proof (induction rule: runtime_step.induct)
  case (step_allow_observer r items)
  then show ?case
    by (auto simp: allow_observer_action_def same_durable_def split: option.splits intro: synced_frame)
qed (auto intro: keeps_apply synced_frame keeps_transition keeps_record_evidence keeps_invalidate keeps_verify keeps_compile_plan
      keeps_compile_plan_to_workflow keeps_resolve_plan_decision keeps_capture_guidance keeps_capture_explicit_guidance
      keeps_request_exception keeps_decide_exception keeps_register_adapter keeps_invoke keeps_invoke_approved
      keeps_invoke_adapter keeps_diagnose keeps_sync_kernel keeps_persona_packet
      simp: set_action_contract_def install_step_scope_def consume_observer_action_def same_durable_def Let_def)

end

lemma created_stored:
  assumes "store_inv st" "create st eid pid ph md = Inr (s, st')" "canonical eid" "canonical pid"
  shows "stored_state st' eid = Some s"
proof -
  have "journal_file (st eid) = None" using assms(1) dir_inv_journal by (auto simp: store_inv_def)
  with create_holds [OF assms(2-4)] have "holds (st' eid) s []" by blast
  then show ?thesis using read_state_holds by (auto simp: holds_def stored_state_def)
qed

lemma opened_synced:
  assumes "store_reachable st" "canonical eid" "canonical pid"
    "new_runtime env eid pid root ph md profile st rules ints plans reg auth xs = (Inr r, st', ints')"
  shows "synced (\<lambda>_. True) r"
proof -
  have inv: "store_inv st" by (rule store_reachable_inv [OF assms(1)])
  have load: "load st eid = (bind_r (check_execution_id eid) (\<lambda>_. read_state (st eid)), st)" by (rule store_load [OF inv])
  have chk: "check_execution_id eid = Inr ()" if "create st eid pid ph md = Inr (s, st2)" for s st2
    using that by (auto simp: create_def)
  have inv2: "store_inv st2" if "create st eid pid ph md = Inr (s, st2)" for s st2
    using store_reachable_inv st_create [OF assms(1) that assms(2,3)] by blast
  have stored: "read_state (st2 eid) = Inr s" if "create st eid pid ph md = Inr (s, st2)" for s st2
    using created_stored [OF inv that assms(2,3)] by (auto simp: stored_state_def split: sum.splits)
  show ?thesis
    using assms(4) inv assms(2) inv2 chk
    by (auto simp: new_runtime_def Let_def load synced_def queue_ok_def stored_state_def bind_r_def
        dest: stored split: sum.splits exc.splits prod.splits)
qed

lemma store_append_synced:
  assumes "synced (\<lambda>_. True) r" "ids_ok es" "store_append es r = (res, r')"
  shows "synced (\<lambda>_. True) r'"
proof (cases "append_events (rt_store r) (rt_execution_id r) (state_version (rt_state r)) es")
  case (Inr p)
  obtain s st where a: "append_events (rt_store r) (rt_execution_id r) (state_version (rt_state r)) es = Inr (s, st)"
    using Inr by (cases p) auto
  have "store_inv (rt_store r)" using assms(1) by (simp add: synced_def)
  from file_store.commit_inv [OF this assms(2) a] file_store.commit_current [OF this assms(2) a] assms(1,3) a show ?thesis
    by (auto simp: store_append_def synced_def queue_ok_def)
qed (use assms in \<open>auto simp: store_append_def\<close>)

lemma event_id_ok: "canonical (rt_execution_id r) \<Longrightarrow> ids_ok [runtime_event r ty pl i]"
  using canonical_event_id by (auto simp: ids_ok_def runtime_event_def Let_def)

lemma restore_synced:
  assumes "synced (\<lambda>_. True) r" "rt_transaction r = None" "restore_checkpoint re st cid wroot trees r = (res, r', trees')"
  shows "synced (\<lambda>_. True) r'"
proof -
  have "ids_ok [runtime_event r ty pl 1]" for ty pl using assms(1) by (intro event_id_ok) (simp add: synced_def)
  then have app: "synced (\<lambda>_. True) r1" if "runtime_append_event ty pl r = (x, r1)" for ty pl x r1
  proof -
    from that assms(2) have "store_append [runtime_event r ty pl 1] r = (x, r1)" by (simp add: runtime_append_event_def)
    then show ?thesis by (rule store_append_synced [OF assms(1) \<open>ids_ok [runtime_event r ty pl 1]\<close>])
  qed
  have frame: "synced (\<lambda>_. True) (x\<lparr>rt_kernel := k, rt_projected := n\<rparr>)" if "synced (\<lambda>_. True) x" for x k n
    using that by (rule synced_frame) (simp add: same_durable_def)
  show ?thesis
    using assms(1,3) app frame
    by (auto simp: restore_checkpoint_def split: sum.splits prod.splits)
qed

lemma reachable_synced: "runtime_reachable env r \<Longrightarrow> synced (\<lambda>_. True) r"
  by (induction rule: runtime_reachable.induct) (auto intro: opened_synced any_state.step_synced restore_synced)

end
