(* ===== verification/Broker_Safety.thy ===== *)
theory Broker_Safety
  imports Capability_Broker
begin

text \<open>
  Properties of the capability broker: what an executable resolution rests on, that exceptions are used at most
  as often as they allow, and that mutating calls take a checkpoint first; at the end examples, among them
  the situations in which an approved exception is unusable or used too often.
\<close>

section \<open>What an executable resolution rests on\<close>

lemma mapM_effects [simp]: "mapM_r ToolEffect (map (PStr \<circ> effect_value) es) = Inr es"
  by (induction es) (simp_all add: mapM_r_Inr_iff)

lemma exception_roundtrip [simp]: "exception_from_data (exception_to_data x) = Inr x"
  by (simp add: exception_from_data_def exception_to_data_def str_list_def comp_def [symmetric])

lemma decision_roundtrip [simp]: "decision_from_data (decision_to_data d) = Inr d"
  by (simp add: decision_from_data_def decision_to_data_def)

lemma load_after_save:
  "load_decision (save_decision fs x d) xid =
     (if decision_file xid = decision_file (ce_exception_id x) then Inr (Some (x, d)) else load_decision fs xid)"
  by (simp add: load_decision_def save_decision_def update_conv')

lemma load_after_request:
  "decision_file xid \<noteq> request_file (ce_exception_id x) \<Longrightarrow> load_decision (save_request fs x) xid = load_decision fs xid"
  by (simp add: load_decision_def save_request_def update_conv')

definition inside_worktree :: "(string \<Rightarrow> string list) \<Rightarrow> string list \<Rightarrow> pydict \<Rightarrow> bool" where
  "inside_worktree fs root args =
     list_all (\<lambda>(key, v). key \<in> {''path'', ''file_path'', ''directory'', ''cwd''} \<and> is_str v \<longrightarrow>
       \<not> startswith (the_str v) ''/'' \<and> prefix root (fs (under_root root (the_str v)))) args"

lemma scope_error_None: "scope_error fs root args = None \<longleftrightarrow> inside_worktree fs root args"
  by (induction fs root args rule: scope_error.induct) (auto simp: inside_worktree_def split: pyval.splits)

lemma broker_updates [simp]:
  "cb_registry (cache_exception k x br) = cb_registry br" "cb_authority (cache_exception k x br) = cb_authority br"
  "cb_store (cache_exception k x br) = cb_store br" "cb_decisions (cache_exception k x br) = cb_decisions br"
  "cb_exceptions (cache_exception k x br) = AList.update k x (cb_exceptions br)"
  "cb_registry (cache_decision k d br) = cb_registry br" "cb_authority (cache_decision k d br) = cb_authority br"
  "cb_store (cache_decision k d br) = cb_store br" "cb_exceptions (cache_decision k d br) = cb_exceptions br"
  "cb_decisions (cache_decision k d br) = AList.update k d (cb_decisions br)"
  "cb_registry (store_decision y e br) = cb_registry br" "cb_authority (store_decision y e br) = cb_authority br"
  "cb_store (store_decision y e br) = map_option (\<lambda>fs. save_decision fs y e) (cb_store br)"
  "cb_exceptions (store_decision y e br) = cb_exceptions br" "cb_decisions (store_decision y e br) = cb_decisions br"
  "cb_registry (log_decision c br) = cb_registry br" "cb_authority (log_decision c br) = cb_authority br"
  "cb_store (log_decision c br) = cb_store br" "cb_exceptions (log_decision c br) = cb_exceptions br"
  "cb_decisions (log_decision c br) = cb_decisions br"
  by (simp_all add: cache_exception_def cache_decision_def store_decision_def log_decision_def)

lemma record_Inr:
  "record_resolution rq res fp br = (Inr r, br') \<longleftrightarrow> r = res \<and> br' = snd (record_resolution rq res fp br)"
  by (auto simp: record_resolution_def)

lemma record_keeps [simp]:
  "cb_registry (snd (record_resolution rq res fp br)) = cb_registry br"
  "cb_authority (snd (record_resolution rq res fp br)) = cb_authority br"
  "cb_store (snd (record_resolution rq res fp br)) = cb_store br"
  "cb_exceptions (snd (record_resolution rq res fp br)) = cb_exceptions br"
  "cb_decisions (snd (record_resolution rq res fp br)) = cb_decisions br"
  by (simp_all add: record_resolution_def)

lemma refusal_admission [simp]:
  "rs_kind (refusal k why) = k" "rs_kind (admission why a args fp) = EXECUTABLE"
  "rs_reason (refusal k why) = why" "rs_reason (admission why a args fp) = why"
  "rs_adapter (admission why a args fp) = Some a" "rs_arguments (admission why a args fp) = Some args"
  by (simp_all add: refusal_def admission_def)

lemma locate_exception_authority: "locate_exception br ctx rq = Inr (xid, br1) \<Longrightarrow> cb_authority br1 = cb_authority br"
  by (auto simp: locate_exception_def Let_def split: option.splits)

lemma locate_decision_authority: "locate_decision br xid d0 = Inr (d, br1) \<Longrightarrow> cb_authority br1 = cb_authority br"
  by (auto simp: locate_decision_def split: option.splits)

text \<open>A granted exception: what the broker checked, and how it is used up.\<close>

definition covers ::
    "crypto \<Rightarrow> clock \<Rightarrow> string \<Rightarrow> tool_context \<Rightarrow> capability_request \<Rightarrow> exception_request \<Rightarrow> exception_decision \<Rightarrow> bool" where
  "covers cr clk secret ctx rq x d \<longleftrightarrow>
     ctx_execution_id ctx \<noteq> None \<and> cd_approved d \<and> cd_token d \<noteq> None \<and> is_expired clk x = Inr False \<and>
     py_eq (PDict (ce_arguments x)) (PDict (rq_arguments rq)) \<and>
     sign_exception cr secret x = (case rq_exception_token rq of None \<Rightarrow> '''' | Some t \<Rightarrow> t) \<and>
     cd_binding d = exception_binding cr x \<and> cd_uses d < ce_max_uses x"

lemma usable_exception_Some:
  "usable_exception cr clk br ctx rq d = Inr (Some x) \<longleftrightarrow>
     (\<exists>secret. cb_authority br = Some secret \<and> map_of (cb_exceptions br) (cd_exception_id d) = Some x \<and>
       covers cr clk secret ctx rq x d)"
  by (auto simp: usable_exception_def covers_def verify_token_def is_expired_def split: option.splits if_splits)

lemma resolve_missing_executable:
  assumes "resolve_missing cr clk br ctx rq a missing = (Inr res, br')" "rs_kind res = EXECUTABLE"
  shows "SECRET_READ \<notin> set missing \<and>
    (\<exists>xid br1 br2 d x fp. locate_exception br ctx rq = Inr (xid, br1) \<and>
      locate_decision br1 xid (map_of (cb_decisions br) (base_exception_id (ctx_execution_id ctx) rq)) = Inr (Some d, br2) \<and>
      usable_exception cr clk br2 ctx rq d = Inr (Some x) \<and> res = admission ''approved exception'' a (rq_arguments rq) fp \<and>
      br' = snd (record_resolution rq res (Some fp) (consume_exception x d br2)))"
  using assms
  by (auto simp: resolve_missing_def Let_def record_Inr split: sum.splits prod.splits option.splits if_splits)

lemma resolve_direct:
  assumes "resolve cr clk fs br ctx rq = (Inr res, br')" "get_adapter (cb_registry br) (rq_tool_name rq) = Some a"
    and "set (adapter_effects a ctx (rq_arguments rq)) \<subseteq> ctx_allowed_effects ctx"
  shows "rs_kind res = EXECUTABLE \<longleftrightarrow>
      rq_semantic_action rq \<in> set (semantic_actions (manifest a)) \<inter> ctx_semantic_actions ctx \<and>
      inside_worktree fs (fs (worktree_root ctx)) (rq_arguments rq) \<and> adapter_validate a ctx (rq_arguments rq) = []"
    and "rs_kind res = EXECUTABLE \<Longrightarrow> rs_adapter res = Some a \<and> rs_arguments res = Some (rq_arguments rq)"
  using assms
  by (auto simp: resolve_def Let_def record_Inr scope_error_None [symmetric] filter_empty_conv subset_iff
      split: if_splits option.splits)

lemma resolve_by_exception:
  assumes "resolve cr clk fs br ctx rq = (Inr res, br')" "get_adapter (cb_registry br) (rq_tool_name rq) = Some a"
    and "\<not> set (adapter_effects a ctx (rq_arguments rq)) \<subseteq> ctx_allowed_effects ctx" "rs_kind res = EXECUTABLE"
  shows "rq_semantic_action rq \<in> set (semantic_actions (manifest a)) \<inter> ctx_semantic_actions ctx \<and>
    SECRET_READ \<notin> set (adapter_effects a ctx (rq_arguments rq)) - ctx_allowed_effects ctx \<and>
    (\<exists>xid br1 br2 d x fp. locate_exception br ctx rq = Inr (xid, br1) \<and>
      locate_decision br1 xid (map_of (cb_decisions br) (base_exception_id (ctx_execution_id ctx) rq)) = Inr (Some d, br2) \<and>
      usable_exception cr clk br2 ctx rq d = Inr (Some x) \<and> res = admission ''approved exception'' a (rq_arguments rq) fp \<and>
      br' = snd (record_resolution rq res (Some fp) (consume_exception x d br2)))"
proof -
  let ?missing = "filter (\<lambda>e. e \<notin> ctx_allowed_effects ctx) (adapter_effects a ctx (rq_arguments rq))"
  from assms(3) have "?missing \<noteq> []" by (auto simp: filter_empty_conv)
  with assms have r: "resolve_missing cr clk br ctx rq a ?missing = (Inr res, br')"
    "rq_semantic_action rq \<in> set (semantic_actions (manifest a)) \<inter> ctx_semantic_actions ctx"
    by (auto simp: resolve_def Let_def record_Inr split: if_splits)
  with resolve_missing_executable [OF r(1) assms(4)] show ?thesis by auto
qed

text \<open>
  C20: The broker lets a request run only for a registered tool whose manifest supports the action, if the
  step allows it. When every effect of the call is allowed, that is so exactly if every path argument
  stays inside the worktree and the adapter's validation has no objection. Otherwise no missing effect
  reads secrets, and there is an approved, unexpired exception for the very arguments whose signature the
  request carries, whose decision is bound to it and not used up; the decision is kept with one more use.
\<close>

theorem executable_justified:
  assumes "resolve cr clk fs br ctx rq = (Inr res, br')"
  shows "(rs_kind res = EXECUTABLE \<longrightarrow>
    (\<exists>a. get_adapter (cb_registry br) (rq_tool_name rq) = Some a \<and>
      rq_semantic_action rq \<in> set (semantic_actions (manifest a)) \<inter> ctx_semantic_actions ctx \<and>
      rs_adapter res = Some a \<and> rs_arguments res = Some (rq_arguments rq) \<and>
      (if set (adapter_effects a ctx (rq_arguments rq)) \<subseteq> ctx_allowed_effects ctx
       then inside_worktree fs (fs (worktree_root ctx)) (rq_arguments rq) \<and> adapter_validate a ctx (rq_arguments rq) = []
       else SECRET_READ \<notin> set (adapter_effects a ctx (rq_arguments rq)) - ctx_allowed_effects ctx \<and>
         (\<exists>secret x d. cb_authority br = Some secret \<and> covers cr clk secret ctx rq x d \<and>
            map_of (cb_decisions br') (cd_exception_id d) = Some (d\<lparr>cd_uses := cd_uses d + 1\<rparr>))))) \<and>
    ((\<exists>a. get_adapter (cb_registry br) (rq_tool_name rq) = Some a \<and>
      rq_semantic_action rq \<in> set (semantic_actions (manifest a)) \<inter> ctx_semantic_actions ctx \<and>
      set (adapter_effects a ctx (rq_arguments rq)) \<subseteq> ctx_allowed_effects ctx \<and>
      inside_worktree fs (fs (worktree_root ctx)) (rq_arguments rq) \<and> adapter_validate a ctx (rq_arguments rq) = []) \<longrightarrow>
     rs_kind res = EXECUTABLE)"
proof (cases "get_adapter (cb_registry br) (rq_tool_name rq)")
  case None
  with assms show ?thesis by (auto simp: resolve_def record_Inr)
next
  case (Some a)
  show ?thesis
  proof (cases "set (adapter_effects a ctx (rq_arguments rq)) \<subseteq> ctx_allowed_effects ctx")
    case True
    with resolve_direct [OF assms Some True] Some show ?thesis by auto
  next
    case False
    have "rs_adapter res = Some a \<and> rs_arguments res = Some (rq_arguments rq) \<and>
        (\<exists>secret x d. cb_authority br = Some secret \<and> covers cr clk secret ctx rq x d \<and>
            map_of (cb_decisions br') (cd_exception_id d) = Some (d\<lparr>cd_uses := cd_uses d + 1\<rparr>))"
      if k: "rs_kind res = EXECUTABLE"
    proof -
      from resolve_by_exception [OF assms Some False k] obtain xid br1 br2 d x fp where g:
        "locate_exception br ctx rq = Inr (xid, br1)"
        "locate_decision br1 xid (map_of (cb_decisions br) (base_exception_id (ctx_execution_id ctx) rq)) = Inr (Some d, br2)"
        "usable_exception cr clk br2 ctx rq d = Inr (Some x)" "res = admission ''approved exception'' a (rq_arguments rq) fp"
        "br' = snd (record_resolution rq res (Some fp) (consume_exception x d br2))" by blast
      with locate_exception_authority [OF g(1)] locate_decision_authority [OF g(2)] obtain secret where
        "cb_authority br = Some secret" "covers cr clk secret ctx rq x d"
        by (auto simp: usable_exception_Some)
      with g(4,5) show ?thesis by (auto simp: consume_exception_def Let_def update_conv')
    qed
    with resolve_by_exception [OF assms Some False] Some False show ?thesis by auto
  qed
qed

section \<open>Exceptions are used at most as often as allowed\<close>

text \<open>
  Operations on a broker with a store, in any order: requests, decisions, resolutions, and restarts, after which
  only the store is left. \<open>grants\<close> counts the resolutions of a run that an exception admitted.
\<close>

datatype broker_op =
    CreateRequest clock tool_context capability_request string string int
  | Decide clock exception_request bool string
  | Resolve clock tool_context capability_request
  | Restart

fun op_exception_id :: "broker_op \<Rightarrow> string option" where
  "op_exception_id (CreateRequest clk ctx rq reason expires n) = None"
| "op_exception_id (Decide clk x ok who) = Some (ce_exception_id x)"
| "op_exception_id (Resolve clk ctx rq) = Some (base_exception_id (ctx_execution_id ctx) rq)"
| "op_exception_id Restart = None"

fun broker_step :: "crypto \<Rightarrow> (string \<Rightarrow> string list) \<Rightarrow> broker_op \<Rightarrow> capability_broker \<Rightarrow> capability_broker" where
  "broker_step cr fs (CreateRequest clk ctx rq reason expires n) br =
     snd (create_exception_request cr clk br ctx rq reason expires n)"
| "broker_step cr fs (Decide clk x ok who) br = snd (decide_exception cr clk br x ok who)"
| "broker_step cr fs (Resolve clk ctx rq) br = snd (resolve cr clk fs br ctx rq)"
| "broker_step cr fs Restart br = new_broker (cb_registry br) (cb_authority br) (cb_store br)"

definition granted :: "capability_resolution result \<Rightarrow> bool" where
  "granted r = (case r of Inr res \<Rightarrow> rs_kind res = EXECUTABLE \<and> rs_reason res = ''approved exception'' | Inl _ \<Rightarrow> False)"

fun grants_of :: "crypto \<Rightarrow> (string \<Rightarrow> string list) \<Rightarrow> broker_op \<Rightarrow> capability_broker \<Rightarrow> string \<Rightarrow> nat" where
  "grants_of cr fs (Resolve clk ctx rq) br k =
     (if base_exception_id (ctx_execution_id ctx) rq = k \<and> granted (fst (resolve cr clk fs br ctx rq)) then 1 else 0)"
| "grants_of cr fs op br k = 0"

fun run_broker :: "crypto \<Rightarrow> (string \<Rightarrow> string list) \<Rightarrow> broker_op list \<Rightarrow> capability_broker \<Rightarrow> capability_broker" where
  "run_broker cr fs [] br = br"
| "run_broker cr fs (op # ops) br = run_broker cr fs ops (broker_step cr fs op br)"

fun grants :: "crypto \<Rightarrow> (string \<Rightarrow> string list) \<Rightarrow> broker_op list \<Rightarrow> capability_broker \<Rightarrow> string \<Rightarrow> nat" where
  "grants cr fs [] br k = 0"
| "grants cr fs (op # ops) br k = grants_of cr fs op br k + grants cr fs ops (broker_step cr fs op br) k"

text \<open>
  The invariant for the identifiers \<open>ids\<close> in use, after \<open>n k\<close> grants for \<open>k\<close>: decisions and exceptions are kept
  under their own identifiers, in memory and in the store, and their uses count at least the grants.
\<close>

definition stored_ok :: "(string \<Rightarrow> nat) \<Rightarrow> exception_files \<Rightarrow> string \<Rightarrow> bool" where
  "stored_ok n files k =
     (case load_decision files k of
        Inr (Some (x, d)) \<Rightarrow> ce_exception_id x = k \<and> cd_exception_id d = k \<and> int (n k) \<le> cd_uses d
      | _ \<Rightarrow> n k = 0)"

definition uses_inv :: "string set \<Rightarrow> (string \<Rightarrow> nat) \<Rightarrow> capability_broker \<Rightarrow> bool" where
  "uses_inv ids n br \<longleftrightarrow>
     (\<forall>k d. k \<in> ids \<longrightarrow> map_of (cb_decisions br) k = Some d \<longrightarrow> cd_exception_id d = k \<and> int (n k) \<le> cd_uses d) \<and>
     (\<forall>k x. map_of (cb_exceptions br) k = Some x \<longrightarrow> ce_exception_id x = k) \<and>
     (\<exists>files. cb_store br = Some files \<and> (\<forall>k. k \<in> ids \<longrightarrow> stored_ok n files k))"

definition ids_separate :: "string set \<Rightarrow> bool" where
  "ids_separate ids \<longleftrightarrow> inj_on decision_file ids \<and> (\<forall>k \<in> ids. \<not> suffix ''.request'' k)"

lemma decision_not_request: "\<not> suffix ''.request'' k \<Longrightarrow> decision_file k \<noteq> request_file y"
proof
  assume k: "\<not> suffix ''.request'' k" and eq: "decision_file k = request_file y"
  then have stem: "file_stem k = file_stem y @ ''.request''" by (simp add: decision_file_def request_file_def)
  then obtain p q where pq: "k = p @ q" "file_stem q = ''.request''"
    by (auto simp: file_stem_def map_eq_append_conv)
  have "q = ''.request''" using pq(2)
    by (auto simp: file_stem_def map_eq_Cons_conv split: if_splits)
  with pq(1) k show False by (simp add: suffix_def)
qed

lemma stored_ok_save:
  assumes "ids_separate ids" "k \<in> ids" "ce_exception_id x \<in> ids" "stored_ok n files k"
    and "k = ce_exception_id x \<Longrightarrow> cd_exception_id d = k \<and> int (m k) \<le> cd_uses d" "k \<noteq> ce_exception_id x \<Longrightarrow> m k = n k"
  shows "stored_ok m (save_decision files x d) k"
proof (cases "k = ce_exception_id x")
  case False
  with assms(1-3) have "decision_file k \<noteq> decision_file (ce_exception_id x)"
    by (auto simp: ids_separate_def dest: inj_onD)
  with False assms(4,6) show ?thesis by (simp add: stored_ok_def load_after_save split: sum.splits option.splits prod.splits)
qed (use assms(5) in \<open>simp add: stored_ok_def load_after_save\<close>)

lemma uses_inv_log [simp]: "uses_inv ids n (log_decision c br) = uses_inv ids n br"
  by (simp add: uses_inv_def)

lemma store_log: "store_decision x d (log_decision c br) = log_decision c (store_decision x d br)"
  by (simp add: store_decision_def log_decision_def)

lemma uses_inv_record [simp]: "uses_inv ids n (snd (record_resolution rq res fp br)) = uses_inv ids n br"
  by (simp add: record_resolution_def)

lemma uses_inv_cache_exception:
  "uses_inv ids n br \<Longrightarrow> ce_exception_id x = k \<Longrightarrow> uses_inv ids n (cache_exception k x br)"
  by (auto simp: uses_inv_def update_conv')

lemma uses_inv_cache_decision:
  assumes "uses_inv ids n br" "k \<in> ids \<Longrightarrow> cd_exception_id d = k \<and> int (n k) \<le> cd_uses d"
  shows "uses_inv ids n (cache_decision k d br)"
  using assms by (auto simp: uses_inv_def update_conv')

lemma uses_inv_stored:
  "uses_inv ids n br \<Longrightarrow> cb_store br = Some files \<Longrightarrow> load_decision files k = Inr (Some (x, d)) \<Longrightarrow> k \<in> ids \<Longrightarrow>
     ce_exception_id x = k \<and> cd_exception_id d = k \<and> int (n k) \<le> cd_uses d"
  by (fastforce simp: uses_inv_def stored_ok_def)

lemma uses_inv_save:
  assumes "uses_inv ids n br" "ids_separate ids" "ce_exception_id x = k" "cd_exception_id d = k" "k \<in> ids"
    and "int (m k) \<le> cd_uses d" "\<And>j. j \<noteq> k \<Longrightarrow> m j = n j"
  shows "uses_inv ids m (store_decision x d (cache_decision k d br))"
proof -
  from assms(1) obtain files where files: "cb_store br = Some files" "\<And>j. j \<in> ids \<Longrightarrow> stored_ok n files j"
    by (auto simp: uses_inv_def)
  have "stored_ok m (save_decision files x d) j" if "j \<in> ids" for j
    using stored_ok_save [OF assms(2) that _ files(2) [OF that], of x d m] assms(3-) by auto
  moreover have "cd_exception_id e = j \<and> int (m j) \<le> cd_uses e"
    if "j \<in> ids" "map_of (AList.update k d (cb_decisions br)) j = Some e" for j e
    using assms(1,4,6,7) that by (auto simp: uses_inv_def update_conv' split: if_splits)
  ultimately show ?thesis using assms(1) files(1) by (simp add: uses_inv_def)
qed

lemma no_pair: "(\<forall>a b. x \<noteq> Some (a, b)) \<longleftrightarrow> x = None"
  by (cases x) auto

lemma undecided_load: "undecided files rest = Inr xs \<Longrightarrow> x \<in> set xs \<Longrightarrow> load_decision files (ce_exception_id x) = Inr None"
  by (induction files rest arbitrary: xs rule: undecided.induct) (auto simp: bind_r_eq_Inr no_pair split: if_splits)

lemma locate_exception_inv:
  assumes "uses_inv ids n br" "locate_exception br ctx rq = Inr (xid, br1)"
  shows "uses_inv ids n br1 \<and> cb_decisions br1 = cb_decisions br \<and> cb_store br1 = cb_store br \<and>
    (xid = base_exception_id (ctx_execution_id ctx) rq \<or> (\<exists>files. cb_store br = Some files \<and> load_decision files xid = Inr None))"
  using assms
  by (auto simp: locate_exception_def Let_def bind_r_eq_Inr pending_requests_def
      split: option.splits dest!: find_Some_mem dest: undecided_load intro: uses_inv_cache_exception)

lemma locate_decision_inv:
  assumes "uses_inv ids n br" "base \<in> ids" "decision = map_of (cb_decisions br) base"
    and "xid = base \<or> (\<exists>files. cb_store br = Some files \<and> load_decision files xid = Inr None)"
    and "locate_decision br xid decision = Inr (r, br1)"
  shows "uses_inv ids n br1 \<and> (\<forall>d. r = Some d \<longrightarrow> cd_exception_id d = base \<and> int (n base) \<le> cd_uses d)"
proof (cases decision)
  case (Some d)
  with assms(5) have "r = Some d" "br1 = br" by (auto simp: locate_decision_def split: option.splits)
  with Some assms(1-3) show ?thesis by (simp add: uses_inv_def)
next
  case None
  from assms(1) obtain files where files: "cb_store br = Some files" by (auto simp: uses_inv_def)
  show ?thesis
  proof (cases "\<exists>x d. load_decision files xid = Inr (Some (x, d))")
    case True
    then obtain x d where load: "load_decision files xid = Inr (Some (x, d))" by blast
    with assms(4) files have "xid = base" by auto
    with uses_inv_stored [OF assms(1) files] load assms(2) have
      k: "ce_exception_id x = xid" "cd_exception_id d = xid" "int (n xid) \<le> cd_uses d" by auto
    then have "uses_inv ids n (cache_decision xid d (cache_exception xid x br))"
      by (intro uses_inv_cache_decision uses_inv_cache_exception assms(1)) auto
    with None load files k \<open>xid = base\<close> assms(5) show ?thesis by (auto simp: locate_decision_def)
  next
    case False
    with None files assms(1,5) show ?thesis
      by (auto simp: locate_decision_def bind_r_eq_Inr split: option.splits)
  qed
qed

text \<open>Brokers that differ in registry, authority and log only satisfy the same invariant.\<close>

lemma resolve_missing_inv:
  assumes inv: "uses_inv ids n br" and sep: "ids_separate ids" and base: "base_exception_id (ctx_execution_id ctx) rq \<in> ids"
    and r: "resolve_missing cr clk br ctx rq a missing = (r, br')"
  shows "uses_inv ids (\<lambda>k. n k + (if base_exception_id (ctx_execution_id ctx) rq = k \<and> granted r then 1 else 0)) br'"
proof (cases "locate_exception br ctx rq")
  case (Inl e)
  with r inv show ?thesis by (auto simp: resolve_missing_def Let_def granted_def)
next
  case (Inr p)
  let ?base = "base_exception_id (ctx_execution_id ctx) rq"
  obtain xid br1 where p: "locate_exception br ctx rq = Inr (xid, br1)" using Inr by (cases p) auto
  note one = locate_exception_inv [OF inv p]
  show ?thesis
  proof (cases "locate_decision br1 xid (map_of (cb_decisions br) ?base)")
    case (Inl e)
    with r p one show ?thesis by (auto simp: resolve_missing_def Let_def granted_def)
  next
    case (Inr q)
    obtain d br2 where q: "locate_decision br1 xid (map_of (cb_decisions br) ?base) = Inr (d, br2)" using Inr by (cases q) auto
    have two: "uses_inv ids n br2 \<and> (\<forall>e. d = Some e \<longrightarrow> cd_exception_id e = ?base \<and> int (n ?base) \<le> cd_uses e)"
      using locate_decision_inv [OF _ base _ _ q] one by auto
    show ?thesis
    proof (cases "\<exists>e x. d = Some e \<and> SECRET_READ \<notin> set missing \<and> usable_exception cr clk br2 ctx rq e = Inr (Some x)")
      case True
      then obtain e x where e: "d = Some e" "SECRET_READ \<notin> set missing" "usable_exception cr clk br2 ctx rq e = Inr (Some x)"
        by blast
      from e two have "ce_exception_id x = ?base" by (auto simp: usable_exception_Some uses_inv_def)
      with e two sep base have "uses_inv ids (\<lambda>k. n k + (if ?base = k then 1 else 0)) (consume_exception x e br2)"
        unfolding consume_exception_def Let_def
        by (intro uses_inv_save [of _ n]) auto
      with r p q e show ?thesis
        by (auto simp: resolve_missing_def Let_def granted_def record_resolution_def)
    next
      case False
      with r p q two show ?thesis
        by (auto simp: resolve_missing_def Let_def granted_def record_resolution_def
            split: option.splits if_splits sum.splits)
    qed
  qed
qed

lemma resolve_inv:
  assumes "uses_inv ids n br" "ids_separate ids" "base_exception_id (ctx_execution_id ctx) rq \<in> ids"
  shows "uses_inv ids (\<lambda>k. n k + grants_of cr fs (Resolve clk ctx rq) br k) (snd (resolve cr clk fs br ctx rq))"
  using assms resolve_missing_inv [OF assms, of cr clk]
  by (auto simp: resolve_def Let_def granted_def record_resolution_def split: option.splits prod.splits)

lemma find_decision_inv:
  assumes "uses_inv ids n br" "xid \<in> ids" "find_decision br xid = Inr (r, br1)"
  shows "uses_inv ids n br1 \<and> (r = None \<longrightarrow> n xid = 0)"
proof -
  from assms(1) obtain files where files: "cb_store br = Some files" "stored_ok n files xid"
    using assms(2) by (auto simp: uses_inv_def)
  note stored = uses_inv_stored [OF assms(1) files(1) _ assms(2)]
  consider (known) "map_of (cb_decisions br) xid \<noteq> None" | (absent) "map_of (cb_decisions br) xid = None" "load_decision files xid = Inr None"
    | (loaded) x d where "map_of (cb_decisions br) xid = None" "load_decision files xid = Inr (Some (x, d))"
    | (broken) e where "map_of (cb_decisions br) xid = None" "load_decision files xid = Inl e"
    by (metis no_pair sum.exhaust)
  then show ?thesis
  proof cases
    case loaded
    with stored [of x d] have "uses_inv ids n (cache_decision xid d br)" by (intro uses_inv_cache_decision assms(1)) auto
    with loaded assms(3) files(1) show ?thesis by (auto simp: find_decision_def)
  qed (use assms(1,3) files in \<open>auto simp: find_decision_def stored_ok_def\<close>)
qed

lemma decide_inv:
  assumes "uses_inv ids n br" "ids_separate ids" "ce_exception_id x \<in> ids"
  shows "uses_inv ids n (snd (decide_exception cr clk br x ok who))"
proof (cases "find_decision br (ce_exception_id x)")
  case (Inl e)
  with assms(1) show ?thesis by (auto simp: decide_exception_def split: option.splits sum.splits bool.splits)
next
  case (Inr p)
  obtain r br1 where p: "find_decision br (ce_exception_id x) = Inr (r, br1)" using Inr by (cases p) auto
  note one = find_decision_inv [OF assms(1,3) p]
  show ?thesis
  proof (cases r)
    case None
    with one have new: "uses_inv ids n (store_decision x d (cache_decision (ce_exception_id x) d br1))"
      if "cd_exception_id d = ce_exception_id x" "cd_uses d = 0" for d
      using that assms by (intro uses_inv_save [of _ n]) auto
    then show ?thesis using p None assms(1)
      by (simp add: decide_exception_def Let_def store_log new split: option.splits sum.splits bool.splits)
  next
    case (Some d)
    with p one assms(1) show ?thesis by (auto simp: decide_exception_def split: option.splits sum.splits bool.splits)
  qed
qed

lemma create_inv:
  assumes "uses_inv ids n br" "ids_separate ids"
  shows "uses_inv ids n (snd (create_exception_request cr clk br ctx rq reason expires mx))"
proof -
  have installed: "uses_inv ids n ((cache_exception k y br)\<lparr>cb_store := map_option (\<lambda>fs. save_request fs y) (cb_store br)\<rparr>)"
    if k: "ce_exception_id y = k" for k y
  proof -
    from assms(1) obtain files where files: "cb_store br = Some files" "\<And>j. j \<in> ids \<Longrightarrow> stored_ok n files j"
      by (auto simp: uses_inv_def)
    have "stored_ok n (save_request files y) j" if "j \<in> ids" for j
      using files(2) [OF that] decision_not_request [of j] assms(2) that
      by (simp add: stored_ok_def load_after_request ids_separate_def)
    with files assms(1) k show ?thesis by (auto simp: uses_inv_def update_conv')
  qed
  show ?thesis
    by (simp add: create_exception_request_def Let_def installed assms(1) split: option.splits sum.splits)
qed

lemma broker_step_inv:
  assumes "uses_inv ids n br" "ids_separate ids" "\<And>k. op_exception_id op = Some k \<Longrightarrow> k \<in> ids"
  shows "uses_inv ids (\<lambda>k. n k + grants_of cr fs op br k) (broker_step cr fs op br)"
proof (cases op)
  case (Resolve clk ctx rq)
  then show ?thesis using resolve_inv [OF assms(1,2)] assms(3) by simp
next
  case Restart
  with assms(1) show ?thesis by (simp add: uses_inv_def new_broker_def)
qed (use assms create_inv decide_inv in simp_all)

lemma run_broker_inv:
  "uses_inv ids n br \<Longrightarrow> ids_separate ids \<Longrightarrow> (\<And>op k. op \<in> set ops \<Longrightarrow> op_exception_id op = Some k \<Longrightarrow> k \<in> ids) \<Longrightarrow>
     uses_inv ids (\<lambda>k. n k + grants cr fs ops br k) (run_broker cr fs ops br)"
proof (induction ops arbitrary: n br)
  case (Cons op ops)
  have "uses_inv ids (\<lambda>k. n k + grants_of cr fs op br k) (broker_step cr fs op br)"
    using Cons.prems by (intro broker_step_inv) auto
  from Cons.IH [OF this Cons.prems(2)] Cons.prems(3) show ?case by (auto simp: add.assoc)
qed simp


section \<open>Invocation takes a checkpoint first\<close>

lemma record_logs: "cb_decision_log (snd (record_resolution rq res fp br)) \<noteq> []"
  by (simp add: record_resolution_def log_decision_def)

lemma resolve_missing_logs:
  "resolve_missing cr clk br ctx rq a missing = (Inr res, br') \<Longrightarrow> cb_decision_log br' \<noteq> []"
  using record_logs
  by (auto simp: resolve_missing_def record_Inr Let_def split: option.splits if_splits sum.splits)

lemma resolve_logs: "resolve cr clk fs br ctx rq = (Inr res, br') \<Longrightarrow> cb_decision_log br' \<noteq> []"
  using record_logs resolve_missing_logs
  by (auto simp: resolve_def record_Inr Let_def split: option.splits if_splits)

lemma resolve_executable:
  assumes "resolve cr clk fs br ctx rq = (Inr res, br')" "rs_kind res = EXECUTABLE"
  shows "\<exists>a. get_adapter (cb_registry br) (rq_tool_name rq) = Some a \<and> rs_adapter res = Some a \<and>
    rs_arguments res = Some (rq_arguments rq)"
proof -
  obtain a where a: "get_adapter (cb_registry br) (rq_tool_name rq) = Some a"
    using assms by (auto simp: resolve_def record_Inr split: option.splits)
  show ?thesis
  proof (cases "set (adapter_effects a ctx (rq_arguments rq)) \<subseteq> ctx_allowed_effects ctx")
    case True
    from resolve_direct(2) [OF assms(1) a True assms(2)] a show ?thesis by blast
  next
    case False
    from resolve_by_exception [OF assms(1) a False assms(2)] a show ?thesis by auto
  qed
qed

lemma run_adapter_result:
  "run_adapter h br ctx rq a args cid = (q, br2) \<Longrightarrow> cb_decision_log br \<noteq> [] \<Longrightarrow>
     (\<forall>res. q \<noteq> Inr (NotExecuted res)) \<and>
     (\<forall>tr. q = Inr (Invoked tr) \<longrightarrow> (cid \<noteq> None \<longrightarrow> checkpoint_id tr = cid) \<and>
        dc_checkpoint_id (last (cb_decision_log br2)) = cid)"
  by (auto simp: run_adapter_def set_log_checkpoint_def split: sum.splits if_splits)

text \<open>
  Invoking a request that is not executable does nothing. Otherwise the adapter of the tool runs
  once, on the arguments of the request; if the call can do more than read the workspace, a checkpoint is
  created before it and named in the result and in the decision log, and inside an execution such a call
  does not happen at all without a checkpoint store.
\<close>

theorem invoke_checkpointed:
  assumes "invoke cr clk fs h br ctx rq = (r, br', out)"
  shows "(\<forall>res. r = Inr (NotExecuted res) \<longrightarrow> out = [] \<and> rs_kind res \<noteq> EXECUTABLE) \<and>
    (\<forall>tr. r = Inr (Invoked tr) \<longrightarrow> out \<noteq> []) \<and>
    (out \<noteq> [] \<longrightarrow>
      (\<exists>a snap. get_adapter (cb_registry br) (rq_tool_name rq) = Some a \<and>
        (let mut = mutating (adapter_effects a ctx (rq_arguments rq)); cid = invocation_checkpoint_id cr ctx rq in
         out = (if mut \<and> checkpoint_store h \<noteq> None then [CreateCheckpoint cid snap] else [])
           @ [ExecuteTool (rq_tool_name rq) (rq_arguments rq)] \<and>
         (mut \<and> ctx_execution_id ctx \<noteq> None \<longrightarrow> checkpoint_store h \<noteq> None) \<and>
         (\<forall>tr. r = Inr (Invoked tr) \<and> mut \<and> checkpoint_store h \<noteq> None \<longrightarrow>
            checkpoint_id tr = Some cid \<and> dc_checkpoint_id (last (cb_decision_log br')) = Some cid))))"
proof -
  obtain r1 br1 where one: "resolve cr clk fs br ctx rq = (r1, br1)" by fastforce
  show ?thesis
  proof (cases "\<exists>res. r1 = Inr res \<and> rs_kind res = EXECUTABLE")
    case False
    with one assms show ?thesis
      by (cases r1) (auto simp: invoke_def split: resolution_kind.splits)
  next
    case True
    then obtain res where res: "r1 = Inr res" "rs_kind res = EXECUTABLE" by blast
    with one resolve_executable resolve_logs obtain a where a: "get_adapter (cb_registry br) (rq_tool_name rq) = Some a"
      "rs_adapter res = Some a" "rs_arguments res = Some (rq_arguments rq)" "cb_decision_log br1 \<noteq> []" by blast
    from assms one res a show ?thesis
      by (auto simp: invoke_def Let_def dest!: run_adapter_result split: if_splits option.splits prod.splits sum.splits)
  qed
qed

section \<open>Examples\<close>

definition sample_crypto :: crypto where
  "sample_crypto = \<lparr>sha256_hex = \<lambda>s. ''0a1b'', hmac_hex = \<lambda>secret s. secret @ s\<rparr>"

definition sample_clock :: clock where
  "sample_clock = \<lparr>utc_now = ''2025-01-01T00:00:00+00:00'', past = \<lambda>s. Inr False\<rparr>"

definition sample_fs :: "string \<Rightarrow> string list" where
  "sample_fs s = filter (\<lambda>p. p \<noteq> '''') (split_on CHR ''/'' s)"

definition edit_context :: "string \<Rightarrow> tool_effect set \<Rightarrow> tool_context" where
  "edit_context eid allowed =
     \<lparr>repo_root = ''/repo'', worktree_root = ''/repo'', ctx_semantic_actions = {''edit_file''}, ctx_allowed_effects = allowed,
      ctx_execution_id = Some eid, ctx_active_unit_id = None, ctx_active_persona_id = None\<rparr>"

definition edit_request :: "string \<Rightarrow> string option \<Rightarrow> capability_request" where
  "edit_request path token =
     \<lparr>rq_tool_name = ''edit'', rq_semantic_action = ''edit_file'', rq_arguments = [(''path'', PStr path)],
      rq_exception_token = token\<rparr>"

definition edit_registry :: tool_registry where
  "edit_registry = install_adapter (sha256_hex sample_crypto) empty_registry sample_adapter"

definition edit_exception :: "string \<Rightarrow> string \<Rightarrow> int \<Rightarrow> exception_request" where
  "edit_exception eid path n =
     (case fst (create_exception_request sample_crypto sample_clock (new_broker edit_registry (Some ''key'') None)
        (edit_context eid {}) (edit_request path None) ''why'' ''later'' n) of Inr (Some x) \<Rightarrow> x)"

definition edit_ops :: "string \<Rightarrow> string \<Rightarrow> int \<Rightarrow> broker_op list" where
  "edit_ops eid path n =
     [CreateRequest sample_clock (edit_context eid {}) (edit_request path None) ''why'' ''later'' n,
      Decide sample_clock (edit_exception eid path n) True ''ann'']"

definition edit_token :: "string \<Rightarrow> string \<Rightarrow> int \<Rightarrow> string option" where
  "edit_token eid path n = Some (sign_exception sample_crypto ''key'' (edit_exception eid path n))"

definition edit_resolve :: "string \<Rightarrow> string \<Rightarrow> string option \<Rightarrow> broker_op" where
  "edit_resolve eid path token = Resolve sample_clock (edit_context eid {}) (edit_request path token)"

definition edit_run :: "broker_op list" where
  "edit_run = edit_ops ''e1'' ''a.py'' 2 @ [edit_resolve ''e1'' ''a.py'' (edit_token ''e1'' ''a.py'' 2), Restart]"


lemma sample_hashes [simp]:
  "exception_binding sample_crypto x = ''0a1b''" "sign_exception sample_crypto secret x = secret @ ''0a1b''"
  "sha256_hex sample_crypto t = ''0a1b''" "manifest_fingerprint_of (sha256_hex sample_crypto) m = ''0a1b''"
  by (simp_all add: exception_binding_def sign_exception_def manifest_fingerprint_of_def sample_crypto_def)

lemmas broker_eval = edit_ops_def edit_resolve_def edit_token_def edit_exception_def
  edit_context_def edit_request_def new_broker_def install_adapter_def empty_registry_def edit_registry_def sample_adapter_def sample_manifest_def
  create_exception_request_def existing_request_def base_exception_id_def get_adapter_def adapter_effects_def
  load_request_def decide_exception_def is_expired_def sample_clock_def find_decision_def load_decision_def
  cache_exception_def cache_decision_def store_decision_def log_decision_def save_decision_def save_request_def
  decision_file_def request_file_def file_stem_def resolve_def resolve_missing_def locate_exception_def locate_decision_def
  usable_exception_def verify_token_def consume_exception_def record_resolution_def granted_def Let_def
  pending_requests_def read_request_def admission_def refusal_def suffix_def


lemma edit_run_granted:
  "granted (fst (resolve sample_crypto sample_clock sample_fs
     (run_broker sample_crypto sample_fs edit_run (new_broker edit_registry (Some ''key'') (Some [])))
     (edit_context ''e1'' {}) (edit_request ''a.py'' (edit_token ''e1'' ''a.py'' 2))))"
  by (simp add: broker_eval edit_run_def)

lemma edit_run_grants:
   "grants sample_crypto sample_fs edit_run (new_broker edit_registry (Some ''key'') (Some [])) ''e1:edit:edit_file'' = 1"
  by (simp add: broker_eval edit_run_def)


theorem executable_justified_witness:
  "\<exists>res br'. resolve sample_crypto sample_clock sample_fs (new_broker edit_registry None None)
     (edit_context ''e1'' {WORKSPACE_WRITE}) (edit_request ''a.py'' None) = (Inr res, br') \<and> rs_kind res = EXECUTABLE"
proof -
  let ?br = "new_broker edit_registry None None" and ?ctx = "edit_context ''e1'' {WORKSPACE_WRITE}"
  let ?rq = "edit_request ''a.py'' None"
  obtain res br' where r: "resolve sample_crypto sample_clock sample_fs ?br ?ctx ?rq = (Inr res, br')"
    by (simp add: broker_eval under_root_def sample_fs_def)
  have "inside_worktree sample_fs (sample_fs (worktree_root ?ctx)) (rq_arguments ?rq)"
    by (simp add: inside_worktree_def edit_context_def edit_request_def under_root_def sample_fs_def)
  then have "rs_kind res = EXECUTABLE"
    using executable_justified [OF r] by (simp add: broker_eval)
  with r show ?thesis by blast
qed

definition sample_hooks :: invoke_hooks where
  "sample_hooks = \<lparr>checkpoint_store = Some \<lparr>cp_create = \<lambda>root cid snap. Inr (), cp_changed = None\<rparr>,
     state_json_provider = None, exc_text = \<lambda>e. ''''\<rparr>"

theorem invoke_checkpointed_witness:
  "\<exists>tr br'. invoke sample_crypto sample_clock sample_fs sample_hooks (new_broker edit_registry None None)
       (edit_context ''e1'' {WORKSPACE_WRITE}) (edit_request ''a.py'' None) =
     (Inr (Invoked tr), br', [CreateCheckpoint ''before-0a1b'' None, ExecuteTool ''edit'' [(''path'', PStr ''a.py'')]]) \<and>
     checkpoint_id tr = Some ''before-0a1b''"
proof -
  let ?i = "invoke sample_crypto sample_clock sample_fs sample_hooks (new_broker edit_registry None None)
       (edit_context ''e1'' {WORKSPACE_WRITE}) (edit_request ''a.py'' None)"
  obtain tr br' where i: "?i =
     (Inr (Invoked tr), br', [CreateCheckpoint ''before-0a1b'' None, ExecuteTool ''edit'' [(''path'', PStr ''a.py'')]])"
    by (simp add: invoke_def broker_eval sample_hooks_def mutating_def run_adapter_def invocation_checkpoint_id_def
        under_root_def sample_fs_def)
  from invoke_checkpointed [OF i] i show ?thesis
    by (simp add: broker_eval sample_hooks_def mutating_def invocation_checkpoint_id_def)
qed

text \<open>
  The bound holds for one broker at a time: two live brokers on the same store keep their own copies of a
  decision, and an exception with two uses is granted three times.
\<close>

theorem shared_store_exceeds_uses:
  "let go = (\<lambda>br. resolve sample_crypto sample_clock sample_fs br (edit_context ''e1'' {})
              (edit_request ''a.py'' (edit_token ''e1'' ''a.py'' 2)));
       a0 = run_broker sample_crypto sample_fs (edit_ops ''e1'' ''a.py'' 2) (new_broker edit_registry (Some ''key'') (Some []));
       a1 = snd (go a0);
       b0 = new_broker edit_registry (Some ''key'') (cb_store a1);
       a2 = a1\<lparr>cb_store := cb_store (snd (go b0))\<rparr> in
   ce_max_uses (edit_exception ''e1'' ''a.py'' 2) = 2 \<and>
   granted (fst (go a0)) \<and> granted (fst (go b0)) \<and> granted (fst (go a2))"
  by (simp add: broker_eval)

text \<open>
  A second exception for the same execution, tool and action but other arguments gets an identifier of its own,
  under which no resolution looks for its decision: approved, it is never granted.
\<close>

theorem second_exception_unusable:
  "let ops = edit_ops ''e1'' ''a.py'' 1 @
         [CreateRequest sample_clock (edit_context ''e1'' {}) (edit_request ''b.py'' None) ''why'' ''later'' 1];
       br = run_broker sample_crypto sample_fs ops (new_broker edit_registry (Some ''key'') (Some []));
       x = (edit_exception ''e1'' ''b.py'' 1)\<lparr>ce_exception_id := ''e1:edit:edit_file:0a1b''\<rparr>;
       br1 = snd (decide_exception sample_crypto sample_clock br x True ''ann'');
       go = (\<lambda>br. resolve sample_crypto sample_clock sample_fs br (edit_context ''e1'' {})
              (edit_request ''b.py'' (Some (sign_exception sample_crypto ''key'' x)))) in
   map_of (cb_exceptions br) ''e1:edit:edit_file:0a1b'' = Some x \<and>
   map_option cd_approved (map_of (cb_decisions br1) ''e1:edit:edit_file:0a1b'') = Some True \<and>
   \<not> granted (fst (go br1)) \<and> \<not> granted (fst (go (new_broker edit_registry (Some ''key'') (cb_store br1))))"
  by (simp add: broker_eval)

text \<open>
  File names do not tell a colon from an underscore: execution \<^verbatim>\<open>e_1\<close> is granted the single use that was
  approved for execution \<^verbatim>\<open>e:1\<close>, twice.
\<close>

theorem colliding_ids_share_decisions:
  "let go = (\<lambda>br. resolve sample_crypto sample_clock sample_fs br (edit_context ''e_1'' {})
              (edit_request ''a.py'' (edit_token ''e:1'' ''a.py'' 1)));
       br = run_broker sample_crypto sample_fs (edit_ops ''e:1'' ''a.py'' 1) (new_broker edit_registry (Some ''key'') (Some [])) in
   granted (fst (go br)) \<and> granted (fst (go (snd (go br))))"
  by (simp add: broker_eval)

text \<open>
  A request found in the store is returned without being kept in memory: if the broker that found it also decides
  it, it has a decision without an exception and grants nothing until it is restarted.
\<close>

theorem reloaded_request_unusable:
  "let go = (\<lambda>br. resolve sample_crypto sample_clock sample_fs br (edit_context ''e1'' {})
              (edit_request ''a.py'' (edit_token ''e1'' ''a.py'' 1)));
       create_first = take 1 (edit_ops ''e1'' ''a.py'' 1);
       br = run_broker sample_crypto sample_fs (create_first @ Restart # edit_ops ''e1'' ''a.py'' 1)
              (new_broker edit_registry (Some ''key'') (Some [])) in
   \<not> granted (fst (go br)) \<and> granted (fst (go (broker_step sample_crypto sample_fs Restart br)))"
  by (simp add: broker_eval)

end
