(* ===== verification/Runtime_Safety.thy ===== *)
theory Runtime_Safety
  imports Runtime_Sync Broker_Safety
begin

text \<open>
  Properties of the execution runtime, over the invariant of \<^verbatim>\<open>Runtime_Sync\<close>: the state in memory is the stored one and
  well formed, external writes happen once per key, tools run only when every gate of the invocation admits them,
  phases change exactly when the topology, the obligations and the profile allow it, the actions a step may take, and
  the restoration of a checkpoint. Examples at the end show a satisfied obligation that still blocks a phase and an
  external write repeated after a restore.
\<close>

section \<open>State and store\<close>


section \<open>External writes happen once\<close>

definition logs_entry :: "capability_request \<Rightarrow> resolution_kind \<Rightarrow> capability_broker \<Rightarrow> capability_broker \<Rightarrow> bool" where
  "logs_entry rq k br br' \<longleftrightarrow> (\<exists>d. cb_decision_log br' = cb_decision_log br @ [d] \<and> dc_kind d = k \<and> dc_arguments d = rq_arguments rq)"

lemma record_entry: "cb_decision_log br1 = cb_decision_log br \<Longrightarrow> rs_kind res = k \<Longrightarrow> logs_entry rq k br (snd (record_resolution rq res fp br1))"
  by (simp add: record_resolution_def log_decision_def logs_entry_def)

lemma exception_log [simp]:
  "cb_decision_log (consume_exception x d br) = cb_decision_log br"
  by (simp add: consume_exception_def store_decision_def cache_decision_def Let_def)

lemma locate_log:
  "locate_exception br ctx rq = Inr (xid, br1) \<Longrightarrow> cb_decision_log br1 = cb_decision_log br"
  "locate_decision br xid d0 = Inr (d, br1) \<Longrightarrow> cb_decision_log br1 = cb_decision_log br"
  by (auto simp: locate_exception_def locate_decision_def cache_exception_def cache_decision_def Let_def split: option.splits)

lemma resolve_missing_entry:
  "resolve_missing cr clk br ctx rq a missing = (Inr res, br') \<Longrightarrow> logs_entry rq (rs_kind res) br br'"
  by (auto simp: resolve_missing_def record_Inr Let_def dest!: locate_log intro!: record_entry
      split: option.splits if_splits sum.splits)

lemma resolve_entry: "resolve cr clk fs br ctx rq = (Inr res, br') \<Longrightarrow> logs_entry rq (rs_kind res) br br'"
  by (auto simp: resolve_def record_Inr Let_def intro: resolve_missing_entry record_entry split: option.splits if_splits)

lemma run_adapter_entry:
  "run_adapter h br1 ctx rq a args cid = (Inr (Invoked tr), br2) \<Longrightarrow> logs_entry rq k br br1 \<Longrightarrow> logs_entry rq k br br2"
  by (auto simp: run_adapter_def set_log_checkpoint_def logs_entry_def split: sum.splits)

lemma invoke_entry:
  assumes "invoke cr clk fs h br ctx rq = (Inr (Invoked tr), br', out)"
  shows "logs_entry rq EXECUTABLE br br'"
proof -
  obtain res br1 where one: "resolve cr clk fs br ctx rq = (Inr res, br1)" "rs_kind res = EXECUTABLE"
    using assms by (auto simp: invoke_def split: sum.splits prod.splits resolution_kind.splits)
  from resolve_entry [OF one(1)] one(2) have "logs_entry rq EXECUTABLE br br1" by simp
  with assms one show ?thesis
    by (auto simp: invoke_def Let_def intro: run_adapter_entry split: if_splits option.splits prod.splits sum.splits)
qed

text \<open>Operations that only queue events while a transaction is open, and leave the broker alone.\<close>

definition queues :: "'a rt_op \<Rightarrow> bool" where
  "queues m \<longleftrightarrow> (\<forall>r. rt_transaction r \<noteq> None \<longrightarrow>
     rt_transaction (snd (m r)) \<noteq> None \<and> rt_broker (snd (m r)) = rt_broker r \<and> rt_effects (snd (m r)) = rt_effects r)"

lemma queues_frame: "(\<And>r. rt_transaction (snd (m r)) = rt_transaction r \<and> rt_broker (snd (m r)) = rt_broker r \<and>
    rt_effects (snd (m r)) = rt_effects r) \<Longrightarrow> queues m"
  by (simp add: queues_def)

lemma queues_bind [intro]:
  assumes "queues m" "\<And>x. queues (f x)"
  shows "queues (bind_rt m f)"
proof -
  have "rt_transaction (snd (bind_rt m f r)) \<noteq> None \<and> rt_broker (snd (bind_rt m f r)) = rt_broker r \<and>
      rt_effects (snd (bind_rt m f r)) = rt_effects r" if r: "rt_transaction r \<noteq> None" for r
  proof -
    obtain x r1 where one: "m r = (x, r1)" by fastforce
    with assms(1) r have r1: "rt_transaction r1 \<noteq> None" "rt_broker r1 = rt_broker r" "rt_effects r1 = rt_effects r"
      by (auto simp: queues_def dest!: spec [where x = r])
    from assms(2) r1(1) have "rt_transaction (snd (f y r1)) \<noteq> None \<and> rt_broker (snd (f y r1)) = rt_broker r1 \<and>
      rt_effects (snd (f y r1)) = rt_effects r1" for y unfolding queues_def by blast
    with one r1 show ?thesis by (cases x) (simp_all add: bind_rt_def)
  qed
  then show ?thesis by (simp add: queues_def)
qed

lemma queues_apply: "queues m \<Longrightarrow> m r = (x, r1) \<Longrightarrow> rt_transaction r \<noteq> None \<Longrightarrow>
    rt_transaction r1 \<noteq> None \<and> rt_broker r1 = rt_broker r \<and> rt_effects r1 = rt_effects r"
  by (metis queues_def snd_conv)

lemma queues_basic [simp, intro]:
  "queues (ok_rt x)" "queues (raise_rt e)" "queues (lift_rt y)" "queues (guard_rt b e)"
  "queues (guard_capability rq)" "queues (guard_obligations a rq)" "queues (require_publish_readiness kw)"
  "queues (apply_guidance_obligations env aid act)" "queues (kernel_step f)"
  by (rule queues_frame, auto simp: ok_rt_def raise_rt_def lift_rt_def guard_rt_def guard_capability_def guard_obligations_def
      require_publish_readiness_def apply_guidance_obligations_def kernel_step_def modify_rt_def Let_def
      split: list.splits sum.splits)+

lemma queues_sync_kernel [simp, intro]: "queues (sync_kernel ph who)"
  by (auto simp: queues_def sync_kernel_def runtime_append_events_def Let_def split: sum.splits)

lemma queues_sync_current [simp, intro]: "queues sync_current"
proof -
  have "queues (bind_rt (sync_kernel a b) (\<lambda>_. ok_rt ()))" for a b by (intro queues_bind) simp_all
  then show ?thesis unfolding queues_def sync_current_def by blast
qed

lemma snd_bind: "snd (m r) = r \<Longrightarrow> (\<And>x. snd (f x r) = r) \<Longrightarrow> snd (bind_rt m f r) = r"
  unfolding bind_rt_def by (cases "m r"; cases "fst (m r)") auto

lemma guards_frame [simp]:
  "snd (ok_rt x r) = r" "snd (guard_rt b e r) = r" "snd (guard_capability rq r) = r" "snd (require_publish_readiness kw r) = r"
  by (auto simp: ok_rt_def guard_rt_def lift_rt_def guard_capability_def require_publish_readiness_def Let_def split: list.splits)

lemma guard_invocation_frame [simp]: "snd (guard_invocation env ctx rq r) = r"
  unfolding guard_invocation_def by (intro snd_bind) (auto intro: snd_bind)

lemma queues_guard_invocation: "queues (guard_invocation env ctx rq)"
  by (simp add: queues_frame)

lemma bind_Inr: "bind_rt m f r = (Inr y, r') \<longleftrightarrow> (\<exists>x r1. m r = (Inr x, r1) \<and> f x r1 = (Inr y, r'))"
  by (auto simp: bind_rt_def split: prod.splits sum.splits)

lemma run_capability_entry:
  assumes "run_capability env ctx rq a r = (Inr (Invoked tr), r1)" "rt_transaction r \<noteq> None"
  shows "rt_transaction r1 \<noteq> None \<and> logs_entry rq EXECUTABLE (rt_broker r) (rt_broker r1)"
proof -
  obtain x r0 where one: "broker_invoke env ctx rq r = (x, r0)" by fastforce
  then have x: "x = Inr (Invoked tr)"
    using assms(1) by (auto simp: run_capability_def bind_Inr raise_rt_def ok_rt_def split: sum.splits)
  with one have e: "logs_entry rq EXECUTABLE (rt_broker r) (rt_broker r0)" "rt_transaction r0 = rt_transaction r"
    by (auto simp: broker_invoke_def intro: invoke_entry split: prod.splits)
  have "queues (bind_rt (kernel_step f) (\<lambda>_. bind_rt sync_current (\<lambda>_. ok_rt res)))" for f and res :: invocation_result
    by (intro queues_bind) simp_all
  from queues_apply [OF this] assms one x e show ?thesis
    by (fastforce simp: run_capability_def)
qed

lemma invocation_queue:
  assumes "invoke_in_transaction env ctx rq0 r = (Inr (Invoked tr), r1)" "rt_transaction r \<noteq> None"
    and "with_idempotency_key (env_crypto env) rq0 = Inr rq"
  shows "\<exists>q d. rt_transaction r1 = Some q \<and> (CAPABILITY_DECISION, capability_decision_to_data d) \<in> set q \<and>
    dc_kind d = EXECUTABLE \<and> dc_arguments d = rq_arguments rq"
proof -
  let ?a = "invocation_action r rq"
  let ?aid = "rt_execution_id r @ '':action:'' @ show_int (event_sequence (rt_state r) + 1)"
  let ?pre = "bind_rt (guard_invocation env ctx rq) (\<lambda>_.
      bind_rt (guard_obligations ?a rq) (\<lambda>_.
      bind_rt (kernel_step (\<lambda>k. propose k ?a (Some (rq_semantic_action rq)) {})) (\<lambda>_.
      bind_rt (apply_guidance_obligations env ?aid (rq_semantic_action rq)) (\<lambda>_.
      bind_rt (kernel_step (\<lambda>k. start k ?a)) (\<lambda>_. sync_current)))))"
  have pre: "queues ?pre" by (intro queues_bind queues_guard_invocation) simp_all
  let ?before = "length (cb_decision_log (rt_broker r))"
  obtain r2 where r2: "?pre r = (Inr (), r2)" and
    rest: "bind_rt (run_capability env ctx rq ?a) (\<lambda>res r1.
        let ds = drop ?before (cb_decision_log (rt_broker r1)) in
        if ds = [] then (Inr res, r1)
        else bind_rt (runtime_append_events (invocation_events env r1 ctx rq res ds)) (\<lambda>_. ok_rt res) r1) r2 = (Inr (Invoked tr), r1)"
    using assms(1,3) by (auto simp: invoke_in_transaction_def Let_def bind_Inr lift_rt_def)
  from queues_apply [OF pre r2 assms(2)] have r2': "rt_transaction r2 \<noteq> None" "rt_broker r2 = rt_broker r" by auto
  from rest obtain res r3 where r3: "run_capability env ctx rq ?a r2 = (Inr res, r3)" and
    last: "(let ds = drop ?before (cb_decision_log (rt_broker r3)) in
        if ds = [] then (Inr res, r3)
        else bind_rt (runtime_append_events (invocation_events env r3 ctx rq res ds)) (\<lambda>_. ok_rt res) r3) = (Inr (Invoked tr), r1)"
    unfolding bind_Inr by blast
  from last have res: "res = Invoked tr" by (auto simp: Let_def bind_Inr ok_rt_def split: if_splits)
  from run_capability_entry [OF r3 [unfolded res] r2'(1)] r2'(2)
  obtain d where d: "cb_decision_log (rt_broker r3) = cb_decision_log (rt_broker r) @ [d]" "dc_kind d = EXECUTABLE"
    "dc_arguments d = rq_arguments rq" and t: "rt_transaction r3 \<noteq> None" by (auto simp: logs_entry_def)
  have "(CAPABILITY_DECISION, capability_decision_to_data d) \<in> set (map (\<lambda>e. (event_type e, payload e)) (invocation_events env r3 ctx rq res [d]))"
    by (simp add: invocation_events_def decision_events_def runtime_event_def Let_def)
  then have "\<exists>q. rt_transaction r1 = Some q \<and> (CAPABILITY_DECISION, capability_decision_to_data d) \<in> set q"
    using last d t by (auto simp: bind_Inr runtime_append_events_def ok_rt_def)
  with d show ?thesis by blast
qed

lemma reduce_records_key:
  assumes "own_events eid es" "e \<in> set es" "event_type e = CAPABILITY_DECISION"
    "payload e = capability_decision_to_data d" "dc_kind d = EXECUTABLE" "get_item (dc_arguments d) ''idempotency_key'' = PStr k"
    and "reduce_execution_events s es = Inr t"
  shows "k \<in> set (completed_idempotency_keys t)"
  using assms(1,2,7)
proof (induction es arbitrary: s)
  case (Cons x es)
  then obtain u where u: "reduce_execution_event s x = Inr u" "reduce_execution_events u es = Inr t"
    by (auto simp: reduce_execution_events_def)
  show ?case
  proof (cases "x = e")
    case True
    have "k \<in> set (completed_idempotency_keys u)"
      using u(1) assms(3-6) unfolding True reduce_event_Inr
      by (auto simp: reduce_payload_def capability_decision_to_data_def decision_key_def)
    with reduce_events_keys [OF _ u(2)] Cons.prems(1) show ?thesis by (auto simp: own_events_Cons)
  next
    case False
    with Cons.IH [OF _ _ u(2)] Cons.prems show ?thesis by (auto simp: own_events_Cons)
  qed
qed simp

lemma commit_reduces:
  assumes "synced (\<lambda>_. True) r" "list_all (\<lambda>(ty, pl). ty \<noteq> CHECKPOINT_REVERTED) q" "commit_attempts n q r = (Inr (), r')"
  shows "\<exists>r0 s. reduce_execution_events s (queued_events r0 q) = Inr (rt_state r')"
  using assms
proof (induction n q r rule: commit_attempts.induct)
  case (2 n q r)
  have r: "store_inv (rt_store r)" "canonical (rt_execution_id r)" "check_execution_id (rt_execution_id r) = Inr ()"
    "stored_state (rt_store r) (rt_execution_id r) = Some (rt_state r)" using "2.prems"(1) by (auto simp: synced_def)
  note ids = own_events_ids [OF r(2) any_state.own_queued [OF "2.prems"(2)]]
  have load: "load (rt_store r) (rt_execution_id r) = (Inr (rt_state r), rt_store r)"
    using stored_load_verify [OF r(1,4,3)] by blast
  show ?case
  proof (cases "append_events (rt_store r) (rt_execution_id r) (state_version (rt_state r)) (queued_events r q)")
    case (Inr p)
    obtain s st where a: "append_events (rt_store r) (rt_execution_id r) (state_version (rt_state r)) (queued_events r q) = Inr (s, st)"
      using Inr by (cases p) auto
    from file_store.commit_base [OF r(1) ids this] obtain u where "reduce_execution_events u (queued_events r q) = Inr s" by blast
    moreover have "rt_state r' = s" using "2.prems"(3) by (auto simp: store_transaction [OF r(1)] a)
    ultimately show ?thesis by blast
  next
    case (Inl e)
    with 2 load show ?thesis by (auto simp: store_transaction [OF r(1)] split: exc.splits if_splits)
  qed
qed simp

lemma invoke_completes_key:
  assumes "synced (\<lambda>_. True) r" "rt_transaction r = None" "with_idempotency_key (env_crypto env) rq = Inr rq1"
    "get_item (rq_arguments rq1) ''idempotency_key'' = PStr k"
    "runtime_invoke env ctx rq r = (Inr (Invoked tr), r1)"
  shows "k \<in> set (completed_idempotency_keys (rt_state r1))"
proof -
  let ?r = "r\<lparr>rt_transaction := Some []\<rparr>"
  obtain res r0 where body: "invoke_in_transaction env ctx rq ?r = (res, r0)" by fastforce
  have s: "synced (\<lambda>_. True) ?r" using assms(1) by (simp add: synced_def queue_ok_def)
  have s0: "synced (\<lambda>_. True) r0" using any_state.keeps_invoke_in_transaction s body by (rule keepsD)
  have res: "res = Inr (Invoked tr)"
    using assms(5) body by (auto simp: runtime_invoke_def transaction_def assms(2) split: option.splits sum.splits prod.splits)
  from invocation_queue [OF body [unfolded res] _ assms(3)] obtain q d where
    q: "rt_transaction r0 = Some q" "(CAPABILITY_DECISION, capability_decision_to_data d) \<in> set q"
    and d: "dc_kind d = EXECUTABLE" "dc_arguments d = rq_arguments rq1" by auto
  have types: "list_all (\<lambda>(ty, pl). ty \<noteq> CHECKPOINT_REVERTED) q" using s0 q(1) by (simp add: synced_def queue_ok_def)
  have "q \<noteq> []" using q(2) by auto
  then obtain r2 where c: "commit_attempts 3 q r0 = (Inr (), r2)" "r1 = r2\<lparr>rt_transaction := None\<rparr>"
    using assms(5) body q(1) by (auto simp: runtime_invoke_def transaction_def assms(2) commit_transaction_def split: sum.splits prod.splits)
  from commit_reduces [OF s0 types c(1)] obtain rx s where red: "reduce_execution_events s (queued_events rx q) = Inr (rt_state r2)" by blast
  from q(2) obtain i where i: "i < length q" "q ! i = (CAPABILITY_DECISION, capability_decision_to_data d)" by (auto simp: in_set_conv_nth)
  let ?e = "queued_events rx q ! i"
  have "?e \<in> set (queued_events rx q)" using i by (intro nth_mem) (simp add: queued_events_def)
  moreover have "event_type ?e = CAPABILITY_DECISION" "payload ?e = capability_decision_to_data d"
    using i by (simp_all add: queued_events_def nth_enumerate_eq runtime_event_def Let_def)
  ultimately have "k \<in> set (completed_idempotency_keys (rt_state r2))"
    using reduce_records_key [OF any_state.own_queued [OF types] _ _ _ d(1) _ red] d(2) assms(4) by simp
  with c(2) show ?thesis by simp
qed

lemma invoke_refuses_key:
  assumes "k \<in> set (completed_idempotency_keys (rt_state r))" "rq_tool_name rq = ''repository''"
    "with_idempotency_key (env_crypto env) rq = Inr rq1" "get_item (rq_arguments rq1) ''idempotency_key'' = PStr k"
  shows "\<exists>e. runtime_invoke env ctx rq r = (Inl e, r)"
proof -
  have tool: "rq_tool_name rq1 = ''repository''"
    using assms(2,3) by (auto simp: with_idempotency_key_def split: if_splits)
  have "\<exists>e. guard_invocation env ctx rq1 x = (Inl e, x)" if "rt_state x = rt_state r" for x
  proof -
    have "fst (guard_invocation env ctx rq1 x) \<noteq> Inr ()"
      using assms(1,4) tool that by (auto simp: guard_invocation_def bind_rt_def guard_rt_def lift_rt_def split: prod.splits sum.splits)
    then show ?thesis
      by (metis guard_invocation_frame old.unit.exhaust prod.collapse sum.exhaust)
  qed
  note stop = this
  have body: "\<exists>e. invoke_in_transaction env ctx rq x = (Inl e, x)" if "rt_state x = rt_state r" for x
    using stop [OF that] by (auto simp: invoke_in_transaction_def assms(3) Let_def bind_rt_def lift_rt_def)
  show ?thesis
  proof (cases "rt_transaction r")
    case None
    from body [of "r\<lparr>rt_transaction := Some []\<rparr>"] show ?thesis using None
      by (auto simp: runtime_invoke_def transaction_def)
  next
    case (Some q)
    with body [of r] show ?thesis by (simp add: runtime_invoke_def transaction_def)
  qed
qed


definition pr_adapter :: tool_adapter where
  "pr_adapter = \<lparr>manifest = sample_manifest\<lparr>tool_name := ''repository'', semantic_actions := [''mutate_pull_request''], effects := [GITHUB_MUTATION]\<rparr>,
     adapter_validate = \<lambda>ctx args. [], adapter_execute = adapter_execute sample_adapter, adapter_effects_for = None\<rparr>"

definition sample_env :: runtime_env where
  "sample_env = \<lparr>env_crypto = sample_crypto, env_clock = sample_clock, env_paths = sample_fs, env_hooks = sample_hooks,
     env_state_json = \<lambda>s. '''', env_exc_class = \<lambda>e. ''Exception'', env_resolution_text = \<lambda>r. ''''\<rparr>"

definition pr_request :: capability_request where
  "pr_request = \<lparr>rq_tool_name = ''repository'', rq_semantic_action = ''mutate_pull_request'',
     rq_arguments = [(''operation'', PStr ''pr_edit''), (''idempotency_key'', PStr ''k1'')], rq_exception_token = None\<rparr>"

definition pr_registry :: tool_registry where
  "pr_registry = \<lparr>adapters = [(''repository'', pr_adapter)], fingerprints = [(''repository'', ''0a1b'')]\<rparr>"

definition sample_runtime :: runtime where
  "sample_runtime = (case fst (new_runtime sample_env ''e1'' ''p'' ''/repo'' INTAKE ENFORCE None sample_store None None (\<lambda>_. None)
      pr_registry None []) of Inr r \<Rightarrow> r)"

definition pr_context :: tool_context where
  "pr_context = runtime_context sample_runtime {''mutate_pull_request''} {GITHUB_MUTATION} None"

lemma sample_opened: "\<exists>st ints. new_runtime sample_env ''e1'' ''p'' ''/repo'' INTAKE ENFORCE None sample_store None None (\<lambda>_. None)
      pr_registry None [] = (Inr sample_runtime, st, ints)"
proof -
  have "is_ok (fst (new_runtime sample_env ''e1'' ''p'' ''/repo'' INTAKE ENFORCE None sample_store None None (\<lambda>_. None)
      pr_registry None []))" by code_simp
  then show ?thesis
    by (cases "new_runtime sample_env ''e1'' ''p'' ''/repo'' INTAKE ENFORCE None sample_store None None (\<lambda>_. None) pr_registry None []")
      (auto simp: sample_runtime_def is_ok_iff)
qed

lemma sample_runtime_reachable: "runtime_reachable sample_env sample_runtime"
proof -
  have "canonical ''e1''" "canonical ''p''" by code_simp+
  with sample_opened show ?thesis using rt_open [OF sample_store_reachable] by blast
qed

definition invoked_sample :: runtime where
  "invoked_sample = snd (runtime_invoke sample_env pr_context pr_request sample_runtime)"

lemma sample_invocation:
  "case runtime_invoke sample_env pr_context pr_request sample_runtime of
     (Inr (Invoked tr), r) \<Rightarrow> rt_execution_id r = ''e1'' \<and> event_sequence (rt_state r) > 0 \<and> rt_effects r \<noteq> [] \<and>
       rt_transaction r = None \<and> completed_idempotency_keys (rt_state r) = [''k1'']
   | _ \<Rightarrow> False"
  by code_simp

lemma sample_invoked: "\<exists>tr. runtime_invoke sample_env pr_context pr_request sample_runtime = (Inr (Invoked tr), invoked_sample)"
  and invoked_sample: "rt_execution_id invoked_sample = ''e1''" "event_sequence (rt_state invoked_sample) > 0" "rt_effects invoked_sample \<noteq> []"
    "rt_transaction invoked_sample = None" "completed_idempotency_keys (rt_state invoked_sample) = [''k1'']"
  using sample_invocation unfolding invoked_sample_def
  by (auto split: prod.splits sum.splits invocation_result.splits)



section \<open>Phase transitions\<close>

lemma stored_holds:
  assumes "store_inv st" "stored_state st eid = Some s"
  shows "\<exists>es. holds (st eid) s es \<and> execution_id s = eid"
proof -
  have "read_state (st eid) = Inr s" using assms(2) by (auto simp: stored_state_def split: sum.splits)
  moreover have "dir_inv eid (st eid)" using assms(1) by (simp add: store_inv_def)
  ultimately show ?thesis
    using read_state_holds by (auto simp: dir_inv_def no_files_def holds_def) (simp add: read_state_def)
qed

lemma store_append_reduces:
  assumes "synced P r" "reduce_execution_events (rt_state r) es = Inr s"
  shows "\<exists>st. store_append es r = (Inr s, r\<lparr>rt_store := st, rt_state := s\<rparr>)"
proof -
  have r: "store_inv (rt_store r)" "stored_state (rt_store r) (rt_execution_id r) = Some (rt_state r)"
    "check_execution_id (rt_execution_id r) = Inr ()" using assms(1) by (auto simp: synced_def)
  from stored_holds [OF r(1,2)] obtain log where "holds_files (rt_store r (rt_execution_id r)) (rt_state r) log"
    by (auto simp: holds_def)
  with assms(2) r(3) have "\<exists>st. append_events (rt_store r) (rt_execution_id r) (state_version (rt_state r)) es = Inr (s, st)"
    by (simp add: append_events_def append_locked_def append_locked_writes_def
        read_state_holds read_events_holds guard_r_def)
  then show ?thesis by (auto simp: store_append_def)
qed

definition gated_phases :: "phase_type set" where
  "gated_phases = {CONFIRM_READINESS, PUBLISH_PR, COMPLETE_FEATURE}"

definition may_enter :: "runtime \<Rightarrow> phase_type \<Rightarrow> string option \<Rightarrow> bool" where
  "may_enter r target persona \<longleftrightarrow>
     target \<in> next_phases (current_phase (rt_state r)) \<and>
     (target \<in> gated_phases \<longrightarrow> all_obligations r = []) \<and>
     (case rt_profile r of None \<Rightarrow> True | Some p \<Rightarrow> profile_objections p (rt_state r) target persona = [])"

definition entered :: "execution_state \<Rightarrow> phase_type \<Rightarrow> string option \<Rightarrow> execution_state" where
  "entered s target persona = s\<lparr>current_phase := target, current_persona_id := optional_string (opt_str persona),
     phase_revision := phase_revision s + 1, state_version := state_version s + 1, event_sequence := event_sequence s + 1\<rparr>"

lemma phase_names_stripped: "strip (phase_value p) = phase_value p \<and> phase_value p \<noteq> []"
proof -
  have "list_all (\<lambda>p. strip (phase_value p) = phase_value p \<and> phase_value p \<noteq> []) phase_members" by code_simp
  then show ?thesis using phase_enum.members_complete by (auto simp: list_all_iff)
qed

lemma reduce_phase_entered:
  assumes "execution_id (rt_state r) = rt_execution_id r"
  shows "reduce_execution_events (rt_state r) [runtime_event r PHASE_ENTERED
      [(''phase_type'', PStr (phase_value target)), (''persona_id'', opt_str persona)] 1] = Inr (entered (rt_state r) target persona)"
  using assms phase_names_stripped [of target]
  by (simp add: reduce_execution_events_def reduce_execution_event_def runtime_event_def reduce_payload_def
      required_string_def entered_def Let_def guard_r_def)

lemma py_dedup_Nil [simp]: "py_dedup xs = [] \<longleftrightarrow> xs = []"
  by (metis set_py_dedup set_empty)





section \<open>What the runtime executes\<close>

definition tool_run :: "capability_broker \<Rightarrow> tool_context \<Rightarrow> capability_request \<Rightarrow> outside_effect list \<Rightarrow> bool" where
  "tool_run br ctx rq out \<longleftrightarrow> (\<exists>a cid snap. get_adapter (cb_registry br) (rq_tool_name rq) = Some a \<and>
     out = (if mutating (adapter_effects a ctx (rq_arguments rq)) then [CreateCheckpoint cid snap] else []) @
       [ExecuteTool (rq_tool_name rq) (rq_arguments rq)])"

lemma invoke_out:
  assumes "invoke cr clk fs h br ctx rq = (x, br', out)" "ctx_execution_id ctx \<noteq> None"
  shows "out = [] \<or> tool_run br ctx rq out"
proof -
  obtain r1 br1 where one: "resolve cr clk fs br ctx rq = (r1, br1)" by fastforce
  show ?thesis
  proof (cases "\<exists>res. r1 = Inr res \<and> rs_kind res = EXECUTABLE")
    case False
    with one assms show ?thesis by (cases r1) (auto simp: invoke_def split: resolution_kind.splits)
  next
    case True
    then obtain res where res: "r1 = Inr res" "rs_kind res = EXECUTABLE" by blast
    with one resolve_executable obtain a where "rs_adapter res = Some a" "rs_arguments res = Some (rq_arguments rq)"
      "get_adapter (cb_registry br) (rq_tool_name rq) = Some a" by blast
    with assms one res show ?thesis
      by (auto simp: invoke_def Let_def tool_run_def split: if_splits option.splits prod.splits sum.splits)
  qed
qed

lemma commit_effects: "rt_effects (snd (commit_attempts n q r)) = rt_effects r"
  by (induction n q r rule: commit_attempts.induct) (auto split: sum.splits prod.splits exc.splits)

definition publishes :: "capability_request \<Rightarrow> bool" where
  "publishes rq \<longleftrightarrow> rq_tool_name rq = ''repository'' \<and>
     get_item (rq_arguments rq) ''operation'' \<in> PStr ` {''pr_create'', ''pr_publish_clean''}"

definition invocation_admitted :: "runtime_env \<Rightarrow> runtime \<Rightarrow> tool_context \<Rightarrow> capability_request \<Rightarrow> bool" where
  "invocation_admitted env r ctx rq \<longleftrightarrow>
     ctx_execution_id ctx = Some (rt_execution_id r) \<and> env_paths env (repo_root ctx) = path_parts (rt_repo_root r) \<and>
     ctx_active_persona_id ctx = current_persona_id (rt_state r) \<and>
     validate_capability_action r (rq_semantic_action rq) = [] \<and>
     (publishes rq \<longrightarrow> ready (publish_readiness None r)) \<and>
     (rq_tool_name rq = ''repository'' \<longrightarrow>
       get_item (rq_arguments rq) ''idempotency_key'' \<notin> PStr ` set (completed_idempotency_keys (rt_state r))) \<and>
     validate_proposal (rt_kernel r) (invocation_action r rq) (Some (rq_semantic_action rq)) = []"

lemma guards_passed:
  assumes "guard_invocation env ctx rq r = (Inr (), r)" "guard_obligations (invocation_action r rq) rq r = (Inr (), r)"
  shows "invocation_admitted env r ctx rq"
  using assms
  by (auto simp: invocation_admitted_def guard_invocation_def guard_obligations_def bind_Inr guard_rt_def lift_rt_def guard_r_def
      guard_capability_def require_publish_readiness_def publishes_def Let_def ok_rt_def image_iff
      split: list.splits if_splits pyval.splits)

lemma run_capability_effects:
  assumes "run_capability env ctx rq a r = (x, r1)" "rt_transaction r \<noteq> None" "ctx_execution_id ctx \<noteq> None"
  shows "rt_transaction r1 \<noteq> None \<and> (rt_effects r1 = rt_effects r \<or> (\<exists>out. tool_run (rt_broker r) ctx rq out \<and> rt_effects r1 = rt_effects r @ out))"
proof -
  obtain y r0 where one: "broker_invoke env ctx rq r = (y, r0)" by fastforce
  have e: "rt_effects r0 = rt_effects r \<or> (\<exists>out. tool_run (rt_broker r) ctx rq out \<and> rt_effects r0 = rt_effects r @ out)"
    "rt_transaction r0 \<noteq> None"
    using one assms(2) invoke_out [OF _ assms(3)] by (fastforce simp: broker_invoke_def split: prod.splits)+
  have q: "queues (bind_rt (kernel_step f) (\<lambda>_. bind_rt sync_current (\<lambda>_. m)))" if "queues m" for f and m :: "invocation_result rt_op"
    using that by (intro queues_bind) simp_all
  have "rt_transaction r1 \<noteq> None \<and> rt_broker r1 = rt_broker r0 \<and> rt_effects r1 = rt_effects r0"
    using assms(1) one e(2) by (cases y) (auto simp: run_capability_def dest!: queues_apply [OF q, rotated])
  with e show ?thesis by auto
qed

lemma bind_cases:
  assumes "bind_rt m f r = (x, r')"
  obtains (fails) e where "m r = (Inl e, r')" "x = Inl e" | (runs) y r1 where "m r = (Inr y, r1)" "f y r1 = (x, r')"
  using assms by (auto simp: bind_rt_def split: prod.splits sum.splits)

lemma guarded_bind: "bind_rt m f r = (x, r') \<Longrightarrow> snd (m r) = r \<Longrightarrow> rt_effects r' \<noteq> rt_effects r \<Longrightarrow>
    \<exists>y. m r = (Inr y, r) \<and> f y r = (x, r')"
  by (erule bind_cases) auto

lemma queues_bind_effects:
  "bind_rt m f r = (x, r') \<Longrightarrow> queues m \<Longrightarrow> rt_transaction r \<noteq> None \<Longrightarrow> rt_effects r' \<noteq> rt_effects r \<Longrightarrow>
    \<exists>y r1. f y r1 = (x, r') \<and> rt_transaction r1 \<noteq> None \<and> rt_effects r1 = rt_effects r \<and> rt_broker r1 = rt_broker r"
  by (erule bind_cases) (metis queues_apply)+

lemma body_effects:
  assumes "invoke_in_transaction env ctx rq0 r = (x, r1)" "rt_transaction r \<noteq> None" "rt_effects r1 \<noteq> rt_effects r"
  shows "\<exists>rq out. with_idempotency_key (env_crypto env) rq0 = Inr rq \<and> invocation_admitted env r ctx rq \<and> tool_run (rt_broker r) ctx rq out \<and>
    rt_effects r1 = rt_effects r @ out"
proof -
  obtain rq where rq: "with_idempotency_key (env_crypto env) rq0 = Inr rq"
    using assms(1,3) by (cases "with_idempotency_key (env_crypto env) rq0") (auto simp: invoke_in_transaction_def bind_rt_def lift_rt_def)
  let ?a = "invocation_action r rq"
  let ?aid = "rt_execution_id r @ '':action:'' @ show_int (event_sequence (rt_state r) + 1)"
  let ?n = "length (cb_decision_log (rt_broker r))"
  let ?last = "\<lambda>res r1. let ds = drop ?n (cb_decision_log (rt_broker r1)) in
        if ds = [] then (Inr res, r1)
        else bind_rt (runtime_append_events (invocation_events env r1 ctx rq res ds)) (\<lambda>_. ok_rt res) r1"
  let ?run = "bind_rt (run_capability env ctx rq ?a) ?last"
  let ?sync = "bind_rt sync_current (\<lambda>_. ?run)"
  let ?start = "bind_rt (kernel_step (\<lambda>k. start k ?a)) (\<lambda>_. ?sync)"
  let ?guide = "bind_rt (apply_guidance_obligations env ?aid (rq_semantic_action rq)) (\<lambda>_. ?start)"
  let ?propose = "bind_rt (kernel_step (\<lambda>k. propose k ?a (Some (rq_semantic_action rq)) {})) (\<lambda>_. ?guide)"
  have all: "bind_rt (guard_invocation env ctx rq) (\<lambda>_. bind_rt (guard_obligations ?a rq) (\<lambda>_. ?propose)) r = (x, r1)"
    using assms(1) by (simp add: invoke_in_transaction_def rq lift_rt_def bind_rt_def [where m = "lift_rt (Inr rq)"] Let_def)
  have frame: "snd (guard_obligations ?a rq r) = r"
    by (simp add: guard_obligations_def Let_def)
  from guarded_bind [OF all _ assms(3)] have one: "guard_invocation env ctx rq r = (Inr (), r)"
    "bind_rt (guard_obligations ?a rq) (\<lambda>_. ?propose) r = (x, r1)" by auto
  from guarded_bind [OF one(2) frame assms(3)] have two: "guard_obligations ?a rq r = (Inr (), r)" "?propose r = (x, r1)" by auto
  note adm = guards_passed [OF one(1) two(1)]
  from queues_bind_effects [OF two(2) _ assms(2,3)] obtain ra where a: "?guide ra = (x, r1)" "rt_transaction ra \<noteq> None" "rt_effects ra = rt_effects r" "rt_broker ra = rt_broker r" by auto
  from queues_bind_effects [OF a(1) _ a(2)] a(3,4) assms(3) obtain rb where b: "?start rb = (x, r1)" "rt_transaction rb \<noteq> None" "rt_effects rb = rt_effects r" "rt_broker rb = rt_broker r" by auto
  from queues_bind_effects [OF b(1) _ b(2)] b(3,4) assms(3) obtain rc where c: "?sync rc = (x, r1)" "rt_transaction rc \<noteq> None" "rt_effects rc = rt_effects r" "rt_broker rc = rt_broker r" by auto
  from queues_bind_effects [OF c(1) _ c(2)] c(3,4) assms(3) obtain rd where d: "?run rd = (x, r1)" "rt_transaction rd \<noteq> None" "rt_effects rd = rt_effects r" "rt_broker rd = rt_broker r" by auto
  have out: "rt_effects ry = rt_effects r \<or> (\<exists>out. tool_run (rt_broker r) ctx rq out \<and> rt_effects ry = rt_effects r @ out)" "rt_transaction ry \<noteq> None"
    if "run_capability env ctx rq ?a rd = (y, ry)" for y ry
    using run_capability_effects [OF that d(2)] adm d(3,4) by (auto simp: invocation_admitted_def)
  have last: "rt_effects rz = rt_effects ry" if "?last y ry = (z, rz)" "rt_transaction ry \<noteq> None" for y ry z rz
    using that by (auto simp: Let_def bind_rt_def runtime_append_events_def ok_rt_def split: if_splits)
  have "\<exists>out. tool_run (rt_broker r) ctx rq out \<and> rt_effects r1 = rt_effects r @ out"
    using d(1)
  proof (cases rule: bind_cases)
    case (fails e)
    with out [OF fails(1)] assms(3) show ?thesis by auto
  next
    case (runs y ry)
    with out [OF runs(1)] last [OF runs(2)] assms(3) show ?thesis by auto
  qed
  with rq adm show ?thesis by blast
qed

lemma transaction_effects:
  assumes "transaction body r = (x, r1)" "rt_transaction r = None"
  shows "\<exists>y r0. body (r\<lparr>rt_transaction := Some []\<rparr>) = (y, r0) \<and> rt_effects r1 = rt_effects r0"
proof -
  obtain y r0 where body: "body (r\<lparr>rt_transaction := Some []\<rparr>) = (y, r0)" by fastforce
  have commit: "rt_effects rz = rt_effects r0" if "commit_attempts 3 q r0 = (z, rz)" for q z rz
    using commit_effects [of 3 q r0] that by simp
  from body assms have "rt_effects r1 = rt_effects r0"
    by (auto simp: transaction_def commit_transaction_def dest: commit split: option.splits if_splits prod.splits sum.splits)
  with body show ?thesis by blast
qed

lemma invocation_gated:
  assumes "runtime_invoke env ctx rq0 r = (x, r1)" "rt_effects r1 \<noteq> rt_effects r"
  shows "\<exists>rq out. with_idempotency_key (env_crypto env) rq0 = Inr rq \<and> invocation_admitted env r ctx rq \<and> tool_run (rt_broker r) ctx rq out \<and>
    rt_effects r1 = rt_effects r @ out"
proof (cases "rt_transaction r")
  case None
  from transaction_effects [OF assms(1) [unfolded runtime_invoke_def] None] obtain y r0 where
    body: "invoke_in_transaction env ctx rq0 (r\<lparr>rt_transaction := Some []\<rparr>) = (y, r0)" "rt_effects r1 = rt_effects r0" by blast
  have same: "invocation_admitted env (r\<lparr>rt_transaction := Some []\<rparr>) ctx rq = invocation_admitted env r ctx rq" for rq
    by (simp add: invocation_admitted_def validate_capability_action_def effective_action_contract_def installed_scopes_def
        pending_required_actions_def all_obligations_def publish_readiness_def invocation_action_def)
  from body_effects [OF body(1)] body(2) assms(2) same show ?thesis by auto
next
  case (Some q)
  with assms body_effects show ?thesis by (auto simp: runtime_invoke_def transaction_def)
qed

text \<open>C6: An invocation reaches the outside only if the context belongs to this execution, repository and persona, the
  action contract admits the capability, publishing is ready, the external write is not yet completed and no
  obligation blocks the action. Then it runs the requested tool once, after a checkpoint if the call
  can do more than read the workspace.\<close>

theorem execution_gated:
  assumes "runtime_invoke env ctx rq0 r = (x, r1)" "rt_effects r1 \<noteq> rt_effects r"
  shows "\<exists>rq out. with_idempotency_key (env_crypto env) rq0 = Inr rq \<and> invocation_admitted env r ctx rq \<and> tool_run (rt_broker r) ctx rq out \<and>
    rt_effects r1 = rt_effects r @ out"
  using assms by (rule invocation_gated)

theorem execution_gated_witness:
  "\<exists>rq out. tool_run (rt_broker sample_runtime) pr_context rq out \<and> invocation_admitted sample_env sample_runtime pr_context rq \<and>
     rt_effects invoked_sample = out"
proof -
  obtain tr where run: "runtime_invoke sample_env pr_context pr_request sample_runtime = (Inr (Invoked tr), invoked_sample)"
    using sample_invoked by blast
  have "rt_effects sample_runtime = []" by code_simp
  then show ?thesis using execution_gated [OF run] invoked_sample(3) by auto
qed

section \<open>The action contract\<close>

definition granted_actions :: "runtime \<Rightarrow> string set" where
  "granted_actions r = {kind. installed_scopes r \<noteq> [] \<and> (\<forall>scope \<in> set (installed_scopes r). kind \<in> scope)} \<union>
     {kind. \<exists>wanted. rt_observer_action r = Some wanted \<and> map_of wanted ''kind'' = Some kind}"

lemma foldl_inter: "foldl (\<inter>) s ss = s \<inter> \<Inter> (set ss)"
  by (induction ss arbitrary: s) auto

lemma contract_actions:
  "effective_action_contract r =
    (let granted = granted_actions r; required = pending_required_actions r;
         acts = (if granted \<inter> required \<noteq> {} then granted \<inter> required else granted) in
     if installed_scopes r = [] \<and> granted = {} then None else Some acts)"
proof -
  have base: "(case installed_scopes r of [] \<Rightarrow> {} | s # ss \<Rightarrow> foldl (\<inter>) s ss) =
      {kind. installed_scopes r \<noteq> [] \<and> (\<forall>scope \<in> set (installed_scopes r). kind \<in> scope)}"
    by (auto simp: foldl_inter split: list.splits)
  have obs: "(case rt_observer_action r of None \<Rightarrow> B
            | Some wanted \<Rightarrow> (case map_of wanted ''kind'' of Some k \<Rightarrow> insert k B | None \<Rightarrow> B)) =
      B \<union> {kind. \<exists>wanted. rt_observer_action r = Some wanted \<and> map_of wanted ''kind'' = Some kind}" for B
    by (auto split: option.splits)
  show ?thesis
    unfolding effective_action_contract_def Let_def base obs granted_actions_def [symmetric] by (auto simp: Int_commute)
qed

text \<open>The actions a step may take: those that every installed scope allows or that the observer grants, narrowed to
  the ones open obligations require when any of these is allowed; without scopes and grants there is no restriction,
  and asking the user, moving on and emitting outputs are always possible.\<close>

theorem step_action_admitted_iff:
  "validate_action r kind = [] \<longleftrightarrow>
     kind \<in> {''emit_outputs'', ''prompt_user'', ''next_step''} \<or>
     (installed_scopes r = [] \<and> granted_actions r = {}) \<or>
     (kind \<in> granted_actions r \<and> (granted_actions r \<inter> pending_required_actions r = {} \<or> kind \<in> pending_required_actions r))"
  by (auto simp: validate_action_def contract_actions Let_def)

text \<open>An obligation that was satisfied still blocks the gated phases: the transition counts every obligation of the state.\<close>

definition settled_runtime :: runtime where
  "settled_runtime = sample_runtime\<lparr>rt_state := (rt_state sample_runtime)\<lparr>current_phase := REVIEW_PR, obligations :=
     [\<lparr>obligation_id = ''o1'', ob_description = ''run the tests'', ob_status = OS_SATISFIED, source_action_instance_id = None,
       required_action = None, relationship_id = None, target_ref = None\<rparr>]\<rparr>\<rparr>"


theorem satisfied_obligation_blocks_transition:
  "ready (publish_readiness None settled_runtime) \<and>
   map_sum id allowed (fst (transition_phase CONFIRM_READINESS None settled_runtime)) = Inr False"
  by code_simp

section \<open>Restoring a checkpoint\<close>

lemma loaded_state_ok: "state_from_document v = Inr s \<Longrightarrow> state_ok s"
  using state_codec.parsed_ok by (auto simp: state_from_document_def split: pyval.splits)

lemma restore_plan_state:
  assumes "restore_plan re st cid wroot r = Inr (ck, restored, target)" "state_ok (rt_state r)"
  shows "state_ok restored \<and> execution_id restored = rt_execution_id r"
  using assms loaded_state_ok
  by (auto simp: restore_plan_def Let_def split: option.splits)

definition reverted :: "execution_state \<Rightarrow> execution_state \<Rightarrow> execution_state" where
  "reverted now old = old\<lparr>state_version := state_version now + 1, event_sequence := event_sequence now + 1\<rparr>"

lemma reduce_reverted:
  assumes "execution_id (rt_state r) = rt_execution_id r" "state_ok old" "execution_id old = rt_execution_id r"
  shows "reduce_execution_events (rt_state r) [runtime_event r CHECKPOINT_REVERTED
      [(''checkpoint_id'', PStr cid), (''changed_paths'', paths), (''state'', PDict (state_to_data old))] 1] = Inr (reverted (rt_state r) old)"
  using assms
  by (simp add: reduce_execution_events_def reduce_execution_event_def runtime_event_def reduce_payload_def
      state_codec.roundtrip reverted_def Let_def guard_r_def)

text \<open>C9: Restoring a checkpoint is all or nothing for the execution: if it raises, the runtime is unchanged; otherwise the
  files were restored, the state of the snapshot is stored under the next version and sequence number, and the
  kernel's obligations are its open ones.\<close>

theorem restore_checkpoint_exact:
  assumes "runtime_reachable env r" "rt_transaction r = None" "restore_checkpoint re st cid wroot trees r = (res, r1, trees')"
  shows "case res of
      Inl e \<Rightarrow> r1 = r
    | Inr s \<Rightarrow> (\<exists>ck old target w. restore_plan re st cid wroot r = Inr (ck, old, target) \<and>
        restore_checkpoint_files (re_git re) (re_fault re) st ck target (trees target) = (Inr (), w) \<and> trees' = trees(target := w) \<and>
        s = reverted (rt_state r) old \<and> rt_state r1 = s \<and> load (rt_store r1) (rt_execution_id r) = (Inr s, rt_store r1) \<and>
        k_obligations (rt_kernel r1) = k_obligations (restore_obligations new_kernel (obligations s)))"
proof -
  have s: "synced (\<lambda>_. True) r" by (rule reachable_synced [OF assms(1)])
  have ok: "execution_id (rt_state r) = rt_execution_id r" "state_ok (rt_state r)"
    using s stored_holds [of "rt_store r" "rt_execution_id r" "rt_state r"] by (auto simp: synced_def holds_def holds_files_def)
  have app: "\<exists>st. runtime_append_event CHECKPOINT_REVERTED [(''checkpoint_id'', PStr cid), (''changed_paths'', paths), (''state'', PDict (state_to_data old))] r =
      (Inr (reverted (rt_state r) old), r\<lparr>rt_store := st, rt_state := reverted (rt_state r) old\<rparr>)"
    if "restore_plan re st cid wroot r = Inr (ck, old, target)" for ck old target paths
    using store_append_reduces [OF s reduce_reverted [OF ok(1)]] restore_plan_state [OF that ok(2)] assms(2)
    by (simp add: runtime_append_event_def)
  have stored: "load (rt_store r1) (rt_execution_id r1) = (Inr (rt_state r1), rt_store r1)"
    using restore_synced [OF s assms(2,3)] stored_load_verify by (simp add: synced_def)
  show ?thesis
  proof (cases "restore_plan re st cid wroot r")
    case (Inl e)
    with assms(3) show ?thesis by (auto simp: restore_checkpoint_def)
  next
    case (Inr p)
    obtain ck old target where p: "restore_plan re st cid wroot r = Inr (ck, old, target)" using Inr by (cases p) auto
    obtain y w where files: "restore_checkpoint_files (re_git re) (re_fault re) st ck target (trees target) = (y, w)" by fastforce
    show ?thesis
    proof (cases "changed_paths (re_sha re) (re_git re) ck target (case trees target of None \<Rightarrow> [] | Some w \<Rightarrow> w)")
      case (Inl e)
      with assms(3) p show ?thesis by (auto simp: restore_checkpoint_def)
    next
      case (Inr changed)
      show ?thesis
      proof (cases y)
        case (Inl e)
        with assms(3) p Inr files show ?thesis by (auto simp: restore_checkpoint_def)
      next
        case y: (Inr u)
        from app [OF p, of "str_list changed"] obtain st' where
          "runtime_append_event CHECKPOINT_REVERTED [(''checkpoint_id'', PStr cid), (''changed_paths'', str_list changed),
             (''state'', PDict (state_to_data old))] r = (Inr (reverted (rt_state r) old), r\<lparr>rt_store := st', rt_state := reverted (rt_state r) old\<rparr>)" by blast
        with assms(3) p Inr files y have r1: "res = Inr (reverted (rt_state r) old)" "trees' = trees(target := w)"
          "rt_state r1 = reverted (rt_state r) old" "rt_execution_id r1 = rt_execution_id r"
          "k_obligations (rt_kernel r1) = k_obligations (restore_obligations new_kernel (obligations (reverted (rt_state r) old)))"
          by (auto simp: restore_checkpoint_def restore_obligations_def)
        with p files y stored show ?thesis by simp
      qed
    qed
  qed
qed

definition sample_restore_env :: restore_env where
  "sample_restore_env = \<lparr>re_resolve = (\<lambda>p. p), re_json = (\<lambda>t. Inr (PDict (state_to_data sample_initial))),
     re_git = (\<lambda>root args ws. (Inl (CalledProcessError ''git''), ws)), re_fault = (\<lambda>_. None), re_sha = (\<lambda>b. CHR ''h'' # b)\<rparr>"

definition sample_checkpoints :: checkpoint_files where
  "sample_checkpoints = (case create_checkpoint (re_sha sample_restore_env) (re_git sample_restore_env) \<lparr>cf_objects = [], cf_manifests = []\<rparr> ''/repo''
     [([''a.py''], Regular ''1'')] ''before-0a1b'' (Some ''snapshot'') of Inr (ck, st) \<Rightarrow> st)"

definition restored_sample :: "execution_state result \<times> runtime \<times> (string \<Rightarrow> workspace option)" where
  "restored_sample = restore_checkpoint sample_restore_env sample_checkpoints ''before-0a1b'' None (\<lambda>_. Some [([''b.py''], Regular ''2'')]) invoked_sample"

lemma sample_restoration:
  "case restored_sample of
     (Inr s, r1, trees) \<Rightarrow> completed_idempotency_keys (rt_state r1) = [] \<and> invocation_admitted sample_env r1 pr_context pr_request
   | _ \<Rightarrow> False"
  by code_simp

theorem restore_checkpoint_exact_witness:
  "\<exists>s r1 trees. restored_sample = (Inr s, r1, trees) \<and> rt_state r1 = s \<and> fst (load (rt_store r1) ''e1'') = Inr s"
proof -
  have reach: "runtime_reachable sample_env invoked_sample" unfolding invoked_sample_def using rt_step [OF sample_runtime_reachable step_invoke] .
  from sample_restoration obtain s r1 trees where run: "restored_sample = (Inr s, r1, trees)"
    by (auto split: prod.splits sum.splits)
  from restore_checkpoint_exact [OF reach invoked_sample(4) run [unfolded restored_sample_def]]
  have "rt_state r1 = s \<and> load (rt_store r1) ''e1'' = (Inr s, rt_store r1)" unfolding invoked_sample(1) by auto
  then have "rt_state r1 = s \<and> fst (load (rt_store r1) ''e1'') = Inr s" by simp
  with run show ?thesis by blast
qed

text \<open>
  A restored snapshot forgets the external writes completed since: after the restore the same request, with the same
  idempotency key, is admitted again.
\<close>

theorem restored_snapshot_repeats_write:
  "completed_idempotency_keys (rt_state invoked_sample) = [''k1''] \<and>
   completed_idempotency_keys (rt_state (fst (snd restored_sample))) = [] \<and>
   invocation_admitted sample_env (fst (snd restored_sample)) pr_context pr_request"
proof -
  from sample_restoration obtain s r1 trees where "restored_sample = (Inr s, r1, trees)"
    "completed_idempotency_keys (rt_state r1) = []" "invocation_admitted sample_env r1 pr_context pr_request"
    by (auto split: prod.splits sum.splits)
  then show ?thesis using invoked_sample(5) by (metis fst_conv snd_conv)
qed

end
