(* ===== verification/Edit_Safety.thy ===== *)
theory Edit_Safety
  imports Deferred_Edit "HOL-Library.Multiset"
begin

text \<open>
  Properties of deferred edits: the loop that applies the edits of a file from its end to its beginning computes the
  reference that looks at every line once, an edit that validates is applied, and nothing else is touched. At the end,
  examples where edits that validate interfere.
\<close>

section \<open>Edits at line positions\<close>

text \<open>
  The reference: every edit stands at a position of the original lines. The result has, for each position, the
  new lines of the edits there, followed by the original line unless an edit covers it.
\<close>

datatype line_edit = line_edit (le_pos: nat) (le_end: nat) (le_new: "string list")

definition covered :: "line_edit list \<Rightarrow> nat \<Rightarrow> bool" where
  "covered es i \<longleftrightarrow> (\<exists>e \<in> set es. le_pos e \<le> i \<and> i < le_end e)"

definition piece :: "line_edit list \<Rightarrow> string list \<Rightarrow> nat \<Rightarrow> string list" where
  "piece es lines i = concat (map le_new (filter (\<lambda>e. le_pos e = i) es)) @ (if covered es i \<or> length lines \<le> i then [] else [lines ! i])"

definition edited :: "line_edit list \<Rightarrow> string list \<Rightarrow> string list" where
  "edited es lines = concat (map (piece es lines) [0..<Suc (length lines)])"

definition separate :: "line_edit list \<Rightarrow> bool" where
  "separate es \<longleftrightarrow> distinct (map le_pos es) \<and> (\<forall>x \<in> set es. \<forall>y \<in> set es. le_pos x < le_pos y \<longrightarrow> le_end x \<le> le_pos y)"

definition apply_line_edit :: "line_edit \<Rightarrow> string list \<Rightarrow> string list" where
  "apply_line_edit e = set_slice (le_pos e) (le_end e) (le_new e)"

definition fits :: "nat \<Rightarrow> line_edit \<Rightarrow> bool" where
  "fits n e \<longleftrightarrow> le_pos e \<le> le_end e \<and> le_end e \<le> n"

lemma slice_from: "b \<le> s \<Longrightarrow> s \<le> length xs \<Longrightarrow> take b xs @ map ((!) xs) [b..<s] = take s xs"
  by (induction s) (auto simp: le_Suc_eq take_Suc_conv_app_nth)

lemma upt_split: "i \<le> j \<Longrightarrow> j \<le> k \<Longrightarrow> [i..<k] = [i..<j] @ [j..<k]"
  using upt_add_eq_append [of i j "k - j"] by simp

lemma concat_single: "(\<And>i. i \<in> set is \<Longrightarrow> g i = [h i]) \<Longrightarrow> concat (map g is) = map h is"
  by (induction "is") auto

lemma concat_empty: "(\<And>i. i \<in> set is \<Longrightarrow> g i = []) \<Longrightarrow> concat (map g is) = []"
  by (induction "is") auto

lemma piece_untouched:
  "(\<And>e. e \<in> set es \<Longrightarrow> i < le_pos e) \<Longrightarrow> i < length lines \<Longrightarrow> piece es lines i = [lines ! i]"
  by (auto simp: piece_def covered_def filter_empty_conv split: if_splits dest: leD)

lemma piece_Cons_later:
  "le_pos x < i \<Longrightarrow> le_end x \<le> i \<Longrightarrow> piece (x # es) lines i = piece es lines i"
  by (simp add: piece_def covered_def)

lemma piece_inside:
  assumes "le_pos x < i" "i < le_end x" "\<And>e. e \<in> set es \<Longrightarrow> le_end x \<le> le_pos e"
  shows "piece (x # es) lines i = []"
  using assms by (fastforce simp: piece_def covered_def filter_empty_conv)

lemma piece_here:
  assumes "\<And>e. e \<in> set es \<Longrightarrow> le_pos x < le_pos e"
  shows "piece (x # es) lines (le_pos x) = le_new x @ (if le_pos x < le_end x \<or> length lines \<le> le_pos x then [] else [lines ! le_pos x])"
  using assms by (fastforce simp: piece_def covered_def filter_empty_conv)


lemma foldr_edited:
  assumes "sorted_wrt (\<lambda>x y. le_pos x < le_pos y \<and> le_end x \<le> le_pos y) es" "list_all (fits (length lines)) es"
    and "\<And>e. e \<in> set es \<Longrightarrow> b \<le> le_pos e" "b \<le> Suc (length lines)"
  shows "foldr apply_line_edit es lines = take b lines @ concat (map (piece es lines) [b..<Suc (length lines)])"
  using assms
proof (induction es arbitrary: b)
  case Nil
  have "concat (map (piece [] lines) [b..<length lines]) = map ((!) lines) [b..<length lines]"
    by (rule concat_single) (simp add: piece_def covered_def)
  moreover have "piece [] lines (length lines) = []" by (simp add: piece_def)
  ultimately show ?case
    using Nil slice_from [of b "length lines" lines] by (cases "b = Suc (length lines)") auto
next
  case (Cons x es)
  let ?n = "length lines" and ?s = "le_pos x" and ?b = "max (Suc (le_pos x)) (le_end x)"
  have le: "b \<le> ?s" "?s \<le> ?n" "?s \<le> le_end x" "le_end x \<le> ?n" using Cons.prems by (auto simp: fits_def)
  have after: "\<And>e. e \<in> set es \<Longrightarrow> ?s < le_pos e" "\<And>e. e \<in> set es \<Longrightarrow> le_end x \<le> le_pos e" using Cons.prems(1) by auto
  define R where "R = concat (map (piece es lines) [?b..<Suc ?n])"
  have ih: "foldr apply_line_edit es lines = take ?b lines @ R"
    unfolding R_def using Cons.prems after le by (intro Cons.IH) (auto simp: Suc_le_eq)
  have split: "[b..<Suc ?n] = [b..<?s] @ ?s # [Suc ?s..<?b] @ [?b..<Suc ?n]"
    using le upt_split [of b ?s "Suc ?n"] upt_split [of "Suc ?s" ?b "Suc ?n"] upt_conv_Cons [of ?s "Suc ?n"]
    by (simp del: upt_Suc)
  have before: "concat (map (piece (x # es) lines) [b..<?s]) = map ((!) lines) [b..<?s]"
    using after le by (intro concat_single piece_untouched) (auto intro: less_trans)
  have inside: "concat (map (piece (x # es) lines) [Suc ?s..<?b]) = []"
    using after by (intro concat_empty piece_inside) auto
  have behind: "map (piece (x # es) lines) [?b..<Suc ?n] = map (piece es lines) [?b..<Suc ?n]"
    by (intro map_cong refl piece_Cons_later) auto
  have "take b lines @ concat (map (piece (x # es) lines) [b..<Suc ?n]) =
      take ?s lines @ piece (x # es) lines ?s @ R"
    unfolding split map_append list.map concat_append concat.simps before inside behind R_def [symmetric] append_assoc [symmetric]
      slice_from [OF le(1,2)] by simp
  moreover have "apply_line_edit x (take ?b lines @ R) = take ?s lines @ piece (x # es) lines ?s @ R"
    using le piece_here [of es x lines, OF after(1)]
    by (auto simp: apply_line_edit_def set_slice_def take_Suc_conv_app_nth max_def)
  ultimately show ?case by (simp add: ih)
qed


lemma at_most_one_filter:
  assumes "distinct (map f es)"
  shows "length (filter (\<lambda>e. f e = i) es) \<le> 1"
proof -
  have "filter (\<lambda>e. f e = i) es = []" if "i \<notin> f ` set es" for es using that by (auto simp: filter_empty_conv)
  with assms show ?thesis by (induction es) auto
qed

lemma piece_perm:
  assumes "mset es = mset es'" "distinct (map le_pos es)"
  shows "piece es lines i = piece es' lines i"
proof -
  let ?P = "\<lambda>e. le_pos e = i"
  have "mset (filter ?P es) = mset (filter ?P es')" using assms(1) by simp
  moreover have "length (filter ?P es) \<le> 1" by (rule at_most_one_filter [OF assms(2)])
  ultimately have "filter ?P es = filter ?P es'"
    by (cases "filter ?P es" rule: list.exhaust; cases "filter ?P es'" rule: list.exhaust) (auto simp: add_eq_conv_ex)
  moreover have "set es = set es'" using assms(1) by (rule mset_eq_setD)
  ultimately show ?thesis by (simp add: piece_def covered_def)
qed

section \<open>The loop over the edits\<close>

definition of_item :: "pydict \<Rightarrow> line_edit" where
  "of_item d =
     (let i = nat (edit_start d - 1); kind = get_item d ''kind'' in
      line_edit i (if kind = PStr ''add'' then i else nat (edit_end d))
        (if kind = PStr ''remove'' then [] else splitlines (the_str (get_item d ''text''))))"

lemma apply_edit_item_of: "apply_edit_item d lines = apply_line_edit (of_item d) lines"
  by (auto simp: apply_edit_item_def apply_line_edit_def of_item_def Let_def)

lemma apply_edit_items_exact:
  assumes "list_all (\<lambda>d. 1 \<le> edit_start d \<and> fits (length lines) (of_item d)) items" "separate (map of_item items)"
  shows "apply_edit_items items lines = edited (map of_item items) lines"
proof -
  let ?asc = "rev (sort_key (\<lambda>d. - edit_start d) items)"
  let ?es = "map of_item ?asc"
  have perm: "mset (map of_item items) = mset ?es" by simp
  have dist: "distinct (map le_pos ?es)"
    using assms(2) mset_eq_imp_distinct_iff [of "map le_pos ?es" "map le_pos (map of_item items)"] by (simp add: separate_def comp_def)
  have "sorted_wrt (\<lambda>d d'. edit_start d \<le> edit_start d') ?asc"
    using sorted_sort_key [of "\<lambda>d. - edit_start d" items] by (simp add: sorted_wrt_rev sorted_wrt_map)
  moreover have "le_pos (of_item d) = nat (edit_start d - 1)" for d by (simp add: of_item_def Let_def)
  ultimately have "sorted (map le_pos ?es)"
    by (auto simp: sorted_wrt_map intro: sorted_wrt_mono_rel [rotated])
  then have "sorted_wrt (<) (map le_pos ?es)"
    using dist unfolding strict_sorted_iff by blast
  then have "sorted_wrt (\<lambda>x y. le_pos x < le_pos y) ?es" by (simp only: sorted_wrt_map)
  then have "sorted_wrt (\<lambda>x y. le_pos x < le_pos y \<and> le_end x \<le> le_pos y) ?es"
    by (rule sorted_wrt_mono_rel [rotated]) (use assms(2) in \<open>auto simp: separate_def\<close>)
  then have "foldr apply_line_edit ?es lines = edited ?es lines"
    using foldr_edited [of ?es lines 0] assms(1) by (auto simp: edited_def list_all_iff)
  moreover have "edited ?es lines = edited (map of_item items) lines"
    using piece_perm [OF perm [symmetric] dist] unfolding edited_def by presburger
  moreover have "apply_edit_items items lines = foldr apply_line_edit ?es lines"
    by (simp add: apply_edit_items_def apply_edit_item_of [abs_def] foldr_conv_fold rev_map fold_map comp_def)
  ultimately show ?thesis by simp
qed

section \<open>Files\<close>

definition target :: "pydict \<Rightarrow> string list" where
  "target g = path_parts (the_str (get_item g ''file_path''))"

definition group_edits :: "pydict \<Rightarrow> line_edit list" where
  "group_edits g = map of_item (item_dicts (get_item g ''edits''))"

definition group_ready :: "workspace \<Rightarrow> pydict \<Rightarrow> bool" where
  "group_ready ws g \<longleftrightarrow> resolve_edit_path ws (get_item g ''file_path'') = Inr (target g) \<and>
     (\<exists>b. map_of ws (target g) = Some (Regular b) \<and>
        list_all (\<lambda>d. 1 \<le> edit_start d \<and> fits (length (splitlines b)) (of_item d)) (item_dicts (get_item g ''edits'')))"

definition edited_text :: "workspace \<Rightarrow> pydict \<Rightarrow> string" where
  "edited_text ws g = (case map_of ws (target g) of
     Some (Regular b) \<Rightarrow> joined_lines (edited (group_edits g) (splitlines b)) | _ \<Rightarrow> [])"

lemma nonempty_list_Inr: "nonempty_list e v = Inr xs \<longleftrightarrow> v = PList xs \<and> xs \<noteq> []"
  by (cases "(e, v)" rule: nonempty_list.cases) auto

lemma resolve_target: "resolve_edit_path ws (get_item g ''file_path'') = Inr p \<Longrightarrow> p = target g"
  by (auto simp: resolve_edit_path_def target_def Let_def split: if_splits)

lemma validated_item:
  assumes "validate_edit_item path n (PDict d) = Inr u"
  shows "1 \<le> edit_start d \<and> fits n (of_item d)"
proof -
  obtain a b where a: "int_value (get_item d ''start_line'') = Some a" "1 \<le> a"
    and b: "int_value (get_default d ''end_line'' (get_item d ''start_line'')) = Some b" "a \<le> b"
    and add: "get_item d ''kind'' = PStr ''add'' \<Longrightarrow> a \<le> int n + 1"
    and other: "get_item d ''kind'' \<noteq> PStr ''add'' \<Longrightarrow> b \<le> int n"
    using assms by (auto simp: validate_edit_item_def Let_def guard_r_Inr split: option.splits if_splits)
  then show ?thesis
    by (auto simp: edit_start_def edit_end_def of_item_def fits_def Let_def)
qed

lemma mapM_validated: "mapM_r (validate_edit_item path n) xs = Inr us \<Longrightarrow> x \<in> set xs \<Longrightarrow>
    \<exists>d. x = PDict d \<and> 1 \<le> edit_start d \<and> fits n (of_item d)"
proof (induction xs arbitrary: us)
  case (Cons y ys)
  then obtain u us' where u: "validate_edit_item path n y = Inr u" "mapM_r (validate_edit_item path n) ys = Inr us'" by auto
  then obtain d where "y = PDict d" by (cases y) (auto simp: validate_edit_item_def)
  with u Cons validated_item show ?case by auto
qed simp

lemma validated_group:
  assumes "validate_edit_group root rfault ws g = Inr t"
  shows "group_ready ws g"
proof -
  obtain p edits b us where p: "resolve_edit_path ws (get_item g ''file_path'') = Inr p" "is_regular ws p"
    and e: "get_item g ''edits'' = PList edits" and b: "read_text rfault ws p = Inr b"
    and v: "mapM_r (validate_edit_item (path_text root p) (length (splitlines b))) edits = Inr us"
    using assms by (auto simp: validate_edit_group_def Let_def guard_r_Inr nonempty_list_Inr)
  moreover have "map_of ws p = Some (Regular b)"
    using b by (auto simp: read_text_def split: option.splits entry.splits)
  ultimately show ?thesis
    using resolve_target [OF p(1)] mapM_validated [OF v] by (fastforce simp: group_ready_def list_all_iff)
qed

lemma resolve_same_links:
  "(\<And>q. is_link (map_of w q) = is_link (map_of ws q)) \<Longrightarrow> resolve_edit_path w raw = resolve_edit_path ws raw"
  by (simp add: resolve_edit_path_def Let_def)

lemma apply_group_ready:
  assumes "group_ready ws g" "separate (group_edits g)"
  shows "\<exists>w. apply_edit_group (\<lambda>_. None) (\<lambda>_. None) g ws = (Inr (), w) \<and>
    map_of w = (map_of ws)(target g \<mapsto> Regular (edited_text ws g))"
proof -
  obtain b where r: "resolve_edit_path ws (get_item g ''file_path'') = Inr (target g)" and b: "map_of ws (target g) = Some (Regular b)"
    and fit: "list_all (\<lambda>d. 1 \<le> edit_start d \<and> fits (length (splitlines b)) (of_item d)) (item_dicts (get_item g ''edits''))"
    using assms(1) by (auto simp: group_ready_def)
  have "edited_text ws g = joined_lines (apply_edit_items (item_dicts (get_item g ''edits'')) (splitlines b))"
    using apply_edit_items_exact [OF fit] assms(2) by (simp add: edited_text_def b group_edits_def)
  then show ?thesis
    by (simp add: apply_edit_group_def r read_text_def b write_text_def write_file_def update_conv')
qed

lemma apply_groups_ready:
  assumes "list_all (group_ready ws) gs" "list_all (\<lambda>g. separate (group_edits g)) gs" "distinct (map target gs)"
  shows "\<exists>w. apply_edit_groups (\<lambda>_. None) (\<lambda>_. None) gs ws = (Inr (), w) \<and>
    (\<forall>g \<in> set gs. map_of w (target g) = Some (Regular (edited_text ws g))) \<and>
    (\<forall>p. p \<notin> target ` set gs \<longrightarrow> map_of w p = map_of ws p)"
  using assms
proof (induction gs arbitrary: ws)
  case (Cons g gs)
  obtain w1 where w1: "apply_edit_group (\<lambda>_. None) (\<lambda>_. None) g ws = (Inr (), w1)"
    "map_of w1 = (map_of ws)(target g \<mapsto> Regular (edited_text ws g))"
    using apply_group_ready [of ws g] Cons.prems by auto
  have reg: "\<exists>b. map_of ws (target g) = Some (Regular b)" using Cons.prems(1) by (auto simp: group_ready_def)
  have links: "is_link (map_of w1 q) = is_link (map_of ws q)" for q using reg w1(2) by auto
  have other: "target g' \<noteq> target g" if "g' \<in> set gs" for g'
    using that Cons.prems(3) by (metis distinct.simps(2) image_eqI list.simps(9) list.set_map)
  then have ready: "list_all (group_ready w1) gs"
    using Cons.prems(1) w1(2) by (auto simp: list_all_iff group_ready_def resolve_same_links [OF links])
  have same: "edited_text w1 g' = edited_text ws g'" if "g' \<in> set gs" for g'
    using other [OF that] w1(2) by (simp add: edited_text_def)
  obtain w where "apply_edit_groups (\<lambda>_. None) (\<lambda>_. None) gs w1 = (Inr (), w)"
    "\<forall>g \<in> set gs. map_of w (target g) = Some (Regular (edited_text w1 g))" "\<forall>p. p \<notin> target ` set gs \<longrightarrow> map_of w p = map_of w1 p"
    using Cons.IH [OF ready] Cons.prems(2,3) by auto
  moreover have "target g \<notin> target ` set gs" using Cons.prems(3) by simp
  ultimately show ?case using w1 same other by auto
qed simp

section \<open>What the tools do\<close>

definition validation_passed :: "pyval list \<Rightarrow> pydict" where
  "validation_passed targets =
     [(''tool'', PStr ''validate_edit''), (''returncode'', PInt 0), (''valid'', PBool True), (''targets'', PList targets)]"

lemma validation_passed_iff:
  "execute_validate_edit_tool root rfault ws parameters = Inr (validation_passed targets) \<longleftrightarrow>
     validate_deferred root rfault ws (get_item parameters ''edit'') = Inr targets"
  by (auto simp: execute_validate_edit_tool_def validation_passed_def VALIDATE_EDIT_TOOL_def Let_def split: sum.splits exc.splits)

lemma validated_groups:
  assumes "validate_deferred root rfault ws edit = Inr targets" "edit \<noteq> PNone"
  shows "\<exists>gs. edit_groups (the_dict edit) = Inr gs \<and> list_all (group_ready ws) gs"
proof -
  have "list_all (group_ready ws) gs" if "mapM_r (validate_edit_group root rfault ws) gs = Inr ts" for gs ts
    using that by (induction gs arbitrary: ts) (auto dest: validated_group)
  with assms show ?thesis by (auto simp: validate_deferred_def split: if_splits)
qed


lemma write_text_map:
  assumes "write_text wfault p b ws = (res, w)" "map_of ws p = Some (Regular c)"
  shows "map_of w = map_of ws \<or> (\<exists>b'. map_of w = (map_of ws)(p \<mapsto> Regular b'))"
  using assms by (auto simp: write_text_def write_file_def update_conv' split: option.splits prod.splits)

lemma apply_group_map:
  assumes "apply_edit_group rfault wfault g ws = (res, w)"
  shows "map_of w = map_of ws \<or> (\<exists>b b'. map_of ws (target g) = Some (Regular b) \<and> map_of w = (map_of ws)(target g \<mapsto> Regular b'))"
proof (cases "bind_r (resolve_edit_path ws (get_item g ''file_path'')) (\<lambda>p. bind_r (read_text rfault ws p) (\<lambda>b. Inr (p, b)))")
  case (Inl e)
  with assms show ?thesis by (simp add: apply_edit_group_def)
next
  case (Inr pb)
  then obtain p b where pb: "pb = (p, b)" and r: "resolve_edit_path ws (get_item g ''file_path'') = Inr p" and t: "read_text rfault ws p = Inr b"
    by auto
  have "map_of ws p = Some (Regular b)" using t by (auto simp: read_text_def split: option.splits entry.splits)
  with write_text_map [of wfault p] assms Inr pb resolve_target [OF r] show ?thesis by (auto simp: apply_edit_group_def)
qed

lemma apply_groups_map:
  assumes "apply_edit_groups rfault wfault gs ws = (res, w)" "map_of w p \<noteq> map_of ws p"
  shows "p \<in> target ` set gs \<and> (\<exists>b b'. map_of ws p = Some (Regular b) \<and> map_of w p = Some (Regular b'))"
  using assms
proof (induction gs arbitrary: ws)
  case (Cons g gs)
  obtain r1 w1 where g: "apply_edit_group rfault wfault g ws = (r1, w1)" by fastforce
  note step = apply_group_map [OF g]
  show ?case
  proof (cases r1)
    case (Inl e)
    with g Cons.prems step show ?thesis by (auto split: if_splits)
  next
    case (Inr u)
    then have rest: "apply_edit_groups rfault wfault gs w1 = (res, w)" using g Cons.prems by simp
    show ?thesis
    proof (cases "map_of w p = map_of w1 p")
      case True
      with step Cons.prems show ?thesis by (auto split: if_splits)
    next
      case False
      with Cons.IH [OF rest] step show ?thesis by (auto split: if_splits)
    qed
  qed
qed simp

lemma edit_confined:
  assumes "execute_apply_edit_tool root rfault wfault parameters ws = (res, w)" "map_of w p \<noteq> map_of ws p"
  shows "\<exists>targets gs g. execute_validate_edit_tool root rfault ws parameters = Inr (validation_passed targets) \<and>
    edit_groups (the_dict (get_item parameters ''edit'')) = Inr gs \<and> g \<in> set gs \<and> p = target g \<and> ''..'' \<notin> set p \<and>
    \<not> startswith (the_str (get_item g ''file_path'')) ''/'' \<and> list_all (\<lambda>q. \<not> is_link (map_of ws q)) (ancestors p) \<and>
    (\<exists>b b'. map_of ws p = Some (Regular b) \<and> map_of w p = Some (Regular b'))"
proof -
  let ?edit = "get_item parameters ''edit''"
  obtain targets gs where v: "validate_deferred root rfault ws ?edit = Inr targets" "?edit \<noteq> PNone" and gs: "edit_groups (the_dict ?edit) = Inr gs"
    and run: "\<exists>r1. apply_edit_groups rfault wfault gs ws = (r1, w)"
    using assms by (auto simp: execute_apply_edit_tool_def Let_def split: if_splits sum.splits prod.splits)
  then obtain g where g: "g \<in> set gs" "p = target g" and reg: "\<exists>b b'. map_of ws p = Some (Regular b) \<and> map_of w p = Some (Regular b')"
    using apply_groups_map [OF _ assms(2)] by blast
  have "group_ready ws g" using validated_groups [OF v] gs g by (auto simp: list_all_iff)
  then have "resolve_edit_path ws (get_item g ''file_path'') = Inr p" using g by (simp add: group_ready_def)
  then have "''..'' \<notin> set p \<and> \<not> startswith (the_str (get_item g ''file_path'')) ''/'' \<and> list_all (\<lambda>q. \<not> is_link (map_of ws q)) (ancestors p)"
    by (auto simp: resolve_edit_path_def Let_def list_ex_iff list_all_iff split: if_splits)
  with v gs g reg show ?thesis unfolding validation_passed_iff by blast
qed

text \<open>
  Whatever reads and writes fail, applying a deferred edit changes nothing but regular files that the edit names by a
  relative path without parent components or symbolic links, and only if the edit validates.
\<close>

theorem apply_edit_confined:
  assumes "execute_apply_edit_tool root rfault wfault parameters ws = (res, w)" "map_of w p \<noteq> map_of ws p"
  shows "\<exists>targets gs g. execute_validate_edit_tool root rfault ws parameters = Inr (validation_passed targets) \<and>
    edit_groups (the_dict (get_item parameters ''edit'')) = Inr gs \<and> g \<in> set gs \<and> p = target g \<and> ''..'' \<notin> set p \<and>
    \<not> startswith (the_str (get_item g ''file_path'')) ''/'' \<and> list_all (\<lambda>q. \<not> is_link (map_of ws q)) (ancestors p) \<and>
    (\<exists>b b'. map_of ws p = Some (Regular b) \<and> map_of w p = Some (Regular b'))"
  using assms by (rule edit_confined)

section \<open>Examples\<close>

definition three_lines :: workspace where
  "three_lines = [([''a.txt''], Regular (joined_lines [''one'', ''two'', ''three''])), ([''b.txt''], Regular ''other'')]"

definition edit_entry :: "string \<Rightarrow> int \<Rightarrow> string option \<Rightarrow> pyval" where
  "edit_entry kind n text = PDict ([(''kind'', PStr kind), (''start_line'', PInt n)] @ entry_if ''text'' text)"

definition edit_parameters :: "pyval list \<Rightarrow> pydict" where
  "edit_parameters edits = [(''edit'', PDict [(''action'', PStr ''edit''), (''file_path'', PStr ''a.txt''), (''edits'', PList edits)])]"

definition plain_edits :: "pyval list" where
  "plain_edits = [edit_entry ''add'' 2 (Some ''new''), edit_entry ''replace'' 1 (Some ''first''), edit_entry ''remove'' 3 None]"

definition plain_group :: pydict where
  "plain_group = [(''file_path'', PStr ''a.txt''), (''edits'', PList plain_edits)]"

lemma plain_edits_valid:
  "execute_validate_edit_tool ''/w'' (\<lambda>_. None) three_lines (edit_parameters plain_edits) =
     Inr (validation_passed [PDict [(''file_path'', PStr ''a.txt''), (''line_count'', PInt 3)]])"
  by code_simp

lemma plain_edits_separate: "list_all (separate \<circ> group_edits) [plain_group]"
  by code_simp


lemma plain_edits_change:
  "map_of (snd (execute_apply_edit_tool ''/w'' (\<lambda>_. None) (\<lambda>_. None) (edit_parameters plain_edits) three_lines)) [''a.txt''] \<noteq>
     map_of three_lines [''a.txt'']"
  by code_simp

theorem apply_edit_confined_witness:
  "\<exists>b. map_of (snd (execute_apply_edit_tool ''/w'' (\<lambda>_. None) (\<lambda>_. None) (edit_parameters plain_edits) three_lines)) [''a.txt''] = Some (Regular b)"
  using apply_edit_confined [OF surjective_pairing plain_edits_change] by blast

text \<open>
  Edits at the same line validate but interfere: a line added before a replaced line is what gets replaced, two additions at
  one line come out in reverse order, and a removed file body leaves an empty line.
\<close>

definition after_edits :: "pyval list \<Rightarrow> string list" where
  "after_edits edits =
     (case map_of (snd (execute_apply_edit_tool ''/w'' (\<lambda>_. None) (\<lambda>_. None) (edit_parameters edits) three_lines)) [''a.txt''] of
        Some (Regular b) \<Rightarrow> splitlines b | _ \<Rightarrow> [])"

theorem added_line_is_replaced:
  "after_edits [edit_entry ''add'' 1 (Some ''new''), edit_entry ''replace'' 1 (Some ''first'')] = [''first'', ''one'', ''two'', ''three'']"
  by code_simp

theorem additions_reversed:
  "after_edits [edit_entry ''add'' 1 (Some ''x''), edit_entry ''add'' 1 (Some ''y'')] = [''y'', ''x'', ''one'', ''two'', ''three'']"
  by code_simp

theorem removed_body_leaves_line:
  "after_edits (map (\<lambda>n. edit_entry ''remove'' n None) [1, 2, 3]) = [[]]"
  by code_simp

text \<open>An edit whose kind is a list is not reported as invalid: the tool raises.\<close>

theorem unhashable_kind_raises:
  "execute_validate_edit_tool ''/w'' (\<lambda>_. None) three_lines
     (edit_parameters [PDict [(''kind'', PList []), (''start_line'', PInt 1)]]) = Inl (TypeError (''unhashable type: '' @ py_repr ''list''))"
  by code_simp

end
