(* ===== verification/Tool_Safety.thy ===== *)
theory Tool_Safety
  imports Builtin_Tools Runtime_Safety Edit_Safety
begin

text \<open>
  Properties of the built-in tools: edits reach the worktree only through the gates of the runtime, the registry lists the
  manifests of the bound adapters, and the reported effects are the declared ones.
\<close>

section \<open>Edits through the runtime\<close>

lemma admitted_broker [simp]: "invocation_admitted env (r\<lparr>rt_broker := br\<rparr>) ctx rq = invocation_admitted env r ctx rq"
  by (simp add: invocation_admitted_def validate_capability_action_def effective_action_contract_def installed_scopes_def
      pending_required_actions_def all_obligations_def publish_readiness_def invocation_action_def)

lemma registered_adapter:
  assumes "register_adapter env a r = (Inr u, r')"
  shows "\<exists>reg. r' = r\<lparr>rt_broker := (rt_broker r)\<lparr>cb_registry := reg\<rparr>\<rparr> \<and> get_adapter reg (tool_name (manifest a)) = Some a"
  using assms by (auto simp: register_adapter_def replace_adapter_def install_adapter_def get_adapter_def update_conv' split: sum.splits)

lemma register_fails: "register_adapter env a r = (Inl e, r') \<Longrightarrow> r' = r"
  by (auto simp: register_adapter_def split: sum.splits)

text \<open>The context in which the runtime runs an adapter on a worktree.\<close>

definition runtime_worktree_context :: "runtime \<Rightarrow> string \<Rightarrow> string set \<Rightarrow> tool_effect set \<Rightarrow> tool_context" where
  "runtime_worktree_context r root acts effs =
     (worktree_context root acts effs)\<lparr>ctx_execution_id := Some (rt_execution_id r), ctx_active_persona_id := current_persona_id (rt_state r)\<rparr>"

lemma invoke_adapter_gated:
  assumes "invoke_adapter env a (worktree_context root acts effs) rq r = (x, r1)" "rt_effects r1 \<noteq> rt_effects r"
    and "tool_name (manifest a) = rq_tool_name rq" "rq_tool_name rq \<noteq> ''repository''"
  shows "\<exists>cid snap. invocation_admitted env r (runtime_worktree_context r root acts effs) rq \<and>
    rt_effects r1 = rt_effects r @
      (if mutating (adapter_effects a (runtime_worktree_context r root acts effs) (rq_arguments rq)) then [CreateCheckpoint cid snap] else [])
      @ [ExecuteTool (rq_tool_name rq) (rq_arguments rq)]"
proof -
  obtain y r2 where reg: "register_adapter env a r = (y, r2)" by fastforce
  with assms(1,2) obtain u where y: "y = Inr u"
    by (cases y) (auto simp: invoke_adapter_def bind_rt_def dest: register_fails)
  from registered_adapter [OF reg [unfolded y]] obtain g where r2: "r2 = r\<lparr>rt_broker := (rt_broker r)\<lparr>cb_registry := g\<rparr>\<rparr>"
    and g: "get_adapter g (tool_name (manifest a)) = Some a" by blast
  have run: "runtime_invoke env (runtime_worktree_context r root acts effs) rq r2 = (x, r1)"
    using assms(1) reg y
    by (auto simp: invoke_adapter_def bind_rt_def runtime_worktree_context_def worktree_context_def r2 split: option.splits)
  have key: "with_idempotency_key (env_crypto env) rq = Inr rq" using assms(4) by (simp add: with_idempotency_key_def)
  from invocation_gated [OF run] assms(2) r2 key have "invocation_admitted env r (runtime_worktree_context r root acts effs) rq"
    "\<exists>out. tool_run (rt_broker r2) (runtime_worktree_context r root acts effs) rq out \<and> rt_effects r1 = rt_effects r @ out" by auto
  with g r2 assms(3) show ?thesis by (auto simp: tool_run_def)
qed


section \<open>The registry\<close>

text \<open>The adapters that the capabilities bind to their executors.\<close>

definition bound_adapters ::
    "tool_programs \<Rightarrow> (pydict \<Rightarrow> pyval result) \<Rightarrow> pyval result \<Rightarrow> read_fault \<Rightarrow> copy_fault \<Rightarrow> workspace \<Rightarrow> string \<Rightarrow> tool_adapter list" where
  "bound_adapters tp executor outcome rfault wfault ws root =
     [repository_adapter tp, enrichment_adapter tp, shell_adapter executor, file_mutation_adapter tp outcome,
      deferred_edit_adapter rfault wfault ws ''validate-edit'' root, deferred_edit_adapter rfault wfault ws ''apply-edit'' root,
      fuzzy_match_adapter tp, basedpyright_adapter tp ''basedpyright-symbol'', basedpyright_adapter tp ''basedpyright-structure'',
      repository_read_adapter tp ''gather_context'' executor, repository_read_adapter tp ''read_document'' executor,
      repository_read_adapter tp ''list_files'' executor]"

lemma update_new_key: "k \<notin> fst ` set xs \<Longrightarrow> AList.update k v xs = xs @ [(k, v)]"
  by (induction xs) auto

lemma registers_all:
  assumes "list_all (manifest_ok \<circ> manifest) xs" "distinct (map fst (adapters reg) @ map (tool_name \<circ> manifest) xs)"
  shows "\<exists>reg'. foldM_r (register digest) reg xs = Inr reg' \<and> adapters reg' = adapters reg @ map (\<lambda>a. (tool_name (manifest a), a)) xs"
  using assms
proof (induction xs arbitrary: reg)
  case (Cons x xs)
  let ?reg = "install_adapter digest reg x"
  have fresh: "map_of (adapters reg) (tool_name (manifest x)) = None"
    using Cons.prems(2) by (auto simp: map_of_eq_None_iff)
  then have "adapters ?reg = adapters reg @ [(tool_name (manifest x), x)]"
    by (simp add: install_adapter_def map_of_eq_None_iff update_new_key)
  moreover have "register digest reg x = Inr ?reg"
    using Cons.prems(1) fresh validate_manifest_Inr [of "manifest x" "()"] by (simp add: register_def guard_r_def del: validate_manifest_Inr)
  ultimately show ?case using Cons.IH [of ?reg] Cons.prems by auto
qed simp

lemma builtin_manifests_ok: "list_all (manifest_ok \<circ> manifest) (builtin_adapters tp)"
  by (simp add: builtin_adapters_def repository_adapter_def enrichment_adapter_def manifest_only_adapter_def) code_simp

lemma builtin_names: "map (tool_name \<circ> manifest) (builtin_adapters tp) =
    [''repository'', ''enrich'', ''process'', ''file-mutation'', ''validate-edit'', ''apply-edit'', ''fuzzy-match'', ''basedpyright-symbol'',
     ''basedpyright-structure'', ''repository-gather_context'', ''repository-read_document'', ''repository-list_files'']"
  by (simp add: builtin_adapters_def repository_adapter_def repository_manifest_def enrichment_adapter_def manifest_only_adapter_def
      process_manifest_def file_mutation_manifest_def deferred_edit_manifest_def fuzzy_match_manifest_def workspace_manifest_def)

lemma bound_manifests: "map manifest (bound_adapters tp executor result rfault wfault ws root) = map manifest (builtin_adapters tp)"
  by (simp add: bound_adapters_def builtin_adapters_def shell_adapter_def file_mutation_adapter_def deferred_edit_adapter_def
      fuzzy_match_adapter_def basedpyright_adapter_def repository_read_adapter_def manifest_only_adapter_def basedpyright_manifest_def
      repository_read_manifest_def)

lemma builtin_placeholders:
  "list_all (\<lambda>(name, a). name \<in> {''repository'', ''enrich''} \<or>
     (\<forall>ctx args. \<exists>msg. adapter_execute a ctx args = Inl (PowdrrExecutionError ''capability_not_bound'' msg)))
     (map (\<lambda>a. (tool_name (manifest a), a)) (builtin_adapters tp))"
  by (simp add: builtin_adapters_def repository_adapter_def repository_manifest_def enrichment_adapter_def manifest_only_adapter_def)

text \<open>
  The built-in registry can always be built. It lists, in their order, exactly the manifests under which the
  capabilities later bind their executors, and until then every tool but the repository and the enrichment refuses to run.
\<close>

theorem builtin_registry_complete:
  "\<exists>reg. builtin_tool_registry digest tp = Inr reg \<and>
     manifests reg = map manifest (bound_adapters tp executor result rfault wfault ws root) \<and>
     list_all (\<lambda>(name, a). name \<in> {''repository'', ''enrich''} \<or>
       (\<forall>ctx args. \<exists>msg. adapter_execute a ctx args = Inl (PowdrrExecutionError ''capability_not_bound'' msg))) (adapters reg)"
proof -
  have "distinct (map (tool_name \<circ> manifest) (builtin_adapters tp))" unfolding builtin_names by simp
  with registers_all [OF builtin_manifests_ok, of empty_registry tp digest] obtain reg where
    "builtin_tool_registry digest tp = Inr reg" "adapters reg = map (\<lambda>a. (tool_name (manifest a), a)) (builtin_adapters tp)"
    by (auto simp: builtin_tool_registry_def new_registry_def empty_registry_def)
  with builtin_placeholders [of tp] show ?thesis unfolding bound_manifests by (simp add: manifests_def comp_def)
qed

section \<open>Effects\<close>

lemma repository_observed_declared:
  "repository_observed opn \<in> {WORKSPACE_READ, GIT_MUTATION, GITHUB_MUTATION}"
  by (simp add: repository_observed_def)

lemma repository_observed_exact:
  "[repository_observed (operation_text args)] = repository_effects args \<longleftrightarrow>
     operation_text args \<notin> {''switch'', ''switch_create'', ''commit'', ''push''}"
  by (auto simp: repository_observed_def repository_effects_def git_writes_def Let_def)

text \<open>
  What a built-in tool reports after running is among the effects its manifest declares, and is exactly what the broker
  checked before, except for the repository operations \<^verbatim>\<open>switch\<close>, \<^verbatim>\<open>switch_create\<close>, \<^verbatim>\<open>commit\<close> and \<^verbatim>\<open>push\<close>, which are
  checked as mutations and reported as reads.
\<close>

theorem builtin_effects_declared:
  assumes "a \<in> set (bound_adapters tp executor result rfault wfault ws root)" "adapter_execute a ctx args = Inr tr"
  shows "observed_effects tr \<subseteq> set (effects (manifest a)) \<and>
    (observed_effects tr = set (adapter_effects a ctx args) \<longleftrightarrow>
       \<not> (tool_name (manifest a) = ''repository'' \<and> operation_text args \<in> {''switch'', ''switch_create'', ''commit'', ''push''}))"
proof -
  have repo: "?thesis" if "a = repository_adapter tp"
  proof -
    have "observed_effects tr = {repository_observed (operation_text args)}"
      using assms(2) that by (auto simp: repository_adapter_def repository_execute_def Let_def plain_result_def)
    moreover have "({repository_observed opn} = set (repository_effects args)) = ([repository_observed opn] = repository_effects args)" for opn
      by (auto simp: repository_effects_def Let_def)
    ultimately show ?thesis
      using that repository_observed_declared [of "operation_text args"] repository_observed_exact [of args]
      by (simp add: repository_adapter_def repository_manifest_def adapter_effects_def)
  qed
  have other: "tool_name (manifest a) \<noteq> ''repository'' \<and> observed_effects tr = set (adapter_effects a ctx args) \<and>
      observed_effects tr \<subseteq> set (effects (manifest a))" if "a \<noteq> repository_adapter tp"
    using assms that unfolding bound_adapters_def
    by (auto simp: enrichment_adapter_def shell_adapter_def file_mutation_adapter_def deferred_edit_adapter_def fuzzy_match_adapter_def
        basedpyright_adapter_def repository_read_adapter_def process_manifest_def file_mutation_manifest_def deferred_edit_manifest_def
        fuzzy_match_manifest_def basedpyright_manifest_def repository_read_manifest_def workspace_manifest_def plain_result_def
        adapter_effects_def)
  show ?thesis using repo other by blast
qed

section \<open>Examples\<close>

definition sample_programs :: tool_programs where
  "sample_programs =
     \<lparr>tp_git_gh = \<lambda>tool args root. Inr [], tp_enrich = \<lambda>args. Inr PNone, tp_basedpyright = \<lambda>tool args root. Inr PNone,
      tp_fuzzy_match = \<lambda>command root. Inr PNone, tp_resolve = path_parts, tp_is_file = \<lambda>p. True, tp_is_dir = \<lambda>p. False\<rparr>"

theorem builtin_effects_declared_witness:
  "case adapter_execute (repository_adapter sample_programs) pr_context [(''operation'', PStr ''commit'')] of
     Inr tr \<Rightarrow> observed_effects tr \<noteq> set (adapter_effects (repository_adapter sample_programs) pr_context [(''operation'', PStr ''commit'')])
   | Inl e \<Rightarrow> False"
proof -
  let ?args = "[(''operation'', PStr ''commit'')]"
  obtain tr where tr: "adapter_execute (repository_adapter sample_programs) pr_context ?args = Inr tr"
    by (simp add: repository_adapter_def repository_execute_def sample_programs_def Let_def)
  have "operation_text ?args = ''commit''" by (simp add: operation_text_def get_default_def)
  moreover have "tool_name (manifest (repository_adapter sample_programs)) = ''repository''"
    by (simp add: repository_adapter_def repository_manifest_def)
  moreover have "repository_adapter sample_programs \<in>
      set (bound_adapters sample_programs (\<lambda>args. Inr PNone) (Inr PNone) (\<lambda>_. None) (\<lambda>_. None) [] ''/w'')"
    by (simp add: bound_adapters_def)
  ultimately show ?thesis using builtin_effects_declared [OF _ tr] tr by auto
qed

definition one_edit :: pydict where
  "one_edit = edit_parameters [edit_entry ''remove'' 1 None]"

definition applied_edit :: "pyval result \<times> runtime option \<times> workspace" where
  "applied_edit = invoke_deferred_edit_capability sample_env (\<lambda>_. None) (\<lambda>_. None) ''apply-edit'' one_edit ''/repo'' (Some sample_runtime) three_lines"

lemma applied_edit_result: "fst (snd applied_edit) = Some (the (fst (snd applied_edit)))"
proof -
  have "fst (snd applied_edit) \<noteq> None" by code_simp
  then show ?thesis by simp
qed

lemma applied_edit_changes: "map_of (snd (snd applied_edit)) [''a.txt''] \<noteq> map_of three_lines [''a.txt'']"
  by code_simp


end
