(* ===== verification/Checkpoint_Safety.thy ===== *)
theory Checkpoint_Safety
  imports Checkpoint_Store
begin

text \<open>
  Properties of the checkpoint store, stated over the contents of the files outside \<^verbatim>\<open>.git\<close> (\<open>content\<close>): a restore
  brings back what the checkpoint captured, a failed restore is rolled back, the changed paths are exact, and
  garbage collection keeps what referenced checkpoints need. The examples at the end show a rollback that loses a
  file, a checkpoint that cannot be restored, and the first path that git reports losing a letter.
\<close>

section \<open>Trees and their contents\<close>

definition plain_name :: "string \<Rightarrow> bool" where
  "plain_name c \<longleftrightarrow> c \<notin> {'''', ''.'', ''..''} \<and> CHR ''/'' \<notin> set c"

definition tree_ok :: "workspace \<Rightarrow> bool" where
  "tree_ok ws \<longleftrightarrow> distinct (map fst ws) \<and>
     list_all (\<lambda>(p, e). p \<noteq> [] \<and> list_all plain_name p \<and> list_all (\<lambda>q. map_of ws q = Some Dir) (ancestors p)) ws"

definition content :: "workspace \<Rightarrow> string list \<Rightarrow> string option" where
  "content ws p = (if ''.git'' \<in> set p then None else Option.bind (map_of ws p) file_bytes)"

lemma split_plain: "CHR ''/'' \<notin> set c \<Longrightarrow> split_on (CHR ''/'') c = [c]"
  by (induction c) auto

lemma path_parts_name: "list_all plain_name p \<Longrightarrow> path_parts (relative_name p) = p"
proof (induction p)
  case Nil
  then show ?case by (simp add: relative_name_def path_parts_def)
next
  case (Cons c p)
  then have c: "path_parts c = [c]" by (simp add: path_parts_def plain_name_def split_plain)
  show ?case
  proof (cases p)
    case (Cons d q)
    with Cons.IH Cons.prems c show ?thesis
      using path_parts_join [of c "relative_name p"] by (simp add: relative_name_def)
  qed (use c in \<open>simp add: relative_name_def\<close>)
qed

lemma relative_name_inj: "list_all plain_name p \<Longrightarrow> list_all plain_name q \<Longrightarrow> relative_name p = relative_name q \<longleftrightarrow> p = q"
  by (metis path_parts_name)

lemma relative_name_safe: "p \<noteq> [] \<Longrightarrow> list_all plain_name p \<Longrightarrow> \<not> startswith (relative_name p) ''/'' \<and> ''..'' \<notin> set p"
  by (cases p rule: list.exhaust; cases "tl p"; cases "hd p") (auto simp: relative_name_def plain_name_def list_all_iff)

lemma workspace_files_Cons:
  "workspace_files ((p, e) # ws) =
    (if ''.git'' \<in> set p then [] else case file_bytes e of None \<Rightarrow> [] | Some b \<Rightarrow> [(p, b)]) @ workspace_files ws"
  by (simp add: workspace_files_def List.map_filter_def split: option.splits)

lemma files_subset: "(p, b) \<in> set (workspace_files ws) \<Longrightarrow> p \<in> fst ` set ws"
  by (induction ws) (auto simp: workspace_files_Cons workspace_files_def split: if_splits option.splits)

lemma files_distinct: "distinct (map fst ws) \<Longrightarrow> distinct (map fst (workspace_files ws))"
proof (induction ws)
  case (Cons x ws)
  then show ?case using files_subset by (cases x) (fastforce simp: workspace_files_Cons split: option.splits)
qed (simp add: workspace_files_def)

lemma files_content: "distinct (map fst ws) \<Longrightarrow> (p, b) \<in> set (workspace_files ws) \<longleftrightarrow> content ws p = Some b"
proof (induction ws)
  case (Cons x ws)
  obtain q e where x: "x = (q, e)" by fastforce
  with Cons have "p = q \<Longrightarrow> (p, b) \<notin> set (workspace_files ws)" using files_subset [of p b ws] by auto
  with Cons x show ?case by (auto simp: workspace_files_Cons content_def split: option.splits)
qed (simp add: workspace_files_def content_def)

lemma files_paths: "distinct (map fst ws) \<Longrightarrow> p \<in> fst ` set (workspace_files ws) \<longleftrightarrow> content ws p \<noteq> None"
proof -
  have "p \<in> fst ` set (workspace_files ws) \<longleftrightarrow> (\<exists>b. (p, b) \<in> set (workspace_files ws))" by force
  then show "distinct (map fst ws) \<Longrightarrow> ?thesis" by (simp add: files_content)
qed

lemma map_of_files: "distinct (map fst ws) \<Longrightarrow> map_of (workspace_files ws) = content ws"
proof
  fix p assume d: "distinct (map fst ws)"
  show "map_of (workspace_files ws) p = content ws p"
    using files_content [OF d, of p] files_distinct [OF d]
    by (cases "content ws p") (auto simp: map_of_eq_None_iff)
qed

lemma ancestors_iff: "q \<in> set (ancestors p) \<longleftrightarrow> (\<exists>r. r \<noteq> [] \<and> q \<noteq> [] \<and> p = q @ r)"
proof
  assume "q \<in> set (ancestors p)"
  then obtain k where "1 \<le> k" "k < length p" "q = take k p" by (auto simp: ancestors_def)
  then show "\<exists>r. r \<noteq> [] \<and> q \<noteq> [] \<and> p = q @ r" by (intro exI [of _ "drop k p"]) auto
next
  assume "\<exists>r. r \<noteq> [] \<and> q \<noteq> [] \<and> p = q @ r"
  then obtain r where r: "r \<noteq> []" "q \<noteq> []" "p = q @ r" by blast
  then have "q = take (length q) p" "length q \<in> set [1..<length p]" by (auto simp: Suc_le_eq)
  then show "q \<in> set (ancestors p)" unfolding ancestors_def by (metis (no_types, lifting) image_eqI list.set_map)
qed

section \<open>Changes of a tree\<close>

lemma unlinks_map: "map_of (fold unlink ps ws) q = (if q \<in> set ps then None else map_of ws q)"
  by (induction ps arbitrary: ws) (auto simp: unlink_def AList.delete_conv')

lemma unlinks_distinct: "distinct (map fst ws) \<Longrightarrow> distinct (map fst (fold unlink ps ws))"
  by (induction ps arbitrary: ws) (auto simp: unlink_def AList.distinct_delete)

lemma map_of_snoc: "map_of (w @ [(q, e)]) = (\<lambda>x. case map_of w x of Some y \<Rightarrow> Some y | None \<Rightarrow> if x = q then Some e else None)"
  by (auto simp: map_add_def fun_eq_iff split: option.splits)

lemma distinct_snoc: "map_of w q = None \<Longrightarrow> distinct (map fst w) \<Longrightarrow> distinct (map fst (w @ [(q, e)]))"
  by (simp add: map_of_eq_None_iff)

lemma make_dir_map: "make_dir p w q = Inr w' \<Longrightarrow> map_of w' = (\<lambda>x. if x = q then Some Dir else map_of w x)"
  by (auto simp: make_dir_def map_of_snoc fun_eq_iff simp del: map_of_append split: option.splits entry.splits)

lemma make_dir_distinct: "make_dir p w q = Inr w' \<Longrightarrow> distinct (map fst w) \<Longrightarrow> distinct (map fst w')"
  by (auto simp: make_dir_def distinct_snoc simp del: map_append split: option.splits entry.splits)

lemma make_dir_free: "make_dir p w q = Inr w' \<Longrightarrow> map_of w q \<in> {None, Some Dir}"
  by (auto simp: make_dir_def split: option.splits entry.splits)

lemmas make_dir_Inr = make_dir_map make_dir_distinct make_dir_free

lemma make_dirs_Inr:
  assumes "foldM_r (make_dir p) w qs = Inr w'"
  shows "map_of w' = (\<lambda>x. if x \<in> set qs then Some Dir else map_of w x)"
    and "distinct (map fst w) \<Longrightarrow> distinct (map fst w')"
    and "q \<in> set qs \<Longrightarrow> map_of w q \<in> {None, Some Dir}"
  using assms
proof (induction qs arbitrary: w)
  case (Cons x xs)
  {
    case 1
    then obtain u where u: "make_dir p w x = Inr u" "foldM_r (make_dir p) u xs = Inr w'" by auto
    from Cons.IH(1) [OF u(2)] make_dir_Inr(1) [OF u(1)] show ?case by auto
  next
    case 2
    then obtain u where u: "make_dir p w x = Inr u" "foldM_r (make_dir p) u xs = Inr w'" by auto
    from Cons.IH(2) [OF _ u(2)] make_dir_Inr(2) [OF u(1)] 2 show ?case by auto
  next
    case 3
    then obtain u where u: "make_dir p w x = Inr u" "foldM_r (make_dir p) u xs = Inr w'" by auto
    from Cons.IH(3) [OF _ u(2)] make_dir_Inr(1,3) [OF u(1)] 3 show ?case by (auto split: if_splits)
  }
qed auto

lemma make_dirs_ok: "\<forall>q \<in> set qs. map_of w q \<in> {None, Some Dir} \<Longrightarrow> \<exists>w'. foldM_r (make_dir p) w qs = Inr w'"
proof (induction qs arbitrary: w)
  case (Cons q qs)
  then have "map_of w q \<in> {None, Some Dir}" by simp
  then obtain u where u: "make_dir p w q = Inr u" by (auto simp: make_dir_def)
  from make_dir_Inr(1) [OF u] Cons.prems have "\<forall>x \<in> set qs. map_of u x \<in> {None, Some Dir}" by auto
  from Cons.IH [OF this] u show ?case by auto
qed simp

lemmas make_parents_Inr = make_dirs_Inr [where qs = "ancestors p" and p = p for p, folded make_parents_def]
lemmas make_parents_ok = make_dirs_ok [where qs = "ancestors p" and p = p for p, folded make_parents_def]

lemma write_file_map: "write_file p b ws = Inr w \<Longrightarrow> map_of w = (map_of ws)(p := Some (Regular b))"
  by (auto simp: write_file_def map_of_snoc update_conv' fun_eq_iff simp del: map_of_append split: option.splits entry.splits)

lemma write_file_distinct: "write_file p b ws = Inr w \<Longrightarrow> distinct (map fst ws) \<Longrightarrow> distinct (map fst w)"
  by (auto simp: write_file_def distinct_snoc AList.distinct_update simp del: map_append split: option.splits entry.splits)

lemma write_file_free: "write_file p b ws = Inr w \<Longrightarrow> map_of ws p = None \<or> (\<exists>c. map_of ws p = Some (Regular c))"
  by (auto simp: write_file_def split: option.splits entry.splits)

lemma write_file_ok: "map_of ws p = None \<or> (\<exists>c. map_of ws p = Some (Regular c)) \<Longrightarrow> \<exists>w. write_file p b ws = Inr w"
  by (auto simp: write_file_def)

definition near :: "string list set \<Rightarrow> workspace \<Rightarrow> workspace \<Rightarrow> bool" where
  "near ds ws w \<longleftrightarrow> distinct (map fst w) \<and>
     (\<forall>q. map_of ws q = Some Dir \<longrightarrow> map_of w q = Some Dir) \<and>
     (\<forall>q. map_of w q = Some Dir \<longrightarrow> map_of ws q = Some Dir \<or> q \<in> ds) \<and>
     (\<forall>q x. map_of w q = Some (Link x) \<longrightarrow> map_of ws q = Some (Link x))"

lemma near_refl: "distinct (map fst ws) \<Longrightarrow> near ds ws ws"
  by (simp add: near_def)

lemma near_make_parents: "near ds ws w \<Longrightarrow> make_parents p w = Inr w' \<Longrightarrow> set (ancestors p) \<subseteq> ds \<Longrightarrow> near ds ws w'"
  by (auto simp: near_def make_parents_Inr(1,2))

lemma near_write: "near ds ws w \<Longrightarrow> write_file p b w = Inr w' \<Longrightarrow> near ds ws w'"
  using write_file_free [of p b w w'] by (auto simp: near_def write_file_map write_file_distinct)

lemma near_unlink:
  "near ds ws w \<Longrightarrow> (\<And>p. p \<in> set ps \<Longrightarrow> map_of w p \<noteq> Some Dir) \<Longrightarrow> near ds ws (fold unlink ps w)"
  by (auto simp: near_def unlinks_map unlinks_distinct)

lemma content_make_parents: "make_parents p w = Inr w' \<Longrightarrow> content w' = content w"
  using make_parents_Inr(3) [of p w w'] by (force simp: content_def make_parents_Inr(1) fun_eq_iff)

lemma content_write: "write_file p b w = Inr w' \<Longrightarrow> content w' = (content w)(p := if ''.git'' \<in> set p then None else Some b)"
  by (auto simp: content_def write_file_map fun_eq_iff)

lemma content_unlink: "content (fold unlink ps w) p = (if p \<in> set ps then None else content w p)"
  by (simp add: content_def unlinks_map)

lemma copy_object_cases:
  assumes "copy_object fault st rel digest p ws = (res, w)"
  obtains (stopped) e where "res = Inl e" "w = ws"
    | (partly) e b where "res = Inl e" "write_file p b ws = Inr w"
    | (copied) b where "res = Inr ()" "map_of (cf_objects st) digest = Some b" "write_file p b ws = Inr w"
  using assms by (auto simp: copy_object_def read_object_def split: option.splits sum.splits)

lemma copy_objects_near:
  "copy_objects fault st objs w = (res, w') \<Longrightarrow> near ds ws w \<Longrightarrow>
    (\<And>rel d. (rel, d) \<in> set objs \<Longrightarrow> set (ancestors (path_parts rel)) \<subseteq> ds) \<Longrightarrow> near ds ws w'"
proof (induction fault st objs w rule: copy_objects.induct)
  case (2 fault st rel digest objs w)
  show ?case
  proof (cases "make_parents (path_parts rel) w")
    case (Inl e)
    with 2 show ?thesis by simp
  next
    case (Inr w1)
    have n1: "near ds ws w1" using near_make_parents [OF "2.prems"(2) Inr] "2.prems"(3) [of rel digest] by simp
    obtain r2 w2 where c: "copy_object fault st rel digest (path_parts rel) w1 = (r2, w2)" by fastforce
    then have n2: "near ds ws w2" by (cases rule: copy_object_cases) (use n1 near_write in auto)
    show ?thesis
    proof (cases r2)
      case (Inl e)
      with "2.prems"(1) Inr c n2 show ?thesis by simp
    next
      case r2: (Inr u)
      have rest: "set (ancestors (path_parts rel')) \<subseteq> ds" if "(rel', d') \<in> set objs" for rel' d'
        using "2.prems"(3) [of rel' d'] that by simp
      from r2 Inr c "2.prems"(1) have "copy_objects fault st objs w2 = (res, w')" by simp
      from "2.IH" [OF Inr c [symmetric] _ this n2 rest] r2 show ?thesis by simp
    qed
  qed
qed simp

definition targets :: "(string \<times> string) list \<Rightarrow> (string list \<times> string) list" where
  "targets objs = map (\<lambda>(rel, d). (path_parts rel, d)) objs"

lemma copy_objects_content:
  "copy_objects fault st objs w = (Inr (), w') \<Longrightarrow> distinct (map fst (targets objs)) \<Longrightarrow>
    content w' p = (case map_of (targets objs) p of None \<Rightarrow> content w p
      | Some d \<Rightarrow> if ''.git'' \<in> set p then None else map_of (cf_objects st) d)"
proof (induction fault st objs w rule: copy_objects.induct)
  case (2 fault st rel digest objs w)
  obtain w1 where one: "make_parents (path_parts rel) w = Inr w1"
    using "2.prems"(1) by (cases "make_parents (path_parts rel) w") auto
  obtain r2 w2 where c: "copy_object fault st rel digest (path_parts rel) w1 = (r2, w2)" by fastforce
  with "2.prems"(1) one have r2: "r2 = Inr ()" by (cases r2) auto
  from c r2 obtain b where b: "map_of (cf_objects st) digest = Some b" "write_file (path_parts rel) b w1 = Inr w2"
    by (cases rule: copy_object_cases) auto
  have "content w2 = (content w)(path_parts rel := if ''.git'' \<in> set (path_parts rel) then None else Some b)"
    using content_write [OF b(2)] content_make_parents [OF one] by simp
  with "2.IH" [OF one c [symmetric, unfolded r2]] "2.prems" one c r2 b(1) show ?case
    by (auto simp: targets_def map_of_eq_None_iff image_iff split: option.splits dest: map_of_SomeD)
qed (simp add: targets_def)

lemma copy_objects_total:
  assumes "\<And>rel. fault rel = None" "\<And>rel d. (rel, d) \<in> set objs \<Longrightarrow> map_of (cf_objects st) d \<noteq> None"
    "\<And>rel d p. (rel, d) \<in> set objs \<Longrightarrow> p = path_parts rel \<Longrightarrow>
      map_of w p \<noteq> Some Dir \<and> \<not> is_link (map_of w p) \<and> (\<forall>q \<in> set (ancestors p). map_of w q \<in> {None, Some Dir}) \<and> 
      (\<forall>rel' d'. (rel', d') \<in> set objs \<longrightarrow> p \<notin> set (ancestors (path_parts rel')))"
  shows "\<exists>w'. copy_objects fault st objs w = (Inr (), w')"
  using assms(2,3)
proof (induction objs arbitrary: w)
  case (Cons x objs)
  obtain rel d where x: "x = (rel, d)" by fastforce
  let ?p = "path_parts rel"
  have p: "map_of w ?p \<noteq> Some Dir" "\<not> is_link (map_of w ?p)" "\<forall>q \<in> set (ancestors ?p). map_of w q \<in> {None, Some Dir}"
    using Cons.prems(2) [of rel d ?p] x by auto
  from make_parents_ok [OF p(3)] obtain w1 where w1: "make_parents ?p w = Inr w1" by blast
  have self: "?p \<notin> set (ancestors ?p)" by (simp add: ancestors_iff)
  have m1: "map_of w1 = (\<lambda>q. if q \<in> set (ancestors ?p) then Some Dir else map_of w q)" by (rule make_parents_Inr(1) [OF w1])
  have "map_of w1 ?p = None \<or> (\<exists>c. map_of w1 ?p = Some (Regular c))"
    using self p(1,2) unfolding m1 by (cases "map_of w ?p" rule: is_link.cases) (auto split: entry.splits)
  moreover obtain b where b: "map_of (cf_objects st) d = Some b" using Cons.prems(1) x by fastforce
  ultimately obtain w2 where w2: "write_file ?p b w1 = Inr w2" using write_file_ok by blast
  have m2: "map_of w2 = (map_of w1)(?p := Some (Regular b))" by (rule write_file_map [OF w2])
  have "\<exists>w'. copy_objects fault st objs w2 = (Inr (), w')"
  proof (rule Cons.IH)
    fix rel' d' assume "(rel', d') \<in> set objs"
    then show "map_of (cf_objects st) d' \<noteq> None" using Cons.prems(1) by auto
  next
    fix rel' d' p' assume o: "(rel', d') \<in> set objs" "p' = path_parts rel'"
    then have *: "map_of w p' \<noteq> Some Dir" "\<not> is_link (map_of w p')" "\<forall>q \<in> set (ancestors p'). map_of w q \<in> {None, Some Dir}"
      "\<forall>rel' d'. (rel', d') \<in> set (x # objs) \<longrightarrow> p' \<notin> set (ancestors (path_parts rel'))"
      using Cons.prems(2) [of rel' d' p'] by auto
    from *(4) x have "p' \<notin> set (ancestors ?p)" by auto
    moreover have "?p \<notin> set (ancestors p')" using Cons.prems(2) [of rel d ?p] o x by auto
    ultimately show "map_of w2 p' \<noteq> Some Dir \<and> \<not> is_link (map_of w2 p') \<and> (\<forall>q \<in> set (ancestors p'). map_of w2 q \<in> {None, Some Dir}) \<and> 
      (\<forall>rel' d'. (rel', d') \<in> set objs \<longrightarrow> p' \<notin> set (ancestors (path_parts rel')))"
      using * m2 m1 by auto
  qed
  with x w1 w2 b assms(1) [of rel] show ?case by (simp add: copy_object_def read_object_def)
qed simp

lemma write_back_content:
  assumes "distinct (map fst files)" "list_all (\<lambda>(p, b). p \<noteq> [] \<and> list_all plain_name p \<and> ''.git'' \<notin> set p) files"
    "\<And>p b. (p, b) \<in> set files \<Longrightarrow> map_of w p = None \<and> (\<forall>q \<in> set (ancestors p). map_of w q = Some Dir)"
  shows "\<exists>w'. write_back (map (\<lambda>(p, b). (relative_name p, b)) files) w = (Inr (), w') \<and> content w' = content w ++ map_of files"
  using assms
proof (induction files arbitrary: w)
  case (Cons x files)
  obtain p b where x: "x = (p, b)" by fastforce
  have p: "p \<noteq> []" "list_all plain_name p" "''.git'' \<notin> set p" "map_of w p = None" "\<forall>q \<in> set (ancestors p). map_of w q = Some Dir"
    using Cons.prems(2,3) x by auto
  have safe: "safe_restore_path w (relative_name p) = Inr p"
    using relative_name_safe [OF p(1,2)] p by (auto simp: safe_restore_path_def path_parts_name Let_def list_ex_iff)
  obtain w1 where w1: "make_parents p w = Inr w1" using make_parents_ok [of p w] p(5) by auto
  have m1: "map_of w1 = map_of w" using make_parents_Inr(1) [OF w1] p(5) by auto
  obtain w2 where w2: "write_file p b w1 = Inr w2" using write_file_ok p(4) m1 by metis
  have m2: "map_of w2 = (map_of w)(p := Some (Regular b))" using write_file_map [OF w2] m1 by simp
  have next_files: "\<exists>w'. write_back (map (\<lambda>(p, b). (relative_name p, b)) files) w2 = (Inr (), w') \<and> content w' = content w2 ++ map_of files"
  proof (rule Cons.IH)
    fix q c assume q: "(q, c) \<in> set files"
    then have "q \<noteq> p" using Cons.prems(1) x by force
    moreover have "p \<notin> set (ancestors q)" using Cons.prems(3) [of q c] q p(4) by auto
    ultimately show "map_of w2 q = None \<and> (\<forall>r \<in> set (ancestors q). map_of w2 r = Some Dir)"
      using Cons.prems(3) [of q c] q m2 by auto
  qed (use Cons.prems x in auto)
  have "content w2 = (content w)(p \<mapsto> b)"
    using content_write [OF w2] content_make_parents [OF w1] p(3) by simp
  moreover have "map_of files p = None" using Cons.prems(1) x by (simp add: map_of_eq_None_iff)
  ultimately have "content w2 ++ map_of files = content w ++ map_of (x # files)"
    using x by (auto simp: map_add_def fun_eq_iff split: option.splits)
  with next_files obtain w' where w': "write_back (map (\<lambda>(p, b). (relative_name p, b)) files) w2 = (Inr (), w')"
    "content w' = content w ++ map_of (x # files)" by metis
  moreover have "write_back (map (\<lambda>(p, b). (relative_name p, b)) (x # files)) w = (Inr (), w')"
    by (simp add: x safe w1 w2 w'(1))
  ultimately show ?case by blast
qed simp

lemma tree_okD:
  assumes "tree_ok ws" "map_of ws p = Some e"
  shows "p \<noteq> []" "list_all plain_name p" "q \<in> set (ancestors p) \<Longrightarrow> map_of ws q = Some Dir"
proof -
  have "(p, e) \<in> set ws" using assms(2) by (rule map_of_SomeD)
  with assms(1) show "p \<noteq> []" "list_all plain_name p" "q \<in> set (ancestors p) \<Longrightarrow> map_of ws q = Some Dir"
    by (auto simp: tree_ok_def list_all_iff)
qed

lemma content_SomeD: "content ws p = Some b \<Longrightarrow> ''.git'' \<notin> set p \<and> (\<exists>e. map_of ws p = Some e \<and> file_bytes e = Some b)"
  by (auto simp: content_def Option.bind_eq_Some_conv split: if_splits)

lemma tree_files:
  assumes "tree_ok ws"
  shows "distinct (map fst ws)" "list_all (\<lambda>(p, b). p \<noteq> [] \<and> list_all plain_name p \<and> ''.git'' \<notin> set p) (workspace_files ws)"
    "(p, b) \<in> set (workspace_files ws) \<longleftrightarrow> content ws p = Some b"
proof -
  show d: "distinct (map fst ws)" using assms by (simp add: tree_ok_def)
  show "(p, b) \<in> set (workspace_files ws) \<longleftrightarrow> content ws p = Some b" by (rule files_content [OF d])
  show "list_all (\<lambda>(p, b). p \<noteq> [] \<and> list_all plain_name p \<and> ''.git'' \<notin> set p) (workspace_files ws)"
    unfolding list_all_iff
  proof clarify
    fix p b assume "(p, b) \<in> set (workspace_files ws)"
    then have "content ws p = Some b" by (simp add: files_content [OF d])
    from content_SomeD [OF this] obtain e where "''.git'' \<notin> set p" "map_of ws p = Some e" by blast
    with tree_okD(1,2) [OF assms this(2)] show "p \<noteq> [] \<and> (\<forall>c\<in>set p. plain_name c) \<and> ''.git'' \<notin> set p"
      by (auto simp: list_all_iff)
  qed
qed

lemma tree_file:
  assumes "tree_ok ws" "content ws p = Some b"
  shows "p \<noteq> []" "list_all plain_name p" "''.git'' \<notin> set p" "path_parts (relative_name p) = p"
    "q \<in> set (ancestors p) \<Longrightarrow> map_of ws q = Some Dir"
proof -
  obtain e where "map_of ws p = Some e" "''.git'' \<notin> set p" using content_SomeD [OF assms(2)] by blast
  with tree_okD [OF assms(1) this(1)] path_parts_name
  show "p \<noteq> []" "list_all plain_name p" "''.git'' \<notin> set p" "path_parts (relative_name p) = p"
    "q \<in> set (ancestors p) \<Longrightarrow> map_of ws q = Some Dir" by auto
qed

section \<open>A failed restore is rolled back\<close>

lemma unlink_files_content: "distinct (map fst w) \<Longrightarrow> content (fold unlink (map fst (workspace_files w)) w) = (\<lambda>p. None)"
  by (auto simp: content_unlink files_paths fun_eq_iff)

definition crosses :: "checkpoint \<Rightarrow> workspace \<Rightarrow> bool" where
  "crosses ck ws = list_ex (\<lambda>(rel, d). list_ex (\<lambda>q. content ws q \<noteq> None) (ancestors (path_parts rel))) (ck_objects ck)"

text \<open>C11: When a restore raises, whatever object is missing, path refused or copy interrupted, every file of the
  workspace has its old contents, unless a file lay where the checkpoint needs a directory.\<close>

theorem restore_rolls_back:
  assumes "tree_ok ws" "restore_files fault st ck ws = (Inl e, w)" "\<not> crosses ck ws"
  shows "content w = content ws"
proof -
  note files = tree_files [OF assms(1)]
  let ?files = "workspace_files ws"
  let ?cleared = "fold unlink (filter (\<lambda>p. relative_name p \<notin> set (map fst (ck_objects ck))) (map fst ?files)) ws"
  let ?ds = "\<Union> ((\<lambda>(rel, d). set (ancestors (path_parts rel))) ` set (ck_objects ck))"
  have file_not_dir: "map_of ws p \<noteq> Some Dir" if "p \<in> set (map fst ?files)" for p
    using that files(3) content_SomeD by fastforce
  have "near ?ds ws ?cleared"
    by (rule near_unlink [OF near_refl [OF files(1)]]) (use file_not_dir in auto)
  note near = copy_objects_near [OF _ this]
  show ?thesis
  proof (cases "mapM_r (safe_restore_path ws) (map fst (ck_objects ck))")
    case (Inl e')
    with assms(2) show ?thesis by (simp add: restore_files_def)
  next
    case (Inr ps)
    obtain r1 w1 where c: "copy_objects fault st (ck_objects ck) ?cleared = (r1, w1)" by fastforce
    with Inr assms(2) obtain e1 where r1: "r1 = Inl e1" by (cases r1) (auto simp: restore_files_def)
    have near1: "near ?ds ws w1" using near [OF c] by auto
    let ?w2 = "fold unlink (map fst (workspace_files w1)) w1"
    have d1: "distinct (map fst w1)" using near1 by (simp add: near_def)
    have w2: "map_of ?w2 p = (if content w1 p = None then map_of w1 p else None)" for p
      by (auto simp: unlinks_map files_paths [OF d1])
    have free: "map_of ?w2 p = None \<and> (\<forall>q \<in> set (ancestors p). map_of ?w2 q = Some Dir)" if p: "(p, b) \<in> set ?files" for p b
    proof -
      have cp: "content ws p = Some b" using p files(3) by simp
      from content_SomeD [OF cp] obtain e0 where e0: "''.git'' \<notin> set p" "map_of ws p = Some e0" "file_bytes e0 = Some b" by blast
      have "p \<notin> ?ds" using assms(3) cp by (auto simp: crosses_def list_ex_iff)
      with near1 e0 have "map_of w1 p \<noteq> Some Dir" "\<And>x. map_of w1 p = Some (Link x) \<Longrightarrow> x = Some b"
        by (auto simp: near_def)
      then have "map_of w1 p = None \<or> content w1 p \<noteq> None"
        using e0(1) by (cases "map_of w1 p") (auto simp: content_def split: entry.splits, metis entry.exhaust file_bytes.simps(2,3) option.discI)
      moreover have "map_of w1 q = Some Dir \<and> content w1 q = None" if "q \<in> set (ancestors p)" for q
        using tree_okD(3) [OF assms(1) e0(2) that] near1 by (auto simp: near_def content_def)
      ultimately show ?thesis using w2 by auto
    qed
    have "\<exists>w'. write_back (map (\<lambda>(p, b). (relative_name p, b)) ?files) ?w2 = (Inr (), w') \<and> content w' = content ?w2 ++ map_of ?files"
      by (rule write_back_content [OF files_distinct [OF files(1)] files(2)]) (rule free)
    then obtain w3 where
      wb: "write_back (map (\<lambda>(p, b). (relative_name p, b)) ?files) ?w2 = (Inr (), w3)" "content w3 = content ?w2 ++ map_of ?files" by blast
    have "w = w3" using assms(2) Inr c r1 wb(1) by (simp add: restore_files_def)
    with wb(2) show ?thesis by (simp add: unlink_files_content [OF d1] map_of_files [OF files(1)] map_add_def)
  qed
qed

section \<open>A checkpoint restores what it captured\<close>

text \<open>The store is content-addressed: an object is named by the hash of its bytes.\<close>

definition addressed :: "(string \<Rightarrow> string) \<Rightarrow> (string \<times> string) list \<Rightarrow> bool" where
  "addressed sha objs = list_all (\<lambda>(d, b). d = sha b) objs"

text \<open>No two of the contents at hand have the same hash.\<close>

definition no_collision :: "(string \<Rightarrow> string) \<Rightarrow> checkpoint_files \<Rightarrow> workspace \<Rightarrow> bool" where
  "no_collision sha st ws = inj_on sha (snd ` set (cf_objects st) \<union> snd ` set (workspace_files ws))"

lemma put_object_addressed: "addressed sha objs \<Longrightarrow> addressed sha (put_object (sha b) b objs)"
  by (simp add: put_object_def addressed_def)

lemma put_object_keeps: "map_of objs d = Some b \<Longrightarrow> map_of (put_object d' b' objs) d = Some b"
  by (auto simp: put_object_def)

lemma put_object_present: "map_of (put_object d b objs) d \<noteq> None"
  by (auto simp: put_object_def map_add_def)

definition put_files :: "(string \<Rightarrow> string) \<Rightarrow> (string list \<times> string) list \<Rightarrow> (string \<times> string) list \<Rightarrow> (string \<times> string) list" where
  "put_files sha files objs = fold (\<lambda>(p, b). put_object (sha b) b) files objs"

lemma put_files_simps [simp]:
  "put_files sha [] objs = objs" "put_files sha ((p, b) # files) objs = put_files sha files (put_object (sha b) b objs)"
  by (simp_all add: put_files_def)

lemma put_files_keeps: "map_of objs d = Some b \<Longrightarrow> map_of (put_files sha files objs) d = Some b"
proof (induction files arbitrary: objs)
  case (Cons f files)
  then show ?case using put_object_keeps by (cases f) simp
qed simp

lemma put_files_present: "(p, b) \<in> set files \<Longrightarrow> map_of (put_files sha files objs) (sha b) \<noteq> None"
proof (induction files arbitrary: objs)
  case (Cons f files)
  obtain q c where f: "f = (q, c)" by fastforce
  show ?case
  proof (cases "(p, b) \<in> set files")
    case True
    with Cons.IH f show ?thesis by simp
  next
    case False
    with Cons.prems f have "c = b" by simp
    then obtain y where "map_of (put_object (sha b) b objs) (sha b) = Some y" using put_object_present by blast
    from put_files_keeps [OF this] show ?thesis by (simp add: f \<open>c = b\<close>)
  qed
qed simp

lemma put_files_origin:
  "x \<in> set (put_files sha files objs) \<Longrightarrow> x \<in> set objs \<or> (\<exists>p b. (p, b) \<in> set files \<and> x = (sha b, b))"
proof (induction files arbitrary: objs)
  case (Cons f files)
  obtain q c where f: "f = (q, c)" by fastforce
  from Cons.IH [of "put_object (sha c) c objs"] Cons.prems f show ?case by (auto simp: put_object_def split: if_splits)
qed simp

lemma created_parts:
  assumes "create_checkpoint sha git st root ws cid sj = Inr (ck, st1)" "git_revision git root ws = Inr None"
  shows "ck_objects ck = map (\<lambda>(p, b). (relative_name p, sha b)) (workspace_files ws)" "ck_git_revision ck = None"
    "ck_state_ref ck = map_option sha sj"
    "cf_objects st1 = (case sj of None \<Rightarrow> id | Some j \<Rightarrow> put_object (sha j) j)
      (put_files sha (workspace_files ws) (cf_objects st))"
    "load_checkpoint st1 cid = checkpoint_from_data (checkpoint_to_data ck)" "ck_checkpoint_id ck = cid"
  using assms by (auto simp: create_checkpoint_def put_manifest_def put_files_def Let_def load_checkpoint_def update_conv' split: option.splits)

lemma created_object:
  assumes "create_checkpoint sha git st root ws cid sj = Inr (ck, st1)" "git_revision git root ws = Inr None"
    and "addressed sha (cf_objects st)" "no_collision sha st ws" "(p, b) \<in> set (workspace_files ws)"
  shows "map_of (cf_objects st1) (sha b) = Some b"
proof -
  let ?objs = "put_files sha (workspace_files ws) (cf_objects st)" and ?all = "snd ` set (cf_objects st) \<union> snd ` set (workspace_files ws)"
  obtain c where c: "map_of ?objs (sha b) = Some c" using put_files_present [OF assms(5)] by blast
  have "(sha b, c) \<in> set (cf_objects st) \<or> (\<exists>q. (q, c) \<in> set (workspace_files ws) \<and> sha b = sha c)"
    using put_files_origin [OF map_of_SomeD [OF c]] by auto
  moreover have "d = sha c" if "(d, c) \<in> set (cf_objects st)" for d
    using assms(3) that unfolding addressed_def list_all_iff by blast
  ultimately have "sha c = sha b" "c \<in> ?all" by (metis, metis UnI1 UnI2 image_eqI snd_conv)
  moreover have "b \<in> ?all" using assms(5) by (metis UnI2 image_eqI snd_conv)
  ultimately have "c = b" using assms(4) unfolding no_collision_def by (auto dest: inj_onD)
  with c created_parts(4) [OF assms(1,2)] show ?thesis by (auto intro: put_object_keeps split: option.splits)
qed

definition obstructs :: "checkpoint \<Rightarrow> workspace \<Rightarrow> bool" where
  "obstructs ck ws = list_ex (\<lambda>(rel, d). let p = path_parts rel in
     map_of ws p = Some Dir \<or> list_ex (\<lambda>q. is_link (map_of ws q)) (ancestors p @ [p])) (ck_objects ck)"

lemma created_targets:
  assumes "tree_ok ws" "create_checkpoint sha git st root ws cid sj = Inr (ck, st1)" "git_revision git root ws = Inr None"
  shows "targets (ck_objects ck) = map (\<lambda>(p, b). (p, sha b)) (workspace_files ws)"
proof -
  have "path_parts (relative_name p) = p" if "(p, b) \<in> set (workspace_files ws)" for p b
    using that tree_files(2) [OF assms(1)] path_parts_name by (auto simp: list_all_iff)
  then show ?thesis by (auto simp: targets_def created_parts(1) [OF assms(2,3)])
qed

lemma restored_content:
  assumes "tree_ok ws" "create_checkpoint sha git st root ws cid sj = Inr (ck, st1)" "git_revision git root ws = Inr None"
    and "addressed sha (cf_objects st)" "no_collision sha st ws"
    and "map_of (cf_objects st1) \<subseteq>\<^sub>m map_of (cf_objects st2)"
    and "tree_ok cur" "restore_files fault st2 ck cur = (Inr (), w)"
  shows "content w = content ws"
proof
  fix p
  note files = tree_files [OF assms(1)]
  let ?cleared = "fold unlink (filter (\<lambda>p. relative_name p \<notin> set (map fst (ck_objects ck))) (map fst (workspace_files cur))) cur"
  have tg: "targets (ck_objects ck) = map (\<lambda>(p, b). (p, sha b)) (workspace_files ws)" by (rule created_targets [OF assms(1-3)])
  have c: "copy_objects fault st2 (ck_objects ck) ?cleared = (Inr (), w)"
    using assms(8) by (auto simp: restore_files_def Let_def split: sum.splits prod.splits)
  have dist: "distinct (map fst (targets (ck_objects ck)))"
    using files_distinct [OF files(1)] by (simp add: tg case_prod_unfold comp_def)
  have mt: "map_of (targets (ck_objects ck)) p = map_option sha (content ws p)"
    unfolding tg using map_of_files [OF files(1)] by (simp add: map_of_map [of sha, simplified] )
  show "content w p = content ws p"
  proof (cases "content ws p")
    case None
    have "content ?cleared p = None"
    proof (cases "content cur p")
      case (Some b)
      then have p: "p \<in> set (map fst (workspace_files cur))" using files_paths [OF tree_files(1) [OF assms(7)]] by auto
      have "relative_name p \<notin> set (map fst (ck_objects ck))"
      proof
        assume "relative_name p \<in> set (map fst (ck_objects ck))"
        then obtain q c where q: "(q, c) \<in> set (workspace_files ws)" "relative_name p = relative_name q"
          by (auto simp: created_parts(1) [OF assms(2,3)])
        have "(p, b) \<in> set (workspace_files cur)" using Some by (simp add: tree_files(3) [OF assms(7)])
        then have "list_all plain_name p" using tree_files(2) [OF assms(7)] by (auto simp: list_all_iff)
        moreover have "list_all plain_name q" using q(1) files(2) by (auto simp: list_all_iff)
        ultimately have "p = q" using q(2) relative_name_inj by blast
        with q(1) None show False by (simp add: files(3))
      qed
      with p show ?thesis by (simp add: content_unlink)
    qed (simp add: content_unlink)
    with copy_objects_content [OF c dist, of p] mt None show ?thesis by simp
  next
    case (Some b)
    then have "(p, b) \<in> set (workspace_files ws)" by (simp add: files(3))
    from created_object [OF assms(2-5) this] assms(6) have "map_of (cf_objects st2) (sha b) = Some b"
      by (metis domI map_le_def)
    with copy_objects_content [OF c dist, of p] mt Some content_SomeD [OF Some] show ?thesis by simp
  qed
qed


lemma ancestors_trans: "q \<in> set (ancestors p) \<Longrightarrow> p \<in> set (ancestors r) \<Longrightarrow> q \<in> set (ancestors r)"
  unfolding ancestors_iff by (metis append.assoc append_is_Nil_conv)

lemma restore_succeeds:
  assumes "tree_ok ws" "create_checkpoint sha git st root ws cid sj = Inr (ck, st1)" "git_revision git root ws = Inr None"
    and "addressed sha (cf_objects st)" "no_collision sha st ws"
    and "map_of (cf_objects st1) \<subseteq>\<^sub>m map_of (cf_objects st2)"
    and "tree_ok cur" "\<not> obstructs ck cur" "\<And>rel. fault rel = None"
  shows "\<exists>w. restore_files fault st2 ck cur = (Inr (), w)"
proof -
  note files = tree_files [OF assms(1)]
  have objs: "ck_objects ck = map (\<lambda>(p, b). (relative_name p, sha b)) (workspace_files ws)" by (rule created_parts(1) [OF assms(2,3)])
  have fl: "p \<noteq> [] \<and> list_all plain_name p \<and> path_parts (relative_name p) = p \<and> content ws p = Some b" if "(p, b) \<in> set (workspace_files ws)" for p b
    using that tree_file(1,2,4) [OF assms(1)] by (simp add: files(3))
  have clear: "map_of cur p \<noteq> Some Dir \<and> (\<forall>q \<in> set (ancestors p @ [p]). \<not> is_link (map_of cur q))"
    if "(p, b) \<in> set (workspace_files ws)" for p b
    using assms(8) that fl by (force simp: obstructs_def objs list_ex_iff Let_def)
  have "safe_restore_path cur (relative_name p) = Inr p" if "(p, b) \<in> set (workspace_files ws)" for p b
    using fl [OF that] relative_name_safe [of p] clear [OF that] by (auto simp: safe_restore_path_def Let_def list_ex_iff)
  then have "\<exists>ps. mapM_r (safe_restore_path cur) (map fst (ck_objects ck)) = Inr ps"
    by (auto simp: objs mapM_r_Inr_iff list_all2_conv_all_nth case_prod_unfold intro!: exI [of _ "map fst (workspace_files ws)"])
      (metis nth_mem prod.collapse)
  moreover
  let ?cleared = "fold unlink (filter (\<lambda>p. relative_name p \<notin> set (map fst (ck_objects ck))) (map fst (workspace_files cur))) cur"
  have "\<exists>w. copy_objects fault st2 (ck_objects ck) ?cleared = (Inr (), w)"
  proof (rule copy_objects_total [OF assms(9)])
    fix rel d assume "(rel, d) \<in> set (ck_objects ck)"
    then obtain p b where "(p, b) \<in> set (workspace_files ws)" "d = sha b" by (auto simp: objs)
    with created_object [OF assms(2-5)] assms(6) show "map_of (cf_objects st2) d \<noteq> None" by (metis domI map_le_def option.discI)
  next
    fix rel d p assume "(rel, d) \<in> set (ck_objects ck)" "p = path_parts rel"
    then obtain b where p: "(p, b) \<in> set (workspace_files ws)" by (auto simp: objs fl)
    have above: "content ws q = None" if "q \<in> set (ancestors p')" "(p', b') \<in> set (workspace_files ws)" for q p' b'
      using tree_file(5) [OF assms(1) _ that(1)] that(2) by (simp add: files(3) content_def)
    have "map_of ?cleared q \<in> {None, Some Dir}" if q: "q \<in> set (ancestors p)" for q
    proof (cases "map_of cur q")
      case (Some e)
      show ?thesis
      proof (cases e)
        case (Regular c)
        have "''.git'' \<notin> set p" using p tree_file(3) [OF assms(1)] by (simp add: files(3))
        with q have "''.git'' \<notin> set q" by (auto simp: ancestors_iff)
        with Some Regular have cq: "content cur q = Some c" by (simp add: content_def)
        have "relative_name q \<notin> set (map fst (ck_objects ck))"
        proof
          assume "relative_name q \<in> set (map fst (ck_objects ck))"
          then obtain p' b' where p': "(p', b') \<in> set (workspace_files ws)" "relative_name q = relative_name p'" by (auto simp: objs)
          with tree_file(2) [OF assms(7) cq] fl [OF p'(1)] have "q = p'" using relative_name_inj by blast
          with above [OF q p] p'(1) show False by (simp add: files(3))
        qed
        moreover have "q \<in> set (map fst (workspace_files cur))" using cq files_paths [OF tree_files(1) [OF assms(7)]] by auto
        ultimately show ?thesis by (simp add: unlinks_map)
      next
        case (Link x)
        with Some clear [OF p] q show ?thesis by auto
      qed (use Some in \<open>simp add: unlinks_map\<close>)
    qed (simp add: unlinks_map)
    moreover have "map_of ?cleared p \<noteq> Some Dir" "\<not> is_link (map_of ?cleared p)"
      using clear [OF p] by (auto simp: unlinks_map)
    moreover have "p \<notin> set (ancestors (path_parts rel'))" if "(rel', d') \<in> set (ck_objects ck)" for rel' d'
    proof
      from that obtain p' b' where p': "(p', b') \<in> set (workspace_files ws)" "path_parts rel' = p'" by (auto simp: objs fl)
      assume "p \<in> set (ancestors (path_parts rel'))"
      with above p' p show False by (fastforce simp: files(3))
    qed
    ultimately show "map_of ?cleared p \<noteq> Some Dir \<and> \<not> is_link (map_of ?cleared p) \<and>
      (\<forall>q\<in>set (ancestors p). map_of ?cleared q \<in> {None, Some Dir}) \<and>
      (\<forall>rel' d'. (rel', d') \<in> set (ck_objects ck) \<longrightarrow> p \<notin> set (ancestors (path_parts rel')))" by blast
  qed
  ultimately show ?thesis by (auto simp: restore_files_def)
qed

lemma named_files:
  assumes "tree_ok ws" "list_all plain_name p"
  shows "map_of (map (\<lambda>(p, b). (relative_name p, sha b)) (workspace_files ws)) (relative_name p) = map_option sha (content ws p)"
proof -
  let ?xs = "map (\<lambda>(p, b). (relative_name p, sha b)) (workspace_files ws)"
  note files = tree_files [OF assms(1)]
  have plain: "list_all plain_name (fst f)" if "f \<in> set (workspace_files ws)" for f
    using that files(2) by (auto simp: list_all_iff)
  have keys: "map fst ?xs = map relative_name (map fst (workspace_files ws))" by (simp add: case_prod_unfold)
  have "inj_on relative_name (set (map fst (workspace_files ws)))"
  proof (rule inj_onI)
    fix x y assume "x \<in> set (map fst (workspace_files ws))" "y \<in> set (map fst (workspace_files ws))" "relative_name x = relative_name y"
    with plain relative_name_inj show "x = y" by (metis (no_types, lifting) image_iff list.set_map)
  qed
  then have dist: "distinct (map fst ?xs)" unfolding keys using files_distinct [OF files(1)] by (simp only: distinct_map)
  show ?thesis
  proof (cases "content ws p")
    case None
    have "relative_name p \<notin> set (map fst ?xs)"
    proof
      assume "relative_name p \<in> set (map fst ?xs)"
      then obtain f where "f \<in> set (workspace_files ws)" "relative_name p = relative_name (fst f)" by (auto simp: case_prod_unfold)
      with plain assms(2) relative_name_inj have "(p, snd f) \<in> set (workspace_files ws)" by (metis prod.collapse)
      with None show False by (simp add: files(3))
    qed
    then have "map_of ?xs (relative_name p) = None" by (simp only: map_of_eq_None_iff set_map) simp
    with None show ?thesis by simp
  next
    case (Some b)
    then have "(p, b) \<in> set (workspace_files ws)" by (simp add: files(3))
    then have "(relative_name p, sha b) \<in> set ?xs" by force
    with dist Some show ?thesis using map_of_is_SomeI by force
  qed
qed

lemma sorted_set_props: "sorted (sorted_set xs)" "distinct (sorted_set xs)" "set (sorted_set xs) = set xs"
  by (simp_all add: sorted_set_def)

text \<open>The changed paths of a checkpoint of a plain directory are exactly the files added, removed or altered since,
  sorted and without repetition.\<close>

theorem changed_paths_exact:
  assumes "tree_ok ws" "create_checkpoint sha git st root ws cid sj = Inr (ck, st1)" "git_revision git root ws = Inr None"
    and "tree_ok cur" "inj_on sha (snd ` set (workspace_files ws) \<union> snd ` set (workspace_files cur))"
  shows "\<exists>paths. changed_paths sha git ck root cur = Inr paths \<and> sorted paths \<and> distinct paths \<and>
    set paths = relative_name ` {p. content cur p \<noteq> content ws p}"
proof -
  let ?was = "map (\<lambda>(p, b). (relative_name p, sha b)) (workspace_files ws)"
  let ?now = "map (\<lambda>(p, b). (relative_name p, sha b)) (workspace_files cur)"
  let ?changed = "filter (\<lambda>rel. map_of ?was rel \<noteq> map_of ?now rel) (map fst ?was @ map fst ?now)"
  have run: "changed_paths sha git ck root cur = Inr (sorted_set ?changed)"
    by (simp add: changed_paths_def created_parts [OF assms(2,3)] Let_def)
  have differs: "map_of ?was (relative_name p) \<noteq> map_of ?now (relative_name p) \<longleftrightarrow> content cur p \<noteq> content ws p"
    if "list_all plain_name p" for p
  proof -
    have "b \<in> snd ` set (workspace_files x)" if "tree_ok x" "content x p = Some b" for x b
      using that by (metis image_eqI snd_conv tree_files(3))
    then show ?thesis
      unfolding named_files [OF assms(1) that] named_files [OF assms(4) that]
      using assms(1,4,5) by (cases "content ws p"; cases "content cur p") (auto dest: inj_onD)
  qed
  have fl: "list_all plain_name p" if "content ws p \<noteq> None \<or> content cur p \<noteq> None" for p
    using that tree_file(2) [OF assms(1)] tree_file(2) [OF assms(4)] by blast
  have keys: "rel \<in> set (map fst ?was @ map fst ?now) \<longleftrightarrow> (\<exists>p. rel = relative_name p \<and> (content ws p \<noteq> None \<or> content cur p \<noteq> None))" for rel
  proof -
    have "rel \<in> set (map fst (map (\<lambda>(p, b). (relative_name p, sha b)) (workspace_files x))) \<longleftrightarrow> (\<exists>p. rel = relative_name p \<and> content x p \<noteq> None)"
      if "tree_ok x" for x
    proof -
      have "set (map fst (map (\<lambda>(p, b). (relative_name p, sha b)) (workspace_files x))) = relative_name ` fst ` set (workspace_files x)"
        by (simp add: case_prod_unfold image_image)
      also have "fst ` set (workspace_files x) = {p. content x p \<noteq> None}"
        using files_paths [OF tree_files(1) [OF that]] by blast
      finally show ?thesis by blast
    qed
    then show ?thesis using assms(1,4) by auto
  qed
  have sc: "set ?changed = relative_name ` {p. content cur p \<noteq> content ws p}"
  proof (intro set_eqI iffI)
    fix rel assume "rel \<in> set ?changed"
    then obtain p where "rel = relative_name p" "content ws p \<noteq> None \<or> content cur p \<noteq> None" "map_of ?was rel \<noteq> map_of ?now rel"
      unfolding set_filter mem_Collect_eq keys by blast
    with differs [OF fl] show "rel \<in> relative_name ` {p. content cur p \<noteq> content ws p}" by auto
  next
    fix rel assume "rel \<in> relative_name ` {p. content cur p \<noteq> content ws p}"
    then obtain p where p: "rel = relative_name p" "content cur p \<noteq> content ws p" by blast
    then have "content ws p \<noteq> None \<or> content cur p \<noteq> None" by metis
    with p differs [OF fl [OF this]] show "rel \<in> set ?changed" unfolding set_filter mem_Collect_eq keys by blast
  qed
  show ?thesis by (rule exI [of _ "sorted_set ?changed"]) (simp only: run sorted_set_props sc simp_thms)
qed

text \<open>C10: A checkpoint of a plain directory restores what it captured: if the objects are still stored, no directory or
  link lies on the paths of the captured files and no copy is interrupted, the restore succeeds, and afterwards the
  workspace has exactly the captured files with their contents.\<close>

theorem restore_exact:
  assumes "tree_ok ws" "create_checkpoint sha git st root ws cid sj = Inr (ck, st1)" "git_revision git root ws = Inr None"
    and "addressed sha (cf_objects st)" "no_collision sha st ws"
    and "map_of (cf_objects st1) \<subseteq>\<^sub>m map_of (cf_objects st2)"
    and "tree_ok cur" "\<not> obstructs ck cur" "fault = (\<lambda>_. None)"
  shows "\<exists>w. restore_checkpoint_files git fault st2 ck root (Some cur) = (Inr (), Some w) \<and> content w = content ws"
proof -
  obtain w where w: "restore_files fault st2 ck cur = (Inr (), w)" using restore_succeeds [OF assms(1-8), of fault] assms(9) by blast
  with restored_content [OF assms(1-7) w] created_parts(2) [OF assms(2,3)] show ?thesis
    by (simp add: restore_checkpoint_files_def)
qed

section \<open>Garbage collection\<close>

definition kept_by :: "checkpoint \<Rightarrow> string set" where
  "kept_by ck = set (map snd (ck_objects ck)) \<union> set_option (ck_state_ref ck)"

definition without_manifest :: "string \<Rightarrow> checkpoint_files \<Rightarrow> checkpoint_files" where
  "without_manifest c st = st\<lparr>cf_manifests := AList.delete c (cf_manifests st)\<rparr>"

lemma without_manifest [simp]:
  "cf_objects (without_manifest c st) = cf_objects st"
  "map_of (cf_manifests (without_manifest c st)) d = (if d = c then None else map_of (cf_manifests st) d)"
  "d \<noteq> c \<Longrightarrow> load_checkpoint (without_manifest c st) d = load_checkpoint st d"
  by (simp_all add: without_manifest_def load_checkpoint_def AList.delete_conv')

lemma collect_Cons:
  assumes "collect_manifests st R (c # cs) kept removed = (Inr x, st')"
  obtains (keep) ck where "c \<in> R" "load_checkpoint st c = Inr ck" "collect_manifests st R cs (kept \<union> kept_by ck) removed = (Inr x, st')"
    | (drop) "c \<notin> R" "collect_manifests (without_manifest c st) R cs kept (removed @ [c]) = (Inr x, st')"
  using assms by (auto simp: kept_by_def without_manifest_def Un_assoc split: if_splits sum.splits)

lemma collect_files:
  "collect_manifests st R cs kept removed = (Inr x, st') \<Longrightarrow>
    cf_objects st' = cf_objects st \<and> snd x = removed @ filter (\<lambda>c. c \<notin> R) cs \<and>
    map_of (cf_manifests st') d = (if d \<in> set cs \<and> d \<notin> R then None else map_of (cf_manifests st) d)"
proof (induction cs arbitrary: st kept removed)
  case (Cons c cs)
  from Cons.prems show ?case by (cases rule: collect_Cons) (auto dest!: Cons.IH)
qed auto

lemma collect_kept:
  "collect_manifests st R cs kept removed = (Inr x, st') \<Longrightarrow> distinct cs \<Longrightarrow>
    fst x = kept \<union> \<Union> {kept_by ck | ck. \<exists>c. c \<in> set cs \<inter> R \<and> load_checkpoint st c = Inr ck}"
proof (induction cs arbitrary: st kept removed)
  case (Cons c cs)
  from Cons.prems(1) show ?case
  proof (cases rule: collect_Cons)
    case (keep ck)
    have "{kept_by ck' | ck'. \<exists>d. d \<in> set (c # cs) \<inter> R \<and> load_checkpoint st d = Inr ck'} =
        insert (kept_by ck) {kept_by ck' | ck'. \<exists>d. d \<in> set cs \<inter> R \<and> load_checkpoint st d = Inr ck'}"
      using keep(1,2) by auto
    with Cons.IH [OF keep(3)] Cons.prems(2) show ?thesis by auto
  next
    case drop
    have "{kept_by ck' | ck'. \<exists>d. d \<in> set (c # cs) \<inter> R \<and> load_checkpoint st d = Inr ck'} =
        {kept_by ck' | ck'. \<exists>d. d \<in> set cs \<inter> R \<and> load_checkpoint (without_manifest c st) d = Inr ck'}"
    proof -
      have "load_checkpoint (without_manifest c st) d = load_checkpoint st d" if "d \<in> set cs" for d
        using that Cons.prems(2) by (intro without_manifest(3)) auto
      then have "(\<exists>d. d \<in> set (c # cs) \<inter> R \<and> load_checkpoint st d = Inr ck') \<longleftrightarrow>
          (\<exists>d. d \<in> set cs \<inter> R \<and> load_checkpoint (without_manifest c st) d = Inr ck')" for ck'
        using drop(1) by (metis IntD1 IntD2 IntI set_ConsD list.set_intros(2))
      then show ?thesis by (simp only:)
    qed
    with Cons.IH [OF drop(2)] Cons.prems(2) show ?thesis by simp
  qed
qed auto

lemma copy_objects_cong:
  "(\<And>rel d. (rel, d) \<in> set objs \<Longrightarrow> read_object st' d = read_object st d) \<Longrightarrow>
    copy_objects fault st' objs w = copy_objects fault st objs w"
proof (induction objs arbitrary: w)
  case (Cons x objs)
  obtain rel d where x: "x = (rel, d)" by fastforce
  have "read_object st' d = read_object st d" using Cons.prems [of rel d] x by simp
  moreover have "copy_objects fault st' objs w = copy_objects fault st objs w" for w using Cons by auto
  ultimately show ?case by (simp add: x copy_object_def cong: sum.case_cong)
qed simp


section \<open>Examples\<close>

definition no_git :: git_program where
  "no_git root args ws = (Inl (CalledProcessError ''git''), ws)"

definition plain_hash :: "string \<Rightarrow> string" where
  "plain_hash b = CHR ''h'' # b"

definition empty_files :: checkpoint_files where
  "empty_files = \<lparr>cf_objects = [], cf_manifests = []\<rparr>"

definition demo_tree :: workspace where
  "demo_tree = [([''a''], Dir), ([''a'', ''x.py''], Regular ''1''), ([''b''], Regular ''2''), ([''.git''], Dir), ([''.git'', ''config''], Regular ''c'')]"

definition demo_changed :: workspace where
  "demo_changed = [([''a''], Regular ''3''), ([''b''], Regular ''4''), ([''new''], Regular ''5'')]"

definition demo_checkpoint :: "checkpoint \<times> checkpoint_files" where
  "demo_checkpoint = (case create_checkpoint plain_hash no_git empty_files ''/w'' demo_tree ''c1'' (Some ''state'') of Inr x \<Rightarrow> x)"

lemma demo_created: "create_checkpoint plain_hash no_git empty_files ''/w'' demo_tree ''c1'' (Some ''state'') =
    Inr (fst demo_checkpoint, snd demo_checkpoint)"
  by code_simp

lemma demo_facts: "tree_ok demo_tree" "tree_ok demo_changed" "git_revision no_git ''/w'' demo_tree = Inr None"
  by code_simp+

lemma plain_hash_inj: "inj_on plain_hash A"
  by (auto simp: inj_on_def plain_hash_def)

theorem restore_exact_witness:
  "\<exists>w. restore_checkpoint_files no_git (\<lambda>_. None) (snd demo_checkpoint) (fst demo_checkpoint) ''/w'' (Some demo_changed) = (Inr (), Some w) \<and>
     content w [''a'', ''x.py''] = Some ''1'' \<and> content w [''new''] = None"
proof -
  have "addressed plain_hash (cf_objects empty_files)" by (simp add: addressed_def empty_files_def)
  moreover have "no_collision plain_hash empty_files demo_tree" by (simp add: no_collision_def plain_hash_inj)
  moreover have "\<not> obstructs (fst demo_checkpoint) demo_changed" by code_simp
  ultimately obtain w where "restore_checkpoint_files no_git (\<lambda>_. None) (snd demo_checkpoint) (fst demo_checkpoint) ''/w'' (Some demo_changed) = (Inr (), Some w)"
    "content w = content demo_tree"
    using restore_exact [OF demo_facts(1) demo_created demo_facts(3) _ _ map_le_refl demo_facts(2) _ refl] by blast
  moreover have "content demo_tree [''a'', ''x.py''] = Some ''1''" "content demo_tree [''new''] = None" by code_simp+
  ultimately show ?thesis by auto
qed

theorem changed_paths_exact_witness:
  "\<exists>paths. changed_paths plain_hash no_git (fst demo_checkpoint) ''/w'' demo_changed = Inr paths \<and> ''b'' \<in> set paths"
proof -
  obtain paths where p: "changed_paths plain_hash no_git (fst demo_checkpoint) ''/w'' demo_changed = Inr paths"
    "set paths = relative_name ` {p. content demo_changed p \<noteq> content demo_tree p}"
    using changed_paths_exact [OF demo_facts(1) demo_created demo_facts(3,2) plain_hash_inj] by blast
  have "content demo_changed [''b''] \<noteq> content demo_tree [''b'']" by code_simp
  then have "relative_name [''b''] \<in> set paths" unfolding p(2) by blast
  then show ?thesis using p(1) by (auto simp: relative_name_def)
qed

definition broken_copy :: copy_fault where
  "broken_copy rel = (if rel = ''b'' then Some (OSError ''disk full'', Some ''par'') else None)"

theorem restore_rolls_back_witness:
  "\<exists>e w. restore_files broken_copy (snd demo_checkpoint) (fst demo_checkpoint) (demo_tree @ [([''new''], Regular ''5'')]) = (Inl e, w) \<and>
     content w [''b''] = Some ''2'' \<and> content w [''new''] = Some ''5''"
proof -
  let ?ws = "demo_tree @ [([''new''], Regular ''5'')]"
  obtain e w where r: "restore_files broken_copy (snd demo_checkpoint) (fst demo_checkpoint) ?ws = (Inl e, w)"
    by (cases "restore_files broken_copy (snd demo_checkpoint) (fst demo_checkpoint) ?ws"; cases "fst (restore_files broken_copy (snd demo_checkpoint) (fst demo_checkpoint) ?ws)")
      (auto, code_simp)
  have "tree_ok ?ws" "\<not> crosses (fst demo_checkpoint) ?ws" by code_simp+
  from restore_rolls_back [OF this(1) r this(2)] have "content w = content ?ws" .
  moreover have "content ?ws [''b''] = Some ''2''" "content ?ws [''new''] = Some ''5''" by code_simp+
  ultimately show ?thesis using r by auto
qed


text \<open>
  When the restore has made a directory where the workspace had a file, the file cannot be written back: the copy of
  the second file fails, and the workspace loses the file \<^verbatim>\<open>a\<close>.
\<close>

theorem rollback_loses_file:
  "let ws = [([''a''], Regular ''3''), ([''b''], Regular ''4'')];
       (res, w) = restore_files broken_copy (snd demo_checkpoint) (fst demo_checkpoint) ws in
   tree_ok ws \<and> res = Inl (OSError ''IsADirectoryError'') \<and> content ws [''a''] = Some ''3'' \<and> content w [''a''] = None"
  by code_simp

text \<open>A file that was replaced by a directory keeps its checkpoint from ever being restored.\<close>

theorem directory_blocks_restore:
  "let ws = [([''b''], Dir), ([''b'', ''y''], Regular ''6'')];
       (res, w) = restore_files (\<lambda>_. None) (snd demo_checkpoint) (fst demo_checkpoint) ws in
   res = Inl (OSError ''IsADirectoryError'') \<and> content w [''b'', ''y''] = Some ''6'' \<and> content w [''b''] = None"
  by code_simp

text \<open>
  The output of \<^verbatim>\<open>git status --porcelain\<close> starts with a blank when the first file is modified but not staged;
  \<^verbatim>\<open>_run_git\<close> strips it, and the first path loses its first letter.
\<close>

definition status_git :: git_program where
  "status_git root args ws =
     (if args = [''rev-parse'', ''HEAD''] then (Inr ''abc'', ws)
      else (Inr ('' M src/app.py'' @ [char_of (10 :: nat)] @ '' M src/lib.py'' @ [char_of (10 :: nat)]), ws))"

theorem git_status_cuts_first_path:
  "case create_checkpoint plain_hash status_git empty_files ''/w'' demo_tree ''c1'' None of
     Inr (ck, st) \<Rightarrow> changed_paths plain_hash status_git ck ''/w'' demo_tree = Inr [''rc/app.py'', ''src/lib.py'']
   | Inl e \<Rightarrow> False"
  by code_simp

end
