(* ===== verification/Worktree_Files.thy ===== *)
theory Worktree_Files
  imports Checkpoint_Safety
begin

text \<open>
  \<^verbatim>\<open>file_management.py\<close>: deletion and renaming of single files inside a worktree, guarded against paths that leave it. The
  worktree is the tree of the checkpoint theory below the kind of its root.
\<close>

section \<open>Paths\<close>

text \<open>What the worktree root is: a symbolic link, nothing, a plain file or a directory with its tree.\<close>

datatype worktree = LinkRoot | NoRoot | FileRoot | DirRoot workspace

definition file_management_error :: "string \<Rightarrow> exc" where
  "file_management_error msg = PowdrrExecutionError ''action_error'' (''file_management '' @ msg)"

definition FILE_OPERATIONS :: "string list" where
  "FILE_OPERATIONS = [''delete'', ''move'', ''rename'']"

text \<open>The loop over the components: \<open>passed\<close> are those behind, and the last one may be missing if that is allowed.\<close>

fun walk_parts :: "workspace \<Rightarrow> string \<Rightarrow> bool \<Rightarrow> string \<Rightarrow> string list \<Rightarrow> string list \<Rightarrow> string list result" where
  "walk_parts ws label allow_missing value passed [] = Inr passed"
| "walk_parts ws label allow_missing value passed (part # parts) =
     (let current = passed @ [part] in
      if is_link (map_of ws current) then
        Inl (file_management_error (label @ '' cannot pass through symlink: '' @ py_repr value @ ''.''))
      else if parts \<noteq> [] \<and> map_of ws current \<noteq> Some Dir then
        Inl (file_management_error (label @ '' parent directory does not exist: '' @ py_repr value @ ''.''))
      else if parts = [] \<and> \<not> allow_missing \<and> map_of ws current = None then
        Inl (file_management_error (label @ '' does not exist: '' @ py_repr value @ ''.''))
      else walk_parts ws label allow_missing value current parts)"

definition resolve_safe_path :: "worktree \<Rightarrow> string \<Rightarrow> bool \<Rightarrow> string \<Rightarrow> (workspace \<times> string list) result" where
  "resolve_safe_path root label allow_missing value =
     (let parts = path_parts value in
      if strip value = [] then Inl (file_management_error (label @ '' must be non-empty.''))
      else if startswith value ''/'' then Inl (file_management_error (label @ '' must be relative to the worktree.''))
      else if ''..'' \<in> set parts then Inl (file_management_error (label @ '' must not contain '..'.''))
      else if parts = [] then Inl (file_management_error (label @ '' must identify a file.''))
      else case root of
        LinkRoot \<Rightarrow> Inl (file_management_error ''worktree root cannot be a symlink.'')
      | NoRoot \<Rightarrow> Inl (FileNotFoundError ''worktree root'')
      | FileRoot \<Rightarrow> Inl (file_management_error ''worktree root must be a directory.'')
      | DirRoot ws \<Rightarrow> bind_r (walk_parts ws label allow_missing value [] parts) (\<lambda>p. Inr (ws, p)))"

section \<open>Operations\<close>

definition file_result :: "string \<Rightarrow> string list \<Rightarrow> string list option \<Rightarrow> pydict" where
  "file_result operation source destination =
     [(''operation'', PStr operation), (''file_path'', PStr (relative_name source)),
      (''destination_path'', (case destination of None \<Rightarrow> PNone | Some d \<Rightarrow> PStr (relative_name d)))]"

definition resolve_destination :: "worktree \<Rightarrow> string \<Rightarrow> string option \<Rightarrow> string list \<Rightarrow> string list result" where
  "resolve_destination root operation destination_path source =
     (case destination_path of
        None \<Rightarrow> Inl (file_management_error (operation @ '' requires destination_path.''))
      | Some d \<Rightarrow>
          if strip d = [] then Inl (file_management_error (operation @ '' requires destination_path.''))
          else bind_r (resolve_safe_path root ''destination_path'' True d) (\<lambda>(ws, p).
            if map_of ws p \<noteq> None then Inl (file_management_error (''destination_path already exists: '' @ py_repr d @ ''.''))
            else if butlast p = source
            then Inl (file_management_error ''destination_path cannot be inside the file being moved.'')
            else Inr p))"

text \<open>\<open>fault\<close> is the exception of a failing \<^verbatim>\<open>unlink\<close> or \<^verbatim>\<open>rename\<close>.\<close>

definition manage_worktree_file ::
    "exc option \<Rightarrow> worktree \<Rightarrow> string \<Rightarrow> string \<Rightarrow> string option \<Rightarrow> pydict result \<times> worktree" where
  "manage_worktree_file fault root operation fpath destination_path =
     (if operation \<notin> set FILE_OPERATIONS then
        (Inl (file_management_error (''operation must be one of '' @ repr_val (PList (map PStr FILE_OPERATIONS)) @ ''.'')), root)
      else case resolve_safe_path root ''file_path'' False fpath of
        Inl e \<Rightarrow> (Inl e, root)
      | Inr (ws, source) \<Rightarrow>
          (case map_of ws source of
             Some (Regular b) \<Rightarrow>
               if operation = ''delete'' then
                 (case fault of
                    Some e \<Rightarrow> (Inl e, root)
                  | None \<Rightarrow> (Inr (file_result operation source None), DirRoot (unlink source ws)))
               else
                 (case resolve_destination root operation destination_path source of
                    Inl e \<Rightarrow> (Inl e, root)
                  | Inr destination \<Rightarrow>
                      (case fault of
                         Some e \<Rightarrow> (Inl e, root)
                       | None \<Rightarrow> (Inr (file_result operation source (Some destination)),
                           DirRoot (unlink source ws @ [(destination, Regular b)]))))
           | _ \<Rightarrow> (Inl (file_management_error (''file_path must identify an existing regular file: '' @ py_repr fpath @ ''.'')), root)))"

section \<open>What is allowed, and what it does\<close>

definition safe_relative :: "string \<Rightarrow> bool" where
  "safe_relative value \<longleftrightarrow> strip value \<noteq> [] \<and> \<not> startswith value ''/'' \<and> ''..'' \<notin> set (path_parts value) \<and> path_parts value \<noteq> []"

definition in_directories :: "workspace \<Rightarrow> string list \<Rightarrow> bool" where
  "in_directories ws p \<longleftrightarrow> list_all (\<lambda>q. map_of ws q = Some Dir) (ancestors p)"

lemma walk_parts_iff:
  "walk_parts ws label allow_missing v passed parts = Inr p \<longleftrightarrow>
     p = passed @ parts \<and> (\<forall>k \<in> {1..<length parts}. map_of ws (passed @ take k parts) = Some Dir) \<and>
     (parts \<noteq> [] \<longrightarrow> \<not> is_link (map_of ws (passed @ parts)) \<and> (allow_missing \<or> map_of ws (passed @ parts) \<noteq> None))"
proof (induction parts arbitrary: passed)
  case (Cons part parts)
  show ?case
  proof (cases "parts = []")
    case False
    have "{1..<length (part # parts)} = insert 1 (Suc ` {1..<length parts})"
      using False by (auto simp: image_Suc_atLeastLessThan)
    then have shift: "(\<forall>k \<in> {1..<length (part # parts)}. P (take k (part # parts))) \<longleftrightarrow>
        P [part] \<and> (\<forall>k \<in> {1..<length parts}. P (part # take k parts))" for P
      by (simp only: ball_simps take_Suc_Cons take_0 One_nat_def)
    show ?thesis using False Cons.IH [of "passed @ [part]"] shift [of "\<lambda>q. map_of ws (passed @ q) = Some Dir"]
      by (auto simp: Let_def)
  qed (auto simp: Let_def)
qed auto


definition may_manage :: "workspace \<Rightarrow> string \<Rightarrow> string \<Rightarrow> string option \<Rightarrow> bool" where
  "may_manage ws operation fpath destination_path \<longleftrightarrow>
     operation \<in> set FILE_OPERATIONS \<and> safe_relative fpath \<and> in_directories ws (path_parts fpath) \<and>
     (\<exists>b. map_of ws (path_parts fpath) = Some (Regular b)) \<and>
     (operation \<noteq> ''delete'' \<longrightarrow> (\<exists>d. destination_path = Some d \<and> safe_relative d \<and> in_directories ws (path_parts d) \<and>
        map_of ws (path_parts d) = None))"

lemma all_ancestors_iff: "list_all P (ancestors p) \<longleftrightarrow> (\<forall>k \<in> {1..<length p}. P (take k p))"
  by (auto simp: ancestors_def list_all_iff)

lemma resolve_safe_path_iff:
  "resolve_safe_path (DirRoot ws) label allow_missing v = Inr (ws', p) \<longleftrightarrow>
     ws' = ws \<and> p = path_parts v \<and> safe_relative v \<and> in_directories ws p \<and> \<not> is_link (map_of ws p) \<and>
     (allow_missing \<or> map_of ws p \<noteq> None)"
proof (cases "safe_relative v")
  case True
  then show ?thesis
    using walk_parts_iff [of ws label allow_missing v "[]" "path_parts v"]
    by (auto simp: resolve_safe_path_def safe_relative_def Let_def in_directories_def all_ancestors_iff)
qed (auto simp: resolve_safe_path_def safe_relative_def Let_def)

lemma resolve_destination_iff:
  assumes "map_of ws source = Some (Regular b)" "source \<noteq> []"
  shows "resolve_destination (DirRoot ws) operation destination_path source = Inr p \<longleftrightarrow>
    (\<exists>d. destination_path = Some d \<and> p = path_parts d \<and> safe_relative d \<and> in_directories ws p \<and> map_of ws p = None)"
proof (cases destination_path)
  case (Some d)
  have parent: "butlast q \<noteq> source" if "in_directories ws q" for q
  proof
    assume eq: "butlast q = source"
    then have "1 < length q" using assms(2) by (cases q) (auto split: if_splits)
    then have "length q - 1 \<in> {1..<length q}" by auto
    with that have "map_of ws (take (length q - 1) q) = Some Dir" unfolding in_directories_def all_ancestors_iff by blast
    with assms(1) eq show False by (simp add: butlast_conv_take)
  qed
  have blank: "strip d \<noteq> []" if "safe_relative d" using that by (simp add: safe_relative_def)
  show ?thesis
  proof (cases "resolve_safe_path (DirRoot ws) ''destination_path'' True d")
    case (Inl e)
    then have "\<not> (safe_relative d \<and> in_directories ws (path_parts d) \<and> map_of ws (path_parts d) = None)"
      using resolve_safe_path_iff [of ws "''destination_path''" True d ws "path_parts d"] by force
    with Inl Some show ?thesis by (auto simp: resolve_destination_def)
  next
    case (Inr wp)
    then obtain q where wp: "wp = (ws, q)" and q: "q = path_parts d" "safe_relative d" "in_directories ws q"
      using resolve_safe_path_iff [of ws "''destination_path''" True d] by (cases wp) auto
    with Inr Some parent [OF q(3)] blank [OF q(2)] show ?thesis by (auto simp: resolve_destination_def)
  qed
qed (simp add: resolve_destination_def)

text \<open>
  C29: A file operation on a worktree directory succeeds exactly if it is known, its paths are relative without parent
  components and pass only through directories, the source is a regular file and, for a move, nothing is at the
  destination. Then the file is gone, or is at the destination with its bytes, and every other path is as before;
  otherwise nothing changes.
\<close>

theorem file_management_exact:
  "case manage_worktree_file None (DirRoot ws) operation fpath destination_path of
     (Inl e, w) \<Rightarrow> \<not> may_manage ws operation fpath destination_path \<and> w = DirRoot ws
   | (Inr d, w) \<Rightarrow> may_manage ws operation fpath destination_path \<and>
       (\<exists>ws'. w = DirRoot ws' \<and> map_of ws' =
          (if operation = ''delete'' then (map_of ws)(path_parts fpath := None)
           else (map_of ws)(path_parts fpath := None, path_parts (the destination_path) := map_of ws (path_parts fpath))))"
proof (cases "operation \<in> set FILE_OPERATIONS \<and> (\<exists>b. resolve_safe_path (DirRoot ws) ''file_path'' False fpath = Inr (ws, path_parts fpath)
    \<and> map_of ws (path_parts fpath) = Some (Regular b))")
  case False
  then have "\<not> may_manage ws operation fpath destination_path"
    by (auto simp: may_manage_def resolve_safe_path_iff)
  moreover have "\<exists>e. manage_worktree_file None (DirRoot ws) operation fpath destination_path = (Inl e, DirRoot ws)"
    using False resolve_safe_path_iff [of ws "''file_path''" False fpath]
    by (auto simp: manage_worktree_file_def split: entry.splits option.splits sum.splits)
  ultimately show ?thesis by auto
next
  case True
  then obtain b where src: "resolve_safe_path (DirRoot ws) ''file_path'' False fpath = Inr (ws, path_parts fpath)"
    "map_of ws (path_parts fpath) = Some (Regular b)" and op: "operation \<in> set FILE_OPERATIONS" by blast
  have ok: "safe_relative fpath" "in_directories ws (path_parts fpath)" using src(1) by (simp_all add: resolve_safe_path_iff)
  then have ne: "path_parts fpath \<noteq> []" by (simp add: safe_relative_def)
  show ?thesis
  proof (cases "operation = ''delete''")
    case True
    with src op ok show ?thesis
      by (simp add: manage_worktree_file_def may_manage_def unlink_def delete_conv')
  next
    case False
    show ?thesis
    proof (cases "resolve_destination (DirRoot ws) operation destination_path (path_parts fpath)")
      case (Inl e)
      then have "\<not> may_manage ws operation fpath destination_path"
        using resolve_destination_iff [OF src(2) ne, of operation destination_path] False by (auto simp: may_manage_def)
      with Inl False src op show ?thesis by (simp add: manage_worktree_file_def)
    next
      case (Inr p)
      then obtain d where d: "destination_path = Some d" "p = path_parts d" "safe_relative d" "in_directories ws p" "map_of ws p = None"
        using resolve_destination_iff [OF src(2) ne, of operation destination_path] by auto
      with False src op ok Inr show ?thesis
        by (auto simp: manage_worktree_file_def may_manage_def unlink_def delete_conv' map_add_def fun_eq_iff split: option.splits)
    qed
  qed
qed

end
