(* ===== verification/Shadow_Recorder.thy ===== *)
theory Shadow_Recorder
  imports Execution_Store
begin

text \<open>
  \<^verbatim>\<open>execution/shadow.py\<close>: a recorder that follows the actions of another workflow runner in an execution of its own. An
  action is its kind, if it has one, and the value its signature is made of. The hash of a signature is a
  parameter.
\<close>

record shadow_action =
  sa_kind :: "string option"
  sa_data :: pyval

record shadow_recorder =
  sh_store :: file_store
  sh_execution_id :: string
  sh_actor_id :: string
  sh_state :: execution_state
  sh_action_ids :: "(string \<times> string) list"

definition load_or_create :: "file_store \<Rightarrow> string \<Rightarrow> string \<Rightarrow> phase_type \<Rightarrow> execution_state result \<times> file_store" where
  "load_or_create st eid pid phase =
     (case load st eid of
        (Inl (FileNotFoundError _), st1) \<Rightarrow>
          (case create st1 eid pid phase OBSERVE of Inl e \<Rightarrow> (Inl e, st1) | Inr (s, st2) \<Rightarrow> (Inr s, st2))
      | (res, st1) \<Rightarrow> (res, st1))"

definition new_shadow_recorder ::
    "file_store \<Rightarrow> string \<Rightarrow> string \<Rightarrow> string \<Rightarrow> phase_type \<Rightarrow> shadow_recorder result \<times> file_store" where
  "new_shadow_recorder st eid pid actor phase =
     (case load_or_create st eid pid phase of
        (Inl e, st1) \<Rightarrow> (Inl e, st1)
      | (Inr s, st1) \<Rightarrow> (Inr \<lparr>sh_store = st1, sh_execution_id = eid, sh_actor_id = actor, sh_state = s, sh_action_ids = []\<rparr>, st1))"

definition action_signature :: "shadow_action \<Rightarrow> string" where
  "action_signature act = json_sorted (sa_data act)"

text \<open>\<^verbatim>\<open>self._action_ids.setdefault(signature, ...)\<close>: the known identifier, or a new one from the next sequence number.\<close>

definition next_action_id :: "shadow_recorder \<Rightarrow> string" where
  "next_action_id r = sh_execution_id r @ ''-action-'' @ show_int (event_sequence (sh_state r) + 1)"

definition action_id_for :: "shadow_recorder \<Rightarrow> string \<Rightarrow> string" where
  "action_id_for r signature = (case map_of (sh_action_ids r) signature of Some i \<Rightarrow> i | None \<Rightarrow> next_action_id r)"

definition shadow_payload :: "(string \<Rightarrow> string) \<Rightarrow> shadow_recorder \<Rightarrow> shadow_action \<Rightarrow> string option \<Rightarrow> pydict" where
  "shadow_payload sha r act err =
     [(''action_instance_id'', PStr (action_id_for r (action_signature act))),
      (''kind'', PStr (case sa_kind act of Some k \<Rightarrow> k | None \<Rightarrow> ''unknown'')), (''actor_id'', PStr (sh_actor_id r)),
      (''phase_type'', PStr (phase_value (current_phase (sh_state r)))),
      (''arguments_fingerprint'', PStr (sha (action_signature act)))]
     @ (case err of None \<Rightarrow> [] | Some code \<Rightarrow> [(''error_code'', PStr code), (''status'', PStr ''correctable_error'')])"

definition shadow_event :: "shadow_recorder \<Rightarrow> execution_event_type \<Rightarrow> pydict \<Rightarrow> execution_event" where
  "shadow_event r ty pl =
     \<lparr>ev_execution_id = sh_execution_id r, ev_sequence = event_sequence (sh_state r) + 1,
      expected_state_version = state_version (sh_state r), event_type = ty, payload = pl,
      event_id = sh_execution_id r @ ''-event-'' @ show_int (event_sequence (sh_state r) + 1)\<rparr>"

definition record_action ::
    "(string \<Rightarrow> string) \<Rightarrow> execution_event_type \<Rightarrow> shadow_action \<Rightarrow> string option \<Rightarrow> shadow_recorder \<Rightarrow> unit result \<times> shadow_recorder" where
  "record_action sha ty act err r =
     (let signature = action_signature act;
          r1 = (if map_of (sh_action_ids r) signature = None
                then r\<lparr>sh_action_ids := sh_action_ids r @ [(signature, next_action_id r)]\<rparr> else r) in
      case append_events (sh_store r1) (sh_execution_id r1) (state_version (sh_state r1))
          [shadow_event r1 ty (shadow_payload sha r act err)] of
        Inl e \<Rightarrow> (Inl e, r1)
      | Inr (s, st) \<Rightarrow> (Inr (), r1\<lparr>sh_store := st, sh_state := s\<rparr>))"

section \<open>The recorder follows its store\<close>

definition shadow_synced :: "shadow_recorder \<Rightarrow> bool" where
  "shadow_synced r \<longleftrightarrow> store_inv (sh_store r) \<and> canonical (sh_execution_id r) \<and> check_execution_id (sh_execution_id r) = Inr () \<and>
     stored_state (sh_store r) (sh_execution_id r) = Some (sh_state r)"

lemma shadow_event_ids: "canonical (sh_execution_id r) \<Longrightarrow> ids_ok [shadow_event r ty pl]"
  using canonical_numbered [where t = "''-event-''"] by (simp add: ids_ok_def shadow_event_def)

lemma record_action_synced:
  assumes "shadow_synced r" "record_action sha ty act err r = (res, r')"
  shows "shadow_synced r' \<and> map_of (sh_action_ids r') (action_signature act) = Some (action_id_for r (action_signature act)) \<and>
    (case res of Inl e \<Rightarrow> sh_store r' = sh_store r \<and> sh_state r' = sh_state r | Inr _ \<Rightarrow> event_sequence (sh_state r') = event_sequence (sh_state r) + 1)"
proof -
  define r1 where "r1 = (if map_of (sh_action_ids r) (action_signature act) = None
     then r\<lparr>sh_action_ids := sh_action_ids r @ [(action_signature act, next_action_id r)]\<rparr> else r)"
  have same: "sh_store r1 = sh_store r" "sh_execution_id r1 = sh_execution_id r" "sh_state r1 = sh_state r" by (simp_all add: r1_def)
  have known: "map_of (sh_action_ids r1) (action_signature act) = Some (action_id_for r (action_signature act))"
    by (auto simp: r1_def action_id_for_def map_add_def)
  let ?es = "[shadow_event r1 ty (shadow_payload sha r act err)]"
  show ?thesis
  proof (cases "append_events (sh_store r1) (sh_execution_id r1) (state_version (sh_state r1)) ?es")
    case (Inl e)
    with assms known same show ?thesis
      by (auto simp: record_action_def r1_def [symmetric] shadow_synced_def Let_def)
  next
    case (Inr p)
    obtain s st where a: "append_events (sh_store r1) (sh_execution_id r1) (state_version (sh_state r1)) ?es = Inr (s, st)"
      using Inr by (cases p) auto
    have inv: "store_inv (sh_store r1)" and eid: "canonical (sh_execution_id r1)" and chk: "check_execution_id (sh_execution_id r1) = Inr ()"
      and cur: "stored_state (sh_store r1) (sh_execution_id r1) = Some (sh_state r1)"
      using assms(1) same by (simp_all add: shadow_synced_def)
    note ids = shadow_event_ids [OF eid, of ty "shadow_payload sha r act err"]
    have "reduce_execution_events (sh_state r1) ?es = Inr s"
      using file_store.commit_base [OF inv ids a] cur by auto
    then have "event_sequence s = event_sequence (sh_state r1) + 1" using reduce_events_counts by force
    moreover have res: "res = Inr ()" and r': "r' = r1\<lparr>sh_store := st, sh_state := s\<rparr>"
      using assms(2) a by (auto simp: record_action_def r1_def [symmetric] Let_def)
    ultimately show ?thesis
      using known same eid chk file_store.commit_inv [OF inv ids a] file_store.commit_current [OF inv ids a]
      by (simp add: res r' shadow_synced_def)
  qed
qed

inductive shadow_reachable :: "(string \<Rightarrow> string) \<Rightarrow> shadow_recorder \<Rightarrow> bool" for sha where
  shadow_open: "store_reachable st \<Longrightarrow> canonical eid \<Longrightarrow> canonical pid \<Longrightarrow>
    new_shadow_recorder st eid pid actor phase = (Inr r, st') \<Longrightarrow> shadow_reachable sha r"
| shadow_record: "shadow_reachable sha r \<Longrightarrow> record_action sha ty act err r = (res, r') \<Longrightarrow> shadow_reachable sha r'"

lemma shadow_opened:
  assumes "store_reachable st" "canonical eid" "canonical pid" "new_shadow_recorder st eid pid actor phase = (Inr r, st')"
  shows "shadow_synced r"
proof -
  have inv: "store_inv st" by (rule store_reachable_inv [OF assms(1)])
  have d: "journal_file (st eid) = None" using inv dir_inv_journal by (auto simp: store_inv_def)
  have load: "load st eid = (bind_r (check_execution_id eid) (\<lambda>_. read_state (st eid)), st)"
    using d by (auto simp: load_def load_dir_def recover_transaction_def split: sum.splits)
  have made: "shadow_synced \<lparr>sh_store = st2, sh_execution_id = eid, sh_actor_id = actor, sh_state = s, sh_action_ids = []\<rparr>"
    if "create st eid pid phase OBSERVE = Inr (s, st2)" for s st2
  proof -
    have "holds (st2 eid) s []" using create_holds [OF that assms(2,3) d] by blast
    moreover have "store_inv st2" using store_reachable_inv st_create [OF assms(1) that assms(2,3)] by blast
    moreover have "check_execution_id eid = Inr ()" using that by (auto simp: create_def Let_def split: if_splits)
    ultimately show ?thesis using assms(2) read_state_holds by (auto simp: shadow_synced_def stored_state_def holds_def)
  qed
  have found: "shadow_synced \<lparr>sh_store = st, sh_execution_id = eid, sh_actor_id = actor, sh_state = s, sh_action_ids = []\<rparr>"
    if "check_execution_id eid = Inr ()" "read_state (st eid) = Inr s" for s
    using that inv assms(2) by (simp add: shadow_synced_def stored_state_def)
  show ?thesis
    using assms(4) made found
    by (auto simp: new_shadow_recorder_def load_or_create_def load bind_r_def split: sum.splits exc.splits prod.splits)
qed

lemma shadow_reachable_synced: "shadow_reachable sha r \<Longrightarrow> shadow_synced r"
  by (induction rule: shadow_reachable.induct) (auto intro: shadow_opened dest: record_action_synced)

text \<open>
  Along every run of a shadow recorder, opened on any reachable store with canonical identifiers and
  fed any actions, failed appends included, its state in memory is the one its store holds, and that
  state verifies against the event log.
\<close>

theorem shadow_follows_store:
  assumes "shadow_reachable sha r"
  shows "stored_state (sh_store r) (sh_execution_id r) = Some (sh_state r)
    \<and> verify (sh_store r) (sh_execution_id r) = (Inr (sh_state r), sh_store r)"
  using shadow_reachable_synced [OF assms] stored_load_verify by (simp add: shadow_synced_def)

definition sample_shadow :: shadow_recorder where
  "sample_shadow = \<lparr>sh_store = sample_store, sh_execution_id = ''e1'', sh_actor_id = ''a'', sh_state = sample_initial, sh_action_ids = []\<rparr>"

lemma sample_shadow_reachable: "shadow_reachable sha sample_shadow"
proof (rule shadow_open [OF sample_store_reachable])
  have "check_execution_id ''e1'' = Inr ()" by code_simp
  with stored_load_verify [OF store_reachable_inv [OF sample_store_reachable] sample_stored]
  have "load sample_store ''e1'' = (Inr sample_initial, sample_store)" by blast
  then show "new_shadow_recorder sample_store ''e1'' ''p'' ''a'' INTAKE = (Inr sample_shadow, sample_store)"
    by (simp add: new_shadow_recorder_def load_or_create_def sample_shadow_def)
qed (code_simp, code_simp)

theorem shadow_follows_store_witness:
  "stored_state (sh_store sample_shadow) ''e1'' = Some sample_initial"
  using shadow_follows_store [OF sample_shadow_reachable [of id]] by (simp add: sample_shadow_def)

end
