(* ===== verification/Workflow_Relationships.thy ===== *)
theory Workflow_Relationships
  imports Task_Validation
begin

text \<open>
  The relationship invariants of durable workflow metadata (\<^verbatim>\<open>core/workflow_relationships.py\<close>): every
  operation of the file. The state files are given with what reading and parsing them yields, and the
  lookup of proposals (\<^verbatim>\<open>core/spec_context.py\<close>) is a parameter. The theorem says what a successful
  report means; two state files can never both declare a required invariant.
\<close>

section \<open>Issues and reports\<close>

record relationship_issue =
  ri_code :: string
  ri_message :: string
  ri_path :: "string option"

definition issue_at :: "string \<Rightarrow> string \<Rightarrow> string \<Rightarrow> relationship_issue" where
  "issue_at code message path = \<lparr>ri_code = code, ri_message = message, ri_path = Some path\<rparr>"

record relationship_report =
  rr_successful :: bool
  rr_checked :: nat
  rr_issues :: "relationship_issue list"

definition relationship_report_to_data :: "relationship_report \<Rightarrow> pydict" where
  "relationship_report_to_data rep =
     [(''validation_successful'', PBool (rr_successful rep)), (''relationships_checked'', PInt (int (rr_checked rep))),
      (''issues'', PList (map (\<lambda>i. PDict ([(''code'', PStr (ri_code i)), (''message'', PStr (ri_message i))] @ entry_if ''path'' (ri_path i)))
        (rr_issues rep)))]"

text \<open>A declared item with the file and the position where it stands.\<close>

type_synonym placed = "string \<times> nat \<times> pydict"

definition item_path :: "string \<Rightarrow> string \<Rightarrow> nat \<Rightarrow> string" where
  "item_path path section i = path @ '':'' @ section @ ''['' @ show_nat i @ '']''"

section \<open>Reading a state file\<close>

text \<open>A state file is the text of the error of reading it, or the loaded YAML value.\<close>

type_synonym state_file = "string \<times> (string + pyval)"

definition listed :: "pydict \<Rightarrow> string \<Rightarrow> pyval list" where
  "listed d key = (case get_default d key (PList []) of PList xs \<Rightarrow> xs | _ \<Rightarrow> [])"

definition list_issue :: "string \<Rightarrow> pydict \<Rightarrow> string \<Rightarrow> relationship_issue list" where
  "list_issue path d key =
     (if is_array (get_default d key (PList [])) then []
      else [issue_at (''invalid_'' @ key) (key @ '' must be a list.'') (path @ '':'' @ key)])"

definition placed_items :: "string \<Rightarrow> pyval list \<Rightarrow> placed list" where
  "placed_items path items = List.map_filter (\<lambda>(i, v). case v of PDict d \<Rightarrow> Some (path, i, d) | _ \<Rightarrow> None) (List.enumerate 0 items)"

definition item_issues :: "string \<Rightarrow> string \<Rightarrow> string \<Rightarrow> string \<Rightarrow> pyval list \<Rightarrow> relationship_issue list" where
  "item_issues code message path section items =
     List.map_filter (\<lambda>(i, v). if is_mapping v then None else Some (issue_at code message (item_path path section i))) (List.enumerate 0 items)"

definition declared_ids :: "pyval list \<Rightarrow> string list" where
  "declared_ids items = List.map_filter (\<lambda>v. case v of
       PDict d \<Rightarrow> (case get_item d ''id'' of PStr s \<Rightarrow> if strip s = [] then None else Some (strip s) | _ \<Rightarrow> None)
     | _ \<Rightarrow> None) items"

definition read_state_file ::
    "string list \<Rightarrow> state_file \<Rightarrow> relationship_issue list \<times> placed list \<times> placed list" where
  "read_state_file required entry =
     (case entry of
        (path, Inl msg) \<Rightarrow> ([issue_at ''invalid_workflow_state'' msg path], [], [])
      | (path, Inr (PDict d)) \<Rightarrow>
          (let invs = listed d ''invariants''; rels = listed d ''relationships'';
               missing = sorted_set (filter (\<lambda>i. i \<notin> set (declared_ids invs)) required) in
           (list_issue path d ''invariants'' @ list_issue path d ''relationships''
            @ item_issues ''invalid_relationship_invariant'' ''Each relationship invariant must be a mapping.'' path ''invariants'' invs
            @ map (\<lambda>i. issue_at ''missing_required_relationship_invariant'' (''Required relationship invariant is not declared: '' @ i)
                (path @ '':invariants'')) missing
            @ item_issues ''invalid_relationship'' ''Each workflow relationship must be a mapping.'' path ''relationships'' rels,
            placed_items path invs, placed_items path rels))
      | (path, Inr _) \<Rightarrow> ([issue_at ''invalid_workflow_state'' ''Workflow state must be a mapping.'' path], [], []))"

section \<open>Relationships\<close>

definition required_field :: "pydict \<Rightarrow> string \<Rightarrow> string option" where
  "required_field d key = (case get_item d key of PStr s \<Rightarrow> if strip s = [] then None else Some (strip s) | _ \<Rightarrow> None)"

definition field_issue :: "placed \<Rightarrow> string \<Rightarrow> relationship_issue list" where
  "field_issue item key =
     (case item of (path, i, d) \<Rightarrow>
        if required_field d key = None
        then [issue_at ''missing_relationship_field'' (''Relationship field '' @ py_repr key @ '' must be a non-empty string.'')
               (item_path path ''relationships'' i @ ''.'' @ key)]
        else [])"

definition target_issue :: "(string \<Rightarrow> bool) option \<Rightarrow> placed \<Rightarrow> relationship_issue list" where
  "target_issue pr_exists item =
     (case (pr_exists, item) of
        (Some known, (path, i, d)) \<Rightarrow>
          (case (get_item d ''target_type'', get_item d ''target_id'') of
             (PStr ty, PStr tid) \<Rightarrow>
               if ty = ''proposed_pr'' \<and> \<not> known tid
               then [issue_at ''missing_workflow_target''
                 (''Workflow relationship target proposed_pr '' @ py_repr tid @ '' does not '' @
                  ''resolve to a proposed PR specification in docs/proposals.'') (item_path path ''relationships'' i @ ''.target_id'')]
               else []
           | _ \<Rightarrow> [])
      | _ \<Rightarrow> [])"

definition relation_issues :: "(string \<Rightarrow> bool) option \<Rightarrow> placed \<Rightarrow> relationship_issue list" where
  "relation_issues pr_exists item =
     concat (map (field_issue item) [''invariant_id'', ''relationship'', ''source_type'', ''source_id'', ''target_type'', ''target_id''])
     @ (case item of (path, i, d) \<Rightarrow>
          if map_of d ''target_path'' \<noteq> None
          then [issue_at ''file_pointer_forbidden'' ''Workflow relationships must use target_id, not target_path.''
                 (item_path path ''relationships'' i @ ''.target_path'')]
          else [])
     @ target_issue pr_exists item"

section \<open>Invariants\<close>

definition endswith :: "string \<Rightarrow> string \<Rightarrow> bool" where
  "endswith s t \<longleftrightarrow> startswith (rev s) (rev t)"

definition is_placeholder :: "string \<Rightarrow> bool" where
  "is_placeholder s \<longleftrightarrow> startswith s ''<'' \<and> endswith s ''>''"

text \<open>\<^verbatim>\<open>expected_by_id\<close>: a repeated identifier takes the last item.\<close>

definition expected_for :: "pydict list \<Rightarrow> string \<Rightarrow> pydict option" where
  "expected_for required iid =
     map_of (rev (List.map_filter (\<lambda>d. case get_item d ''id'' of PStr s \<Rightarrow> if s = [] then None else Some (s, d) | _ \<Rightarrow> None) required)) iid"

definition TEMPLATE_KEYS :: "string list" where
  "TEMPLATE_KEYS = [''relationship'', ''source_type'', ''target_type'', ''cardinality'']"

definition mismatch_issue :: "pydict \<Rightarrow> string \<Rightarrow> placed \<Rightarrow> string \<Rightarrow> relationship_issue list" where
  "mismatch_issue want iid item key =
     (case (get_item want key, item) of
        (PStr w, (path, i, d)) \<Rightarrow>
          if \<not> is_placeholder w \<and> get_item d key \<noteq> PStr w
          then [issue_at ''relationship_invariant_mismatch''
            (''Invariant '' @ py_repr iid @ '' has '' @ key @ ''='' @ repr_val (get_item d key) @ ''; '' @
             ''the template requires '' @ py_repr w @ ''.'') (item_path path ''invariants'' i @ ''.'' @ key)]
          else []
      | _ \<Rightarrow> [])"

definition mismatch_issues :: "pydict list \<Rightarrow> string \<Rightarrow> placed \<Rightarrow> relationship_issue list" where
  "mismatch_issues required iid item =
     (case expected_for required iid of
        None \<Rightarrow> []
      | Some want \<Rightarrow> concat (map (mismatch_issue want iid item) TEMPLATE_KEYS))"

text \<open>The relationships that refer to an invariant, of its kind if that is given.\<close>

definition matching_relations :: "placed list \<Rightarrow> string \<Rightarrow> string option \<Rightarrow> placed list" where
  "matching_relations rels iid kind =
     filter (\<lambda>(path, i, d). required_field d ''invariant_id'' = Some iid \<and>
       (case kind of None \<Rightarrow> True | Some k \<Rightarrow> get_item d ''relationship'' = PStr k)) rels"

definition cardinality_issues :: "string \<Rightarrow> pyval \<Rightarrow> nat \<Rightarrow> string \<Rightarrow> relationship_issue list" where
  "cardinality_issues iid crd count path =
     (if crd = PStr ''exactly_one'' \<and> count \<noteq> 1 then
        [issue_at ''relationship_cardinality_failed'' (''Invariant '' @ py_repr iid @ '' requires exactly one relationship; '' @
          ''found '' @ show_nat count @ ''.'') path]
      else if crd = PStr ''at_least_one'' \<and> count < 1 then
        [issue_at ''relationship_cardinality_failed'' (''Invariant '' @ py_repr iid @ '' requires at least one relationship; '' @
          ''found none.'') path]
      else if crd = PStr ''at_most_one'' \<and> 1 < count then
        [issue_at ''relationship_cardinality_failed'' (''Invariant '' @ py_repr iid @ '' allows at most one relationship; '' @
          ''found '' @ show_nat count @ ''.'') path]
      else [])"

definition CARDINALITIES :: "string list" where
  "CARDINALITIES = [''exactly_one'', ''at_least_one'', ''at_most_one'']"

fun check_invariants :: "pydict list \<Rightarrow> placed list \<Rightarrow> string set \<Rightarrow> placed list \<Rightarrow> relationship_issue list result" where
  "check_invariants required rels seen [] = Inr []"
| "check_invariants required rels seen ((path, i, d) # items) =
     (let crd = get_default d ''cardinality'' (PStr ''exactly_one'');
          fields = field_issue (path, i, d) ''id'' @ field_issue (path, i, d) ''relationship'' in
      bind_r (set_member crd CARDINALITIES) (\<lambda>known.
      let bad_card = (if known then [] else
            [issue_at ''invalid_cardinality'' ''cardinality must be exactly_one, at_least_one, or at_most_one.''
              (item_path path ''invariants'' i @ ''.cardinality'')]) in
      case required_field d ''id'' of
        None \<Rightarrow> bind_r (check_invariants required rels seen items) (\<lambda>more. Inr (fields @ bad_card @ more))
      | Some iid \<Rightarrow>
          if iid \<in> seen then
            bind_r (check_invariants required rels seen items) (\<lambda>more.
              Inr (fields @ bad_card @ [issue_at ''duplicate_relationship_invariant'' (''Relationship invariant id is duplicated: '' @ iid)
                (item_path path ''invariants'' i @ ''.id'')] @ more))
          else
            bind_r (check_invariants required rels (insert iid seen) items) (\<lambda>more.
              Inr (fields @ bad_card @ mismatch_issues required iid (path, i, d)
                @ cardinality_issues iid crd (length (matching_relations rels iid (required_field d ''relationship'')))
                    (item_path path ''invariants'' i) @ more))))"

definition validate_workflow_relationships ::
    "string list \<Rightarrow> pydict list \<Rightarrow> (string \<Rightarrow> bool) option \<Rightarrow> state_file list \<Rightarrow> relationship_report result" where
  "validate_workflow_relationships required_ids required pr_exists files =
     (if files = [] then
        Inr \<lparr>rr_successful = False, rr_checked = 0, rr_issues = [\<lparr>ri_code = ''missing_workflow_state'',
          ri_message = ''No durable workflow state files were found in the requested '' @ ''scope.'', ri_path = None\<rparr>]\<rparr>
      else
        let readings = map (read_state_file required_ids) files;
            invs = concat (map (fst \<circ> snd) readings);
            rels = concat (map (snd \<circ> snd) readings) in
        bind_r (check_invariants required rels {} invs) (\<lambda>inv_issues.
        let issues = concat (map fst readings) @ concat (map (relation_issues pr_exists) rels) @ inv_issues in
        Inr \<lparr>rr_successful = (issues = []), rr_checked = length rels, rr_issues = issues\<rparr>))"


section \<open>What a successful report means\<close>

definition invariant_id_of :: "placed \<Rightarrow> string option" where
  "invariant_id_of item = (case item of (path, i, d) \<Rightarrow> required_field d ''id'')"

definition cardinality_holds :: "pyval \<Rightarrow> nat \<Rightarrow> bool" where
  "cardinality_holds crd n \<longleftrightarrow>
     crd = PStr ''exactly_one'' \<and> n = 1 \<or> crd = PStr ''at_least_one'' \<and> 1 \<le> n \<or> crd = PStr ''at_most_one'' \<and> n \<le> 1"

definition template_agrees :: "pydict list \<Rightarrow> string \<Rightarrow> pydict \<Rightarrow> bool" where
  "template_agrees required iid d \<longleftrightarrow>
     (\<forall>want. expected_for required iid = Some want \<longrightarrow>
       (\<forall>key \<in> set TEMPLATE_KEYS. \<forall>w.
          get_item want key = PStr w \<longrightarrow> \<not> is_placeholder w \<longrightarrow> get_item d key = PStr w))"

definition invariant_holds :: "pydict list \<Rightarrow> placed list \<Rightarrow> placed \<Rightarrow> bool" where
  "invariant_holds required rels item \<longleftrightarrow>
     (case item of (path, i, d) \<Rightarrow>
        \<exists>iid kind. required_field d ''id'' = Some iid \<and> required_field d ''relationship'' = Some kind
          \<and> template_agrees required iid d
          \<and> cardinality_holds (get_default d ''cardinality'' (PStr ''exactly_one''))
              (length (matching_relations rels iid (Some kind))))"

definition relation_holds :: "(string \<Rightarrow> bool) option \<Rightarrow> placed \<Rightarrow> bool" where
  "relation_holds pr_exists item \<longleftrightarrow>
     (case item of (path, i, d) \<Rightarrow>
        (\<forall>key \<in> set [''invariant_id'', ''relationship'', ''source_type'', ''source_id'', ''target_type'', ''target_id''].
           required_field d key \<noteq> None)
        \<and> map_of d ''target_path'' = None
        \<and> (\<forall>known tid. pr_exists = Some known \<longrightarrow> get_item d ''target_type'' = PStr ''proposed_pr''
             \<longrightarrow> get_item d ''target_id'' = PStr tid \<longrightarrow> known tid))"

definition state_file_holds :: "string list \<Rightarrow> state_file \<Rightarrow> bool" where
  "state_file_holds required_ids entry \<longleftrightarrow>
     (\<exists>path d invs rels. entry = (path, Inr (PDict d))
        \<and> get_default d ''invariants'' (PList []) = PList invs \<and> get_default d ''relationships'' (PList []) = PList rels
        \<and> list_all is_mapping invs \<and> list_all is_mapping rels \<and> set required_ids \<subseteq> set (declared_ids invs))"

definition declared_invariants :: "state_file list \<Rightarrow> placed list" where
  "declared_invariants files = concat (map (\<lambda>f. fst (snd (read_state_file [] f))) files)"

definition declared_relationships :: "state_file list \<Rightarrow> placed list" where
  "declared_relationships files = concat (map (\<lambda>f. snd (snd (read_state_file [] f))) files)"

lemma read_items:
  "fst (snd (read_state_file required f)) = fst (snd (read_state_file [] f))"
  "snd (snd (read_state_file required f)) = snd (snd (read_state_file [] f))"
  by (cases f, auto simp: read_state_file_def Let_def split: sum.splits pyval.splits)+

lemma field_issue_Nil: "field_issue (path, i, d) key = [] \<longleftrightarrow> required_field d key \<noteq> None"
  by (simp add: field_issue_def)

lemma target_issue_Nil:
  "target_issue pr_exists (path, i, d) = [] \<longleftrightarrow>
     (\<forall>known tid. pr_exists = Some known \<longrightarrow> get_item d ''target_type'' = PStr ''proposed_pr''
        \<longrightarrow> get_item d ''target_id'' = PStr tid \<longrightarrow> known tid)"
  by (cases pr_exists; cases "get_item d ''target_type''"; cases "get_item d ''target_id''")
     (simp_all add: target_issue_def)

lemma relation_issues_Nil: "relation_issues pr_exists item = [] \<longleftrightarrow> relation_holds pr_exists item"
  by (cases item) (simp add: relation_issues_def relation_holds_def field_issue_Nil target_issue_Nil)

lemma mismatch_issue_Nil:
  "mismatch_issue want iid (path, i, d) key = [] \<longleftrightarrow>
     (\<forall>w. get_item want key = PStr w \<longrightarrow> \<not> is_placeholder w \<longrightarrow> get_item d key = PStr w)"
  by (cases "get_item want key") (simp_all add: mismatch_issue_def)

lemma mismatch_issues_Nil: "mismatch_issues required iid (path, i, d) = [] \<longleftrightarrow> template_agrees required iid d"
  by (cases "expected_for required iid")
     (simp_all add: mismatch_issues_def template_agrees_def mismatch_issue_Nil)

lemma cardinality_issues_Nil:
  assumes "crd \<in> PStr ` set CARDINALITIES"
  shows "cardinality_issues iid crd n path = [] \<longleftrightarrow> cardinality_holds crd n"
  proof -
  consider "crd = PStr ''exactly_one''" | "crd = PStr ''at_least_one''" | "crd = PStr ''at_most_one''"
    using assms unfolding CARDINALITIES_def by auto
  then show ?thesis
    by cases (simp_all add: cardinality_issues_def cardinality_holds_def not_less)
qed

lemma item_issues_Nil: "item_issues code message path section items = [] \<longleftrightarrow> list_all is_mapping items"
proof -
  have "List.map_filter (\<lambda>(i, v). if is_mapping v then None else Some (g i)) (List.enumerate n items) = []
      \<longleftrightarrow> list_all is_mapping items" for n and g :: "nat \<Rightarrow> relationship_issue"
    by (induction items arbitrary: n) (auto simp: List.map_filter_simps)
  then show ?thesis by (simp add: item_issues_def)
qed


lemma listed_list: "get_default d key (PList []) = PList xs \<Longrightarrow> listed d key = xs"
  by (simp add: listed_def)

lemma list_issue_Nil: "list_issue path d key = [] \<longleftrightarrow> (\<exists>xs. get_default d key (PList []) = PList xs)"
  by (cases "get_default d key (PList [])") (simp_all add: list_issue_def)

lemma file_issues_Nil: "fst (read_state_file required_ids f) = [] \<longleftrightarrow> state_file_holds required_ids f"
proof -
  obtain path c where f: "f = (path, c)" by (cases f)
  show ?thesis
  proof (cases "\<exists>d. c = Inr (PDict d)")
    case False
    then show ?thesis
      by (cases c; cases "projr c") (auto simp: f read_state_file_def state_file_holds_def)
  next
    case True
    then obtain d where c: "c = Inr (PDict d)" by blast
    have "sorted_set (filter (\<lambda>i. i \<notin> set (declared_ids invs)) required_ids) = []
        \<longleftrightarrow> set required_ids \<subseteq> set (declared_ids invs)" for invs
      by (auto simp flip: set_empty simp: sorted_set_def)
    then show ?thesis
      by (auto simp: f c read_state_file_def state_file_holds_def Let_def list_issue_Nil item_issues_Nil listed_list)
  qed
qed

lemma fresh_head:
  "x \<notin> f ` seen \<Longrightarrow> distinct (x # xs) \<and> f ` seen \<inter> set (x # xs) = {}
     \<longleftrightarrow> distinct xs \<and> insert x (f ` seen) \<inter> set xs = {}"
  by auto

lemma invariant_issues_Nil:
  assumes "check_invariants required rels seen items = Inr iss"
  shows "iss = [] \<longleftrightarrow> list_all (invariant_holds required rels) items \<and> distinct (map invariant_id_of items)
    \<and> Some ` seen \<inter> set (map invariant_id_of items) = {}"
  using assms
proof (induction required rels seen items arbitrary: iss rule: check_invariants.induct)
  case (1 required rels seen)
  then show ?case by simp
next
  case (2 required rels seen path i d items)
  let ?crd = "get_default d ''cardinality'' (PStr ''exactly_one'')"
  obtain known where known: "set_member ?crd CARDINALITIES = Inr known"
    using "2.prems" unfolding check_invariants.simps Let_def bind_r_eq_Inr by blast
  have known_iff: "known \<longleftrightarrow> ?crd \<in> PStr ` set CARDINALITIES"
    using known by (cases ?crd) (auto simp: set_member_def split: if_splits)
  have not_known: "cardinality_holds ?crd n \<Longrightarrow> known" for n
    using known_iff by (auto simp: cardinality_holds_def CARDINALITIES_def)
  show ?case
  proof (cases "required_field d ''id''")
    case None
    then have "iss \<noteq> []"
      using "2.prems" known by (auto simp: Let_def field_issue_Nil)
    with None show ?thesis by (simp add: invariant_holds_def)
  next
    case (Some iid)
    show ?thesis
    proof (cases "iid \<in> seen")
      case True
      with "2.prems" known Some have "iss \<noteq> []" by (auto simp: Let_def)
      with Some True show ?thesis by (auto simp: invariant_id_of_def)
    next
      case False
      then obtain rest where rest: "check_invariants required rels (insert iid seen) items = Inr rest"
        and iss: "iss = [] \<longleftrightarrow> (required_field d ''relationship'' \<noteq> None \<and> known \<and> template_agrees required iid d
          \<and> cardinality_issues iid ?crd (length (matching_relations rels iid (required_field d ''relationship'')))
              (item_path path ''invariants'' i) = []) \<and> rest = []"
        using "2.prems" known Some by (auto simp: Let_def field_issue_Nil mismatch_issues_Nil)
      have IH: "rest = [] \<longleftrightarrow> list_all (invariant_holds required rels) items \<and> distinct (map invariant_id_of items)
          \<and> insert (Some iid) (Some ` seen) \<inter> set (map invariant_id_of items) = {}"
        using "2.IH"(3) [OF refl refl known refl Some False rest] unfolding image_insert .
      have here: "(required_field d ''relationship'' \<noteq> None \<and> known \<and> template_agrees required iid d
          \<and> cardinality_issues iid ?crd (length (matching_relations rels iid (required_field d ''relationship'')))
              (item_path path ''invariants'' i) = []) \<longleftrightarrow> invariant_holds required rels (path, i, d)"
        using Some not_known known_iff
        by (cases "required_field d ''relationship''"; cases known) (simp_all add: invariant_holds_def cardinality_issues_Nil, blast)
      have ids: "invariant_id_of (path, i, d) = Some iid" "Some iid \<notin> Some ` seen"
        using Some False by (auto simp: invariant_id_of_def)
      show ?thesis
        unfolding iss here IH using fresh_head [OF ids(2)] by (simp only: list.pred_inject list.map ids conj_assoc)
    qed
  qed
qed


lemma relationship_report_aux:
  assumes "validate_workflow_relationships required_ids required pr_exists files = Inr rep"
  shows "rr_successful rep \<longleftrightarrow>
      files \<noteq> [] \<and> list_all (state_file_holds required_ids) files
      \<and> list_all (relation_holds pr_exists) (declared_relationships files)
      \<and> list_all (invariant_holds required (declared_relationships files)) (declared_invariants files)
      \<and> distinct (map invariant_id_of (declared_invariants files))"
proof (cases "files = []")
  case True
  with assms show ?thesis by (auto simp: validate_workflow_relationships_def)
next
  case False
  then obtain iss where iss: "check_invariants required (declared_relationships files) {} (declared_invariants files) = Inr iss"
    and rep: "rr_successful rep \<longleftrightarrow> concat (map (fst \<circ> read_state_file required_ids) files) = []
      \<and> concat (map (relation_issues pr_exists) (declared_relationships files)) = [] \<and> iss = []"
    using assms
    by (auto simp: validate_workflow_relationships_def Let_def comp_def read_items [of required_ids]
        declared_relationships_def declared_invariants_def)
  show ?thesis
    using False by (simp add: rep invariant_issues_Nil [OF iss] file_issues_Nil relation_issues_Nil list_all_iff)
qed


text \<open>
  C40: a report is successful exactly when there is a state file and everything it asks for holds. Every
  file loads as a mapping with lists of mappings and declares every required invariant; every
  relationship has its six fields, no file pointer and, when the repository is known, an existing
  proposal as target; the identifiers of the invariants are pairwise different over all files, and
  each invariant agrees with its template and is met by as many relationships as its cardinality says.
\<close>

theorem relationship_report_iff:
  assumes "validate_workflow_relationships required_ids required pr_exists files = Inr rep"
  shows "rr_successful rep \<longleftrightarrow>
      files \<noteq> [] \<and> list_all (state_file_holds required_ids) files
      \<and> list_all (relation_holds pr_exists) (declared_relationships files)
      \<and> list_all (invariant_holds required (declared_relationships files)) (declared_invariants files)
      \<and> distinct (map invariant_id_of (declared_invariants files))"
  using assms by (rule relationship_report_aux)

definition sample_invariant :: pydict where
  "sample_invariant = [(''id'', PStr ''i1''), (''relationship'', PStr ''implements'')]"

definition sample_relationship :: pydict where
  "sample_relationship =
     [(''invariant_id'', PStr ''i1''), (''relationship'', PStr ''implements''), (''source_type'', PStr ''task''),
      (''source_id'', PStr ''t1''), (''target_type'', PStr ''proposed_pr''), (''target_id'', PStr ''p1'')]"

definition sample_state_file :: state_file where
  "sample_state_file = (''a.yaml'', Inr (PDict [(''invariants'', PList [PDict sample_invariant]),
     (''relationships'', PList [PDict sample_relationship])]))"

definition sample_report :: relationship_report where
  "sample_report = \<lparr>rr_successful = True, rr_checked = 1, rr_issues = []\<rparr>"

lemma sample_report_runs:
  "validate_workflow_relationships [''i1''] [sample_invariant] (Some (\<lambda>t. t = ''p1'')) [sample_state_file] = Inr sample_report"
  by code_simp

theorem relationship_report_iff_witness:
  "list_all (invariant_holds [sample_invariant] (declared_relationships [sample_state_file])) (declared_invariants [sample_state_file])"
  using relationship_report_iff [OF sample_report_runs] by (simp add: sample_report_def)

text \<open>
  An invariant required of the workflow has to be declared in every state file, and must not be declared
  in two of them: with two files or more no report is successful.
\<close>

lemma declared_id_placed:
  assumes "iid \<in> set (declared_ids invs)"
  shows "Some iid \<in> set (map invariant_id_of (placed_items path invs))"
proof -
  have "Some iid \<in> set (map invariant_id_of (List.map_filter (\<lambda>(i, v). case v of PDict d \<Rightarrow> Some (path, i, d) | _ \<Rightarrow> None)
      (List.enumerate n invs)))" for n
    using assms
    by (induction invs arbitrary: n)
       (auto simp: declared_ids_def List.map_filter_simps invariant_id_of_def required_field_def split: pyval.splits if_splits)
  then show ?thesis by (simp add: placed_items_def)
qed

lemma required_id_declared:
  assumes "state_file_holds required_ids f" and "iid \<in> set required_ids"
  shows "Some iid \<in> set (map invariant_id_of (fst (snd (read_state_file [] f))))"
proof -
  obtain path d invs where "f = (path, Inr (PDict d))" "listed d ''invariants'' = invs" "iid \<in> set (declared_ids invs)"
    using assms unfolding state_file_holds_def by (blast dest: listed_list)
  then show ?thesis using declared_id_placed by (simp add: read_state_file_def Let_def)
qed

lemma required_invariant_fails_two_files:
  assumes "validate_workflow_relationships required_ids required pr_exists (f # g # files) = Inr rep"
    and "required_ids \<noteq> []"
  shows "\<not> rr_successful rep"
proof
  assume "rr_successful rep"
  with relationship_report_aux [OF assms(1)] have holds: "state_file_holds required_ids f" "state_file_holds required_ids g"
    and distinct: "distinct (map invariant_id_of (declared_invariants (f # g # files)))" by simp_all
  obtain iid where "iid \<in> set required_ids" using assms(2) by (cases required_ids) auto
  then have "Some iid \<in> set (map invariant_id_of (fst (snd (read_state_file [] f))))
      \<inter> set (map invariant_id_of (fst (snd (read_state_file [] g))))"
    using holds by (intro IntI required_id_declared)
  with distinct show False by (auto simp: declared_invariants_def)
qed

end
